(* ===== verification/Prelude.thy ===== *)
theory Prelude
  imports Main "HOL-Library.Word"
begin

text \<open>
  What every component of the development shares: the machine types of the Go sources
  (bytes, fixed-width unsigned integers, byte strings), the big- and little-endian
  accessors of Go's \<open>encoding/binary\<close>, the interface of a self-delimiting codec as a
  locale, and generic lemmas on lists, maps and options.
\<close>

unbundle bit_operations_syntax

named_theorems wire \<open>round trips of the wire formats\<close>

section \<open>Machine types\<close>

text \<open>
  A Go \<open>[]byte\<close> is a list of 8-bit words. A Go \<open>string\<close> is a sequence of bytes too;
  it is modelled by the HOL type \<open>string\<close>, whose characters are exactly the 256 byte
  values, and the conversions \<open>[]byte(s)\<close> and \<open>string(b)\<close> are the two functions below.
  Sizes (\<open>len\<close>) are naturals; a conversion \<open>uint64(len(x))\<close> is \<open>of_nat\<close>, which wraps
  where the Go conversion would.
\<close>

type_synonym byte = "8 word"
type_synonym bytes = "8 word list"
type_synonym u16 = "16 word"
type_synonym u32 = "32 word"
type_synonym u64 = "64 word"

definition bytes_of_string :: "string \<Rightarrow> bytes" where
  "bytes_of_string s = map (\<lambda>c. word_of_nat (of_char c)) s"

definition string_of_bytes :: "bytes \<Rightarrow> string" where
  "string_of_bytes bs = map (\<lambda>b. char_of (unat b)) bs"

lemma string_of_bytes_of_string [simp]: "string_of_bytes (bytes_of_string s) = s"
proof -
  have "char_of (unat (word_of_nat (of_char c) :: 8 word)) = c" for c
  proof -
    have "(of_char c :: nat) < 256" by simp
    then have "unat (word_of_nat (of_char c) :: 8 word) = of_char c"
      by (simp add: unat_of_nat)
    then show ?thesis by simp
  qed
  then show ?thesis by (simp add: bytes_of_string_def string_of_bytes_def comp_def)
qed

lemma bytes_of_string_of_bytes [simp]: "bytes_of_string (string_of_bytes bs) = bs"
proof -
  have "word_of_nat (of_char (char_of (unat b))) = b" for b :: byte
  proof -
    have "unat b < 2 ^ LENGTH(8)" by (rule unsigned_less)
    then have "unat b < 256" by simp
    then show ?thesis by simp
  qed
  then show ?thesis by (simp add: bytes_of_string_def string_of_bytes_def comp_def)
qed

lemma bytes_of_string_append: "bytes_of_string (s @ t) = bytes_of_string s @ bytes_of_string t"
  by (simp add: bytes_of_string_def)

lemma length_bytes_of_string [simp]: "length (bytes_of_string s) = length s"
  by (simp add: bytes_of_string_def)

lemma bytes_of_string_inject [simp]: "bytes_of_string s = bytes_of_string t \<longleftrightarrow> s = t"
  by (metis string_of_bytes_of_string)

section \<open>Fixed-width integers on the wire\<close>

text \<open>
  \<open>binary.BigEndian.PutUint16/PutUint32\<close> store the low \<open>8 * n\<close> bits of a value, most
  significant byte first (\<open>put_be n\<close>), and \<open>Uint16/Uint32\<close> read them back (\<open>get_be\<close>);
  \<open>binary.LittleEndian.PutUint64/Uint64\<close> are \<open>put_le 8\<close> and \<open>get_le\<close>.
\<close>

primrec put_be :: "nat \<Rightarrow> 'a::len word \<Rightarrow> bytes" where
  "put_be 0 v = []"
| "put_be (Suc n) v = ucast (drop_bit (8 * n) v) # put_be n v"

primrec get_be_from :: "'a::len word \<Rightarrow> bytes \<Rightarrow> 'a word" where
  "get_be_from acc [] = acc"
| "get_be_from acc (b # bs) = get_be_from (push_bit 8 acc OR ucast b) bs"

definition get_be :: "bytes \<Rightarrow> 'a::len word" where
  "get_be bs = get_be_from 0 bs"

primrec put_le :: "nat \<Rightarrow> 'a::len word \<Rightarrow> bytes" where
  "put_le 0 v = []"
| "put_le (Suc n) v = ucast v # put_le n (drop_bit 8 v)"

primrec get_le :: "bytes \<Rightarrow> 'a::len word" where
  "get_le [] = 0"
| "get_le (b # bs) = ucast b OR push_bit 8 (get_le bs)"

lemma length_put_be [simp]: "length (put_be n v) = n"
  by (induction n) auto

lemma length_put_le [simp]: "length (put_le n v) = n"
  by (induction n arbitrary: v) auto

lemma get_be_from_put_be:
  "get_be_from acc (put_be n (v :: 'a::len word)) = push_bit (8 * n) acc OR take_bit (8 * n) v"
proof (induction n arbitrary: acc)
  case 0
  then show ?case by simp
next
  case (Suc n)
  have "get_be_from acc (put_be (Suc n) v) =
      push_bit (8 * n) (push_bit 8 acc OR ucast (ucast (drop_bit (8 * n) v) :: byte)) OR take_bit (8 * n) v"
    by (simp add: Suc.IH)
  also have "\<dots> = push_bit (8 * Suc n) acc OR take_bit (8 * Suc n) v"
  proof -
    have m: "8 * Suc n = 8 * n + 8" by simp
    show ?thesis unfolding m by (rule bit_word_eqI) (auto simp: bit_simps simp del: mult_Suc_right)
  qed
  finally show ?case .
qed

lemma get_be_put_be: "LENGTH('a) \<le> 8 * n \<Longrightarrow> get_be (put_be n (v :: 'a::len word)) = v"
  by (simp add: get_be_def get_be_from_put_be take_bit_word_eq_self)

lemma get_le_put_le_take: "get_le (put_le n (v :: 'a::len word)) = take_bit (8 * n) v"
proof (induction n arbitrary: v)
  case 0
  then show ?case by simp
next
  case (Suc n)
  have "get_le (put_le (Suc n) v) = ucast (ucast v :: byte) OR push_bit 8 (take_bit (8 * n) (drop_bit 8 v))"
    by (simp add: Suc.IH)
  also have "\<dots> = take_bit (8 * Suc n) v"
    by (rule bit_word_eqI) (auto simp: bit_simps)
  finally show ?case .
qed

lemma get_le_put_le: "LENGTH('a) \<le> 8 * n \<Longrightarrow> get_le (put_le n (v :: 'a::len word)) = v"
  by (simp add: get_le_put_le_take take_bit_word_eq_self)

text \<open>Reading and writing back: the bytes of a value that fits are determined by the value.\<close>

lemma get_be_from_split:
  "get_be_from (acc :: 'a::len word) bs = push_bit (8 * length bs) acc OR get_be_from 0 bs"
proof (induction bs arbitrary: acc)
  case Nil
  then show ?case by simp
next
  case (Cons b bs)
  have "get_be_from acc (b # bs) =
      push_bit (8 * length bs) (push_bit 8 acc OR ucast b) OR get_be_from 0 bs"
    by (simp add: Cons.IH [of "push_bit 8 acc OR ucast b"])
  also have "\<dots> = push_bit (8 * length (b # bs)) acc OR (push_bit (8 * length bs) (ucast b) OR get_be_from 0 bs)"
    by (simp add: push_bit_or or.assoc add.commute)
  also have "push_bit (8 * length bs) (ucast b) OR get_be_from 0 bs = (get_be_from 0 (b # bs) :: 'a word)"
    by (simp add: Cons.IH [of "ucast b"])
  finally show ?case .
qed

lemma bit_get_be_from_0: "bit (get_be_from 0 bs :: 'a::len word) k \<Longrightarrow> k < 8 * length bs"
proof (induction bs)
  case Nil
  then show ?case by simp
next
  case (Cons b bs)
  have "get_be_from 0 (b # bs) = (push_bit (8 * length bs) (ucast b) OR get_be_from 0 bs :: 'a word)"
    by (simp add: get_be_from_split [of "ucast b"])
  with Cons.prems have "bit (push_bit (8 * length bs) (ucast b :: 'a word)) k \<or> bit (get_be_from 0 bs :: 'a word) k"
    by (simp add: bit_or_iff)
  then show ?case
  proof
    assume "bit (push_bit (8 * length bs) (ucast b :: 'a word)) k"
    then have "bit b (k - 8 * length bs)" by (simp add: bit_simps)
    then have "k - 8 * length bs < 8" by (auto dest: bit_imp_le_length)
    then show ?thesis by simp
  next
    assume "bit (get_be_from 0 bs :: 'a word) k"
    from Cons.IH [OF this] show ?thesis by simp
  qed
qed

lemma put_be_get_be_from:
  "8 * length bs \<le> LENGTH('a) \<Longrightarrow> put_be (length bs) (get_be_from acc bs :: 'a::len word) = bs"
proof (induction bs arbitrary: acc)
  case Nil
  then show ?case by simp
next
  case (Cons b bs)
  let ?acc = "push_bit 8 acc OR ucast b :: 'a word"
  have "ucast (drop_bit (8 * length bs) (get_be_from ?acc bs)) = b"
  proof (rule bit_word_eqI)
    fix n
    assume n: "n < LENGTH(8)"
    have "\<not> bit (get_be_from 0 bs :: 'a word) (8 * length bs + n)"
      using bit_get_be_from_0 by fastforce
    then show "bit (ucast (drop_bit (8 * length bs) (get_be_from ?acc bs)) :: byte) n = bit b n"
      using n Cons.prems by (simp add: get_be_from_split [of ?acc] bit_simps)
  qed
  then show ?case using Cons.IH [of ?acc] Cons.prems by simp
qed

lemma put_be_get_be: "8 * length bs \<le> LENGTH('a) \<Longrightarrow> put_be (length bs) (get_be bs :: 'a::len word) = bs"
  by (simp add: get_be_def put_be_get_be_from)

lemma put_le_cong:
  "(\<And>k. k < 8 * n \<Longrightarrow> bit v k = bit w k) \<Longrightarrow> put_le n (v :: 'a::len word) = put_le n (w :: 'a word)"
proof (induction n arbitrary: v w)
  case (Suc n)
  have "(ucast v :: byte) = ucast w"
    using Suc.prems by (intro bit_word_eqI) (auto simp: bit_ucast_iff)
  moreover have "put_le n (drop_bit 8 v) = put_le n (drop_bit 8 w)"
    using Suc.prems by (intro Suc.IH) (simp add: bit_drop_bit_eq)
  ultimately show ?case by simp
qed simp

lemma put_le_get_le: "8 * length bs \<le> LENGTH('a) \<Longrightarrow> put_le (length bs) (get_le bs :: 'a::len word) = bs"
proof (induction bs)
  case (Cons b bs)
  let ?v = "ucast b OR push_bit 8 (get_le bs) :: 'a word"
  have L: "8 + 8 * length bs \<le> LENGTH('a)" using Cons.prems by simp
  have "(ucast ?v :: byte) = b"
    using L by (intro bit_word_eqI) (auto simp: bit_simps)
  moreover have "put_le (length bs) (drop_bit 8 ?v) = put_le (length bs) (get_le bs :: 'a word)"
    using L by (intro put_le_cong) (auto simp: bit_simps dest: bit_imp_le_length)
  ultimately show ?case using Cons.IH L by simp
qed simp

section \<open>State threading\<close>

text \<open>\<open>map_state f s xs\<close> runs \<open>f\<close> over \<open>xs\<close> from the left and collects the results.\<close>

fun map_state :: "('s \<Rightarrow> 'a \<Rightarrow> 's \<times> 'b) \<Rightarrow> 's \<Rightarrow> 'a list \<Rightarrow> 's \<times> 'b list" where
  "map_state f s [] = (s, [])" |
  "map_state f s (x # xs) =
     (case f s x of (s1, y) \<Rightarrow> case map_state f s1 xs of (s2, ys) \<Rightarrow> (s2, y # ys))"

lemma length_map_state [simp]: "length (snd (map_state f s xs)) = length xs"
  by (induction xs arbitrary: s) (auto split: prod.splits, metis snd_conv)

section \<open>Invariants of step relations\<close>

text \<open>
  A component with several concurrent parties is a set of initial states and a step relation;
  what every step keeps holds in every reachable state.
\<close>

locale inv_system =
  fixes init :: "'s \<Rightarrow> bool"
    and step :: "'s \<Rightarrow> 's \<Rightarrow> bool"
    and inv :: "'s \<Rightarrow> bool"
  assumes inv_init: "init s \<Longrightarrow> inv s"
    and inv_step: "\<lbrakk>inv s; step s s'\<rbrakk> \<Longrightarrow> inv s'"
begin

lemma inv_steps: "step\<^sup>*\<^sup>* s s' \<Longrightarrow> inv s \<Longrightarrow> inv s'"
  by (induction rule: rtranclp_induct) (auto intro: inv_step)

lemma reachable: "init s \<Longrightarrow> step\<^sup>*\<^sup>* s s' \<Longrightarrow> inv s'"
  using inv_steps inv_init by blast

end

lemma fold_rtranclp: "(\<And>x s. step s (f x s)) \<Longrightarrow> step\<^sup>*\<^sup>* s (fold f xs s)"
  by (induction xs arbitrary: s) (auto intro: converse_rtranclp_into_rtranclp)

section \<open>Self-delimiting codecs\<close>

text \<open>
  Several wire formats of the program are self-delimiting: a decoder reads one value off the
  front of a buffer and hands back the rest. \<open>dec_list\<close> decodes a given number of values in
  a row, which is how the decoding loops of the sources work.
\<close>

fun dec_list :: "(bytes \<Rightarrow> 'e + 'a \<times> bytes) \<Rightarrow> nat \<Rightarrow> bytes \<Rightarrow> 'e + 'a list \<times> bytes" where
  "dec_list dec 0 b = Inr ([], b)"
| "dec_list dec (Suc n) b =
     (case dec b of
        Inl e \<Rightarrow> Inl e
      | Inr (x, b') \<Rightarrow>
          (case dec_list dec n b' of
             Inl e \<Rightarrow> Inl e
           | Inr (xs, b'') \<Rightarrow> Inr (x # xs, b'')))"

locale codec =
  fixes enc :: "'a \<Rightarrow> bytes"
    and dec :: "bytes \<Rightarrow> 'e + 'a \<times> bytes"
    and ok :: "'a \<Rightarrow> bool"
  assumes dec_enc: "ok x \<Longrightarrow> dec (enc x @ rest) = Inr (x, rest)"
begin

lemma dec_enc_all: "ok x \<Longrightarrow> dec (enc x) = Inr (x, [])"
  using dec_enc [of x "[]"] by simp

text \<open>Two encodings followed by arbitrary bytes agree only if the values and the rests do.\<close>

lemma enc_prefix_free:
  assumes "ok x" and "ok y" and "enc x @ r = enc y @ s"
  shows "x = y \<and> r = s"
proof -
  have "Inr (x, r) = dec (enc x @ r)" by (rule dec_enc [OF assms(1), symmetric])
  also have "\<dots> = dec (enc y @ s)" by (simp only: assms(3))
  also have "\<dots> = Inr (y, s)" by (rule dec_enc [OF assms(2)])
  finally show ?thesis by simp
qed

lemma enc_inj: "ok x \<Longrightarrow> ok y \<Longrightarrow> enc x = enc y \<Longrightarrow> x = y"
  by (rule enc_prefix_free [of x y "[]" "[]", THEN conjunct1]) simp_all

lemma dec_list_enc:
  "list_all ok xs \<Longrightarrow> dec_list dec (length xs) (concat (map enc xs) @ rest) = Inr (xs, rest)"
  by (induction xs) (simp_all add: dec_enc)

text \<open>A sequence of encodings determines the sequence of values.\<close>

lemma enc_list_inj:
  assumes "list_all ok xs" and "list_all ok ys" and "length xs = length ys"
    and "concat (map enc xs) = concat (map enc ys)"
  shows "xs = ys"
proof -
  have "Inr (xs, []) = dec_list dec (length xs) (concat (map enc xs) @ [])"
    by (rule dec_list_enc [OF assms(1), symmetric])
  also have "\<dots> = dec_list dec (length ys) (concat (map enc ys) @ [])" by (simp only: assms(3,4))
  also have "\<dots> = Inr (ys, [])" by (rule dec_list_enc [OF assms(2)])
  finally show ?thesis by simp
qed

end

end
