(* ===== verification/Varint.thy ===== *)
theory Varint
  imports Prelude
begin

text \<open>
  Go's \<open>encoding/binary\<close> unsigned varints, which the sources use for every length and
  channel id: \<open>PutUvarint\<close>/\<open>AppendUvarint\<close> (\<open>put_uvarint\<close>) and \<open>Uvarint\<close> (\<open>uvarint\<close>,
  whose second result is the number of bytes read, 0 on a short buffer and negative on
  overflow). The lemmas give the round trip, the 10-byte bound and the codec interface.
\<close>

function put_uvarint :: "u64 \<Rightarrow> bytes" where
  "put_uvarint x = (if 0x80 \<le> x then (ucast x OR 0x80) # put_uvarint (drop_bit 7 x) else [ucast x])"
  by pat_completeness auto
termination
proof (relation "measure unat")
  fix x :: u64
  assume "0x80 \<le> x"
  then have "128 \<le> unat x" by (simp add: word_le_nat_alt)
  then show "(drop_bit 7 x, x) \<in> measure unat" by (simp add: unat_drop_bit_eq drop_bit_eq_div [of 7 "unat x"])
qed simp

declare put_uvarint.simps [simp del]

fun uvarint_loop :: "nat \<Rightarrow> u64 \<Rightarrow> bytes \<Rightarrow> u64 \<times> int" where
  "uvarint_loop i x [] = (0, 0)"
| "uvarint_loop i x (b # bs) =
     (if i = 10 then (0, - int (i + 1))
      else if b < 0x80 then
        (if i = 9 \<and> 1 < b then (0, - int (i + 1)) else (x OR push_bit (7 * i) (ucast b), int (i + 1)))
      else uvarint_loop (i + 1) (x OR push_bit (7 * i) (ucast (b AND 0x7f))) bs)"


definition uvarint :: "bytes \<Rightarrow> u64 \<times> int" where
  "uvarint buf = uvarint_loop 0 0 buf"

lemma uvarint_low_bits: "ucast ((ucast v OR 0x80) AND 0x7f :: byte) OR push_bit 7 (drop_bit 7 v) = (v :: u64)"
proof -
  have m: "(0x7f :: byte) = mask 7" by (simp add: mask_eq_exp_minus_1)
  have "((ucast v OR 0x80) AND 0x7f :: byte) = take_bit 7 (ucast v)"
    unfolding m by (simp only: take_bit_eq_mask [symmetric] take_bit_or) simp
  then have "ucast ((ucast v OR 0x80) AND 0x7f :: byte) = (ucast (take_bit 7 (ucast v) :: byte) :: u64)" by simp
  moreover have "(ucast (take_bit 7 (ucast v) :: byte) :: u64) OR push_bit 7 (drop_bit 7 v) = v"
  proof (rule bit_word_eqI)
    fix n
    assume "n < LENGTH(64)"
    then show "bit ((ucast (take_bit 7 (ucast v) :: byte) :: u64) OR push_bit 7 (drop_bit 7 v)) n = bit v n"
      by (cases "n < 7") (auto simp: bit_simps)
  qed
  ultimately show ?thesis by simp
qed

lemma uvarint_loop_put_uvarint:
  assumes "i \<le> 9" and "unat v < 2 ^ (64 - 7 * i)"
  shows "uvarint_loop i x (put_uvarint v @ rest) = (x OR push_bit (7 * i) v, int (i + length (put_uvarint v)))"
  using assms
proof (induction v arbitrary: i x rule: put_uvarint.induct)
  case (1 v)
  show ?case
  proof (cases "0x80 \<le> v")
    case True
    let ?b = "ucast v OR 0x80 :: byte"
    have v128: "128 \<le> unat v" using True by (simp add: word_le_nat_alt)
    have i8: "i \<le> 8"
    proof (rule ccontr)
      assume "\<not> i \<le> 8"
      with "1.prems" have "unat v < 2" by (cases "i = 9") auto
      with v128 show False by simp
    qed
    have "unat (drop_bit 7 v) = unat v div 2 ^ 7"
      by (simp add: unat_drop_bit_eq drop_bit_eq_div [of 7 "unat v"])
    moreover have "(2::nat) ^ (64 - 7 * i) = 2 ^ 7 * 2 ^ (64 - 7 * (i + 1))"
    proof -
      have "64 - 7 * i = 7 + (64 - 7 * (i + 1))" using i8 by simp
      then show ?thesis by (simp only: power_add)
    qed
    ultimately have lt: "unat (drop_bit 7 v) < 2 ^ (64 - 7 * (i + 1))"
      using "1.prems"(2) by (simp add: less_mult_imp_div_less mult.commute)
    have nb: "\<not> ?b < 0x80" by (simp add: not_less le_word_or1)
    have "uvarint_loop i x (put_uvarint v @ rest) =
        uvarint_loop (i + 1) (x OR push_bit (7 * i) (ucast (?b AND 0x7f))) (put_uvarint (drop_bit 7 v) @ rest)"
      using True nb i8 by (simp add: put_uvarint.simps [of v])
    also have "\<dots> = ((x OR push_bit (7 * i) (ucast (?b AND 0x7f))) OR push_bit (7 * (i + 1)) (drop_bit 7 v),
        int (i + 1 + length (put_uvarint (drop_bit 7 v))))"
      using "1.IH" [OF True, of "i + 1"] i8 lt by simp
    also have "(x OR push_bit (7 * i) (ucast (?b AND 0x7f))) OR push_bit (7 * (i + 1)) (drop_bit 7 v) =
        x OR push_bit (7 * i) (ucast (?b AND 0x7f) OR push_bit 7 (drop_bit 7 v))"
      by (simp only: push_bit_or push_bit_push_bit or.assoc distrib_left mult_1_right)
    finally show ?thesis
      using True by (simp only: uvarint_low_bits) (simp add: put_uvarint.simps [of v])
  next
    case False
    then have v: "unat v < 128" by (simp add: word_le_nat_alt)
    then have u: "unat (ucast v :: byte) = unat v" by (simp add: unsigned_ucast_eq take_bit_nat_eq_self)
    have "(ucast v :: byte) < 0x80" using u v by (simp add: word_less_nat_alt)
    moreover have "\<not> (i = 9 \<and> 1 < (ucast v :: byte))"
      using u "1.prems"(2) by (auto simp: word_less_nat_alt)
    moreover have "ucast (ucast v :: byte) = v"
    proof -
      have "unat (take_bit 8 v) = unat v"
        using v by (simp only: unsigned_take_bit_eq) (simp add: take_bit_nat_eq_self)
      then have "take_bit 8 v = v" by (simp only: word_unat_eq_iff)
      then show ?thesis by (simp add: unsigned_ucast_eq)
    qed
    moreover have "put_uvarint v = [ucast v]" using False by (subst put_uvarint.simps) simp
    moreover have "i \<noteq> 10" using "1.prems"(1) by simp
    ultimately show ?thesis by simp
  qed
qed

theorem uvarint_put_uvarint [wire]:
  "uvarint (put_uvarint v @ rest) = (v, int (length (put_uvarint v)))"
proof -
  have "unat v < 2 ^ LENGTH(64)" by (rule unsigned_less)
  then have "uvarint_loop 0 0 (put_uvarint v @ rest) =
      (0 OR push_bit (7 * 0) v, int (0 + length (put_uvarint v)))"
    by (intro uvarint_loop_put_uvarint) simp_all
  then show ?thesis by (simp only: uvarint_def mult_0_right push_bit_0_id or.left_neutral id_apply add_0)
qed

lemma put_uvarint_nonempty [simp]: "put_uvarint v \<noteq> []"
  by (subst put_uvarint.simps) simp

text \<open>An encoding of a value below \<open>2 ^ (7 * n)\<close> takes at most \<open>n\<close> bytes; any takes at most 10.\<close>

lemma length_put_uvarint_le: "unat v < 2 ^ (7 * n) \<Longrightarrow> 0 < n \<Longrightarrow> length (put_uvarint v) \<le> n"
proof (induction v arbitrary: n rule: put_uvarint.induct)
  case (1 v)
  show ?case
  proof (cases "0x80 \<le> v")
    case True
    then have v128: "128 \<le> unat v" by (simp add: word_le_nat_alt)
    have n2: "2 \<le> n"
    proof (rule ccontr)
      assume "\<not> 2 \<le> n"
      with "1.prems"(2) have "n = 1" by simp
      with "1.prems"(1) v128 show False by simp
    qed
    then obtain m where m: "n = Suc m" "0 < m" by (cases n) auto
    have "unat (drop_bit 7 v) = unat v div 2 ^ 7"
      by (simp add: unat_drop_bit_eq drop_bit_eq_div [of 7 "unat v"])
    moreover have "(2::nat) ^ (7 * n) = 2 ^ (7 * m) * 2 ^ 7" using m by (simp add: power_add)
    ultimately have "unat (drop_bit 7 v) < 2 ^ (7 * m)"
      using "1.prems"(1) by (simp add: less_mult_imp_div_less)
    from "1.IH" [OF True this m(2)] True m show ?thesis by (simp add: put_uvarint.simps [of v])
  next
    case False
    with "1.prems"(2) show ?thesis by (simp add: put_uvarint.simps [of v])
  qed
qed

lemma length_put_uvarint_10: "length (put_uvarint v) \<le> 10"
proof (rule length_put_uvarint_le)
  have "unat v < 2 ^ LENGTH(64)" by (rule unsigned_less)
  then show "unat v < 2 ^ (7 * 10)" by simp
qed simp

text \<open>What the decoder reports as read never exceeds the buffer.\<close>

lemma uvarint_loop_bound: "uvarint_loop i x buf = (v, n) \<Longrightarrow> n \<le> int (i + length buf)"
proof (induction i x buf rule: uvarint_loop.induct)
  case (2 i x b bs)
  show ?case
  proof (cases "i = 10 \<or> b < 0x80")
    case True
    with "2.prems" show ?thesis by (auto split: if_splits)
  next
    case False
    with "2.prems" have "n \<le> int (i + 1 + length bs)" by (intro "2.IH") auto
    then show ?thesis by simp
  qed
qed simp

lemma uvarint_bound: "uvarint buf = (v, n) \<Longrightarrow> nat n \<le> length buf"
  using uvarint_loop_bound [of 0 0 buf v n] by (simp add: uvarint_def)

text \<open>The read-and-advance idiom of the callers, as a codec.\<close>

definition dec_uvarint :: "bytes \<Rightarrow> unit + u64 \<times> bytes" where
  "dec_uvarint b = (let (v, n) = uvarint b in if n \<le> 0 then Inl () else Inr (v, drop (nat n) b))"

interpretation uvi: codec put_uvarint dec_uvarint "\<lambda>_. True"
proof
  fix v rest
  have "0 < length (put_uvarint v)" by simp
  then show "dec_uvarint (put_uvarint v @ rest) = Inr (v, rest)"
    by (simp only: dec_uvarint_def wire) simp
qed

end
