(* ===== verification/Wire.thy ===== *)
theory Wire
  imports Varint
begin

text \<open>
  The wire formats of \<open>wire_gen.go\<close>: the stream header that binds a QUIC stream to a name,
  the plaintext layout of a datagram, and the greeting a peer sends to the relay. Each
  encoder and decoder is one definition with the source's branches; the lemmas give the
  round trips, the exact set of greetings that survive one, and what the decoders reject.
\<close>

datatype wire_error =
    BadVarint string
  | Truncated string
  | MissingColon string
  | UnrecognisedPrefix

section \<open>Stream header and datagram plaintext\<close>

definition EncodeStreamHeader :: "string \<Rightarrow> bytes" where
  "EncodeStreamHeader name = put_uvarint (of_nat (length name)) @ bytes_of_string name"

definition DecodeStreamHeader :: "bytes \<Rightarrow> wire_error + string" where
  "DecodeStreamHeader buf =
     (let (ln, n) = uvarint buf in
      if n \<le> 0 then Inl (BadVarint ''name'')
      else
        let off = nat n in
        if (of_nat (length buf - off) :: u64) < ln then Inl (Truncated ''name'')
        else Inr (string_of_bytes (take (unat ln) (drop off buf))))"

definition EncodeDatagramPlaintext :: "u64 \<Rightarrow> bytes \<Rightarrow> bytes" where
  "EncodeDatagramPlaintext channelId payload = put_uvarint channelId @ payload"

definition DecodeDatagramPlaintext :: "bytes \<Rightarrow> wire_error + u64 \<times> bytes" where
  "DecodeDatagramPlaintext buf =
     (let (v, n) = uvarint buf in
      if n \<le> 0 then Inl (BadVarint ''channel_id'')
      else Inr (v, drop (nat n) buf))"

section \<open>Relay greeting\<close>

datatype RelayGreetingVariant = RelayGreetingConnect | RelayGreetingRegister | RelayGreetingListen

record RelayGreetingDecoded =
  Variant :: RelayGreetingVariant
  InstanceId :: string
  Token :: string

definition EncodeRelayGreetingConnect :: "string \<Rightarrow> bytes" where
  "EncodeRelayGreetingConnect instanceId = bytes_of_string (''connect:'' @ instanceId)"

text \<open>
  The two-field suffix of the register and listen greetings: nothing when both fields are
  empty, otherwise each field behind a colon.
\<close>

definition greeting_suffix :: "string \<Rightarrow> string \<Rightarrow> string" where
  "greeting_suffix token instanceId =
     (let suffix = [token, instanceId] in
      if \<exists>p \<in> set suffix. p \<noteq> [] then concat (map (\<lambda>p. CHR '':'' # p) suffix) else [])"

definition EncodeRelayGreetingRegister :: "string \<Rightarrow> string \<Rightarrow> bytes" where
  "EncodeRelayGreetingRegister token instanceId =
     bytes_of_string (''register'' @ greeting_suffix token instanceId)"

definition EncodeRelayGreetingListen :: "string \<Rightarrow> string \<Rightarrow> bytes" where
  "EncodeRelayGreetingListen token instanceId =
     bytes_of_string (''listen'' @ greeting_suffix token instanceId)"

text \<open>\<open>strings.HasPrefix\<close> and the slice after the prefix; \<open>strings.SplitN(s, ":", 2)\<close>.\<close>

definition strip_prefix :: "string \<Rightarrow> string \<Rightarrow> string option" where
  "strip_prefix p s = (if take (length p) s = p then Some (drop (length p) s) else None)"

definition split_colon2 :: "string \<Rightarrow> string list" where
  "split_colon2 s =
     (case dropWhile (\<lambda>c. c \<noteq> CHR '':'') s of
        [] \<Rightarrow> [s]
      | _ # r \<Rightarrow> [takeWhile (\<lambda>c. c \<noteq> CHR '':'') s, r])"

definition decode_greeting_rest ::
    "RelayGreetingVariant \<Rightarrow> string \<Rightarrow> string \<Rightarrow> wire_error + RelayGreetingDecoded" where
  "decode_greeting_rest v what rest =
     (let out = \<lparr>Variant = v, InstanceId = [], Token = []\<rparr> in
      case rest of
        [] \<Rightarrow> Inr out
      | c # rest' \<Rightarrow>
          if c \<noteq> CHR '':'' then Inl (MissingColon what)
          else
            (case split_colon2 rest' of
               [] \<Rightarrow> Inr out
             | [t] \<Rightarrow> Inr (out\<lparr>Token := t\<rparr>)
             | t # i # _ \<Rightarrow> Inr (out\<lparr>Token := t, InstanceId := i\<rparr>)))"

definition DecodeRelayGreeting :: "bytes \<Rightarrow> wire_error + RelayGreetingDecoded" where
  "DecodeRelayGreeting buf =
     (let s = string_of_bytes buf in
      case strip_prefix ''connect:'' s of
        Some rest \<Rightarrow> Inr \<lparr>Variant = RelayGreetingConnect, InstanceId = rest, Token = []\<rparr>
      | None \<Rightarrow>
          (case strip_prefix ''register'' s of
             Some rest \<Rightarrow> decode_greeting_rest RelayGreetingRegister ''register'' rest
           | None \<Rightarrow>
               (case strip_prefix ''listen'' s of
                  Some rest \<Rightarrow> decode_greeting_rest RelayGreetingListen ''listen'' rest
                | None \<Rightarrow> Inl UnrecognisedPrefix)))"

section \<open>Round trips\<close>

lemma length_string_of_bytes [simp]: "length (string_of_bytes b) = length b"
  by (simp add: string_of_bytes_def)

text \<open>The decoder of a length-prefixed field accepts exactly the declared number of bytes.\<close>

lemma unat_of_nat_u64: "n < 2 ^ 64 \<Longrightarrow> unat (of_nat n :: u64) = n"
  by (simp add: unat_of_nat take_bit_nat_eq_self)

lemma DecodeStreamHeader_Encode [wire]:
  assumes "length name < 2 ^ 64 - 10" and "length rest < 2 ^ 64 - length name"
  shows "DecodeStreamHeader (EncodeStreamHeader name @ rest) = Inr name"
proof -
  let ?ln = "of_nat (length name) :: u64"
  let ?buf = "put_uvarint ?ln @ bytes_of_string name @ rest"
  have u: "uvarint ?buf = (?ln, int (length (put_uvarint ?ln)))" by (rule wire)
  have ln: "unat ?ln = length name" using assms(1) by (simp add: unat_of_nat_u64)
  have "unat (of_nat (length name + length rest) :: u64) = length name + length rest"
    using assms by (intro unat_of_nat_u64) simp
  then have "\<not> (of_nat (length name + length rest) :: u64) < ?ln"
    using ln by (simp add: word_less_nat_alt)
  then show ?thesis
    by (simp add: DecodeStreamHeader_def EncodeStreamHeader_def u ln del: of_nat_add)
qed

text \<open>
  A stream header survives the wire for every name, whatever bytes follow it in the buffer, as
  long as the sizes fit Go's \<open>int\<close>.
\<close>

theorem stream_header_roundtrip:
  assumes "length name < 2 ^ 63" and "length rest < 2 ^ 63"
  shows "DecodeStreamHeader (EncodeStreamHeader name @ rest) = Inr name"
  using assms by (intro DecodeStreamHeader_Encode) simp_all

theorem stream_header_roundtrip_witness:
  "DecodeStreamHeader (EncodeStreamHeader ''chat'' @ [1, 2]) = Inr ''chat''"
  by (rule stream_header_roundtrip) simp_all

lemma DecodeDatagramPlaintext_Encode [wire]:
  "DecodeDatagramPlaintext (EncodeDatagramPlaintext cid payload) = Inr (cid, payload)"
proof -
  have "uvarint (put_uvarint cid @ payload) = (cid, int (length (put_uvarint cid)))" by (rule wire)
  then show ?thesis by (simp add: DecodeDatagramPlaintext_def EncodeDatagramPlaintext_def)
qed

lemma length_EncodeDatagramPlaintext: "length (EncodeDatagramPlaintext cid payload) \<le> 10 + length payload"
  using length_put_uvarint_10 [of cid] by (simp add: EncodeDatagramPlaintext_def)

text \<open>
  A datagram plaintext survives the wire: every channel id and every payload, empty ones
  included, come back unchanged, and the encoding adds at most 10 bytes.
\<close>

theorem datagram_plaintext_roundtrip:
  "DecodeDatagramPlaintext (EncodeDatagramPlaintext cid payload) = Inr (cid, payload) \<and>
   length (EncodeDatagramPlaintext cid payload) \<le> 10 + length payload"
  by (intro conjI DecodeDatagramPlaintext_Encode length_EncodeDatagramPlaintext)

section \<open>Greetings\<close>

lemma greeting_suffix_eq:
  "greeting_suffix t i = (if t = [] \<and> i = [] then [] else CHR '':'' # t @ CHR '':'' # i)"
  by (simp add: greeting_suffix_def)

lemma takeWhile_colon_eq: "takeWhile (\<lambda>c. c \<noteq> CHR '':'') t = t \<longleftrightarrow> CHR '':'' \<notin> set t"
  by (auto simp: takeWhile_eq_all_conv)

lemma split_colon2_append:
  "split_colon2 (t @ CHR '':'' # i) =
     [takeWhile (\<lambda>c. c \<noteq> CHR '':'') t,
      (if CHR '':'' \<in> set t then tl (dropWhile (\<lambda>c. c \<noteq> CHR '':'') t) @ CHR '':'' # i else i)]"
proof (cases "CHR '':'' \<in> set t")
  case True
  then have dw: "dropWhile (\<lambda>c. c \<noteq> CHR '':'') t \<noteq> []" by (auto simp: dropWhile_eq_Nil_conv)
  then obtain c r where cr: "dropWhile (\<lambda>c. c \<noteq> CHR '':'') t = c # r" by (cases "dropWhile (\<lambda>c. c \<noteq> CHR '':'') t") auto
  from True cr show ?thesis by (auto simp: split_colon2_def)
next
  case False
  then have a: "\<And>x. x \<in> set t \<Longrightarrow> x \<noteq> CHR '':''" by blast
  then have "takeWhile (\<lambda>c. c \<noteq> CHR '':'') (t @ CHR '':'' # i) = t"
    by (subst takeWhile_append2) auto
  moreover have "dropWhile (\<lambda>c. c \<noteq> CHR '':'') (t @ CHR '':'' # i) = CHR '':'' # i"
    using a by (subst dropWhile_append2) auto
  moreover have "takeWhile (\<lambda>c. c \<noteq> CHR '':'') t = t" using False unfolding takeWhile_colon_eq .
  ultimately show ?thesis using False by (simp only: split_colon2_def list.case if_False)
qed

lemma decode_greeting_rest_suffix:
  "decode_greeting_rest v w (greeting_suffix t i) =
     Inr \<lparr>Variant = v,
          InstanceId = (if CHR '':'' \<in> set t
                        then tl (dropWhile (\<lambda>c. c \<noteq> CHR '':'') t) @ CHR '':'' # i else i),
          Token = takeWhile (\<lambda>c. c \<noteq> CHR '':'') t\<rparr>"
  by (simp add: decode_greeting_rest_def greeting_suffix_eq split_colon2_append)

lemma strip_prefix_append [simp]: "strip_prefix p (p @ r) = Some r"
  by (simp add: strip_prefix_def)

lemma decode_register:
  "DecodeRelayGreeting (EncodeRelayGreetingRegister t i) =
     decode_greeting_rest RelayGreetingRegister ''register'' (greeting_suffix t i)"
proof -
  have "strip_prefix ''connect:'' (''register'' @ r) = None" for r
    by (simp add: strip_prefix_def)
  then show ?thesis
    by (simp only: DecodeRelayGreeting_def EncodeRelayGreetingRegister_def
        string_of_bytes_of_string Let_def strip_prefix_append option.case)
qed

lemma decode_listen:
  "DecodeRelayGreeting (EncodeRelayGreetingListen t i) =
     decode_greeting_rest RelayGreetingListen ''listen'' (greeting_suffix t i)"
proof -
  have "strip_prefix ''connect:'' (''listen'' @ r) = None" for r
    by (simp add: strip_prefix_def)
  moreover have "strip_prefix ''register'' (''listen'' @ r) = None" for r
    by (simp add: strip_prefix_def)
  ultimately show ?thesis
    by (simp only: DecodeRelayGreeting_def EncodeRelayGreetingListen_def
        string_of_bytes_of_string Let_def strip_prefix_append option.case)
qed

text \<open>
  (C38) A connect greeting always survives the wire, and a register or listen greeting survives it
  exactly when its token holds no colon: with a colon in the token the relay reads a shorter
  token and another instance id. An encoded greeting is never read as one of another role.
\<close>

theorem relay_greeting_roundtrip:
  "DecodeRelayGreeting (EncodeRelayGreetingConnect i) =
     Inr \<lparr>Variant = RelayGreetingConnect, InstanceId = i, Token = []\<rparr> \<and>
   (DecodeRelayGreeting (EncodeRelayGreetingRegister t i) =
      Inr \<lparr>Variant = RelayGreetingRegister, InstanceId = i, Token = t\<rparr> \<longleftrightarrow> CHR '':'' \<notin> set t) \<and>
   (DecodeRelayGreeting (EncodeRelayGreetingListen t i) =
      Inr \<lparr>Variant = RelayGreetingListen, InstanceId = i, Token = t\<rparr> \<longleftrightarrow> CHR '':'' \<notin> set t) \<and>
   (\<exists>d. DecodeRelayGreeting (EncodeRelayGreetingRegister t i) = Inr d \<and> Variant d = RelayGreetingRegister) \<and>
   (\<exists>d. DecodeRelayGreeting (EncodeRelayGreetingListen t i) = Inr d \<and> Variant d = RelayGreetingListen)"
proof (intro conjI)
  show "DecodeRelayGreeting (EncodeRelayGreetingConnect i) =
      Inr \<lparr>Variant = RelayGreetingConnect, InstanceId = i, Token = []\<rparr>"
    by (simp only: DecodeRelayGreeting_def EncodeRelayGreetingConnect_def
        string_of_bytes_of_string Let_def strip_prefix_append option.case)
qed (auto simp: decode_register decode_listen decode_greeting_rest_suffix takeWhile_colon_eq)

end
