(* ===== verification/Framing.thy ===== *)
theory Framing
  imports Wire
begin

text \<open>
  Message framing on reliable streams: \<open>writeMessage\<close> and \<open>readMessage\<close> of \<open>webtransport.go\<close>
  (a 4-byte big-endian length and the payload, at most \<open>MaxMessageSize\<close> bytes), and the
  pairing package's \<open>SendOnStream\<close>/\<open>RecvOnStream\<close> of \<open>pairing/cgo_pair.go\<close>, which use the same
  layout without the size check. An \<open>io.Writer\<close> is a state and a write function that may fail;
  an \<open>io.Reader\<close> is the bytes still to come before EOF. The framing interprets the codec
  interface, so a run of messages read back is the run written.
\<close>

definition MaxMessageSize :: nat where
  "MaxMessageSize = 1048576"

datatype 'e write_error = WriteTooLarge nat | WriteErr 'e

datatype read_error = EOF | UnexpectedEOF | ReadTooLarge nat

definition writeMessage ::
    "('w \<Rightarrow> bytes \<Rightarrow> 'w \<times> 'e option) \<Rightarrow> 'w \<Rightarrow> bytes \<Rightarrow> 'w \<times> 'e write_error option" where
  "writeMessage write w data =
     (if MaxMessageSize < length data then (w, Some (WriteTooLarge (length data)))
      else
        (case write w (put_be 4 (of_nat (length data) :: u32)) of
           (w1, Some e) \<Rightarrow> (w1, Some (WriteErr e))
         | (w1, None) \<Rightarrow>
             (case write w1 data of (w2, e) \<Rightarrow> (w2, map_option WriteErr e))))"

text \<open>\<open>io.ReadFull\<close>: EOF only if no byte was read, UnexpectedEOF on a short read.\<close>

definition readFull :: "nat \<Rightarrow> bytes \<Rightarrow> read_error + bytes \<times> bytes" where
  "readFull n s =
     (if n = 0 then Inr ([], s)
      else if s = [] then Inl EOF
      else if length s < n then Inl UnexpectedEOF
      else Inr (take n s, drop n s))"

definition readMessage :: "bytes \<Rightarrow> read_error + bytes \<times> bytes" where
  "readMessage s =
     (case readFull 4 s of
        Inl e \<Rightarrow> Inl e
      | Inr (hdr, s1) \<Rightarrow>
          (let len = (get_be hdr :: u32) in
           if MaxMessageSize < unat len then Inl (ReadTooLarge (unat len))
           else readFull (unat len) s1))"

definition SendOnStream ::
    "('w \<Rightarrow> bytes \<Rightarrow> 'w \<times> 'e option) \<Rightarrow> 'w \<Rightarrow> bytes \<Rightarrow> 'w \<times> 'e option" where
  "SendOnStream write w msg =
     (case write w (put_be 4 (of_nat (length msg) :: u32)) of
        (w1, Some e) \<Rightarrow> (w1, Some e)
      | (w1, None) \<Rightarrow> write w1 msg)"

definition RecvOnStream :: "bytes \<Rightarrow> read_error + bytes \<times> bytes" where
  "RecvOnStream s =
     (case readFull 4 s of
        Inl e \<Rightarrow> Inl e
      | Inr (hdr, s1) \<Rightarrow> readFull (unat (get_be hdr :: u32)) s1)"

section \<open>The framing as a codec\<close>

text \<open>The bytes a message occupies, and a writer that appends to a buffer and never fails.\<close>

definition enc_message :: "bytes \<Rightarrow> bytes" where
  "enc_message data = put_be 4 (of_nat (length data) :: u32) @ data"

definition buf_write :: "bytes \<Rightarrow> bytes \<Rightarrow> bytes \<times> unit option" where
  "buf_write w b = (w @ b, None)"

lemma readFull_append: "readFull (length b) (b @ s) = Inr (b, s)"
  by (simp add: readFull_def)

lemma readFull_Inr: "readFull n s = Inr (b, r) \<Longrightarrow> s = b @ r \<and> length b = n"
  by (auto simp: readFull_def split: if_splits)

lemma unat_of_nat_u32: "n < 2 ^ 32 \<Longrightarrow> unat (of_nat n :: u32) = n"
  by (simp add: unat_of_nat take_bit_nat_eq_self)

lemma frame_header:
  assumes "length data < 2 ^ 32"
  shows "unat (get_be (put_be 4 (of_nat (length data) :: u32)) :: u32) = length data"
  using assms by (simp add: get_be_put_be unat_of_nat_u32)

lemma read_frame_header:
  "readFull 4 (put_be 4 (v :: u32) @ s) = Inr (put_be 4 v, s)"
  using readFull_append [of "put_be 4 v" s] by simp

interpretation msg: codec enc_message readMessage "\<lambda>m. length m \<le> MaxMessageSize"
proof
  fix m :: bytes and rest
  assume m: "length m \<le> MaxMessageSize"
  then have l: "unat (get_be (put_be 4 (of_nat (length m) :: u32)) :: u32) = length m"
    by (intro frame_header) (simp add: MaxMessageSize_def)
  show "readMessage (enc_message m @ rest) = Inr (m, rest)"
    using m by (simp add: readMessage_def enc_message_def read_frame_header l readFull_append Let_def)
qed

interpretation pmsg: codec enc_message RecvOnStream "\<lambda>m. length m < 2 ^ 32"
proof
  fix m :: bytes and rest
  assume "length m < 2 ^ 32"
  then have l: "unat (get_be (put_be 4 (of_nat (length m) :: u32)) :: u32) = length m"
    by (rule frame_header)
  show "RecvOnStream (enc_message m @ rest) = Inr (m, rest)"
    by (simp add: RecvOnStream_def enc_message_def read_frame_header l readFull_append)
qed

lemma writeMessage_buf:
  "length m \<le> MaxMessageSize \<Longrightarrow> writeMessage buf_write w m = (w @ enc_message m, None)"
  by (simp add: writeMessage_def buf_write_def enc_message_def)

fun write_all :: "bytes \<Rightarrow> bytes list \<Rightarrow> bytes" where
  "write_all w [] = w"
| "write_all w (m # ms) = write_all (fst (writeMessage buf_write w m)) ms"

lemma write_all_enc:
  "list_all (\<lambda>m. length m \<le> MaxMessageSize) ms \<Longrightarrow> write_all w ms = w @ concat (map enc_message ms)"
  by (induction ms arbitrary: w) (simp_all add: writeMessage_buf)

section \<open>Properties\<close>

text \<open>
  Framing is lossless: the messages written one after the other with \<open>writeMessage\<close> are read
  back in order by \<open>readMessage\<close>, each unchanged, and nothing of what follows is consumed.
\<close>

theorem framing_roundtrip:
  assumes "list_all (\<lambda>m. length m \<le> MaxMessageSize) ms"
  shows "dec_list readMessage (length ms) (write_all [] ms @ rest) = Inr (ms, rest)"
  using assms by (simp add: write_all_enc msg.dec_list_enc)

theorem framing_roundtrip_witness:
  "dec_list readMessage 2 (write_all [] [[1, 2, 3], []] @ [9]) = Inr ([[1, 2, 3], []], [9])"
  using framing_roundtrip [of "[[1, 2, 3], []]" "[9]"] by (simp add: MaxMessageSize_def numeral_2_eq_2)

text \<open>
  The size limit holds on both sides: an oversized message is refused by \<open>writeMessage\<close> before
  anything is written, and whatever bytes arrive, a message that \<open>readMessage\<close> returns has at
  most \<open>MaxMessageSize\<close> bytes and the bytes consumed are exactly its frame.
\<close>

theorem framing_bounds:
  "(MaxMessageSize < length data \<longrightarrow>
      writeMessage write w data = (w, Some (WriteTooLarge (length data)))) \<and>
   (readMessage s = Inr (m, rest) \<longrightarrow>
      length m \<le> MaxMessageSize \<and> s = enc_message m @ rest)"
proof (intro conjI impI)
  assume "MaxMessageSize < length data"
  then show "writeMessage write w data = (w, Some (WriteTooLarge (length data)))"
    by (simp add: writeMessage_def)
next
  assume r: "readMessage s = Inr (m, rest)"
  then obtain hdr s1 where h: "readFull 4 s = Inr (hdr, s1)"
    and le: "unat (get_be hdr :: u32) \<le> MaxMessageSize"
    and b: "readFull (unat (get_be hdr :: u32)) s1 = Inr (m, rest)"
    by (auto simp: readMessage_def Let_def not_less split: sum.splits if_splits prod.splits)
  from readFull_Inr [OF h] have s: "s = hdr @ s1" and hl: "length hdr = 4" by auto
  from readFull_Inr [OF b] have s1: "s1 = m @ rest" and ml: "length m = unat (get_be hdr :: u32)"
    by auto
  have "put_be 4 (get_be hdr :: u32) = hdr"
    using put_be_get_be [of hdr, where 'a = 32] hl by simp
  moreover have "(of_nat (length m) :: u32) = get_be hdr" using ml by simp
  ultimately have "s = enc_message m @ rest" using s s1 by (simp add: enc_message_def)
  then show "s = enc_message m @ rest" .
  show "length m \<le> MaxMessageSize" using ml le by simp
qed

theorem framing_bounds_witness:
  "readMessage [0, 0, 0, 2, 7, 8, 5] = Inr ([7, 8], [5]) \<and>
   length [7 :: byte, 8] \<le> MaxMessageSize \<and> [0, 0, 0, 2, 7, 8, 5] = enc_message [7, 8] @ [5] \<and>
   writeMessage buf_write [] (replicate 1048577 0) = ([], Some (WriteTooLarge 1048577))"
proof -
  have r: "readMessage [0, 0, 0, 2, 7, 8, 5] = Inr ([7, 8], [5])"
    by (simp add: readMessage_def readFull_def get_be_def MaxMessageSize_def)
  have l: "MaxMessageSize < length (replicate 1048577 (0 :: byte))" by (simp add: MaxMessageSize_def)
  from conjunct1 [OF framing_bounds, THEN mp, OF l, of buf_write "[]"]
  have "writeMessage buf_write [] (replicate 1048577 0) = ([], Some (WriteTooLarge 1048577))" by simp
  with conjunct2 [OF framing_bounds, THEN mp, OF r] r show ?thesis by (intro conjI) auto
qed

end
