(* ===== verification/Aead.thy ===== *)
theory Aead
  imports Prelude
begin

text \<open>
  What the program relies on of its cryptographic primitives, and what an encrypted channel
  promises its users. The AEAD, the HKDF, X25519 and the hash are arguments of the definitions
  that use them; the predicates below state their documented behaviour. The locales state the
  contract of a sequence-numbered channel: \<open>secure_channel\<close> (what one end seals the other opens),
  \<open>lossy_channel\<close> (it survives losses) and \<open>replay_window\<close> (no packet is accepted twice). Both
  the Go channel and the C channel are instances.
\<close>

section \<open>Primitives\<close>

text \<open>Arguments are key, nonce, plaintext or ciphertext, and associated data.\<close>

type_synonym seal = "bytes \<Rightarrow> bytes \<Rightarrow> bytes \<Rightarrow> bytes \<Rightarrow> bytes"
type_synonym opener = "bytes \<Rightarrow> bytes \<Rightarrow> bytes \<Rightarrow> bytes \<Rightarrow> bytes option"

definition aead_correct :: "seal \<Rightarrow> opener \<Rightarrow> bool" where
  "aead_correct seal opn \<longleftrightarrow> (\<forall>k n p a. opn k n (seal k n p a) a = Some p)"

definition aead_authentic :: "seal \<Rightarrow> opener \<Rightarrow> bool" where
  "aead_authentic seal opn \<longleftrightarrow> (\<forall>k n c a p. opn k n c a = Some p \<longrightarrow> c = seal k n p a)"

definition aead_overhead :: "nat \<Rightarrow> seal \<Rightarrow> bool" where
  "aead_overhead t seal \<longleftrightarrow> (\<forall>k n p a. length (seal k n p a) = length p + t)"

lemma aead_correctD: "aead_correct seal opn \<Longrightarrow> opn k n (seal k n p a) a = Some p"
  by (simp add: aead_correct_def)

lemma aead_authenticD: "aead_authentic seal opn \<Longrightarrow> opn k n c a = Some p \<Longrightarrow> c = seal k n p a"
  by (simp add: aead_authentic_def)

lemma aead_overheadD: "aead_overhead t seal \<Longrightarrow> length (seal k n p a) = length p + t"
  by (simp add: aead_overhead_def)

text \<open>
  A concrete AEAD for the witnesses: the tag is the 16 bytes of the key's and the nonce's
  leading bytes, the body is in clear. It has the three laws; secrecy plays no part in them.
\<close>

definition demo_tag :: "bytes \<Rightarrow> bytes \<Rightarrow> bytes \<Rightarrow> bytes" where
  "demo_tag k n a = take 16 (take 4 k @ take 8 n @ a @ replicate 16 0)"

definition demo_seal :: seal where
  "demo_seal k n p a = p @ demo_tag k n a"

definition demo_open :: opener where
  "demo_open k n c a =
     (if length c < 16 then None
      else if drop (length c - 16) c = demo_tag k n a then Some (take (length c - 16) c) else None)"

lemma length_demo_tag [simp]: "length (demo_tag k n a) = 16"
  unfolding demo_tag_def length_take length_append length_replicate by linarith

lemma demo_aead:
  "aead_correct demo_seal demo_open" "aead_authentic demo_seal demo_open" "aead_overhead 16 demo_seal"
    apply (simp add: aead_correct_def demo_open_def demo_seal_def)
   apply (auto simp: aead_authentic_def demo_open_def demo_seal_def split: if_splits)
   apply (metis append_take_drop_id)
  apply (simp add: aead_overhead_def demo_seal_def)
  done

section \<open>Channel contracts\<close>

text \<open>Losses: the packets of \<open>xs\<close> that the mask \<open>keep\<close> lets through.\<close>

fun kept :: "bool list \<Rightarrow> 'a list \<Rightarrow> 'a list" where
  "kept (k # ks) (x # xs) = (if k then x # kept ks xs else kept ks xs)" |
  "kept _ _ = []"

locale secure_channel =
  fixes enc :: "'c \<Rightarrow> bytes \<Rightarrow> 'c \<times> ('e + bytes)"
    and dec :: "'c \<Rightarrow> bytes \<Rightarrow> 'c \<times> ('e + bytes)"
    and sync :: "nat \<Rightarrow> 'c \<Rightarrow> 'c \<Rightarrow> bool"
  assumes enc_ok: "sync (Suc n) c d \<Longrightarrow> \<exists>c' ct. enc c p = (c', Inr ct)"
    and dec_ok: "\<lbrakk>sync (Suc n) c d; enc c p = (c', Inr ct)\<rbrakk> \<Longrightarrow>
      \<exists>d'. dec d ct = (d', Inr p) \<and> sync n c' d'"
begin

lemma fifo:
  "\<lbrakk>sync n c d; length ps \<le> n\<rbrakk> \<Longrightarrow>
   \<exists>c' cts d'. map_state enc c ps = (c', map Inr cts) \<and>
     map_state dec d cts = (d', map Inr ps) \<and> sync (n - length ps) c' d'"
proof (induction ps arbitrary: n c d)
  case Nil
  then show ?case by simp
next
  case (Cons p ps)
  then obtain m where n: "n = Suc m" by (cases n) auto
  with Cons.prems obtain c1 ct d1 where
    1: "enc c p = (c1, Inr ct)" "dec d ct = (d1, Inr p)" "sync m c1 d1"
    using enc_ok dec_ok by meson
  from Cons.IH [OF 1(3)] Cons.prems(2) n obtain c' cts d' where
    "map_state enc c1 ps = (c', map Inr cts)" "map_state dec d1 cts = (d', map Inr ps)"
    "sync (m - length ps) c' d'" by auto
  with 1 n have "map_state enc c (p # ps) = (c', map Inr (ct # cts)) \<and>
    map_state dec d (ct # cts) = (d', map Inr (p # ps)) \<and> sync (n - length (p # ps)) c' d'" by simp
  then show ?case by blast
qed

end

locale lossy_channel = secure_channel +
  assumes loss: "\<lbrakk>sync (Suc n) c d; enc c p = (c', Inr ct)\<rbrakk> \<Longrightarrow> sync n c' d"
begin

lemma lossy_fifo:
  "\<lbrakk>sync n c d; length ps \<le> n; length keep = length ps\<rbrakk> \<Longrightarrow>
   \<exists>c' cts d'. map_state enc c ps = (c', map Inr cts) \<and>
     map_state dec d (kept keep cts) = (d', map Inr (kept keep ps))"
proof (induction ps arbitrary: n c d keep)
  case Nil
  then show ?case by simp
next
  case (Cons p ps)
  then obtain m k ks where n: "n = Suc m" "keep = k # ks" by (cases n; cases keep) auto
  with Cons.prems obtain c1 ct d1 where
    1: "enc c p = (c1, Inr ct)" "dec d ct = (d1, Inr p)" "sync m c1 d1"
    using enc_ok dec_ok by meson
  have 2: "sync m c1 d" using loss Cons.prems(1) n 1(1) by blast
  define d2 where "d2 = (if k then d1 else d)"
  have "sync m c1 d2" using 1 2 by (simp add: d2_def)
  from Cons.IH [OF this, of ks] Cons.prems n obtain c' cts d' where
    "map_state enc c1 ps = (c', map Inr cts)"
    "map_state dec d2 (kept ks cts) = (d', map Inr (kept ks ps))" by auto
  with 1 n have "map_state enc c (p # ps) = (c', map Inr (ct # cts)) \<and>
    map_state dec d (kept keep (ct # cts)) = (d', map Inr (kept keep (p # ps)))"
    by (auto simp: d2_def)
  then show ?case by blast
qed

end

text \<open>
  The receiving side: \<open>seq_of\<close> is the sequence number a packet claims, \<open>rs\<close> the least one still
  acceptable. \<open>ok\<close> bounds the packets the contract covers.
\<close>

fun accepted_seqs :: "('c \<Rightarrow> bytes \<Rightarrow> 'c \<times> ('e + bytes)) \<Rightarrow> (bytes \<Rightarrow> nat) \<Rightarrow> 'c \<Rightarrow> bytes list \<Rightarrow> nat list" where
  "accepted_seqs dec seq_of c [] = []" |
  "accepted_seqs dec seq_of c (x # xs) =
     (case dec c x of
        (c', Inr p) \<Rightarrow> seq_of x # accepted_seqs dec seq_of c' xs
      | (c', Inl e) \<Rightarrow> accepted_seqs dec seq_of c' xs)"

locale replay_window =
  fixes dec :: "'c \<Rightarrow> bytes \<Rightarrow> 'c \<times> ('e + bytes)"
    and seq_of :: "bytes \<Rightarrow> nat"
    and rs :: "'c \<Rightarrow> nat"
    and inv :: "'c \<Rightarrow> bool"
    and ok :: "bytes \<Rightarrow> bool"
  assumes reject: "\<lbrakk>inv c; ok x; dec c x = (c', Inl e)\<rbrakk> \<Longrightarrow> inv c' \<and> rs c \<le> rs c'"
    and accept: "\<lbrakk>inv c; ok x; dec c x = (c', Inr p)\<rbrakk> \<Longrightarrow> inv c' \<and> rs c \<le> seq_of x \<and> seq_of x < rs c'"
begin

lemma accepted_increasing:
  "\<lbrakk>inv c; list_all ok xs\<rbrakk> \<Longrightarrow>
   sorted_wrt (<) (accepted_seqs dec seq_of c xs) \<and> list_all (\<lambda>s. rs c \<le> s) (accepted_seqs dec seq_of c xs)"
proof (induction xs arbitrary: c)
  case Nil
  then show ?case by simp
next
  case (Cons x xs)
  obtain c' r where d: "dec c x = (c', r)" by fastforce
  show ?case
  proof (cases r)
    case (Inl e)
    with d reject Cons.prems have "inv c'" "rs c \<le> rs c'" by auto
    with Cons.IH [of c'] Cons.prems d Inl show ?thesis by (auto simp: list_all_iff)
  next
    case (Inr p)
    with d accept Cons.prems have "inv c'" "rs c \<le> seq_of x" "seq_of x < rs c'" by auto
    with Cons.IH [of c'] Cons.prems d Inr show ?thesis by (fastforce simp: list_all_iff)
  qed
qed

lemma no_replay: "\<lbrakk>inv c; list_all ok xs\<rbrakk> \<Longrightarrow> distinct (accepted_seqs dec seq_of c xs)"
  using accepted_increasing strict_sorted_iff by blast

end

end
