(* ===== verification/Crypto.thy ===== *)
theory Crypto
  imports Aead
begin

text \<open>
  The Go end-to-end encryption of \<open>crypto/crypto.go\<close>: the sequence-numbered AEAD channel, the key
  derivations, the confirmation code and the SAS commitment, and the pairing record's
  \<open>DeriveChannel\<close>. Every operation takes the primitives it calls as its first arguments:
  \<open>seal\<close> and \<open>opn\<close> for AES-GCM under a key, \<open>hkdf ikm info n\<close> for reading \<open>n\<close> bytes of
  HKDF-SHA256, \<open>ecdh\<close> for X25519 and \<open>sha\<close> for SHA-256.
\<close>

datatype crypto_error =
    KeySizeError nat
  | NoncePanic
  | CiphertextTooShort
  | UnexpectedSequence
  | SequenceReplayed
  | OpenFailed
  | HkdfError
  | EcdhError
  | SaltLength nat
  | ParseLocalKey
  | ParsePeerKey
  | CommitLength

type_synonym hkdf = "bytes \<Rightarrow> bytes \<Rightarrow> nat \<Rightarrow> bytes option"
type_synonym ecdh = "bytes \<Rightarrow> bytes \<Rightarrow> bytes option"

section \<open>The channel\<close>

datatype ChannelMode = ModeStrict | ModeDatagrams | ModeOther int

record Channel =
  sendGCM :: bytes
  recvGCM :: bytes
  sendSeq :: u64
  recvSeq :: u64
  mode :: ChannelMode

definition aes_NewCipher :: "bytes \<Rightarrow> crypto_error + bytes" where
  "aes_NewCipher key = (if length key \<in> {16, 24, 32} then Inr key else Inl (KeySizeError (length key)))"

definition NewChannel :: "bytes \<Rightarrow> bytes \<Rightarrow> crypto_error + Channel" where
  "NewChannel sendKey recvKey =
     (case aes_NewCipher sendKey of
        Inl e \<Rightarrow> Inl e
      | Inr sendBlock \<Rightarrow>
          (case aes_NewCipher recvKey of
             Inl e \<Rightarrow> Inl e
           | Inr recvBlock \<Rightarrow>
               Inr \<lparr>sendGCM = sendBlock, recvGCM = recvBlock, sendSeq = 0, recvSeq = 0, mode = ModeStrict\<rparr>))"

definition SetMode :: "ChannelMode \<Rightarrow> Channel \<Rightarrow> Channel" where
  "SetMode m c = c\<lparr>mode := m\<rparr>"

definition NewDatagramChannel :: "bytes \<Rightarrow> bytes \<Rightarrow> crypto_error + Channel" where
  "NewDatagramChannel sendKey recvKey =
     (case NewChannel sendKey recvKey of
        Inl e \<Rightarrow> Inl e
      | Inr ch \<Rightarrow> Inr (ch\<lparr>mode := ModeDatagrams\<rparr>))"

text \<open>\<open>makeNonce\<close> panics when the nonce is too short for the counter; \<open>None\<close> is the panic.\<close>

definition makeNonce :: "nat \<Rightarrow> u64 \<Rightarrow> bytes option" where
  "makeNonce sz seq = (if sz < 8 then None else Some (put_le 8 seq @ replicate (sz - 8) 0))"

definition NonceSize :: nat where "NonceSize = 12"

definition Encrypt :: "seal \<Rightarrow> Channel \<Rightarrow> bytes \<Rightarrow> Channel \<times> (crypto_error + bytes)" where
  "Encrypt seal c plaintext =
     (let seq = sendSeq c;
          c1 = c\<lparr>sendSeq := sendSeq c + 1\<rparr>
      in case makeNonce NonceSize seq of
           None \<Rightarrow> (c1, Inl NoncePanic)
         | Some nonce \<Rightarrow>
             let seqBytes = put_le 8 seq;
                 ciphertext = seal (sendGCM c1) nonce plaintext seqBytes
             in (c1, Inr (seqBytes @ ciphertext)))"

definition Decrypt :: "opener \<Rightarrow> Channel \<Rightarrow> bytes \<Rightarrow> Channel \<times> (crypto_error + bytes)" where
  "Decrypt opn c data =
     (if length data < 8 then (c, Inl CiphertextTooShort)
      else
        let seqBytes = take 8 data;
            seq = get_le seqBytes;
            ciphertext = drop 8 data;
            open_at = (\<lambda>c. case makeNonce NonceSize seq of
                 None \<Rightarrow> (c, Inl NoncePanic)
               | Some nonce \<Rightarrow>
                   (case opn (recvGCM c) nonce ciphertext seqBytes of
                      None \<Rightarrow> (c, Inl OpenFailed)
                    | Some p \<Rightarrow> (c, Inr p)))
        in case mode c of
             ModeStrict \<Rightarrow>
               if seq \<noteq> recvSeq c then (c, Inl UnexpectedSequence)
               else open_at (c\<lparr>recvSeq := recvSeq c + 1\<rparr>)
           | ModeDatagrams \<Rightarrow>
               if seq < recvSeq c then (c, Inl SequenceReplayed)
               else open_at (c\<lparr>recvSeq := seq + 1\<rparr>)
           | ModeOther i \<Rightarrow> open_at c)"

section \<open>Key derivation\<close>

definition hkdfDerive :: "hkdf \<Rightarrow> bytes \<Rightarrow> bytes \<Rightarrow> crypto_error + bytes" where
  "hkdfDerive hkdf ikm info = (case hkdf ikm info 32 of None \<Rightarrow> Inl HkdfError | Some key \<Rightarrow> Inr key)"

definition DeriveKeyFromSecret :: "hkdf \<Rightarrow> bytes \<Rightarrow> bytes \<Rightarrow> crypto_error + bytes" where
  "DeriveKeyFromSecret hkdf secret nonce = hkdfDerive hkdf secret nonce"

definition DeriveSessionKey :: "hkdf \<Rightarrow> ecdh \<Rightarrow> bytes \<Rightarrow> bytes \<Rightarrow> bytes \<Rightarrow> crypto_error + bytes" where
  "DeriveSessionKey hkdf ecdh priv peerPub info =
     (case ecdh priv peerPub of
        None \<Rightarrow> Inl EcdhError
      | Some shared \<Rightarrow> hkdfDerive hkdf shared info)"

definition NewSymmetricChannel :: "hkdf \<Rightarrow> bytes \<Rightarrow> bool \<Rightarrow> crypto_error + Channel" where
  "NewSymmetricChannel hkdf key isServer =
     (let c2s = bytes_of_string ''client-to-server'';
          s2c = bytes_of_string ''server-to-client'';
          (sendInfo, recvInfo) = (if isServer then (s2c, c2s) else (c2s, s2c))
      in case hkdfDerive hkdf key sendInfo of
           Inl e \<Rightarrow> Inl e
         | Inr sendKey \<Rightarrow>
             (case hkdfDerive hkdf key recvInfo of
                Inl e \<Rightarrow> Inl e
              | Inr recvKey \<Rightarrow> NewChannel sendKey recvKey))"

section \<open>Confirmation code and commitment\<close>

fun bytes_compare :: "bytes \<Rightarrow> bytes \<Rightarrow> int" where
  "bytes_compare [] [] = 0" |
  "bytes_compare [] (_ # _) = -1" |
  "bytes_compare (_ # _) [] = 1" |
  "bytes_compare (a # as) (b # bs) = (if a < b then -1 else if b < a then 1 else bytes_compare as bs)"

definition digit :: "nat \<Rightarrow> char" where
  "digit d = char_of (48 + d)"

fun dec_digits :: "nat \<Rightarrow> string" where
  "dec_digits n = (if n < 10 then [digit n] else dec_digits (n div 10) @ [digit (n mod 10)])"

declare dec_digits.simps [simp del]

definition fmt_06d :: "nat \<Rightarrow> string" where
  "fmt_06d n = (let s = dec_digits n in replicate (6 - length s) (digit 0) @ s)"

definition DeriveConfirmationCode :: "hkdf \<Rightarrow> bytes \<Rightarrow> bytes \<Rightarrow> crypto_error + string" where
  "DeriveConfirmationCode hkdf pubA pubB =
     (let (a, b) = (if bytes_compare pubA pubB > 0 then (pubB, pubA) else (pubA, pubB));
          ikm = a @ b
      in case hkdf ikm (bytes_of_string ''pairing-confirmation'') 4 of
           None \<Rightarrow> Inl HkdfError
         | Some buf \<Rightarrow>
             let code = (get_be buf :: u32) mod 1000000
             in Inr (fmt_06d (unat code)))"

definition sasCommitTag :: bytes where
  "sasCommitTag = bytes_of_string ''pigeon-sas-commit''"

definition SASCommit :: "(bytes \<Rightarrow> bytes) \<Rightarrow> bytes \<Rightarrow> bytes \<Rightarrow> crypto_error + bytes" where
  "SASCommit sha ephPub blind =
     (if length ephPub \<noteq> 32 \<or> length blind \<noteq> 32 then Inl CommitLength
      else Inr (sha (sasCommitTag @ ephPub @ blind)))"

definition SASCommitVerify :: "(bytes \<Rightarrow> bytes) \<Rightarrow> bytes \<Rightarrow> bytes \<Rightarrow> bytes \<Rightarrow> bool" where
  "SASCommitVerify sha ephPub blind commit =
     (case SASCommit sha ephPub blind of
        Inl e \<Rightarrow> False
      | Inr expected \<Rightarrow> if length commit \<noteq> 32 then False else expected = commit)"

section \<open>Pairing record\<close>

definition SessionSaltLen :: nat where "SessionSaltLen = 16"

record PairingRecord =
  PeerInstanceID :: string
  RelayURL :: string
  LocalPrivateKey :: bytes
  LocalPublicKey :: bytes
  PeerPublicKey :: bytes

record KeyPair =
  Private :: bytes
  Public :: bytes

definition NewPairingRecord :: "string \<Rightarrow> string \<Rightarrow> KeyPair \<Rightarrow> bytes \<Rightarrow> PairingRecord" where
  "NewPairingRecord peerInstanceID relayURL localKP peerPubKey =
     \<lparr>PeerInstanceID = peerInstanceID, RelayURL = relayURL, LocalPrivateKey = Private localKP,
      LocalPublicKey = Public localKP, PeerPublicKey = peerPubKey\<rparr>"

text \<open>\<open>ecdh.X25519().NewPrivateKey\<close> and \<open>NewPublicKey\<close> accept exactly 32 bytes.\<close>

definition x25519_key :: "crypto_error \<Rightarrow> bytes \<Rightarrow> crypto_error + bytes" where
  "x25519_key e k = (if length k \<noteq> 32 then Inl e else Inr k)"

definition DeriveChannel ::
  "hkdf \<Rightarrow> ecdh \<Rightarrow> PairingRecord \<Rightarrow> bytes \<Rightarrow> bytes \<Rightarrow> bytes \<Rightarrow> crypto_error + Channel" where
  "DeriveChannel hkdf ecdh r sendInfo recvInfo sessionSalt =
     (let n = length sessionSalt in
      if n \<noteq> 0 \<and> n \<noteq> SessionSaltLen then Inl (SaltLength n)
      else
        case x25519_key ParseLocalKey (LocalPrivateKey r) of
          Inl e \<Rightarrow> Inl e
        | Inr priv \<Rightarrow>
            (case x25519_key ParsePeerKey (PeerPublicKey r) of
               Inl e \<Rightarrow> Inl e
             | Inr peerPub \<Rightarrow>
                 (case DeriveSessionKey hkdf ecdh priv peerPub (sendInfo @ sessionSalt) of
                    Inl e \<Rightarrow> Inl e
                  | Inr sendKey \<Rightarrow>
                      (case DeriveSessionKey hkdf ecdh priv peerPub (recvInfo @ sessionSalt) of
                         Inl e \<Rightarrow> Inl e
                       | Inr recvKey \<Rightarrow> NewChannel sendKey recvKey))))"

section \<open>Lemmas on the channel\<close>

text \<open>A packet of the channel: the counter in little endian, then the sealed body.\<close>

definition nonce_of :: "u64 \<Rightarrow> bytes" where
  "nonce_of s = put_le 8 s @ replicate 4 0"

definition packet :: "seal \<Rightarrow> bytes \<Rightarrow> u64 \<Rightarrow> bytes \<Rightarrow> bytes" where
  "packet seal k s p = put_le 8 s @ seal k (nonce_of s) p (put_le 8 s)"

definition seq_of :: "bytes \<Rightarrow> u64" where
  "seq_of x = get_le (take 8 x)"

lemma makeNonce_NonceSize [simp]: "makeNonce NonceSize s = Some (nonce_of s)"
  by (simp add: makeNonce_def NonceSize_def nonce_of_def)

lemma take_packet [simp]: "take 8 (packet seal k s p) = put_le 8 s"
  and drop_packet [simp]: "drop 8 (packet seal k s p) = seal k (nonce_of s) p (put_le 8 s)"
  and length_packet [simp]: "\<not> length (packet seal k s p) < 8"
  by (simp_all add: packet_def)

lemma seq_of_packet [simp]: "seq_of (packet seal k s p) = s"
  by (simp add: seq_of_def get_le_put_le)

lemma nonce_of_inj [simp]: "nonce_of s = nonce_of t \<longleftrightarrow> s = t"
proof
  assume "nonce_of s = nonce_of t"
  then have "put_le 8 s = put_le 8 t" by (simp add: nonce_of_def)
  then have "(get_le (put_le 8 s) :: u64) = get_le (put_le 8 t)" by simp
  then show "s = t" by (simp add: get_le_put_le)
qed simp

lemma Encrypt_eq: "Encrypt seal c p = (c\<lparr>sendSeq := sendSeq c + 1\<rparr>, Inr (packet seal (sendGCM c) (sendSeq c) p))"
  by (simp add: Encrypt_def packet_def Let_def)

lemma Decrypt_packet:
  assumes "aead_correct seal opn" and "recvGCM d = k"
  shows "Decrypt opn d (packet seal k s p) =
    (case mode d of
       ModeStrict \<Rightarrow> if s \<noteq> recvSeq d then (d, Inl UnexpectedSequence) else (d\<lparr>recvSeq := recvSeq d + 1\<rparr>, Inr p)
     | ModeDatagrams \<Rightarrow> if s < recvSeq d then (d, Inl SequenceReplayed) else (d\<lparr>recvSeq := s + 1\<rparr>, Inr p)
     | ModeOther i \<Rightarrow> (d, Inr p))"
  using assms by (simp add: Decrypt_def get_le_put_le aead_correctD split: ChannelMode.splits)

definition strict_sync :: "seal \<Rightarrow> opener \<Rightarrow> nat \<Rightarrow> Channel \<Rightarrow> Channel \<Rightarrow> bool" where
  "strict_sync seal opn n c d \<longleftrightarrow>
     aead_correct seal opn \<and> mode d = ModeStrict \<and> recvGCM d = sendGCM c \<and> recvSeq d = sendSeq c"

definition datagram_sync :: "seal \<Rightarrow> opener \<Rightarrow> nat \<Rightarrow> Channel \<Rightarrow> Channel \<Rightarrow> bool" where
  "datagram_sync seal opn n c d \<longleftrightarrow>
     aead_correct seal opn \<and> mode d = ModeDatagrams \<and> recvGCM d = sendGCM c \<and>
     recvSeq d \<le> sendSeq c \<and> unat (sendSeq c) + n < 2 ^ 64"

lemma word_le_succ:
  fixes a b :: u64
  assumes "a \<le> b" and "unat b + 1 < 2 ^ 64"
  shows "a \<le> b + 1" and "unat (b + 1) = unat b + 1"
proof -
  show s: "unat (b + 1) = unat b + 1"
    using assms(2) by (simp add: unat_word_ariths)
  show "a \<le> b + 1" using assms(1) s by (simp add: word_le_nat_alt)
qed

interpretation gstrict: secure_channel "Encrypt seal" "Decrypt opn" "strict_sync seal opn" for seal opn
  by unfold_locales (auto simp: Encrypt_eq Decrypt_packet strict_sync_def)

interpretation gdgram: lossy_channel "Encrypt seal" "Decrypt opn" "datagram_sync seal opn" for seal opn
proof unfold_locales
  fix n c d p c' ct
  assume s: "datagram_sync seal opn (Suc n) c d" and e: "Encrypt seal c p = (c', Inr ct)"
  then have c': "c' = c\<lparr>sendSeq := sendSeq c + 1\<rparr>" and ct: "ct = packet seal (sendGCM c) (sendSeq c) p"
    by (auto simp: Encrypt_eq)
  note step = word_le_succ [of "recvSeq d" "sendSeq c"]
  show "\<exists>d'. Decrypt opn d ct = (d', Inr p) \<and> datagram_sync seal opn n c' d'"
    using s step unfolding ct c' by (auto simp: Decrypt_packet datagram_sync_def not_less)
  show "datagram_sync seal opn n c' d"
    using s step unfolding c' by (auto simp: datagram_sync_def)
qed (simp add: Encrypt_eq)


text \<open>In datagram mode the receiver's counter only moves forward, short of the last number.\<close>

definition max_seq :: u64 where "max_seq = 0xFFFFFFFFFFFFFFFF"

lemma max_seq_alt: "max_seq = - 1" "unat max_seq = 2 ^ 64 - 1"
  by (simp_all add: max_seq_def)

lemma unat_succ: "s \<noteq> max_seq \<Longrightarrow> unat (s + 1) = unat s + 1"
proof -
  assume "s \<noteq> max_seq"
  then have "unat s \<noteq> 2 ^ 64 - 1" using max_seq_alt(2) by (metis unsigned_word_eqI)
  moreover have "unat s < 2 ^ 64" using unsigned_less [of s] by simp
  ultimately show ?thesis by (simp add: unat_word_ariths)
qed

lemma Decrypt_datagram_cases:
  assumes "mode c = ModeDatagrams" and "Decrypt opn c x = (c', r)"
  obtains (short) "c' = c" "r = Inl CiphertextTooShort"
  | (old) "c' = c" "r = Inl SequenceReplayed" "seq_of x < recvSeq c"
  | (forged) "c' = c\<lparr>recvSeq := seq_of x + 1\<rparr>" "r = Inl OpenFailed" "recvSeq c \<le> seq_of x"
  | (good) p where "c' = c\<lparr>recvSeq := seq_of x + 1\<rparr>" "r = Inr p" "recvSeq c \<le> seq_of x"
      "opn (recvGCM c) (nonce_of (seq_of x)) (drop 8 x) (take 8 x) = Some p"
  using assms by (auto simp: Decrypt_def Let_def seq_of_def not_less split: if_splits option.splits)

interpretation gwindow: replay_window "Decrypt opn" "\<lambda>x. unat (seq_of x)" "\<lambda>c. unat (recvSeq c)"
  "\<lambda>c. mode c = ModeDatagrams" "\<lambda>x. seq_of x \<noteq> max_seq" for opn
proof unfold_locales
  fix c c' :: Channel and x p
  assume m: "mode c = ModeDatagrams" and x: "seq_of x \<noteq> max_seq"
  note s = unat_succ [OF x]
  {
    fix e assume "Decrypt opn c x = (c', Inl e)"
    with m show "mode c' = ModeDatagrams \<and> unat (recvSeq c) \<le> unat (recvSeq c')"
      by (cases rule: Decrypt_datagram_cases) (auto simp: m s word_le_nat_alt)
  }
  assume "Decrypt opn c x = (c', Inr p)"
  with m show "mode c' = ModeDatagrams \<and> unat (recvSeq c) \<le> unat (seq_of x) \<and> unat (seq_of x) < unat (recvSeq c')"
    by (cases rule: Decrypt_datagram_cases) (auto simp: m s word_le_nat_alt)
qed

fun packets :: "seal \<Rightarrow> bytes \<Rightarrow> u64 \<Rightarrow> bytes list \<Rightarrow> bytes list" where
  "packets seal k s [] = []" |
  "packets seal k s (p # ps) = packet seal k s p # packets seal k (s + 1) ps"

lemma map_state_Encrypt:
  "map_state (Encrypt seal) c ps =
     (c\<lparr>sendSeq := sendSeq c + of_nat (length ps)\<rparr>, map Inr (packets seal (sendGCM c) (sendSeq c) ps))"
  by (induction ps arbitrary: c) (simp_all add: Encrypt_eq add.assoc)

lemma length_packets [simp]: "length (packets seal k s ps) = length ps"
  by (induction ps arbitrary: s) auto

lemma nth_packets: "i < length ps \<Longrightarrow> packets seal k s ps ! i = packet seal k (s + of_nat i) (ps ! i)"
proof (induction ps arbitrary: s i)
  case (Cons p ps)
  then show ?case by (cases i) (auto simp: add.assoc)
qed simp

lemma distinct_counters:
  assumes "n \<le> 2 ^ 64"
  shows "distinct (map (\<lambda>i. nonce_of (s + of_nat i)) [0..<n])"
proof -
  have "inj_on (\<lambda>i. nonce_of (s + of_nat i)) {0..<n}"
  proof (rule inj_onI)
    fix i j assume "i \<in> {0..<n}" "j \<in> {0..<n}" and "nonce_of (s + of_nat i) = nonce_of (s + of_nat j)"
    then have "(of_nat i :: u64) = of_nat j" "i < 2 ^ 64" "j < 2 ^ 64" using assms by auto
    then have "unat (of_nat i :: u64) = unat (of_nat j :: u64)" "i < 2 ^ 64" "j < 2 ^ 64" by auto
    then show "i = j" by (simp add: unat_of_nat take_bit_nat_eq_self)
  qed
  then show ?thesis by (simp add: distinct_map)
qed

section \<open>Properties of the channel\<close>

text \<open>
  Whatever one end of a strict channel encrypts, in any number, the other end decrypts in the
  same order to the same plaintexts, when it holds the peer's send key and has received as many
  packets as the peer has sent.
\<close>

theorem strict_channel_fifo:
  assumes "aead_correct seal opn"
    and "recvGCM d = sendGCM c" and "recvSeq d = sendSeq c" and "mode d = ModeStrict"
  shows "\<exists>c' cts d'. map_state (Encrypt seal) c ps = (c', map Inr cts) \<and>
    map_state (Decrypt opn) d cts = (d', map Inr ps)"
proof -
  have "strict_sync seal opn (length ps) c d" using assms by (simp add: strict_sync_def)
  from gstrict.fifo [OF this order.refl] show ?thesis by auto
qed

definition demo_channel :: "ChannelMode \<Rightarrow> Channel" where
  "demo_channel m = \<lparr>sendGCM = [1], recvGCM = [1], sendSeq = 0, recvSeq = 0, mode = m\<rparr>"

theorem strict_channel_fifo_witness:
  "aead_correct demo_seal demo_open \<and>
   (\<exists>c' cts d'. map_state (Encrypt demo_seal) (demo_channel ModeStrict) [[1], [2, 3], []] = (c', map Inr cts) \<and>
     map_state (Decrypt demo_open) (demo_channel ModeStrict) cts = (d', map Inr [[1], [2, 3], []]))"
  using strict_channel_fifo [OF demo_aead(1), of "demo_channel ModeStrict" "demo_channel ModeStrict"
      "[[1], [2, 3], []]"] demo_aead(1) by (simp add: demo_channel_def)

text \<open>
  (C22) A strict channel accepts nothing but the peer's own packet for the position it expects: an
  accepted packet is exactly the sealing of the returned plaintext under the receive key and the
  expected counter, the counter then moves by one, and a packet with any other counter is
  refused without a trace.
\<close>

theorem strict_channel_integrity:
  assumes "aead_authentic seal opn" and "mode c = ModeStrict"
  shows "(Decrypt opn c x = (c', Inr p) \<longrightarrow>
            x = packet seal (recvGCM c) (recvSeq c) p \<and> c' = c\<lparr>recvSeq := recvSeq c + 1\<rparr>) \<and>
         (8 \<le> length x \<and> seq_of x \<noteq> recvSeq c \<longrightarrow> Decrypt opn c x = (c, Inl UnexpectedSequence))"
proof (intro conjI impI)
  assume d: "Decrypt opn c x = (c', Inr p)"
  then have l: "8 \<le> length x" and s: "get_le (take 8 x) = recvSeq c"
    and o: "opn (recvGCM c) (nonce_of (recvSeq c)) (drop 8 x) (take 8 x) = Some p"
    and c': "c' = c\<lparr>recvSeq := recvSeq c + 1\<rparr>"
    using assms(2) by (auto simp: Decrypt_def Let_def split: if_splits option.splits)
  have t: "put_le 8 (recvSeq c) = take 8 x"
    using put_le_get_le [of "take 8 x", where 'a = 64] l s by simp
  have "x = take 8 x @ drop 8 x" by simp
  also have "drop 8 x = seal (recvGCM c) (nonce_of (recvSeq c)) p (take 8 x)"
    by (rule aead_authenticD [OF assms(1) o])
  finally have "x = packet seal (recvGCM c) (recvSeq c) p" by (simp add: packet_def t)
  with c' show "x = packet seal (recvGCM c) (recvSeq c) p" "c' = c\<lparr>recvSeq := recvSeq c + 1\<rparr>" by auto
next
  assume "8 \<le> length x \<and> seq_of x \<noteq> recvSeq c"
  then show "Decrypt opn c x = (c, Inl UnexpectedSequence)"
    using assms(2) by (simp add: Decrypt_def Let_def seq_of_def)
qed

theorem strict_channel_integrity_witness:
  "Decrypt demo_open (demo_channel ModeStrict) (packet demo_seal [1] 0 [7]) =
     ((demo_channel ModeStrict)\<lparr>recvSeq := 1\<rparr>, Inr [7]) \<and>
   packet demo_seal [1] 0 [7] = packet demo_seal (recvGCM (demo_channel ModeStrict)) 0 [7] \<and>
   Decrypt demo_open (demo_channel ModeStrict) (packet demo_seal [1] 5 [7]) =
     (demo_channel ModeStrict, Inl UnexpectedSequence)"
proof -
  note i = strict_channel_integrity [OF demo_aead(2), of "demo_channel ModeStrict"]
  have d: "Decrypt demo_open (demo_channel ModeStrict) (packet demo_seal [1] 0 [7]) =
     ((demo_channel ModeStrict)\<lparr>recvSeq := 1\<rparr>, Inr [7])"
    by (simp add: Decrypt_packet [OF demo_aead(1)] demo_channel_def)
  have m: "mode (demo_channel ModeStrict) = ModeStrict" by (simp add: demo_channel_def)
  have "8 \<le> length (packet demo_seal [1] 5 [7])" by (simp add: packet_def)
  moreover have "seq_of (packet demo_seal [1] 5 [7]) \<noteq> recvSeq (demo_channel ModeStrict)"
    by (simp add: demo_channel_def)
  ultimately have u: "Decrypt demo_open (demo_channel ModeStrict) (packet demo_seal [1] 5 [7]) =
     (demo_channel ModeStrict, Inl UnexpectedSequence)" using conjunct2 [OF i [OF m]] by blast
  from conjunct1 [OF i [OF m], THEN mp, OF d] d u show ?thesis by (simp add: demo_channel_def)
qed

text \<open>
  A datagram channel survives any pattern of losses: whichever subset of the packets arrives,
  in order, each of them decrypts to its plaintext, as long as the 64-bit counter does not run
  out.
\<close>

theorem datagram_channel_lossy:
  assumes "aead_correct seal opn" and "recvGCM d = sendGCM c" and "recvSeq d \<le> sendSeq c"
    and "mode d = ModeDatagrams" and "unat (sendSeq c) + length ps < 2 ^ 64" and "length keep = length ps"
  shows "\<exists>c' cts d'. map_state (Encrypt seal) c ps = (c', map Inr cts) \<and>
    map_state (Decrypt opn) d (kept keep cts) = (d', map Inr (kept keep ps))"
proof -
  have "datagram_sync seal opn (length ps) c d" using assms by (simp add: datagram_sync_def)
  from gdgram.lossy_fifo [OF this order.refl assms(6)] show ?thesis .
qed

theorem datagram_channel_lossy_witness:
  "\<exists>c' cts d'. map_state (Encrypt demo_seal) (demo_channel ModeDatagrams) [[1], [2], [3]] = (c', map Inr cts) \<and>
    map_state (Decrypt demo_open) (demo_channel ModeDatagrams) (kept [True, False, True] cts) =
      (d', map Inr [[1], [3]])"
  using datagram_channel_lossy [OF demo_aead(1), of "demo_channel ModeDatagrams" "demo_channel ModeDatagrams"
      "[[1], [2], [3]]" "[True, False, True]"] by (simp add: demo_channel_def)

text \<open>
  (C31) A datagram channel never accepts a packet twice: over any sequence of incoming packets, forged
  ones included, the counters of the accepted packets strictly increase, provided no packet
  claims the very last counter (see the next property for that one).
\<close>

theorem datagram_channel_no_replay:
  assumes "mode c = ModeDatagrams" and "list_all (\<lambda>x. seq_of x \<noteq> max_seq) xs"
  shows "sorted_wrt (<) (accepted_seqs (Decrypt opn) (\<lambda>x. unat (seq_of x)) c xs)"
  using gwindow.accepted_increasing [of c xs opn] assms by blast

theorem datagram_channel_no_replay_witness:
  "sorted_wrt (<) (accepted_seqs (Decrypt demo_open) (\<lambda>x. unat (seq_of x)) (demo_channel ModeDatagrams)
     [packet demo_seal [1] 3 [7], packet demo_seal [1] 3 [7], packet demo_seal [1] 9 [8]])"
  using datagram_channel_no_replay [of "demo_channel ModeDatagrams"
      "[packet demo_seal [1] 3 [7], packet demo_seal [1] 3 [7], packet demo_seal [1] 9 [8]]" demo_open]
  by (simp add: demo_channel_def max_seq_def)

text \<open>
  \<open>Decrypt\<close> moves the receive counter before it authenticates the packet. So one forged datagram
  that claims the last counter is rejected but wraps the counter to zero, after which every
  packet of the session's past decrypts again; and one that claims the last but one makes the
  channel refuse every genuine packet of a smaller counter from then on.
\<close>

theorem forged_datagram_moves_window:
  assumes "aead_correct seal opn" and "mode c = ModeDatagrams" and "recvSeq c \<le> max_seq - 1"
    and "opn (recvGCM c) (nonce_of max_seq) junk (put_le 8 max_seq) = None"
    and "opn (recvGCM c) (nonce_of (max_seq - 1)) junk (put_le 8 (max_seq - 1)) = None"
  shows "(\<exists>c'. Decrypt opn c (put_le 8 max_seq @ junk) = (c', Inl OpenFailed) \<and>
            (\<forall>s p. snd (Decrypt opn c' (packet seal (recvGCM c) s p)) = Inr p)) \<and>
         (\<exists>c'. Decrypt opn c (put_le 8 (max_seq - 1) @ junk) = (c', Inl OpenFailed) \<and>
            (\<forall>s p. s < max_seq \<longrightarrow>
               snd (Decrypt opn c' (packet seal (recvGCM c) s p)) = Inl SequenceReplayed))"
proof -
  have le: "\<not> max_seq < recvSeq c" "\<not> max_seq - 1 < recvSeq c"
    using assms(3) by (auto simp: max_seq_alt not_less)
  have wrap: "max_seq + 1 = 0" by (simp add: max_seq_alt)
  have "Decrypt opn c (put_le 8 max_seq @ junk) = (c\<lparr>recvSeq := 0\<rparr>, Inl OpenFailed)"
    using assms le by (simp add: Decrypt_def Let_def get_le_put_le wrap)
  moreover have "Decrypt opn c (put_le 8 (max_seq - 1) @ junk) = (c\<lparr>recvSeq := max_seq\<rparr>, Inl OpenFailed)"
    using assms le by (simp add: Decrypt_def Let_def get_le_put_le)
  ultimately show ?thesis using assms(1,2) by (simp add: Decrypt_packet)
qed

theorem forged_datagram_moves_window_witness:
  "\<exists>c'. Decrypt demo_open (demo_channel ModeDatagrams) (put_le 8 max_seq @ [0]) = (c', Inl OpenFailed) \<and>
     snd (Decrypt demo_open c' (packet demo_seal [1] 4 [7])) = Inr [7]"
proof -
  have o: "demo_open k n [0] x = None" for k n x by (simp add: demo_open_def)
  have c: "mode (demo_channel ModeDatagrams) = ModeDatagrams" "recvGCM (demo_channel ModeDatagrams) = [1]"
    "recvSeq (demo_channel ModeDatagrams) \<le> max_seq - 1"
    by (simp_all add: demo_channel_def)
  from conjunct1 [OF forged_datagram_moves_window [OF demo_aead(1) c(1,3) o o]] c(2) show ?thesis
    by auto
qed

text \<open>
  No nonce is ever used twice with the same key: \<open>n \<le> 2^64\<close> encryptions on a channel are sealed
  under \<open>n\<close> distinct nonces, and each packet carries its own in front.
\<close>

theorem channel_nonces_distinct:
  assumes "length ps \<le> 2 ^ 64"
  shows "\<exists>c' cts nonces. map_state (Encrypt seal) c ps = (c', map Inr cts) \<and>
    length nonces = length ps \<and> length cts = length ps \<and> distinct nonces \<and>
    (\<forall>i < length ps. cts ! i = take 8 (nonces ! i) @ seal (sendGCM c) (nonces ! i) (ps ! i) (take 8 (nonces ! i)))"
proof -
  let ?ns = "map (\<lambda>i. nonce_of (sendSeq c + of_nat i)) [0..<length ps]"
  have "packets seal (sendGCM c) (sendSeq c) ps ! i =
      take 8 (?ns ! i) @ seal (sendGCM c) (?ns ! i) (ps ! i) (take 8 (?ns ! i))" if "i < length ps" for i
    using that by (simp add: nth_packets packet_def nonce_of_def)
  moreover have "distinct ?ns" by (rule distinct_counters [OF assms])
  moreover have "length ?ns = length ps" by simp
  ultimately show ?thesis unfolding map_state_Encrypt by (metis length_packets)
qed

theorem channel_nonces_distinct_witness:
  "\<exists>c' cts nonces. map_state (Encrypt demo_seal) (demo_channel ModeStrict) [[1], [1]] = (c', map Inr cts) \<and>
    length nonces = 2 \<and> length cts = 2 \<and> distinct nonces \<and>
    cts ! 0 = take 8 (nonces ! 0) @ demo_seal [1] (nonces ! 0) [1] (take 8 (nonces ! 0))"
proof -
  let ?ps = "[[1], [1]] :: bytes list"
  have "length ?ps \<le> 2 ^ 64" by simp
  from channel_nonces_distinct [OF this, of demo_seal "demo_channel ModeStrict"]
  obtain c' cts nonces where
    *: "map_state (Encrypt demo_seal) (demo_channel ModeStrict) ?ps = (c', map Inr cts)"
      "length nonces = length ?ps" "length cts = length ?ps" "distinct nonces" and
    n: "\<forall>i < length ?ps. cts ! i = take 8 (nonces ! i) @
       demo_seal (sendGCM (demo_channel ModeStrict)) (nonces ! i) (?ps ! i) (take 8 (nonces ! i))"
    by blast
  from n [rule_format, of 0] have "cts ! 0 = take 8 (nonces ! 0) @ demo_seal [1] (nonces ! 0) [1] (take 8 (nonces ! 0))"
    by (simp add: demo_channel_def)
  moreover have "length ?ps = 2" by simp
  ultimately show ?thesis using * by metis
qed

end
