(* ===== verification/KeyDerivation.thy ===== *)
theory KeyDerivation
  imports Crypto
begin

text \<open>
  Properties of the key derivations of \<open>crypto/crypto.go\<close>: matching pairing records give channels
  that talk to each other, session salts separate sessions, both sides compute one confirmation
  code, and a SAS commitment binds.
\<close>

section \<open>Properties of the key derivations\<close>

text \<open>What X25519 guarantees: both sides compute the same shared secret.\<close>

definition dh_agree :: "ecdh \<Rightarrow> (bytes \<Rightarrow> bytes) \<Rightarrow> bool" where
  "dh_agree ecdh pub_of \<longleftrightarrow> (\<forall>a b. ecdh a (pub_of b) = ecdh b (pub_of a)) \<and> (\<forall>a. length (pub_of a) = 32)"

text \<open>A collision of HKDF: two different info strings that give one key from the same secret.\<close>

definition hkdf_collision :: "hkdf \<Rightarrow> bytes \<Rightarrow> bytes \<Rightarrow> bool" where
  "hkdf_collision hkdf u v \<longleftrightarrow> u \<noteq> v \<and> (\<exists>ikm k. hkdf ikm u 32 = Some k \<and> hkdf ikm v 32 = Some k)"

lemma NewChannel_eq:
  "NewChannel sk rk = Inr c \<longleftrightarrow> length sk \<in> {16, 24, 32} \<and> length rk \<in> {16, 24, 32} \<and>
     c = \<lparr>sendGCM = sk, recvGCM = rk, sendSeq = 0, recvSeq = 0, mode = ModeStrict\<rparr>"
  by (auto simp: NewChannel_def aes_NewCipher_def)

lemma DeriveChannel_eq:
  "DeriveChannel hkdf ecdh r sendInfo recvInfo salt = Inr c \<longleftrightarrow>
     length salt \<in> {0, SessionSaltLen} \<and> length (LocalPrivateKey r) = 32 \<and> length (PeerPublicKey r) = 32 \<and>
     (\<exists>shared sk rk. ecdh (LocalPrivateKey r) (PeerPublicKey r) = Some shared \<and>
        hkdf shared (sendInfo @ salt) 32 = Some sk \<and> hkdf shared (recvInfo @ salt) 32 = Some rk \<and>
        NewChannel sk rk = Inr c)"
  by (auto simp: DeriveChannel_def x25519_key_def DeriveSessionKey_def hkdfDerive_def Let_def
      split: if_splits option.splits)

text \<open>
  Two peers that hold matching pairing records, the same session salt and crossed direction
  labels derive channels that talk to each other: if either succeeds so does the other, their
  keys are crossed, and every message encrypted by one end is decrypted by the other, in order,
  in both directions.
\<close>

theorem derive_channel_peers:
  assumes "aead_correct seal opn" and "dh_agree ecdh pub_of" and "length a = 32" and "length b = 32"
    and "LocalPrivateKey ra = a" and "PeerPublicKey ra = pub_of b"
    and "LocalPrivateKey rb = b" and "PeerPublicKey rb = pub_of a"
    and "DeriveChannel hkdf ecdh ra i j salt = Inr ca"
  shows "\<exists>cb. DeriveChannel hkdf ecdh rb j i salt = Inr cb \<and>
    (\<exists>c' cts d'. map_state (Encrypt seal) ca ps = (c', map Inr cts) \<and>
        map_state (Decrypt opn) cb cts = (d', map Inr ps)) \<and>
    (\<exists>c' cts d'. map_state (Encrypt seal) cb qs = (c', map Inr cts) \<and>
        map_state (Decrypt opn) ca cts = (d', map Inr qs))"
proof -
  from assms(9) obtain shared sk rk where
    *: "length salt \<in> {0, SessionSaltLen}" "ecdh a (pub_of b) = Some shared"
      "hkdf shared (i @ salt) 32 = Some sk" "hkdf shared (j @ salt) 32 = Some rk" "NewChannel sk rk = Inr ca"
    unfolding DeriveChannel_eq assms(5,6) by blast
  then have ca: "ca = \<lparr>sendGCM = sk, recvGCM = rk, sendSeq = 0, recvSeq = 0, mode = ModeStrict\<rparr>"
    by (simp add: NewChannel_eq)
  define cb :: Channel where "cb = \<lparr>sendGCM = rk, recvGCM = sk, sendSeq = 0, recvSeq = 0, mode = ModeStrict\<rparr>"
  have "ecdh b (pub_of a) = Some shared" using assms(2) *(2) by (simp add: dh_agree_def)
  then have db: "DeriveChannel hkdf ecdh rb j i salt = Inr cb"
    using * assms(2,4,7,8) by (auto simp: DeriveChannel_eq NewChannel_eq cb_def dh_agree_def)
  have "strict_sync seal opn (length ps) ca cb" "strict_sync seal opn (length qs) cb ca"
    using assms(1) by (simp_all add: ca cb_def strict_sync_def)
  from gstrict.fifo [OF this(1) order.refl] gstrict.fifo [OF this(2) order.refl] db
  show ?thesis by blast
qed

definition demo_hkdf :: hkdf where
  "demo_hkdf ikm info n = Some (take n (info @ ikm @ replicate n 0))"

definition demo_ecdh :: ecdh where
  "demo_ecdh a b = Some (map2 (+) (take 32 (a @ replicate 32 0)) b)"

definition demo_pub :: "bytes \<Rightarrow> bytes" where
  "demo_pub a = take 32 (a @ replicate 32 0)"

definition demo_record :: "byte \<Rightarrow> byte \<Rightarrow> PairingRecord" where
  "demo_record x y = NewPairingRecord ''peer'' ''https://relay''
     \<lparr>Private = replicate 32 x, Public = demo_pub (replicate 32 x)\<rparr> (demo_pub (replicate 32 y))"

lemma length_demo_pub [simp]: "length (demo_pub a) = 32"
  unfolding demo_pub_def length_take length_append length_replicate by linarith

lemma length_demo_hkdf: "\<exists>k. demo_hkdf x y n = Some k \<and> length k = n"
  unfolding demo_hkdf_def option.inject length_take length_append length_replicate by auto

lemma demo_dh_agree: "dh_agree demo_ecdh demo_pub"
proof -
  have "map2 (+) x y = map2 (+) y (x :: bytes)" for x y
    by (induction x y rule: list_induct2') (auto simp: add.commute)
  then show ?thesis unfolding dh_agree_def demo_ecdh_def demo_pub_def [symmetric] by simp
qed

lemma demo_derive:
  "\<exists>c. DeriveChannel demo_hkdf demo_ecdh (demo_record 1 2) [1] [2] (replicate 16 s) = Inr c"
proof -
  obtain shared where e: "demo_ecdh (replicate 32 1) (demo_pub (replicate 32 2)) = Some shared"
    by (simp only: demo_ecdh_def)
  obtain sk rk where "demo_hkdf shared ([1] @ replicate 16 s) 32 = Some sk" "length sk = 32"
    "demo_hkdf shared ([2] @ replicate 16 s) 32 = Some rk" "length rk = 32"
    using length_demo_hkdf by meson
  moreover then obtain c where "NewChannel sk rk = Inr c" by (simp add: NewChannel_eq)
  ultimately show ?thesis
    using e unfolding DeriveChannel_eq by (auto simp: demo_record_def NewPairingRecord_def SessionSaltLen_def)
qed

theorem derive_channel_peers_witness:
  "\<exists>ca cb c' cts d'. DeriveChannel demo_hkdf demo_ecdh (demo_record 1 2) [1] [2] (replicate 16 9) = Inr ca \<and>
    DeriveChannel demo_hkdf demo_ecdh (demo_record 2 1) [2] [1] (replicate 16 9) = Inr cb \<and>
    map_state (Encrypt demo_seal) ca [[5], [6]] = (c', map Inr cts) \<and>
    map_state (Decrypt demo_open) cb cts = (d', map Inr [[5], [6]])"
proof -
  obtain ca where ca: "DeriveChannel demo_hkdf demo_ecdh (demo_record 1 2) [1] [2] (replicate 16 9) = Inr ca"
    using demo_derive by blast
  show ?thesis
    using derive_channel_peers [OF demo_aead(1) demo_dh_agree, of "replicate 32 1" "replicate 32 2"
        "demo_record 1 2" "demo_record 2 1" demo_hkdf "[1]" "[2]" "replicate 16 9" ca "[[5], [6]]"] ca
    unfolding demo_record_def NewPairingRecord_def PairingRecord.simps KeyPair.simps
    by (metis length_replicate)
qed

text \<open>
  Reconnections do not share keys: under one pairing record, if two full-length session salts
  give the same send key then the salts are the same, or the two info strings the code built
  from them are an HKDF collision. Likewise one direction of a session shares its key with the
  other direction, of this session or of another, only when labels and salts are the same.
\<close>

theorem session_salt_separates:
  assumes "DeriveChannel hkdf ecdh r i j salt = Inr c" and "DeriveChannel hkdf ecdh r i j salt' = Inr c'"
    and "length salt = SessionSaltLen" and "length salt' = SessionSaltLen"
  shows "(sendGCM c = sendGCM c' \<longrightarrow> salt = salt' \<or> hkdf_collision hkdf (i @ salt) (i @ salt')) \<and>
         (sendGCM c = recvGCM c' \<longrightarrow> i = j \<and> salt = salt' \<or> hkdf_collision hkdf (i @ salt) (j @ salt'))"
proof -
  from assms(1) obtain s sk rk where 1: "ecdh (LocalPrivateKey r) (PeerPublicKey r) = Some s"
    "hkdf s (i @ salt) 32 = Some sk" "hkdf s (j @ salt) 32 = Some rk" "sendGCM c = sk" "recvGCM c = rk"
    by (auto simp: DeriveChannel_eq NewChannel_eq)
  from assms(2) 1(1) obtain sk' rk' where 2:
    "hkdf s (i @ salt') 32 = Some sk'" "hkdf s (j @ salt') 32 = Some rk'" "sendGCM c' = sk'" "recvGCM c' = rk'"
    by (auto simp: DeriveChannel_eq NewChannel_eq)
  have e: "i @ salt = j @ salt' \<longleftrightarrow> i = j \<and> salt = salt'"
    using assms(3,4) by (simp add: append_eq_append_conv)
  with 1 2 have "hkdf_collision hkdf (i @ salt) (i @ salt')" if "sk = sk'" "salt \<noteq> salt'"
    using that unfolding hkdf_collision_def by auto
  moreover have "hkdf_collision hkdf (i @ salt) (j @ salt')" if "sk = rk'" "\<not> (i = j \<and> salt = salt')"
    using that 1 2 e unfolding hkdf_collision_def by auto
  ultimately show ?thesis using 1(4) 2(3,4) by blast
qed

theorem session_salt_separates_witness:
  "\<exists>c c'. DeriveChannel demo_hkdf demo_ecdh (demo_record 1 2) [1] [2] (replicate 16 3) = Inr c \<and>
     DeriveChannel demo_hkdf demo_ecdh (demo_record 1 2) [1] [2] (replicate 16 4) = Inr c' \<and>
     sendGCM c \<noteq> sendGCM c'"
proof -
  obtain c c' where
    "DeriveChannel demo_hkdf demo_ecdh (demo_record 1 2) [1] [2] (replicate 16 3) = Inr c"
    "DeriveChannel demo_hkdf demo_ecdh (demo_record 1 2) [1] [2] (replicate 16 4) = Inr c'"
    using demo_derive by meson
  moreover have "\<not> hkdf_collision demo_hkdf ([1] @ replicate 16 3) ([1] @ replicate 16 4)"
    by (simp add: hkdf_collision_def demo_hkdf_def)
  moreover have "replicate 16 (3 :: byte) \<noteq> replicate 16 4" by (simp add: replicate_eq_replicate)
  ultimately show ?thesis
    using session_salt_separates [of demo_hkdf demo_ecdh "demo_record 1 2" "[1]" "[2]" "replicate 16 3" c "replicate 16 4" c']
    unfolding SessionSaltLen_def length_replicate by blast
qed


section \<open>Confirmation code and commitment\<close>

lemma bytes_compare_antisym: "bytes_compare b a = - bytes_compare a b"
  by (induction a b rule: bytes_compare.induct) auto

lemma bytes_compare_eq: "bytes_compare a b = 0 \<longleftrightarrow> a = b"
  by (induction a b rule: bytes_compare.induct) auto

lemma confirmation_ikm_sym:
  "(if bytes_compare a b > 0 then (b, a) else (a, b)) = (if bytes_compare b a > 0 then (a, b) else (b, a))"
  using bytes_compare_eq [of a b] by (auto simp: bytes_compare_antisym [of b a])

text \<open>The fixed-width digit loop, most significant digit first.\<close>

fun digits_fixed :: "nat \<Rightarrow> nat \<Rightarrow> string" where
  "digits_fixed 0 v = []" |
  "digits_fixed (Suc k) v = digits_fixed k (v div 10) @ [digit (v mod 10)]"

lemma length_digits_fixed [simp]: "length (digits_fixed k v) = k"
  by (induction k arbitrary: v) auto

lemma set_digits_fixed: "set (digits_fixed k v) \<subseteq> digit ` {..<10}"
  by (induction k arbitrary: v) auto

lemma digits_fixed_0: "digits_fixed k 0 = replicate k (digit 0)"
  by (induction k) (auto simp: replicate_append_same)

lemma pad_dec_digits:
  "n < 10 ^ Suc k \<Longrightarrow> length (dec_digits n) \<le> Suc k \<and>
     replicate (Suc k - length (dec_digits n)) (digit 0) @ dec_digits n = digits_fixed (Suc k) n"
proof (induction k arbitrary: n)
  case 0
  then show ?case by (subst dec_digits.simps) (simp add: dec_digits.simps [of n])
next
  case (Suc k)
  show ?case
  proof (cases "n < 10")
    case True
    then show ?thesis
      using digits_fixed_0 [of k] by (simp add: dec_digits.simps [of n] replicate_append_same)
  next
    case False
    have "n div 10 < 10 ^ Suc k" using Suc.prems by (simp add: less_mult_imp_div_less mult.commute)
    from Suc.IH [OF this] False show ?thesis
      by (simp add: dec_digits.simps [of n] del: digits_fixed.simps(2)) (simp add: digits_fixed.simps(2) [of "Suc k" n])
  qed
qed

lemma fmt_06d_eq: "n < 1000000 \<Longrightarrow> fmt_06d n = digits_fixed 6 n"
proof -
  assume "n < 1000000"
  then have "n < 10 ^ Suc 5" by simp
  moreover have six: "Suc 5 = 6" by simp
  ultimately show ?thesis
    using pad_dec_digits [of n 5] unfolding six fmt_06d_def Let_def by blast
qed

lemma unat_mod_million: "unat ((w :: u32) mod 1000000) = unat w mod 1000000"
  by (simp add: unat_mod_distrib)

lemma DeriveConfirmationCode_eq:
  "DeriveConfirmationCode hkdf a b =
     (case hkdf (if bytes_compare a b > 0 then b @ a else a @ b) (bytes_of_string ''pairing-confirmation'') 4 of
        None \<Rightarrow> Inl HkdfError
      | Some buf \<Rightarrow> Inr (digits_fixed 6 (unat (get_be buf :: u32) mod 1000000)))"
  by (auto simp: DeriveConfirmationCode_def Let_def unat_mod_million fmt_06d_eq split: option.splits)

lemma decimal_digits: "''0123456789'' = map digit [0..<10]"
  by code_simp

text \<open>
  The confirmation code does not depend on which side computes it, and it always shows as
  exactly six decimal digits.
\<close>

theorem confirmation_code_agrees:
  "DeriveConfirmationCode hkdf a b = DeriveConfirmationCode hkdf b a \<and>
   (case DeriveConfirmationCode hkdf a b of
      Inl e \<Rightarrow> e = HkdfError
    | Inr s \<Rightarrow> length s = 6 \<and> set s \<subseteq> set ''0123456789'')"
proof -
  have "digit ` {..<10} = set ''0123456789''"
    unfolding decimal_digits set_map set_upt lessThan_atLeast0 by (rule refl)
  then have "length (digits_fixed 6 n) = 6 \<and> set (digits_fixed 6 n) \<subseteq> set ''0123456789''" for n
    using set_digits_fixed [of 6 n] length_digits_fixed [of 6 n] by argo
  moreover have "DeriveConfirmationCode hkdf a b = DeriveConfirmationCode hkdf b a"
    unfolding DeriveConfirmationCode_def confirmation_ikm_sym [of a b] by (rule refl)
  ultimately show ?thesis by (simp add: DeriveConfirmationCode_eq split: option.splits)
qed

text \<open>
  (C37) A SAS commitment opens for the key and blinding it was made from, and for nothing else: two
  openings of one commitment are the same, unless they are a collision of the hash.
\<close>

theorem sas_commit_binds:
  "(SASCommit sha e b = Inr c \<and> length c = 32 \<longrightarrow> SASCommitVerify sha e b c) \<and>
   (SASCommitVerify sha e b c \<and> SASCommitVerify sha e' b' c \<longrightarrow>
      (e, b) = (e', b') \<or>
      sasCommitTag @ e @ b \<noteq> sasCommitTag @ e' @ b' \<and> sha (sasCommitTag @ e @ b) = sha (sasCommitTag @ e' @ b'))"
  by (auto simp: SASCommitVerify_def SASCommit_def split: if_splits)

theorem sas_commit_binds_witness:
  "SASCommitVerify (take 32 \<circ> drop 17) (replicate 32 1) (replicate 32 2) (replicate 32 1) \<and>
   SASCommitVerify (take 32 \<circ> drop 17) (replicate 32 1) (replicate 32 3) (replicate 32 1) \<and>
   sasCommitTag @ replicate 32 1 @ replicate 32 2 \<noteq> sasCommitTag @ replicate 32 1 @ replicate 32 3"
proof -
  have v: "SASCommitVerify (take 32 \<circ> drop 17) (replicate 32 1) (replicate 32 b) (replicate 32 1)" for b
    using conjunct1 [OF sas_commit_binds, of "take 32 \<circ> drop 17" "replicate 32 1" "replicate 32 b" "replicate 32 1"]
    by (simp add: SASCommit_def sasCommitTag_def bytes_of_string_def)
  have "(replicate 32 1 :: bytes, replicate 32 2 :: bytes) \<noteq> (replicate 32 1, replicate 32 3)"
    by (simp add: replicate_eq_replicate)
  with conjunct2 [OF sas_commit_binds, THEN mp, OF conjI [OF v [of 2] v [of 3]]] v show ?thesis by blast
qed

end
