(* ===== verification/CCrypto.thy ===== *)
theory CCrypto
  imports KeyDerivation
begin

text \<open>
  The C channel of \<open>c/src/crypto.c\<close> and its Go wrapper \<open>cwire\<close>, which is what a live session
  encrypts with: key derivation, confirmation code, commitment, \<open>pigeon_channel_encrypt\<close> and
  \<open>pigeon_channel_decrypt\<close>, and the session material with its per-stream and datagram
  sub-channels. libsodium's primitives are arguments: \<open>hmac key data\<close>, \<open>scalarmult\<close>, \<open>sha\<close>,
  \<open>aenc\<close> and \<open>adec\<close> (AES-256-GCM; \<open>None\<close> is a non-zero return). A C function that returns -1
  returns \<open>None\<close>; a buffer capacity is a natural number argument.
\<close>

type_synonym hmac = "bytes \<Rightarrow> bytes \<Rightarrow> bytes"
type_synonym aenc = "bytes \<Rightarrow> bytes \<Rightarrow> bytes \<Rightarrow> bytes \<Rightarrow> bytes option"

section \<open>Derivations\<close>

definition hkdf_sha256 :: "hmac \<Rightarrow> bytes \<Rightarrow> bytes \<Rightarrow> nat \<Rightarrow> bytes option" where
  "hkdf_sha256 hmac ikm info out_len =
     (let prk = hmac (replicate 32 0) ikm in
      if out_len > 32 then None
      else if length info > 255 then None
      else Some (hmac prk (info @ [0x01])))"

definition pigeon_derive_session_key ::
  "hmac \<Rightarrow> ecdh \<Rightarrow> bytes \<Rightarrow> bytes \<Rightarrow> bytes \<Rightarrow> bytes option" where
  "pigeon_derive_session_key hmac scalarmult private_key peer_public_key info =
     (case scalarmult private_key peer_public_key of
        None \<Rightarrow> None
      | Some shared \<Rightarrow> hkdf_sha256 hmac shared info 32)"

definition pigeon_diversify_key :: "hmac \<Rightarrow> bytes \<Rightarrow> bytes \<Rightarrow> bytes option" where
  "pigeon_diversify_key hmac base_key info = hkdf_sha256 hmac base_key info 32"

fun code_loop :: "nat \<Rightarrow> u32 \<Rightarrow> string \<Rightarrow> string" where
  "code_loop 0 val out_code = out_code" |
  "code_loop (Suc i) val out_code =
     code_loop i (val div 10) (out_code[i := char_of (48 + unat (val mod 10))])"

definition pigeon_derive_confirmation_code :: "hmac \<Rightarrow> bytes \<Rightarrow> bytes \<Rightarrow> string option" where
  "pigeon_derive_confirmation_code hmac pub_a pub_b =
     (let ikm = (if bytes_compare pub_a pub_b \<le> 0 then pub_a @ pub_b else pub_b @ pub_a) in
      case hkdf_sha256 hmac ikm (bytes_of_string ''pairing-confirmation'') 32 of
        None \<Rightarrow> None
      | Some derived \<Rightarrow>
          let val = push_bit 24 (ucast (derived ! 0)) OR push_bit 16 (ucast (derived ! 1)) OR
                    push_bit 8 (ucast (derived ! 2)) OR ucast (derived ! 3) :: u32
          in Some (code_loop 6 (val mod 1000000) (replicate 6 (CHR 0x00))))"

definition pigeon_sas_commit :: "(bytes \<Rightarrow> bytes) \<Rightarrow> bytes \<Rightarrow> bytes \<Rightarrow> bytes" where
  "pigeon_sas_commit sha eph_pub blind =
     sha (bytes_of_string ''pigeon-sas-commit'' @ take 32 eph_pub @ take 32 blind)"

definition pigeon_sas_commit_verify :: "(bytes \<Rightarrow> bytes) \<Rightarrow> bytes \<Rightarrow> bytes \<Rightarrow> bytes \<Rightarrow> bool" where
  "pigeon_sas_commit_verify sha eph_pub blind commit =
     (let expected = pigeon_sas_commit sha eph_pub blind in take 32 expected = take 32 commit)"

section \<open>The channel\<close>

datatype pigeon_channel_mode = PIGEON_MODE_STRICT | PIGEON_MODE_DATAGRAMS

record pigeon_channel =
  send_key :: bytes
  recv_key :: bytes
  send_seq :: u64
  recv_seq :: u64
  ch_mode :: pigeon_channel_mode
  established :: bool

definition pigeon_channel_init :: "bytes \<Rightarrow> bytes \<Rightarrow> pigeon_channel_mode \<Rightarrow> pigeon_channel" where
  "pigeon_channel_init sk rk m =
     \<lparr>send_key = take 32 sk, recv_key = take 32 rk, send_seq = 0, recv_seq = 0, ch_mode = m, established = True\<rparr>"

definition pigeon_channel_init_symmetric :: "hmac \<Rightarrow> bytes \<Rightarrow> bool \<Rightarrow> pigeon_channel option" where
  "pigeon_channel_init_symmetric hmac master_key is_server =
     (case hkdf_sha256 hmac master_key (bytes_of_string ''client-to-server'') 32 of
        None \<Rightarrow> None
      | Some c2s \<Rightarrow>
          (case hkdf_sha256 hmac master_key (bytes_of_string ''server-to-client'') 32 of
             None \<Rightarrow> None
           | Some s2c \<Rightarrow>
               Some (if is_server then pigeon_channel_init s2c c2s PIGEON_MODE_STRICT
                     else pigeon_channel_init c2s s2c PIGEON_MODE_STRICT)))"

definition ABYTES :: nat where "ABYTES = 16"

definition pigeon_channel_encrypt ::
  "aenc \<Rightarrow> pigeon_channel \<Rightarrow> bytes \<Rightarrow> nat \<Rightarrow> pigeon_channel \<times> bytes option" where
  "pigeon_channel_encrypt aenc ch plaintext out_len =
     (let needed = 8 + length plaintext + ABYTES in
      if out_len < needed then (ch, None)
      else
        let seq = send_seq ch;
            ch1 = ch\<lparr>send_seq := send_seq ch + 1\<rparr>;
            prefix = put_le 8 seq;
            nonce = prefix @ replicate 4 0
        in case aenc (send_key ch1) nonce plaintext prefix of
             None \<Rightarrow> (ch1, None)
           | Some ciphertext \<Rightarrow> (ch1, Some (prefix @ ciphertext)))"

definition pigeon_channel_decrypt ::
  "opener \<Rightarrow> pigeon_channel \<Rightarrow> bytes \<Rightarrow> nat \<Rightarrow> pigeon_channel \<times> bytes option" where
  "pigeon_channel_decrypt adec ch data out_len =
     (if length data < 8 + ABYTES then (ch, None)
      else
        let seq = get_le (take 8 data) in
        if (case ch_mode ch of
              PIGEON_MODE_STRICT \<Rightarrow> seq \<noteq> recv_seq ch
            | PIGEON_MODE_DATAGRAMS \<Rightarrow> seq < recv_seq ch) then (ch, None)
        else
          let nonce = take 8 data @ replicate 4 0;
              ciphertext_len = length data - 8
          in if out_len < ciphertext_len - ABYTES then (ch, None)
             else
               case adec (recv_key ch) nonce (drop 8 data) (take 8 data) of
                 None \<Rightarrow> (ch, None)
               | Some p \<Rightarrow>
                   (case ch_mode ch of
                      PIGEON_MODE_STRICT \<Rightarrow> (ch\<lparr>recv_seq := seq + 1\<rparr>, Some p)
                    | PIGEON_MODE_DATAGRAMS \<Rightarrow>
                        if seq \<ge> recv_seq ch then (ch\<lparr>recv_seq := seq + 1\<rparr>, Some p) else (ch, Some p)))"

section \<open>The Go wrapper\<close>

datatype cwire_error =
    ChannelKeyLength
  | EncryptFailed
  | DecryptTooShort
  | DecryptFailed
  | IkmLength
  | DiversifyFailed
  | RecordKeyLength
  | NonceLength
  | DeriveSendFailed
  | DeriveRecvFailed

definition cwire_NewChannel :: "bytes \<Rightarrow> bytes \<Rightarrow> string \<Rightarrow> cwire_error + pigeon_channel" where
  "cwire_NewChannel sendKey recvKey md =
     (if length sendKey \<noteq> 32 \<or> length recvKey \<noteq> 32 then Inl ChannelKeyLength
      else Inr (pigeon_channel_init sendKey recvKey
        (if md = ''datagram'' then PIGEON_MODE_DATAGRAMS else PIGEON_MODE_STRICT)))"

definition cwire_Encrypt :: "aenc \<Rightarrow> pigeon_channel \<Rightarrow> bytes \<Rightarrow> pigeon_channel \<times> (cwire_error + bytes)" where
  "cwire_Encrypt aenc ch plaintext =
     (case pigeon_channel_encrypt aenc ch plaintext (8 + length plaintext + 16) of
        (ch1, None) \<Rightarrow> (ch1, Inl EncryptFailed)
      | (ch1, Some out) \<Rightarrow> (ch1, Inr out))"

definition cwire_Decrypt :: "opener \<Rightarrow> pigeon_channel \<Rightarrow> bytes \<Rightarrow> pigeon_channel \<times> (cwire_error + bytes)" where
  "cwire_Decrypt adec ch data =
     (if length data < 8 + 16 then (ch, Inl DecryptTooShort)
      else case pigeon_channel_decrypt adec ch data (length data) of
             (ch1, None) \<Rightarrow> (ch1, Inl DecryptFailed)
           | (ch1, Some out) \<Rightarrow> (ch1, Inr out))"

record cwire_PairingRecord =
  cPeerInstanceID :: string
  LocalPrivKey :: bytes
  LocalPubKey :: bytes
  PeerPubKey :: bytes

record SessionMaterial =
  SendKey :: bytes
  RecvKey :: bytes

definition aeadStreamInfoPrefix :: string where "aeadStreamInfoPrefix = ''pigeon/v1/stream:''"
definition aeadDatagramInfo :: string where "aeadDatagramInfo = ''pigeon/v1/datagram''"
definition nonceLen :: nat where "nonceLen = 16"

definition ExpandKey :: "hmac \<Rightarrow> bytes \<Rightarrow> string \<Rightarrow> cwire_error + bytes" where
  "ExpandKey hmac ikm info =
     (if length ikm \<noteq> 32 then Inl IkmLength
      else case pigeon_diversify_key hmac ikm (bytes_of_string info) of
             None \<Rightarrow> Inl DiversifyFailed
           | Some out \<Rightarrow> Inr out)"

definition sub_channel :: "hmac \<Rightarrow> SessionMaterial \<Rightarrow> string \<Rightarrow> string \<Rightarrow> cwire_error + pigeon_channel" where
  "sub_channel hmac m info md =
     (case ExpandKey hmac (SendKey m) info of
        Inl e \<Rightarrow> Inl e
      | Inr sk \<Rightarrow>
          (case ExpandKey hmac (RecvKey m) info of
             Inl e \<Rightarrow> Inl e
           | Inr rk \<Rightarrow> cwire_NewChannel sk rk md))"

definition StreamChannel :: "hmac \<Rightarrow> SessionMaterial \<Rightarrow> string \<Rightarrow> cwire_error + pigeon_channel" where
  "StreamChannel hmac m name = sub_channel hmac m (aeadStreamInfoPrefix @ name) ''stream''"

definition DatagramChannel :: "hmac \<Rightarrow> SessionMaterial \<Rightarrow> cwire_error + pigeon_channel" where
  "DatagramChannel hmac m = sub_channel hmac m aeadDatagramInfo ''datagram''"

definition DeriveSessionMaterial ::
  "hmac \<Rightarrow> ecdh \<Rightarrow> cwire_PairingRecord \<Rightarrow> bool \<Rightarrow> bytes \<Rightarrow> cwire_error + SessionMaterial" where
  "DeriveSessionMaterial hmac scalarmult rec isBackend nonce =
     (if length (LocalPrivKey rec) \<noteq> 32 \<or> length (PeerPubKey rec) \<noteq> 32 then Inl RecordKeyLength
      else if length nonce \<noteq> nonceLen then Inl NonceLength
      else
        let clientToBackend = ''client->backend'';
            backendToClient = ''backend->client'';
            (sendLabel, recvLabel) =
              (if isBackend then (backendToClient, clientToBackend) else (clientToBackend, backendToClient))
        in case pigeon_derive_session_key hmac scalarmult (LocalPrivKey rec) (PeerPubKey rec)
                  (bytes_of_string sendLabel @ nonce) of
             None \<Rightarrow> Inl DeriveSendFailed
           | Some sk \<Rightarrow>
               (case pigeon_derive_session_key hmac scalarmult (LocalPrivKey rec) (PeerPubKey rec)
                       (bytes_of_string recvLabel @ nonce) of
                  None \<Rightarrow> Inl DeriveRecvFailed
                | Some rk \<Rightarrow> Inr \<lparr>SendKey = sk, RecvKey = rk\<rparr>))"

definition DeriveSessionChannel ::
  "hmac \<Rightarrow> ecdh \<Rightarrow> cwire_PairingRecord \<Rightarrow> bool \<Rightarrow> bytes \<Rightarrow> cwire_error + pigeon_channel" where
  "DeriveSessionChannel hmac scalarmult rec isBackend nonce =
     (case DeriveSessionMaterial hmac scalarmult rec isBackend nonce of
        Inl e \<Rightarrow> Inl e
      | Inr m \<Rightarrow> cwire_NewChannel (SendKey m) (RecvKey m) ''stream'')"

end
