(* ===== verification/CChannel.thy ===== *)
theory CChannel
  imports CCrypto
begin

text \<open>
  Properties of the C channel and its wrapper: the channel contracts, what a rejected packet
  leaves behind, and the replay window of a datagram channel.
\<close>

definition sodium_ok :: "aenc \<Rightarrow> opener \<Rightarrow> seal \<Rightarrow> bool" where
  "sodium_ok aenc adec seal \<longleftrightarrow>
     (\<forall>k n p a. aenc k n p a = Some (seal k n p a)) \<and> aead_correct seal adec \<and> aead_overhead 16 seal"

lemma demo_sodium: "sodium_ok (\<lambda>k n p a. Some (demo_seal k n p a)) demo_open demo_seal"
  by (simp add: sodium_ok_def demo_aead)

section \<open>The channel contracts\<close>

lemma cwire_Encrypt_eq:
  "sodium_ok aenc adec seal \<Longrightarrow>
   cwire_Encrypt aenc c p = (c\<lparr>send_seq := send_seq c + 1\<rparr>, Inr (packet seal (send_key c) (send_seq c) p))"
  by (simp add: cwire_Encrypt_def pigeon_channel_encrypt_def sodium_ok_def ABYTES_def packet_def nonce_of_def Let_def)

lemma length_packet_sodium: "sodium_ok aenc adec seal \<Longrightarrow> length (packet seal k s p) = 24 + length p"
  by (simp add: packet_def sodium_ok_def aead_overheadD [of 16])

definition stale :: "pigeon_channel \<Rightarrow> u64 \<Rightarrow> bool" where
  "stale c s = (case ch_mode c of PIGEON_MODE_STRICT \<Rightarrow> s \<noteq> recv_seq c | PIGEON_MODE_DATAGRAMS \<Rightarrow> s < recv_seq c)"

lemma cwire_Decrypt_eq:
  "cwire_Decrypt adec c x =
     (if length x < 24 then (c, Inl DecryptTooShort)
      else if stale c (seq_of x) then (c, Inl DecryptFailed)
      else case adec (recv_key c) (nonce_of (seq_of x)) (drop 8 x) (take 8 x) of
             None \<Rightarrow> (c, Inl DecryptFailed)
           | Some p \<Rightarrow> (c\<lparr>recv_seq := seq_of x + 1\<rparr>, Inr p))"
proof (cases "length x < 24")
  case False
  then have n: "take 8 x @ replicate 4 0 = nonce_of (seq_of x)"
    using put_le_get_le [of "take 8 x", where 'a = 64] by (simp add: nonce_of_def seq_of_def)
  have "\<not> length x < length x - 8 - 16" by simp
  with False show ?thesis
    unfolding cwire_Decrypt_def pigeon_channel_decrypt_def n Let_def ABYTES_def seq_of_def [symmetric]
    by (cases "ch_mode c") (auto simp: stale_def not_less split: option.splits)
qed (simp add: cwire_Decrypt_def)

lemma cwire_Decrypt_packet:
  assumes "sodium_ok aenc adec seal" and "recv_key d = k"
  shows "cwire_Decrypt adec d (packet seal k s p) =
    (case ch_mode d of
       PIGEON_MODE_STRICT \<Rightarrow> if s \<noteq> recv_seq d then (d, Inl DecryptFailed) else (d\<lparr>recv_seq := s + 1\<rparr>, Inr p)
     | PIGEON_MODE_DATAGRAMS \<Rightarrow> if s < recv_seq d then (d, Inl DecryptFailed) else (d\<lparr>recv_seq := s + 1\<rparr>, Inr p))"
  using assms length_packet_sodium [OF assms(1), of k s p]
  by (auto simp: cwire_Decrypt_eq stale_def sodium_ok_def aead_correctD split: pigeon_channel_mode.splits)

definition c_strict_sync :: "aenc \<Rightarrow> opener \<Rightarrow> seal \<Rightarrow> nat \<Rightarrow> pigeon_channel \<Rightarrow> pigeon_channel \<Rightarrow> bool" where
  "c_strict_sync aenc adec seal n c d \<longleftrightarrow>
     sodium_ok aenc adec seal \<and> ch_mode d = PIGEON_MODE_STRICT \<and> recv_key d = send_key c \<and> recv_seq d = send_seq c"

definition c_datagram_sync :: "aenc \<Rightarrow> opener \<Rightarrow> seal \<Rightarrow> nat \<Rightarrow> pigeon_channel \<Rightarrow> pigeon_channel \<Rightarrow> bool" where
  "c_datagram_sync aenc adec seal n c d \<longleftrightarrow>
     sodium_ok aenc adec seal \<and> ch_mode d = PIGEON_MODE_DATAGRAMS \<and> recv_key d = send_key c \<and>
     recv_seq d \<le> send_seq c \<and> unat (send_seq c) + n < 2 ^ 64"

interpretation cstrict: secure_channel "cwire_Encrypt aenc" "cwire_Decrypt adec" "c_strict_sync aenc adec seal"
  for aenc adec seal
  by unfold_locales (auto simp: cwire_Encrypt_eq cwire_Decrypt_packet c_strict_sync_def)

interpretation cdgram: lossy_channel "cwire_Encrypt aenc" "cwire_Decrypt adec" "c_datagram_sync aenc adec seal"
  for aenc adec seal
proof unfold_locales
  fix n c d p c' ct
  assume s: "c_datagram_sync aenc adec seal (Suc n) c d" and e: "cwire_Encrypt aenc c p = (c', Inr ct)"
  then have ok: "sodium_ok aenc adec seal" by (simp add: c_datagram_sync_def)
  from e have c': "c' = c\<lparr>send_seq := send_seq c + 1\<rparr>" and ct: "ct = packet seal (send_key c) (send_seq c) p"
    by (auto simp: cwire_Encrypt_eq [OF ok])
  note step = word_le_succ [of "recv_seq d" "send_seq c"]
  show "\<exists>d'. cwire_Decrypt adec d ct = (d', Inr p) \<and> c_datagram_sync aenc adec seal n c' d'"
    using s step unfolding ct c' by (auto simp: cwire_Decrypt_packet c_datagram_sync_def not_less)
  show "c_datagram_sync aenc adec seal n c' d"
    using s step unfolding c' by (auto simp: c_datagram_sync_def)
qed (auto simp: cwire_Encrypt_eq c_datagram_sync_def)

lemma cwire_Decrypt_Inl: "cwire_Decrypt adec c x = (c', Inl e) \<Longrightarrow> c' = c"
  by (auto simp: cwire_Decrypt_eq split: if_splits option.splits)

lemma cwire_Decrypt_Inr:
  "cwire_Decrypt adec c x = (c', Inr p) \<longleftrightarrow>
   24 \<le> length x \<and> \<not> stale c (seq_of x) \<and> c' = c\<lparr>recv_seq := seq_of x + 1\<rparr> \<and>
   adec (recv_key c) (nonce_of (seq_of x)) (drop 8 x) (take 8 x) = Some p"
  by (auto simp: cwire_Decrypt_eq split: if_splits option.splits)

text \<open>
  The window's contract covers every packet but a genuine one that carries the last counter; a
  forged one may carry any.
\<close>

definition c_window_ok :: "opener \<Rightarrow> bytes \<Rightarrow> bytes \<Rightarrow> bool" where
  "c_window_ok adec k x \<longleftrightarrow>
     seq_of x \<noteq> max_seq \<or> adec k (nonce_of (seq_of x)) (drop 8 x) (take 8 x) = None"

interpretation cwindow: replay_window "cwire_Decrypt adec" "\<lambda>x. unat (seq_of x)" "\<lambda>c. unat (recv_seq c)"
  "\<lambda>c. ch_mode c = PIGEON_MODE_DATAGRAMS \<and> recv_key c = k" "c_window_ok adec k" for adec k
proof unfold_locales
  fix c c' :: pigeon_channel and x e
  assume "ch_mode c = PIGEON_MODE_DATAGRAMS \<and> recv_key c = k" and "cwire_Decrypt adec c x = (c', Inl e)"
  then show "(ch_mode c' = PIGEON_MODE_DATAGRAMS \<and> recv_key c' = k) \<and> unat (recv_seq c) \<le> unat (recv_seq c')"
    using cwire_Decrypt_Inl by blast
next
  fix c c' :: pigeon_channel and x p
  assume m: "ch_mode c = PIGEON_MODE_DATAGRAMS \<and> recv_key c = k" and x: "c_window_ok adec k x"
    and "cwire_Decrypt adec c x = (c', Inr p)"
  from this(3) [unfolded cwire_Decrypt_Inr] m
  have c': "c' = c\<lparr>recv_seq := seq_of x + 1\<rparr>" and le: "recv_seq c \<le> seq_of x"
    and o: "adec k (nonce_of (seq_of x)) (drop 8 x) (take 8 x) = Some p" by (auto simp: stale_def)
  from o x have "unat (seq_of x + 1) = unat (seq_of x) + 1" by (intro unat_succ) (auto simp: c_window_ok_def)
  with c' le m show "(ch_mode c' = PIGEON_MODE_DATAGRAMS \<and> recv_key c' = k) \<and>
      unat (recv_seq c) \<le> unat (seq_of x) \<and> unat (seq_of x) < unat (recv_seq c')"
    by (simp add: word_le_nat_alt)
qed

lemma cwire_Decrypt_genuine:
  assumes "aead_authentic seal adec" and "cwire_Decrypt adec c x = (c', Inr p)"
  shows "x = packet seal (recv_key c) (seq_of x) p"
proof -
  note i = assms(2) [unfolded cwire_Decrypt_Inr]
  have t: "put_le 8 (seq_of x) = take 8 x"
    using put_le_get_le [of "take 8 x", where 'a = 64] i by (simp add: seq_of_def)
  have "drop 8 x = seal (recv_key c) (nonce_of (seq_of x)) p (take 8 x)"
    using aead_authenticD [OF assms(1)] i by blast
  then show ?thesis unfolding packet_def t by (metis append_take_drop_id)
qed



text \<open>
  The C datagram channel never accepts two packets of one counter, whatever forged packets come
  in between, even ones that claim the last counter; only a genuine packet of the last counter,
  which a peer reaches after \<open>2^64 - 1\<close> others, is outside the contract.
\<close>

theorem c_datagram_no_replay:
  assumes "ch_mode c = PIGEON_MODE_DATAGRAMS" and "list_all (c_window_ok adec (recv_key c)) xs"
  shows "sorted_wrt (<) (accepted_seqs (cwire_Decrypt adec) (\<lambda>x. unat (seq_of x)) c xs)"
  using cwindow.accepted_increasing [of c "recv_key c" adec xs] assms by blast

theorem c_datagram_no_replay_witness:
  "sorted_wrt (<) (accepted_seqs (cwire_Decrypt demo_open) (\<lambda>x. unat (seq_of x))
     (pigeon_channel_init [1] [2] PIGEON_MODE_DATAGRAMS)
     [packet demo_seal [2] 3 [7], put_le 8 max_seq @ [0], packet demo_seal [2] 3 [7]])"
proof -
  have "c_window_ok demo_open [2] (packet demo_seal [2] 3 [7])" by (simp add: c_window_ok_def max_seq_def)
  moreover have "c_window_ok demo_open [2] (put_le 8 max_seq @ [0])" by (simp add: c_window_ok_def demo_open_def)
  ultimately show ?thesis
    by (intro c_datagram_no_replay) (simp_all add: pigeon_channel_init_def del: accepted_seqs.simps)
qed

end
