(* ===== verification/SecureStream.thy ===== *)
theory SecureStream
  imports SessionKeys Framing
begin

text \<open>
  The encrypted streams of a session (\<open>api.go\<close>): \<open>streamChannel\<close>, which caches one strict channel
  per stream name, and \<open>Stream.Send\<close>/\<open>Stream.Recv\<close>. A stream refers to the session's cached
  channel of its name, so all streams of one name share it. \<open>Stream.Send\<close> is two steps, each
  under its own lock: \<open>send_encrypt\<close> (the channel's mutex) and \<open>send_write\<close> (\<open>sendMu\<close>); the
  sequential composition is \<open>Stream_Send\<close>. \<open>Stream.Recv\<close> reads in a goroutine; \<open>cancelled\<close> says that
  the caller's context ended before the goroutine delivered its result.
\<close>

record stream_keys =
  material :: "SessionMaterial option"
  streamChans :: "string \<rightharpoonup> pigeon_channel"

record Stream =
  stream_name :: string
  has_channel :: bool

datatype 'e stream_error =
    StreamNilChannel
  | StreamEncrypt cwire_error
  | StreamWrite "'e write_error"
  | StreamRead read_error
  | StreamDecrypt cwire_error
  | StreamCtxDone

definition streamChannel :: "hmac \<Rightarrow> stream_keys \<Rightarrow> string \<Rightarrow> stream_keys \<times> bool" where
  "streamChannel hmac s name =
     (case material s of
        None \<Rightarrow> (s, False)
      | Some m \<Rightarrow>
          (case streamChans s name of
             Some ch \<Rightarrow> (s, True)
           | None \<Rightarrow>
               (case StreamChannel hmac m name of
                  Inl e \<Rightarrow> (s, False)
                | Inr ch \<Rightarrow> (s\<lparr>streamChans := (streamChans s)(name \<mapsto> ch)\<rparr>, True))))"

definition bind_stream :: "hmac \<Rightarrow> stream_keys \<Rightarrow> string \<Rightarrow> stream_keys \<times> Stream" where
  "bind_stream hmac s name =
     (case streamChannel hmac s name of (s1, ok) \<Rightarrow> (s1, \<lparr>stream_name = name, has_channel = ok\<rparr>))"

definition send_encrypt :: "aenc \<Rightarrow> stream_keys \<Rightarrow> Stream \<Rightarrow> bytes \<Rightarrow> stream_keys \<times> ('e stream_error + bytes)" where
  "send_encrypt aenc s st msg =
     (if \<not> has_channel st then (s, Inr msg)
      else case streamChans s (stream_name st) of
             None \<Rightarrow> (s, Inl StreamNilChannel)
           | Some ch \<Rightarrow>
               (case cwire_Encrypt aenc ch msg of
                  (ch1, r) \<Rightarrow>
                    (s\<lparr>streamChans := (streamChans s)(stream_name st \<mapsto> ch1)\<rparr>,
                     case r of Inl e \<Rightarrow> Inl (StreamEncrypt e) | Inr ct \<Rightarrow> Inr ct)))"

definition send_write :: "('w \<Rightarrow> bytes \<Rightarrow> 'w \<times> 'e option) \<Rightarrow> 'w \<Rightarrow> bytes \<Rightarrow> 'w \<times> 'e stream_error option" where
  "send_write write w payload =
     (case writeMessage write w payload of (w1, r) \<Rightarrow> (w1, map_option StreamWrite r))"

definition Stream_Send ::
  "('w \<Rightarrow> bytes \<Rightarrow> 'w \<times> 'e option) \<Rightarrow> aenc \<Rightarrow> stream_keys \<Rightarrow> Stream \<Rightarrow> 'w \<Rightarrow> bytes \<Rightarrow>
   stream_keys \<times> 'w \<times> 'e stream_error option" where
  "Stream_Send write aenc s st w msg =
     (case send_encrypt aenc s st msg of
        (s1, Inl e) \<Rightarrow> (s1, w, Some e)
      | (s1, Inr payload) \<Rightarrow> (case send_write write w payload of (w1, r) \<Rightarrow> (s1, w1, r)))"

definition Stream_Recv ::
  "opener \<Rightarrow> stream_keys \<Rightarrow> Stream \<Rightarrow> bytes \<Rightarrow> bool \<Rightarrow> stream_keys \<times> bytes \<times> (unit stream_error + bytes)" where
  "Stream_Recv adec s st r cancelled =
     (let (s1, r1, res) =
        (case readMessage r of
           Inl e \<Rightarrow> (s, r, Inl (StreamRead e))
         | Inr (raw, r1) \<Rightarrow>
             if \<not> has_channel st then (s, r1, Inr raw)
             else case streamChans s (stream_name st) of
                    None \<Rightarrow> (s, r1, Inl StreamNilChannel)
                  | Some ch \<Rightarrow>
                      (case cwire_Decrypt adec ch raw of
                         (ch1, res) \<Rightarrow>
                           (s\<lparr>streamChans := (streamChans s)(stream_name st \<mapsto> ch1)\<rparr>, r1,
                            case res of Inl e \<Rightarrow> Inl (StreamDecrypt e) | Inr p \<Rightarrow> Inr p)))
      in (s1, r1, if cancelled then Inl StreamCtxDone else res))"

text \<open>Sending and receiving several messages on one stream.\<close>

definition send_all ::
  "aenc \<Rightarrow> stream_keys \<Rightarrow> Stream \<Rightarrow> bytes \<Rightarrow> bytes list \<Rightarrow> (stream_keys \<times> bytes) \<times> unit stream_error option list" where
  "send_all aenc s st w ms =
     map_state (\<lambda>(s, w) m. case Stream_Send buf_write aenc s st w m of (s1, w1, r) \<Rightarrow> ((s1, w1), r)) (s, w) ms"

definition recv_all ::
  "opener \<Rightarrow> stream_keys \<Rightarrow> Stream \<Rightarrow> bytes \<Rightarrow> nat \<Rightarrow> (stream_keys \<times> bytes) \<times> (unit stream_error + bytes) list" where
  "recv_all adec s st r n =
     map_state (\<lambda>(s, r) _. case Stream_Recv adec s st r False of (s1, r1, x) \<Rightarrow> ((s1, r1), x)) (s, r) (replicate n ())"

section \<open>Binding a stream\<close>

lemma bind_stream_activated:
  assumes "hmac_256 hmac" and "material_ok m" and "material s = Some m" and "streamChans s name = None"
  shows "bind_stream hmac s name =
    (if length name > 238 then (s, \<lparr>stream_name = name, has_channel = False\<rparr>)
     else (s\<lparr>streamChans := (streamChans s)(name \<mapsto>
            pigeon_channel_init (expand hmac (SendKey m) (aeadStreamInfoPrefix @ name))
              (expand hmac (RecvKey m) (aeadStreamInfoPrefix @ name)) PIGEON_MODE_STRICT)\<rparr>,
           \<lparr>stream_name = name, has_channel = True\<rparr>))"
  using assms by (simp add: bind_stream_def streamChannel_def StreamChannel_eq)

section \<open>One message\<close>

lemma send_encrypt_ok:
  assumes "sodium_ok aenc adec seal" and "has_channel st" and "streamChans s (stream_name st) = Some c"
  shows "send_encrypt aenc s st m =
    (s\<lparr>streamChans := (streamChans s)(stream_name st \<mapsto> c\<lparr>send_seq := send_seq c + 1\<rparr>)\<rparr>,
     Inr (packet seal (send_key c) (send_seq c) m))"
  using assms by (simp add: send_encrypt_def cwire_Encrypt_eq)

lemma Stream_Send_ok:
  assumes "sodium_ok aenc adec seal" and "has_channel st" and "streamChans s (stream_name st) = Some c"
    and "24 + length m \<le> MaxMessageSize"
  shows "Stream_Send buf_write aenc s st w m =
    (s\<lparr>streamChans := (streamChans s)(stream_name st \<mapsto> c\<lparr>send_seq := send_seq c + 1\<rparr>)\<rparr>,
     w @ enc_message (packet seal (send_key c) (send_seq c) m), None)"
  using assms length_packet_sodium [OF assms(1), of "send_key c" "send_seq c" m]
  by (simp add: Stream_Send_def send_encrypt_ok send_write_def writeMessage_buf)

lemma Stream_Recv_packet:
  assumes "sodium_ok aenc adec seal" and "has_channel st" and "streamChans s (stream_name st) = Some d"
    and "ch_mode d = PIGEON_MODE_STRICT" and "recv_key d = k" and "24 + length m \<le> MaxMessageSize"
  shows "Stream_Recv adec s st (enc_message (packet seal k q m) @ r) False =
    (if q = recv_seq d
     then (s\<lparr>streamChans := (streamChans s)(stream_name st \<mapsto> d\<lparr>recv_seq := q + 1\<rparr>)\<rparr>, r, Inr m)
     else (s\<lparr>streamChans := (streamChans s)(stream_name st \<mapsto> d)\<rparr>, r, Inl (StreamDecrypt DecryptFailed)))"
proof -
  have "readMessage (enc_message (packet seal k q m) @ r) = Inr (packet seal k q m, r)"
    using assms(6) length_packet_sodium [OF assms(1), of k q m] by (intro msg.dec_enc) simp
  then show ?thesis
    using assms by (simp add: Stream_Recv_def cwire_Decrypt_packet [OF assms(1)])
qed


section \<open>Runs of messages\<close>

definition sendable :: "bytes list \<Rightarrow> bool" where
  "sendable ms \<longleftrightarrow> list_all (\<lambda>m. 24 + length m \<le> MaxMessageSize) ms"

lemma send_all_Nil: "send_all aenc s st w [] = ((s, w), [])"
  by (simp add: send_all_def)

lemma send_all_Cons:
  "send_all aenc s st w (m # ms) =
     (case Stream_Send buf_write aenc s st w m of (s1, w1, r) \<Rightarrow>
        case send_all aenc s1 st w1 ms of (sw, rs) \<Rightarrow> (sw, r # rs))"
  by (simp add: send_all_def split: prod.splits)

lemma recv_all_0: "recv_all adec s st r 0 = ((s, r), [])"
  by (simp add: recv_all_def)

lemma recv_all_Suc:
  "recv_all adec s st r (Suc n) =
     (case Stream_Recv adec s st r False of (s1, r1, x) \<Rightarrow>
        case recv_all adec s1 st r1 n of (sr, xs) \<Rightarrow> (sr, x # xs))"
  by (simp add: recv_all_def split: prod.splits)

lemma send_all_ok:
  assumes "sodium_ok aenc adec seal" and "has_channel st"
  shows "streamChans s (stream_name st) = Some c \<Longrightarrow> sendable ms \<Longrightarrow>
    \<exists>s'. send_all aenc s st w ms =
      ((s', w @ concat (map enc_message (packets seal (send_key c) (send_seq c) ms))), replicate (length ms) None)"
proof (induction ms arbitrary: s w c)
  case Nil
  then show ?case by (simp add: send_all_Nil)
next
  case (Cons m ms)
  let ?c = "c\<lparr>send_seq := send_seq c + 1\<rparr>"
  let ?s = "s\<lparr>streamChans := (streamChans s)(stream_name st \<mapsto> ?c)\<rparr>"
  have m: "24 + length m \<le> MaxMessageSize" and ms: "sendable ms"
    using Cons.prems(2) by (simp_all add: sendable_def)
  have "streamChans ?s (stream_name st) = Some ?c" by simp
  from Cons.IH [OF this ms, of "w @ enc_message (packet seal (send_key c) (send_seq c) m)"]
  obtain s' where "send_all aenc ?s st (w @ enc_message (packet seal (send_key c) (send_seq c) m)) ms =
      ((s', (w @ enc_message (packet seal (send_key c) (send_seq c) m)) @
         concat (map enc_message (packets seal (send_key c) (send_seq c + 1) ms))), replicate (length ms) None)"
    by auto
  with Stream_Send_ok [OF assms Cons.prems(1) m, of w] show ?case by (simp add: send_all_Cons)
qed

lemma recv_all_ok:
  assumes "sodium_ok aenc adec seal" and "has_channel st"
  shows "\<lbrakk>streamChans s (stream_name st) = Some d; ch_mode d = PIGEON_MODE_STRICT; sendable ms\<rbrakk> \<Longrightarrow>
    \<exists>s'. recv_all adec s st (concat (map enc_message (packets seal (recv_key d) (recv_seq d) ms)) @ r) (length ms) =
      ((s', r), map Inr ms)"
proof (induction ms arbitrary: s d)
  case Nil
  then show ?case by (simp add: recv_all_0)
next
  case (Cons m ms)
  let ?d = "d\<lparr>recv_seq := recv_seq d + 1\<rparr>"
  let ?s = "s\<lparr>streamChans := (streamChans s)(stream_name st \<mapsto> ?d)\<rparr>"
  have m: "24 + length m \<le> MaxMessageSize" and ms: "sendable ms"
    using Cons.prems(3) by (simp_all add: sendable_def)
  have "streamChans ?s (stream_name st) = Some ?d" "ch_mode ?d = PIGEON_MODE_STRICT"
    using Cons.prems(2) by simp_all
  from Cons.IH [OF this ms] obtain s' where
    "recv_all adec ?s st (concat (map enc_message (packets seal (recv_key d) (recv_seq d + 1) ms)) @ r) (length ms) =
      ((s', r), map Inr ms)" by auto
  with Stream_Recv_packet [OF assms Cons.prems(1,2) refl m, of "recv_seq d"] show ?case
    by (simp add: recv_all_Suc)
qed

text \<open>Once a counter has been skipped, a strict receiver refuses everything that follows.\<close>

lemma recv_all_gap:
  assumes "sodium_ok aenc adec seal" and "has_channel st"
  shows "\<lbrakk>streamChans s (stream_name st) = Some d; ch_mode d = PIGEON_MODE_STRICT; sendable ms;
      \<And>i. i < length ms \<Longrightarrow> q + of_nat i \<noteq> recv_seq d\<rbrakk> \<Longrightarrow>
    snd (recv_all adec s st (concat (map enc_message (packets seal (recv_key d) q ms)) @ r) (length ms)) =
      replicate (length ms) (Inl (StreamDecrypt DecryptFailed))"
proof (induction ms arbitrary: s q)
  case Nil
  then show ?case by (simp add: recv_all_0)
next
  case (Cons m ms)
  let ?s = "s\<lparr>streamChans := (streamChans s)(stream_name st \<mapsto> d)\<rparr>"
  have m: "24 + length m \<le> MaxMessageSize" and ms: "sendable ms"
    using Cons.prems(3) by (simp_all add: sendable_def)
  have q: "q \<noteq> recv_seq d" using Cons.prems(4) [of 0] by simp
  have s: "streamChans ?s (stream_name st) = Some d" by simp
  have g: "q + 1 + of_nat i \<noteq> recv_seq d" if "i < length ms" for i
    using that Cons.prems(4) [of "Suc i"] by (simp add: add.assoc)
  from Cons.IH [OF s Cons.prems(2) ms g] show ?case
    using Stream_Recv_packet [OF assms Cons.prems(1,2) refl m, of q] q
    by (simp add: recv_all_Suc case_prod_beta)
qed

lemma seq_gap:
  fixes s g :: u64
  assumes "0 < unat g" and "unat g + n \<le> 2 ^ 64" and "i < n"
  shows "s + g + of_nat i \<noteq> s"
proof
  assume "s + g + of_nat i = s"
  then have z: "g + of_nat i = 0" by (simp add: add.assoc)
  have "i < 2 ^ 64" using assms(2,3) by linarith
  then have "unat (of_nat i :: u64) = i" by (rule unat_of_nat_u64)
  then have "unat (g + of_nat i) = (unat g + i) mod 2 ^ 64" by (simp add: unat_word_ariths)
  also have "\<dots> = unat g + i" using assms(2,3) by (intro mod_less) linarith
  finally show False using z assms(1) by simp
qed

section \<open>Properties\<close>

text \<open>
  (C2) End to end: two sessions with crossed key material bind a stream of the same name, of at most
  238 bytes; whatever messages one sends on it (each at most 24 bytes below the frame limit)
  are accepted by \<open>Send\<close>, and the other receives exactly them, in order, whatever follows on the
  wire.
\<close>

theorem stream_end_to_end:
  assumes "sodium_ok aenc adec seal" and "hmac_256 hmac" and "material_ok ma"
    and "material sa = Some ma" and "material sb = Some mb"
    and "SendKey mb = RecvKey ma" and "RecvKey mb = SendKey ma"
    and "streamChans sa name = None" and "streamChans sb name = None"
    and "length name \<le> 238" and "sendable ms"
  shows "case (bind_stream hmac sa name, bind_stream hmac sb name) of ((sa1, ta), (sb1, tb)) \<Rightarrow>
    case send_all aenc sa1 ta [] ms of ((sa2, w), rs) \<Rightarrow>
      rs = replicate (length ms) None \<and>
      (case recv_all adec sb1 tb (w @ rest) (length ms) of ((sb2, r), xs) \<Rightarrow> xs = map Inr ms \<and> r = rest)"
proof -
  have mb: "material_ok mb" using assms(3,6,7) by (simp add: material_ok_def)
  define ca where "ca = pigeon_channel_init (expand hmac (SendKey ma) (aeadStreamInfoPrefix @ name))
    (expand hmac (RecvKey ma) (aeadStreamInfoPrefix @ name)) PIGEON_MODE_STRICT"
  define cb where "cb = pigeon_channel_init (expand hmac (SendKey mb) (aeadStreamInfoPrefix @ name))
    (expand hmac (RecvKey mb) (aeadStreamInfoPrefix @ name)) PIGEON_MODE_STRICT"
  let ?t = "\<lparr>stream_name = name, has_channel = True\<rparr> :: Stream"
  let ?sa = "sa\<lparr>streamChans := (streamChans sa)(name \<mapsto> ca)\<rparr>"
  let ?sb = "sb\<lparr>streamChans := (streamChans sb)(name \<mapsto> cb)\<rparr>"
  have b: "bind_stream hmac sa name = (?sa, ?t)" "bind_stream hmac sb name = (?sb, ?t)"
    using assms(10) bind_stream_activated [OF assms(2,3,4,8)] bind_stream_activated [OF assms(2) mb assms(5,9)]
    by (simp_all add: ca_def cb_def)
  have keys: "recv_key cb = send_key ca" "recv_seq cb = send_seq ca" "ch_mode cb = PIGEON_MODE_STRICT"
    using assms(6,7) by (simp_all add: ca_def cb_def pigeon_channel_init_def)
  have t: "has_channel ?t" and sa: "streamChans ?sa (stream_name ?t) = Some ca"
    and sb: "streamChans ?sb (stream_name ?t) = Some cb" by simp_all
  from send_all_ok [OF assms(1) t sa assms(11), of "[]"] obtain sa2 where
    "send_all aenc ?sa ?t [] ms = ((sa2, concat (map enc_message (packets seal (send_key ca) (send_seq ca) ms))),
       replicate (length ms) None)" by auto
  moreover from recv_all_ok [OF assms(1) t sb keys(3) assms(11), of rest] obtain sb2 where
    "recv_all adec ?sb ?t (concat (map enc_message (packets seal (send_key ca) (send_seq ca) ms)) @ rest) (length ms) =
       ((sb2, rest), map Inr ms)" unfolding keys by auto
  ultimately show ?thesis unfolding b by simp
qed

definition demo_keys :: "byte \<Rightarrow> byte \<Rightarrow> stream_keys" where
  "demo_keys x y = \<lparr>material = Some \<lparr>SendKey = replicate 32 x, RecvKey = replicate 32 y\<rparr>, streamChans = Map.empty\<rparr>"

abbreviation demo_aenc :: aenc where
  "demo_aenc \<equiv> \<lambda>k n p a. Some (demo_seal k n p a)"

theorem stream_end_to_end_witness:
  "case (bind_stream demo_hmac (demo_keys 1 2) ''chat'', bind_stream demo_hmac (demo_keys 2 1) ''chat'') of
     ((sa1, ta), (sb1, tb)) \<Rightarrow>
    case send_all demo_aenc sa1 ta [] [[1], [2]] of ((sa2, w), rs) \<Rightarrow>
      rs = [None, None] \<and>
      (case recv_all demo_open sb1 tb (w @ [9]) 2 of ((sb2, r), xs) \<Rightarrow> xs = [Inr [1], Inr [2]] \<and> r = [9])"
proof -
  let ?ma = "\<lparr>SendKey = replicate 32 1, RecvKey = replicate 32 2\<rparr> :: SessionMaterial"
  let ?mb = "\<lparr>SendKey = replicate 32 2, RecvKey = replicate 32 1\<rparr> :: SessionMaterial"
  have two: "length [[1 :: byte], [2]] = 2" and rep: "replicate 2 (None :: unit stream_error option) = [None, None]"
    by (simp_all add: numeral_2_eq_2)
  have "material_ok ?ma" "material (demo_keys 1 2) = Some ?ma" "material (demo_keys 2 1) = Some ?mb"
    "streamChans (demo_keys x y) n = None" "sendable [[1], [2]]" "length ''chat'' \<le> 238" for x y n
    by (simp_all add: material_ok_def demo_keys_def sendable_def MaxMessageSize_def)
  from stream_end_to_end [OF demo_sodium demo_hmac_256 this(1-3) _ _ this(4) this(4) this(6) this(5), of "[9]"]
  show ?thesis unfolding two rep by simp
qed


text \<open>
  What a fresh stream of an activated session puts on the wire depends on the length of its
  name. Up to 238 bytes it is the message sealed under the stream's own key; above that the key
  derivation fails, \<open>streamChannel\<close> returns nil after logging, \<open>Send\<close> takes the session for a
  pairing-mode one, and the message goes out in clear.
\<close>

theorem stream_wire_bytes:
  assumes "sodium_ok aenc adec seal" and "hmac_256 hmac" and "material_ok m"
    and "material s = Some m" and "streamChans s name = None" and "24 + length msg \<le> MaxMessageSize"
  shows "case bind_stream hmac s name of (s1, t) \<Rightarrow>
    fst (snd (Stream_Send buf_write aenc s1 t w msg)) =
      w @ enc_message (if length name \<le> 238
        then packet seal (expand hmac (SendKey m) (aeadStreamInfoPrefix @ name)) 0 msg else msg)"
proof (cases "length name \<le> 238")
  case True
  then show ?thesis
    using bind_stream_activated [OF assms(2-5)] length_expand [OF assms(2)] assms(6)
    by (simp add: Stream_Send_ok [OF assms(1)] pigeon_channel_init_def)
next
  case False
  then show ?thesis
    using bind_stream_activated [OF assms(2-5)] assms(6)
    by (simp add: Stream_Send_def send_encrypt_def send_write_def writeMessage_buf)
qed

theorem stream_wire_bytes_witness:
  "case bind_stream demo_hmac (demo_keys 1 2) (replicate 239 (CHR ''x'')) of (s1, t) \<Rightarrow>
    fst (snd (Stream_Send buf_write demo_aenc s1 t [] [5, 6])) = enc_message [5, 6]"
proof -
  let ?m = "\<lparr>SendKey = replicate 32 1, RecvKey = replicate 32 2\<rparr> :: SessionMaterial"
  have "material_ok ?m" "material (demo_keys 1 2) = Some ?m" "streamChans (demo_keys 1 2) n = None"
    "24 + length [5 :: byte, 6] \<le> MaxMessageSize" for n
    by (simp_all add: material_ok_def demo_keys_def MaxMessageSize_def)
  from stream_wire_bytes [OF demo_sodium demo_hmac_256 this, where w = "[]" and name = "replicate 239 (CHR ''x'')"]
  show ?thesis unfolding length_replicate append_Nil by simp
qed

text \<open>
  \<open>Send\<close> takes the next counter before it checks the frame limit. So one message that is too
  large, though refused with an error and never written, makes the peer refuse every later
  message of the stream, all of which \<open>Send\<close> reports as sent.
\<close>

theorem oversized_send_wedges_stream:
  assumes "sodium_ok aenc adec seal" and "has_channel t"
    and "streamChans sa (stream_name t) = Some c" and "streamChans sb (stream_name t) = Some d"
    and "recv_key d = send_key c" and "recv_seq d = send_seq c" and "ch_mode d = PIGEON_MODE_STRICT"
    and "MaxMessageSize < 24 + length big" and "sendable ms" and "length ms < 2 ^ 64"
  shows "case Stream_Send buf_write aenc sa t w big of (sa1, w1, r) \<Rightarrow>
    w1 = w \<and> r = Some (StreamWrite (WriteTooLarge (24 + length big))) \<and>
    (case send_all aenc sa1 t [] ms of ((sa2, u), rs) \<Rightarrow>
       rs = replicate (length ms) None \<and>
       snd (recv_all adec sb t u (length ms)) = replicate (length ms) (Inl (StreamDecrypt DecryptFailed)))"
proof -
  let ?c = "c\<lparr>send_seq := send_seq c + 1\<rparr>"
  let ?sa = "sa\<lparr>streamChans := (streamChans sa)(stream_name t \<mapsto> ?c)\<rparr>"
  have 1: "Stream_Send buf_write aenc sa t w big = (?sa, w, Some (StreamWrite (WriteTooLarge (24 + length big))))"
    using assms(8) length_packet_sodium [OF assms(1)]
    by (simp add: Stream_Send_def send_encrypt_ok [OF assms(1-3)] send_write_def writeMessage_def)
  have "streamChans ?sa (stream_name t) = Some ?c" by simp
  from send_all_ok [OF assms(1,2) this assms(9), of "[]"] obtain sa2 where
    2: "send_all aenc ?sa t [] ms =
      ((sa2, concat (map enc_message (packets seal (send_key c) (send_seq c + 1) ms))), replicate (length ms) None)"
    by auto
  have gap: "recv_seq d + 1 + of_nat i \<noteq> recv_seq d" if "i < length ms" for i
    using assms(10) that by (intro seq_gap [of 1 "length ms"]) simp_all
  have 3: "snd (recv_all adec sb t (concat (map enc_message (packets seal (send_key c) (send_seq c + 1) ms))) (length ms)) =
      replicate (length ms) (Inl (StreamDecrypt DecryptFailed))"
    using recv_all_gap [OF assms(1,2,4,7,9) gap, of "[]"] assms(5,6) by simp
  show ?thesis unfolding 1 prod.case 2 using 3 by simp
qed

definition demo_stream :: Stream where
  "demo_stream = \<lparr>stream_name = ''a'', has_channel = True\<rparr>"

definition demo_bound :: stream_keys where
  "demo_bound = \<lparr>material = None, streamChans = [''a'' \<mapsto> pigeon_channel_init [1] [1] PIGEON_MODE_STRICT]\<rparr>"

lemma demo_bound:
  "has_channel demo_stream" "streamChans demo_bound (stream_name demo_stream) = Some (pigeon_channel_init [1] [1] PIGEON_MODE_STRICT)"
  "recv_key (pigeon_channel_init [1] [1] PIGEON_MODE_STRICT) = send_key (pigeon_channel_init [1] [1] PIGEON_MODE_STRICT)"
  "recv_seq (pigeon_channel_init [1] [1] PIGEON_MODE_STRICT) = send_seq (pigeon_channel_init [1] [1] PIGEON_MODE_STRICT)"
  "ch_mode (pigeon_channel_init [1] [1] PIGEON_MODE_STRICT) = PIGEON_MODE_STRICT"
  by (simp_all add: demo_stream_def demo_bound_def pigeon_channel_init_def)

theorem oversized_send_wedges_stream_witness:
  "case Stream_Send buf_write demo_aenc demo_bound demo_stream [] (replicate 1048576 0) of (sa1, w1, r) \<Rightarrow>
    w1 = [] \<and> r = Some (StreamWrite (WriteTooLarge 1048600)) \<and>
    (case send_all demo_aenc sa1 demo_stream [] [[3]] of ((sa2, u), rs) \<Rightarrow>
       rs = [None] \<and> snd (recv_all demo_open demo_bound demo_stream u 1) = [Inl (StreamDecrypt DecryptFailed)])"
proof -
  have s: "MaxMessageSize < 24 + length (replicate 1048576 (0 :: byte))" "sendable [[3]]" "length [[3 :: byte]] < 2 ^ 64"
    by (simp_all add: sendable_def MaxMessageSize_def)
  have n: "length [[3 :: byte]] = 1" "replicate 1 z = [z]" "24 + length (replicate 1048576 (0 :: byte)) = 1048600" for z :: 'z
    by simp_all
  from oversized_send_wedges_stream [OF demo_sodium demo_bound(1,2,2,3,4,5) s, of "[]"] show ?thesis
    unfolding n .
qed

text \<open>
  \<open>Send\<close> releases the channel's lock before it takes the stream's. So two concurrent sends may
  write their packets in the other order; then the peer gets an error for the first packet, the
  message of the second, and an error for every message after that.
\<close>

theorem concurrent_sends_wedge_stream:
  assumes "sodium_ok aenc adec seal" and "has_channel t"
    and "streamChans sa (stream_name t) = Some c" and "streamChans sb (stream_name t) = Some d"
    and "recv_key d = send_key c" and "recv_seq d = send_seq c" and "ch_mode d = PIGEON_MODE_STRICT"
    and "sendable (a # b # ms)" and "length ms < 2 ^ 63"
  shows "\<exists>s1 s2 pa pb. send_encrypt aenc sa t a = (s1, Inr pa) \<and> send_encrypt aenc s1 t b = (s2, Inr pb) \<and>
    (case send_all aenc s2 t (fst (send_write buf_write (fst (send_write buf_write [] pb)) pa)) ms of ((s3, u), rs) \<Rightarrow>
       rs = replicate (length ms) None \<and>
       snd (recv_all adec sb t u (Suc (Suc (length ms)))) =
         Inl (StreamDecrypt DecryptFailed) # Inr a # replicate (length ms) (Inl (StreamDecrypt DecryptFailed)))"
proof -
  define q where "q = send_seq c"
  define k where "k = send_key c"
  let ?p = "packet seal k"
  let ?c1 = "c\<lparr>send_seq := q + 1\<rparr>" and ?c2 = "c\<lparr>send_seq := q + 1 + 1\<rparr>"
  let ?s1 = "sa\<lparr>streamChans := (streamChans sa)(stream_name t \<mapsto> ?c1)\<rparr>"
  let ?s2 = "sa\<lparr>streamChans := (streamChans sa)(stream_name t \<mapsto> ?c2)\<rparr>"
  have a: "24 + length a \<le> MaxMessageSize" and b: "24 + length b \<le> MaxMessageSize" and ms: "sendable ms"
    using assms(8) by (simp_all add: sendable_def)
  have e1: "send_encrypt aenc sa t a = (?s1, Inr (?p q a))"
    using send_encrypt_ok [OF assms(1-3)] by (simp add: q_def k_def)
  have e2: "send_encrypt aenc ?s1 t b = (?s2, Inr (?p (q + 1) b))"
    using send_encrypt_ok [OF assms(1,2), of ?s1 ?c1] by (simp add: k_def)
  let ?w = "enc_message (?p (q + 1) b) @ enc_message (?p q a)"
  have w: "fst (send_write buf_write (fst (send_write buf_write [] (?p (q + 1) b))) (?p q a)) = ?w"
    using a b length_packet_sodium [OF assms(1)] by (simp add: send_write_def writeMessage_buf)
  have "streamChans ?s2 (stream_name t) = Some ?c2" by simp
  from send_all_ok [OF assms(1,2) this ms, of ?w] obtain s3 where
    s: "send_all aenc ?s2 t ?w ms =
      ((s3, ?w @ concat (map enc_message (packets seal k (q + 1 + 1) ms))), replicate (length ms) None)"
    by (auto simp: k_def)
  let ?d = "d\<lparr>recv_seq := q + 1\<rparr>"
  let ?sb = "sb\<lparr>streamChans := (streamChans sb)(stream_name t \<mapsto> ?d)\<rparr>"
  have q1: "q + 1 \<noteq> q" by simp
  have gap: "q + 1 + 1 + of_nat i \<noteq> recv_seq ?d" if "i < length ms" for i
    using assms(9) that seq_gap [of 1 "length ms" i "q + 1"] by simp
  have "snd (recv_all adec ?sb t (concat (map enc_message (packets seal (recv_key ?d) (q + 1 + 1) ms)) @ []) (length ms)) =
      replicate (length ms) (Inl (StreamDecrypt DecryptFailed))"
    using assms(7) by (intro recv_all_gap [OF assms(1,2) _ _ ms gap]) simp_all
  then have "snd (recv_all adec sb t (?w @ concat (map enc_message (packets seal k (q + 1 + 1) ms))) (Suc (Suc (length ms)))) =
      Inl (StreamDecrypt DecryptFailed) # Inr a # replicate (length ms) (Inl (StreamDecrypt DecryptFailed))"
    using assms(5,6) q1 Stream_Recv_packet [OF assms(1,2,4,7) _ b, of k "q + 1"]
      Stream_Recv_packet [OF assms(1,2) _ assms(7) _ a, of "sb\<lparr>streamChans := (streamChans sb)(stream_name t \<mapsto> d)\<rparr>" k q]
    by (simp add: recv_all_Suc case_prod_beta k_def q_def)
  note r = this
  show ?thesis by (intro exI conjI, rule e1, rule e2) (simp only: w s r prod.case simp_thms)
qed

theorem concurrent_sends_wedge_stream_witness:
  "\<exists>s1 s2 pa pb. send_encrypt demo_aenc demo_bound demo_stream [1] = (s1, Inr pa) \<and>
    send_encrypt demo_aenc s1 demo_stream [2] = (s2, Inr pb) \<and>
    (case send_all demo_aenc s2 demo_stream (fst (send_write buf_write (fst (send_write buf_write [] pb)) pa)) [[3]] of
       ((s3, u), rs) \<Rightarrow> rs = [None] \<and>
         snd (recv_all demo_open demo_bound demo_stream u 3) =
           [Inl (StreamDecrypt DecryptFailed), Inr [1], Inl (StreamDecrypt DecryptFailed)])"
proof -
  have s: "sendable [[1], [2], [3]]" "length [[3 :: byte]] < 2 ^ 63"
    by (simp_all add: sendable_def MaxMessageSize_def)
  have n: "Suc (Suc (length [[3 :: byte]])) = 3" "replicate (length [[3 :: byte]]) z = [z]" for z :: 'z by simp_all
  from concurrent_sends_wedge_stream [OF demo_sodium demo_bound(1,2,2,3,4,5) s] show ?thesis
    unfolding n .
qed

text \<open>
  A \<open>Recv\<close> whose context ends while it waits leaves its reading goroutine behind, which takes the
  next message off the stream and drops it: the following \<open>Recv\<close> returns the message after it.
\<close>

theorem cancelled_recv_drops_message:
  assumes "sodium_ok aenc adec seal" and "has_channel t" and "streamChans s (stream_name t) = Some d"
    and "ch_mode d = PIGEON_MODE_STRICT" and "sendable [m1, m2]"
  shows "case Stream_Recv adec s t
      (concat (map enc_message (packets seal (recv_key d) (recv_seq d) [m1, m2])) @ rest) True of
    (s1, r1, x1) \<Rightarrow> x1 = Inl StreamCtxDone \<and>
      (case Stream_Recv adec s1 t r1 False of (s2, r2, x2) \<Rightarrow> x2 = Inr m2 \<and> r2 = rest)"
proof -
  let ?d = "d\<lparr>recv_seq := recv_seq d + 1\<rparr>"
  let ?s = "s\<lparr>streamChans := (streamChans s)(stream_name t \<mapsto> ?d)\<rparr>"
  have m: "24 + length m1 \<le> MaxMessageSize" "24 + length m2 \<le> MaxMessageSize"
    using assms(5) by (simp_all add: sendable_def)
  have c: "Stream_Recv adec s t r True = (s1, r1, Inl StreamCtxDone)"
    if "Stream_Recv adec s t r False = (s1, r1, x)" for r s1 r1 x
    using that by (auto simp: Stream_Recv_def Let_def split: prod.splits)
  have 1: "Stream_Recv adec s t (enc_message (packet seal (recv_key d) (recv_seq d) m1) @ r) True = (?s, r, Inl StreamCtxDone)" for r
    by (rule c) (simp add: Stream_Recv_packet [OF assms(1-4) refl m(1)])
  have "streamChans ?s (stream_name t) = Some ?d" "ch_mode ?d = PIGEON_MODE_STRICT" using assms(4) by simp_all
  from Stream_Recv_packet [OF assms(1,2) this refl m(2), of "recv_seq d + 1" rest] 1 show ?thesis by simp
qed

theorem cancelled_recv_drops_message_witness:
  "case Stream_Recv demo_open demo_bound demo_stream
      (concat (map enc_message (packets demo_seal [1] 0 [[7], [8]])) @ []) True of
    (s1, r1, x1) \<Rightarrow> x1 = Inl StreamCtxDone \<and>
      (case Stream_Recv demo_open s1 demo_stream r1 False of (s2, r2, x2) \<Rightarrow> x2 = Inr [8] \<and> r2 = [])"
proof -
  have s: "sendable [[7], [8]]" by (simp add: sendable_def MaxMessageSize_def)
  have k: "recv_key (pigeon_channel_init [1] [1] PIGEON_MODE_STRICT) = [1]"
    "recv_seq (pigeon_channel_init [1] [1] PIGEON_MODE_STRICT) = 0" by (simp_all add: pigeon_channel_init_def)
  from cancelled_recv_drops_message [OF demo_sodium demo_bound(1,2,5) s, of "[]"] show ?thesis
    unfolding k .
qed

end
