(* ===== verification/Fragment.thy ===== *)
theory Fragment
  imports Wire
begin

text \<open>
  Datagram parts (\<open>fragment.go\<close>): the outer framing of one QUIC datagram, either a whole
  message behind \<open>DgConnWhole\<close> or a fragment behind \<open>DgConnFragment\<close> with its message id,
  index and total. The lemmas give the round trip of a part, what the decoder guarantees of any
  datagram it accepts, and the arithmetic of the chunk budget.
\<close>

definition DgConnWhole :: byte where "DgConnWhole = 0x00"
definition DgConnFragment :: byte where "DgConnFragment = 0x40"
definition FragHeaderSize :: nat where "FragHeaderSize = 8"
definition MaxDatagramPayload :: int where "MaxDatagramPayload = 1200"

definition aeadOverhead :: int where
  "aeadOverhead = 8 + 16"

definition maxAppChunk :: "int \<Rightarrow> int \<Rightarrow> int \<Rightarrow> int" where
  "maxAppChunk maxPayload outerOverhead channelIDLen =
     (let budget = maxPayload - outerOverhead - aeadOverhead - channelIDLen in
      if budget < 1 then 1 else budget)"

definition encodePartWire :: "u32 \<Rightarrow> u16 \<Rightarrow> u16 \<Rightarrow> bytes \<Rightarrow> bytes" where
  "encodePartWire msgID index ttl ct =
     (if ttl \<le> 1 then DgConnWhole # ct
      else DgConnFragment # put_be 4 msgID @ put_be 2 index @ put_be 2 ttl @ ct)"

definition decodePartWire :: "bytes \<Rightarrow> (u32 \<times> u16 \<times> u16 \<times> bytes) option" where
  "decodePartWire data =
     (if length data < 2 then None
      else if data ! 0 = DgConnWhole then Some (0, 0, 1, drop 1 data)
      else if data ! 0 = DgConnFragment then
        (if length data < 1 + FragHeaderSize then None
         else
           let msgID = get_be (take 4 (drop 1 data));
               index = get_be (take 2 (drop 5 data));
               ttl = get_be (take 2 (drop 7 data))
           in if ttl < 2 \<or> index \<ge> ttl then None
              else Some (msgID, index, ttl, drop (1 + FragHeaderSize) data))
      else Some (0, 0, 1, data))"

record DatagramPart =
  MsgID :: u32
  Index :: u16
  Total :: u16
  Payload :: bytes

lemma length_encodePartWire:
  "length (encodePartWire msgID index ttl ct) =
     (if ttl \<le> 1 then 1 + length ct else 1 + FragHeaderSize + length ct)"
  by (simp add: encodePartWire_def FragHeaderSize_def)

lemma decode_encode_whole:
  assumes "ct \<noteq> []" and "ttl \<le> 1"
  shows "decodePartWire (encodePartWire msgID index ttl ct) = Some (0, 0, 1, ct)"
  using assms by (cases ct) (auto simp: decodePartWire_def encodePartWire_def)

lemma decode_encode_fragment:
  assumes "2 \<le> ttl" and "index < ttl"
  shows "decodePartWire (encodePartWire msgID index ttl ct) = Some (msgID, index, ttl, ct)"
proof -
  let ?m = "put_be 4 msgID" and ?i = "put_be 2 index" and ?t = "put_be 2 ttl"
  let ?d = "DgConnFragment # ?m @ ?i @ ?t @ ct"
  have not1: "\<not> ttl \<le> 1" using assms(1) by (auto simp: word_le_nat_alt)
  have not2: "\<not> ttl < 2" using assms(1) by (simp add: not_less)
  have d: "encodePartWire msgID index ttl ct = ?d" using not1 by (simp add: encodePartWire_def)
  have m: "take 4 (drop 1 ?d) = ?m" by simp
  have i: "take 2 (drop 5 ?d) = ?i" by simp
  have t: "take 2 (drop 7 ?d) = ?t" by simp
  have c: "drop (1 + FragHeaderSize) ?d = ct" by (simp add: FragHeaderSize_def)
  have gm: "(get_be ?m :: u32) = msgID" by (simp add: get_be_put_be)
  have gi: "(get_be ?i :: u16) = index" by (simp add: get_be_put_be)
  have gt: "(get_be ?t :: u16) = ttl" by (simp add: get_be_put_be)
  have ne: "DgConnFragment \<noteq> DgConnWhole" by (simp add: DgConnFragment_def DgConnWhole_def)
  show ?thesis
    unfolding d decodePartWire_def
    using ne not2 assms(2)
    by (simp only: m i t c gm gi gt Let_def) (simp add: FragHeaderSize_def not_le)
qed

text \<open>
  A part survives the wire: a whole message with a non-empty body comes back as part 0 of 1,
  and a fragment comes back with its message id, index, total and body, whatever they are, as
  long as the index is below a total of at least two.
\<close>

theorem part_wire_roundtrip:
  "(ttl \<le> 1 \<and> ct \<noteq> [] \<longrightarrow>
      decodePartWire (encodePartWire msgID index ttl ct) = Some (0, 0, 1, ct)) \<and>
   (2 \<le> ttl \<and> index < ttl \<longrightarrow>
      decodePartWire (encodePartWire msgID index ttl ct) = Some (msgID, index, ttl, ct))"
  by (auto intro: decode_encode_whole decode_encode_fragment)

theorem part_wire_roundtrip_witness:
  "decodePartWire (encodePartWire 7 0 1 [9]) = Some (0, 0, 1, [9]) \<and>
   decodePartWire (encodePartWire 7 1 3 [9]) = Some (7, 1, 3, [9])"
  using part_wire_roundtrip [of 1 "[9]" 7 0] part_wire_roundtrip [of 3 "[9]" 7 1] by simp

text \<open>
  Whatever datagram arrives from the network, an accepted part has an index below its total,
  and the decoding is canonical: either the datagram is exactly the encoding of the part it was
  decoded to, or its first byte is neither marker and it is passed on unframed as part 0 of 1.
\<close>

theorem part_wire_sound:
  assumes "decodePartWire data = Some (msgID, index, ttl, ct)"
  shows "index < ttl \<and>
    (data = encodePartWire msgID index ttl ct \<or>
     hd data \<notin> {DgConnWhole, DgConnFragment} \<and> (msgID, index, ttl, ct) = (0, 0, 1, data))"
proof -
  from assms obtain b body where data: "data = b # body" and ne: "body \<noteq> []"
    by (cases data) (auto simp: decodePartWire_def split: if_splits)
  consider "b = DgConnWhole" | "b = DgConnFragment" | "b \<notin> {DgConnWhole, DgConnFragment}" by blast
  then show ?thesis
  proof cases
    case 2
    then have fields: "8 \<le> length body" "msgID = get_be (take 4 body)"
      "index = get_be (take 2 (drop 4 body))" "ttl = get_be (take 2 (drop 6 body))"
      "ct = drop 8 body" "2 \<le> ttl" "index < ttl"
      using assms data
      by (auto simp: decodePartWire_def DgConnWhole_def DgConnFragment_def FragHeaderSize_def
          Let_def not_less not_le split: if_splits)
    have "put_be 4 msgID = take 4 body" "put_be 2 index = take 2 (drop 4 body)"
      "put_be 2 ttl = take 2 (drop 6 body)"
      using fields(1) put_be_get_be [of "take 4 body", where 'a = 32]
        put_be_get_be [of "take 2 (drop 4 body)", where 'a = 16]
        put_be_get_be [of "take 2 (drop 6 body)", where 'a = 16]
      unfolding fields(2-4) by (simp_all add: min_absorb2)
    then have "put_be 4 msgID @ put_be 2 index @ put_be 2 ttl @ ct = body"
      using append_take_drop_id [of 2 "drop 6 body"] append_take_drop_id [of 2 "drop 4 body"]
        append_take_drop_id [of 4 body] fields(5) by simp
    moreover have "\<not> ttl \<le> 1" using fields(6) by (auto simp: word_le_nat_alt)
    ultimately show ?thesis using fields(7) 2 data by (simp add: encodePartWire_def)
  qed (use assms data ne in \<open>auto simp: decodePartWire_def encodePartWire_def DgConnWhole_def
      DgConnFragment_def split: if_splits\<close>)
qed

theorem part_wire_sound_witness:
  "decodePartWire [0x40, 0, 0, 0, 7, 0, 1, 0, 3, 9] = Some (7, 1, 3, [9]) \<and>
   [0x40, 0, 0, 0, 7, 0, 1, 0, 3, 9] = encodePartWire 7 1 3 [9]"
proof -
  have "\<not> (3 :: u16) < 2 \<and> \<not> (1 :: u16) \<ge> 3" by (simp add: word_less_nat_alt word_le_nat_alt)
  then have d: "decodePartWire [0x40, 0, 0, 0, 7, 0, 1, 0, 3, 9] = Some (7, 1, 3, [9])"
    by (simp add: decodePartWire_def DgConnWhole_def DgConnFragment_def FragHeaderSize_def get_be_def)
  from part_wire_sound [OF d] d show ?thesis by (simp add: DgConnFragment_def)
qed

end
