(* ===== verification/Datagram.thy ===== *)
theory Datagram
  imports SessionKeys Fragment
begin

text \<open>
  The unreliable channels of a session (\<open>api.go\<close>): \<open>Datagram.Send\<close>, which splits a payload into
  independently sealed parts, and \<open>deliverIncomingDatagram\<close> with \<open>Datagram.Recv\<close> on the other side.
  The QUIC connection is a state with a send function that may fail. \<open>nextFragMsgID\<close> is threaded
  through \<open>Send\<close>. A slice out of range panics; \<open>SlicePanic\<close> marks that branch.
\<close>

record Datagram =
  dg_name :: string
  rx :: "DatagramPart list"

record dg_session =
  dgChannel :: "pigeon_channel option"
  maxDgPayload :: int
  datagrams :: "u64 \<rightharpoonup> Datagram"

datatype 'e dg_error =
    NoAeadChannel
  | DgClosedPipe
  | DgEncrypt cwire_error
  | ErrDatagramTooLarge
  | SlicePanic
  | DgTransport 'e

definition rx_capacity :: nat where "rx_capacity = 64"

type_synonym ('t, 'e) dg_send = "'t \<Rightarrow> bytes \<Rightarrow> 't \<times> 'e option"

definition send_part ::
  "aenc \<Rightarrow> ('t, 'e) dg_send \<Rightarrow> u64 \<Rightarrow> u32 \<Rightarrow> u16 \<Rightarrow> u16 \<Rightarrow> bytes \<Rightarrow> pigeon_channel \<times> 't \<Rightarrow>
   (pigeon_channel \<times> 't) \<times> 'e dg_error option" where
  "send_part aenc send cid msgID index ttl chunk = (\<lambda>(ch, t).
     let plain = EncodeDatagramPlaintext cid chunk in
     case cwire_Encrypt aenc ch plain of
       (ch1, Inl e) \<Rightarrow> ((ch1, t), Some (DgEncrypt e))
     | (ch1, Inr ct) \<Rightarrow>
         (case send t (encodePartWire msgID index ttl ct) of
            (t1, r) \<Rightarrow> ((ch1, t1), map_option DgTransport r)))"

fun send_parts ::
  "aenc \<Rightarrow> ('t, 'e) dg_send \<Rightarrow> u64 \<Rightarrow> u32 \<Rightarrow> nat \<Rightarrow> nat \<Rightarrow> bytes \<Rightarrow> nat list \<Rightarrow> pigeon_channel \<times> 't \<Rightarrow>
   (pigeon_channel \<times> 't) \<times> 'e dg_error option" where
  "send_parts aenc send cid msgID chunkBudget ttl payload [] st = (st, None)" |
  "send_parts aenc send cid msgID chunkBudget ttl payload (i # is) st =
     (let start = i * chunkBudget;
          stop = (if start + chunkBudget > length payload then length payload else start + chunkBudget)
      in if stop < start then (st, Some SlicePanic)
         else case send_part aenc send cid msgID (of_nat i) (of_nat ttl) (take (stop - start) (drop start payload)) st of
                (st1, Some e) \<Rightarrow> (st1, Some e)
              | (st1, None) \<Rightarrow> send_parts aenc send cid msgID chunkBudget ttl payload is st1)"

definition Datagram_Send ::
  "aenc \<Rightarrow> ('t, 'e) dg_send \<Rightarrow> u64 \<Rightarrow> bytes \<Rightarrow> dg_session \<Rightarrow> 't option \<Rightarrow> u32 \<Rightarrow>
   (dg_session \<times> 't option \<times> u32) \<times> 'e dg_error option" where
  "Datagram_Send aenc send cid payload s tr nextFragMsgID =
     (case dgChannel s of
        None \<Rightarrow> ((s, tr, nextFragMsgID), Some NoAeadChannel)
      | Some ch \<Rightarrow>
     (case tr of
        None \<Rightarrow> ((s, tr, nextFragMsgID), Some DgClosedPipe)
      | Some t \<Rightarrow>
     let maxP = (if maxDgPayload s \<le> 0 then MaxDatagramPayload else maxDgPayload s);
         wholeBudget = maxAppChunk maxP 1 10
     in if int (length payload) \<le> wholeBudget then
          (case send_part aenc send cid 0 0 1 payload (ch, t) of
             ((ch1, t1), r) \<Rightarrow> ((s\<lparr>dgChannel := Some ch1\<rparr>, Some t1, nextFragMsgID), r))
        else
          let chunkBudget = maxAppChunk maxP (1 + int FragHeaderSize) 10
          in if chunkBudget < 1 then ((s, tr, nextFragMsgID), Some ErrDatagramTooLarge)
             else
               let total0 = (int (length payload) + chunkBudget - 1) div chunkBudget
               in if total0 > 65535 then ((s, tr, nextFragMsgID), Some ErrDatagramTooLarge)
                  else
                    let ttl = (if total0 < 2 then 2 else total0);
                        msgID = nextFragMsgID + 1
                    in case send_parts aenc send cid msgID (nat chunkBudget) (nat ttl) payload [0..<nat ttl] (ch, t) of
                         ((ch1, t1), r) \<Rightarrow> ((s\<lparr>dgChannel := Some ch1\<rparr>, Some t1, msgID), r)))"

text \<open>
  \<open>ctx_won\<close>: the session's context is done and the select took that branch.
\<close>

definition deliverIncomingDatagram :: "opener \<Rightarrow> bool \<Rightarrow> dg_session \<Rightarrow> bytes \<Rightarrow> dg_session" where
  "deliverIncomingDatagram adec ctx_won s payload =
     (case dgChannel s of
        None \<Rightarrow> s
      | Some ch \<Rightarrow>
     (case decodePartWire payload of
        None \<Rightarrow> s
      | Some (msgID, index, ttl, ct) \<Rightarrow>
     if ct = [] then s
     else
     (case cwire_Decrypt adec ch ct of
        (ch1, Inl e) \<Rightarrow> s\<lparr>dgChannel := Some ch1\<rparr>
      | (ch1, Inr plain) \<Rightarrow>
     let s1 = s\<lparr>dgChannel := Some ch1\<rparr> in
     (case DecodeDatagramPlaintext plain of
        Inl e \<Rightarrow> s1
      | Inr (cid, body) \<Rightarrow>
     (case datagrams s cid of
        None \<Rightarrow> s1
      | Some dg \<Rightarrow>
          let part = \<lparr>MsgID = msgID, Index = index, Total = ttl, Payload = body\<rparr>
          in if ctx_won then s1
             else if length (rx dg) < rx_capacity
             then s1\<lparr>datagrams := (datagrams s)(cid \<mapsto> dg\<lparr>rx := rx dg @ [part]\<rparr>)\<rparr>
             else s1)))))"

text \<open>\<open>Datagram.Recv\<close> takes the oldest part; with nothing queued it blocks until one of its contexts ends.\<close>

datatype recv_wait = RecvCtx | RecvSession

definition Datagram_Recv :: "recv_wait \<Rightarrow> Datagram \<Rightarrow> Datagram \<times> (recv_wait + DatagramPart)" where
  "Datagram_Recv ended dg = (case rx dg of [] \<Rightarrow> (dg, Inl ended) | p # ps \<Rightarrow> (dg\<lparr>rx := ps\<rparr>, Inr p))"

section \<open>Chunk arithmetic\<close>

lemma concat_chunks:
  "0 < c \<Longrightarrow> length xs \<le> n * c \<Longrightarrow> concat (map (\<lambda>i. take c (drop (i * c) xs)) [0..<n]) = xs"
proof (induction n arbitrary: xs)
  case (Suc n)
  have "map (\<lambda>i. take c (drop (i * c) xs)) [0..<Suc n] =
      take c xs # map (\<lambda>i. take c (drop (i * c) (drop c xs))) [0..<n]"
    by (simp add: upt_conv_Cons map_Suc_upt [symmetric] add.commute del: upt_Suc)
  moreover have "concat (map (\<lambda>i. take c (drop (i * c) (drop c xs))) [0..<n]) = drop c xs"
    using Suc.prems by (intro Suc.IH) simp_all
  ultimately show ?case by simp
qed simp

lemma maxAppChunk_pos: "1 \<le> maxAppChunk p h c"
  by (simp add: maxAppChunk_def Let_def)

text \<open>The two guards \<open>chunkBudget < 1\<close> and \<open>total < 2\<close> of \<open>Send\<close> never fire.\<close>

lemma send_totals:
  assumes "int n > maxAppChunk p 1 10"
  defines "cb \<equiv> maxAppChunk p (1 + int FragHeaderSize) 10"
  defines "total0 \<equiv> (int n + cb - 1) div cb"
  shows "1 \<le> cb" and "2 \<le> total0" and "(total0 - 1) * cb < int n" and "int n \<le> total0 * cb"
proof -
  show cb: "1 \<le> cb" by (simp add: cb_def maxAppChunk_pos)
  have "cb < int n"
    using assms(1) by (auto simp: cb_def maxAppChunk_def aeadOverhead_def FragHeaderSize_def Let_def split: if_splits)
  then show "2 \<le> total0"
    using cb zdiv_mono1 [of "2 * cb" "int n + cb - 1" cb] by (simp add: total0_def)
  have "int n + cb - 1 = total0 * cb + (int n + cb - 1) mod cb" by (simp add: total0_def)
  moreover have "0 \<le> (int n + cb - 1) mod cb" "(int n + cb - 1) mod cb < cb" using cb by simp_all
  ultimately show "(total0 - 1) * cb < int n" "int n \<le> total0 * cb" by (simp_all add: algebra_simps)
qed


section \<open>Sending over a recording transport\<close>

definition rec_send :: "(bytes list, unit) dg_send" where
  "rec_send t w = (t @ [w], None)"

definition part_packet :: "seal \<Rightarrow> bytes \<Rightarrow> u64 \<Rightarrow> u64 \<Rightarrow> bytes \<Rightarrow> bytes" where
  "part_packet seal k q cid chunk = packet seal k q (EncodeDatagramPlaintext cid chunk)"

fun part_wires :: "seal \<Rightarrow> bytes \<Rightarrow> u64 \<Rightarrow> u64 \<Rightarrow> u32 \<Rightarrow> nat \<Rightarrow> (nat \<times> bytes) list \<Rightarrow> bytes list" where
  "part_wires seal k q cid m n [] = []" |
  "part_wires seal k q cid m n ((i, chunk) # xs) =
     encodePartWire m (of_nat i) (of_nat n) (part_packet seal k q cid chunk) # part_wires seal k (q + 1) cid m n xs"

definition chunks :: "nat \<Rightarrow> nat \<Rightarrow> bytes \<Rightarrow> (nat \<times> bytes) list" where
  "chunks cb n payload = map (\<lambda>i. (i, take cb (drop (i * cb) payload))) [0..<n]"

lemma send_part_rec:
  assumes "sodium_ok aenc adec seal"
  shows "send_part aenc rec_send cid m i n chunk (ch, t) =
    ((ch\<lparr>send_seq := send_seq ch + 1\<rparr>, t @ [encodePartWire m i n (part_packet seal (send_key ch) (send_seq ch) cid chunk)]), None)"
  by (simp add: send_part_def cwire_Encrypt_eq [OF assms] rec_send_def part_packet_def)

lemma send_parts_rec:
  assumes "sodium_ok aenc adec seal"
  shows "\<forall>i \<in> set is. i * cb \<le> length payload \<Longrightarrow>
    send_parts aenc rec_send cid m cb n payload is (ch, t) =
      ((ch\<lparr>send_seq := send_seq ch + of_nat (length is)\<rparr>,
        t @ part_wires seal (send_key ch) (send_seq ch) cid m n (map (\<lambda>i. (i, take cb (drop (i * cb) payload))) is)), None)"
proof (induction "is" arbitrary: ch t)
  case (Cons i "is")
  have "take (min (i * cb + cb) (length payload) - i * cb) (drop (i * cb) payload) = take cb (drop (i * cb) payload)"
    by (simp add: min_def take_drop)
  moreover have "(if i * cb + cb > length payload then length payload else i * cb + cb) = min (i * cb + cb) (length payload)"
    by simp
  moreover have "i * cb \<le> length payload" using Cons.prems by simp
  then have "\<not> min (i * cb + cb) (length payload) < i * cb" by linarith
  ultimately show ?case
    using Cons by (simp add: send_part_rec [OF assms] Let_def add.assoc)
qed simp

definition send_plan :: "int \<Rightarrow> bytes \<Rightarrow> (nat \<times> bytes) list" where
  "send_plan maxP payload =
     (if int (length payload) \<le> maxAppChunk maxP 1 10 then [(0, payload)]
      else let cb = maxAppChunk maxP (1 + int FragHeaderSize) 10
           in chunks (nat cb) (nat ((int (length payload) + cb - 1) div cb)) payload)"

definition eff_max :: "dg_session \<Rightarrow> int" where
  "eff_max s = (if maxDgPayload s \<le> 0 then MaxDatagramPayload else maxDgPayload s)"

lemma Datagram_Send_rec:
  fixes payload :: bytes
  assumes "sodium_ok aenc adec seal" and "dgChannel s = Some c"
  defines "xs \<equiv> send_plan (eff_max s) payload"
  shows "Datagram_Send aenc rec_send cid payload s (Some t) g =
    (if 65535 < length xs then ((s, Some t, g), Some ErrDatagramTooLarge)
     else let m = (if length xs = 1 then 0 else g + 1);
              g' = (if length xs = 1 then g else g + 1)
          in ((s\<lparr>dgChannel := Some (c\<lparr>send_seq := send_seq c + of_nat (length xs)\<rparr>)\<rparr>,
               Some (t @ part_wires seal (send_key c) (send_seq c) cid m (length xs) xs), g'), None))"
proof (cases "int (length payload) \<le> maxAppChunk (eff_max s) 1 10")
  case True
  then show ?thesis
    using assms by (simp add: Datagram_Send_def Let_def send_plan_def eff_max_def [symmetric] send_part_rec [OF assms(1)])
next
  case False
  define cb where "cb = maxAppChunk (eff_max s) (1 + int FragHeaderSize) 10"
  define n where "n = (int (length payload) + cb - 1) div cb"
  have tot: "1 \<le> cb" "2 \<le> n" "(n - 1) * cb < int (length payload)"
    using send_totals [of "eff_max s" "length payload"] False by (simp_all add: cb_def n_def)
  have xs: "xs = map (\<lambda>i. (i, take (nat cb) (drop (i * nat cb) payload))) [0..<nat n]"
    using False by (simp add: xs_def send_plan_def chunks_def cb_def n_def Let_def)
  have "i * nat cb \<le> length payload" if "i < nat n" for i
  proof -
    have "int i * cb \<le> (n - 1) * cb" using that tot(1) by (intro mult_right_mono) auto
    then have "int i * cb \<le> int (length payload)" using tot(3) by linarith
    moreover have "int (i * nat cb) = int i * cb" using tot(1) by simp
    ultimately show ?thesis by linarith
  qed
  then have "\<forall>i \<in> set [0..<nat n]. i * nat cb \<le> length payload" by simp
  note sp = send_parts_rec [OF assms(1) this]
  have "nat n \<noteq> Suc 0" "65535 < n \<longleftrightarrow> 65535 < nat n" using tot(2) by linarith+
  with False tot show ?thesis
    unfolding xs using assms(2)
    by (simp add: Datagram_Send_def Let_def eff_max_def [symmetric] cb_def [symmetric] n_def [symmetric] sp)
qed

lemma send_plan_concat: "concat (map snd (send_plan maxP payload)) = payload"
proof (cases "int (length payload) \<le> maxAppChunk maxP 1 10")
  case False
  define cb where "cb = maxAppChunk maxP (1 + int FragHeaderSize) 10"
  define n where "n = (int (length payload) + cb - 1) div cb"
  have tot: "1 \<le> cb" "2 \<le> n" "int (length payload) \<le> n * cb"
    using send_totals [of maxP "length payload"] False by (simp_all add: cb_def n_def)
  have "int (length payload) \<le> int (nat n * nat cb)" using tot by simp
  then have "length payload \<le> nat n * nat cb" by linarith
  moreover have "0 < nat cb" using tot by simp
  ultimately show ?thesis
    using concat_chunks [of "nat cb" payload "nat n"] False
    by (simp add: send_plan_def chunks_def cb_def [symmetric] n_def [symmetric] Let_def comp_def)
qed (simp add: send_plan_def)

lemma send_plan_index:
  "map fst (send_plan maxP payload) = [0..<length (send_plan maxP payload)]"
  "length (send_plan maxP payload) \<noteq> 0"
proof -
  have "1 \<le> maxAppChunk maxP (1 + int FragHeaderSize) 10" by (rule maxAppChunk_pos)
  then show "map fst (send_plan maxP payload) = [0..<length (send_plan maxP payload)]"
    by (simp add: send_plan_def chunks_def Let_def comp_def)
  show "length (send_plan maxP payload) \<noteq> 0"
    using send_totals(2) [of maxP "length payload"] by (auto simp: send_plan_def chunks_def Let_def)
qed


section \<open>Delivery\<close>

definition rx_of :: "u64 \<Rightarrow> dg_session \<Rightarrow> DatagramPart list" where
  "rx_of cid s = (case datagrams s cid of None \<Rightarrow> [] | Some dg \<Rightarrow> rx dg)"

lemma decode_part:
  assumes "ct \<noteq> []" and "i < n" and "n \<le> 65535"
  shows "decodePartWire (encodePartWire m (of_nat i) (of_nat n) ct) =
    Some (if n = 1 then 0 else m, of_nat i, of_nat n, ct)"
proof (cases "n = 1")
  case True
  then show ?thesis using assms decode_encode_whole [of ct 1 m "of_nat i"] by simp
next
  case False
  have u: "unat (of_nat n :: u16) = n" "unat (of_nat i :: u16) = i"
    using assms by (simp_all add: unat_of_nat take_bit_nat_eq_self)
  have "(2 :: u16) \<le> of_nat n" "(of_nat i :: u16) < of_nat n"
    using assms False u by (auto simp: word_le_nat_alt word_less_nat_alt)
  then show ?thesis using False decode_encode_fragment by simp
qed

lemma deliver_part:
  assumes "sodium_ok aenc adec seal" and "dgChannel s = Some d" and "ch_mode d = PIGEON_MODE_DATAGRAMS"
    and "recv_key d = k" and "recv_seq d \<le> q" and "datagrams s cid = Some dg" and "length (rx dg) < rx_capacity"
    and "i < n" and "n \<le> 65535"
  shows "deliverIncomingDatagram adec False s (encodePartWire m (of_nat i) (of_nat n) (part_packet seal k q cid chunk)) =
    s\<lparr>dgChannel := Some (d\<lparr>recv_seq := q + 1\<rparr>),
      datagrams := (datagrams s)(cid \<mapsto> dg\<lparr>rx := rx dg @
        [\<lparr>MsgID = if n = 1 then 0 else m, Index = of_nat i, Total = of_nat n, Payload = chunk\<rparr>]\<rparr>)\<rparr>"
proof -
  have "length (part_packet seal k q cid chunk) \<noteq> 0"
    unfolding part_packet_def length_packet_sodium [OF assms(1)] by simp
  then have "part_packet seal k q cid chunk \<noteq> []" by simp
  then have "decodePartWire (encodePartWire m (of_nat i) (of_nat n) (part_packet seal k q cid chunk)) =
      Some (if n = 1 then 0 else m, of_nat i, of_nat n, part_packet seal k q cid chunk)"
    by (rule decode_part [OF _ assms(8,9)])
  moreover have "cwire_Decrypt adec d (part_packet seal k q cid chunk) =
      (d\<lparr>recv_seq := q + 1\<rparr>, Inr (EncodeDatagramPlaintext cid chunk))"
    using assms(3-5) by (simp add: part_packet_def cwire_Decrypt_packet [OF assms(1)])
  ultimately show ?thesis
    using assms(2,6,7) \<open>part_packet seal k q cid chunk \<noteq> []\<close>
    by (simp add: deliverIncomingDatagram_def Let_def DecodeDatagramPlaintext_Encode)
qed

lemma deliver_wires:
  assumes "sodium_ok aenc adec seal" and "n \<le> 65535"
  shows "\<lbrakk>dgChannel s = Some d; ch_mode d = PIGEON_MODE_DATAGRAMS; recv_key d = k; recv_seq d \<le> q;
      datagrams s cid = Some dg; length (rx dg) + length xs \<le> rx_capacity; \<forall>(i, c) \<in> set xs. i < n;
      unat q + length xs < 2 ^ 64\<rbrakk> \<Longrightarrow>
    rx_of cid (foldl (deliverIncomingDatagram adec False) s (part_wires seal k q cid m n xs)) =
      rx dg @ map (\<lambda>(i, c). \<lparr>MsgID = if n = 1 then 0 else m, Index = of_nat i, Total = of_nat n, Payload = c\<rparr>) xs"
proof (induction xs arbitrary: s d q dg)
  case Nil
  then show ?case by (simp add: rx_of_def)
next
  case (Cons x xs)
  obtain i c where x: "x = (i, c)" by fastforce
  let ?p = "\<lparr>MsgID = if n = 1 then 0 else m, Index = of_nat i, Total = of_nat n, Payload = c\<rparr>"
  let ?s = "s\<lparr>dgChannel := Some (d\<lparr>recv_seq := q + 1\<rparr>), datagrams := (datagrams s)(cid \<mapsto> dg\<lparr>rx := rx dg @ [?p]\<rparr>)\<rparr>"
  have "deliverIncomingDatagram adec False s (encodePartWire m (of_nat i) (of_nat n) (part_packet seal k q cid c)) = ?s"
    using Cons.prems x by (intro deliver_part [OF assms(1) _ _ _ _ _ _ _ assms(2)]) auto
  moreover have "rx_of cid (foldl (deliverIncomingDatagram adec False) ?s (part_wires seal k (q + 1) cid m n xs)) =
      (rx dg @ [?p]) @ map (\<lambda>(i, c). \<lparr>MsgID = if n = 1 then 0 else m, Index = of_nat i, Total = of_nat n, Payload = c\<rparr>) xs"
    using Cons.IH [of ?s "d\<lparr>recv_seq := q + 1\<rparr>" "q + 1" "dg\<lparr>rx := rx dg @ [?p]\<rparr>"] Cons.prems
      word_le_succ(2) [of q q] by simp
  ultimately show ?case using x by simp
qed


section \<open>Properties\<close>

lemma length_part_wires:
  assumes "sodium_ok aenc adec seal" and "w \<in> set (part_wires seal k q cid m n xs)"
  shows "\<exists>(i, c) \<in> set xs. length w \<le> (if (of_nat n :: u16) \<le> 1 then 1 else 9) + 34 + length c"
  using assms(2)
proof (induction xs arbitrary: q)
  case (Cons x xs)
  obtain i c where x: "x = (i, c)" by fastforce
  have "length (part_packet seal k q cid c) \<le> 34 + length c"
    using length_EncodeDatagramPlaintext [of cid c] length_packet_sodium [OF assms(1)]
    by (simp add: part_packet_def)
  then have "length (encodePartWire m (of_nat i) (of_nat n) (part_packet seal k q cid c)) \<le>
      (if (of_nat n :: u16) \<le> 1 then 1 else 9) + 34 + length c"
    by (simp add: length_encodePartWire FragHeaderSize_def)
  with Cons x show ?case by fastforce
qed simp

lemma length_part_wires_eq [simp]: "length (part_wires seal k q cid m n xs) = length xs"
  by (induction seal k q cid m n xs rule: part_wires.induct) auto

lemma send_plan_sizes:
  assumes "44 \<le> maxP" and "(i, c) \<in> set (send_plan maxP payload)"
  shows "int (length c) \<le> (if length (send_plan maxP payload) = 1 then maxP - 35 else maxP - 43)"
proof (cases "int (length payload) \<le> maxAppChunk maxP 1 10")
  case True
  then show ?thesis using assms by (simp add: send_plan_def maxAppChunk_def aeadOverhead_def Let_def)
next
  case False
  have cb: "maxAppChunk maxP (1 + int FragHeaderSize) 10 = maxP - 43"
    using assms(1) by (simp add: maxAppChunk_def aeadOverhead_def FragHeaderSize_def Let_def)
  have "2 \<le> (int (length payload) + (maxP - 43) - 1) div (maxP - 43)"
    using send_totals(2) [of maxP "length payload"] False cb by simp
  then show ?thesis using False assms cb by (auto simp: send_plan_def chunks_def Let_def)
qed

lemma send_plan_length:
  assumes "44 \<le> maxP" and "65535 < length (send_plan maxP payload)"
  shows "65535 * (maxP - 43) < int (length payload)"
proof -
  have "\<not> int (length payload) \<le> maxAppChunk maxP 1 10" using assms(2) by (auto simp: send_plan_def)
  moreover have cb: "maxAppChunk maxP (1 + int FragHeaderSize) 10 = maxP - 43"
    using assms(1) by (simp add: maxAppChunk_def aeadOverhead_def FragHeaderSize_def Let_def)
  moreover define n where "n = (int (length payload) + (maxP - 43) - 1) div (maxP - 43)"
  ultimately have "(n - 1) * (maxP - 43) < int (length payload)" "int (length (send_plan maxP payload)) = n"
    using send_totals(2,3) [of maxP "length payload"]
    by (simp_all add: send_plan_def chunks_def Let_def)
  moreover from this assms have "65535 * (maxP - 43) \<le> (n - 1) * (maxP - 43)" by (intro mult_right_mono) auto
  ultimately show ?thesis by linarith
qed

text \<open>
  (C39) \<open>Send\<close> never panics on a slice. With room for a one-byte chunk (44 bytes; the default is 1200),
  either the payload needs more than 65535 parts, and it is refused with nothing sent and no
  counter used, or all its parts are sent, at least one and at most 65535, each QUIC datagram
  within the limit.
\<close>

theorem datagram_send_fits:
  assumes "sodium_ok aenc adec seal" and "dgChannel s = Some c" and "44 \<le> eff_max s"
  shows "case Datagram_Send aenc rec_send cid payload s (Some []) g of ((s', tr, g'), r) \<Rightarrow>
    r = Some ErrDatagramTooLarge \<and> (s', tr, g') = (s, Some [], g) \<and> 65535 * (eff_max s - 43) < int (length payload) \<or>
    r = None \<and> (\<exists>ws. tr = Some ws \<and> ws \<noteq> [] \<and> length ws \<le> 65535 \<and> list_all (\<lambda>w. int (length w) \<le> eff_max s) ws)"
proof (cases "65535 < length (send_plan (eff_max s) payload)")
  case True
  then show ?thesis using send_plan_length [OF assms(3)] by (simp add: Datagram_Send_rec [OF assms(1,2)])
next
  case False
  let ?xs = "send_plan (eff_max s) payload"
  let ?m = "if length ?xs = 1 then 0 else g + 1"
  let ?ws = "part_wires seal (send_key c) (send_seq c) cid ?m (length ?xs) ?xs"
  have fit: "int (length w) \<le> eff_max s" if w: "w \<in> set ?ws" for w
  proof -
    from length_part_wires [OF assms(1) w] obtain i ch where
      ch: "(i, ch) \<in> set ?xs" "length w \<le> (if (of_nat (length ?xs) :: u16) \<le> 1 then 1 else 9) + 34 + length ch"
      by auto
    then have "length w \<le> (if length ?xs = 1 then 1 else 9) + 34 + length ch" by (auto split: if_splits)
    with send_plan_sizes [OF assms(3) ch(1)] show ?thesis by (auto split: if_splits)
  qed
  have "?ws \<noteq> []" using send_plan_index(2) by (metis length_0_conv length_part_wires_eq)
  moreover have "list_all (\<lambda>w. int (length w) \<le> eff_max s) ?ws" using fit by (simp add: list_all_iff)
  ultimately show ?thesis
    using False by (auto simp: Datagram_Send_rec [OF assms(1,2)] Let_def)
qed


definition demo_dg :: "int \<Rightarrow> dg_session" where
  "demo_dg n = \<lparr>dgChannel = Some (pigeon_channel_init [1] [1] PIGEON_MODE_DATAGRAMS), maxDgPayload = n,
     datagrams = [7 \<mapsto> \<lparr>dg_name = ''video'', rx = []\<rparr>]\<rparr>"

theorem datagram_send_fits_witness:
  "case Datagram_Send (\<lambda>k n p a. Some (demo_seal k n p a)) rec_send 7 (replicate 3000 0) (demo_dg 0) (Some []) 4 of
     ((s', tr, g'), r) \<Rightarrow>
    r = None \<and> (\<exists>ws. tr = Some ws \<and> ws \<noteq> [] \<and> length ws \<le> 65535 \<and> list_all (\<lambda>w. int (length w) \<le> 1200) ws)"
proof -
  have e: "eff_max (demo_dg 0) = 1200" by (simp add: eff_max_def demo_dg_def MaxDatagramPayload_def)
  have "dgChannel (demo_dg 0) = Some (pigeon_channel_init [1] [1] PIGEON_MODE_DATAGRAMS)" "44 \<le> eff_max (demo_dg 0)"
    unfolding e by (simp_all add: demo_dg_def)
  from datagram_send_fits [OF demo_sodium this, where cid = 7 and payload = "replicate 3000 0" and g = 4] show ?thesis
    unfolding e length_replicate by auto
qed



text \<open>
  Only genuine and fresh datagrams have an effect: if an incoming datagram changes the session
  at all, it carries a packet sealed under the session's receive key, acceptable to the window.
  Whatever else the network or the relay injects is dropped without a trace.
\<close>

theorem datagram_injection_harmless:
  assumes "aead_authentic seal adec" and "deliverIncomingDatagram adec ctx_won s x \<noteq> s"
  shows "\<exists>d msgID index ttl q p. dgChannel s = Some d \<and> \<not> stale d q \<and>
    decodePartWire x = Some (msgID, index, ttl, packet seal (recv_key d) q p)"
proof -
  from assms(2) obtain d where d: "dgChannel s = Some d"
    by (auto simp: deliverIncomingDatagram_def split: option.splits)
  from assms(2) d obtain m i t ct where w: "decodePartWire x = Some (m, i, t, ct)"
    by (cases "decodePartWire x") (auto simp: deliverIncomingDatagram_def)
  obtain d' r where D: "cwire_Decrypt adec d ct = (d', r)" by fastforce
  show ?thesis
  proof (cases r)
    case (Inl e)
    with D have "d' = d" using cwire_Decrypt_Inl by blast
    then have "deliverIncomingDatagram adec ctx_won s x = s"
      using d w D Inl by (simp add: deliverIncomingDatagram_def)
    with assms(2) show ?thesis by simp
  next
    case (Inr p)
    then have "ct = packet seal (recv_key d) (seq_of ct) p" "\<not> stale d (seq_of ct)"
      using cwire_Decrypt_genuine [OF assms(1)] D cwire_Decrypt_Inr [of adec d ct d' p] by auto
    with d w show ?thesis by metis
  qed
qed

theorem datagram_injection_harmless_witness:
  "\<exists>d msgID index ttl q p. dgChannel (demo_dg 0) = Some d \<and> \<not> stale d q \<and>
    decodePartWire (encodePartWire 0 0 1 (packet demo_seal [1] 9 [7, 5])) =
      Some (msgID, index, ttl, packet demo_seal (recv_key d) q p)"
proof -
  let ?x = "encodePartWire 0 0 1 (packet demo_seal [1] 9 [7, 5])"
  let ?d = "pigeon_channel_init [1] [1] PIGEON_MODE_DATAGRAMS"
  have "packet demo_seal [1] 9 [7, 5] \<noteq> []" by (simp add: packet_def demo_seal_def)
  then have "decodePartWire ?x = Some (0, 0, 1, packet demo_seal [1] 9 [7, 5])"
    by (intro decode_encode_whole) simp_all
  moreover have "cwire_Decrypt demo_open ?d (packet demo_seal [1] 9 [7, 5]) = (?d\<lparr>recv_seq := 10\<rparr>, Inr [7, 5])"
    by (simp add: cwire_Decrypt_packet [OF demo_sodium] pigeon_channel_init_def)
  moreover have "recv_seq (?d\<lparr>recv_seq := 10\<rparr>) \<noteq> recv_seq ?d" by (simp add: pigeon_channel_init_def)
  then have "?d\<lparr>recv_seq := 10\<rparr> \<noteq> ?d" by metis
  ultimately have "dgChannel (deliverIncomingDatagram demo_open False (demo_dg 0) ?x) \<noteq> dgChannel (demo_dg 0)"
    using \<open>packet demo_seal [1] 9 [7, 5] \<noteq> []\<close>
    by (auto simp: deliverIncomingDatagram_def demo_dg_def Let_def split: sum.splits option.splits)
  then have "deliverIncomingDatagram demo_open False (demo_dg 0) ?x \<noteq> demo_dg 0" by metis
  then show ?thesis by (rule datagram_injection_harmless [OF demo_aead(2)])
qed

end
