(* ===== verification/Discovery.thy ===== *)
theory Discovery
  imports Wire
begin

text \<open>
  Route discovery (\<open>discovery.go\<close>): the encoding of a node's routes and the request/answer
  exchange on the reserved stream. \<open>decodeRoutes\<close> allocates its result for the count the peer
  announces, so it takes the largest capacity the Go runtime can allocate as an argument;
  \<open>MakeSlicePanic\<close> is the runtime's panic above it.
\<close>

record RouteEntry =
  Route :: string
  Metadata :: bytes

datatype field_error = BadLength | Truncated

datatype routes_error =
    BadCount
  | MakeSlicePanic
  | RouteField nat field_error
  | MetadataField nat field_error

definition encodeEntry :: "RouteEntry \<Rightarrow> bytes" where
  "encodeEntry e =
     put_uvarint (of_nat (length (Route e))) @ bytes_of_string (Route e) @
     put_uvarint (of_nat (length (Metadata e))) @ Metadata e"

definition encodeRoutes :: "RouteEntry list \<Rightarrow> bytes" where
  "encodeRoutes entries = foldl (\<lambda>buf e. buf @ encodeEntry e) (put_uvarint (of_nat (length entries))) entries"

definition readLenPrefixed :: "bytes \<Rightarrow> field_error + bytes \<times> bytes" where
  "readLenPrefixed b =
     (case uvarint b of (l, n) \<Rightarrow>
        if n \<le> 0 then Inl BadLength
        else let b1 = drop (nat n) b in
             if length b1 < unat l then Inl Truncated
             else Inr (take (unat l) b1, drop (unat l) b1))"

fun decodeEntries :: "nat \<Rightarrow> nat \<Rightarrow> bytes \<Rightarrow> RouteEntry list \<Rightarrow> routes_error + RouteEntry list" where
  "decodeEntries i 0 b entries = Inr entries" |
  "decodeEntries i (Suc k) b entries =
     (case readLenPrefixed b of
        Inl e \<Rightarrow> Inl (RouteField i e)
      | Inr (route, rest) \<Rightarrow>
          (case readLenPrefixed rest of
             Inl e \<Rightarrow> Inl (MetadataField i e)
           | Inr (meta, rest1) \<Rightarrow>
               decodeEntries (Suc i) k rest1 (entries @ [\<lparr>Route = string_of_bytes route, Metadata = meta\<rparr>])))"

definition decodeRoutes :: "nat \<Rightarrow> bytes \<Rightarrow> routes_error + RouteEntry list" where
  "decodeRoutes max_cap b =
     (case uvarint b of (count, n) \<Rightarrow>
        if n \<le> 0 then Inl BadCount
        else if unat count > max_cap then Inl MakeSlicePanic
        else decodeEntries 0 (unat count) (drop (nat n) b) [])"

text \<open>
  The exchange: \<open>handleEnumerate\<close> gives the answer it sends, if any; \<open>Enumerate\<close> takes the results of
  opening the stream, sending the request and receiving the answer.
\<close>

definition handleEnumerate ::
  "(string \<Rightarrow> 'e + RouteEntry list) \<Rightarrow> string \<Rightarrow> 'r + bytes \<Rightarrow> bytes option" where
  "handleEnumerate discover peerID recv =
     (case recv of
        Inl _ \<Rightarrow> None
      | Inr _ \<Rightarrow>
          Some (encodeRoutes (case discover peerID of Inl _ \<Rightarrow> [] | Inr entries \<Rightarrow> entries)))"

datatype 'e enumerate_error = EnumOpen 'e | EnumSend 'e | EnumRecv 'e | EnumDecode routes_error

definition Enumerate ::
  "nat \<Rightarrow> 'e option \<Rightarrow> 'e option \<Rightarrow> 'e + bytes \<Rightarrow> 'e enumerate_error + RouteEntry list" where
  "Enumerate max_cap opened sent received =
     (case opened of
        Some e \<Rightarrow> Inl (EnumOpen e)
      | None \<Rightarrow>
          (case sent of
             Some e \<Rightarrow> Inl (EnumSend e)
           | None \<Rightarrow>
               (case received of
                  Inl e \<Rightarrow> Inl (EnumRecv e)
                | Inr resp \<Rightarrow>
                    (case decodeRoutes max_cap resp of
                       Inl e \<Rightarrow> Inl (EnumDecode e)
                     | Inr es \<Rightarrow> Inr es))))"

section \<open>The length-prefixed field as a codec\<close>

definition enc_field :: "bytes \<Rightarrow> bytes" where
  "enc_field v = put_uvarint (of_nat (length v)) @ v"

interpretation field: codec enc_field readLenPrefixed "\<lambda>v. length v < 2 ^ 64"
proof
  fix v rest :: bytes
  assume l: "length v < 2 ^ 64"
  have "uvarint (put_uvarint (of_nat (length v)) @ v @ rest) =
      (of_nat (length v), int (length (put_uvarint (of_nat (length v)))))" by (rule wire)
  then show "readLenPrefixed (enc_field v @ rest) = Inr (v, rest)"
    by (simp add: readLenPrefixed_def enc_field_def unat_of_nat_u64 [OF l] Let_def)
qed

definition entry_ok :: "RouteEntry \<Rightarrow> bool" where
  "entry_ok e \<longleftrightarrow> length (Route e) < 2 ^ 64 \<and> length (Metadata e) < 2 ^ 64"

lemma encodeEntry_fields: "encodeEntry e = enc_field (bytes_of_string (Route e)) @ enc_field (Metadata e)"
  by (simp add: encodeEntry_def enc_field_def)

lemma encodeRoutes_eq: "encodeRoutes es = put_uvarint (of_nat (length es)) @ concat (map encodeEntry es)"
proof -
  have "foldl (\<lambda>buf e. buf @ encodeEntry e) b es = b @ concat (map encodeEntry es)" for b
    by (induction es arbitrary: b) simp_all
  then show ?thesis by (simp add: encodeRoutes_def)
qed

lemma decodeEntries_encode:
  "list_all entry_ok es \<Longrightarrow> decodeEntries i (length es) (concat (map encodeEntry es) @ rest) acc = Inr (acc @ es)"
proof (induction es arbitrary: i acc)
  case (Cons e es)
  then have "readLenPrefixed (enc_field (bytes_of_string (Route e)) @ r) = Inr (bytes_of_string (Route e), r)"
    "readLenPrefixed (enc_field (Metadata e) @ r) = Inr (Metadata e, r)" for r
    by (auto intro!: field.dec_enc simp: entry_ok_def)
  with Cons show ?case by (simp add: encodeEntry_fields)
qed simp

lemma decodeRoutes_encode:
  assumes "list_all entry_ok es" and "length es \<le> max_cap" and "length es < 2 ^ 64"
  shows "decodeRoutes max_cap (encodeRoutes es @ rest) = Inr es"
proof -
  have "uvarint (put_uvarint (of_nat (length es)) @ concat (map encodeEntry es) @ rest) =
      (of_nat (length es), int (length (put_uvarint (of_nat (length es)))))" by (rule wire)
  then show ?thesis
    using assms decodeEntries_encode [OF assms(1), of 0 rest "[]"]
    by (simp add: decodeRoutes_def encodeRoutes_eq unat_of_nat_u64)
qed

section \<open>Properties\<close>

text \<open>
  Enumeration is faithful: when the request and the answer get through, the client obtains
  exactly the entries the backend's hook returned for it, every route and metadata unchanged,
  and an empty list when the hook failed.
\<close>

theorem enumerate_returns_routes:
  assumes "case discover peer of Inl _ \<Rightarrow> True | Inr es \<Rightarrow>
      list_all entry_ok es \<and> length es \<le> max_cap \<and> length es < 2 ^ 64"
    and "handleEnumerate discover peer (Inr req) = Some resp"
  shows "Enumerate max_cap None None (Inr resp) = Inr (case discover peer of Inl _ \<Rightarrow> [] | Inr es \<Rightarrow> es)"
  using assms decodeRoutes_encode [of _ max_cap "[]"]
  by (auto simp: handleEnumerate_def Enumerate_def split: sum.splits)

theorem enumerate_returns_routes_witness:
  "Enumerate 100 None None (Inr (encodeRoutes [\<lparr>Route = ''chess'', Metadata = [1, 2]\<rparr>])) =
     (Inr [\<lparr>Route = ''chess'', Metadata = [1, 2]\<rparr>] :: unit enumerate_error + RouteEntry list)"
  using enumerate_returns_routes [where discover = "\<lambda>_. Inr [\<lparr>Route = ''chess'', Metadata = [1, 2]\<rparr>] :: unit + RouteEntry list"
      and max_cap = 100 and req = "[1]" and resp = "encodeRoutes [\<lparr>Route = ''chess'', Metadata = [1, 2]\<rparr>]"]
  by (simp add: handleEnumerate_def entry_ok_def)

text \<open>
  \<open>decodeRoutes\<close> trusts the announced count: whatever capacity below \<open>2^64 - 1\<close> the runtime can
  allocate, some answer of at most ten bytes makes it panic.
\<close>

theorem decode_routes_count_panics:
  assumes "max_cap < 2 ^ 64 - 1"
  shows "\<exists>b. length b \<le> 10 \<and> decodeRoutes max_cap b = Inl MakeSlicePanic"
proof -
  let ?c = "of_nat (Suc max_cap) :: u64"
  have u: "unat ?c = Suc max_cap" using assms by (intro unat_of_nat_u64) simp
  have "uvarint (put_uvarint ?c @ []) = (?c, int (length (put_uvarint ?c)))" by (rule wire)
  then have "decodeRoutes max_cap (put_uvarint ?c) = Inl MakeSlicePanic"
    using u by (simp add: decodeRoutes_def)
  then show ?thesis using length_put_uvarint_10 by blast
qed

theorem decode_routes_count_panics_witness:
  "\<exists>b. length b \<le> 10 \<and> decodeRoutes 281474976710656 b = Inl MakeSlicePanic"
  by (rule decode_routes_count_panics) simp

end
