(* ===== verification/Rendezvous.thy ===== *)
theory Rendezvous
  imports Prelude
begin

text \<open>
  The stream rendezvous of a session (\<open>api.go\<close>, \<open>stream_lifecycle.go\<close>): \<open>AcceptStream\<close> callers wait
  for streams by name, \<open>deliverIncomingStream\<close> hands a peer's stream to the oldest waiter or parks
  it, timers and \<open>GoAway\<close> reset parked streams. Callers, deliveries and timers run concurrently,
  so each is split into the steps between which others can run: one critical section of
  \<open>streamMu\<close>, one channel operation or one access to the waiter's \<open>done\<close> flag each. Waiters and
  streams are numbered; \<open>wpc\<close> and \<open>dpc\<close> say where each \<open>AcceptStream\<close> call and each delivery
  stands, \<open>returned\<close> and \<open>resets\<close> log the streams handed to the application and the ones reset.
  A step function gives \<open>None\<close> when its thread is not at that point or would block.
\<close>

section \<open>State\<close>

datatype wait_pc = WNone | WWaiting string | WRemoved | WMarked | WGot | WAbandoned
datatype deliver_pc = DNone | DArrived string | DPopped nat | DSent nat | DDrain nat | DDone

record rendezvous =
  pendingOpens :: "string \<Rightarrow> nat list"
  bufferedStreams :: "string \<Rightarrow> nat list"
  allowedStreams :: "string set option"
  maxBufferedPerName :: int
  draining :: bool
  rejecting :: bool
  wch :: "nat \<Rightarrow> nat option"
  wdone :: "nat \<Rightarrow> bool"
  wpc :: "nat \<Rightarrow> wait_pc"
  dpc :: "nat \<Rightarrow> deliver_pc"
  returned :: "nat list"
  resets :: "nat list"

definition discoveryStreamName :: string where
  "discoveryStreamName = CHR 0x00 # ''pigeon.enumerate''"

definition lanControlStreamName :: string where
  "lanControlStreamName = CHR 0x00 # ''pigeon.lan''"

definition goAwayStreamName :: string where
  "goAwayStreamName = CHR 0x00 # ''pigeon.goaway''"

definition DefaultMaxBufferedStreams :: nat where
  "DefaultMaxBufferedStreams = 1"

definition reservedStreamName :: "string \<Rightarrow> bool" where
  "reservedStreamName name \<longleftrightarrow>
     name = discoveryStreamName \<or> name = lanControlStreamName \<or> name = goAwayStreamName"

definition nameAllowed :: "string set option \<Rightarrow> string \<Rightarrow> bool" where
  "nameAllowed allowed name =
     (if reservedStreamName name then True
      else case allowed of None \<Rightarrow> True | Some ns \<Rightarrow> name \<in> ns)"

definition applyStreamPolicy :: "string list \<Rightarrow> rendezvous \<Rightarrow> rendezvous" where
  "applyStreamPolicy names s =
     (if names = [] then s else s\<lparr>allowedStreams := Some (set (filter (\<lambda>n. n \<noteq> []) names))\<rparr>)"

definition bufferedCap :: "rendezvous \<Rightarrow> nat" where
  "bufferedCap s = (if maxBufferedPerName s \<le> 0 then DefaultMaxBufferedStreams else nat (maxBufferedPerName s))"

definition init_rendezvous :: "string set option \<Rightarrow> int \<Rightarrow> rendezvous" where
  "init_rendezvous allowed cap =
     \<lparr>pendingOpens = (\<lambda>_. []), bufferedStreams = (\<lambda>_. []), allowedStreams = allowed, maxBufferedPerName = cap,
      draining = False, rejecting = False, wch = (\<lambda>_. None), wdone = (\<lambda>_. False), wpc = (\<lambda>_. WNone),
      dpc = (\<lambda>_. DNone), returned = [], resets = []\<rparr>"

section \<open>AcceptStream\<close>

text \<open>The critical section: take the oldest parked stream, or join the waiters of the name.\<close>

definition accept_enter :: "nat \<Rightarrow> string \<Rightarrow> rendezvous \<Rightarrow> rendezvous option" where
  "accept_enter w name s =
     (if wpc s w \<noteq> WNone \<or> name = [] then None
      else case bufferedStreams s name of
        rwc # q \<Rightarrow>
          Some (s\<lparr>bufferedStreams := (bufferedStreams s)(name := q), wpc := (wpc s)(w := WGot),
                  returned := returned s @ [rwc]\<rparr>)
      | [] \<Rightarrow>
          Some (s\<lparr>pendingOpens := (pendingOpens s)(name := pendingOpens s name @ [w]),
                  wpc := (wpc s)(w := WWaiting name)\<rparr>))"

text \<open>The select: receive from the waiter's channel, or leave because a context ended.\<close>

definition accept_recv :: "nat \<Rightarrow> rendezvous \<Rightarrow> rendezvous option" where
  "accept_recv w s =
     (case (wpc s w, wch s w) of
        (WWaiting name, Some rwc) \<Rightarrow>
          Some (s\<lparr>wch := (wch s)(w := None), wpc := (wpc s)(w := WGot), returned := returned s @ [rwc]\<rparr>)
      | _ \<Rightarrow> None)"

fun remove_first :: "nat \<Rightarrow> nat list \<Rightarrow> nat list" where
  "remove_first w [] = []" |
  "remove_first w (c # q) = (if c = w then q else c # remove_first w q)"

definition removePending :: "nat \<Rightarrow> rendezvous \<Rightarrow> rendezvous option" where
  "removePending w s =
     (case wpc s w of
        WWaiting name \<Rightarrow>
          Some (s\<lparr>pendingOpens := (pendingOpens s)(name := remove_first w (pendingOpens s name)),
                  wpc := (wpc s)(w := WRemoved)\<rparr>)
      | _ \<Rightarrow> None)"

definition abandon_mark :: "nat \<Rightarrow> rendezvous \<Rightarrow> rendezvous option" where
  "abandon_mark w s =
     (if wpc s w = WRemoved
      then Some (s\<lparr>wdone := (wdone s)(w := True), wpc := (wpc s)(w := WMarked)\<rparr>) else None)"

definition abandon_drain :: "nat \<Rightarrow> rendezvous \<Rightarrow> rendezvous option" where
  "abandon_drain w s =
     (if wpc s w = WMarked
      then Some (case wch s w of
             Some rwc \<Rightarrow> s\<lparr>wch := (wch s)(w := None), resets := resets s @ [rwc], wpc := (wpc s)(w := WAbandoned)\<rparr>
           | None \<Rightarrow> s\<lparr>wpc := (wpc s)(w := WAbandoned)\<rparr>)
      else None)"

section \<open>deliverIncomingStream\<close>

definition deliver_arrive :: "nat \<Rightarrow> string \<Rightarrow> rendezvous \<Rightarrow> rendezvous option" where
  "deliver_arrive rwc name s =
     (if dpc s rwc = DNone then Some (s\<lparr>dpc := (dpc s)(rwc := DArrived name)\<rparr>) else None)"

text \<open>The critical section: refuse, pop the oldest waiter, or park.\<close>

definition deliver_enter :: "nat \<Rightarrow> rendezvous \<Rightarrow> rendezvous option" where
  "deliver_enter rwc s =
     (case dpc s rwc of
        DArrived name \<Rightarrow>
          Some (if (draining s \<or> (allowedStreams s \<noteq> None \<and> \<not> nameAllowed (allowedStreams s) name)) \<and>
                   \<not> reservedStreamName name
                then s\<lparr>resets := resets s @ [rwc], dpc := (dpc s)(rwc := DDone)\<rparr>
                else case pendingOpens s name of
                  w # q \<Rightarrow>
                    s\<lparr>pendingOpens := (pendingOpens s)(name := q), dpc := (dpc s)(rwc := DPopped w)\<rparr>
                | [] \<Rightarrow>
                    if length (bufferedStreams s name) \<ge> bufferedCap s
                    then s\<lparr>resets := resets s @ [rwc], dpc := (dpc s)(rwc := DDone)\<rparr>
                    else s\<lparr>bufferedStreams := (bufferedStreams s)(name := bufferedStreams s name @ [rwc]),
                           dpc := (dpc s)(rwc := DDone)\<rparr>)
      | _ \<Rightarrow> None)"

text \<open>The waiter's channel has capacity one; sending to a full one would block.\<close>

definition deliver_send :: "nat \<Rightarrow> rendezvous \<Rightarrow> rendezvous option" where
  "deliver_send rwc s =
     (case dpc s rwc of
        DPopped w \<Rightarrow>
          (if wch s w = None
           then Some (s\<lparr>wch := (wch s)(w := Some rwc), dpc := (dpc s)(rwc := DSent w)\<rparr>) else None)
      | _ \<Rightarrow> None)"

definition deliver_check :: "nat \<Rightarrow> rendezvous \<Rightarrow> rendezvous option" where
  "deliver_check rwc s =
     (case dpc s rwc of
        DSent w \<Rightarrow> Some (s\<lparr>dpc := (dpc s)(rwc := if wdone s w then DDrain w else DDone)\<rparr>)
      | _ \<Rightarrow> None)"

definition deliver_drain :: "nat \<Rightarrow> rendezvous \<Rightarrow> rendezvous option" where
  "deliver_drain rwc s =
     (case dpc s rwc of
        DDrain w \<Rightarrow>
          Some (case wch s w of
             Some leaked \<Rightarrow> s\<lparr>wch := (wch s)(w := None), resets := resets s @ [leaked], dpc := (dpc s)(rwc := DDone)\<rparr>
           | None \<Rightarrow> s\<lparr>dpc := (dpc s)(rwc := DDone)\<rparr>)
      | _ \<Rightarrow> None)"

section \<open>Timers and draining\<close>

definition expireBuffered :: "string \<Rightarrow> nat \<Rightarrow> rendezvous \<Rightarrow> rendezvous" where
  "expireBuffered name rwc s =
     (if rwc \<in> set (bufferedStreams s name)
      then s\<lparr>bufferedStreams := (bufferedStreams s)(name := remove_first rwc (bufferedStreams s name)),
             resets := resets s @ [rwc]\<rparr>
      else s)"

text \<open>Every parked stream is reset; the map is replaced by an empty one. Names are visited in any order.\<close>

definition rejectParkedStreams :: "string list \<Rightarrow> rendezvous \<Rightarrow> rendezvous" where
  "rejectParkedStreams order s =
     s\<lparr>bufferedStreams := (\<lambda>_. []), resets := resets s @ concat (map (bufferedStreams s) order)\<rparr>"

definition drain_mark :: "rendezvous \<Rightarrow> rendezvous" where
  "drain_mark s = (if draining s then s else s\<lparr>draining := True, rejecting := True\<rparr>)"

definition drain_reject :: "string list \<Rightarrow> rendezvous \<Rightarrow> rendezvous option" where
  "drain_reject order s =
     (if rejecting s then Some ((rejectParkedStreams order s)\<lparr>rejecting := False\<rparr>) else None)"

datatype open_error = OpenNameEmpty | OpenSessionDraining

definition OpenStream_guard :: "string \<Rightarrow> rendezvous \<Rightarrow> open_error option" where
  "OpenStream_guard name s =
     (if name = [] then Some OpenNameEmpty
      else if draining s \<and> \<not> reservedStreamName name then Some OpenSessionDraining
      else None)"

datatype dispatch = DispatchEnumerate | DispatchLANOffer | DispatchCloseStream | DispatchDrain | DispatchDeliver

definition acceptLoop_dispatch :: "bool \<Rightarrow> bool \<Rightarrow> string \<Rightarrow> dispatch" where
  "acceptLoop_dispatch has_discover preferLAN name =
     (if name = discoveryStreamName \<and> has_discover then DispatchEnumerate
      else if name = lanControlStreamName then (if preferLAN then DispatchLANOffer else DispatchCloseStream)
      else if name = goAwayStreamName then DispatchDrain
      else DispatchDeliver)"


section \<open>The concurrent system\<close>

inductive rv_step :: "rendezvous \<Rightarrow> rendezvous \<Rightarrow> bool" where
  AcceptEnter: "accept_enter w name s = Some s' \<Longrightarrow> rv_step s s'" |
  AcceptRecv: "accept_recv w s = Some s' \<Longrightarrow> rv_step s s'" |
  RemovePending: "removePending w s = Some s' \<Longrightarrow> rv_step s s'" |
  AbandonMark: "abandon_mark w s = Some s' \<Longrightarrow> rv_step s s'" |
  AbandonDrain: "abandon_drain w s = Some s' \<Longrightarrow> rv_step s s'" |
  DeliverArrive: "deliver_arrive rwc name s = Some s' \<Longrightarrow> rv_step s s'" |
  DeliverEnter: "deliver_enter rwc s = Some s' \<Longrightarrow> rv_step s s'" |
  DeliverSend: "deliver_send rwc s = Some s' \<Longrightarrow> rv_step s s'" |
  DeliverCheck: "deliver_check rwc s = Some s' \<Longrightarrow> rv_step s s'" |
  DeliverDrain: "deliver_drain rwc s = Some s' \<Longrightarrow> rv_step s s'" |
  Expire: "rv_step s (expireBuffered name rwc s)" |
  DrainMark: "rv_step s (drain_mark s)" |
  DrainReject: "drain_reject order s = Some s' \<Longrightarrow> distinct order \<Longrightarrow>
      {n. bufferedStreams s n \<noteq> []} \<subseteq> set order \<Longrightarrow> rv_step s s'" |
  CloseReject: "distinct order \<Longrightarrow> {n. bufferedStreams s n \<noteq> []} \<subseteq> set order \<Longrightarrow>
      rv_step s (rejectParkedStreams order s)"

text \<open>Where a stream is. Every stream is in exactly one place, and the state says which.\<close>

datatype place = Nowhere | Held | InBuffer string | InChan nat | Application | Reset

definition owns :: "(nat \<Rightarrow> place) \<Rightarrow> rendezvous \<Rightarrow> bool" where
  "owns L s \<longleftrightarrow>
     (\<forall>r n. r \<in> set (bufferedStreams s n) \<longleftrightarrow> L r = InBuffer n) \<and>
     (\<forall>r w. wch s w = Some r \<longleftrightarrow> L r = InChan w) \<and>
     (\<forall>r. r \<in> set (returned s) \<longleftrightarrow> L r = Application) \<and>
     (\<forall>r. r \<in> set (resets s) \<longleftrightarrow> L r = Reset) \<and>
     (\<forall>r. L r = Nowhere \<longleftrightarrow> dpc s r = DNone) \<and>
     (\<forall>r. L r = Held \<longleftrightarrow> (\<exists>n. dpc s r = DArrived n) \<or> (\<exists>w. dpc s r = DPopped w)) \<and>
     distinct (returned s) \<and> distinct (resets s) \<and> (\<forall>n. distinct (bufferedStreams s n))"

text \<open>What the hand-over between a waiter and a delivery relies on.\<close>

definition handover :: "rendezvous \<Rightarrow> bool" where
  "handover s \<longleftrightarrow>
     (\<forall>n w. w \<in> set (pendingOpens s n) \<longrightarrow> wpc s w = WWaiting n \<and> wch s w = None \<and> (\<forall>r. dpc s r \<noteq> DPopped w)) \<and>
     (\<forall>n. distinct (pendingOpens s n)) \<and>
     (\<forall>r w. dpc s r = DPopped w \<longrightarrow> wch s w = None \<and> wpc s w \<notin> {WNone, WGot} \<and> (\<forall>r'. dpc s r' = DPopped w \<longrightarrow> r' = r)) \<and>
     (\<forall>w r. wch s w = Some r \<longrightarrow> wpc s w \<notin> {WNone, WGot} \<and> (wpc s w = WAbandoned \<longrightarrow> dpc s r \<in> {DSent w, DDrain w})) \<and>
     (\<forall>w. wdone s w \<longleftrightarrow> wpc s w \<in> {WMarked, WAbandoned})"

definition parked_ok :: "rendezvous \<Rightarrow> bool" where
  "parked_ok s \<longleftrightarrow>
     (\<forall>n. length (bufferedStreams s n) \<le> bufferedCap s) \<and> (rejecting s \<longrightarrow> draining s) \<and>
     (draining s \<and> \<not> rejecting s \<longrightarrow> (\<forall>n. reservedStreamName n \<or> bufferedStreams s n = []))"

lemma remove_first_notin: "w \<notin> set q \<Longrightarrow> remove_first w q = q"
  by (induction q) auto

lemma set_remove_first: "distinct q \<Longrightarrow> set (remove_first w q) = set q - {w}"
  by (induction q) auto

lemma distinct_remove_first: "distinct q \<Longrightarrow> distinct (remove_first w q)"
  by (induction q) (auto simp: set_remove_first)

lemma length_remove_first: "length (remove_first w q) \<le> length q"
  by (induction q) auto

section \<open>Case rules of the steps\<close>

lemma accept_enter_cases:
  assumes "accept_enter w name s = Some s'"
  obtains (take) r q where "wpc s w = WNone" "bufferedStreams s name = r # q"
      "s' = s\<lparr>bufferedStreams := (bufferedStreams s)(name := q), wpc := (wpc s)(w := WGot), returned := returned s @ [r]\<rparr>"
  | (join) "wpc s w = WNone" "bufferedStreams s name = []"
      "s' = s\<lparr>pendingOpens := (pendingOpens s)(name := pendingOpens s name @ [w]), wpc := (wpc s)(w := WWaiting name)\<rparr>"
  using assms by (auto simp: accept_enter_def split: if_splits list.splits)

lemma accept_recv_cases:
  assumes "accept_recv w s = Some s'"
  obtains n r where "wpc s w = WWaiting n" "wch s w = Some r"
    "s' = s\<lparr>wch := (wch s)(w := None), wpc := (wpc s)(w := WGot), returned := returned s @ [r]\<rparr>"
  using assms by (auto simp: accept_recv_def split: wait_pc.splits option.splits)

lemma removePending_cases:
  assumes "removePending w s = Some s'"
  obtains n where "wpc s w = WWaiting n"
    "s' = s\<lparr>pendingOpens := (pendingOpens s)(n := remove_first w (pendingOpens s n)), wpc := (wpc s)(w := WRemoved)\<rparr>"
  using assms by (auto simp: removePending_def split: wait_pc.splits)

lemma abandon_mark_cases:
  assumes "abandon_mark w s = Some s'"
  obtains "wpc s w = WRemoved" "s' = s\<lparr>wdone := (wdone s)(w := True), wpc := (wpc s)(w := WMarked)\<rparr>"
  using assms by (auto simp: abandon_mark_def split: if_splits)

lemma abandon_drain_cases:
  assumes "abandon_drain w s = Some s'"
  obtains (got) r where "wpc s w = WMarked" "wch s w = Some r"
      "s' = s\<lparr>wch := (wch s)(w := None), resets := resets s @ [r], wpc := (wpc s)(w := WAbandoned)\<rparr>"
  | (none) "wpc s w = WMarked" "wch s w = None" "s' = s\<lparr>wpc := (wpc s)(w := WAbandoned)\<rparr>"
  using assms by (auto simp: abandon_drain_def split: if_splits option.splits)

lemma deliver_arrive_cases:
  assumes "deliver_arrive rwc name s = Some s'"
  obtains "dpc s rwc = DNone" "s' = s\<lparr>dpc := (dpc s)(rwc := DArrived name)\<rparr>"
  using assms by (auto simp: deliver_arrive_def split: if_splits)

lemma deliver_enter_cases:
  assumes "deliver_enter rwc s = Some s'"
  obtains (refuse) n where "dpc s rwc = DArrived n"
      "s' = s\<lparr>resets := resets s @ [rwc], dpc := (dpc s)(rwc := DDone)\<rparr>"
  | (pop) n w q where "dpc s rwc = DArrived n" "pendingOpens s n = w # q"
      "s' = s\<lparr>pendingOpens := (pendingOpens s)(n := q), dpc := (dpc s)(rwc := DPopped w)\<rparr>"
  | (park) n where "dpc s rwc = DArrived n" "length (bufferedStreams s n) < bufferedCap s"
      "\<not> draining s \<or> reservedStreamName n" "nameAllowed (allowedStreams s) n"
      "s' = s\<lparr>bufferedStreams := (bufferedStreams s)(n := bufferedStreams s n @ [rwc]), dpc := (dpc s)(rwc := DDone)\<rparr>"
  using assms
  by (auto simp: deliver_enter_def nameAllowed_def not_le split: deliver_pc.splits if_splits list.splits)

lemma deliver_send_cases:
  assumes "deliver_send rwc s = Some s'"
  obtains w where "dpc s rwc = DPopped w" "wch s w = None"
    "s' = s\<lparr>wch := (wch s)(w := Some rwc), dpc := (dpc s)(rwc := DSent w)\<rparr>"
  using assms by (auto simp: deliver_send_def split: deliver_pc.splits if_splits)

lemma deliver_check_cases:
  assumes "deliver_check rwc s = Some s'"
  obtains w where "dpc s rwc = DSent w" "s' = s\<lparr>dpc := (dpc s)(rwc := if wdone s w then DDrain w else DDone)\<rparr>"
  using assms by (auto simp: deliver_check_def split: deliver_pc.splits)

lemma deliver_drain_cases:
  assumes "deliver_drain rwc s = Some s'"
  obtains (got) w x where "dpc s rwc = DDrain w" "wch s w = Some x"
      "s' = s\<lparr>wch := (wch s)(w := None), resets := resets s @ [x], dpc := (dpc s)(rwc := DDone)\<rparr>"
  | (none) w where "dpc s rwc = DDrain w" "wch s w = None" "s' = s\<lparr>dpc := (dpc s)(rwc := DDone)\<rparr>"
  using assms by (auto simp: deliver_drain_def split: deliver_pc.splits option.splits)

lemma drain_reject_cases:
  assumes "drain_reject order s = Some s'"
  obtains "rejecting s" "s' = s\<lparr>bufferedStreams := (\<lambda>_. []), resets := resets s @ concat (map (bufferedStreams s) order), rejecting := False\<rparr>"
  using assms by (auto simp: drain_reject_def rejectParkedStreams_def split: if_splits)

section \<open>Parked streams\<close>

lemma parked_cong:
  assumes "parked_ok s" and "bufferedStreams s' = bufferedStreams s" and "maxBufferedPerName s' = maxBufferedPerName s"
    and "draining s' = draining s" and "rejecting s' = rejecting s"
  shows "parked_ok s'"
proof -
  have "bufferedCap s' = bufferedCap s" using assms(3) by (simp add: bufferedCap_def)
  then show ?thesis using assms by (simp add: parked_ok_def)
qed

lemma parked_shrink:
  assumes "parked_ok s" and "length q \<le> length (bufferedStreams s name)"
    and "bufferedStreams s' = (bufferedStreams s)(name := q)" and "maxBufferedPerName s' = maxBufferedPerName s"
    and "draining s' = draining s" and "rejecting s' = rejecting s"
  shows "parked_ok s'"
proof -
  have "bufferedCap s' = bufferedCap s" using assms(4) by (simp add: bufferedCap_def)
  moreover have "length q \<le> bufferedCap s" "bufferedStreams s name = [] \<longrightarrow> q = []"
    using assms(1,2) order_trans by (auto simp: parked_ok_def)
  ultimately show ?thesis using assms by (auto simp: parked_ok_def)
qed

lemma parked_step: "rv_step s s' \<Longrightarrow> parked_ok s \<Longrightarrow> parked_ok s'"
proof (induction rule: rv_step.induct)
  case (AcceptEnter w name s s')
  from AcceptEnter(1) show ?case
  proof (cases rule: accept_enter_cases)
    case (take r q)
    then show ?thesis by (auto intro: parked_shrink [OF AcceptEnter(2), of q name])
  qed (auto intro: parked_cong [OF AcceptEnter(2)])
next
  case (AcceptRecv w s s')
  from AcceptRecv(1) show ?case by (cases rule: accept_recv_cases) (auto intro: parked_cong [OF AcceptRecv(2)])
next
  case (RemovePending w s s')
  from RemovePending(1) show ?case by (cases rule: removePending_cases) (auto intro: parked_cong [OF RemovePending(2)])
next
  case (AbandonMark w s s')
  from AbandonMark(1) show ?case by (cases rule: abandon_mark_cases) (auto intro: parked_cong [OF AbandonMark(2)])
next
  case (AbandonDrain w s s')
  from AbandonDrain(1) show ?case by (cases rule: abandon_drain_cases) (auto intro: parked_cong [OF AbandonDrain(2)])
next
  case (DeliverArrive rwc name s s')
  from DeliverArrive(1) show ?case by (cases rule: deliver_arrive_cases) (auto intro: parked_cong [OF DeliverArrive(2)])
next
  case (DeliverEnter rwc s s')
  from DeliverEnter(1) show ?case
  proof (cases rule: deliver_enter_cases)
    case (park n)
    with DeliverEnter(2) show ?thesis by (auto simp: parked_ok_def bufferedCap_def)
  qed (auto intro: parked_cong [OF DeliverEnter(2)])
next
  case (DeliverSend rwc s s')
  from DeliverSend(1) show ?case by (cases rule: deliver_send_cases) (auto intro: parked_cong [OF DeliverSend(2)])
next
  case (DeliverCheck rwc s s')
  from DeliverCheck(1) show ?case by (cases rule: deliver_check_cases) (auto intro: parked_cong [OF DeliverCheck(2)])
next
  case (DeliverDrain rwc s s')
  from DeliverDrain(1) show ?case by (cases rule: deliver_drain_cases) (auto intro: parked_cong [OF DeliverDrain(2)])
next
  case (Expire s name rwc)
  then show ?case
    using length_remove_first [of rwc "bufferedStreams s name"]
    by (auto simp: expireBuffered_def intro: parked_shrink [OF Expire])
next
  case (DrainMark s)
  then show ?case by (auto simp: drain_mark_def parked_ok_def bufferedCap_def)
next
  case (DrainReject order s s')
  from DrainReject(1) DrainReject(4) show ?case
    by (cases rule: drain_reject_cases) (auto simp: parked_ok_def)
next
  case (CloseReject order s)
  then show ?case by (auto simp: rejectParkedStreams_def parked_ok_def)
qed


section \<open>The hand-over\<close>

lemma handoverI:
  assumes "\<And>n w. w \<in> set (pendingOpens s n) \<Longrightarrow> wpc s w = WWaiting n"
    and "\<And>n w. w \<in> set (pendingOpens s n) \<Longrightarrow> wch s w = None"
    and "\<And>n w r. w \<in> set (pendingOpens s n) \<Longrightarrow> dpc s r \<noteq> DPopped w"
    and "\<And>n. distinct (pendingOpens s n)"
    and "\<And>r w. dpc s r = DPopped w \<Longrightarrow> wch s w = None"
    and "\<And>r w. dpc s r = DPopped w \<Longrightarrow> wpc s w \<noteq> WNone \<and> wpc s w \<noteq> WGot"
    and "\<And>r r' w. dpc s r = DPopped w \<Longrightarrow> dpc s r' = DPopped w \<Longrightarrow> r' = r"
    and "\<And>w r. wch s w = Some r \<Longrightarrow> wpc s w \<noteq> WNone \<and> wpc s w \<noteq> WGot"
    and "\<And>w r. wch s w = Some r \<Longrightarrow> wpc s w = WAbandoned \<Longrightarrow> dpc s r = DSent w \<or> dpc s r = DDrain w"
    and "\<And>w. wdone s w \<longleftrightarrow> wpc s w = WMarked \<or> wpc s w = WAbandoned"
  shows "handover s"
proof -
  have "\<forall>r'. dpc s r' = DPopped w \<longrightarrow> r' = r" if "dpc s r = DPopped w" for r w using assms(7) [OF that] by blast
  then show ?thesis using assms(1-6,8-10) unfolding handover_def by simp
qed

lemma handoverD:
  assumes "handover s"
  shows "w \<in> set (pendingOpens s n) \<Longrightarrow> wpc s w = WWaiting n"
    and "w \<in> set (pendingOpens s n) \<Longrightarrow> wch s w = None"
    and "w \<in> set (pendingOpens s n) \<Longrightarrow> dpc s r \<noteq> DPopped w"
    and "distinct (pendingOpens s n)"
    and "dpc s r = DPopped w \<Longrightarrow> wch s w = None"
    and "dpc s r = DPopped w \<Longrightarrow> wpc s w \<noteq> WNone \<and> wpc s w \<noteq> WGot"
    and "dpc s r = DPopped w \<Longrightarrow> dpc s r' = DPopped w \<Longrightarrow> r' = r"
    and "wch s w = Some r \<Longrightarrow> wpc s w \<noteq> WNone \<and> wpc s w \<noteq> WGot"
    and "wch s w = Some r \<Longrightarrow> wpc s w = WAbandoned \<Longrightarrow> dpc s r = DSent w \<or> dpc s r = DDrain w"
    and "wdone s w \<longleftrightarrow> wpc s w = WMarked \<or> wpc s w = WAbandoned"
  using assms unfolding handover_def by simp_all

text \<open>The transitions that leave the hand-over untouched.\<close>

lemma handover_cong:
  assumes "handover s" and "pendingOpens s' = pendingOpens s" and "wch s' = wch s" and "wdone s' = wdone s"
    and "wpc s' = wpc s" and "dpc s' = dpc s"
  shows "handover s'"
  using assms by (simp add: handover_def)

text \<open>A waiter moves on: its program counter changes and its channel is unchanged or emptied.\<close>

lemma handover_waiter:
  assumes h: "handover s" and p: "\<And>n. w \<notin> set (pendingOpens s' n)" "\<And>n. set (pendingOpens s' n) \<subseteq> set (pendingOpens s n)"
    "\<And>n. distinct (pendingOpens s' n)"
    and c: "\<And>v. v \<noteq> w \<Longrightarrow> wch s' v = wch s v" "wch s' w = None \<or> wch s' w = wch s w"
    and pc: "\<And>v. v \<noteq> w \<Longrightarrow> wpc s' v = wpc s v" "\<And>v. v \<noteq> w \<Longrightarrow> wdone s' v = wdone s v"
    and d: "dpc s' = dpc s"
    and w: "wpc s' w \<noteq> WNone" "wpc s' w = WGot \<Longrightarrow> wch s' w = None \<and> (\<forall>r. dpc s r \<noteq> DPopped w)"
    "wpc s' w = WAbandoned \<Longrightarrow> wch s' w = None" "wdone s' w \<longleftrightarrow> wpc s' w = WMarked \<or> wpc s' w = WAbandoned"
  shows "handover s'"
proof (rule handoverI)
  note D = handoverD [OF h]
  fix n v r assume v: "v \<in> set (pendingOpens s' n)"
  then have vw: "v \<noteq> w" "v \<in> set (pendingOpens s n)" using p by auto
  show "wpc s' v = WWaiting n" "wch s' v = None" "dpc s' r \<noteq> DPopped v"
    using vw D(1-3) c pc d by auto
next
  show "distinct (pendingOpens s' n)" for n by (rule p)
next
  note D = handoverD [OF h]
  fix r v assume r: "dpc s' r = DPopped v"
  then have r': "dpc s r = DPopped v" using d by simp
  show "wch s' v = None" using D(5) [OF r'] c by (cases "v = w") auto
  show "wpc s' v \<noteq> WNone \<and> wpc s' v \<noteq> WGot" using D(6) [OF r'] pc w r' by (cases "v = w") auto
  show "r'' = r" if "dpc s' r'' = DPopped v" for r'' using D(7) [OF r'] that d by simp
next
  note D = handoverD [OF h]
  fix v r assume r: "wch s' v = Some r"
  then have r': "wch s v = Some r" using c by (cases "v = w") auto
  show "wpc s' v \<noteq> WNone \<and> wpc s' v \<noteq> WGot" using D(8) [OF r'] pc w r by (cases "v = w") auto
  show "dpc s' r = DSent v \<or> dpc s' r = DDrain v" if "wpc s' v = WAbandoned"
    using D(9) [OF r'] that pc w r d by (cases "v = w") auto
next
  show "wdone s' v \<longleftrightarrow> wpc s' v = WMarked \<or> wpc s' v = WAbandoned" for v
    using handoverD(10) [OF h, of v] pc w by (cases "v = w") auto
qed

text \<open>A delivery moves on without popping a waiter; it may empty a channel or fill its waiter's.\<close>

lemma handover_delivery:
  assumes h: "handover s" and p: "pendingOpens s' = pendingOpens s" "wpc s' = wpc s" "wdone s' = wdone s"
    and d: "\<And>x. x \<noteq> r \<Longrightarrow> dpc s' x = dpc s x" "\<And>w. dpc s' r \<noteq> DPopped w"
    and c: "\<And>v x. wch s' v = Some x \<Longrightarrow> wch s v = Some x \<or> dpc s r = DPopped v \<and> x = r \<and> dpc s' r = DSent v"
    and k: "\<And>v. wch s' v = Some r \<Longrightarrow> wpc s v = WAbandoned \<Longrightarrow> dpc s' r = DSent v \<or> dpc s' r = DDrain v"
  shows "handover s'"
proof (rule handoverI)
  note D = handoverD [OF h]
  have popped: "dpc s x = DPopped v" if "dpc s' x = DPopped v" for x v using that d by metis
  have empty: "wch s' v = None" if "wch s v = None" "dpc s r \<noteq> DPopped v" for v
    using c [of v] that by (cases "wch s' v") auto
  show "wpc s' w = WWaiting n" "wch s' w = None" "dpc s' x \<noteq> DPopped w" if "w \<in> set (pendingOpens s' n)" for n w x
    using that p D(1-3) popped empty by metis+
  show "distinct (pendingOpens s' n)" for n using D(4) p by simp
  show "wch s' w = None" if "dpc s' x = DPopped w" for x w
    using popped [OF that] that D(5) D(7) empty d(2) by metis
  show "wpc s' w \<noteq> WNone \<and> wpc s' w \<noteq> WGot" if "dpc s' x = DPopped w" for x w
    using D(6) [OF popped [OF that]] p by simp
  show "x' = x" if "dpc s' x = DPopped w" "dpc s' x' = DPopped w" for x x' w
    using D(7) [OF popped [OF that(1)] popped [OF that(2)]] .
  show "wpc s' w \<noteq> WNone \<and> wpc s' w \<noteq> WGot" if "wch s' w = Some x" for w x
    using c [OF that] D(6) D(8) p by metis
  show "dpc s' x = DSent w \<or> dpc s' x = DDrain w" if "wch s' w = Some x" "wpc s' w = WAbandoned" for w x
    using c [OF that(1)] k D(9) d(1) p that by metis
  show "wdone s' w \<longleftrightarrow> wpc s' w = WMarked \<or> wpc s' w = WAbandoned" for w using D(10) p by simp
qed


lemma handover_pending:
  assumes "handover s" and "\<forall>n. wpc s w \<noteq> WWaiting n"
  shows "w \<notin> set (pendingOpens s n)"
  using handoverD(1) [OF assms(1)] assms(2) by metis

lemma handover_fresh:
  assumes "handover s" and "wpc s w = WNone"
  shows "w \<notin> set (pendingOpens s n)" and "wch s w = None" and "dpc s r \<noteq> DPopped w"
proof -
  show "w \<notin> set (pendingOpens s n)" using handover_pending [OF assms(1)] assms(2) by simp
  show "wch s w = None" using handoverD(8) [OF assms(1)] assms(2) by (metis not_Some_eq)
  show "dpc s r \<noteq> DPopped w" using handoverD(6) [OF assms(1)] assms(2) by metis
qed

lemma handover_accept_enter:
  assumes "accept_enter w name s = Some s'" and h: "handover s"
  shows "handover s'"
  using assms(1)
proof (cases rule: accept_enter_cases)
  case (take r q)
  note f = handover_fresh [OF h take(1)] handoverD(4,10) [OF h]
  show ?thesis by (rule handover_waiter [OF h, of w]) (simp_all add: take(1,3) f)
next
  case join
  note f = handover_fresh [OF h join(1)] and D = handoverD [OF h]
  show ?thesis
  proof (rule handoverI)
    fix n v r assume "v \<in> set (pendingOpens s' n)"
    then have "v = w \<and> n = name \<or> v \<noteq> w \<and> v \<in> set (pendingOpens s n)"
      using f(1) join(3) by (auto split: if_splits)
    then show "wpc s' v = WWaiting n" "wch s' v = None" "dpc s' r \<noteq> DPopped v"
      using f D(1-3) join(3) by auto
  next
    show "distinct (pendingOpens s' n)" for n using D(4) f(1) join(3) by simp
  next
    show "wch s' v = None" "wpc s' v \<noteq> WNone \<and> wpc s' v \<noteq> WGot" if "dpc s' r = DPopped v" for r v
      using that f(3) D(5,6) join(3) by auto
    show "r' = r" if "dpc s' r = DPopped v" "dpc s' r' = DPopped v" for r r' v
      using that D(7) join(3) by simp
    show "wpc s' v \<noteq> WNone \<and> wpc s' v \<noteq> WGot" if "wch s' v = Some r" for r v
      using that f(2) D(8) join(3) by auto
    show "dpc s' r = DSent v \<or> dpc s' r = DDrain v" if "wch s' v = Some r" "wpc s' v = WAbandoned" for r v
      using that D(9) join(3) by (auto split: if_splits)
    show "wdone s' v \<longleftrightarrow> wpc s' v = WMarked \<or> wpc s' v = WAbandoned" for v
      using D(10) [of v] D(10) [of w] join(1,3) by simp
  qed
qed

lemma handover_waiter_steps:
  assumes h: "handover s"
  shows "accept_recv w s = Some s' \<Longrightarrow> handover s'"
    and "removePending w s = Some s' \<Longrightarrow> handover s'"
    and "abandon_mark w s = Some s' \<Longrightarrow> handover s'"
    and "abandon_drain w s = Some s' \<Longrightarrow> handover s'"
proof -
  note D = handoverD [OF h]
  {
    assume "accept_recv w s = Some s'"
    then obtain n r where s': "wpc s w = WWaiting n" "wch s w = Some r"
      "s' = s\<lparr>wch := (wch s)(w := None), wpc := (wpc s)(w := WGot), returned := returned s @ [r]\<rparr>"
      by (rule accept_recv_cases)
    have "w \<notin> set (pendingOpens s m)" "dpc s x \<noteq> DPopped w" for m x
      using D(2,5) s'(2) by (metis option.distinct(1))+
    then show "handover s'"
      using D(4) D(10) [of w] s'(1) by (intro handover_waiter [OF h, of w]) (simp_all add: s'(3))
  next
    assume "removePending w s = Some s'"
    then obtain n where s': "wpc s w = WWaiting n"
      "s' = s\<lparr>pendingOpens := (pendingOpens s)(n := remove_first w (pendingOpens s n)), wpc := (wpc s)(w := WRemoved)\<rparr>"
      by (rule removePending_cases)
    have "w \<notin> set (pendingOpens s m)" if "m \<noteq> n" for m using D(1) s'(1) that by (metis wait_pc.inject)
    then show "handover s'"
      using D(4) D(10) [of w] s'(1)
      by (intro handover_waiter [OF h, of w])
        (simp_all add: s'(2) set_remove_first [OF D(4)] distinct_remove_first [OF D(4)] split: if_splits)
  next
    assume "abandon_mark w s = Some s'"
    then have s': "wpc s w = WRemoved" "s' = s\<lparr>wdone := (wdone s)(w := True), wpc := (wpc s)(w := WMarked)\<rparr>"
      by (auto elim: abandon_mark_cases)
    have "w \<notin> set (pendingOpens s m)" for m using handover_pending [OF h] s'(1) by simp
    then show "handover s'" using D(4) by (intro handover_waiter [OF h, of w]) (simp_all add: s'(2))
  next
    assume "abandon_drain w s = Some s'"
    then have s': "wpc s w = WMarked" "pendingOpens s' = pendingOpens s" "wch s' = (wch s)(w := None)"
      "wpc s' = (wpc s)(w := WAbandoned)" "wdone s' = wdone s" "dpc s' = dpc s"
      by (auto elim!: abandon_drain_cases)
    have "w \<notin> set (pendingOpens s m)" for m using handover_pending [OF h] s'(1) by simp
    then show "handover s'" using D(4) D(10) [of w] s'(1) by (intro handover_waiter [OF h, of w]) (simp_all add: s')
  }
qed

lemma handover_pop:
  assumes h: "handover s" and p: "dpc s rwc = DArrived n" "pendingOpens s n = w # q"
    and s': "s' = s\<lparr>pendingOpens := (pendingOpens s)(n := q), dpc := (dpc s)(rwc := DPopped w)\<rparr>"
  shows "handover s'"
proof (rule handoverI)
  note D = handoverD [OF h]
  have w: "w \<in> set (pendingOpens s n)" "w \<notin> set q" using p(2) D(4) [of n] by auto
  have nw: "w \<notin> set (pendingOpens s m)" if "m \<noteq> n" for m using D(1) [OF w(1)] D(1) [of w m] that by auto
  have sub: "v \<in> set (pendingOpens s m) \<and> v \<noteq> w" if "v \<in> set (pendingOpens s' m)" for v m
    using that w nw p(2) s' by (auto split: if_splits)
  show "wpc s' v = WWaiting m" "wch s' v = None" "dpc s' r \<noteq> DPopped v" if "v \<in> set (pendingOpens s' m)" for m v r
    using sub [OF that] D(1-3) [of v m] s' by (auto split: if_splits)
  show "distinct (pendingOpens s' m)" for m using D(4) [of m] D(4) [of n] p(2) s' by auto
  have pop: "r = rwc \<and> v = w \<or> dpc s r = DPopped v \<and> v \<noteq> w" if "dpc s' r = DPopped v" for r v
    using that D(3) [OF w(1)] s' by (auto split: if_splits)
  show "wch s' v = None" "wpc s' v \<noteq> WNone \<and> wpc s' v \<noteq> WGot" if "dpc s' r = DPopped v" for r v
    using pop [OF that] D(5,6) [of r v] D(1,2) [OF w(1)] s' by auto
  show "r' = r" if "dpc s' r = DPopped v" "dpc s' r' = DPopped v" for r r' v
    using pop [OF that(1)] pop [OF that(2)] D(7) by auto
  show "wpc s' v \<noteq> WNone \<and> wpc s' v \<noteq> WGot" if "wch s' v = Some r" for r v using that D(8) s' by simp
  show "dpc s' r = DSent v \<or> dpc s' r = DDrain v" if "wch s' v = Some r" "wpc s' v = WAbandoned" for r v
    using that D(9) [of v r] p(1) s' by auto
  show "wdone s' v \<longleftrightarrow> wpc s' v = WMarked \<or> wpc s' v = WAbandoned" for v using D(10) s' by simp
qed

lemma handover_delivery_steps:
  assumes h: "handover s"
  shows "deliver_arrive rwc name s = Some s' \<Longrightarrow> handover s'"
    and "deliver_enter rwc s = Some s' \<Longrightarrow> handover s'"
    and "deliver_send rwc s = Some s' \<Longrightarrow> handover s'"
    and "deliver_check rwc s = Some s' \<Longrightarrow> handover s'"
    and "deliver_drain rwc s = Some s' \<Longrightarrow> handover s'"
proof -
  note D = handoverD [OF h]
  {
    assume "deliver_arrive rwc name s = Some s'"
    then show "handover s'"
      using D(9) [where r = rwc] by (elim deliver_arrive_cases) (intro handover_delivery [OF h, of _ rwc], auto)
  next
    assume "deliver_enter rwc s = Some s'"
    then show "handover s'"
    proof (cases rule: deliver_enter_cases)
      case (pop n w q)
      then show ?thesis by (rule handover_pop [OF h])
    qed (use D(9) [where r = rwc] in \<open>intro handover_delivery [OF h, of _ rwc], auto\<close>)+
  next
    assume "deliver_send rwc s = Some s'"
    then obtain w where "dpc s rwc = DPopped w" "wch s w = None"
      "s' = s\<lparr>wch := (wch s)(w := Some rwc), dpc := (dpc s)(rwc := DSent w)\<rparr>" by (rule deliver_send_cases)
    then show "handover s'"
      using D(9) [where r = rwc] by (intro handover_delivery [OF h, of _ rwc]) (auto split: if_splits)
  next
    assume "deliver_check rwc s = Some s'"
    then obtain w where "dpc s rwc = DSent w" "s' = s\<lparr>dpc := (dpc s)(rwc := if wdone s w then DDrain w else DDone)\<rparr>"
      by (rule deliver_check_cases)
    then show "handover s'"
      using D(9) [where r = rwc] D(10) by (intro handover_delivery [OF h, of _ rwc]) (auto split: if_splits)
  next
    assume "deliver_drain rwc s = Some s'"
    then show "handover s'"
      using D(9) [where r = rwc]
      by (cases rule: deliver_drain_cases) (intro handover_delivery [OF h, of _ rwc], auto split: if_splits)+
  }
qed

lemma handover_step: "rv_step s s' \<Longrightarrow> handover s \<Longrightarrow> handover s'"
  by (induction rule: rv_step.induct)
    (auto intro: handover_accept_enter handover_waiter_steps handover_delivery_steps elim!: drain_reject_cases
      elim: handover_cong simp: expireBuffered_def drain_mark_def rejectParkedStreams_def)


section \<open>Ownership\<close>

lemma owns_cong:
  assumes "owns L s" and "bufferedStreams s' = bufferedStreams s" and "wch s' = wch s" and "returned s' = returned s"
    and "resets s' = resets s" and "\<And>r. dpc s' r = DNone \<longleftrightarrow> dpc s r = DNone"
    and "\<And>r. (\<exists>n. dpc s' r = DArrived n) \<or> (\<exists>w. dpc s' r = DPopped w) \<longleftrightarrow> (\<exists>n. dpc s r = DArrived n) \<or> (\<exists>w. dpc s r = DPopped w)"
  shows "owns L s'"
  using assms unfolding owns_def by simp

text \<open>A parked stream, or one in a channel, goes to the application or is reset.\<close>

lemma owns_settle:
  assumes o: "owns L s"
    and b: "\<And>n. set (bufferedStreams s' n) = set (bufferedStreams s n) - {r}" "\<And>n. distinct (bufferedStreams s' n)"
    and c: "\<And>w x. wch s' w = Some x \<longleftrightarrow> wch s w = Some x \<and> x \<noteq> r"
    and l: "L r \<noteq> Application" "L r \<noteq> Reset" "L r \<noteq> Nowhere"
    and f: "returned s' = returned s @ [r] \<and> resets s' = resets s \<and> p = Application \<or>
            returned s' = returned s \<and> resets s' = resets s @ [r] \<and> p = Reset"
    and d: "\<And>x. dpc s' x = DNone \<longleftrightarrow> dpc s x = DNone"
      "\<And>x. x \<noteq> r \<Longrightarrow> dpc s' x = dpc s x \<or> L x \<noteq> Held \<and> dpc s' x = DDone"
      "\<And>n. dpc s' r \<noteq> DArrived n" "\<And>w. dpc s' r \<noteq> DPopped w"
  shows "owns (L(r := p)) s'"
proof -
  note O = o [unfolded owns_def]
  have held: "(\<exists>n. dpc s' x = DArrived n) \<or> (\<exists>w. dpc s' x = DPopped w) \<longleftrightarrow> L x = Held" if "x \<noteq> r" for x
    using d(2) [OF that] O by (metis deliver_pc.distinct(17,23))
  have "r \<notin> set (returned s)" "r \<notin> set (resets s)" "dpc s r \<noteq> DNone" using O l by simp_all
  then show ?thesis
    unfolding owns_def using O b c f d held by (auto split: if_splits)
qed

lemma ownsD:
  assumes "owns L s"
  shows "r \<in> set (bufferedStreams s n) \<longleftrightarrow> L r = InBuffer n"
    and "wch s w = Some r \<longleftrightarrow> L r = InChan w"
    and "r \<in> set (returned s) \<longleftrightarrow> L r = Application"
    and "r \<in> set (resets s) \<longleftrightarrow> L r = Reset"
    and "L r = Nowhere \<longleftrightarrow> dpc s r = DNone"
    and "dpc s r = DArrived n \<Longrightarrow> L r = Held" and "dpc s r = DPopped w \<Longrightarrow> L r = Held"
    and "distinct (returned s)" and "distinct (resets s)" and "distinct (bufferedStreams s n)"
  using assms unfolding owns_def by blast+

lemma ownsI:
  assumes "\<And>r n. r \<in> set (bufferedStreams s n) \<longleftrightarrow> L r = InBuffer n" "\<And>r w. wch s w = Some r \<longleftrightarrow> L r = InChan w"
    "\<And>r. r \<in> set (returned s) \<longleftrightarrow> L r = Application" "\<And>r. r \<in> set (resets s) \<longleftrightarrow> L r = Reset"
    "\<And>r. L r = Nowhere \<longleftrightarrow> dpc s r = DNone"
    "\<And>r. L r = Held \<longleftrightarrow> (\<exists>n. dpc s r = DArrived n) \<or> (\<exists>w. dpc s r = DPopped w)"
    "distinct (returned s)" "distinct (resets s)" "\<And>n. distinct (bufferedStreams s n)"
  shows "owns L s"
  unfolding owns_def using assms by blast

lemma owns_held: "owns L s \<Longrightarrow> L r = Held \<longleftrightarrow> (\<exists>n. dpc s r = DArrived n) \<or> (\<exists>w. dpc s r = DPopped w)"
  unfolding owns_def by blast

lemma owns_accept_enter: "accept_enter w name s = Some s' \<Longrightarrow> owns L s \<Longrightarrow> \<exists>L. owns L s'"
proof (erule accept_enter_cases)
  fix r q
  assume o: "owns L s" and b: "bufferedStreams s name = r # q"
    and s': "s' = s\<lparr>bufferedStreams := (bufferedStreams s)(name := q), wpc := (wpc s)(w := WGot), returned := returned s @ [r]\<rparr>"
  note O = ownsD [OF o]
  have L: "L r = InBuffer name" using O(1) [of r name] b by simp
  have n: "r \<notin> set (bufferedStreams s n)" if "n \<noteq> name" for n using O(1) [of r n] L that by simp
  have q: "r \<notin> set q" "distinct q" using O(10) [of name] b by simp_all
  have bs: "set (bufferedStreams s' n) = set (bufferedStreams s n) - {r}" "distinct (bufferedStreams s' n)" for n
    using n q O(10) b by (simp_all add: s')
  have ch: "wch s' v = Some x \<longleftrightarrow> wch s v = Some x \<and> x \<noteq> r" for v x using O(2) [of v x] L by (auto simp: s')
  have "owns (L(r := Application)) s'"
    by (rule owns_settle [OF o bs ch]) (use L O(6,7) [where r = r] in \<open>auto simp: s'\<close>)
  then show ?thesis by blast
next
  assume o: "owns L s"
    and s': "s' = s\<lparr>pendingOpens := (pendingOpens s)(name := pendingOpens s name @ [w]), wpc := (wpc s)(w := WWaiting name)\<rparr>"
  have "owns L s'" by (rule owns_cong [OF o]) (simp_all add: s')
  then show ?thesis by blast
qed

lemma owns_accept_recv: "accept_recv w s = Some s' \<Longrightarrow> owns L s \<Longrightarrow> \<exists>L. owns L s'"
proof (erule accept_recv_cases)
  fix n r
  assume o: "owns L s" and c: "wch s w = Some r"
    and s': "s' = s\<lparr>wch := (wch s)(w := None), wpc := (wpc s)(w := WGot), returned := returned s @ [r]\<rparr>"
  note O = ownsD [OF o]
  have L: "L r = InChan w" using O(2) c by simp
  have ch: "wch s v = Some x \<and> x \<noteq> r \<longleftrightarrow> v \<noteq> w \<and> wch s v = Some x" for v x
    using c L O(2) [of v r] by (cases "v = w") auto
  have "owns (L(r := Application)) s'"
    using O(1) [of r] O(6,7) [where r = r] O(10) L ch
    by (intro owns_settle [OF o]) (auto simp: s')
  then show ?thesis by blast
qed

lemma owns_reset_channel:
  assumes o: "owns L s" and c: "wch s w = Some r"
    and s': "bufferedStreams s' = bufferedStreams s" "wch s' = (wch s)(w := None)" "returned s' = returned s"
      "resets s' = resets s @ [r]"
      "\<And>x. dpc s' x = dpc s x \<or> (\<exists>v. dpc s x = DDrain v) \<and> dpc s' x = DDone"
  shows "\<exists>L. owns L s'"
proof -
  note O = ownsD [OF o]
  have L: "L r = InChan w" using O(2) c by simp
  have ch: "wch s v = Some x \<and> x \<noteq> r \<longleftrightarrow> v \<noteq> w \<and> wch s v = Some x" for v x
    using c L O(2) [of v r] by (cases "v = w") auto
  have drain: "L x \<noteq> Held" if "dpc s x = DDrain v" for x v using o that unfolding owns_def by auto
  have "owns (L(r := Reset)) s'"
  proof (rule owns_settle [OF o])
    show "dpc s' x = DNone \<longleftrightarrow> dpc s x = DNone" for x using s'(5) [of x] by auto
    show "dpc s' x = dpc s x \<or> L x \<noteq> Held \<and> dpc s' x = DDone" for x using s'(5) [of x] drain by auto
    show "dpc s' r \<noteq> DArrived n" "dpc s' r \<noteq> DPopped v" for n v using s'(5) [of r] O(6,7) [where r = r] L by auto
  qed (use O(1) [of r] O(10) L ch s' in auto)
  then show ?thesis by blast
qed

text \<open>A held stream is parked, put in a channel or reset.\<close>

lemma owns_release:
  assumes o: "owns L s" and L: "L r = Held"
    and b: "\<And>n x. x \<in> set (bufferedStreams s' n) \<longleftrightarrow> x \<in> set (bufferedStreams s n) \<or> x = r \<and> p = InBuffer n"
      "\<And>n. distinct (bufferedStreams s' n)"
    and c: "\<And>w x. wch s' w = Some x \<longleftrightarrow> wch s w = Some x \<or> x = r \<and> p = InChan w"
    and f: "returned s' = returned s" "set (resets s') = (if p = Reset then insert r (set (resets s)) else set (resets s))"
      "distinct (resets s')"
    and d: "\<And>x. x \<noteq> r \<Longrightarrow> dpc s' x = dpc s x" "dpc s' r \<noteq> DNone" "\<And>n. dpc s' r \<noteq> DArrived n" "\<And>w. dpc s' r \<noteq> DPopped w"
    and p: "p \<noteq> Nowhere" "p \<noteq> Held" "p \<noteq> Application"
  shows "owns (L(r := p)) s'"
proof -
  note O = ownsD [OF o]
  have h: "L x = Held \<longleftrightarrow> (\<exists>n. dpc s x = DArrived n) \<or> (\<exists>w. dpc s x = DPopped w)" for x
    using o unfolding owns_def by blast
  have 1: "x \<in> set (bufferedStreams s' n) \<longleftrightarrow> (L(r := p)) x = InBuffer n" for x n using O(1) b(1) L by simp
  have 2: "wch s' w = Some x \<longleftrightarrow> (L(r := p)) x = InChan w" for x w using O(2) c L by simp
  have 3: "x \<in> set (returned s') \<longleftrightarrow> (L(r := p)) x = Application" for x using O(3) f(1) p L by simp
  have 4: "x \<in> set (resets s') \<longleftrightarrow> (L(r := p)) x = Reset" for x using O(4) f(2) L by simp
  have 5: "(L(r := p)) x = Nowhere \<longleftrightarrow> dpc s' x = DNone" for x using O(5) d(1,2) p by simp
  have 6: "(L(r := p)) x = Held \<longleftrightarrow> (\<exists>n. dpc s' x = DArrived n) \<or> (\<exists>w. dpc s' x = DPopped w)" for x
    using h d(1,3,4) p by simp
  have 7: "distinct (returned s')" using O(8) f(1) by simp
  show ?thesis unfolding owns_def using 1 2 3 4 5 6 7 f(3) b(2) by blast
qed

lemma owns_deliver_enter: "deliver_enter rwc s = Some s' \<Longrightarrow> owns L s \<Longrightarrow> \<exists>L. owns L s'"
proof (erule deliver_enter_cases)
  fix n assume o: "owns L s" and d: "dpc s rwc = DArrived n" and s': "s' = s\<lparr>resets := resets s @ [rwc], dpc := (dpc s)(rwc := DDone)\<rparr>"
  note O = ownsD [OF o]
  have "owns (L(rwc := Reset)) s'"
    using O(4) [of rwc] O(6) [OF d] O(9,10) by (intro owns_release [OF o]) (simp_all add: s')
  then show ?thesis by blast
next
  fix n w q assume o: "owns L s" and d: "dpc s rwc = DArrived n" "s' = s\<lparr>pendingOpens := (pendingOpens s)(n := q), dpc := (dpc s)(rwc := DPopped w)\<rparr>"
  then have "owns L s'" by (intro owns_cong [OF o]) auto
  then show ?thesis by blast
next
  fix n assume o: "owns L s" and d: "dpc s rwc = DArrived n"
    and s': "s' = s\<lparr>bufferedStreams := (bufferedStreams s)(n := bufferedStreams s n @ [rwc]), dpc := (dpc s)(rwc := DDone)\<rparr>"
  note O = ownsD [OF o]
  have "rwc \<notin> set (bufferedStreams s n)" using O(1) O(6) [OF d] by simp
  then have "owns (L(rwc := InBuffer n)) s'"
    using O(6) [OF d] O(9,10) by (intro owns_release [OF o]) (auto simp: s')
  then show ?thesis by blast
qed

lemma owns_deliver_send: "deliver_send rwc s = Some s' \<Longrightarrow> owns L s \<Longrightarrow> \<exists>L. owns L s'"
proof (erule deliver_send_cases)
  fix w assume o: "owns L s" and d: "dpc s rwc = DPopped w" "wch s w = None"
    and s': "s' = s\<lparr>wch := (wch s)(w := Some rwc), dpc := (dpc s)(rwc := DSent w)\<rparr>"
  note O = ownsD [OF o]
  have "owns (L(rwc := InChan w)) s'"
    using O(7) [OF d(1)] O(9,10) d(2) by (intro owns_release [OF o]) (auto simp: s')
  then show ?thesis by blast
qed

lemma owns_arrive: "deliver_arrive rwc name s = Some s' \<Longrightarrow> owns L s \<Longrightarrow> \<exists>L. owns L s'"
proof (erule deliver_arrive_cases)
  assume o: "owns L s" and d: "dpc s rwc = DNone" and s': "s' = s\<lparr>dpc := (dpc s)(rwc := DArrived name)\<rparr>"
  note O = ownsD [OF o]
  have l: "L rwc = Nowhere" using O(5) d by simp
  have "owns (L(rwc := Held)) s'"
  proof (rule ownsI)
    show "x \<in> set (bufferedStreams s' n) \<longleftrightarrow> (L(rwc := Held)) x = InBuffer n" for x n using O(1) [of x n] l by (simp add: s')
    show "wch s' w = Some x \<longleftrightarrow> (L(rwc := Held)) x = InChan w" for x w using O(2) [of w x] l by (simp add: s')
    show "x \<in> set (returned s') \<longleftrightarrow> (L(rwc := Held)) x = Application" for x using O(3) [of x] l by (simp add: s')
    show "x \<in> set (resets s') \<longleftrightarrow> (L(rwc := Held)) x = Reset" for x using O(4) [of x] l by (simp add: s')
    show "(L(rwc := Held)) x = Nowhere \<longleftrightarrow> dpc s' x = DNone" for x using O(5) [of x] by (simp add: s')
    show "(L(rwc := Held)) x = Held \<longleftrightarrow> (\<exists>n. dpc s' x = DArrived n) \<or> (\<exists>w. dpc s' x = DPopped w)" for x
      using owns_held [OF o, of x] by (simp add: s')
  qed (simp_all add: s' O(8-10))
  then show ?thesis by blast
qed

lemma owns_expire: "owns L s \<Longrightarrow> \<exists>L. owns L (expireBuffered name r s)"
proof (cases "r \<in> set (bufferedStreams s name)")
  case True
  assume o: "owns L s"
  note O = ownsD [OF o]
  have L: "L r = InBuffer name" using O(1) True by simp
  have "owns (L(r := Reset)) (expireBuffered name r s)"
    using O(1,2) [where r = r] O(6,7) [where r = r] L True
    by (intro owns_settle [OF o])
      (auto simp: expireBuffered_def set_remove_first [OF O(10)] distinct_remove_first [OF O(10)] O(10) split: if_splits)
  then show ?thesis by blast
qed (auto simp: expireBuffered_def)

lemma distinct_concat_map:
  assumes "distinct ns" "\<And>n. distinct (f n)" "\<And>m n. m \<noteq> n \<Longrightarrow> set (f m) \<inter> set (f n) = {}"
  shows "distinct (concat (map f ns))"
  using assms(1)
proof (induction ns)
  case (Cons n ns)
  then have "set (f n) \<inter> set (f m) = {}" if "m \<in> set ns" for m using assms(3) [of n m] that by auto
  then show ?case using Cons assms(2) by auto
qed simp

lemma owns_reject:
  assumes o: "owns L s" and order: "distinct order" "{n. bufferedStreams s n \<noteq> []} \<subseteq> set order"
    and s': "bufferedStreams s' = (\<lambda>_. [])" "resets s' = resets s @ concat (map (bufferedStreams s) order)"
      "wch s' = wch s" "returned s' = returned s" "dpc s' = dpc s"
  shows "\<exists>L. owns L s'"
proof -
  note O = ownsD [OF o]
  have dj: "set (bufferedStreams s m) \<inter> set (bufferedStreams s n) = {}" if "m \<noteq> n" for m n
  proof -
    have False if x: "x \<in> set (bufferedStreams s m)" "x \<in> set (bufferedStreams s n)" for x
      using iffD1 [OF O(1) x(1)] iffD1 [OF O(1) x(2)] \<open>m \<noteq> n\<close> by simp
    then show ?thesis by blast
  qed
  have dist: "distinct (concat (map (bufferedStreams s) order))"
    by (rule distinct_concat_map [OF order(1) O(10) dj])
  have mem: "r \<in> set (concat (map (bufferedStreams s) order)) \<longleftrightarrow> (\<exists>n. L r = InBuffer n)" for r
  proof
    assume "\<exists>n. L r = InBuffer n"
    then obtain n where r: "r \<in> set (bufferedStreams s n)" using iffD2 [OF O(1)] by blast
    then have "bufferedStreams s n \<noteq> []" by auto
    then have "n \<in> set order" using order(2) by blast
    then show "r \<in> set (concat (map (bufferedStreams s) order))" using r by auto
  next
    assume "r \<in> set (concat (map (bufferedStreams s) order))"
    then obtain n where "r \<in> set (bufferedStreams s n)" by auto
    then show "\<exists>n. L r = InBuffer n" using iffD1 [OF O(1)] by blast
  qed
  define L' where "L' r = (if \<exists>n. L r = InBuffer n then Reset else L r)" for r
  have "owns L' s'"
  proof (rule ownsI)
    show "x \<in> set (bufferedStreams s' n) \<longleftrightarrow> L' x = InBuffer n" for x n by (simp add: s' L'_def)
    show "wch s' w = Some x \<longleftrightarrow> L' x = InChan w" for x w using O(2) [of w x] by (auto simp: s' L'_def)
    show "x \<in> set (returned s') \<longleftrightarrow> L' x = Application" for x using O(3) [of x] by (auto simp: s' L'_def)
    show "x \<in> set (resets s') \<longleftrightarrow> L' x = Reset" for x unfolding s' set_append Un_iff mem using O(4) [of x] by (auto simp: L'_def)
    show "L' x = Nowhere \<longleftrightarrow> dpc s' x = DNone" for x using O(5) [of x] by (auto simp: s' L'_def)
    show "L' x = Held \<longleftrightarrow> (\<exists>n. dpc s' x = DArrived n) \<or> (\<exists>w. dpc s' x = DPopped w)" for x
      using owns_held [OF o, of x] by (auto simp: s' L'_def)
    have "set (resets s) \<inter> set (concat (map (bufferedStreams s) order)) = {}"
      unfolding disjoint_iff mem using O(4) by simp
    then show "distinct (resets s')" unfolding s' using O(9) dist by simp
  qed (simp_all add: s' O(8))
  then show ?thesis by blast
qed

lemma owns_step: "rv_step s s' \<Longrightarrow> owns L s \<Longrightarrow> \<exists>L. owns L s'"
proof (induction rule: rv_step.induct)
  case (AbandonDrain w s s')
  from AbandonDrain(1) show ?case
  proof (cases rule: abandon_drain_cases)
    case (got r)
    then show ?thesis by (intro owns_reset_channel [OF AbandonDrain(2) got(2)]) simp_all
  next
    case none
    then have "owns L s'" by (intro owns_cong [OF AbandonDrain(2)]) simp_all
    then show ?thesis by blast
  qed
next
  case (DeliverDrain rwc s s')
  from DeliverDrain(1) show ?case
  proof (cases rule: deliver_drain_cases)
    case (got w x)
    then show ?thesis by (intro owns_reset_channel [OF DeliverDrain(2) got(2)]) simp_all
  next
    case (none w)
    then have "owns L s'" by (intro owns_cong [OF DeliverDrain(2)]) auto
    then show ?thesis by blast
  qed
next
  case (RemovePending w s s')
  then obtain n where "s' = s\<lparr>pendingOpens := (pendingOpens s)(n := remove_first w (pendingOpens s n)), wpc := (wpc s)(w := WRemoved)\<rparr>"
    by (blast elim: removePending_cases)
  then have "owns L s'" by (intro owns_cong [OF RemovePending(2)]) simp_all
  then show ?case by blast
next
  case (AbandonMark w s s')
  then have "owns L s'" by (intro owns_cong [OF AbandonMark(2)]) (auto elim: abandon_mark_cases)
  then show ?case by blast
next
  case (DeliverCheck rwc s s')
  from DeliverCheck(1) obtain w where "dpc s rwc = DSent w" "s' = s\<lparr>dpc := (dpc s)(rwc := if wdone s w then DDrain w else DDone)\<rparr>"
    by (rule deliver_check_cases)
  then have "owns L s'" by (intro owns_cong [OF DeliverCheck(2)]) auto
  then show ?case by blast
next
  case (DrainMark s)
  then have "owns L (drain_mark s)" by (intro owns_cong [OF DrainMark]) (simp_all add: drain_mark_def)
  then show ?case by blast
next
  case (DrainReject order s s')
  from DrainReject(1) show ?case
    by (rule drain_reject_cases) (intro owns_reject [OF DrainReject(4,2,3)], simp_all)
next
  case (CloseReject order s)
  then show ?case by (intro owns_reject [of L s order]) (simp_all add: rejectParkedStreams_def)
qed (auto intro: owns_accept_enter owns_accept_recv owns_arrive owns_deliver_enter owns_deliver_send owns_expire)

section \<open>The invariant\<close>

definition rv_inv :: "rendezvous \<Rightarrow> bool" where
  "rv_inv s \<longleftrightarrow> (\<exists>L. owns L s) \<and> handover s \<and> parked_ok s"

definition rv_init :: "rendezvous \<Rightarrow> bool" where
  "rv_init s \<longleftrightarrow> (\<exists>allowed cap. s = init_rendezvous allowed cap)"

lemma owns_init: "owns (\<lambda>_. Nowhere) (init_rendezvous allowed cap)"
  by (simp add: owns_def init_rendezvous_def)

lemma handover_init: "handover (init_rendezvous allowed cap)"
  by (simp add: handover_def init_rendezvous_def)

lemma parked_init: "parked_ok (init_rendezvous allowed cap)"
  by (simp add: parked_ok_def init_rendezvous_def)

interpretation rv: inv_system rv_init rv_step rv_inv
proof
  show "rv_init s \<Longrightarrow> rv_inv s" for s
    using owns_init handover_init parked_init unfolding rv_init_def rv_inv_def by blast
  show "rv_inv s \<Longrightarrow> rv_step s s' \<Longrightarrow> rv_inv s'" for s s'
    unfolding rv_inv_def using owns_step handover_step parked_step by blast
qed

lemma rv_reachable:
  assumes "rv_step\<^sup>*\<^sup>* (init_rendezvous allowed cap) s"
  obtains L where "owns L s" "handover s" "parked_ok s"
proof -
  have "rv_init (init_rendezvous allowed cap)" unfolding rv_init_def by blast
  then have "rv_inv s" using assms by (rule rv.reachable)
  then show ?thesis using that unfolding rv_inv_def by blast
qed

lemma step_caps: "rv_step s s' \<Longrightarrow> allowedStreams s' = allowedStreams s \<and> maxBufferedPerName s' = maxBufferedPerName s"
proof (induction rule: rv_step.induct)
  case (Expire s name rwc)
  then show ?case by (simp add: expireBuffered_def)
next
  case (DrainMark s)
  then show ?case by (simp add: drain_mark_def)
next
  case (CloseReject order s)
  then show ?case by (simp add: rejectParkedStreams_def)
qed (auto elim!: accept_enter_cases accept_recv_cases removePending_cases abandon_mark_cases abandon_drain_cases
       deliver_arrive_cases deliver_enter_cases deliver_send_cases deliver_check_cases deliver_drain_cases drain_reject_cases)

section \<open>Properties\<close>

text \<open>
  Where a delivered stream can be: with the application, reset, parked under a name, or in the
  channel of an \<open>AcceptStream\<close> call that is still at its select and will receive it.
\<close>

definition parked_at :: "rendezvous \<Rightarrow> nat \<Rightarrow> bool" where
  "parked_at s rwc \<longleftrightarrow> (\<exists>n. rwc \<in> set (bufferedStreams s n))"

definition handed_at :: "rendezvous \<Rightarrow> nat \<Rightarrow> bool" where
  "handed_at s rwc \<longleftrightarrow> (\<exists>w n. wch s w = Some rwc \<and> wpc s w = WWaiting n)"

definition holders :: "rendezvous \<Rightarrow> nat \<Rightarrow> nat" where
  "holders s rwc = count_list (returned s) rwc + count_list (resets s) rwc
     + of_bool (parked_at s rwc) + of_bool (handed_at s rwc)"

definition settled :: "rendezvous \<Rightarrow> bool" where
  "settled s \<longleftrightarrow> (\<forall>r. dpc s r \<in> {DNone, DDone}) \<and> (\<forall>w. wpc s w \<notin> {WRemoved, WMarked})"

lemma handoverD_chan:
  "handover s \<Longrightarrow> wch s w = Some r \<Longrightarrow> wpc s w \<notin> {WNone, WGot} \<and> (wpc s w = WAbandoned \<longrightarrow> dpc s r \<in> {DSent w, DDrain w})"
  unfolding handover_def by blast

lemma count_list_distinct: "distinct xs \<Longrightarrow> count_list xs x = of_bool (x \<in> set xs)"
  by (induction xs) auto

lemma holders_owns:
  assumes o: "owns L s" and h: "handover s" and q: "settled s"
  shows "holders s r = of_bool (dpc s r = DDone)"
proof -
  note O = ownsD [OF o]
  have d: "dpc s r = DNone \<or> dpc s r = DDone" using q unfolding settled_def by blast
  have park: "parked_at s r \<longleftrightarrow> (\<exists>n. L r = InBuffer n)" unfolding parked_at_def O(1) ..
  have live: "\<exists>n. wpc s w = WWaiting n" if c: "wch s w = Some x" for w x
  proof -
    have "dpc s x \<noteq> DSent w" "dpc s x \<noteq> DDrain w" using q unfolding settled_def by (metis deliver_pc.distinct insertE singletonD)+
    then have "wpc s w \<noteq> WNone" "wpc s w \<noteq> WGot" "wpc s w \<noteq> WAbandoned"
      using handoverD_chan [OF h c] by auto
    moreover have "wpc s w \<noteq> WRemoved" "wpc s w \<noteq> WMarked" using q unfolding settled_def by auto
    ultimately show ?thesis by (cases "wpc s w") auto
  qed
  have hand: "handed_at s r \<longleftrightarrow> (\<exists>w. L r = InChan w)"
    unfolding handed_at_def using O(2) live by metis
  have held: "L r \<noteq> Held" using owns_held [OF o, of r] d by auto
  show ?thesis
    unfolding holders_def count_list_distinct [OF O(8)] count_list_distinct [OF O(9)] O(3) O(4) park hand
    using held d O(5) [of r] by (cases "L r") auto
qed

text \<open>
  (C5) No stream of the peer is lost and none has two owners. Once the concurrent calls, deliveries,
  timers and drains have come to rest, in whatever order their steps ran, a stream that was
  delivered is held exactly once: the application got it, or it was reset, or it is parked, or
  it waits in the channel of an \<open>AcceptStream\<close> call that is about to return it. One that never
  arrived is held nowhere. In particular a stream handed to a caller whose context ended is reset.
\<close>

theorem stream_held_exactly_once:
  assumes "rv_step\<^sup>*\<^sup>* (init_rendezvous allowed cap) s" and "settled s"
  shows "holders s rwc = (if dpc s rwc = DDone then 1 else 0)"
  using assms by (auto elim!: rv_reachable simp: holders_owns)

text \<open>
  (C32) A delivery never blocks: the channel of a waiter that was popped is empty when the stream is
  sent to it, so every delivery can always take its next step.
\<close>

theorem delivery_never_blocks:
  assumes "rv_step\<^sup>*\<^sup>* (init_rendezvous allowed cap) s" and "dpc s rwc \<notin> {DNone, DDone}"
  shows "\<exists>s'. (deliver_enter rwc s = Some s' \<or> deliver_send rwc s = Some s' \<or>
               deliver_check rwc s = Some s' \<or> deliver_drain rwc s = Some s') \<and> rv_step s s'"
proof -
  from assms(1) obtain L where h: "handover s" by (rule rv_reachable)
  show ?thesis
  proof (cases "dpc s rwc")
    case (DPopped w)
    then have "wch s w = None" using h unfolding handover_def by blast
    then have "deliver_send rwc s = Some (s\<lparr>wch := (wch s)(w := Some rwc), dpc := (dpc s)(rwc := DSent w)\<rparr>)"
      using DPopped by (simp add: deliver_send_def)
    then show ?thesis using DeliverSend by blast
  next
    case (DArrived n)
    then have "\<exists>s'. deliver_enter rwc s = Some s'" by (simp add: deliver_enter_def)
    then show ?thesis using DeliverEnter by blast
  next
    case (DSent w)
    then have "\<exists>s'. deliver_check rwc s = Some s'" by (simp add: deliver_check_def)
    then show ?thesis using DeliverCheck by blast
  next
    case (DDrain w)
    then have "\<exists>s'. deliver_drain rwc s = Some s'" by (simp add: deliver_drain_def)
    then show ?thesis using DeliverDrain by blast
  qed (use assms(2) in auto)
qed

text \<open>
  What is parked is bounded and allowed: at no time do more streams wait under a name than the
  configured cap, and once a drain has swept the parked streams nothing but a control stream is
  parked again, while the session refuses to open application streams.
\<close>

theorem parked_streams_bounded:
  assumes "rv_step\<^sup>*\<^sup>* (init_rendezvous allowed cap) s"
  shows "length (bufferedStreams s name) \<le> (if cap \<le> 0 then 1 else nat cap) \<and>
    (draining s \<and> \<not> rejecting s \<and> \<not> reservedStreamName name \<longrightarrow>
       bufferedStreams s name = [] \<and> (name \<noteq> [] \<longrightarrow> OpenStream_guard name s = Some OpenSessionDraining))"
proof (intro conjI)
  from assms(1) obtain L where p: "parked_ok s" by (rule rv_reachable)
  have "maxBufferedPerName s = cap"
    using assms by (induction rule: rtranclp_induct) (auto simp: init_rendezvous_def dest: step_caps)
  then show "length (bufferedStreams s name) \<le> (if cap \<le> 0 then 1 else nat cap)"
    using p unfolding parked_ok_def bufferedCap_def DefaultMaxBufferedStreams_def by auto
  show "draining s \<and> \<not> rejecting s \<and> \<not> reservedStreamName name \<longrightarrow>
      bufferedStreams s name = [] \<and> (name \<noteq> [] \<longrightarrow> OpenStream_guard name s = Some OpenSessionDraining)"
    using p unfolding parked_ok_def OpenStream_guard_def by auto
qed

subsection \<open>A run\<close>

text \<open>
  A caller waits for a stream, the peer's stream pops the waiter, the caller's context ends and
  it leaves, and only then the delivery sends: it finds the waiter gone and resets the stream.
\<close>

fun rv_exec :: "(rendezvous \<Rightarrow> rendezvous option) list \<Rightarrow> rendezvous \<Rightarrow> rendezvous option" where
  "rv_exec [] s = Some s" |
  "rv_exec (f # fs) s = (case f s of None \<Rightarrow> None | Some s' \<Rightarrow> rv_exec fs s')"

lemma rv_exec_steps:
  "list_all (\<lambda>f. \<forall>s s'. f s = Some s' \<longrightarrow> rv_step s s') fs \<Longrightarrow> rv_exec fs s = Some s' \<Longrightarrow> rv_step\<^sup>*\<^sup>* s s'"
  by (induction fs arbitrary: s) (auto split: option.splits intro: converse_rtranclp_into_rtranclp)

definition late_run :: "(rendezvous \<Rightarrow> rendezvous option) list" where
  "late_run = [accept_enter 0 ''a'', deliver_arrive 5 ''a'', deliver_enter 5, removePending 0, abandon_mark 0,
     abandon_drain 0, deliver_send 5, deliver_check 5, deliver_drain 5]"

definition late_state :: rendezvous where
  "late_state = (init_rendezvous None 1)\<lparr>wdone := (\<lambda>_. False)(0 := True), wpc := (\<lambda>_. WNone)(0 := WAbandoned),
     dpc := (\<lambda>_. DNone)(5 := DDone), resets := [5]\<rparr>"

lemmas rv_simps = accept_enter_def deliver_arrive_def deliver_enter_def removePending_def abandon_mark_def
  abandon_drain_def deliver_send_def deliver_check_def deliver_drain_def init_rendezvous_def bufferedCap_def
  DefaultMaxBufferedStreams_def

lemma late_run_reaches: "rv_step\<^sup>*\<^sup>* (init_rendezvous None 1) late_state"
proof (rule rv_exec_steps)
  show "list_all (\<lambda>f. \<forall>s s'. f s = Some s' \<longrightarrow> rv_step s s') late_run"
    unfolding late_run_def by (simp, intro conjI allI impI, (erule rv_step.intros)+)
  show "rv_exec late_run (init_rendezvous None 1) = Some late_state"
    by (simp add: late_run_def late_state_def rv_simps fun_upd_idem)
qed

definition popped_state :: rendezvous where
  "popped_state = (init_rendezvous None 1)\<lparr>wpc := (\<lambda>_. WNone)(0 := WWaiting ''a''), dpc := (\<lambda>_. DNone)(5 := DPopped 0)\<rparr>"

lemma popped_run_reaches: "rv_step\<^sup>*\<^sup>* (init_rendezvous None 1) popped_state"
proof (rule rv_exec_steps)
  show "list_all (\<lambda>f. \<forall>s s'. f s = Some s' \<longrightarrow> rv_step s s') [accept_enter 0 ''a'', deliver_arrive 5 ''a'', deliver_enter 5]"
    by (simp, intro conjI allI impI, (erule rv_step.intros)+)
  show "rv_exec [accept_enter 0 ''a'', deliver_arrive 5 ''a'', deliver_enter 5] (init_rendezvous None 1) = Some popped_state"
    by (simp add: popped_state_def rv_simps fun_upd_idem)
qed

definition drained_state :: rendezvous where
  "drained_state = (init_rendezvous None 1)\<lparr>draining := True, dpc := (\<lambda>_. DNone)(5 := DDone), resets := [5]\<rparr>"

lemma drained_run_reaches: "rv_step\<^sup>*\<^sup>* (init_rendezvous None 1) drained_state"
proof -
  let ?s = "(init_rendezvous None 1)\<lparr>dpc := (\<lambda>_. DNone)(5 := DDone), bufferedStreams := (\<lambda>_. [])(''a'' := [5])\<rparr>"
  have "rv_step\<^sup>*\<^sup>* (init_rendezvous None 1) ?s"
  proof (rule rv_exec_steps)
    show "list_all (\<lambda>f. \<forall>s s'. f s = Some s' \<longrightarrow> rv_step s s') [deliver_arrive 5 ''a'', deliver_enter 5]"
      by (simp, intro conjI allI impI, (erule rv_step.intros)+)
    show "rv_exec [deliver_arrive 5 ''a'', deliver_enter 5] (init_rendezvous None 1) = Some ?s"
      by (simp add: rv_simps)
  qed
  moreover have "rv_step ?s (drain_mark ?s)" by (rule DrainMark)
  moreover have "rv_step (drain_mark ?s) drained_state"
    by (rule DrainReject [of "[''a'']"])
       (auto simp: drain_mark_def drain_reject_def rejectParkedStreams_def drained_state_def init_rendezvous_def split: if_splits)
  ultimately show ?thesis by (meson rtranclp.rtrancl_into_rtrancl)
qed

theorem stream_held_exactly_once_witness: "holders late_state 5 = 1 \<and> holders late_state 6 = 0"
proof -
  have "settled late_state" by (simp add: settled_def late_state_def init_rendezvous_def)
  from stream_held_exactly_once [OF late_run_reaches this, of 5] stream_held_exactly_once [OF late_run_reaches this, of 6]
  show ?thesis by (simp add: late_state_def init_rendezvous_def)
qed

theorem delivery_never_blocks_witness: "\<exists>s'. deliver_send 5 popped_state = Some s' \<and> rv_step popped_state s'"
proof -
  have "dpc popped_state 5 \<notin> {DNone, DDone}" by (simp add: popped_state_def)
  from delivery_never_blocks [OF popped_run_reaches this] show ?thesis
    by (simp add: popped_state_def deliver_enter_def deliver_check_def deliver_drain_def)
qed

theorem parked_streams_bounded_witness:
  "length (bufferedStreams drained_state ''a'') \<le> 1 \<and> OpenStream_guard ''a'' drained_state = Some OpenSessionDraining"
proof -
  have "draining drained_state" "\<not> rejecting drained_state" "\<not> reservedStreamName ''a''"
    by (simp_all add: drained_state_def init_rendezvous_def reservedStreamName_def discoveryStreamName_def
          lanControlStreamName_def goAwayStreamName_def)
  then show ?thesis
    using parked_streams_bounded [OF drained_run_reaches, of "''a''"] by simp
qed

end
