(* ===== verification/Machine.thy ===== *)
theory Machine
  imports Prelude
begin

text \<open>
  The state machine framework (\<open>protocol/protocol.go\<close>, \<open>protocol/machine.go\<close>): protocols as tables
  of transitions, the expansion of superstates, the validation of a table, and the \<open>Machine\<close> that
  runs one actor of it. The named types \<open>State\<close>, \<open>MsgType\<close>, \<open>GuardID\<close>, \<open>ActionID\<close>, \<open>EventID\<close> and
  \<open>CmdID\<close> are strings, the empty string meaning none, as in the source. A \<open>*StateNode\<close> carries an
  address, to which the \<open>Parent\<close> pointers of its children refer; the hierarchy itself is a tree.
  A Go map that is iterated is the list of its entries in the order of the iteration.
\<close>

section \<open>Tables\<close>

datatype Trigger = Recv string | Internal string

record Send =
  SendTo :: string
  SendMsg :: string
  Fields :: "(string \<times> string) list"

record VarUpdate =
  Var :: string
  Expr :: string

datatype FairnessKind = WeakFair | StrongFair

record Transition =
  From :: string
  To :: string
  On :: Trigger
  Guard :: string
  Do :: string
  Fairness :: FairnessKind
  Sends :: "Send list"
  Updates :: "VarUpdate list"
  Emits :: "string list"

text \<open>A composite literal leaves out the fields that keep their zero value.\<close>

definition transition :: "string \<Rightarrow> string \<Rightarrow> Trigger \<Rightarrow> Transition" where
  "transition f t on = \<lparr>From = f, To = t, On = on, Guard = '''', Do = '''', Fairness = WeakFair,
     Sends = [], Updates = [], Emits = []\<rparr>"

record Message =
  MsgName :: string
  MsgFrom :: string
  MsgTo :: string

record GuardDef =
  GuardName :: string
  GuardExpr :: string

datatype StateNode =
  StateNode (node_addr: nat) (node_name: string) (Parent: "nat option") (Children: "StateNode list")
    (node_transitions: "Transition list")

record SubMachine =
  SubName :: string
  SubInitial :: string
  SubTransitions :: "Transition list"
  SubStateIndex :: "(string \<times> StateNode) list"
  SubRoots :: "StateNode list"

record RouteSend =
  RouteTo :: string
  RouteEvent :: string

record MachineRoute =
  RouteOn :: string
  RouteFrom :: string
  RouteGuard :: string
  RouteSends :: "RouteSend list"

record Actor =
  ActorName :: string
  Initial :: string
  Transitions :: "Transition list"
  StateIndex :: "(string \<times> StateNode) list"
  Roots :: "StateNode list"
  Machines :: "SubMachine list"
  Routes :: "MachineRoute list"

definition flat_actor :: "string \<Rightarrow> string \<Rightarrow> Transition list \<Rightarrow> Actor" where
  "flat_actor name initial trs = \<lparr>ActorName = name, Initial = initial, Transitions = trs, StateIndex = [],
     Roots = [], Machines = [], Routes = []\<rparr>"

record Protocol =
  ProtocolName :: string
  Actors :: "Actor list"
  Messages :: "Message list"
  GuardDefs :: "GuardDef list"

section \<open>Superstates\<close>

definition IsLeaf :: "StateNode \<Rightarrow> bool" where
  "IsLeaf n \<longleftrightarrow> length (Children n) = 0"

fun LeafStates :: "StateNode \<Rightarrow> StateNode list" where
  "LeafStates (StateNode a n p cs ts) =
     (if IsLeaf (StateNode a n p cs ts) then [StateNode a n p cs ts] else concat (map LeafStates cs))"

text \<open>The closure \<open>expand\<close>: what it appends to \<open>result\<close>.\<close>

fun expand :: "StateNode \<Rightarrow> Transition list" where
  "expand (StateNode a n p cs ts) =
     (if \<not> IsLeaf (StateNode a n p cs ts) then
        concat (map (\<lambda>t. map (\<lambda>leaf. t\<lparr>From := node_name leaf, To := node_name leaf\<rparr>)
                  (LeafStates (StateNode a n p cs ts))) ts) @
        concat (map expand cs)
      else [])"

definition SubMachine_FlattenedTransitions :: "SubMachine \<Rightarrow> Transition list" where
  "SubMachine_FlattenedTransitions m =
     (if length (SubStateIndex m) = 0 then SubTransitions m
      else SubTransitions m @ concat (map expand (SubRoots m)))"

definition IsComposed :: "Actor \<Rightarrow> bool" where
  "IsComposed a \<longleftrightarrow> length (Machines a) > 0"

definition FlattenedTransitions :: "Actor \<Rightarrow> Transition list" where
  "FlattenedTransitions a =
     (if IsComposed a then concat (map SubMachine_FlattenedTransitions (Machines a))
      else if length (StateIndex a) = 0 then Transitions a
      else Transitions a @ concat (map expand (Roots a)))"

definition allActorTransitions :: "Actor \<Rightarrow> Transition list" where
  "allActorTransitions a =
     (if \<not> IsComposed a then FlattenedTransitions a
      else concat (map SubMachine_FlattenedTransitions (Machines a)))"

definition add_state :: "string \<Rightarrow> string list \<Rightarrow> string list" where
  "add_state s states = (if s \<in> set states then states else states @ [s])"

definition collectStates :: "Actor \<Rightarrow> string list" where
  "collectStates a =
     fold (\<lambda>t states. add_state (To t) (add_state (From t) states)) (FlattenedTransitions a) (add_state (Initial a) [])"

definition collectSubMachineStates :: "SubMachine \<Rightarrow> string list" where
  "collectSubMachineStates m =
     fold (\<lambda>t states. add_state (To t) (add_state (From t) states)) (SubMachine_FlattenedTransitions m)
       (add_state (SubInitial m) [])"

section \<open>Validate\<close>

datatype validate_error =
    DuplicateActor string
  | UnknownSender string string
  | UnknownReceiver string string
  | DuplicateMachine string string
  | WrongParent string string string
  | UndeclaredMessage string Transition
  | UndefinedGuard string Transition
  | SendsUnknownActor string Transition string
  | SendsUndeclaredMessage string Transition string
  | WrongSender string Transition string string
  | RouteUnknownSource string nat string
  | RouteUndefinedGuard string nat string
  | RouteUnknownTarget string nat string

text \<open>\<open>first_error\<close> runs the checks of a loop body in order and stops at the first error.\<close>

fun first_error :: "('a \<Rightarrow> 'e option) \<Rightarrow> 'a list \<Rightarrow> 'e option" where
  "first_error f [] = None" |
  "first_error f (x # xs) = (case f x of Some e \<Rightarrow> Some e | None \<Rightarrow> first_error f xs)"

definition or_else :: "'e option \<Rightarrow> 'e option \<Rightarrow> 'e option" where
  "or_else r k = (case r of Some e \<Rightarrow> Some e | None \<Rightarrow> k)"

fun check_actor_names :: "string list \<Rightarrow> Actor list \<Rightarrow> validate_error option" where
  "check_actor_names seen [] = None" |
  "check_actor_names seen (a # as) =
     (if ActorName a \<in> set seen then Some (DuplicateActor (ActorName a))
      else check_actor_names (ActorName a # seen) as)"

definition check_message :: "string list \<Rightarrow> Message \<Rightarrow> validate_error option" where
  "check_message actors m =
     (if MsgFrom m \<notin> set actors then Some (UnknownSender (MsgName m) (MsgFrom m))
      else if MsgTo m \<notin> set actors then Some (UnknownReceiver (MsgName m) (MsgTo m))
      else None)"

definition check_node :: "string \<Rightarrow> string \<times> StateNode \<Rightarrow> validate_error option" where
  "check_node actor entry =
     (case entry of (name, node) \<Rightarrow>
        first_error (\<lambda>child. if Parent child \<noteq> Some (node_addr node)
            then Some (WrongParent actor name (node_name child)) else None) (Children node))"

text \<open>\<open>msgSenders\<close> is a map filled in order, so the last declaration of a message counts.\<close>

definition msgSenders :: "Message list \<Rightarrow> string \<rightharpoonup> string" where
  "msgSenders ms = fold (\<lambda>m senders. senders(MsgName m \<mapsto> MsgFrom m)) ms Map.empty"

definition check_sub_transition ::
  "string list \<Rightarrow> string list \<Rightarrow> string list \<Rightarrow> string \<Rightarrow> Transition \<Rightarrow> validate_error option" where
  "check_sub_transition actors msgs guards actor t =
     (if (case On t of Recv msg \<Rightarrow> msg \<notin> set msgs | Internal _ \<Rightarrow> False) then Some (UndeclaredMessage actor t)
      else if Guard t \<noteq> '''' \<and> Guard t \<notin> set guards then Some (UndefinedGuard actor t)
      else first_error (\<lambda>s. if SendTo s \<notin> set actors then Some (SendsUnknownActor actor t (SendTo s)) else None)
             (Sends t))"

definition check_send ::
  "string list \<Rightarrow> string list \<Rightarrow> (string \<rightharpoonup> string) \<Rightarrow> string \<Rightarrow> Transition \<Rightarrow> Send \<Rightarrow> validate_error option" where
  "check_send actors msgs senders actor t s =
     (if SendTo s \<notin> set actors then Some (SendsUnknownActor actor t (SendTo s))
      else if SendMsg s \<notin> set msgs then Some (SendsUndeclaredMessage actor t (SendMsg s))
      else let sender = (case senders (SendMsg s) of None \<Rightarrow> '''' | Some x \<Rightarrow> x) in
           if sender \<noteq> actor then Some (WrongSender actor t (SendMsg s) sender) else None)"

definition check_transition ::
  "string list \<Rightarrow> string list \<Rightarrow> (string \<rightharpoonup> string) \<Rightarrow> string list \<Rightarrow> string \<Rightarrow> Transition \<Rightarrow> validate_error option" where
  "check_transition actors msgs senders guards actor t =
     (if (case On t of Recv msg \<Rightarrow> msg \<notin> set msgs | Internal _ \<Rightarrow> False) then Some (UndeclaredMessage actor t)
      else if Guard t \<noteq> '''' \<and> Guard t \<notin> set guards then Some (UndefinedGuard actor t)
      else first_error (check_send actors msgs senders actor t) (Sends t))"

fun check_machines ::
  "string list \<Rightarrow> string list \<Rightarrow> string list \<Rightarrow> string \<Rightarrow> string list \<Rightarrow> SubMachine list \<Rightarrow> validate_error option" where
  "check_machines actors msgs guards actor seen [] = None" |
  "check_machines actors msgs guards actor seen (m # ms) =
     (if SubName m \<in> set seen then Some (DuplicateMachine actor (SubName m))
      else or_else (first_error (check_node actor) (SubStateIndex m))
          (or_else (first_error (check_sub_transition actors msgs guards actor) (SubMachine_FlattenedTransitions m))
             (check_machines actors msgs guards actor (SubName m # seen) ms)))"

definition check_route :: "string list \<Rightarrow> string list \<Rightarrow> string \<Rightarrow> nat \<times> MachineRoute \<Rightarrow> validate_error option" where
  "check_route machineNames guards actor ir =
     (case ir of (i, r) \<Rightarrow>
        if RouteFrom r \<notin> set machineNames then Some (RouteUnknownSource actor i (RouteFrom r))
        else if RouteGuard r \<noteq> '''' \<and> RouteGuard r \<notin> set guards then Some (RouteUndefinedGuard actor i (RouteGuard r))
        else first_error (\<lambda>s. if RouteTo s \<notin> set machineNames then Some (RouteUnknownTarget actor i (RouteTo s)) else None)
               (RouteSends r))"

definition check_actor ::
  "string list \<Rightarrow> string list \<Rightarrow> (string \<rightharpoonup> string) \<Rightarrow> string list \<Rightarrow> Actor \<Rightarrow> validate_error option" where
  "check_actor actors msgs senders guards a =
     (if IsComposed a then
        or_else (check_machines actors msgs guards (ActorName a) [] (Machines a))
          (first_error (check_route (map SubName (Machines a)) guards (ActorName a))
             (zip [0..<length (Routes a)] (Routes a)))
      else
        or_else (first_error (check_node (ActorName a)) (StateIndex a))
          (first_error (check_transition actors msgs senders guards (ActorName a)) (FlattenedTransitions a)))"

definition Validate :: "Protocol \<Rightarrow> validate_error option" where
  "Validate p =
     (let actorNames = map ActorName (Actors p);
          msgTypes = map MsgName (Messages p);
          guardDefs = map GuardName (GuardDefs p)
      in or_else (check_actor_names [] (Actors p))
           (or_else (first_error (check_message actorNames) (Messages p))
              (first_error (check_actor actorNames msgTypes (msgSenders (Messages p)) guardDefs) (Actors p))))"

section \<open>The runtime machine\<close>

record ('c, 'e) Machine =
  actor :: Actor
  state :: string
  guards :: "string \<rightharpoonup> ('c \<Rightarrow> bool)"
  actions :: "string \<rightharpoonup> ('c \<Rightarrow> 'c \<times> 'e option)"
  recvIndex :: "string \<times> string \<Rightarrow> Transition list"
  internalIndex :: "string \<times> string \<Rightarrow> Transition list"

datatype 'e machine_error =
    ActorNotFound string string
  | NoTransitionOnMessage string string
  | NoTransitionOnEvent string string
  | NoInternalTransition string
  | UnregisteredGuard string
  | UnregisteredAction string
  | ActionFailed string 'e
  | AllGuardsFailed string

definition index_transition :: "Transition \<Rightarrow> ('c, 'e) Machine \<Rightarrow> ('c, 'e) Machine" where
  "index_transition t m =
     (case On t of
        Recv msg \<Rightarrow> (let key = (From t, msg) in m\<lparr>recvIndex := (recvIndex m)(key := recvIndex m key @ [t])\<rparr>)
      | Internal ev \<Rightarrow> (let key = (From t, ev) in m\<lparr>internalIndex := (internalIndex m)(key := internalIndex m key @ [t])\<rparr>))"

definition NewMachine :: "Protocol \<Rightarrow> string \<Rightarrow> 'e machine_error + ('c, 'e) Machine" where
  "NewMachine p actorName =
     (case find (\<lambda>a. ActorName a = actorName) (Actors p) of
        None \<Rightarrow> Inl (ActorNotFound actorName (ProtocolName p))
      | Some a \<Rightarrow>
          let initial = (if IsComposed a \<and> length (Machines a) > 0 then SubInitial (Machines a ! 0) else Initial a);
              m = \<lparr>actor = a, state = initial, guards = Map.empty, actions = Map.empty,
                   recvIndex = (\<lambda>_. []), internalIndex = (\<lambda>_. [])\<rparr>
          in Inr (fold index_transition (FlattenedTransitions a) m))"

definition RegisterGuard :: "string \<Rightarrow> ('c \<Rightarrow> bool) \<Rightarrow> ('c, 'e) Machine \<Rightarrow> ('c, 'e) Machine" where
  "RegisterGuard gid fn m = m\<lparr>guards := (guards m)(gid \<mapsto> fn)\<rparr>"

definition RegisterAction :: "string \<Rightarrow> ('c \<Rightarrow> 'c \<times> 'e option) \<Rightarrow> ('c, 'e) Machine \<Rightarrow> ('c, 'e) Machine" where
  "RegisterAction aid fn m = m\<lparr>actions := (actions m)(aid \<mapsto> fn)\<rparr>"

definition SetState :: "string \<Rightarrow> ('c, 'e) Machine \<Rightarrow> ('c, 'e) Machine" where
  "SetState s m = m\<lparr>state := s\<rparr>"

fun tryTransitions ::
  "Transition list \<Rightarrow> 'c \<Rightarrow> ('c, 'e) Machine \<Rightarrow> (('c, 'e) Machine \<times> 'c) \<times> ('e machine_error + string)" where
  "tryTransitions [] ctx m = ((m, ctx), Inl (AllGuardsFailed (state m)))" |
  "tryTransitions (t # ts) ctx m =
     (if Guard t \<noteq> '''' \<and> guards m (Guard t) = None then ((m, ctx), Inl (UnregisteredGuard (Guard t)))
      else if Guard t \<noteq> '''' \<and> \<not> the (guards m (Guard t)) ctx then tryTransitions ts ctx m
      else if Do t \<noteq> '''' then
        (case actions m (Do t) of
           None \<Rightarrow> ((m, ctx), Inl (UnregisteredAction (Do t)))
         | Some action \<Rightarrow>
             (case action ctx of
                (ctx1, Some err) \<Rightarrow> ((m, ctx1), Inl (ActionFailed (Do t) err))
              | (ctx1, None) \<Rightarrow> ((m\<lparr>state := To t\<rparr>, ctx1), Inr (To t))))
      else ((m\<lparr>state := To t\<rparr>, ctx), Inr (To t)))"

definition Machine_HandleMessage ::
  "string \<Rightarrow> 'c \<Rightarrow> ('c, 'e) Machine \<Rightarrow> (('c, 'e) Machine \<times> 'c) \<times> ('e machine_error + string)" where
  "Machine_HandleMessage msg ctx m =
     (let transitions = recvIndex m (state m, msg) in
      if length transitions = 0 then ((m, ctx), Inl (NoTransitionOnMessage (state m) msg))
      else tryTransitions transitions ctx m)"

text \<open>With the empty event every internal transition of the state is tried, in the order \<open>keys\<close> of the map iteration.\<close>

definition Machine_Step ::
  "string list \<Rightarrow> string \<Rightarrow> 'c \<Rightarrow> ('c, 'e) Machine \<Rightarrow> (('c, 'e) Machine \<times> 'c) \<times> ('e machine_error + string)" where
  "Machine_Step keys event ctx m =
     (if event \<noteq> '''' then
        (let transitions = internalIndex m (state m, event) in
         if length transitions = 0 then ((m, ctx), Inl (NoTransitionOnEvent (state m) event))
         else tryTransitions transitions ctx m)
      else
        (let all = concat (map (\<lambda>ev. internalIndex m (state m, ev)) keys) in
         if length all = 0 then ((m, ctx), Inl (NoInternalTransition (state m)))
         else tryTransitions all ctx m))"

section \<open>Superstates are expanded to exactly their leaves\<close>

text \<open>The nodes of a tree, and the transitions a tree contributes by specification.\<close>

fun nodes :: "StateNode \<Rightarrow> StateNode list" where
  "nodes (StateNode a n p cs ts) = StateNode a n p cs ts # concat (map nodes cs)"

definition copies :: "StateNode \<Rightarrow> Transition set" where
  "copies n = {t\<lparr>From := node_name leaf, To := node_name leaf\<rparr> | t leaf.
     t \<in> set (node_transitions n) \<and> leaf \<in> set (nodes n) \<and> IsLeaf leaf}"

definition inherited :: "StateNode \<Rightarrow> Transition set" where
  "inherited root = (\<Union>n \<in> {n \<in> set (nodes root). \<not> IsLeaf n}. copies n)"

lemma LeafStates_iff: "leaf \<in> set (LeafStates n) \<longleftrightarrow> leaf \<in> set (nodes n) \<and> IsLeaf leaf"
proof (induction n rule: nodes.induct)
  case (1 a n p cs ts)
  show ?case
  proof (cases cs)
    case Nil
    then show ?thesis by (auto simp: IsLeaf_def)
  next
    case (Cons c cs')
    then have "\<not> IsLeaf (StateNode a n p cs ts)" by (simp add: IsLeaf_def)
    then show ?thesis using 1 by auto
  qed
qed

lemma set_expand: "set (expand n) = inherited n"
proof (induction n rule: expand.induct)
  case (1 a n p cs ts)
  let ?N = "StateNode a n p cs ts"
  show ?case
  proof (cases "IsLeaf ?N")
    case True
    then show ?thesis by (simp add: inherited_def IsLeaf_def)
  next
    case False
    have "{n \<in> set (nodes ?N). \<not> IsLeaf n} = insert ?N (\<Union>c\<in>set cs. {n \<in> set (nodes c). \<not> IsLeaf n})"
      using False by auto
    then have inh: "inherited ?N = copies ?N \<union> (\<Union>c\<in>set cs. inherited c)"
      unfolding inherited_def by (simp only: UN_insert) (simp add: UN_UN_flatten)
    have exp: "set (expand ?N) =
        set (concat (map (\<lambda>t. map (\<lambda>leaf. t\<lparr>From := node_name leaf, To := node_name leaf\<rparr>) (LeafStates ?N)) ts)) \<union>
        (\<Union>c\<in>set cs. set (expand c))"
      using False by (simp del: LeafStates.simps)
    have "set (concat (map (\<lambda>t. map (\<lambda>leaf. t\<lparr>From := node_name leaf, To := node_name leaf\<rparr>) ls) ts)) =
        {t\<lparr>From := node_name leaf, To := node_name leaf\<rparr> | t leaf. t \<in> set ts \<and> leaf \<in> set ls}" for ls :: "StateNode list"
      by auto
    then show ?thesis
      unfolding exp inh copies_def using 1 [OF False] by (simp add: LeafStates_iff del: LeafStates.simps nodes.simps)
  qed
qed

section \<open>The states of an actor\<close>

lemma add_state_set [simp]: "set (add_state s states) = insert s (set states)"
  by (auto simp: add_state_def)

lemma add_state_distinct: "distinct states \<Longrightarrow> distinct (add_state s states)"
  by (auto simp: add_state_def)

lemma collect_fold_set:
  "set (fold (\<lambda>t states. add_state (To t) (add_state (From t) states)) ts states) =
     set states \<union> From ` set ts \<union> To ` set ts"
  by (induction ts arbitrary: states) auto

lemma collect_fold_distinct:
  "distinct states \<Longrightarrow> distinct (fold (\<lambda>t states. add_state (To t) (add_state (From t) states)) ts states)"
  by (induction ts arbitrary: states) (auto simp: add_state_distinct)

lemma set_collectStates:
  "set (collectStates a) = insert (Initial a) (From ` set (FlattenedTransitions a) \<union> To ` set (FlattenedTransitions a))"
  unfolding collectStates_def collect_fold_set by auto

lemma distinct_collectStates: "distinct (collectStates a)"
  unfolding collectStates_def by (rule collect_fold_distinct) (simp add: add_state_def)

section \<open>What a validated table guarantees\<close>

lemma first_error_None: "first_error f xs = None \<longleftrightarrow> (\<forall>x\<in>set xs. f x = None)"
  by (induction xs) (auto split: option.splits)

lemma or_else_None [simp]: "or_else r k = None \<longleftrightarrow> r = None \<and> k = None"
  by (auto simp: or_else_def split: option.splits)

lemma check_actor_names_None:
  "check_actor_names seen as = None \<longleftrightarrow> distinct (map ActorName as) \<and> set seen \<inter> ActorName ` set as = {}"
  by (induction as arbitrary: seen) auto

lemma msgSenders_last:
  "msgSenders ms x = (case rev (filter (\<lambda>m. MsgName m = x) ms) of [] \<Rightarrow> None | m # _ \<Rightarrow> Some (MsgFrom m))"
  by (induction ms rule: rev_induct) (auto simp: msgSenders_def split: list.splits)

section \<open>The index of the runtime machine\<close>

lemma index_fold:
  "recvIndex (fold index_transition ts m) (s, msg) = recvIndex m (s, msg) @ filter (\<lambda>t. From t = s \<and> On t = Recv msg) ts"
  "internalIndex (fold index_transition ts m) (s, ev) = internalIndex m (s, ev) @ filter (\<lambda>t. From t = s \<and> On t = Internal ev) ts"
  "state (fold index_transition ts m) = state m" "actor (fold index_transition ts m) = actor m"
  "guards (fold index_transition ts m) = guards m" "actions (fold index_transition ts m) = actions m"
  by (induction ts arbitrary: m) (auto simp: index_transition_def Let_def split: Trigger.splits)

definition indexed :: "('c, 'e) Machine \<Rightarrow> bool" where
  "indexed m \<longleftrightarrow>
     (\<forall>s msg. recvIndex m (s, msg) = filter (\<lambda>t. From t = s \<and> On t = Recv msg) (FlattenedTransitions (actor m))) \<and>
     (\<forall>s ev. internalIndex m (s, ev) = filter (\<lambda>t. From t = s \<and> On t = Internal ev) (FlattenedTransitions (actor m)))"

lemma NewMachine_indexed:
  assumes "NewMachine p n = Inr (m :: ('c, 'e) Machine)"
  shows "indexed m" and "ActorName (actor m) = n" and "actor m \<in> set (Actors p)"
    and "\<not> IsComposed (actor m) \<Longrightarrow> state m = Initial (actor m)"
  using assms
  by (auto simp: NewMachine_def indexed_def Let_def index_fold find_Some_iff IsComposed_def split: option.splits)

lemma tryTransitions_sound:
  assumes "tryTransitions ts ctx m = ((m', ctx'), r)"
  shows "case r of
      Inl _ \<Rightarrow> m' = m
    | Inr s \<Rightarrow> m' = m\<lparr>state := s\<rparr> \<and> (\<exists>t\<in>set ts. To t = s \<and> (Guard t = '''' \<or> (\<exists>g. guards m (Guard t) = Some g \<and> g ctx)))"
  using assms
proof (induction ts ctx m rule: tryTransitions.induct)
  case (2 t ts ctx m)
  show ?case
  proof (cases "Guard t \<noteq> '''' \<and> guards m (Guard t) \<noteq> None \<and> \<not> the (guards m (Guard t)) ctx")
    case True
    then have "tryTransitions ts ctx m = ((m', ctx'), r)" using 2(2) by auto
    then show ?thesis using 2(1) True by (auto split: sum.splits)
  next
    case False
    then show ?thesis using 2(2) by (auto split: if_splits option.splits prod.splits)
  qed
qed auto

section \<open>Runs of the machine\<close>

inductive machine_step :: "('c, 'e) Machine \<Rightarrow> ('c, 'e) Machine \<Rightarrow> bool" where
  "Machine_HandleMessage msg ctx m = ((m', ctx'), r) \<Longrightarrow> machine_step m m'" |
  "Machine_Step keys event ctx m = ((m', ctx'), r) \<Longrightarrow> machine_step m m'" |
  "machine_step m (RegisterGuard gid g m)" |
  "machine_step m (RegisterAction aid f m)"

definition machine_init :: "Actor \<Rightarrow> ('c, 'e) Machine \<Rightarrow> bool" where
  "machine_init a m \<longleftrightarrow> actor m = a \<and> indexed m \<and> state m = Initial a"

definition machine_inv :: "Actor \<Rightarrow> ('c, 'e) Machine \<Rightarrow> bool" where
  "machine_inv a m \<longleftrightarrow> actor m = a \<and> indexed m \<and> state m \<in> set (collectStates a)"

definition edge :: "Actor \<Rightarrow> string \<Rightarrow> Trigger \<Rightarrow> string \<Rightarrow> bool" where
  "edge a s trig s' \<longleftrightarrow> (\<exists>t\<in>set (FlattenedTransitions a). From t = s \<and> On t = trig \<and> To t = s')"

lemma HandleMessage_edge:
  assumes "indexed m" and "Machine_HandleMessage msg ctx m = ((m', ctx'), r)"
  shows "case r of Inl _ \<Rightarrow> m' = m | Inr s \<Rightarrow> m' = m\<lparr>state := s\<rparr> \<and> edge (actor m) (state m) (Recv msg) s"
proof (cases "recvIndex m (state m, msg) = []")
  case True
  then show ?thesis using assms(2) by (auto simp: Machine_HandleMessage_def)
next
  case False
  then have "tryTransitions (recvIndex m (state m, msg)) ctx m = ((m', ctx'), r)"
    using assms(2) by (simp add: Machine_HandleMessage_def Let_def)
  from tryTransitions_sound [OF this] show ?thesis
    using assms(1) unfolding indexed_def edge_def by (auto split: sum.splits)
qed

lemma Step_edge:
  assumes "indexed m" and "Machine_Step keys event ctx m = ((m', ctx'), r)"
  shows "case r of Inl _ \<Rightarrow> m' = m
    | Inr s \<Rightarrow> m' = m\<lparr>state := s\<rparr> \<and> (\<exists>ev. (event \<noteq> '''' \<longrightarrow> ev = event) \<and> edge (actor m) (state m) (Internal ev) s)"
proof -
  define ts where "ts = (if event \<noteq> '''' then internalIndex m (state m, event)
      else concat (map (\<lambda>ev. internalIndex m (state m, ev)) keys))"
  have ts: "t \<in> set ts \<Longrightarrow> t \<in> set (FlattenedTransitions (actor m)) \<and> From t = state m \<and>
      (\<exists>ev. On t = Internal ev \<and> (event \<noteq> '''' \<longrightarrow> ev = event))" for t
    using assms(1) unfolding ts_def indexed_def by (auto split: if_splits)
  show ?thesis
  proof (cases "ts = []")
    case True
    then show ?thesis using assms(2) by (auto simp: Machine_Step_def ts_def Let_def split: if_splits)
  next
    case False
    then have "tryTransitions ts ctx m = ((m', ctx'), r)"
      using assms(2) unfolding ts_def by (auto simp: Machine_Step_def Let_def split: if_splits)
    from tryTransitions_sound [OF this] show ?thesis
      using ts unfolding edge_def by (fastforce split: sum.splits)
  qed
qed

lemma edge_state: "edge a s trig s' \<Longrightarrow> s' \<in> set (collectStates a)"
  by (auto simp: edge_def set_collectStates)

interpretation runtime: inv_system "machine_init a" machine_step "machine_inv a" for a
proof
  show "machine_init a m \<Longrightarrow> machine_inv a m" for m
    by (auto simp: machine_init_def machine_inv_def set_collectStates)
  show "machine_inv a m \<Longrightarrow> machine_step m m' \<Longrightarrow> machine_inv a m'" for m m' :: "('c, 'e) Machine"
  proof (erule machine_step.cases)
    fix msg ctx m1 m1' ctx' and r :: "'e machine_error + string"
    assume i: "machine_inv a m" and eq: "m = m1" "m' = m1'" and h: "Machine_HandleMessage msg ctx m1 = ((m1', ctx'), r)"
    then have "indexed m1" by (simp add: machine_inv_def)
    from HandleMessage_edge [OF this h] show "machine_inv a m'"
      using i eq by (auto simp: machine_inv_def indexed_def dest: edge_state split: sum.splits)
  next
    fix keys event ctx m1 m1' ctx' and r :: "'e machine_error + string"
    assume i: "machine_inv a m" and eq: "m = m1" "m' = m1'" and h: "Machine_Step keys event ctx m1 = ((m1', ctx'), r)"
    then have "indexed m1" by (simp add: machine_inv_def)
    from Step_edge [OF this h] show "machine_inv a m'"
      using i eq by (auto simp: machine_inv_def indexed_def dest: edge_state split: sum.splits)
  qed (auto simp: machine_inv_def indexed_def RegisterGuard_def RegisterAction_def)
qed

section \<open>Properties\<close>

text \<open>
  (C26) The expansion of superstates is exact: the flattened transitions of a hierarchical actor are
  its own transitions together with one self-loop per superstate transition and leaf below that
  superstate, at every depth of the hierarchy, and nothing else.
\<close>

theorem flattening_exact:
  assumes "\<not> IsComposed a" and "StateIndex a \<noteq> []"
  shows "set (FlattenedTransitions a) = set (Transitions a) \<union>
    (\<Union>root\<in>set (Roots a). \<Union>n\<in>{n \<in> set (nodes root). \<not> IsLeaf n}.
       {t\<lparr>From := node_name leaf, To := node_name leaf\<rparr> | t leaf.
          t \<in> set (node_transitions n) \<and> leaf \<in> set (nodes n) \<and> IsLeaf leaf})"
  using assms by (simp add: FlattenedTransitions_def set_expand inherited_def copies_def)

text \<open>
  (C27) What \<open>Validate\<close> accepts is consistent: actor names are unique, messages run between actors of
  the protocol, and every transition of a flat actor, inherited ones included, waits only for a
  declared message, uses only a defined guard, and sends only declared messages, to existing
  actors, of which it is the declared sender.
\<close>

theorem validate_sound:
  assumes "Validate p = None" and "a \<in> set (Actors p)" and "\<not> IsComposed a" and "t \<in> set (FlattenedTransitions a)"
  shows "distinct (map ActorName (Actors p)) \<and>
    (\<forall>m\<in>set (Messages p). MsgFrom m \<in> ActorName ` set (Actors p) \<and> MsgTo m \<in> ActorName ` set (Actors p)) \<and>
    (\<forall>msg. On t = Recv msg \<longrightarrow> msg \<in> MsgName ` set (Messages p)) \<and>
    (Guard t = '''' \<or> Guard t \<in> GuardName ` set (GuardDefs p)) \<and>
    (\<forall>s\<in>set (Sends t). SendTo s \<in> ActorName ` set (Actors p) \<and>
        (\<exists>m\<in>set (Messages p). MsgName m = SendMsg s \<and> MsgFrom m = ActorName a))"
proof -
  let ?A = "map ActorName (Actors p)" and ?M = "map MsgName (Messages p)" and ?G = "map GuardName (GuardDefs p)"
  have v: "check_actor_names [] (Actors p) = None" "\<forall>m\<in>set (Messages p). check_message ?A m = None"
    "check_actor ?A ?M (msgSenders (Messages p)) ?G a = None"
    using assms(1,2) by (auto simp: Validate_def Let_def first_error_None)
  have t: "check_transition ?A ?M (msgSenders (Messages p)) ?G (ActorName a) t = None"
    using v(3) assms(3,4) by (simp add: check_actor_def first_error_None)
  have s: "SendTo s \<in> ActorName ` set (Actors p) \<and> (\<exists>m\<in>set (Messages p). MsgName m = SendMsg s \<and> MsgFrom m = ActorName a)"
    if "s \<in> set (Sends t)" for s
  proof -
    have c: "check_send ?A ?M (msgSenders (Messages p)) (ActorName a) t s = None"
      using t that by (auto simp: check_transition_def first_error_None split: if_splits)
    then have "SendTo s \<in> ActorName ` set (Actors p)" "SendMsg s \<in> MsgName ` set (Messages p)"
      by (auto simp: check_send_def split: if_splits)
    then obtain m ms where m: "rev (filter (\<lambda>m. MsgName m = SendMsg s) (Messages p)) = m # ms"
      by (cases "rev (filter (\<lambda>m. MsgName m = SendMsg s) (Messages p))") (auto simp: filter_empty_conv)
    have "m \<in> set (rev (filter (\<lambda>m. MsgName m = SendMsg s) (Messages p)))" unfolding m by simp
    then have "m \<in> set (Messages p)" "MsgName m = SendMsg s" by simp_all
    then show ?thesis using c m by (auto simp: check_send_def msgSenders_last Let_def split: if_splits)
  qed
  show ?thesis
    using v t s by (auto simp: check_actor_names_None check_message_def check_transition_def split: if_splits Trigger.splits)
qed


section \<open>A small protocol\<close>

text \<open>
  Two actors; the server answers a ping in both children of its superstate. The state \<open>Lost\<close> cannot
  be reached, which \<open>Validate\<close> does not notice.
\<close>

definition ping_server :: Actor where
  "ping_server = \<lparr>ActorName = ''server'', Initial = ''Busy'',
     Transitions = [transition ''Busy'' ''Free'' (Internal ''rest''), transition ''Lost'' ''Busy'' (Internal ''find'')],
     StateIndex = [(''Up'', StateNode 0 ''Up'' None [StateNode 1 ''Busy'' (Some 0) [] [], StateNode 2 ''Free'' (Some 0) [] []]
        [(transition ''Up'' ''Up'' (Recv ''ping''))\<lparr>Sends := [\<lparr>SendTo = ''client'', SendMsg = ''pong'', Fields = []\<rparr>]\<rparr>])],
     Roots = [StateNode 0 ''Up'' None [StateNode 1 ''Busy'' (Some 0) [] [], StateNode 2 ''Free'' (Some 0) [] []]
        [(transition ''Up'' ''Up'' (Recv ''ping''))\<lparr>Sends := [\<lparr>SendTo = ''client'', SendMsg = ''pong'', Fields = []\<rparr>]\<rparr>]],
     Machines = [], Routes = []\<rparr>"

definition ping_protocol :: Protocol where
  "ping_protocol = \<lparr>ProtocolName = ''ping'',
     Actors = [ping_server, flat_actor ''client'' ''Idle'' []],
     Messages = [\<lparr>MsgName = ''ping'', MsgFrom = ''client'', MsgTo = ''server''\<rparr>,
       \<lparr>MsgName = ''pong'', MsgFrom = ''server'', MsgTo = ''client''\<rparr>], GuardDefs = []\<rparr>"

definition ping_free :: Transition where
  "ping_free = (transition ''Free'' ''Free'' (Recv ''ping''))\<lparr>Sends := [\<lparr>SendTo = ''client'', SendMsg = ''pong'', Fields = []\<rparr>]\<rparr>"

lemma ping_free_flattened: "ping_free \<in> set (FlattenedTransitions ping_server)"
  by (simp add: FlattenedTransitions_def IsComposed_def ping_server_def ping_free_def IsLeaf_def transition_def)

lemma ping_server_flat: "\<not> IsComposed ping_server" "StateIndex ping_server \<noteq> []"
  by (simp_all add: ping_server_def IsComposed_def)

lemma validate_ignores_reachability:
  "Validate ping_protocol = None \<and> ''Lost'' \<in> set (collectStates ping_server) \<and>
   Initial ping_server \<noteq> ''Lost'' \<and> (\<forall>t\<in>set (FlattenedTransitions ping_server). To t \<noteq> ''Lost'')"
  by code_simp

theorem flattening_exact_witness:
  "ping_free \<in> set (Transitions ping_server) \<union>
    (\<Union>root\<in>set (Roots ping_server). \<Union>n\<in>{n \<in> set (nodes root). \<not> IsLeaf n}.
       {t\<lparr>From := node_name leaf, To := node_name leaf\<rparr> | t leaf.
          t \<in> set (node_transitions n) \<and> leaf \<in> set (nodes n) \<and> IsLeaf leaf})"
  using flattening_exact [OF ping_server_flat] ping_free_flattened by (simp only:)

theorem validate_sound_witness:
  "''ping'' \<in> MsgName ` set (Messages ping_protocol) \<and> distinct (map ActorName (Actors ping_protocol))"
proof -
  have a: "ping_server \<in> set (Actors ping_protocol)" by (simp add: ping_protocol_def)
  have on: "On ping_free = Recv ''ping''" by (simp add: ping_free_def transition_def)
  show ?thesis
    using validate_sound [OF conjunct1 [OF validate_ignores_reachability] a ping_server_flat(1) ping_free_flattened] on
    by simp
qed


end
