(* ===== verification/Generated.thy ===== *)
theory Generated
  imports Machine
begin

text \<open>
  What the Go code generated from a protocol table is made of, and the generator's own rules
  (\<open>protocol/gogen.go\<close>). A generated machine is a struct with callbacks: \<open>Guards\<close> and \<open>Actions\<close> are
  maps from names to functions, \<open>OnChange\<close> is an optional function. The callbacks are closures
  over the machine \<open>'m\<close> and whatever else they can reach, \<open>'w\<close>. \<open>gswitch\<close> is Go's expressionless
  switch; a case body is a block of statements, each of which may end the call with an error.
\<close>

section \<open>The language of the generated code\<close>

fun gswitch :: "(bool \<times> 'a) list \<Rightarrow> 'a \<Rightarrow> 'a" where
  "gswitch [] d = d" |
  "gswitch ((c, b) # cs) d = (if c then b else gswitch cs d)"

record ('m, 'w, 'e) callbacks =
  Guards :: "string \<rightharpoonup> ('m \<times> 'w \<Rightarrow> bool)"
  Actions :: "string \<rightharpoonup> ('m \<times> 'w \<Rightarrow> ('m \<times> 'w) \<times> 'e option)"
  OnChange :: "(string \<Rightarrow> 'm \<times> 'w \<Rightarrow> 'm \<times> 'w) option"

type_synonym ('m, 'w, 'e) stmt = "'m \<times> 'w \<Rightarrow> ('m \<times> 'w) \<times> 'e option"

definition guarded :: "('m, 'w, 'e) callbacks \<Rightarrow> string \<Rightarrow> 'm \<times> 'w \<Rightarrow> bool" where
  "guarded env g s = (case Guards env g of None \<Rightarrow> False | Some fn \<Rightarrow> fn s)"

definition act :: "('m, 'w, 'e) callbacks \<Rightarrow> string \<Rightarrow> ('m, 'w, 'e) stmt" where
  "act env a s = (case Actions env a of None \<Rightarrow> (s, None) | Some fn \<Rightarrow> fn s)"

definition changed :: "('m, 'w, 'e) callbacks \<Rightarrow> string \<Rightarrow> 'm \<times> 'w \<Rightarrow> 'm \<times> 'w" where
  "changed env var s = (case OnChange env of None \<Rightarrow> s | Some h \<Rightarrow> h var s)"

definition assign :: "('m, 'w, 'e) callbacks \<Rightarrow> ('m \<Rightarrow> 'm) \<Rightarrow> string \<Rightarrow> ('m, 'w, 'e) stmt" where
  "assign env f var s = (changed env var (f (fst s), snd s), None)"

definition goto :: "('m \<Rightarrow> 'm) \<Rightarrow> ('m, 'w, 'e) stmt" where
  "goto f s = ((f (fst s), snd s), None)"

fun block :: "('m, 'w, 'e) stmt list \<Rightarrow> 'r \<Rightarrow> 'm \<times> 'w \<Rightarrow> ('m \<times> 'w) \<times> ('e + 'r)" where
  "block [] r s = (s, Inr r)" |
  "block (f # fs) r s = (case snd (f s) of Some e \<Rightarrow> (fst (f s), Inl e) | None \<Rightarrow> block fs r (fst (f s)))"

section \<open>The rules of the generator\<close>

definition is_space :: "char \<Rightarrow> bool" where
  "is_space c \<longleftrightarrow> c \<in> {CHR 0x09, CHR 0x0A, CHR 0x0B, CHR 0x0C, CHR 0x0D, CHR 0x20}"

definition TrimSpace :: "string \<Rightarrow> string" where
  "TrimSpace s = rev (dropWhile is_space (rev (dropWhile is_space s)))"

definition digit_val :: "char \<Rightarrow> int" where
  "digit_val c = of_char c - 48"

definition is_digit :: "char \<Rightarrow> bool" where
  "is_digit c \<longleftrightarrow> 48 \<le> (of_char c :: int) \<and> (of_char c :: int) \<le> 57"

text \<open>
  \<open>fmt.Sscanf(s, "%d", &n)\<close>: leading space, an optional sign and a run of digits and underscores,
  which must be a decimal number of 64 bits; anything may follow.
\<close>

definition Sscanf_d :: "string \<Rightarrow> int option" where
  "Sscanf_d s =
     (let s1 = dropWhile is_space s;
          neg = (s1 \<noteq> [] \<and> hd s1 = CHR ''-'');
          s2 = (if s1 \<noteq> [] \<and> hd s1 \<in> {CHR ''+'', CHR ''-''} then tl s1 else s1);
          tok = takeWhile (\<lambda>c. is_digit c \<or> c = CHR 0x5F) s2;
          n = foldl (\<lambda>n c. 10 * n + digit_val c) 0 tok
      in if tok = [] \<or> \<not> list_all is_digit tok then None
         else if neg then (if n \<le> 2 ^ 63 then Some (- n) else None)
         else (if n < 2 ^ 63 then Some n else None))"

datatype go_literal = GoTrue | GoFalse | GoText string | GoNum int

definition goSimpleLiteral :: "string \<Rightarrow> go_literal option" where
  "goSimpleLiteral expr =
     (let e = TrimSpace expr in
      if e = ''TRUE'' then Some GoTrue
      else if e = ''FALSE'' then Some GoFalse
      else if e \<noteq> [] \<and> hd e = CHR 0x22 \<and> last e = CHR 0x22 then Some (GoText e)
      else map_option GoNum (Sscanf_d e))"

definition CutPrefix :: "string \<Rightarrow> string \<Rightarrow> string option" where
  "CutPrefix s p = (if take (length p) s = p then Some (drop (length p) s) else None)"

text \<open>The amount by which the emitted \<open>m.Var + n\<close> or \<open>m.Var - n\<close> changes the field.\<close>

definition goSelfUpdate :: "string \<Rightarrow> string \<Rightarrow> int option" where
  "goSelfUpdate varName expr =
     (let e = TrimSpace expr;
          plus = Option.bind (CutPrefix e (varName @ '' + '')) (\<lambda>rest. Sscanf_d (TrimSpace rest));
          minus = Option.bind (CutPrefix e (varName @ '' - '')) (\<lambda>rest. map_option uminus (Sscanf_d (TrimSpace rest)))
      in case plus of Some n \<Rightarrow> Some n | None \<Rightarrow> minus)"

text \<open>The fields of a machine struct, by the names of the variables they are generated from.\<close>

record 'm struct =
  get_state :: "'m \<Rightarrow> string"
  set_state :: "string \<Rightarrow> 'm \<Rightarrow> 'm"
  get_int :: "string \<Rightarrow> 'm \<Rightarrow> int"
  set_var :: "string \<Rightarrow> go_literal \<Rightarrow> 'm \<Rightarrow> 'm"

text \<open>The string a quoted Go literal without escapes stands for.\<close>

definition go_unquote :: "string \<Rightarrow> string" where
  "go_unquote t = butlast (tl t)"

fun lit_string :: "go_literal \<Rightarrow> string" where
  "lit_string (GoText t) = go_unquote t" |
  "lit_string _ = ''''"

fun lit_int :: "go_literal \<Rightarrow> int" where
  "lit_int (GoNum n) = n" |
  "lit_int _ = 0"

definition lit_bool :: "go_literal \<Rightarrow> bool" where
  "lit_bool l \<longleftrightarrow> l = GoTrue"

definition update_body :: "'m struct \<Rightarrow> ('m, 'w, 'e) callbacks \<Rightarrow> VarUpdate \<Rightarrow> ('m, 'w, 'e) stmt list" where
  "update_body st env u =
     (case goSimpleLiteral (Expr u) of
        Some lit \<Rightarrow> [assign env (set_var st (Var u) lit) (Var u)]
      | None \<Rightarrow>
          (case goSelfUpdate (Var u) (Expr u) of
             Some d \<Rightarrow> [assign env (\<lambda>m. set_var st (Var u) (GoNum (get_int st (Var u) m + d)) m) (Var u)]
           | None \<Rightarrow> []))"

definition writeGoTransitionBody :: "'m struct \<Rightarrow> ('m, 'w, 'e) callbacks \<Rightarrow> Transition \<Rightarrow> ('m, 'w, 'e) stmt list" where
  "writeGoTransitionBody st env t =
     (if Do t \<noteq> '''' then [act env (Do t)] else []) @
     concat (map (update_body st env) (Updates t)) @
     [goto (set_state st (To t))]"

definition gen_guard :: "('m, 'w, 'e) callbacks \<Rightarrow> Transition \<Rightarrow> 'm \<times> 'w \<Rightarrow> bool" where
  "gen_guard env t s \<longleftrightarrow> (Guard t \<noteq> '''' \<longrightarrow> guarded env (Guard t) s)"

definition is_recv :: "Transition \<Rightarrow> bool" where
  "is_recv t = (case On t of Recv _ \<Rightarrow> True | Internal _ \<Rightarrow> False)"

fun trigger_name :: "Trigger \<Rightarrow> string" where
  "trigger_name (Recv msg) = msg" |
  "trigger_name (Internal desc) = desc"

fun event_name :: "Trigger \<Rightarrow> string" where
  "event_name (Recv msg) = ''recv_'' @ msg" |
  "event_name (Internal desc) = desc"

text \<open>What the emitted \<open>HandleMessage\<close>, \<open>Step\<close> and \<open>HandleEvent\<close> of a flat actor do.\<close>

definition gen_cases ::
  "'m struct \<Rightarrow> ('m, 'w, 'e) callbacks \<Rightarrow> (Trigger \<Rightarrow> string) \<Rightarrow> (Transition \<Rightarrow> 'r) \<Rightarrow> string \<Rightarrow> 'm \<times> 'w \<Rightarrow>
   Transition list \<Rightarrow> (bool \<times> ('m \<times> 'w \<Rightarrow> ('m \<times> 'w) \<times> ('e + 'r))) list" where
  "gen_cases st env nm ret x s ts =
     map (\<lambda>t. (get_state st (fst s) = From t \<and> x = nm (On t) \<and> gen_guard env t s,
               block (writeGoTransitionBody st env t) (ret t))) ts"

definition gen_HandleMessage ::
  "'m struct \<Rightarrow> Transition list \<Rightarrow> ('m, 'w, 'e) callbacks \<Rightarrow> string \<Rightarrow> 'm \<times> 'w \<Rightarrow> ('m \<times> 'w) \<times> ('e + bool)" where
  "gen_HandleMessage st ts env msg s =
     gswitch (gen_cases st env trigger_name (\<lambda>_. True) msg s (filter is_recv ts)) (block [] False) s"

definition gen_Step ::
  "'m struct \<Rightarrow> Transition list \<Rightarrow> ('m, 'w, 'e) callbacks \<Rightarrow> string \<Rightarrow> 'm \<times> 'w \<Rightarrow> ('m \<times> 'w) \<times> ('e + bool)" where
  "gen_Step st ts env event s =
     gswitch (gen_cases st env trigger_name (\<lambda>_. True) event s (filter (\<lambda>t. \<not> is_recv t) ts)) (block [] False) s"

definition gen_HandleEvent ::
  "'m struct \<Rightarrow> Transition list \<Rightarrow> ('m, 'w, 'e) callbacks \<Rightarrow> string \<Rightarrow> 'm \<times> 'w \<Rightarrow> ('m \<times> 'w) \<times> ('e + string list)" where
  "gen_HandleEvent st ts env ev s =
     gswitch (gen_cases st env event_name Emits ev s ts) (block [] []) s"

text \<open>
  The table literal the generator writes has no commands (\<open>writeGoTransitionLiteral\<close> leaves \<open>Emits\<close> out),
  while the methods are generated from rows that have them: here they are put back.
\<close>

definition with_emits :: "Transition list \<Rightarrow> string list list \<Rightarrow> Transition list" where
  "with_emits ts es = map2 (\<lambda>t e. t\<lparr>Emits := e\<rparr>) ts es"

text \<open>What a call did apart from the value it returned.\<close>

definition effect :: "('m \<times> 'w) \<times> ('e + 'r) \<Rightarrow> ('m \<times> 'w) \<times> 'e option" where
  "effect r = (fst r, case snd r of Inl e \<Rightarrow> Some e | Inr _ \<Rightarrow> None)"

section \<open>Blocks\<close>

lemma gswitch_cong: "map fst cs = map fst cs' \<Longrightarrow> list_all2 (\<lambda>a b. P (snd a) (snd b)) cs cs' \<Longrightarrow> P d d' \<Longrightarrow> P (gswitch cs d) (gswitch cs' d')"
  by (induction cs arbitrary: cs') (auto simp: list_all2_Cons1)

lemma gswitch_all:
  "list_all (\<lambda>cb. fst cb \<longrightarrow> I (fst (fst (snd cb s)))) cs \<Longrightarrow> I (fst (fst (d s))) \<Longrightarrow> I (fst (fst (gswitch cs d s)))"
  by (induction cs) auto

definition pure :: "('m, 'w, 'e) stmt \<Rightarrow> bool" where
  "pure f \<longleftrightarrow> (\<forall>s. snd (f s) = None)"

lemma pure_assign [simp]: "pure (assign env f n)" and pure_goto [simp]: "pure (goto f)"
  by (simp_all add: pure_def assign_def goto_def)

lemma pure_updates: "list_all pure (concat (map (update_body st env) us))"
  by (induction us) (auto simp: update_body_def split: option.splits)

lemma block_append_pure: "list_all pure fs \<Longrightarrow> \<exists>s1. block (fs @ gs) r s = block gs r s1"
proof (induction fs arbitrary: s)
  case (Cons f fs)
  have "pure f" using Cons.prems by simp
  then have "snd (f s) = None" unfolding pure_def by blast
  then have "block ((f # fs) @ gs) r s = block (fs @ gs) r (fst (f s))" by simp
  then show ?case using Cons by auto
qed auto

text \<open>The runtime machine has the callbacks of the generated one for everything the table names.\<close>

definition registered1 :: "('m, 'w, 'e) callbacks \<Rightarrow> ('m \<times> 'w, 'e) Machine \<Rightarrow> Transition \<Rightarrow> bool" where
  "registered1 env mm t \<longleftrightarrow>
     (Guard t \<noteq> '''' \<longrightarrow> (\<exists>g. guards mm (Guard t) = Some g \<and> Guards env (Guard t) = Some g)) \<and>
     (Do t \<noteq> '''' \<longrightarrow> (\<exists>f. actions mm (Do t) = Some f \<and> Actions env (Do t) = Some f))"

definition registered :: "('m, 'w, 'e) callbacks \<Rightarrow> ('m \<times> 'w, 'e) Machine \<Rightarrow> Transition list \<Rightarrow> bool" where
  "registered env mm ts \<longleftrightarrow> list_all (registered1 env mm) ts"

section \<open>The generated code and the runtime machine\<close>

text \<open>Both machines refuse, both fail with the action's error, or both move to the same state.\<close>

definition agree ::
  "'m struct \<Rightarrow> 'm \<times> 'w \<Rightarrow> ('m \<times> 'w, 'e) Machine \<Rightarrow> ('m \<times> 'w) \<times> ('e + bool) \<Rightarrow>
   (('m \<times> 'w, 'e) Machine \<times> 'm \<times> 'w) \<times> ('e machine_error + string) \<Rightarrow> bool" where
  "agree st s mm generated runtime =
     (case (generated, runtime) of
        ((s', Inr True), ((mm', _), Inr x)) \<Rightarrow> get_state st (fst s') = x \<and> mm' = mm\<lparr>state := x\<rparr>
      | ((s', Inr False), ((mm', ctx), Inl e)) \<Rightarrow> s' = s \<and> ctx = s \<and> mm' = mm
      | ((s', Inl e), ((mm', ctx), Inl (ActionFailed _ e'))) \<Rightarrow> s' = ctx \<and> e = e' \<and> mm' = mm
      | _ \<Rightarrow> False)"

text \<open>
  The struct of a machine: writing the state field and reading it back gives what was written.
\<close>

locale machine_struct =
  fixes st :: "'m struct"
  assumes get_set_state: "get_state st (set_state st x m) = x"
begin

lemma body_effect:
  "\<exists>s1. block (writeGoTransitionBody st env t) r s =
     (if Do t \<noteq> '''' \<and> snd (act env (Do t) s) \<noteq> None then (fst (act env (Do t) s), Inl (the (snd (act env (Do t) s))))
      else (s1, Inr r)) \<and> get_state st (fst s1) = To t"
proof -
  let ?us = "concat (map (update_body st env) (Updates t))"
  have "\<exists>s1. block (?us @ [goto (set_state st (To t))]) r s0 = (s1, Inr r) \<and> get_state st (fst s1) = To t" for s0
    using block_append_pure [OF pure_updates, of st env "Updates t" "[goto (set_state st (To t))]" r s0]
    by (auto simp: goto_def get_set_state)
  then show ?thesis by (cases "snd (act env (Do t) s)") (auto simp: writeGoTransitionBody_def)
qed

lemma try_agree:
  assumes "registered env mm ts"
  shows "agree st s mm (gswitch (map (\<lambda>t. (gen_guard env t s, block (writeGoTransitionBody st env t) True)) ts) (block [] False) s)
    (tryTransitions ts s mm)"
  using assms
proof (induction ts)
  case (Cons t ts)
  have r: "registered env mm ts" using Cons.prems by (simp add: registered_def)
  have R: "registered1 env mm t" using Cons.prems by (simp add: registered_def)
  note g = conjunct1 [OF R [unfolded registered1_def], THEN mp]
    and a = conjunct2 [OF R [unfolded registered1_def], THEN mp]
  show ?case
  proof (cases "gen_guard env t s")
    case False
    then have "Guard t \<noteq> ''''" by (simp add: gen_guard_def)
    then have "tryTransitions (t # ts) s mm = tryTransitions ts s mm"
      using g False by (auto simp: gen_guard_def guarded_def)
    then show ?thesis using Cons.IH [OF r] False by simp
  next
    case True
    from body_effect [of env t True s] obtain s1 where b: "block (writeGoTransitionBody st env t) True s =
       (if Do t \<noteq> '''' \<and> snd (act env (Do t) s) \<noteq> None then (fst (act env (Do t) s), Inl (the (snd (act env (Do t) s))))
        else (s1, Inr True))" and s1: "get_state st (fst s1) = To t" by (elim exE conjE)
    have G: "\<not> (Guard t \<noteq> '''' \<and> guards mm (Guard t) = None)" "\<not> (Guard t \<noteq> '''' \<and> \<not> the (guards mm (Guard t)) s)"
    proof -
      have "guards mm (Guard t) \<noteq> None \<and> the (guards mm (Guard t)) s" if n: "Guard t \<noteq> ''''"
        using g [OF n] True n by (elim exE conjE) (simp add: gen_guard_def guarded_def)
      then show "\<not> (Guard t \<noteq> '''' \<and> guards mm (Guard t) = None)" "\<not> (Guard t \<noteq> '''' \<and> \<not> the (guards mm (Guard t)) s)"
        by blast+
    qed
    have T: "tryTransitions (t # ts) s mm = (if Do t \<noteq> '''' then
        (case actions mm (Do t) of
           None \<Rightarrow> ((mm, s), Inl (UnregisteredAction (Do t)))
         | Some action \<Rightarrow>
             (case action s of
                (ctx1, Some err) \<Rightarrow> ((mm, ctx1), Inl (ActionFailed (Do t) err))
              | (ctx1, None) \<Rightarrow> ((mm\<lparr>state := To t\<rparr>, ctx1), Inr (To t))))
      else ((mm\<lparr>state := To t\<rparr>, s), Inr (To t)))"
      unfolding tryTransitions.simps(2) if_not_P [OF G(1)] if_not_P [OF G(2)] by (rule refl)
    show ?thesis
    proof (cases "Do t = ''''")
      case True
      then show ?thesis unfolding T using \<open>gen_guard env t s\<close> b s1 by (simp add: agree_def)
    next
      case False
      from a [OF False] obtain f where f: "actions mm (Do t) = Some f" "Actions env (Do t) = Some f" by (elim exE conjE)
      obtain c x where fs: "f s = (c, x)" by (cases "f s")
      show ?thesis
      proof (cases x)
        case None
        then have "block (writeGoTransitionBody st env t) True s = (s1, Inr True)" using b f fs by (simp add: act_def)
        then show ?thesis unfolding T using \<open>gen_guard env t s\<close> s1 False f fs None by (simp add: agree_def)
      next
        case (Some e)
        then have "block (writeGoTransitionBody st env t) True s = (c, Inl e)" using b f fs False by (simp add: act_def)
        then show ?thesis unfolding T using \<open>gen_guard env t s\<close> False f fs Some by (simp add: agree_def)
      qed
    qed
  qed
qed (simp add: agree_def)

end

lemma gswitch_filter:
  "gswitch (map (\<lambda>t. (P t \<and> Q t, b t)) ts) d = gswitch (map (\<lambda>t. (Q t, b t)) (filter P ts)) d"
  by (induction ts) auto

lemma is_recv_trigger:
  "is_recv t \<and> msg = trigger_name (On t) \<longleftrightarrow> On t = Recv msg"
  "\<not> is_recv t \<and> msg = trigger_name (On t) \<longleftrightarrow> On t = Internal msg"
  by (cases "On t"; auto simp: is_recv_def)+

lemma gen_HandleMessage_filter:
  "gen_HandleMessage st ts env msg s =
     gswitch (map (\<lambda>t. (gen_guard env t s, block (writeGoTransitionBody st env t) True))
       (filter (\<lambda>t. From t = get_state st (fst s) \<and> On t = Recv msg) ts)) (block [] False) s"
proof -
  have "filter (\<lambda>t. get_state st (fst s) = From t \<and> msg = trigger_name (On t)) (filter is_recv ts) =
      filter (\<lambda>t. From t = get_state st (fst s) \<and> On t = Recv msg) ts"
    unfolding filter_filter using is_recv_trigger(1) by (intro filter_cong) auto
  then show ?thesis
    using gswitch_filter [of "\<lambda>t. get_state st (fst s) = From t \<and> msg = trigger_name (On t)" "\<lambda>t. gen_guard env t s"
        "\<lambda>t. block (writeGoTransitionBody st env t) True" "filter is_recv ts" "block [] False"]
    by (simp add: gen_HandleMessage_def gen_cases_def conj_assoc del: filter_filter)
qed

lemma gen_Step_filter:
  "gen_Step st ts env ev s =
     gswitch (map (\<lambda>t. (gen_guard env t s, block (writeGoTransitionBody st env t) True))
       (filter (\<lambda>t. From t = get_state st (fst s) \<and> On t = Internal ev) ts)) (block [] False) s"
proof -
  have "filter (\<lambda>t. get_state st (fst s) = From t \<and> ev = trigger_name (On t)) (filter (\<lambda>t. \<not> is_recv t) ts) =
      filter (\<lambda>t. From t = get_state st (fst s) \<and> On t = Internal ev) ts"
    unfolding filter_filter using is_recv_trigger(2) by (intro filter_cong) auto
  then show ?thesis
    using gswitch_filter [of "\<lambda>t. get_state st (fst s) = From t \<and> ev = trigger_name (On t)" "\<lambda>t. gen_guard env t s"
        "\<lambda>t. block (writeGoTransitionBody st env t) True" "filter (\<lambda>t. \<not> is_recv t) ts" "block [] False"]
    by (simp add: gen_Step_def gen_cases_def conj_assoc del: filter_filter)
qed

context machine_struct
begin

lemma filtered_agree:
  assumes "registered env mm ts"
  shows "agree st s mm
    (gswitch (map (\<lambda>t. (gen_guard env t s, block (writeGoTransitionBody st env t) True)) (filter P ts)) (block [] False) s)
    (if length (filter P ts) = 0 then ((mm, s), Inl e) else tryTransitions (filter P ts) s mm)"
proof (cases "filter P ts = []")
  case False
  have "registered env mm (filter P ts)" using assms by (auto simp: registered_def list_all_iff)
  from try_agree [OF this, of s] False show ?thesis by simp
qed (simp add: agree_def)

lemma HandleMessage_agree:
  assumes "registered env mm (FlattenedTransitions (actor mm))" and "indexed mm" and "state mm = get_state st (fst s)"
  shows "agree st s mm (gen_HandleMessage st (FlattenedTransitions (actor mm)) env msg s) (Machine_HandleMessage msg s mm)"
  using filtered_agree [OF assms(1)] assms(2,3)
  by (simp add: gen_HandleMessage_filter Machine_HandleMessage_def indexed_def Let_def)

lemma Step_agree:
  assumes "registered env mm (FlattenedTransitions (actor mm))" and "indexed mm" and "state mm = get_state st (fst s)"
    and "ev \<noteq> ''''"
  shows "agree st s mm (gen_Step st (FlattenedTransitions (actor mm)) env ev s) (Machine_Step keys ev s mm)"
  using filtered_agree [OF assms(1)] assms(2,3,4)
  by (simp add: gen_Step_filter Machine_Step_def indexed_def Let_def)

end

section \<open>Callbacks that leave a part of the machine alone\<close>

text \<open>
  \<open>keeps env v\<close>: no action and no change notification moves the part \<open>v\<close> of the machine.
\<close>

definition keeps :: "('m, 'w, 'e) callbacks \<Rightarrow> ('m \<Rightarrow> 'v) \<Rightarrow> bool" where
  "keeps env v \<longleftrightarrow>
     (\<forall>a s. v (fst (fst (act env a s))) = v (fst s)) \<and> (\<forall>n s. v (fst (changed env n s)) = v (fst s))"

lemma keepsD:
  assumes "keeps env v"
  shows "v (fst (fst (act env a s))) = v (fst s)" and "v (fst (changed env n s)) = v (fst s)"
  using assms unfolding keeps_def by blast+

text \<open>Callbacks that change nothing of the machine keep every part of it.\<close>

lemma keeps_no_callbacks: "keeps \<lparr>Guards = g, Actions = Map.empty, OnChange = None\<rparr> v"
  by (simp add: keeps_def act_def changed_def)

text \<open>Callbacks for runs: every guard holds, no action is registered.\<close>

definition all_guards :: "('m, unit, unit) callbacks" where
  "all_guards = \<lparr>Guards = (\<lambda>_. Some (\<lambda>_. True)), Actions = Map.empty, OnChange = None\<rparr>"

lemma keeps_all_guards: "keeps all_guards v"
  by (simp add: all_guards_def keeps_no_callbacks)

lemma fst_block_assign: "block (assign env f n # fs) r s = block fs r (changed env n (f (fst s), snd s))"
  and block_goto: "block (goto f # fs) r s = block fs r (f (fst s), snd s)"
  by (simp_all add: assign_def goto_def)

section \<open>Invariants read off the table\<close>

text \<open>
  What a list of updates does to a variable: nothing (\<open>None\<close>), set it to something the table does
  not determine (\<open>Some None\<close>), or set it to a literal.
\<close>

definition update_effect :: "string \<Rightarrow> VarUpdate \<Rightarrow> go_literal option option \<Rightarrow> go_literal option option" where
  "update_effect v u r =
     (if Var u \<noteq> v then r
      else case goSimpleLiteral (Expr u) of
             Some lit \<Rightarrow> Some (Some lit)
           | None \<Rightarrow> (case goSelfUpdate (Var u) (Expr u) of Some _ \<Rightarrow> Some None | None \<Rightarrow> r))"

definition updates_effect :: "string \<Rightarrow> VarUpdate list \<Rightarrow> go_literal option option" where
  "updates_effect v us = fold (update_effect v) us None"

text \<open>
  \<open>expected\<close> says which literal a variable holds in a state. A transition keeps that when every
  variable it does not set has the same expectation in both states and every other one is set to
  what the new state expects.
\<close>

definition keeps_expected :: "(string \<Rightarrow> string \<Rightarrow> go_literal option) \<Rightarrow> string list \<Rightarrow> Transition \<Rightarrow> bool" where
  "keeps_expected expected vars t \<longleftrightarrow>
     list_all (\<lambda>v. case expected (To t) v of
         None \<Rightarrow> True
       | Some lit \<Rightarrow> (case updates_effect v (Updates t) of
             None \<Rightarrow> expected (From t) v = Some lit
           | Some None \<Rightarrow> False
           | Some (Some lit') \<Rightarrow> lit' = lit)) vars"

definition as_expected ::
  "'m struct \<Rightarrow> (string \<Rightarrow> go_literal \<Rightarrow> 'm \<Rightarrow> bool) \<Rightarrow> (string \<Rightarrow> string \<Rightarrow> go_literal option) \<Rightarrow> string list \<Rightarrow>
   string list \<Rightarrow> 'm \<Rightarrow> bool" where
  "as_expected st reads expected vars states m \<longleftrightarrow>
     get_state st m \<in> set states \<and>
     (\<forall>v\<in>set vars. \<forall>lit. expected (get_state st m) v = Some lit \<longrightarrow> reads v lit m)"

definition keeps_vars ::
  "('m, 'w, 'e) callbacks \<Rightarrow> 'm struct \<Rightarrow> (string \<Rightarrow> go_literal \<Rightarrow> 'm \<Rightarrow> bool) \<Rightarrow> string list \<Rightarrow> bool" where
  "keeps_vars env st reads vars \<longleftrightarrow> keeps env (get_state st) \<and> (\<forall>v\<in>set vars. \<forall>lit. keeps env (reads v lit))"

definition effect_ok :: "(string \<Rightarrow> go_literal \<Rightarrow> 'm \<Rightarrow> bool) \<Rightarrow> string \<Rightarrow> go_literal option option \<Rightarrow> 'm \<Rightarrow> 'm \<Rightarrow> bool" where
  "effect_ok reads v e m0 m \<longleftrightarrow>
     (case e of None \<Rightarrow> \<forall>lit. reads v lit m0 \<longrightarrow> reads v lit m | Some None \<Rightarrow> True | Some (Some lit) \<Rightarrow> reads v lit m)"

lemma block_pure_append: "list_all pure fs \<Longrightarrow> block (fs @ gs) r s = block gs r (fst (block fs () s))"
proof (induction fs arbitrary: s)
  case (Cons f fs)
  have "pure f" using Cons.prems by simp
  then have "snd (f s) = None" unfolding pure_def by blast
  then show ?case using Cons by simp
qed simp

locale machine_vars = machine_struct st for st :: "'m struct" +
  fixes reads :: "string \<Rightarrow> go_literal \<Rightarrow> 'm \<Rightarrow> bool"
    and vars :: "string list"
  assumes reads_set: "v \<in> set vars \<Longrightarrow> reads v lit (set_var st v lit m)"
    and reads_other: "v \<in> set vars \<Longrightarrow> v' \<noteq> v \<Longrightarrow> reads v lit (set_var st v' lit' m) \<longleftrightarrow> reads v lit m"
    and reads_state: "reads v lit (set_state st x m) \<longleftrightarrow> reads v lit m"
begin

lemma update_reads:
  assumes k: "keeps_vars env st reads vars" and v: "v \<in> set vars" and e: "effect_ok reads v e m0 (fst s)"
  shows "effect_ok reads v (update_effect v u e) m0 (fst (fst (block (update_body st env u) () s)))"
proof -
  have c: "reads v l (fst (changed env n x)) \<longleftrightarrow> reads v l (fst x)" for l n x
    using k v keepsD(2) [of env "reads v l"] unfolding keeps_vars_def by blast
  consider (lit) l where "goSimpleLiteral (Expr u) = Some l"
    | (self) d where "goSimpleLiteral (Expr u) = None" "goSelfUpdate (Var u) (Expr u) = Some d"
    | (none) "goSimpleLiteral (Expr u) = None" "goSelfUpdate (Var u) (Expr u) = None"
    by fastforce
  then show ?thesis
  proof cases
    case lit
    then show ?thesis
      using e reads_set [OF v] reads_other [OF v]
      by (cases "Var u = v") (auto simp: update_effect_def update_body_def assign_def c effect_ok_def split: option.splits)
  next
    case self
    then show ?thesis
      using e reads_other [OF v]
      by (cases "Var u = v") (auto simp: update_effect_def update_body_def assign_def c effect_ok_def split: option.splits)
  next
    case none
    then show ?thesis using e by (auto simp: update_effect_def update_body_def)
  qed
qed

lemma updates_reads:
  assumes "keeps_vars env st reads vars" and "v \<in> set vars" and "effect_ok reads v e m0 (fst s)"
  shows "effect_ok reads v (fold (update_effect v) us e) m0 (fst (fst (block (concat (map (update_body st env) us)) () s)))"
  using assms(3)
proof (induction us arbitrary: e s)
  case (Cons u us)
  have p: "list_all pure (update_body st env u)" using pure_updates [of st env "[u]"] by simp
  show ?case
    using Cons.IH [OF update_reads [OF assms(1,2) Cons.prems]] by (simp add: block_pure_append [OF p])
qed simp

lemma body_expected:
  assumes k: "keeps_vars env st reads vars" and t: "keeps_expected expected vars t" "To t \<in> set states"
    and i: "as_expected st reads expected vars states (fst s)" and fr: "get_state st (fst s) = From t"
  shows "as_expected st reads expected vars states (fst (fst (block (writeGoTransitionBody st env t) r s)))"
proof -
  define s1 where "s1 = (if Do t \<noteq> '''' then fst (act env (Do t) s) else s)"
  have s1: "get_state st (fst s1) = get_state st (fst s)" "v \<in> set vars \<Longrightarrow> reads v lit (fst s1) \<longleftrightarrow> reads v lit (fst s)" for v lit
    using k keepsD(1) [of env "get_state st"] keepsD(1) [of env "reads v lit"] unfolding keeps_vars_def s1_def by auto
  let ?us = "concat (map (update_body st env) (Updates t))"
  define m where "m = fst (fst (block ?us () s1))"
  have eff: "effect_ok reads v (updates_effect v (Updates t)) (fst s1) m" if "v \<in> set vars" for v
    unfolding updates_effect_def m_def by (rule updates_reads [OF k that]) (simp add: effect_ok_def)
  show ?thesis
  proof (cases "Do t \<noteq> '''' \<and> snd (act env (Do t) s) \<noteq> None")
    case True
    then have "fst (block (writeGoTransitionBody st env t) r s) = s1" by (auto simp: writeGoTransitionBody_def s1_def)
    then show ?thesis using i s1 by (simp add: as_expected_def)
  next
    case False
    then have "block (writeGoTransitionBody st env t) r s = block (?us @ [goto (set_state st (To t))]) r s1"
      by (auto simp: writeGoTransitionBody_def s1_def)
    then have m: "fst (fst (block (writeGoTransitionBody st env t) r s)) = set_state st (To t) m"
      by (simp add: block_pure_append [OF pure_updates] goto_def m_def)
    have "reads v lit m" if v: "v \<in> set vars" and e: "expected (To t) v = Some lit" for v lit
    proof -
      have "case updates_effect v (Updates t) of None \<Rightarrow> expected (From t) v = Some lit | Some None \<Rightarrow> False | Some (Some l) \<Rightarrow> l = lit"
        using t(1) v e unfolding keeps_expected_def by (force simp: list_all_iff)
      then show ?thesis
        using eff [OF v] i fr s1 v by (auto simp: effect_ok_def as_expected_def split: option.splits)
    qed
    then show ?thesis unfolding m as_expected_def using t(2) by (simp add: get_set_state reads_state)
  qed
qed

lemma gen_expected:
  assumes "keeps_vars env st reads vars" and "list_all (\<lambda>t. keeps_expected expected vars t \<and> To t \<in> set states) ts"
    and "as_expected st reads expected vars states (fst s)"
  shows "as_expected st reads expected vars states (fst (fst (gen_HandleMessage st ts env x s)))"
    and "as_expected st reads expected vars states (fst (fst (gen_Step st ts env x s)))"
    and "as_expected st reads expected vars states (fst (fst (gen_HandleEvent st ts env x s)))"
proof -
  let ?I = "as_expected st reads expected vars states"
  have all: "list_all (\<lambda>cb. fst cb \<longrightarrow> ?I (fst (fst (snd cb s)))) (gen_cases st env nm ret x s ts')"
    if "set ts' \<subseteq> set ts" for nm ts' and ret :: "Transition \<Rightarrow> 'r"
    unfolding gen_cases_def using assms that by (auto simp: list_all_iff intro!: body_expected)
  show "?I (fst (fst (gen_HandleMessage st ts env x s)))"
    unfolding gen_HandleMessage_def using assms(3) by (intro gswitch_all [where I = ?I] all) auto
  show "?I (fst (fst (gen_Step st ts env x s)))"
    unfolding gen_Step_def using assms(3) by (intro gswitch_all [where I = ?I] all) auto
  show "?I (fst (fst (gen_HandleEvent st ts env x s)))"
    unfolding gen_HandleEvent_def using assms(3) by (intro gswitch_all [where I = ?I] all) auto
qed

end

section \<open>The unified entry point\<close>

text \<open>
  \<open>HandleEvent\<close> stands in for both \<open>HandleMessage\<close> and \<open>Step\<close>, as long as no internal event of the table
  has a name that starts like those of received messages.
\<close>

definition events_apart :: "Transition list \<Rightarrow> bool" where
  "events_apart ts \<longleftrightarrow> list_all (\<lambda>t. case On t of Recv _ \<Rightarrow> True | Internal d \<Rightarrow> take 5 d \<noteq> ''recv_'') ts"

lemma effect_block: "effect (block fs r s) = effect (block fs r' s)"
  by (induction fs arbitrary: s) (auto simp: effect_def split: option.splits)

lemma gswitch_effect:
  assumes "list_all (\<lambda>t. (C t \<longleftrightarrow> C' t) \<and> (C t \<longrightarrow> effect (b t s) = effect (b' t s))) ts" and "effect (d s) = effect (d' s)"
  shows "effect (gswitch (map (\<lambda>t. (C t, b t)) ts) d s) = effect (gswitch (map (\<lambda>t. (C' t, b' t)) ts) d' s)"
  using assms by (induction ts) auto

lemma gswitch_drop:
  assumes "\<And>t. t \<in> set ts \<Longrightarrow> \<not> P t \<Longrightarrow> \<not> C t"
  shows "gswitch (map (\<lambda>t. (C t, b t)) ts) d = gswitch (map (\<lambda>t. (C t, b t)) (filter P ts)) d"
  using assms by (induction ts) auto

lemma HandleEvent_message:
  assumes "events_apart ts"
  shows "effect (gen_HandleEvent st ts env (''recv_'' @ msg) s) = effect (gen_HandleMessage st ts env msg s)"
proof -
  have n: "\<not> is_recv t \<Longrightarrow> ''recv_'' @ msg \<noteq> event_name (On t)" if "t \<in> set ts" for t
    using assms that by (cases "On t") (auto simp: events_apart_def is_recv_def list_all_iff)
  have "gen_HandleEvent st ts env (''recv_'' @ msg) s =
      gswitch (gen_cases st env event_name Emits (''recv_'' @ msg) s (filter is_recv ts)) (block [] []) s"
    unfolding gen_HandleEvent_def gen_cases_def using n by (subst gswitch_drop [where P = is_recv]) auto
  moreover have "list_all is_recv (filter is_recv ts)" by (simp add: list_all_iff)
  then have "effect (gswitch (gen_cases st env event_name Emits (''recv_'' @ msg) s (filter is_recv ts)) (block [] []) s) =
      effect (gen_HandleMessage st ts env msg s)"
    unfolding gen_HandleMessage_def gen_cases_def
    by (intro gswitch_effect effect_block)
       (auto simp: list_all_iff is_recv_def effect_block split: Trigger.splits)
  ultimately show ?thesis by simp
qed

lemma HandleEvent_step:
  assumes "take 5 ev \<noteq> ''recv_''"
  shows "effect (gen_HandleEvent st ts env ev s) = effect (gen_Step st ts env ev s)"
proof -
  have n: "is_recv t \<Longrightarrow> ev \<noteq> event_name (On t)" for t
    using assms by (cases "On t") (auto simp: is_recv_def)
  have "gen_HandleEvent st ts env ev s =
      gswitch (gen_cases st env event_name Emits ev s (filter (\<lambda>t. \<not> is_recv t) ts)) (block [] []) s"
    unfolding gen_HandleEvent_def gen_cases_def using n by (subst gswitch_drop [where P = "\<lambda>t. \<not> is_recv t"]) auto
  moreover have "effect (gswitch (gen_cases st env event_name Emits ev s (filter (\<lambda>t. \<not> is_recv t) ts)) (block [] []) s) =
      effect (gen_Step st ts env ev s)"
    unfolding gen_Step_def gen_cases_def
    by (intro gswitch_effect effect_block)
       (auto simp: list_all_iff is_recv_def effect_block split: Trigger.splits)
  ultimately show ?thesis by simp
qed

lemmas gen_simps = gen_HandleMessage_def gen_Step_def gen_HandleEvent_def gen_cases_def gen_guard_def is_recv_def
  writeGoTransitionBody_def update_body_def transition_def go_unquote_def

section \<open>Rows with their commands\<close>

lemma gswitch_cases: "gswitch cs d = d \<or> (\<exists>cb\<in>set cs. fst cb \<and> gswitch cs d = snd cb)"
  by (induction cs d rule: gswitch.induct) auto

lemma list_all_with_emits:
  assumes "\<And>t e. P t \<Longrightarrow> P (t\<lparr>Emits := e\<rparr>)" and "list_all P ts"
  shows "list_all P (with_emits ts es)"
  using assms unfolding with_emits_def by (auto simp: list_all_iff dest!: set_zip_leftD)

lemma events_apart_with_emits: "events_apart ts \<Longrightarrow> events_apart (with_emits ts es)"
  unfolding events_apart_def by (erule list_all_with_emits [rotated]) simp

lemma keeps_expected_with_emits:
  "list_all (\<lambda>t. keeps_expected expected vars t \<and> To t \<in> set states) ts \<Longrightarrow>
   list_all (\<lambda>t. keeps_expected expected vars t \<and> To t \<in> set states) (with_emits ts es)"
  by (erule list_all_with_emits [rotated]) (simp add: keeps_expected_def cong: option.case_cong)

lemma with_emits_parts:
  assumes "length es = length ts"
  shows "map From (with_emits ts es) = map From ts" and "gen_Step st (with_emits ts es) env x s = gen_Step st ts env x s"
    and "gen_HandleMessage st (with_emits ts es) env x s = gen_HandleMessage st ts env x s"
proof -
  have g: "gen_cases st env nm (\<lambda>_. True) x s (filter P (with_emits ts es)) = gen_cases st env nm (\<lambda>_. True) x s (filter P ts)"
    if "\<And>t e. P (t\<lparr>Emits := e\<rparr>) = P t" for P nm
    using assms unfolding with_emits_def gen_cases_def
    by (induction es ts rule: list_induct2) (simp_all add: that gen_guard_def writeGoTransitionBody_def)
  show "map From (with_emits ts es) = map From ts"
    using assms unfolding with_emits_def by (induction es ts rule: list_induct2) simp_all
  show "gen_Step st (with_emits ts es) env x s = gen_Step st ts env x s"
    unfolding gen_Step_def by (subst g) (simp_all add: is_recv_def)
  show "gen_HandleMessage st (with_emits ts es) env x s = gen_HandleMessage st ts env x s"
    unfolding gen_HandleMessage_def by (subst g) (simp_all add: is_recv_def)
qed

section \<open>Runs that must end\<close>

text \<open>How many of a sequence of calls change the state.\<close>

fun moves :: "('x \<Rightarrow> 's \<Rightarrow> 's) \<Rightarrow> ('s \<Rightarrow> string) \<Rightarrow> 'x list \<Rightarrow> 's \<Rightarrow> nat" where
  "moves f g [] s = 0" |
  "moves f g (x # xs) s = (if g (f x s) = g s then 0 else 1) + moves f g xs (f x s)"

lemma moves_bounded:
  assumes "\<And>x s. g (f x s) = g s \<or> rk (g s) < rk (g (f x s))" and "\<And>s. rk (g s) \<le> (n :: nat)"
  shows "moves f g xs s + rk (g s) \<le> n"
proof (induction xs arbitrary: s)
  case (Cons x xs)
  show ?case
  proof (cases "g (f x s) = g s")
    case True
    then show ?thesis using Cons.IH [of "f x s"] by simp
  next
    case False
    then have "rk (g s) < rk (g (f x s))" using assms(1) [of x s] by blast
    then show ?thesis using False Cons.IH [of "f x s"] by simp
  qed
qed (simp add: assms(2))

context machine_struct
begin

lemma gen_edge:
  assumes "keeps env (get_state st)" and m': "m' = fst (fst (gen_HandleEvent st ts env ev s))"
  shows "get_state st m' = get_state st (fst s) \<or> (\<exists>t\<in>set ts. From t = get_state st (fst s) \<and> To t = get_state st m')"
proof -
  define I where "I m \<longleftrightarrow> get_state st m = get_state st (fst s) \<or> (\<exists>t\<in>set ts. From t = get_state st (fst s) \<and> To t = get_state st m)" for m
  have "I (fst (fst (block (writeGoTransitionBody st env t) r s)))" if "t \<in> set ts" "get_state st (fst s) = From t" for t and r :: "string list"
  proof -
    from body_effect [of env t r s] obtain s1 where b: "block (writeGoTransitionBody st env t) r s =
       (if Do t \<noteq> '''' \<and> snd (act env (Do t) s) \<noteq> None then (fst (act env (Do t) s), Inl (the (snd (act env (Do t) s))))
        else (s1, Inr r))" and s1: "get_state st (fst s1) = To t" by (elim exE conjE)
    show ?thesis unfolding b I_def using s1 that keepsD(1) [OF assms(1)] by auto
  qed
  then have "list_all (\<lambda>cb. fst cb \<longrightarrow> I (fst (fst (snd cb s)))) (gen_cases st env event_name Emits ev s ts)"
    unfolding gen_cases_def by (auto simp: list_all_iff)
  then have "I (fst (fst (gen_HandleEvent st ts env ev s)))"
    unfolding gen_HandleEvent_def by (rule gswitch_all [where I = I]) (simp add: I_def)
  then show ?thesis unfolding m' I_def .
qed

text \<open>
  What \<open>HandleEvent\<close> can do: nothing; fail in the action of a row that applies, staying in the state
  and emitting nothing; or take such a row, going to its state and emitting its commands.
\<close>

lemma gen_event:
  assumes "keeps env (get_state st)" and r: "r = gen_HandleEvent st ts env ev s"
  obtains (idle) "r = (s, Inr [])"
  | (failed) t e where "t \<in> set ts" "From t = get_state st (fst s)" "event_name (On t) = ev" "gen_guard env t s"
      "snd r = Inl e" "get_state st (fst (fst r)) = get_state st (fst s)"
  | (taken) t where "t \<in> set ts" "From t = get_state st (fst s)" "event_name (On t) = ev" "gen_guard env t s"
      "Do t \<noteq> '''' \<longrightarrow> snd (act env (Do t) s) = None" "snd r = Inr (Emits t)" "get_state st (fst (fst r)) = To t"
proof -
  let ?cs = "gen_cases st env event_name Emits ev s ts"
  from gswitch_cases [of ?cs "block [] []"] consider (d) "gswitch ?cs (block [] []) = block [] []"
    | (c) t where "t \<in> set ts" "From t = get_state st (fst s)" "event_name (On t) = ev" "gen_guard env t s"
        "gswitch ?cs (block [] []) = block (writeGoTransitionBody st env t) (Emits t)"
    unfolding gen_cases_def by auto
  then show thesis
  proof cases
    case d
    then have "r = (s, Inr [])" unfolding r gen_HandleEvent_def by simp
    then show thesis by (rule idle)
  next
    case c
    from body_effect [of env t "Emits t" s] obtain s1 where b: "block (writeGoTransitionBody st env t) (Emits t) s =
       (if Do t \<noteq> '''' \<and> snd (act env (Do t) s) \<noteq> None then (fst (act env (Do t) s), Inl (the (snd (act env (Do t) s))))
        else (s1, Inr (Emits t)))" and s1: "get_state st (fst s1) = To t" by (elim exE conjE)
    have r': "r = block (writeGoTransitionBody st env t) (Emits t) s" unfolding r gen_HandleEvent_def c(5) by (rule refl)
    show thesis
    proof (cases "Do t \<noteq> '''' \<and> snd (act env (Do t) s) \<noteq> None")
      case True
      then have "r = (fst (act env (Do t) s), Inl (the (snd (act env (Do t) s))))" unfolding r' b by simp
      then show thesis using failed [OF c(1-4)] keepsD(1) [OF assms(1)] by simp
    next
      case False
      then have "r = (s1, Inr (Emits t))" unfolding r' b by auto
      then show thesis using taken [OF c(1-4)] s1 False by auto
    qed
  qed
qed

text \<open>
  An interpretation of the commands whose state is a function of the machine's state, by a check of
  every row, stays that function of it.
\<close>

lemma gen_commands:
  assumes "keeps env (get_state st)" and "list_all (\<lambda>t. fold exec (Emits t) (ex (From t)) = ex (To t)) ts"
    and "x = ex (get_state st (fst s))" and r: "r = gen_HandleEvent st ts env ev s"
  shows "(case snd r of Inl _ \<Rightarrow> x | Inr cs \<Rightarrow> fold exec cs x) = ex (get_state st (fst (fst r)))"
  using assms(1) r
proof (cases rule: gen_event)
  case (taken t)
  have "fold exec (Emits t) (ex (From t)) = ex (To t)" using assms(2) taken(1) by (auto simp only: list_all_iff)
  then show ?thesis unfolding taken(2,6,7) by (simp add: assms(3))
qed (simp_all add: assms(3))

end

section \<open>Gates\<close>

context machine_struct
begin

text \<open>
  A set of states that is entered only over rows with a property \<open>P\<close>: a run that ends in it has
  taken such a row, with the guard of the row true and its action successful at that moment.
\<close>

lemma gen_gate:
  assumes k: "keeps env (get_state st)" and rows: "list_all (\<lambda>t. To t \<in> A \<and> From t \<notin> A \<longrightarrow> P t) ts"
    and run: "\<And>n. run n = fold (\<lambda>ev s. fst (gen_HandleEvent st ts env ev s)) (take n evs) s0"
    and "get_state st (fst s0) \<notin> A" and "get_state st (fst (run n)) \<in> A" and "n \<le> length evs"
  shows "\<exists>i<n. \<exists>t\<in>set ts. P t \<and> From t = get_state st (fst (run i)) \<and> event_name (On t) = evs ! i \<and> gen_guard env t (run i) \<and>
    (Do t \<noteq> '''' \<longrightarrow> snd (act env (Do t) (run i)) = None)"
  using assms(5,6)
proof (induction n)
  case 0
  then show ?case using assms(4) run [of 0] by simp
next
  case (Suc n)
  show ?case
  proof (cases "get_state st (fst (run n)) \<in> A")
    case True
    with Suc.IH Suc.prems(2) show ?thesis by (meson Suc_leD less_SucI)
  next
    case False
    have r: "run (Suc n) = fst (gen_HandleEvent st ts env (evs ! n) (run n))"
      using Suc.prems(2) unfolding run by (simp add: take_Suc_conv_app_nth)
    from k refl show ?thesis
    proof (cases rule: gen_event [of env "gen_HandleEvent st ts env (evs ! n) (run n)" ts "evs ! n" "run n"])
      case (taken t)
      have "P t" using rows taken(1,2,7) False Suc.prems(1) unfolding r by (auto simp: list_all_iff)
      then show ?thesis using taken by blast
    qed (use False Suc.prems(1) r in auto)
  qed
qed

end

end
