(* ===== verification/PathSwitch.thy ===== *)
theory PathSwitch
  imports Generated
begin

text \<open>
  The path switching protocol (\<open>protocol/pathswitch_gen.go\<close>): its table and the three machines
  generated from it, for the backend, the client and the relay. The names of states, messages,
  guards, actions and events are abbreviations for the strings of the constant declarations.
\<close>

section \<open>Names\<close>

abbreviation (input) PathSwitchBackendRelayConnected :: string where "PathSwitchBackendRelayConnected \<equiv> ''RelayConnected''"
abbreviation (input) PathSwitchBackendLANOffered :: string where "PathSwitchBackendLANOffered \<equiv> ''LANOffered''"
abbreviation (input) PathSwitchBackendLANActive :: string where "PathSwitchBackendLANActive \<equiv> ''LANActive''"
abbreviation (input) PathSwitchBackendRelayBackoff :: string where "PathSwitchBackendRelayBackoff \<equiv> ''RelayBackoff''"
abbreviation (input) PathSwitchBackendLANDegraded :: string where "PathSwitchBackendLANDegraded \<equiv> ''LANDegraded''"

definition PathSwitch_backend_states :: "string list" where
  "PathSwitch_backend_states =
    [PathSwitchBackendRelayConnected, PathSwitchBackendLANOffered, PathSwitchBackendLANActive,
     PathSwitchBackendRelayBackoff, PathSwitchBackendLANDegraded]"

abbreviation (input) PathSwitchClientRelayConnected :: string where "PathSwitchClientRelayConnected \<equiv> ''RelayConnected''"
abbreviation (input) PathSwitchClientLANConnecting :: string where "PathSwitchClientLANConnecting \<equiv> ''LANConnecting''"
abbreviation (input) PathSwitchClientLANVerifying :: string where "PathSwitchClientLANVerifying \<equiv> ''LANVerifying''"
abbreviation (input) PathSwitchClientLANActive :: string where "PathSwitchClientLANActive \<equiv> ''LANActive''"
abbreviation (input) PathSwitchClientRelayFallback :: string where "PathSwitchClientRelayFallback \<equiv> ''RelayFallback''"

definition PathSwitch_client_states :: "string list" where
  "PathSwitch_client_states =
    [PathSwitchClientRelayConnected, PathSwitchClientLANConnecting, PathSwitchClientLANVerifying,
     PathSwitchClientLANActive, PathSwitchClientRelayFallback]"

abbreviation (input) PathSwitchRelayIdle :: string where "PathSwitchRelayIdle \<equiv> ''Idle''"
abbreviation (input) PathSwitchRelayBackendRegistered :: string where "PathSwitchRelayBackendRegistered \<equiv> ''BackendRegistered''"
abbreviation (input) PathSwitchRelayBridged :: string where "PathSwitchRelayBridged \<equiv> ''Bridged''"

definition PathSwitch_relay_states :: "string list" where
  "PathSwitch_relay_states =
    [PathSwitchRelayIdle, PathSwitchRelayBackendRegistered, PathSwitchRelayBridged]"

abbreviation (input) PathSwitchMsgLanOffer :: string where "PathSwitchMsgLanOffer \<equiv> ''lan_offer''"
abbreviation (input) PathSwitchMsgLanVerify :: string where "PathSwitchMsgLanVerify \<equiv> ''lan_verify''"
abbreviation (input) PathSwitchMsgLanConfirm :: string where "PathSwitchMsgLanConfirm \<equiv> ''lan_confirm''"
abbreviation (input) PathSwitchMsgPathPing :: string where "PathSwitchMsgPathPing \<equiv> ''path_ping''"
abbreviation (input) PathSwitchMsgPathPong :: string where "PathSwitchMsgPathPong \<equiv> ''path_pong''"
abbreviation (input) PathSwitchMsgRelayResume :: string where "PathSwitchMsgRelayResume \<equiv> ''relay_resume''"
abbreviation (input) PathSwitchMsgRelayResumed :: string where "PathSwitchMsgRelayResumed \<equiv> ''relay_resumed''"

definition PathSwitch_message_types :: "string list" where
  "PathSwitch_message_types =
    [PathSwitchMsgLanOffer, PathSwitchMsgLanVerify, PathSwitchMsgLanConfirm, PathSwitchMsgPathPing,
     PathSwitchMsgPathPong, PathSwitchMsgRelayResume, PathSwitchMsgRelayResumed]"

abbreviation (input) PathSwitchGuardChallengeValid :: string where "PathSwitchGuardChallengeValid \<equiv> ''challenge_valid''"
abbreviation (input) PathSwitchGuardChallengeInvalid :: string where "PathSwitchGuardChallengeInvalid \<equiv> ''challenge_invalid''"
abbreviation (input) PathSwitchGuardLanEnabled :: string where "PathSwitchGuardLanEnabled \<equiv> ''lan_enabled''"
abbreviation (input) PathSwitchGuardLanDisabled :: string where "PathSwitchGuardLanDisabled \<equiv> ''lan_disabled''"
abbreviation (input) PathSwitchGuardLanServerAvailable :: string where "PathSwitchGuardLanServerAvailable \<equiv> ''lan_server_available''"
abbreviation (input) PathSwitchGuardUnderMaxFailures :: string where "PathSwitchGuardUnderMaxFailures \<equiv> ''under_max_failures''"
abbreviation (input) PathSwitchGuardAtMaxFailures :: string where "PathSwitchGuardAtMaxFailures \<equiv> ''at_max_failures''"

definition PathSwitch_guards :: "string list" where
  "PathSwitch_guards =
    [PathSwitchGuardChallengeValid, PathSwitchGuardChallengeInvalid, PathSwitchGuardLanEnabled,
     PathSwitchGuardLanDisabled, PathSwitchGuardLanServerAvailable, PathSwitchGuardUnderMaxFailures,
     PathSwitchGuardAtMaxFailures]"

abbreviation (input) PathSwitchActionActivateLan :: string where "PathSwitchActionActivateLan \<equiv> ''activate_lan''"
abbreviation (input) PathSwitchActionBridgeStreams :: string where "PathSwitchActionBridgeStreams \<equiv> ''bridge_streams''"
abbreviation (input) PathSwitchActionDialLan :: string where "PathSwitchActionDialLan \<equiv> ''dial_lan''"
abbreviation (input) PathSwitchActionFallbackToRelay :: string where "PathSwitchActionFallbackToRelay \<equiv> ''fallback_to_relay''"
abbreviation (input) PathSwitchActionRebridgeStreams :: string where "PathSwitchActionRebridgeStreams \<equiv> ''rebridge_streams''"
abbreviation (input) PathSwitchActionResetFailures :: string where "PathSwitchActionResetFailures \<equiv> ''reset_failures''"
abbreviation (input) PathSwitchActionUnbridge :: string where "PathSwitchActionUnbridge \<equiv> ''unbridge''"

definition PathSwitch_actions :: "string list" where
  "PathSwitch_actions =
    [PathSwitchActionActivateLan, PathSwitchActionBridgeStreams, PathSwitchActionDialLan,
     PathSwitchActionFallbackToRelay, PathSwitchActionRebridgeStreams, PathSwitchActionResetFailures,
     PathSwitchActionUnbridge]"

abbreviation (input) PathSwitchEventBackendDisconnect :: string where "PathSwitchEventBackendDisconnect \<equiv> ''backend_disconnect''"
abbreviation (input) PathSwitchEventBackendRegister :: string where "PathSwitchEventBackendRegister \<equiv> ''backend_register''"
abbreviation (input) PathSwitchEventBackoffExpired :: string where "PathSwitchEventBackoffExpired \<equiv> ''backoff_expired''"
abbreviation (input) PathSwitchEventClientConnect :: string where "PathSwitchEventClientConnect \<equiv> ''client_connect''"
abbreviation (input) PathSwitchEventClientDisconnect :: string where "PathSwitchEventClientDisconnect \<equiv> ''client_disconnect''"
abbreviation (input) PathSwitchEventLanDialFailed :: string where "PathSwitchEventLanDialFailed \<equiv> ''lan_dial_failed''"
abbreviation (input) PathSwitchEventLanDialOk :: string where "PathSwitchEventLanDialOk \<equiv> ''lan_dial_ok''"
abbreviation (input) PathSwitchEventLanError :: string where "PathSwitchEventLanError \<equiv> ''lan_error''"
abbreviation (input) PathSwitchEventLanServerChanged :: string where "PathSwitchEventLanServerChanged \<equiv> ''lan_server_changed''"
abbreviation (input) PathSwitchEventLanServerReady :: string where "PathSwitchEventLanServerReady \<equiv> ''lan_server_ready''"
abbreviation (input) PathSwitchEventOfferTimeout :: string where "PathSwitchEventOfferTimeout \<equiv> ''offer_timeout''"
abbreviation (input) PathSwitchEventPingTick :: string where "PathSwitchEventPingTick \<equiv> ''ping_tick''"
abbreviation (input) PathSwitchEventPingTimeout :: string where "PathSwitchEventPingTimeout \<equiv> ''ping_timeout''"
abbreviation (input) PathSwitchEventReadvertiseTick :: string where "PathSwitchEventReadvertiseTick \<equiv> ''readvertise_tick''"
abbreviation (input) PathSwitchEventRecvLanConfirm :: string where "PathSwitchEventRecvLanConfirm \<equiv> ''recv_lan_confirm''"
abbreviation (input) PathSwitchEventRecvLanOffer :: string where "PathSwitchEventRecvLanOffer \<equiv> ''recv_lan_offer''"
abbreviation (input) PathSwitchEventRecvLanVerify :: string where "PathSwitchEventRecvLanVerify \<equiv> ''recv_lan_verify''"
abbreviation (input) PathSwitchEventRecvPathPing :: string where "PathSwitchEventRecvPathPing \<equiv> ''recv_path_ping''"
abbreviation (input) PathSwitchEventRecvPathPong :: string where "PathSwitchEventRecvPathPong \<equiv> ''recv_path_pong''"
abbreviation (input) PathSwitchEventRecvRelayResume :: string where "PathSwitchEventRecvRelayResume \<equiv> ''recv_relay_resume''"
abbreviation (input) PathSwitchEventRelayOk :: string where "PathSwitchEventRelayOk \<equiv> ''relay_ok''"
abbreviation (input) PathSwitchEventVerifyTimeout :: string where "PathSwitchEventVerifyTimeout \<equiv> ''verify_timeout''"

definition PathSwitch_events :: "string list" where
  "PathSwitch_events =
    [PathSwitchEventBackendDisconnect, PathSwitchEventBackendRegister, PathSwitchEventBackoffExpired,
     PathSwitchEventClientConnect, PathSwitchEventClientDisconnect, PathSwitchEventLanDialFailed,
     PathSwitchEventLanDialOk, PathSwitchEventLanError, PathSwitchEventLanServerChanged,
     PathSwitchEventLanServerReady, PathSwitchEventOfferTimeout, PathSwitchEventPingTick,
     PathSwitchEventPingTimeout, PathSwitchEventReadvertiseTick, PathSwitchEventRecvLanConfirm,
     PathSwitchEventRecvLanOffer, PathSwitchEventRecvLanVerify, PathSwitchEventRecvPathPing,
     PathSwitchEventRecvPathPong, PathSwitchEventRecvRelayResume, PathSwitchEventRelayOk,
     PathSwitchEventVerifyTimeout]"


section \<open>The table\<close>

definition PathSwitch_backend_transitions :: "Transition list" where
  "PathSwitch_backend_transitions =
    [(transition ''RelayConnected'' ''LANOffered'' (Internal ''lan_server_ready''))\<lparr>Sends := [\<lparr>SendTo = ''client'', SendMsg = ''lan_offer'', Fields = [(''addr'', ''lan_addr''), (''cert_hash'', ''cert_hash_bytes''), (''challenge'', ''challenge_bytes'')]\<rparr>]\<rparr>,
     (transition ''LANOffered'' ''LANActive'' (Recv ''lan_verify''))\<lparr>Guard := ''challenge_valid'', Do := ''activate_lan'', Sends := [\<lparr>SendTo = ''client'', SendMsg = ''lan_confirm'', Fields = []\<rparr>],
        Updates := [\<lparr>Var = ''ping_failures'', Expr = ''0''\<rparr>,
          \<lparr>Var = ''backoff_level'', Expr = ''0''\<rparr>,
          \<lparr>Var = ''active_path'', Expr = ''\"lan\"''\<rparr>,
          \<lparr>Var = ''monitor_target'', Expr = ''\"lan\"''\<rparr>,
          \<lparr>Var = ''dispatcher_path'', Expr = ''\"lan\"''\<rparr>,
          \<lparr>Var = ''lan_signal'', Expr = ''\"ready\"''\<rparr>]\<rparr>,
     (transition ''LANOffered'' ''RelayConnected'' (Recv ''lan_verify''))\<lparr>Guard := ''challenge_invalid''\<rparr>,
     (transition ''LANOffered'' ''RelayBackoff'' (Internal ''offer_timeout''))\<lparr>
        Updates := [\<lparr>Var = ''backoff_level'', Expr = ''Min(backoff_level + 1, max_backoff_level)''\<rparr>]\<rparr>,
     (transition ''LANActive'' ''LANActive'' (Internal ''ping_tick''))\<lparr>Sends := [\<lparr>SendTo = ''client'', SendMsg = ''path_ping'', Fields = []\<rparr>]\<rparr>,
     (transition ''LANActive'' ''LANDegraded'' (Internal ''ping_timeout''))\<lparr>
        Updates := [\<lparr>Var = ''ping_failures'', Expr = ''1''\<rparr>]\<rparr>,
     (transition ''LANDegraded'' ''LANDegraded'' (Internal ''ping_tick''))\<lparr>Sends := [\<lparr>SendTo = ''client'', SendMsg = ''path_ping'', Fields = []\<rparr>]\<rparr>,
     (transition ''LANDegraded'' ''LANActive'' (Recv ''path_pong''))\<lparr>Do := ''reset_failures'',
        Updates := [\<lparr>Var = ''ping_failures'', Expr = ''0''\<rparr>]\<rparr>,
     (transition ''LANDegraded'' ''LANDegraded'' (Internal ''ping_timeout''))\<lparr>Guard := ''under_max_failures'',
        Updates := [\<lparr>Var = ''ping_failures'', Expr = ''ping_failures + 1''\<rparr>]\<rparr>,
     (transition ''LANDegraded'' ''RelayBackoff'' (Internal ''ping_timeout''))\<lparr>Guard := ''at_max_failures'', Do := ''fallback_to_relay'',
        Updates := [\<lparr>Var = ''backoff_level'', Expr = ''Min(backoff_level + 1, max_backoff_level)''\<rparr>,
          \<lparr>Var = ''active_path'', Expr = ''\"relay\"''\<rparr>,
          \<lparr>Var = ''monitor_target'', Expr = ''\"none\"''\<rparr>,
          \<lparr>Var = ''dispatcher_path'', Expr = ''\"relay\"''\<rparr>,
          \<lparr>Var = ''lan_signal'', Expr = ''\"pending\"''\<rparr>,
          \<lparr>Var = ''ping_failures'', Expr = ''0''\<rparr>]\<rparr>,
     (transition ''RelayBackoff'' ''LANOffered'' (Internal ''backoff_expired''))\<lparr>Sends := [\<lparr>SendTo = ''client'', SendMsg = ''lan_offer'', Fields = [(''addr'', ''lan_addr''), (''cert_hash'', ''cert_hash_bytes''), (''challenge'', ''challenge_bytes'')]\<rparr>]\<rparr>,
     (transition ''RelayBackoff'' ''LANOffered'' (Internal ''lan_server_changed''))\<lparr>Sends := [\<lparr>SendTo = ''client'', SendMsg = ''lan_offer'', Fields = [(''addr'', ''lan_addr''), (''cert_hash'', ''cert_hash_bytes''), (''challenge'', ''challenge_bytes'')]\<rparr>],
        Updates := [\<lparr>Var = ''backoff_level'', Expr = ''0''\<rparr>]\<rparr>,
     (transition ''RelayConnected'' ''LANOffered'' (Internal ''readvertise_tick''))\<lparr>Guard := ''lan_server_available'', Sends := [\<lparr>SendTo = ''client'', SendMsg = ''lan_offer'', Fields = [(''addr'', ''lan_addr''), (''cert_hash'', ''cert_hash_bytes''), (''challenge'', ''challenge_bytes'')]\<rparr>]\<rparr>]"

definition PathSwitch_client_transitions :: "Transition list" where
  "PathSwitch_client_transitions =
    [(transition ''RelayConnected'' ''LANConnecting'' (Recv ''lan_offer''))\<lparr>Guard := ''lan_enabled'', Do := ''dial_lan''\<rparr>,
     (transition ''RelayConnected'' ''RelayConnected'' (Recv ''lan_offer''))\<lparr>Guard := ''lan_disabled''\<rparr>,
     (transition ''LANConnecting'' ''LANVerifying'' (Internal ''lan_dial_ok''))\<lparr>Sends := [\<lparr>SendTo = ''backend'', SendMsg = ''lan_verify'', Fields = [(''challenge'', ''offer_challenge''), (''instance_id'', ''instance_id'')]\<rparr>]\<rparr>,
     (transition ''LANConnecting'' ''RelayConnected'' (Internal ''lan_dial_failed'')),
     (transition ''LANVerifying'' ''LANActive'' (Recv ''lan_confirm''))\<lparr>Do := ''activate_lan'',
        Updates := [\<lparr>Var = ''active_path'', Expr = ''\"lan\"''\<rparr>,
          \<lparr>Var = ''dispatcher_path'', Expr = ''\"lan\"''\<rparr>,
          \<lparr>Var = ''lan_signal'', Expr = ''\"ready\"''\<rparr>]\<rparr>,
     (transition ''LANVerifying'' ''RelayConnected'' (Internal ''verify_timeout''))\<lparr>
        Updates := [\<lparr>Var = ''dispatcher_path'', Expr = ''\"relay\"''\<rparr>]\<rparr>,
     (transition ''LANActive'' ''LANActive'' (Recv ''path_ping''))\<lparr>Sends := [\<lparr>SendTo = ''backend'', SendMsg = ''path_pong'', Fields = []\<rparr>]\<rparr>,
     (transition ''LANActive'' ''RelayFallback'' (Internal ''lan_error''))\<lparr>Do := ''fallback_to_relay'',
        Updates := [\<lparr>Var = ''active_path'', Expr = ''\"relay\"''\<rparr>,
          \<lparr>Var = ''dispatcher_path'', Expr = ''\"relay\"''\<rparr>,
          \<lparr>Var = ''lan_signal'', Expr = ''\"pending\"''\<rparr>]\<rparr>,
     (transition ''RelayFallback'' ''RelayConnected'' (Internal ''relay_ok'')),
     (transition ''LANActive'' ''LANConnecting'' (Recv ''lan_offer''))\<lparr>Guard := ''lan_enabled'', Do := ''dial_lan''\<rparr>]"

definition PathSwitch_relay_transitions :: "Transition list" where
  "PathSwitch_relay_transitions =
    [(transition ''Idle'' ''BackendRegistered'' (Internal ''backend_register'')),
     (transition ''BackendRegistered'' ''Bridged'' (Internal ''client_connect''))\<lparr>Do := ''bridge_streams'',
        Updates := [\<lparr>Var = ''relay_bridge'', Expr = ''\"active\"''\<rparr>]\<rparr>,
     (transition ''Bridged'' ''BackendRegistered'' (Internal ''client_disconnect''))\<lparr>Do := ''unbridge'',
        Updates := [\<lparr>Var = ''relay_bridge'', Expr = ''\"idle\"''\<rparr>]\<rparr>,
     (transition ''Bridged'' ''Bridged'' (Recv ''relay_resume''))\<lparr>Do := ''rebridge_streams'', Sends := [\<lparr>SendTo = ''client'', SendMsg = ''relay_resumed'', Fields = []\<rparr>]\<rparr>,
     (transition ''BackendRegistered'' ''Idle'' (Internal ''backend_disconnect''))]"

definition PathSwitch_messages :: "Message list" where
  "PathSwitch_messages =
    [\<lparr>MsgName = ''lan_offer'', MsgFrom = ''backend'', MsgTo = ''client''\<rparr>,
     \<lparr>MsgName = ''lan_verify'', MsgFrom = ''client'', MsgTo = ''backend''\<rparr>,
     \<lparr>MsgName = ''lan_confirm'', MsgFrom = ''backend'', MsgTo = ''client''\<rparr>,
     \<lparr>MsgName = ''path_ping'', MsgFrom = ''backend'', MsgTo = ''client''\<rparr>,
     \<lparr>MsgName = ''path_pong'', MsgFrom = ''client'', MsgTo = ''backend''\<rparr>,
     \<lparr>MsgName = ''relay_resume'', MsgFrom = ''client'', MsgTo = ''relay''\<rparr>,
     \<lparr>MsgName = ''relay_resumed'', MsgFrom = ''relay'', MsgTo = ''client''\<rparr>]"

definition PathSwitch_guardDefs :: "GuardDef list" where
  "PathSwitch_guardDefs =
    [\<lparr>GuardName = ''challenge_valid'', GuardExpr = ''offer_challenge = challenge_bytes''\<rparr>,
     \<lparr>GuardName = ''challenge_invalid'', GuardExpr = ''offer_challenge /= challenge_bytes''\<rparr>,
     \<lparr>GuardName = ''lan_enabled'', GuardExpr = ''TRUE''\<rparr>,
     \<lparr>GuardName = ''lan_disabled'', GuardExpr = ''FALSE''\<rparr>,
     \<lparr>GuardName = ''lan_server_available'', GuardExpr = ''lan_server_addr /= \"none\"''\<rparr>,
     \<lparr>GuardName = ''under_max_failures'', GuardExpr = ''ping_failures + 1 < max_ping_failures''\<rparr>,
     \<lparr>GuardName = ''at_max_failures'', GuardExpr = ''ping_failures + 1 >= max_ping_failures''\<rparr>]"

definition PathSwitch :: Protocol where
  "PathSwitch = \<lparr>ProtocolName = ''PathSwitch'',
     Actors = [flat_actor ''backend'' ''RelayConnected'' PathSwitch_backend_transitions,
       flat_actor ''client'' ''RelayConnected'' PathSwitch_client_transitions,
       flat_actor ''relay'' ''Idle'' PathSwitch_relay_transitions],
     Messages = PathSwitch_messages, GuardDefs = PathSwitch_guardDefs\<rparr>"

section \<open>The backend machine\<close>

record PathSwitchBackendMachine =
  psb_State :: "string"
  psb_PingFailures :: "int"
  psb_BackoffLevel :: "int"
  psb_ActivePath :: "string"
  psb_DispatcherPath :: "string"
  psb_MonitorTarget :: "string"
  psb_LanSignal :: "string"

definition NewPathSwitchBackendMachine :: PathSwitchBackendMachine where
  "NewPathSwitchBackendMachine =
     \<lparr>psb_State = PathSwitchBackendRelayConnected,
      psb_PingFailures = 0,
      psb_BackoffLevel = 0,
      psb_ActivePath = ''relay'',
      psb_DispatcherPath = ''relay'',
      psb_MonitorTarget = ''none'',
      psb_LanSignal = ''pending''\<rparr>"

definition PathSwitchBackendMachine_HandleMessage ::
  "(PathSwitchBackendMachine, 'w, 'e) callbacks \<Rightarrow> string \<Rightarrow> PathSwitchBackendMachine \<times> 'w \<Rightarrow> (PathSwitchBackendMachine \<times> 'w) \<times> ('e + bool)" where
  "PathSwitchBackendMachine_HandleMessage env msg s = gswitch
     [(psb_State (fst s) = PathSwitchBackendLANOffered \<and> msg = PathSwitchMsgLanVerify \<and> guarded env PathSwitchGuardChallengeValid s,
       block [act env PathSwitchActionActivateLan,
              assign env (psb_PingFailures_update (\<lambda>_. 0)) ''ping_failures'',
              assign env (psb_BackoffLevel_update (\<lambda>_. 0)) ''backoff_level'',
              assign env (psb_ActivePath_update (\<lambda>_. ''lan'')) ''active_path'',
              assign env (psb_MonitorTarget_update (\<lambda>_. ''lan'')) ''monitor_target'',
              assign env (psb_DispatcherPath_update (\<lambda>_. ''lan'')) ''dispatcher_path'',
              assign env (psb_LanSignal_update (\<lambda>_. ''ready'')) ''lan_signal'',
              goto (psb_State_update (\<lambda>_. PathSwitchBackendLANActive))] True),
      (psb_State (fst s) = PathSwitchBackendLANOffered \<and> msg = PathSwitchMsgLanVerify \<and> guarded env PathSwitchGuardChallengeInvalid s,
       block [goto (psb_State_update (\<lambda>_. PathSwitchBackendRelayConnected))] True),
      (psb_State (fst s) = PathSwitchBackendLANDegraded \<and> msg = PathSwitchMsgPathPong,
       block [act env PathSwitchActionResetFailures,
              assign env (psb_PingFailures_update (\<lambda>_. 0)) ''ping_failures'',
              goto (psb_State_update (\<lambda>_. PathSwitchBackendLANActive))] True)]
     (block [] False) s"

definition PathSwitchBackendMachine_Step ::
  "(PathSwitchBackendMachine, 'w, 'e) callbacks \<Rightarrow> string \<Rightarrow> PathSwitchBackendMachine \<times> 'w \<Rightarrow> (PathSwitchBackendMachine \<times> 'w) \<times> ('e + bool)" where
  "PathSwitchBackendMachine_Step env event s = gswitch
     [(psb_State (fst s) = PathSwitchBackendRelayConnected \<and> event = PathSwitchEventLanServerReady,
       block [goto (psb_State_update (\<lambda>_. PathSwitchBackendLANOffered))] True),
      (psb_State (fst s) = PathSwitchBackendLANOffered \<and> event = PathSwitchEventOfferTimeout,
       block [goto (psb_State_update (\<lambda>_. PathSwitchBackendRelayBackoff))] True),
      (psb_State (fst s) = PathSwitchBackendLANActive \<and> event = PathSwitchEventPingTick,
       block [goto (psb_State_update (\<lambda>_. PathSwitchBackendLANActive))] True),
      (psb_State (fst s) = PathSwitchBackendLANActive \<and> event = PathSwitchEventPingTimeout,
       block [assign env (psb_PingFailures_update (\<lambda>_. 1)) ''ping_failures'',
              goto (psb_State_update (\<lambda>_. PathSwitchBackendLANDegraded))] True),
      (psb_State (fst s) = PathSwitchBackendLANDegraded \<and> event = PathSwitchEventPingTick,
       block [goto (psb_State_update (\<lambda>_. PathSwitchBackendLANDegraded))] True),
      (psb_State (fst s) = PathSwitchBackendLANDegraded \<and> event = PathSwitchEventPingTimeout \<and> guarded env PathSwitchGuardUnderMaxFailures s,
       block [assign env (\<lambda>m. m\<lparr>psb_PingFailures := psb_PingFailures m + 1\<rparr>) ''ping_failures'',
              goto (psb_State_update (\<lambda>_. PathSwitchBackendLANDegraded))] True),
      (psb_State (fst s) = PathSwitchBackendLANDegraded \<and> event = PathSwitchEventPingTimeout \<and> guarded env PathSwitchGuardAtMaxFailures s,
       block [act env PathSwitchActionFallbackToRelay,
              assign env (psb_ActivePath_update (\<lambda>_. ''relay'')) ''active_path'',
              assign env (psb_MonitorTarget_update (\<lambda>_. ''none'')) ''monitor_target'',
              assign env (psb_DispatcherPath_update (\<lambda>_. ''relay'')) ''dispatcher_path'',
              assign env (psb_LanSignal_update (\<lambda>_. ''pending'')) ''lan_signal'',
              assign env (psb_PingFailures_update (\<lambda>_. 0)) ''ping_failures'',
              goto (psb_State_update (\<lambda>_. PathSwitchBackendRelayBackoff))] True),
      (psb_State (fst s) = PathSwitchBackendRelayBackoff \<and> event = PathSwitchEventBackoffExpired,
       block [goto (psb_State_update (\<lambda>_. PathSwitchBackendLANOffered))] True),
      (psb_State (fst s) = PathSwitchBackendRelayBackoff \<and> event = PathSwitchEventLanServerChanged,
       block [assign env (psb_BackoffLevel_update (\<lambda>_. 0)) ''backoff_level'',
              goto (psb_State_update (\<lambda>_. PathSwitchBackendLANOffered))] True),
      (psb_State (fst s) = PathSwitchBackendRelayConnected \<and> event = PathSwitchEventReadvertiseTick \<and> guarded env PathSwitchGuardLanServerAvailable s,
       block [goto (psb_State_update (\<lambda>_. PathSwitchBackendLANOffered))] True)]
     (block [] False) s"

definition PathSwitchBackendMachine_HandleEvent ::
  "(PathSwitchBackendMachine, 'w, 'e) callbacks \<Rightarrow> string \<Rightarrow> PathSwitchBackendMachine \<times> 'w \<Rightarrow> (PathSwitchBackendMachine \<times> 'w) \<times> ('e + string list)" where
  "PathSwitchBackendMachine_HandleEvent env ev s = gswitch
     [(psb_State (fst s) = PathSwitchBackendRelayConnected \<and> ev = PathSwitchEventLanServerReady,
       block [goto (psb_State_update (\<lambda>_. PathSwitchBackendLANOffered))] []),
      (psb_State (fst s) = PathSwitchBackendLANOffered \<and> ev = PathSwitchEventRecvLanVerify \<and> guarded env PathSwitchGuardChallengeValid s,
       block [act env PathSwitchActionActivateLan,
              assign env (psb_PingFailures_update (\<lambda>_. 0)) ''ping_failures'',
              assign env (psb_BackoffLevel_update (\<lambda>_. 0)) ''backoff_level'',
              assign env (psb_ActivePath_update (\<lambda>_. ''lan'')) ''active_path'',
              assign env (psb_MonitorTarget_update (\<lambda>_. ''lan'')) ''monitor_target'',
              assign env (psb_DispatcherPath_update (\<lambda>_. ''lan'')) ''dispatcher_path'',
              assign env (psb_LanSignal_update (\<lambda>_. ''ready'')) ''lan_signal'',
              goto (psb_State_update (\<lambda>_. PathSwitchBackendLANActive))] []),
      (psb_State (fst s) = PathSwitchBackendLANOffered \<and> ev = PathSwitchEventRecvLanVerify \<and> guarded env PathSwitchGuardChallengeInvalid s,
       block [goto (psb_State_update (\<lambda>_. PathSwitchBackendRelayConnected))] []),
      (psb_State (fst s) = PathSwitchBackendLANOffered \<and> ev = PathSwitchEventOfferTimeout,
       block [goto (psb_State_update (\<lambda>_. PathSwitchBackendRelayBackoff))] []),
      (psb_State (fst s) = PathSwitchBackendLANActive \<and> ev = PathSwitchEventPingTick,
       block [goto (psb_State_update (\<lambda>_. PathSwitchBackendLANActive))] []),
      (psb_State (fst s) = PathSwitchBackendLANActive \<and> ev = PathSwitchEventPingTimeout,
       block [assign env (psb_PingFailures_update (\<lambda>_. 1)) ''ping_failures'',
              goto (psb_State_update (\<lambda>_. PathSwitchBackendLANDegraded))] []),
      (psb_State (fst s) = PathSwitchBackendLANDegraded \<and> ev = PathSwitchEventPingTick,
       block [goto (psb_State_update (\<lambda>_. PathSwitchBackendLANDegraded))] []),
      (psb_State (fst s) = PathSwitchBackendLANDegraded \<and> ev = PathSwitchEventRecvPathPong,
       block [act env PathSwitchActionResetFailures,
              assign env (psb_PingFailures_update (\<lambda>_. 0)) ''ping_failures'',
              goto (psb_State_update (\<lambda>_. PathSwitchBackendLANActive))] []),
      (psb_State (fst s) = PathSwitchBackendLANDegraded \<and> ev = PathSwitchEventPingTimeout \<and> guarded env PathSwitchGuardUnderMaxFailures s,
       block [assign env (\<lambda>m. m\<lparr>psb_PingFailures := psb_PingFailures m + 1\<rparr>) ''ping_failures'',
              goto (psb_State_update (\<lambda>_. PathSwitchBackendLANDegraded))] []),
      (psb_State (fst s) = PathSwitchBackendLANDegraded \<and> ev = PathSwitchEventPingTimeout \<and> guarded env PathSwitchGuardAtMaxFailures s,
       block [act env PathSwitchActionFallbackToRelay,
              assign env (psb_ActivePath_update (\<lambda>_. ''relay'')) ''active_path'',
              assign env (psb_MonitorTarget_update (\<lambda>_. ''none'')) ''monitor_target'',
              assign env (psb_DispatcherPath_update (\<lambda>_. ''relay'')) ''dispatcher_path'',
              assign env (psb_LanSignal_update (\<lambda>_. ''pending'')) ''lan_signal'',
              assign env (psb_PingFailures_update (\<lambda>_. 0)) ''ping_failures'',
              goto (psb_State_update (\<lambda>_. PathSwitchBackendRelayBackoff))] []),
      (psb_State (fst s) = PathSwitchBackendRelayBackoff \<and> ev = PathSwitchEventBackoffExpired,
       block [goto (psb_State_update (\<lambda>_. PathSwitchBackendLANOffered))] []),
      (psb_State (fst s) = PathSwitchBackendRelayBackoff \<and> ev = PathSwitchEventLanServerChanged,
       block [assign env (psb_BackoffLevel_update (\<lambda>_. 0)) ''backoff_level'',
              goto (psb_State_update (\<lambda>_. PathSwitchBackendLANOffered))] []),
      (psb_State (fst s) = PathSwitchBackendRelayConnected \<and> ev = PathSwitchEventReadvertiseTick \<and> guarded env PathSwitchGuardLanServerAvailable s,
       block [goto (psb_State_update (\<lambda>_. PathSwitchBackendLANOffered))] [])]
     (block [] []) s"

definition PathSwitchBackend_struct :: "PathSwitchBackendMachine struct" where
  "PathSwitchBackend_struct =
     \<lparr>get_state = psb_State, set_state = (\<lambda>x. psb_State_update (\<lambda>_. x)),
      get_int = (\<lambda>v m. if v = ''ping_failures'' then psb_PingFailures m else if v = ''backoff_level'' then psb_BackoffLevel m else 0),
      set_var = (\<lambda>v l. if v = ''ping_failures'' then psb_PingFailures_update (\<lambda>_. lit_int l)
        else if v = ''backoff_level'' then psb_BackoffLevel_update (\<lambda>_. lit_int l)
        else if v = ''active_path'' then psb_ActivePath_update (\<lambda>_. lit_string l)
        else if v = ''dispatcher_path'' then psb_DispatcherPath_update (\<lambda>_. lit_string l)
        else if v = ''monitor_target'' then psb_MonitorTarget_update (\<lambda>_. lit_string l)
        else if v = ''lan_signal'' then psb_LanSignal_update (\<lambda>_. lit_string l)
        else id)\<rparr>"

definition PathSwitchBackend_vars :: "string list" where
  "PathSwitchBackend_vars = [''ping_failures'', ''active_path'', ''dispatcher_path'', ''monitor_target'', ''lan_signal'']"

definition PathSwitchBackend_reads :: "string \<Rightarrow> go_literal \<Rightarrow> PathSwitchBackendMachine \<Rightarrow> bool" where
  "PathSwitchBackend_reads v l m =
     (if v = ''ping_failures'' then psb_PingFailures m = lit_int l
      else if v = ''backoff_level'' then psb_BackoffLevel m = lit_int l
      else if v = ''active_path'' then psb_ActivePath m = lit_string l
      else if v = ''dispatcher_path'' then psb_DispatcherPath m = lit_string l
      else if v = ''monitor_target'' then psb_MonitorTarget m = lit_string l
      else if v = ''lan_signal'' then psb_LanSignal m = lit_string l
      else False)"

section \<open>The client machine\<close>

record PathSwitchClientMachine =
  psc_State :: "string"
  psc_ActivePath :: "string"
  psc_DispatcherPath :: "string"
  psc_LanSignal :: "string"

definition NewPathSwitchClientMachine :: PathSwitchClientMachine where
  "NewPathSwitchClientMachine =
     \<lparr>psc_State = PathSwitchClientRelayConnected,
      psc_ActivePath = ''relay'',
      psc_DispatcherPath = ''relay'',
      psc_LanSignal = ''pending''\<rparr>"

definition PathSwitchClientMachine_HandleMessage ::
  "(PathSwitchClientMachine, 'w, 'e) callbacks \<Rightarrow> string \<Rightarrow> PathSwitchClientMachine \<times> 'w \<Rightarrow> (PathSwitchClientMachine \<times> 'w) \<times> ('e + bool)" where
  "PathSwitchClientMachine_HandleMessage env msg s = gswitch
     [(psc_State (fst s) = PathSwitchClientRelayConnected \<and> msg = PathSwitchMsgLanOffer \<and> guarded env PathSwitchGuardLanEnabled s,
       block [act env PathSwitchActionDialLan,
              goto (psc_State_update (\<lambda>_. PathSwitchClientLANConnecting))] True),
      (psc_State (fst s) = PathSwitchClientRelayConnected \<and> msg = PathSwitchMsgLanOffer \<and> guarded env PathSwitchGuardLanDisabled s,
       block [goto (psc_State_update (\<lambda>_. PathSwitchClientRelayConnected))] True),
      (psc_State (fst s) = PathSwitchClientLANVerifying \<and> msg = PathSwitchMsgLanConfirm,
       block [act env PathSwitchActionActivateLan,
              assign env (psc_ActivePath_update (\<lambda>_. ''lan'')) ''active_path'',
              assign env (psc_DispatcherPath_update (\<lambda>_. ''lan'')) ''dispatcher_path'',
              assign env (psc_LanSignal_update (\<lambda>_. ''ready'')) ''lan_signal'',
              goto (psc_State_update (\<lambda>_. PathSwitchClientLANActive))] True),
      (psc_State (fst s) = PathSwitchClientLANActive \<and> msg = PathSwitchMsgPathPing,
       block [goto (psc_State_update (\<lambda>_. PathSwitchClientLANActive))] True),
      (psc_State (fst s) = PathSwitchClientLANActive \<and> msg = PathSwitchMsgLanOffer \<and> guarded env PathSwitchGuardLanEnabled s,
       block [act env PathSwitchActionDialLan,
              goto (psc_State_update (\<lambda>_. PathSwitchClientLANConnecting))] True)]
     (block [] False) s"

definition PathSwitchClientMachine_Step ::
  "(PathSwitchClientMachine, 'w, 'e) callbacks \<Rightarrow> string \<Rightarrow> PathSwitchClientMachine \<times> 'w \<Rightarrow> (PathSwitchClientMachine \<times> 'w) \<times> ('e + bool)" where
  "PathSwitchClientMachine_Step env event s = gswitch
     [(psc_State (fst s) = PathSwitchClientLANConnecting \<and> event = PathSwitchEventLanDialOk,
       block [goto (psc_State_update (\<lambda>_. PathSwitchClientLANVerifying))] True),
      (psc_State (fst s) = PathSwitchClientLANConnecting \<and> event = PathSwitchEventLanDialFailed,
       block [goto (psc_State_update (\<lambda>_. PathSwitchClientRelayConnected))] True),
      (psc_State (fst s) = PathSwitchClientLANVerifying \<and> event = PathSwitchEventVerifyTimeout,
       block [assign env (psc_DispatcherPath_update (\<lambda>_. ''relay'')) ''dispatcher_path'',
              goto (psc_State_update (\<lambda>_. PathSwitchClientRelayConnected))] True),
      (psc_State (fst s) = PathSwitchClientLANActive \<and> event = PathSwitchEventLanError,
       block [act env PathSwitchActionFallbackToRelay,
              assign env (psc_ActivePath_update (\<lambda>_. ''relay'')) ''active_path'',
              assign env (psc_DispatcherPath_update (\<lambda>_. ''relay'')) ''dispatcher_path'',
              assign env (psc_LanSignal_update (\<lambda>_. ''pending'')) ''lan_signal'',
              goto (psc_State_update (\<lambda>_. PathSwitchClientRelayFallback))] True),
      (psc_State (fst s) = PathSwitchClientRelayFallback \<and> event = PathSwitchEventRelayOk,
       block [goto (psc_State_update (\<lambda>_. PathSwitchClientRelayConnected))] True)]
     (block [] False) s"

definition PathSwitchClientMachine_HandleEvent ::
  "(PathSwitchClientMachine, 'w, 'e) callbacks \<Rightarrow> string \<Rightarrow> PathSwitchClientMachine \<times> 'w \<Rightarrow> (PathSwitchClientMachine \<times> 'w) \<times> ('e + string list)" where
  "PathSwitchClientMachine_HandleEvent env ev s = gswitch
     [(psc_State (fst s) = PathSwitchClientRelayConnected \<and> ev = PathSwitchEventRecvLanOffer \<and> guarded env PathSwitchGuardLanEnabled s,
       block [act env PathSwitchActionDialLan,
              goto (psc_State_update (\<lambda>_. PathSwitchClientLANConnecting))] []),
      (psc_State (fst s) = PathSwitchClientRelayConnected \<and> ev = PathSwitchEventRecvLanOffer \<and> guarded env PathSwitchGuardLanDisabled s,
       block [goto (psc_State_update (\<lambda>_. PathSwitchClientRelayConnected))] []),
      (psc_State (fst s) = PathSwitchClientLANConnecting \<and> ev = PathSwitchEventLanDialOk,
       block [goto (psc_State_update (\<lambda>_. PathSwitchClientLANVerifying))] []),
      (psc_State (fst s) = PathSwitchClientLANConnecting \<and> ev = PathSwitchEventLanDialFailed,
       block [goto (psc_State_update (\<lambda>_. PathSwitchClientRelayConnected))] []),
      (psc_State (fst s) = PathSwitchClientLANVerifying \<and> ev = PathSwitchEventRecvLanConfirm,
       block [act env PathSwitchActionActivateLan,
              assign env (psc_ActivePath_update (\<lambda>_. ''lan'')) ''active_path'',
              assign env (psc_DispatcherPath_update (\<lambda>_. ''lan'')) ''dispatcher_path'',
              assign env (psc_LanSignal_update (\<lambda>_. ''ready'')) ''lan_signal'',
              goto (psc_State_update (\<lambda>_. PathSwitchClientLANActive))] []),
      (psc_State (fst s) = PathSwitchClientLANVerifying \<and> ev = PathSwitchEventVerifyTimeout,
       block [assign env (psc_DispatcherPath_update (\<lambda>_. ''relay'')) ''dispatcher_path'',
              goto (psc_State_update (\<lambda>_. PathSwitchClientRelayConnected))] []),
      (psc_State (fst s) = PathSwitchClientLANActive \<and> ev = PathSwitchEventRecvPathPing,
       block [goto (psc_State_update (\<lambda>_. PathSwitchClientLANActive))] []),
      (psc_State (fst s) = PathSwitchClientLANActive \<and> ev = PathSwitchEventLanError,
       block [act env PathSwitchActionFallbackToRelay,
              assign env (psc_ActivePath_update (\<lambda>_. ''relay'')) ''active_path'',
              assign env (psc_DispatcherPath_update (\<lambda>_. ''relay'')) ''dispatcher_path'',
              assign env (psc_LanSignal_update (\<lambda>_. ''pending'')) ''lan_signal'',
              goto (psc_State_update (\<lambda>_. PathSwitchClientRelayFallback))] []),
      (psc_State (fst s) = PathSwitchClientRelayFallback \<and> ev = PathSwitchEventRelayOk,
       block [goto (psc_State_update (\<lambda>_. PathSwitchClientRelayConnected))] []),
      (psc_State (fst s) = PathSwitchClientLANActive \<and> ev = PathSwitchEventRecvLanOffer \<and> guarded env PathSwitchGuardLanEnabled s,
       block [act env PathSwitchActionDialLan,
              goto (psc_State_update (\<lambda>_. PathSwitchClientLANConnecting))] [])]
     (block [] []) s"

definition PathSwitchClient_struct :: "PathSwitchClientMachine struct" where
  "PathSwitchClient_struct =
     \<lparr>get_state = psc_State, set_state = (\<lambda>x. psc_State_update (\<lambda>_. x)),
      get_int = (\<lambda>v m. 0),
      set_var = (\<lambda>v l. if v = ''active_path'' then psc_ActivePath_update (\<lambda>_. lit_string l)
        else if v = ''dispatcher_path'' then psc_DispatcherPath_update (\<lambda>_. lit_string l)
        else if v = ''lan_signal'' then psc_LanSignal_update (\<lambda>_. lit_string l)
        else id)\<rparr>"

definition PathSwitchClient_vars :: "string list" where
  "PathSwitchClient_vars = [''active_path'', ''dispatcher_path'', ''lan_signal'']"

definition PathSwitchClient_reads :: "string \<Rightarrow> go_literal \<Rightarrow> PathSwitchClientMachine \<Rightarrow> bool" where
  "PathSwitchClient_reads v l m =
     (if v = ''active_path'' then psc_ActivePath m = lit_string l
      else if v = ''dispatcher_path'' then psc_DispatcherPath m = lit_string l
      else if v = ''lan_signal'' then psc_LanSignal m = lit_string l
      else False)"

section \<open>The relay machine\<close>

record PathSwitchRelayMachine =
  psr_State :: "string"
  psr_RelayBridge :: "string"

definition NewPathSwitchRelayMachine :: PathSwitchRelayMachine where
  "NewPathSwitchRelayMachine =
     \<lparr>psr_State = PathSwitchRelayIdle,
      psr_RelayBridge = ''idle''\<rparr>"

definition PathSwitchRelayMachine_HandleMessage ::
  "(PathSwitchRelayMachine, 'w, 'e) callbacks \<Rightarrow> string \<Rightarrow> PathSwitchRelayMachine \<times> 'w \<Rightarrow> (PathSwitchRelayMachine \<times> 'w) \<times> ('e + bool)" where
  "PathSwitchRelayMachine_HandleMessage env msg s = gswitch
     [(psr_State (fst s) = PathSwitchRelayBridged \<and> msg = PathSwitchMsgRelayResume,
       block [act env PathSwitchActionRebridgeStreams,
              goto (psr_State_update (\<lambda>_. PathSwitchRelayBridged))] True)]
     (block [] False) s"

definition PathSwitchRelayMachine_Step ::
  "(PathSwitchRelayMachine, 'w, 'e) callbacks \<Rightarrow> string \<Rightarrow> PathSwitchRelayMachine \<times> 'w \<Rightarrow> (PathSwitchRelayMachine \<times> 'w) \<times> ('e + bool)" where
  "PathSwitchRelayMachine_Step env event s = gswitch
     [(psr_State (fst s) = PathSwitchRelayIdle \<and> event = PathSwitchEventBackendRegister,
       block [goto (psr_State_update (\<lambda>_. PathSwitchRelayBackendRegistered))] True),
      (psr_State (fst s) = PathSwitchRelayBackendRegistered \<and> event = PathSwitchEventClientConnect,
       block [act env PathSwitchActionBridgeStreams,
              assign env (psr_RelayBridge_update (\<lambda>_. ''active'')) ''relay_bridge'',
              goto (psr_State_update (\<lambda>_. PathSwitchRelayBridged))] True),
      (psr_State (fst s) = PathSwitchRelayBridged \<and> event = PathSwitchEventClientDisconnect,
       block [act env PathSwitchActionUnbridge,
              assign env (psr_RelayBridge_update (\<lambda>_. ''idle'')) ''relay_bridge'',
              goto (psr_State_update (\<lambda>_. PathSwitchRelayBackendRegistered))] True),
      (psr_State (fst s) = PathSwitchRelayBackendRegistered \<and> event = PathSwitchEventBackendDisconnect,
       block [goto (psr_State_update (\<lambda>_. PathSwitchRelayIdle))] True)]
     (block [] False) s"

definition PathSwitchRelayMachine_HandleEvent ::
  "(PathSwitchRelayMachine, 'w, 'e) callbacks \<Rightarrow> string \<Rightarrow> PathSwitchRelayMachine \<times> 'w \<Rightarrow> (PathSwitchRelayMachine \<times> 'w) \<times> ('e + string list)" where
  "PathSwitchRelayMachine_HandleEvent env ev s = gswitch
     [(psr_State (fst s) = PathSwitchRelayIdle \<and> ev = PathSwitchEventBackendRegister,
       block [goto (psr_State_update (\<lambda>_. PathSwitchRelayBackendRegistered))] []),
      (psr_State (fst s) = PathSwitchRelayBackendRegistered \<and> ev = PathSwitchEventClientConnect,
       block [act env PathSwitchActionBridgeStreams,
              assign env (psr_RelayBridge_update (\<lambda>_. ''active'')) ''relay_bridge'',
              goto (psr_State_update (\<lambda>_. PathSwitchRelayBridged))] []),
      (psr_State (fst s) = PathSwitchRelayBridged \<and> ev = PathSwitchEventClientDisconnect,
       block [act env PathSwitchActionUnbridge,
              assign env (psr_RelayBridge_update (\<lambda>_. ''idle'')) ''relay_bridge'',
              goto (psr_State_update (\<lambda>_. PathSwitchRelayBackendRegistered))] []),
      (psr_State (fst s) = PathSwitchRelayBridged \<and> ev = PathSwitchEventRecvRelayResume,
       block [act env PathSwitchActionRebridgeStreams,
              goto (psr_State_update (\<lambda>_. PathSwitchRelayBridged))] []),
      (psr_State (fst s) = PathSwitchRelayBackendRegistered \<and> ev = PathSwitchEventBackendDisconnect,
       block [goto (psr_State_update (\<lambda>_. PathSwitchRelayIdle))] [])]
     (block [] []) s"

definition PathSwitchRelay_struct :: "PathSwitchRelayMachine struct" where
  "PathSwitchRelay_struct =
     \<lparr>get_state = psr_State, set_state = (\<lambda>x. psr_State_update (\<lambda>_. x)),
      get_int = (\<lambda>v m. 0),
      set_var = (\<lambda>v l. if v = ''relay_bridge'' then psr_RelayBridge_update (\<lambda>_. lit_string l)
        else id)\<rparr>"

definition PathSwitchRelay_vars :: "string list" where
  "PathSwitchRelay_vars = [''relay_bridge'']"

definition PathSwitchRelay_reads :: "string \<Rightarrow> go_literal \<Rightarrow> PathSwitchRelayMachine \<Rightarrow> bool" where
  "PathSwitchRelay_reads v l m =
     (if v = ''relay_bridge'' then psr_RelayBridge m = lit_string l
      else False)"

section \<open>The machines are what the table says\<close>

text \<open>How the generator reads the update expressions of the table.\<close>

lemma ps_literals:
  "goSimpleLiteral ''\"active\"'' = Some (GoText ''\"active\"'')"
  "goSimpleLiteral ''\"idle\"'' = Some (GoText ''\"idle\"'')"
  "goSimpleLiteral ''\"lan\"'' = Some (GoText ''\"lan\"'')"
  "goSimpleLiteral ''\"none\"'' = Some (GoText ''\"none\"'')"
  "goSimpleLiteral ''\"pending\"'' = Some (GoText ''\"pending\"'')"
  "goSimpleLiteral ''\"ready\"'' = Some (GoText ''\"ready\"'')"
  "goSimpleLiteral ''\"relay\"'' = Some (GoText ''\"relay\"'')"
  "goSimpleLiteral ''0'' = Some (GoNum 0)"
  "goSimpleLiteral ''1'' = Some (GoNum 1)"
  "goSimpleLiteral ''Min(backoff_level + 1, max_backoff_level)'' = None"
  "goSimpleLiteral ''ping_failures + 1'' = None"
  by code_simp+

lemma ps_self_updates:
  "goSelfUpdate ''backoff_level'' ''Min(backoff_level + 1, max_backoff_level)'' = None"
  "goSelfUpdate ''ping_failures'' ''ping_failures + 1'' = Some 1"
  by code_simp+

interpretation psb: machine_struct PathSwitchBackend_struct
  by unfold_locales (simp add: PathSwitchBackend_struct_def)

interpretation psc: machine_struct PathSwitchClient_struct
  by unfold_locales (simp add: PathSwitchClient_struct_def)

interpretation psr: machine_struct PathSwitchRelay_struct
  by unfold_locales (simp add: PathSwitchRelay_struct_def)

lemma psb_generated:
  "PathSwitchBackendMachine_HandleMessage env msg s = gen_HandleMessage PathSwitchBackend_struct PathSwitch_backend_transitions env msg s"
  "PathSwitchBackendMachine_Step env event s = gen_Step PathSwitchBackend_struct PathSwitch_backend_transitions env event s"
  "PathSwitchBackendMachine_HandleEvent env ev s = gen_HandleEvent PathSwitchBackend_struct PathSwitch_backend_transitions env ev s"
  by (simp_all add: PathSwitchBackendMachine_HandleMessage_def PathSwitchBackendMachine_Step_def
        PathSwitchBackendMachine_HandleEvent_def PathSwitch_backend_transitions_def PathSwitchBackend_struct_def
        gen_simps ps_literals ps_self_updates)

lemma psc_generated:
  "PathSwitchClientMachine_HandleMessage env msg s = gen_HandleMessage PathSwitchClient_struct PathSwitch_client_transitions env msg s"
  "PathSwitchClientMachine_Step env event s = gen_Step PathSwitchClient_struct PathSwitch_client_transitions env event s"
  "PathSwitchClientMachine_HandleEvent env ev s = gen_HandleEvent PathSwitchClient_struct PathSwitch_client_transitions env ev s"
  by (simp_all add: PathSwitchClientMachine_HandleMessage_def PathSwitchClientMachine_Step_def
        PathSwitchClientMachine_HandleEvent_def PathSwitch_client_transitions_def PathSwitchClient_struct_def
        gen_simps ps_literals ps_self_updates)

lemma psr_generated:
  "PathSwitchRelayMachine_HandleMessage env msg s = gen_HandleMessage PathSwitchRelay_struct PathSwitch_relay_transitions env msg s"
  "PathSwitchRelayMachine_Step env event s = gen_Step PathSwitchRelay_struct PathSwitch_relay_transitions env event s"
  "PathSwitchRelayMachine_HandleEvent env ev s = gen_HandleEvent PathSwitchRelay_struct PathSwitch_relay_transitions env ev s"
  by (simp_all add: PathSwitchRelayMachine_HandleMessage_def PathSwitchRelayMachine_Step_def
        PathSwitchRelayMachine_HandleEvent_def PathSwitch_relay_transitions_def PathSwitchRelay_struct_def
        gen_simps ps_literals ps_self_updates)

section \<open>The paths of the backend\<close>

text \<open>
  The callbacks may do what they want with the rest of the world and with \<open>BackoffLevel\<close>, which the
  table leaves to the actions; they keep the fields that the machine assigns itself.
\<close>

definition psb_callbacks :: "(PathSwitchBackendMachine, 'w, 'e) callbacks \<Rightarrow> bool" where
  "psb_callbacks env \<longleftrightarrow> keeps env psb_State \<and> keeps env psb_PingFailures \<and> keeps env psb_ActivePath \<and>
     keeps env psb_DispatcherPath \<and> keeps env psb_MonitorTarget \<and> keeps env psb_LanSignal"

interpretation psbv: machine_vars PathSwitchBackend_struct PathSwitchBackend_reads PathSwitchBackend_vars
  by unfold_locales (auto simp: PathSwitchBackend_struct_def PathSwitchBackend_reads_def PathSwitchBackend_vars_def)

lemma psb_keeps_vars:
  "psb_callbacks env \<Longrightarrow> keeps_vars env PathSwitchBackend_struct PathSwitchBackend_reads PathSwitchBackend_vars"
  by (simp add: psb_callbacks_def keeps_vars_def keeps_def PathSwitchBackend_struct_def PathSwitchBackend_reads_def
        PathSwitchBackend_vars_def)

inductive psb_step :: "(PathSwitchBackendMachine, 'w, 'e) callbacks \<Rightarrow>
    PathSwitchBackendMachine \<times> 'w \<Rightarrow> PathSwitchBackendMachine \<times> 'w \<Rightarrow> bool" for env where
  "psb_step env s (fst (PathSwitchBackendMachine_HandleMessage env msg s))" |
  "psb_step env s (fst (PathSwitchBackendMachine_Step env event s))" |
  "psb_step env s (fst (PathSwitchBackendMachine_HandleEvent env ev s))" |
  "psb_step env (m, w) (m, w')"

definition psb_on_lan :: "string \<Rightarrow> bool" where
  "psb_on_lan s \<longleftrightarrow> s = PathSwitchBackendLANActive \<or> s = PathSwitchBackendLANDegraded"

definition psb_expected :: "string \<Rightarrow> string \<Rightarrow> go_literal option" where
  "psb_expected s v =
     (if v = ''active_path'' \<or> v = ''dispatcher_path'' then Some (GoText (if psb_on_lan s then ''\"lan\"'' else ''\"relay\"''))
      else if v = ''monitor_target'' then Some (GoText (if psb_on_lan s then ''\"lan\"'' else ''\"none\"''))
      else if v = ''lan_signal'' then Some (GoText (if psb_on_lan s then ''\"ready\"'' else ''\"pending\"''))
      else if s = PathSwitchBackendLANDegraded then None else Some (GoNum 0))"

lemma psb_table_expected:
  "list_all (\<lambda>t. keeps_expected psb_expected PathSwitchBackend_vars t \<and> To t \<in> set PathSwitch_backend_states)
     PathSwitch_backend_transitions"
  by code_simp

abbreviation psb_ok :: "PathSwitchBackendMachine \<Rightarrow> bool" where
  "psb_ok \<equiv> as_expected PathSwitchBackend_struct PathSwitchBackend_reads psb_expected PathSwitchBackend_vars PathSwitch_backend_states"

interpretation psbrun: inv_system "\<lambda>s. s = (NewPathSwitchBackendMachine, w0)" "psb_step env"
    "\<lambda>s. psb_callbacks env \<longrightarrow> psb_ok (fst s)" for w0 env
proof
  show "s = (NewPathSwitchBackendMachine, w0) \<Longrightarrow> psb_callbacks env \<longrightarrow> psb_ok (fst s)" for s
    by (simp add: as_expected_def NewPathSwitchBackendMachine_def PathSwitchBackend_struct_def PathSwitchBackend_reads_def
          PathSwitchBackend_vars_def psb_expected_def psb_on_lan_def PathSwitch_backend_states_def go_unquote_def)
  show "psb_callbacks env \<longrightarrow> psb_ok (fst s) \<Longrightarrow> psb_step env s s' \<Longrightarrow> psb_callbacks env \<longrightarrow> psb_ok (fst s')" for s s'
    by (erule psb_step.cases)
       (auto simp: psb_generated intro!: psbv.gen_expected [OF psb_keeps_vars psb_table_expected])
qed

text \<open>
  The backend's paths are consistent whatever happens: after any sequence of messages and events,
  with any guards and with actions that succeed or fail in any way but leave the machine's own
  fields alone, traffic, dispatcher and health monitor are on the LAN and the LAN is signalled
  ready exactly in the states \<open>LANActive\<close> and \<open>LANDegraded\<close>; in all other states everything is on the
  relay, the monitor is off and the signal is pending; and ping failures are counted only while
  the path is degraded.
\<close>

theorem backend_paths_consistent:
  assumes "psb_callbacks env" and "(psb_step env)\<^sup>*\<^sup>* (NewPathSwitchBackendMachine, w0) (m, w)"
  shows "psb_State m \<in> set PathSwitch_backend_states \<and>
    (if psb_State m = PathSwitchBackendLANActive \<or> psb_State m = PathSwitchBackendLANDegraded
     then psb_ActivePath m = ''lan'' \<and> psb_DispatcherPath m = ''lan'' \<and> psb_MonitorTarget m = ''lan'' \<and> psb_LanSignal m = ''ready''
     else psb_ActivePath m = ''relay'' \<and> psb_DispatcherPath m = ''relay'' \<and> psb_MonitorTarget m = ''none'' \<and> psb_LanSignal m = ''pending'') \<and>
    (psb_State m \<noteq> PathSwitchBackendLANDegraded \<longrightarrow> psb_PingFailures m = 0)"
  using psbrun.reachable [OF refl assms(2)] assms(1)
  by (simp add: as_expected_def PathSwitchBackend_struct_def PathSwitchBackend_reads_def PathSwitchBackend_vars_def
        psb_expected_def psb_on_lan_def go_unquote_def split: if_splits)

definition psb_events :: "(PathSwitchBackendMachine, 'w, 'e) callbacks \<Rightarrow> string list \<Rightarrow> PathSwitchBackendMachine \<times> 'w \<Rightarrow> PathSwitchBackendMachine \<times> 'w" where
  "psb_events env = fold (\<lambda>ev s. fst (PathSwitchBackendMachine_HandleEvent env ev s))"

lemma psb_events_steps: "(psb_step env)\<^sup>*\<^sup>* s (psb_events env evs s)"
  unfolding psb_events_def by (rule fold_rtranclp) (rule psb_step.intros)

lemma psb_lan_run:
  "psb_events all_guards [PathSwitchEventLanServerReady, PathSwitchEventRecvLanVerify] (NewPathSwitchBackendMachine, ()) =
     (NewPathSwitchBackendMachine\<lparr>psb_State := PathSwitchBackendLANActive, psb_ActivePath := ''lan'', psb_DispatcherPath := ''lan'',
        psb_MonitorTarget := ''lan'', psb_LanSignal := ''ready''\<rparr>, ())"
  by (simp add: psb_events_def PathSwitchBackendMachine_HandleEvent_def NewPathSwitchBackendMachine_def all_guards_def
        guarded_def goto_def assign_def act_def changed_def)

theorem backend_paths_consistent_witness:
  "let m = fst (psb_events all_guards [PathSwitchEventLanServerReady, PathSwitchEventRecvLanVerify] (NewPathSwitchBackendMachine, ()))
   in psb_State m = PathSwitchBackendLANActive \<and> psb_MonitorTarget m = ''lan'' \<and> psb_PingFailures m = 0"
proof -
  let ?s = "psb_events all_guards [PathSwitchEventLanServerReady, PathSwitchEventRecvLanVerify] (NewPathSwitchBackendMachine, ())"
  have "psb_callbacks (all_guards :: (PathSwitchBackendMachine, unit, unit) callbacks)"
    by (simp add: psb_callbacks_def keeps_all_guards)
  moreover have "(psb_step all_guards)\<^sup>*\<^sup>* (NewPathSwitchBackendMachine, ()) (fst ?s, snd ?s)" by (simp only: prod.collapse psb_events_steps)
  moreover have "psb_State (fst ?s) = PathSwitchBackendLANActive" unfolding psb_lan_run by simp
  ultimately show ?thesis using backend_paths_consistent [of all_guards "()" "fst ?s" "snd ?s"] by simp
qed

section \<open>The paths of the client\<close>

definition psc_callbacks :: "(PathSwitchClientMachine, 'w, 'e) callbacks \<Rightarrow> bool" where
  "psc_callbacks env \<longleftrightarrow> keeps env psc_State \<and> keeps env psc_ActivePath \<and> keeps env psc_DispatcherPath \<and> keeps env psc_LanSignal"

interpretation pscv: machine_vars PathSwitchClient_struct PathSwitchClient_reads PathSwitchClient_vars
  by unfold_locales (auto simp: PathSwitchClient_struct_def PathSwitchClient_reads_def PathSwitchClient_vars_def)

lemma psc_keeps_vars:
  "psc_callbacks env \<Longrightarrow> keeps_vars env PathSwitchClient_struct PathSwitchClient_reads PathSwitchClient_vars"
  by (simp add: psc_callbacks_def keeps_vars_def keeps_def PathSwitchClient_struct_def PathSwitchClient_reads_def
        PathSwitchClient_vars_def)

inductive psc_step :: "(PathSwitchClientMachine, 'w, 'e) callbacks \<Rightarrow>
    PathSwitchClientMachine \<times> 'w \<Rightarrow> PathSwitchClientMachine \<times> 'w \<Rightarrow> bool" for env where
  "psc_step env s (fst (PathSwitchClientMachine_HandleMessage env msg s))" |
  "psc_step env s (fst (PathSwitchClientMachine_Step env event s))" |
  "psc_step env s (fst (PathSwitchClientMachine_HandleEvent env ev s))" |
  "psc_step env (m, w) (m, w')"

definition psc_expected :: "string \<Rightarrow> string \<Rightarrow> go_literal option" where
  "psc_expected s v =
     (if s = PathSwitchClientLANActive then Some (GoText (if v = ''lan_signal'' then ''\"ready\"'' else ''\"lan\"''))
      else if s = PathSwitchClientRelayFallback then Some (GoText (if v = ''lan_signal'' then ''\"pending\"'' else ''\"relay\"''))
      else None)"

lemma psc_table_expected:
  "list_all (\<lambda>t. keeps_expected psc_expected PathSwitchClient_vars t \<and> To t \<in> set PathSwitch_client_states)
     PathSwitch_client_transitions"
  by code_simp

abbreviation psc_ok :: "PathSwitchClientMachine \<Rightarrow> bool" where
  "psc_ok \<equiv> as_expected PathSwitchClient_struct PathSwitchClient_reads psc_expected PathSwitchClient_vars PathSwitch_client_states"

interpretation pscrun: inv_system "\<lambda>s. s = (NewPathSwitchClientMachine, w0)" "psc_step env"
    "\<lambda>s. psc_callbacks env \<longrightarrow> psc_ok (fst s)" for w0 env
proof
  show "s = (NewPathSwitchClientMachine, w0) \<Longrightarrow> psc_callbacks env \<longrightarrow> psc_ok (fst s)" for s
    by (simp add: as_expected_def NewPathSwitchClientMachine_def PathSwitchClient_struct_def psc_expected_def
          PathSwitch_client_states_def)
  show "psc_callbacks env \<longrightarrow> psc_ok (fst s) \<Longrightarrow> psc_step env s s' \<Longrightarrow> psc_callbacks env \<longrightarrow> psc_ok (fst s')" for s s'
    by (erule psc_step.cases)
       (auto simp: psc_generated intro!: pscv.gen_expected [OF psc_keeps_vars psc_table_expected])
qed

lemma client_paths_on_lan:
  assumes "psc_callbacks env" and "(psc_step env)\<^sup>*\<^sup>* (NewPathSwitchClientMachine, w0) (m, w)"
  shows "psc_State m \<in> set PathSwitch_client_states \<and>
    (psc_State m = PathSwitchClientLANActive \<longrightarrow>
       psc_ActivePath m = ''lan'' \<and> psc_DispatcherPath m = ''lan'' \<and> psc_LanSignal m = ''ready'') \<and>
    (psc_State m = PathSwitchClientRelayFallback \<longrightarrow>
       psc_ActivePath m = ''relay'' \<and> psc_DispatcherPath m = ''relay'' \<and> psc_LanSignal m = ''pending'')"
  using pscrun.reachable [OF refl assms(2)] assms(1)
  by (simp add: as_expected_def PathSwitchClient_struct_def PathSwitchClient_reads_def PathSwitchClient_vars_def
        psc_expected_def go_unquote_def)

text \<open>
  In the other states the client's paths are not what the state says. A new offer on a live LAN
  path sends the client dialling again without taking it off the path it is leaving, and when the
  dial fails it is back in \<open>RelayConnected\<close> with all its traffic still on the LAN.
\<close>

lemma client_offer_keeps_lan_path:
  "let m = fst (fold (\<lambda>ev s. fst (PathSwitchClientMachine_HandleEvent all_guards ev s))
       [PathSwitchEventRecvLanOffer, PathSwitchEventLanDialOk, PathSwitchEventRecvLanConfirm,
        PathSwitchEventRecvLanOffer, PathSwitchEventLanDialFailed] (NewPathSwitchClientMachine, ()))
   in psc_State m = PathSwitchClientRelayConnected \<and> psc_ActivePath m = ''lan'' \<and> psc_LanSignal m = ''ready''"
  by (simp add: PathSwitchClientMachine_HandleEvent_def NewPathSwitchClientMachine_def all_guards_def
        guarded_def goto_def assign_def act_def changed_def)

text \<open>
  The table raises the backoff level when an offer times out. The generator cannot translate the
  expression and leaves it to an action, but the transition has none: whatever the callbacks are,
  the generated code leaves the level where it was.
\<close>

lemma offer_timeout_keeps_backoff:
  assumes "psb_State (fst s) = PathSwitchBackendLANOffered"
  shows "PathSwitchBackendMachine_HandleEvent env PathSwitchEventOfferTimeout s =
    (((fst s)\<lparr>psb_State := PathSwitchBackendRelayBackoff\<rparr>, snd s), Inr [])"
  using assms by (simp add: PathSwitchBackendMachine_HandleEvent_def goto_def)

section \<open>The table\<close>

lemma PathSwitch_valid: "Validate PathSwitch = None"
  by code_simp

end
