(* ===== verification/PairingMachines.thy ===== *)
theory PairingMachines
  imports Generated
begin

text \<open>
  The pairing ceremony as a protocol table (\<open>pairing/pairingceremony_gen.go\<close>) and the two machines
  generated from it, for the acceptor and the initiator.
\<close>

section \<open>Names\<close>

abbreviation (input) PairingCeremonyProtocolAcceptorIdle :: string where "PairingCeremonyProtocolAcceptorIdle \<equiv> ''Idle''"
abbreviation (input) PairingCeremonyProtocolAcceptorGeneratingEphemeral :: string where "PairingCeremonyProtocolAcceptorGeneratingEphemeral \<equiv> ''GeneratingEphemeral''"
abbreviation (input) PairingCeremonyProtocolAcceptorRegisteringRelay :: string where "PairingCeremonyProtocolAcceptorRegisteringRelay \<equiv> ''RegisteringRelay''"
abbreviation (input) PairingCeremonyProtocolAcceptorWaitingForHello :: string where "PairingCeremonyProtocolAcceptorWaitingForHello \<equiv> ''WaitingForHello''"
abbreviation (input) PairingCeremonyProtocolAcceptorWaitingForReveal :: string where "PairingCeremonyProtocolAcceptorWaitingForReveal \<equiv> ''WaitingForReveal''"
abbreviation (input) PairingCeremonyProtocolAcceptorDerivingCode :: string where "PairingCeremonyProtocolAcceptorDerivingCode \<equiv> ''DerivingCode''"
abbreviation (input) PairingCeremonyProtocolAcceptorAwaitingUserConfirm :: string where "PairingCeremonyProtocolAcceptorAwaitingUserConfirm \<equiv> ''AwaitingUserConfirm''"
abbreviation (input) PairingCeremonyProtocolAcceptorAwaitingPeerConfirm :: string where "PairingCeremonyProtocolAcceptorAwaitingPeerConfirm \<equiv> ''AwaitingPeerConfirm''"
abbreviation (input) PairingCeremonyProtocolAcceptorPaired :: string where "PairingCeremonyProtocolAcceptorPaired \<equiv> ''Paired''"
abbreviation (input) PairingCeremonyProtocolAcceptorAborted :: string where "PairingCeremonyProtocolAcceptorAborted \<equiv> ''Aborted''"

definition PairingCeremonyProtocol_acceptor_states :: "string list" where
  "PairingCeremonyProtocol_acceptor_states =
    [PairingCeremonyProtocolAcceptorIdle, PairingCeremonyProtocolAcceptorGeneratingEphemeral,
     PairingCeremonyProtocolAcceptorRegisteringRelay, PairingCeremonyProtocolAcceptorWaitingForHello,
     PairingCeremonyProtocolAcceptorWaitingForReveal, PairingCeremonyProtocolAcceptorDerivingCode,
     PairingCeremonyProtocolAcceptorAwaitingUserConfirm,
     PairingCeremonyProtocolAcceptorAwaitingPeerConfirm, PairingCeremonyProtocolAcceptorPaired,
     PairingCeremonyProtocolAcceptorAborted]"

abbreviation (input) PairingCeremonyProtocolInitiatorIdle :: string where "PairingCeremonyProtocolInitiatorIdle \<equiv> ''Idle''"
abbreviation (input) PairingCeremonyProtocolInitiatorDecodingToken :: string where "PairingCeremonyProtocolInitiatorDecodingToken \<equiv> ''DecodingToken''"
abbreviation (input) PairingCeremonyProtocolInitiatorGeneratingEphemeral :: string where "PairingCeremonyProtocolInitiatorGeneratingEphemeral \<equiv> ''GeneratingEphemeral''"
abbreviation (input) PairingCeremonyProtocolInitiatorConnectingRelay :: string where "PairingCeremonyProtocolInitiatorConnectingRelay \<equiv> ''ConnectingRelay''"
abbreviation (input) PairingCeremonyProtocolInitiatorAwaitingWelcome :: string where "PairingCeremonyProtocolInitiatorAwaitingWelcome \<equiv> ''AwaitingWelcome''"
abbreviation (input) PairingCeremonyProtocolInitiatorRevealing :: string where "PairingCeremonyProtocolInitiatorRevealing \<equiv> ''Revealing''"
abbreviation (input) PairingCeremonyProtocolInitiatorDerivingCode :: string where "PairingCeremonyProtocolInitiatorDerivingCode \<equiv> ''DerivingCode''"
abbreviation (input) PairingCeremonyProtocolInitiatorAwaitingUserConfirm :: string where "PairingCeremonyProtocolInitiatorAwaitingUserConfirm \<equiv> ''AwaitingUserConfirm''"
abbreviation (input) PairingCeremonyProtocolInitiatorAwaitingPeerConfirm :: string where "PairingCeremonyProtocolInitiatorAwaitingPeerConfirm \<equiv> ''AwaitingPeerConfirm''"
abbreviation (input) PairingCeremonyProtocolInitiatorPaired :: string where "PairingCeremonyProtocolInitiatorPaired \<equiv> ''Paired''"
abbreviation (input) PairingCeremonyProtocolInitiatorAborted :: string where "PairingCeremonyProtocolInitiatorAborted \<equiv> ''Aborted''"

definition PairingCeremonyProtocol_initiator_states :: "string list" where
  "PairingCeremonyProtocol_initiator_states =
    [PairingCeremonyProtocolInitiatorIdle, PairingCeremonyProtocolInitiatorDecodingToken,
     PairingCeremonyProtocolInitiatorGeneratingEphemeral, PairingCeremonyProtocolInitiatorConnectingRelay,
     PairingCeremonyProtocolInitiatorAwaitingWelcome, PairingCeremonyProtocolInitiatorRevealing,
     PairingCeremonyProtocolInitiatorDerivingCode, PairingCeremonyProtocolInitiatorAwaitingUserConfirm,
     PairingCeremonyProtocolInitiatorAwaitingPeerConfirm, PairingCeremonyProtocolInitiatorPaired,
     PairingCeremonyProtocolInitiatorAborted]"

abbreviation (input) PairingCeremonyProtocolMsgHello :: string where "PairingCeremonyProtocolMsgHello \<equiv> ''hello''"
abbreviation (input) PairingCeremonyProtocolMsgWelcome :: string where "PairingCeremonyProtocolMsgWelcome \<equiv> ''welcome''"
abbreviation (input) PairingCeremonyProtocolMsgReveal :: string where "PairingCeremonyProtocolMsgReveal \<equiv> ''reveal''"
abbreviation (input) PairingCeremonyProtocolMsgConfirmToInitiator :: string where "PairingCeremonyProtocolMsgConfirmToInitiator \<equiv> ''confirm_to_initiator''"
abbreviation (input) PairingCeremonyProtocolMsgConfirmToAcceptor :: string where "PairingCeremonyProtocolMsgConfirmToAcceptor \<equiv> ''confirm_to_acceptor''"

definition PairingCeremonyProtocol_message_types :: "string list" where
  "PairingCeremonyProtocol_message_types =
    [PairingCeremonyProtocolMsgHello, PairingCeremonyProtocolMsgWelcome, PairingCeremonyProtocolMsgReveal,
     PairingCeremonyProtocolMsgConfirmToInitiator, PairingCeremonyProtocolMsgConfirmToAcceptor]"

abbreviation (input) PairingCeremonyProtocolActionDecodeToken :: string where "PairingCeremonyProtocolActionDecodeToken \<equiv> ''decode_token''"
abbreviation (input) PairingCeremonyProtocolActionDeriveCode :: string where "PairingCeremonyProtocolActionDeriveCode \<equiv> ''derive_code''"
abbreviation (input) PairingCeremonyProtocolActionDialRelay :: string where "PairingCeremonyProtocolActionDialRelay \<equiv> ''dial_relay''"
abbreviation (input) PairingCeremonyProtocolActionEmitToken :: string where "PairingCeremonyProtocolActionEmitToken \<equiv> ''emit_token''"
abbreviation (input) PairingCeremonyProtocolActionGenEphemeral :: string where "PairingCeremonyProtocolActionGenEphemeral \<equiv> ''gen_ephemeral''"
abbreviation (input) PairingCeremonyProtocolActionRegisterRelay :: string where "PairingCeremonyProtocolActionRegisterRelay \<equiv> ''register_relay''"
abbreviation (input) PairingCeremonyProtocolActionSendReveal :: string where "PairingCeremonyProtocolActionSendReveal \<equiv> ''send_reveal''"
abbreviation (input) PairingCeremonyProtocolActionStoreCommit :: string where "PairingCeremonyProtocolActionStoreCommit \<equiv> ''store_commit''"
abbreviation (input) PairingCeremonyProtocolActionStoreRecord :: string where "PairingCeremonyProtocolActionStoreRecord \<equiv> ''store_record''"
abbreviation (input) PairingCeremonyProtocolActionVerifyCommitAndDerive :: string where "PairingCeremonyProtocolActionVerifyCommitAndDerive \<equiv> ''verify_commit_and_derive''"

definition PairingCeremonyProtocol_actions :: "string list" where
  "PairingCeremonyProtocol_actions =
    [PairingCeremonyProtocolActionDecodeToken, PairingCeremonyProtocolActionDeriveCode,
     PairingCeremonyProtocolActionDialRelay, PairingCeremonyProtocolActionEmitToken,
     PairingCeremonyProtocolActionGenEphemeral, PairingCeremonyProtocolActionRegisterRelay,
     PairingCeremonyProtocolActionSendReveal, PairingCeremonyProtocolActionStoreCommit,
     PairingCeremonyProtocolActionStoreRecord, PairingCeremonyProtocolActionVerifyCommitAndDerive]"

abbreviation (input) PairingCeremonyProtocolEventCodeReady :: string where "PairingCeremonyProtocolEventCodeReady \<equiv> ''code_ready''"
abbreviation (input) PairingCeremonyProtocolEventCommitFail :: string where "PairingCeremonyProtocolEventCommitFail \<equiv> ''commit_fail''"
abbreviation (input) PairingCeremonyProtocolEventEphemeralReady :: string where "PairingCeremonyProtocolEventEphemeralReady \<equiv> ''ephemeral_ready''"
abbreviation (input) PairingCeremonyProtocolEventPairBegin :: string where "PairingCeremonyProtocolEventPairBegin \<equiv> ''pair_begin''"
abbreviation (input) PairingCeremonyProtocolEventRecvConfirmToAcceptor :: string where "PairingCeremonyProtocolEventRecvConfirmToAcceptor \<equiv> ''recv_confirm_to_acceptor''"
abbreviation (input) PairingCeremonyProtocolEventRecvConfirmToInitiator :: string where "PairingCeremonyProtocolEventRecvConfirmToInitiator \<equiv> ''recv_confirm_to_initiator''"
abbreviation (input) PairingCeremonyProtocolEventRecvHello :: string where "PairingCeremonyProtocolEventRecvHello \<equiv> ''recv_hello''"
abbreviation (input) PairingCeremonyProtocolEventRecvReveal :: string where "PairingCeremonyProtocolEventRecvReveal \<equiv> ''recv_reveal''"
abbreviation (input) PairingCeremonyProtocolEventRecvWelcome :: string where "PairingCeremonyProtocolEventRecvWelcome \<equiv> ''recv_welcome''"
abbreviation (input) PairingCeremonyProtocolEventRelayConnected :: string where "PairingCeremonyProtocolEventRelayConnected \<equiv> ''relay_connected''"
abbreviation (input) PairingCeremonyProtocolEventRelayRegistered :: string where "PairingCeremonyProtocolEventRelayRegistered \<equiv> ''relay_registered''"
abbreviation (input) PairingCeremonyProtocolEventRevealSent :: string where "PairingCeremonyProtocolEventRevealSent \<equiv> ''reveal_sent''"
abbreviation (input) PairingCeremonyProtocolEventTokenDecoded :: string where "PairingCeremonyProtocolEventTokenDecoded \<equiv> ''token_decoded''"
abbreviation (input) PairingCeremonyProtocolEventTokenReceived :: string where "PairingCeremonyProtocolEventTokenReceived \<equiv> ''token_received''"
abbreviation (input) PairingCeremonyProtocolEventUserCancel :: string where "PairingCeremonyProtocolEventUserCancel \<equiv> ''user_cancel''"
abbreviation (input) PairingCeremonyProtocolEventUserConfirm :: string where "PairingCeremonyProtocolEventUserConfirm \<equiv> ''user_confirm''"

definition PairingCeremonyProtocol_events :: "string list" where
  "PairingCeremonyProtocol_events =
    [PairingCeremonyProtocolEventCodeReady, PairingCeremonyProtocolEventCommitFail,
     PairingCeremonyProtocolEventEphemeralReady, PairingCeremonyProtocolEventPairBegin,
     PairingCeremonyProtocolEventRecvConfirmToAcceptor,
     PairingCeremonyProtocolEventRecvConfirmToInitiator, PairingCeremonyProtocolEventRecvHello,
     PairingCeremonyProtocolEventRecvReveal, PairingCeremonyProtocolEventRecvWelcome,
     PairingCeremonyProtocolEventRelayConnected, PairingCeremonyProtocolEventRelayRegistered,
     PairingCeremonyProtocolEventRevealSent, PairingCeremonyProtocolEventTokenDecoded,
     PairingCeremonyProtocolEventTokenReceived, PairingCeremonyProtocolEventUserCancel,
     PairingCeremonyProtocolEventUserConfirm]"


section \<open>The table\<close>

definition PairingCeremonyProtocol_acceptor_transitions :: "Transition list" where
  "PairingCeremonyProtocol_acceptor_transitions =
    [(transition ''Idle'' ''GeneratingEphemeral'' (Internal ''pair_begin''))\<lparr>Do := ''gen_ephemeral'',
        Updates := [\<lparr>Var = ''acceptor_eph_pub'', Expr = ''\"acceptor_eph\"''\<rparr>]\<rparr>,
     (transition ''GeneratingEphemeral'' ''RegisteringRelay'' (Internal ''ephemeral_ready''))\<lparr>Do := ''register_relay''\<rparr>,
     (transition ''RegisteringRelay'' ''WaitingForHello'' (Internal ''relay_registered''))\<lparr>Do := ''emit_token''\<rparr>,
     (transition ''WaitingForHello'' ''WaitingForReveal'' (Recv ''hello''))\<lparr>Do := ''store_commit'', Sends := [\<lparr>SendTo = ''initiator'', SendMsg = ''welcome'', Fields = [(''eph_pub'', ''acceptor_eph_pub''), (''identity_pub'', ''acceptor_identity_pub''), (''instance_id'', ''acceptor_instance_id'')]\<rparr>],
        Updates := [\<lparr>Var = ''acceptor_received_commit'', Expr = ''recv_msg.commit''\<rparr>,
          \<lparr>Var = ''acceptor_received_identity'', Expr = ''recv_msg.identity_pub''\<rparr>,
          \<lparr>Var = ''acceptor_received_instance'', Expr = ''recv_msg.instance_id''\<rparr>]\<rparr>,
     (transition ''WaitingForReveal'' ''DerivingCode'' (Recv ''reveal''))\<lparr>Do := ''verify_commit_and_derive'',
        Updates := [\<lparr>Var = ''acceptor_received_eph_pub'', Expr = ''recv_msg.eph_pub''\<rparr>,
          \<lparr>Var = ''acceptor_commit_ok'', Expr = ''IF CommitMatches(acceptor_received_commit, recv_msg.eph_pub) THEN \"true\" ELSE \"false\"''\<rparr>,
          \<lparr>Var = ''acceptor_code'', Expr = ''IF CommitMatches(acceptor_received_commit, recv_msg.eph_pub) THEN DeriveCode(acceptor_eph_pub, recv_msg.eph_pub) ELSE <<\"none\">>''\<rparr>]\<rparr>,
     (transition ''DerivingCode'' ''AwaitingUserConfirm'' (Internal ''code_ready'')),
     (transition ''AwaitingUserConfirm'' ''AwaitingPeerConfirm'' (Internal ''user_confirm''))\<lparr>Sends := [\<lparr>SendTo = ''initiator'', SendMsg = ''confirm_to_initiator'', Fields = []\<rparr>],
        Updates := [\<lparr>Var = ''acceptor_user_confirmed'', Expr = ''\"true\"''\<rparr>]\<rparr>,
     (transition ''AwaitingPeerConfirm'' ''Paired'' (Recv ''confirm_to_acceptor''))\<lparr>Do := ''store_record'',
        Updates := [\<lparr>Var = ''acceptor_received_confirm'', Expr = ''\"true\"''\<rparr>]\<rparr>,
     (transition ''AwaitingUserConfirm'' ''Aborted'' (Internal ''user_cancel'')),
     (transition ''AwaitingPeerConfirm'' ''Aborted'' (Internal ''user_cancel'')),
     (transition ''WaitingForReveal'' ''Aborted'' (Internal ''commit_fail''))]"

definition PairingCeremonyProtocol_initiator_transitions :: "Transition list" where
  "PairingCeremonyProtocol_initiator_transitions =
    [(transition ''Idle'' ''DecodingToken'' (Internal ''token_received''))\<lparr>Do := ''decode_token'',
        Updates := [\<lparr>Var = ''received_acceptor_eph_pub'', Expr = ''\"acceptor_eph\"''\<rparr>,
          \<lparr>Var = ''received_acceptor_identity'', Expr = ''\"acceptor_id\"''\<rparr>,
          \<lparr>Var = ''received_acceptor_instance'', Expr = ''\"acceptor_instance\"''\<rparr>]\<rparr>,
     (transition ''DecodingToken'' ''GeneratingEphemeral'' (Internal ''token_decoded''))\<lparr>Do := ''gen_ephemeral'',
        Updates := [\<lparr>Var = ''initiator_eph_pub'', Expr = ''\"initiator_eph\"''\<rparr>,
          \<lparr>Var = ''initiator_commit'', Expr = ''\"initiator_commit\"''\<rparr>]\<rparr>,
     (transition ''GeneratingEphemeral'' ''ConnectingRelay'' (Internal ''ephemeral_ready''))\<lparr>Do := ''dial_relay''\<rparr>,
     (transition ''ConnectingRelay'' ''AwaitingWelcome'' (Internal ''relay_connected''))\<lparr>Sends := [\<lparr>SendTo = ''acceptor'', SendMsg = ''hello'', Fields = [(''commit'', ''initiator_commit''), (''identity_pub'', ''initiator_identity_pub''), (''instance_id'', ''initiator_instance_id'')]\<rparr>]\<rparr>,
     (transition ''AwaitingWelcome'' ''Revealing'' (Recv ''welcome''))\<lparr>Do := ''send_reveal'', Sends := [\<lparr>SendTo = ''acceptor'', SendMsg = ''reveal'', Fields = [(''blind'', ''\"initiator_blind\"''), (''eph_pub'', ''initiator_eph_pub'')]\<rparr>],
        Updates := [\<lparr>Var = ''initiator_received_eph_pub'', Expr = ''recv_msg.eph_pub''\<rparr>,
          \<lparr>Var = ''initiator_received_identity'', Expr = ''recv_msg.identity_pub''\<rparr>,
          \<lparr>Var = ''initiator_received_instance'', Expr = ''recv_msg.instance_id''\<rparr>]\<rparr>,
     (transition ''Revealing'' ''DerivingCode'' (Internal ''reveal_sent''))\<lparr>Do := ''derive_code'',
        Updates := [\<lparr>Var = ''initiator_code'', Expr = ''DeriveCode(initiator_eph_pub, initiator_received_eph_pub)''\<rparr>]\<rparr>,
     (transition ''DerivingCode'' ''AwaitingUserConfirm'' (Internal ''code_ready'')),
     (transition ''AwaitingUserConfirm'' ''AwaitingPeerConfirm'' (Internal ''user_confirm''))\<lparr>Sends := [\<lparr>SendTo = ''acceptor'', SendMsg = ''confirm_to_acceptor'', Fields = []\<rparr>],
        Updates := [\<lparr>Var = ''initiator_user_confirmed'', Expr = ''\"true\"''\<rparr>]\<rparr>,
     (transition ''AwaitingPeerConfirm'' ''Paired'' (Recv ''confirm_to_initiator''))\<lparr>Do := ''store_record'',
        Updates := [\<lparr>Var = ''initiator_received_confirm'', Expr = ''\"true\"''\<rparr>]\<rparr>,
     (transition ''AwaitingUserConfirm'' ''Aborted'' (Internal ''user_cancel'')),
     (transition ''AwaitingPeerConfirm'' ''Aborted'' (Internal ''user_cancel''))]"

definition PairingCeremonyProtocol_messages :: "Message list" where
  "PairingCeremonyProtocol_messages =
    [\<lparr>MsgName = ''hello'', MsgFrom = ''initiator'', MsgTo = ''acceptor''\<rparr>,
     \<lparr>MsgName = ''welcome'', MsgFrom = ''acceptor'', MsgTo = ''initiator''\<rparr>,
     \<lparr>MsgName = ''reveal'', MsgFrom = ''initiator'', MsgTo = ''acceptor''\<rparr>,
     \<lparr>MsgName = ''confirm_to_initiator'', MsgFrom = ''acceptor'', MsgTo = ''initiator''\<rparr>,
     \<lparr>MsgName = ''confirm_to_acceptor'', MsgFrom = ''initiator'', MsgTo = ''acceptor''\<rparr>]"

definition PairingCeremonyProtocol_guardDefs :: "GuardDef list" where
  "PairingCeremonyProtocol_guardDefs =
    []"

definition PairingCeremonyProtocol :: Protocol where
  "PairingCeremonyProtocol = \<lparr>ProtocolName = ''PairingCeremony'',
     Actors = [flat_actor ''acceptor'' ''Idle'' PairingCeremonyProtocol_acceptor_transitions,
       flat_actor ''initiator'' ''Idle'' PairingCeremonyProtocol_initiator_transitions],
     Messages = PairingCeremonyProtocol_messages, GuardDefs = PairingCeremonyProtocol_guardDefs\<rparr>"

section \<open>The acceptor machine\<close>

record PairingCeremonyProtocolAcceptorMachine =
  pca_State :: "string"
  pca_AcceptorEphPub :: "string"
  pca_AcceptorReceivedCommit :: "string"
  pca_AcceptorReceivedEphPub :: "string"
  pca_AcceptorReceivedIdentity :: "string"
  pca_AcceptorReceivedInstance :: "string"
  pca_AcceptorCommitOk :: "string"
  pca_AcceptorCode :: "string"
  pca_AcceptorUserConfirmed :: "string"
  pca_AcceptorReceivedConfirm :: "string"

definition NewPairingCeremonyProtocolAcceptorMachine :: PairingCeremonyProtocolAcceptorMachine where
  "NewPairingCeremonyProtocolAcceptorMachine =
     \<lparr>pca_State = PairingCeremonyProtocolAcceptorIdle,
      pca_AcceptorEphPub = ''none'',
      pca_AcceptorReceivedCommit = ''none'',
      pca_AcceptorReceivedEphPub = ''none'',
      pca_AcceptorReceivedIdentity = ''none'',
      pca_AcceptorReceivedInstance = ''none'',
      pca_AcceptorCommitOk = ''false'',
      pca_AcceptorCode = '''',
      pca_AcceptorUserConfirmed = ''false'',
      pca_AcceptorReceivedConfirm = ''false''\<rparr>"

definition PairingCeremonyProtocolAcceptorMachine_HandleMessage ::
  "(PairingCeremonyProtocolAcceptorMachine, 'w, 'e) callbacks \<Rightarrow> string \<Rightarrow> PairingCeremonyProtocolAcceptorMachine \<times> 'w \<Rightarrow> (PairingCeremonyProtocolAcceptorMachine \<times> 'w) \<times> ('e + bool)" where
  "PairingCeremonyProtocolAcceptorMachine_HandleMessage env msg s = gswitch
     [(pca_State (fst s) = PairingCeremonyProtocolAcceptorWaitingForHello \<and> msg = PairingCeremonyProtocolMsgHello,
       block [act env PairingCeremonyProtocolActionStoreCommit,
              goto (pca_State_update (\<lambda>_. PairingCeremonyProtocolAcceptorWaitingForReveal))] True),
      (pca_State (fst s) = PairingCeremonyProtocolAcceptorWaitingForReveal \<and> msg = PairingCeremonyProtocolMsgReveal,
       block [act env PairingCeremonyProtocolActionVerifyCommitAndDerive,
              goto (pca_State_update (\<lambda>_. PairingCeremonyProtocolAcceptorDerivingCode))] True),
      (pca_State (fst s) = PairingCeremonyProtocolAcceptorAwaitingPeerConfirm \<and> msg = PairingCeremonyProtocolMsgConfirmToAcceptor,
       block [act env PairingCeremonyProtocolActionStoreRecord,
              assign env (pca_AcceptorReceivedConfirm_update (\<lambda>_. ''true'')) ''acceptor_received_confirm'',
              goto (pca_State_update (\<lambda>_. PairingCeremonyProtocolAcceptorPaired))] True)]
     (block [] False) s"

definition PairingCeremonyProtocolAcceptorMachine_Step ::
  "(PairingCeremonyProtocolAcceptorMachine, 'w, 'e) callbacks \<Rightarrow> string \<Rightarrow> PairingCeremonyProtocolAcceptorMachine \<times> 'w \<Rightarrow> (PairingCeremonyProtocolAcceptorMachine \<times> 'w) \<times> ('e + bool)" where
  "PairingCeremonyProtocolAcceptorMachine_Step env event s = gswitch
     [(pca_State (fst s) = PairingCeremonyProtocolAcceptorIdle \<and> event = PairingCeremonyProtocolEventPairBegin,
       block [act env PairingCeremonyProtocolActionGenEphemeral,
              assign env (pca_AcceptorEphPub_update (\<lambda>_. ''acceptor_eph'')) ''acceptor_eph_pub'',
              goto (pca_State_update (\<lambda>_. PairingCeremonyProtocolAcceptorGeneratingEphemeral))] True),
      (pca_State (fst s) = PairingCeremonyProtocolAcceptorGeneratingEphemeral \<and> event = PairingCeremonyProtocolEventEphemeralReady,
       block [act env PairingCeremonyProtocolActionRegisterRelay,
              goto (pca_State_update (\<lambda>_. PairingCeremonyProtocolAcceptorRegisteringRelay))] True),
      (pca_State (fst s) = PairingCeremonyProtocolAcceptorRegisteringRelay \<and> event = PairingCeremonyProtocolEventRelayRegistered,
       block [act env PairingCeremonyProtocolActionEmitToken,
              goto (pca_State_update (\<lambda>_. PairingCeremonyProtocolAcceptorWaitingForHello))] True),
      (pca_State (fst s) = PairingCeremonyProtocolAcceptorDerivingCode \<and> event = PairingCeremonyProtocolEventCodeReady,
       block [goto (pca_State_update (\<lambda>_. PairingCeremonyProtocolAcceptorAwaitingUserConfirm))] True),
      (pca_State (fst s) = PairingCeremonyProtocolAcceptorAwaitingUserConfirm \<and> event = PairingCeremonyProtocolEventUserConfirm,
       block [assign env (pca_AcceptorUserConfirmed_update (\<lambda>_. ''true'')) ''acceptor_user_confirmed'',
              goto (pca_State_update (\<lambda>_. PairingCeremonyProtocolAcceptorAwaitingPeerConfirm))] True),
      (pca_State (fst s) = PairingCeremonyProtocolAcceptorAwaitingUserConfirm \<and> event = PairingCeremonyProtocolEventUserCancel,
       block [goto (pca_State_update (\<lambda>_. PairingCeremonyProtocolAcceptorAborted))] True),
      (pca_State (fst s) = PairingCeremonyProtocolAcceptorAwaitingPeerConfirm \<and> event = PairingCeremonyProtocolEventUserCancel,
       block [goto (pca_State_update (\<lambda>_. PairingCeremonyProtocolAcceptorAborted))] True),
      (pca_State (fst s) = PairingCeremonyProtocolAcceptorWaitingForReveal \<and> event = PairingCeremonyProtocolEventCommitFail,
       block [goto (pca_State_update (\<lambda>_. PairingCeremonyProtocolAcceptorAborted))] True)]
     (block [] False) s"

definition PairingCeremonyProtocolAcceptorMachine_HandleEvent ::
  "(PairingCeremonyProtocolAcceptorMachine, 'w, 'e) callbacks \<Rightarrow> string \<Rightarrow> PairingCeremonyProtocolAcceptorMachine \<times> 'w \<Rightarrow> (PairingCeremonyProtocolAcceptorMachine \<times> 'w) \<times> ('e + string list)" where
  "PairingCeremonyProtocolAcceptorMachine_HandleEvent env ev s = gswitch
     [(pca_State (fst s) = PairingCeremonyProtocolAcceptorIdle \<and> ev = PairingCeremonyProtocolEventPairBegin,
       block [act env PairingCeremonyProtocolActionGenEphemeral,
              assign env (pca_AcceptorEphPub_update (\<lambda>_. ''acceptor_eph'')) ''acceptor_eph_pub'',
              goto (pca_State_update (\<lambda>_. PairingCeremonyProtocolAcceptorGeneratingEphemeral))] []),
      (pca_State (fst s) = PairingCeremonyProtocolAcceptorGeneratingEphemeral \<and> ev = PairingCeremonyProtocolEventEphemeralReady,
       block [act env PairingCeremonyProtocolActionRegisterRelay,
              goto (pca_State_update (\<lambda>_. PairingCeremonyProtocolAcceptorRegisteringRelay))] []),
      (pca_State (fst s) = PairingCeremonyProtocolAcceptorRegisteringRelay \<and> ev = PairingCeremonyProtocolEventRelayRegistered,
       block [act env PairingCeremonyProtocolActionEmitToken,
              goto (pca_State_update (\<lambda>_. PairingCeremonyProtocolAcceptorWaitingForHello))] []),
      (pca_State (fst s) = PairingCeremonyProtocolAcceptorWaitingForHello \<and> ev = PairingCeremonyProtocolEventRecvHello,
       block [act env PairingCeremonyProtocolActionStoreCommit,
              goto (pca_State_update (\<lambda>_. PairingCeremonyProtocolAcceptorWaitingForReveal))] []),
      (pca_State (fst s) = PairingCeremonyProtocolAcceptorWaitingForReveal \<and> ev = PairingCeremonyProtocolEventRecvReveal,
       block [act env PairingCeremonyProtocolActionVerifyCommitAndDerive,
              goto (pca_State_update (\<lambda>_. PairingCeremonyProtocolAcceptorDerivingCode))] []),
      (pca_State (fst s) = PairingCeremonyProtocolAcceptorDerivingCode \<and> ev = PairingCeremonyProtocolEventCodeReady,
       block [goto (pca_State_update (\<lambda>_. PairingCeremonyProtocolAcceptorAwaitingUserConfirm))] []),
      (pca_State (fst s) = PairingCeremonyProtocolAcceptorAwaitingUserConfirm \<and> ev = PairingCeremonyProtocolEventUserConfirm,
       block [assign env (pca_AcceptorUserConfirmed_update (\<lambda>_. ''true'')) ''acceptor_user_confirmed'',
              goto (pca_State_update (\<lambda>_. PairingCeremonyProtocolAcceptorAwaitingPeerConfirm))] []),
      (pca_State (fst s) = PairingCeremonyProtocolAcceptorAwaitingPeerConfirm \<and> ev = PairingCeremonyProtocolEventRecvConfirmToAcceptor,
       block [act env PairingCeremonyProtocolActionStoreRecord,
              assign env (pca_AcceptorReceivedConfirm_update (\<lambda>_. ''true'')) ''acceptor_received_confirm'',
              goto (pca_State_update (\<lambda>_. PairingCeremonyProtocolAcceptorPaired))] []),
      (pca_State (fst s) = PairingCeremonyProtocolAcceptorAwaitingUserConfirm \<and> ev = PairingCeremonyProtocolEventUserCancel,
       block [goto (pca_State_update (\<lambda>_. PairingCeremonyProtocolAcceptorAborted))] []),
      (pca_State (fst s) = PairingCeremonyProtocolAcceptorAwaitingPeerConfirm \<and> ev = PairingCeremonyProtocolEventUserCancel,
       block [goto (pca_State_update (\<lambda>_. PairingCeremonyProtocolAcceptorAborted))] []),
      (pca_State (fst s) = PairingCeremonyProtocolAcceptorWaitingForReveal \<and> ev = PairingCeremonyProtocolEventCommitFail,
       block [goto (pca_State_update (\<lambda>_. PairingCeremonyProtocolAcceptorAborted))] [])]
     (block [] []) s"

definition PairingCeremonyProtocolAcceptor_struct :: "PairingCeremonyProtocolAcceptorMachine struct" where
  "PairingCeremonyProtocolAcceptor_struct =
     \<lparr>get_state = pca_State, set_state = (\<lambda>x. pca_State_update (\<lambda>_. x)),
      get_int = (\<lambda>v m. 0),
      set_var = (\<lambda>v l. if v = ''acceptor_eph_pub'' then pca_AcceptorEphPub_update (\<lambda>_. lit_string l)
        else if v = ''acceptor_received_commit'' then pca_AcceptorReceivedCommit_update (\<lambda>_. lit_string l)
        else if v = ''acceptor_received_eph_pub'' then pca_AcceptorReceivedEphPub_update (\<lambda>_. lit_string l)
        else if v = ''acceptor_received_identity'' then pca_AcceptorReceivedIdentity_update (\<lambda>_. lit_string l)
        else if v = ''acceptor_received_instance'' then pca_AcceptorReceivedInstance_update (\<lambda>_. lit_string l)
        else if v = ''acceptor_commit_ok'' then pca_AcceptorCommitOk_update (\<lambda>_. lit_string l)
        else if v = ''acceptor_code'' then pca_AcceptorCode_update (\<lambda>_. lit_string l)
        else if v = ''acceptor_user_confirmed'' then pca_AcceptorUserConfirmed_update (\<lambda>_. lit_string l)
        else if v = ''acceptor_received_confirm'' then pca_AcceptorReceivedConfirm_update (\<lambda>_. lit_string l)
        else id)\<rparr>"

definition PairingCeremonyProtocolAcceptor_vars :: "string list" where
  "PairingCeremonyProtocolAcceptor_vars = [''acceptor_eph_pub'', ''acceptor_user_confirmed'', ''acceptor_received_confirm'']"

definition PairingCeremonyProtocolAcceptor_reads :: "string \<Rightarrow> go_literal \<Rightarrow> PairingCeremonyProtocolAcceptorMachine \<Rightarrow> bool" where
  "PairingCeremonyProtocolAcceptor_reads v l m =
     (if v = ''acceptor_eph_pub'' then pca_AcceptorEphPub m = lit_string l
      else if v = ''acceptor_received_commit'' then pca_AcceptorReceivedCommit m = lit_string l
      else if v = ''acceptor_received_eph_pub'' then pca_AcceptorReceivedEphPub m = lit_string l
      else if v = ''acceptor_received_identity'' then pca_AcceptorReceivedIdentity m = lit_string l
      else if v = ''acceptor_received_instance'' then pca_AcceptorReceivedInstance m = lit_string l
      else if v = ''acceptor_commit_ok'' then pca_AcceptorCommitOk m = lit_string l
      else if v = ''acceptor_code'' then pca_AcceptorCode m = lit_string l
      else if v = ''acceptor_user_confirmed'' then pca_AcceptorUserConfirmed m = lit_string l
      else if v = ''acceptor_received_confirm'' then pca_AcceptorReceivedConfirm m = lit_string l
      else False)"

section \<open>The initiator machine\<close>

record PairingCeremonyProtocolInitiatorMachine =
  pci_State :: "string"
  pci_InitiatorEphPub :: "string"
  pci_InitiatorCommit :: "string"
  pci_ReceivedAcceptorEphPub :: "string"
  pci_ReceivedAcceptorIdentity :: "string"
  pci_ReceivedAcceptorInstance :: "string"
  pci_InitiatorReceivedEphPub :: "string"
  pci_InitiatorReceivedIdentity :: "string"
  pci_InitiatorReceivedInstance :: "string"
  pci_InitiatorCode :: "string"
  pci_InitiatorUserConfirmed :: "string"
  pci_InitiatorReceivedConfirm :: "string"

definition NewPairingCeremonyProtocolInitiatorMachine :: PairingCeremonyProtocolInitiatorMachine where
  "NewPairingCeremonyProtocolInitiatorMachine =
     \<lparr>pci_State = PairingCeremonyProtocolInitiatorIdle,
      pci_InitiatorEphPub = ''none'',
      pci_InitiatorCommit = ''none'',
      pci_ReceivedAcceptorEphPub = ''none'',
      pci_ReceivedAcceptorIdentity = ''none'',
      pci_ReceivedAcceptorInstance = ''none'',
      pci_InitiatorReceivedEphPub = ''none'',
      pci_InitiatorReceivedIdentity = ''none'',
      pci_InitiatorReceivedInstance = ''none'',
      pci_InitiatorCode = '''',
      pci_InitiatorUserConfirmed = ''false'',
      pci_InitiatorReceivedConfirm = ''false''\<rparr>"

definition PairingCeremonyProtocolInitiatorMachine_HandleMessage ::
  "(PairingCeremonyProtocolInitiatorMachine, 'w, 'e) callbacks \<Rightarrow> string \<Rightarrow> PairingCeremonyProtocolInitiatorMachine \<times> 'w \<Rightarrow> (PairingCeremonyProtocolInitiatorMachine \<times> 'w) \<times> ('e + bool)" where
  "PairingCeremonyProtocolInitiatorMachine_HandleMessage env msg s = gswitch
     [(pci_State (fst s) = PairingCeremonyProtocolInitiatorAwaitingWelcome \<and> msg = PairingCeremonyProtocolMsgWelcome,
       block [act env PairingCeremonyProtocolActionSendReveal,
              goto (pci_State_update (\<lambda>_. PairingCeremonyProtocolInitiatorRevealing))] True),
      (pci_State (fst s) = PairingCeremonyProtocolInitiatorAwaitingPeerConfirm \<and> msg = PairingCeremonyProtocolMsgConfirmToInitiator,
       block [act env PairingCeremonyProtocolActionStoreRecord,
              assign env (pci_InitiatorReceivedConfirm_update (\<lambda>_. ''true'')) ''initiator_received_confirm'',
              goto (pci_State_update (\<lambda>_. PairingCeremonyProtocolInitiatorPaired))] True)]
     (block [] False) s"

definition PairingCeremonyProtocolInitiatorMachine_Step ::
  "(PairingCeremonyProtocolInitiatorMachine, 'w, 'e) callbacks \<Rightarrow> string \<Rightarrow> PairingCeremonyProtocolInitiatorMachine \<times> 'w \<Rightarrow> (PairingCeremonyProtocolInitiatorMachine \<times> 'w) \<times> ('e + bool)" where
  "PairingCeremonyProtocolInitiatorMachine_Step env event s = gswitch
     [(pci_State (fst s) = PairingCeremonyProtocolInitiatorIdle \<and> event = PairingCeremonyProtocolEventTokenReceived,
       block [act env PairingCeremonyProtocolActionDecodeToken,
              assign env (pci_ReceivedAcceptorEphPub_update (\<lambda>_. ''acceptor_eph'')) ''received_acceptor_eph_pub'',
              assign env (pci_ReceivedAcceptorIdentity_update (\<lambda>_. ''acceptor_id'')) ''received_acceptor_identity'',
              assign env (pci_ReceivedAcceptorInstance_update (\<lambda>_. ''acceptor_instance'')) ''received_acceptor_instance'',
              goto (pci_State_update (\<lambda>_. PairingCeremonyProtocolInitiatorDecodingToken))] True),
      (pci_State (fst s) = PairingCeremonyProtocolInitiatorDecodingToken \<and> event = PairingCeremonyProtocolEventTokenDecoded,
       block [act env PairingCeremonyProtocolActionGenEphemeral,
              assign env (pci_InitiatorEphPub_update (\<lambda>_. ''initiator_eph'')) ''initiator_eph_pub'',
              assign env (pci_InitiatorCommit_update (\<lambda>_. ''initiator_commit'')) ''initiator_commit'',
              goto (pci_State_update (\<lambda>_. PairingCeremonyProtocolInitiatorGeneratingEphemeral))] True),
      (pci_State (fst s) = PairingCeremonyProtocolInitiatorGeneratingEphemeral \<and> event = PairingCeremonyProtocolEventEphemeralReady,
       block [act env PairingCeremonyProtocolActionDialRelay,
              goto (pci_State_update (\<lambda>_. PairingCeremonyProtocolInitiatorConnectingRelay))] True),
      (pci_State (fst s) = PairingCeremonyProtocolInitiatorConnectingRelay \<and> event = PairingCeremonyProtocolEventRelayConnected,
       block [goto (pci_State_update (\<lambda>_. PairingCeremonyProtocolInitiatorAwaitingWelcome))] True),
      (pci_State (fst s) = PairingCeremonyProtocolInitiatorRevealing \<and> event = PairingCeremonyProtocolEventRevealSent,
       block [act env PairingCeremonyProtocolActionDeriveCode,
              goto (pci_State_update (\<lambda>_. PairingCeremonyProtocolInitiatorDerivingCode))] True),
      (pci_State (fst s) = PairingCeremonyProtocolInitiatorDerivingCode \<and> event = PairingCeremonyProtocolEventCodeReady,
       block [goto (pci_State_update (\<lambda>_. PairingCeremonyProtocolInitiatorAwaitingUserConfirm))] True),
      (pci_State (fst s) = PairingCeremonyProtocolInitiatorAwaitingUserConfirm \<and> event = PairingCeremonyProtocolEventUserConfirm,
       block [assign env (pci_InitiatorUserConfirmed_update (\<lambda>_. ''true'')) ''initiator_user_confirmed'',
              goto (pci_State_update (\<lambda>_. PairingCeremonyProtocolInitiatorAwaitingPeerConfirm))] True),
      (pci_State (fst s) = PairingCeremonyProtocolInitiatorAwaitingUserConfirm \<and> event = PairingCeremonyProtocolEventUserCancel,
       block [goto (pci_State_update (\<lambda>_. PairingCeremonyProtocolInitiatorAborted))] True),
      (pci_State (fst s) = PairingCeremonyProtocolInitiatorAwaitingPeerConfirm \<and> event = PairingCeremonyProtocolEventUserCancel,
       block [goto (pci_State_update (\<lambda>_. PairingCeremonyProtocolInitiatorAborted))] True)]
     (block [] False) s"

definition PairingCeremonyProtocolInitiatorMachine_HandleEvent ::
  "(PairingCeremonyProtocolInitiatorMachine, 'w, 'e) callbacks \<Rightarrow> string \<Rightarrow> PairingCeremonyProtocolInitiatorMachine \<times> 'w \<Rightarrow> (PairingCeremonyProtocolInitiatorMachine \<times> 'w) \<times> ('e + string list)" where
  "PairingCeremonyProtocolInitiatorMachine_HandleEvent env ev s = gswitch
     [(pci_State (fst s) = PairingCeremonyProtocolInitiatorIdle \<and> ev = PairingCeremonyProtocolEventTokenReceived,
       block [act env PairingCeremonyProtocolActionDecodeToken,
              assign env (pci_ReceivedAcceptorEphPub_update (\<lambda>_. ''acceptor_eph'')) ''received_acceptor_eph_pub'',
              assign env (pci_ReceivedAcceptorIdentity_update (\<lambda>_. ''acceptor_id'')) ''received_acceptor_identity'',
              assign env (pci_ReceivedAcceptorInstance_update (\<lambda>_. ''acceptor_instance'')) ''received_acceptor_instance'',
              goto (pci_State_update (\<lambda>_. PairingCeremonyProtocolInitiatorDecodingToken))] []),
      (pci_State (fst s) = PairingCeremonyProtocolInitiatorDecodingToken \<and> ev = PairingCeremonyProtocolEventTokenDecoded,
       block [act env PairingCeremonyProtocolActionGenEphemeral,
              assign env (pci_InitiatorEphPub_update (\<lambda>_. ''initiator_eph'')) ''initiator_eph_pub'',
              assign env (pci_InitiatorCommit_update (\<lambda>_. ''initiator_commit'')) ''initiator_commit'',
              goto (pci_State_update (\<lambda>_. PairingCeremonyProtocolInitiatorGeneratingEphemeral))] []),
      (pci_State (fst s) = PairingCeremonyProtocolInitiatorGeneratingEphemeral \<and> ev = PairingCeremonyProtocolEventEphemeralReady,
       block [act env PairingCeremonyProtocolActionDialRelay,
              goto (pci_State_update (\<lambda>_. PairingCeremonyProtocolInitiatorConnectingRelay))] []),
      (pci_State (fst s) = PairingCeremonyProtocolInitiatorConnectingRelay \<and> ev = PairingCeremonyProtocolEventRelayConnected,
       block [goto (pci_State_update (\<lambda>_. PairingCeremonyProtocolInitiatorAwaitingWelcome))] []),
      (pci_State (fst s) = PairingCeremonyProtocolInitiatorAwaitingWelcome \<and> ev = PairingCeremonyProtocolEventRecvWelcome,
       block [act env PairingCeremonyProtocolActionSendReveal,
              goto (pci_State_update (\<lambda>_. PairingCeremonyProtocolInitiatorRevealing))] []),
      (pci_State (fst s) = PairingCeremonyProtocolInitiatorRevealing \<and> ev = PairingCeremonyProtocolEventRevealSent,
       block [act env PairingCeremonyProtocolActionDeriveCode,
              goto (pci_State_update (\<lambda>_. PairingCeremonyProtocolInitiatorDerivingCode))] []),
      (pci_State (fst s) = PairingCeremonyProtocolInitiatorDerivingCode \<and> ev = PairingCeremonyProtocolEventCodeReady,
       block [goto (pci_State_update (\<lambda>_. PairingCeremonyProtocolInitiatorAwaitingUserConfirm))] []),
      (pci_State (fst s) = PairingCeremonyProtocolInitiatorAwaitingUserConfirm \<and> ev = PairingCeremonyProtocolEventUserConfirm,
       block [assign env (pci_InitiatorUserConfirmed_update (\<lambda>_. ''true'')) ''initiator_user_confirmed'',
              goto (pci_State_update (\<lambda>_. PairingCeremonyProtocolInitiatorAwaitingPeerConfirm))] []),
      (pci_State (fst s) = PairingCeremonyProtocolInitiatorAwaitingPeerConfirm \<and> ev = PairingCeremonyProtocolEventRecvConfirmToInitiator,
       block [act env PairingCeremonyProtocolActionStoreRecord,
              assign env (pci_InitiatorReceivedConfirm_update (\<lambda>_. ''true'')) ''initiator_received_confirm'',
              goto (pci_State_update (\<lambda>_. PairingCeremonyProtocolInitiatorPaired))] []),
      (pci_State (fst s) = PairingCeremonyProtocolInitiatorAwaitingUserConfirm \<and> ev = PairingCeremonyProtocolEventUserCancel,
       block [goto (pci_State_update (\<lambda>_. PairingCeremonyProtocolInitiatorAborted))] []),
      (pci_State (fst s) = PairingCeremonyProtocolInitiatorAwaitingPeerConfirm \<and> ev = PairingCeremonyProtocolEventUserCancel,
       block [goto (pci_State_update (\<lambda>_. PairingCeremonyProtocolInitiatorAborted))] [])]
     (block [] []) s"

definition PairingCeremonyProtocolInitiator_struct :: "PairingCeremonyProtocolInitiatorMachine struct" where
  "PairingCeremonyProtocolInitiator_struct =
     \<lparr>get_state = pci_State, set_state = (\<lambda>x. pci_State_update (\<lambda>_. x)),
      get_int = (\<lambda>v m. 0),
      set_var = (\<lambda>v l. if v = ''initiator_eph_pub'' then pci_InitiatorEphPub_update (\<lambda>_. lit_string l)
        else if v = ''initiator_commit'' then pci_InitiatorCommit_update (\<lambda>_. lit_string l)
        else if v = ''received_acceptor_eph_pub'' then pci_ReceivedAcceptorEphPub_update (\<lambda>_. lit_string l)
        else if v = ''received_acceptor_identity'' then pci_ReceivedAcceptorIdentity_update (\<lambda>_. lit_string l)
        else if v = ''received_acceptor_instance'' then pci_ReceivedAcceptorInstance_update (\<lambda>_. lit_string l)
        else if v = ''initiator_received_eph_pub'' then pci_InitiatorReceivedEphPub_update (\<lambda>_. lit_string l)
        else if v = ''initiator_received_identity'' then pci_InitiatorReceivedIdentity_update (\<lambda>_. lit_string l)
        else if v = ''initiator_received_instance'' then pci_InitiatorReceivedInstance_update (\<lambda>_. lit_string l)
        else if v = ''initiator_code'' then pci_InitiatorCode_update (\<lambda>_. lit_string l)
        else if v = ''initiator_user_confirmed'' then pci_InitiatorUserConfirmed_update (\<lambda>_. lit_string l)
        else if v = ''initiator_received_confirm'' then pci_InitiatorReceivedConfirm_update (\<lambda>_. lit_string l)
        else id)\<rparr>"

definition PairingCeremonyProtocolInitiator_vars :: "string list" where
  "PairingCeremonyProtocolInitiator_vars = [''initiator_eph_pub'', ''initiator_commit'', ''received_acceptor_eph_pub'', ''received_acceptor_identity'', ''received_acceptor_instance'', ''initiator_user_confirmed'', ''initiator_received_confirm'']"

definition PairingCeremonyProtocolInitiator_reads :: "string \<Rightarrow> go_literal \<Rightarrow> PairingCeremonyProtocolInitiatorMachine \<Rightarrow> bool" where
  "PairingCeremonyProtocolInitiator_reads v l m =
     (if v = ''initiator_eph_pub'' then pci_InitiatorEphPub m = lit_string l
      else if v = ''initiator_commit'' then pci_InitiatorCommit m = lit_string l
      else if v = ''received_acceptor_eph_pub'' then pci_ReceivedAcceptorEphPub m = lit_string l
      else if v = ''received_acceptor_identity'' then pci_ReceivedAcceptorIdentity m = lit_string l
      else if v = ''received_acceptor_instance'' then pci_ReceivedAcceptorInstance m = lit_string l
      else if v = ''initiator_received_eph_pub'' then pci_InitiatorReceivedEphPub m = lit_string l
      else if v = ''initiator_received_identity'' then pci_InitiatorReceivedIdentity m = lit_string l
      else if v = ''initiator_received_instance'' then pci_InitiatorReceivedInstance m = lit_string l
      else if v = ''initiator_code'' then pci_InitiatorCode m = lit_string l
      else if v = ''initiator_user_confirmed'' then pci_InitiatorUserConfirmed m = lit_string l
      else if v = ''initiator_received_confirm'' then pci_InitiatorReceivedConfirm m = lit_string l
      else False)"

section \<open>The machines are what the table says\<close>

lemma pc_literals:
  "goSimpleLiteral ''\"acceptor_eph\"'' = Some (GoText ''\"acceptor_eph\"'')"
  "goSimpleLiteral ''\"acceptor_id\"'' = Some (GoText ''\"acceptor_id\"'')"
  "goSimpleLiteral ''\"acceptor_instance\"'' = Some (GoText ''\"acceptor_instance\"'')"
  "goSimpleLiteral ''\"initiator_commit\"'' = Some (GoText ''\"initiator_commit\"'')"
  "goSimpleLiteral ''\"initiator_eph\"'' = Some (GoText ''\"initiator_eph\"'')"
  "goSimpleLiteral ''\"true\"'' = Some (GoText ''\"true\"'')"
  "goSimpleLiteral ''DeriveCode(initiator_eph_pub, initiator_received_eph_pub)'' = None"
  "goSimpleLiteral ''IF CommitMatches(acceptor_received_commit, recv_msg.eph_pub) THEN \"true\" ELSE \"false\"'' = None"
  "goSimpleLiteral ''IF CommitMatches(acceptor_received_commit, recv_msg.eph_pub) THEN DeriveCode(acceptor_eph_pub, recv_msg.eph_pub) ELSE <<\"none\">>'' = None"
  "goSimpleLiteral ''recv_msg.commit'' = None"
  "goSimpleLiteral ''recv_msg.eph_pub'' = None"
  "goSimpleLiteral ''recv_msg.identity_pub'' = None"
  "goSimpleLiteral ''recv_msg.instance_id'' = None"
  by code_simp+

lemma pc_self_updates:
  "goSelfUpdate ''initiator_code'' ''DeriveCode(initiator_eph_pub, initiator_received_eph_pub)'' = None"
  "goSelfUpdate ''acceptor_commit_ok'' ''IF CommitMatches(acceptor_received_commit, recv_msg.eph_pub) THEN \"true\" ELSE \"false\"'' = None"
  "goSelfUpdate ''acceptor_code'' ''IF CommitMatches(acceptor_received_commit, recv_msg.eph_pub) THEN DeriveCode(acceptor_eph_pub, recv_msg.eph_pub) ELSE <<\"none\">>'' = None"
  "goSelfUpdate ''acceptor_received_commit'' ''recv_msg.commit'' = None"
  "goSelfUpdate ''acceptor_received_eph_pub'' ''recv_msg.eph_pub'' = None"
  "goSelfUpdate ''initiator_received_eph_pub'' ''recv_msg.eph_pub'' = None"
  "goSelfUpdate ''acceptor_received_identity'' ''recv_msg.identity_pub'' = None"
  "goSelfUpdate ''initiator_received_identity'' ''recv_msg.identity_pub'' = None"
  "goSelfUpdate ''acceptor_received_instance'' ''recv_msg.instance_id'' = None"
  "goSelfUpdate ''initiator_received_instance'' ''recv_msg.instance_id'' = None"
  by code_simp+

interpretation pca: machine_struct PairingCeremonyProtocolAcceptor_struct
  by unfold_locales (simp add: PairingCeremonyProtocolAcceptor_struct_def)

interpretation pcav: machine_vars PairingCeremonyProtocolAcceptor_struct PairingCeremonyProtocolAcceptor_reads PairingCeremonyProtocolAcceptor_vars
  by (unfold_locales; (simp only: PairingCeremonyProtocolAcceptor_vars_def list.set insert_iff empty_iff)?; (elim disjE FalseE)?;
      simp add: PairingCeremonyProtocolAcceptor_struct_def PairingCeremonyProtocolAcceptor_reads_def)

lemma pca_generated:
  "PairingCeremonyProtocolAcceptorMachine_HandleMessage env msg s = gen_HandleMessage PairingCeremonyProtocolAcceptor_struct PairingCeremonyProtocol_acceptor_transitions env msg s"
  "PairingCeremonyProtocolAcceptorMachine_Step env event s = gen_Step PairingCeremonyProtocolAcceptor_struct PairingCeremonyProtocol_acceptor_transitions env event s"
  "PairingCeremonyProtocolAcceptorMachine_HandleEvent env ev s = gen_HandleEvent PairingCeremonyProtocolAcceptor_struct PairingCeremonyProtocol_acceptor_transitions env ev s"
  by (simp_all add: PairingCeremonyProtocolAcceptorMachine_HandleMessage_def PairingCeremonyProtocolAcceptorMachine_Step_def
        PairingCeremonyProtocolAcceptorMachine_HandleEvent_def PairingCeremonyProtocol_acceptor_transitions_def PairingCeremonyProtocolAcceptor_struct_def
        gen_simps pc_literals pc_self_updates)

interpretation pci: machine_struct PairingCeremonyProtocolInitiator_struct
  by unfold_locales (simp add: PairingCeremonyProtocolInitiator_struct_def)

interpretation pciv: machine_vars PairingCeremonyProtocolInitiator_struct PairingCeremonyProtocolInitiator_reads PairingCeremonyProtocolInitiator_vars
  by (unfold_locales; (simp only: PairingCeremonyProtocolInitiator_vars_def list.set insert_iff empty_iff)?; (elim disjE FalseE)?;
      simp add: PairingCeremonyProtocolInitiator_struct_def PairingCeremonyProtocolInitiator_reads_def)

lemma pci_generated:
  "PairingCeremonyProtocolInitiatorMachine_HandleMessage env msg s = gen_HandleMessage PairingCeremonyProtocolInitiator_struct PairingCeremonyProtocol_initiator_transitions env msg s"
  "PairingCeremonyProtocolInitiatorMachine_Step env event s = gen_Step PairingCeremonyProtocolInitiator_struct PairingCeremonyProtocol_initiator_transitions env event s"
  "PairingCeremonyProtocolInitiatorMachine_HandleEvent env ev s = gen_HandleEvent PairingCeremonyProtocolInitiator_struct PairingCeremonyProtocol_initiator_transitions env ev s"
  by (simp_all add: PairingCeremonyProtocolInitiatorMachine_HandleMessage_def PairingCeremonyProtocolInitiatorMachine_Step_def
        PairingCeremonyProtocolInitiatorMachine_HandleEvent_def PairingCeremonyProtocol_initiator_transitions_def PairingCeremonyProtocolInitiator_struct_def
        gen_simps pc_literals pc_self_updates)

section \<open>Nobody is paired without both confirmations\<close>

text \<open>
  The callbacks may set the variables that the table leaves to them and do anything to the rest of
  the world; they keep the state and the two confirmation flags.
\<close>

definition pca_callbacks :: "(PairingCeremonyProtocolAcceptorMachine, 'w, 'e) callbacks \<Rightarrow> bool" where
  "pca_callbacks env \<longleftrightarrow> keeps env pca_State \<and> keeps env pca_AcceptorEphPub \<and> keeps env pca_AcceptorUserConfirmed \<and>
     keeps env pca_AcceptorReceivedConfirm"

definition pci_callbacks :: "(PairingCeremonyProtocolInitiatorMachine, 'w, 'e) callbacks \<Rightarrow> bool" where
  "pci_callbacks env \<longleftrightarrow> keeps env pci_State \<and> keeps env pci_InitiatorEphPub \<and> keeps env pci_InitiatorCommit \<and>
     keeps env pci_ReceivedAcceptorEphPub \<and> keeps env pci_ReceivedAcceptorIdentity \<and> keeps env pci_ReceivedAcceptorInstance \<and>
     keeps env pci_InitiatorUserConfirmed \<and> keeps env pci_InitiatorReceivedConfirm"

lemma pca_keeps_vars:
  "pca_callbacks env \<Longrightarrow> keeps_vars env PairingCeremonyProtocolAcceptor_struct PairingCeremonyProtocolAcceptor_reads
     PairingCeremonyProtocolAcceptor_vars"
  by (simp add: pca_callbacks_def keeps_vars_def keeps_def PairingCeremonyProtocolAcceptor_struct_def
        PairingCeremonyProtocolAcceptor_reads_def PairingCeremonyProtocolAcceptor_vars_def)

lemma pci_keeps_vars:
  "pci_callbacks env \<Longrightarrow> keeps_vars env PairingCeremonyProtocolInitiator_struct PairingCeremonyProtocolInitiator_reads
     PairingCeremonyProtocolInitiator_vars"
  by (simp add: pci_callbacks_def keeps_vars_def keeps_def PairingCeremonyProtocolInitiator_struct_def
        PairingCeremonyProtocolInitiator_reads_def PairingCeremonyProtocolInitiator_vars_def)

inductive pca_step :: "(PairingCeremonyProtocolAcceptorMachine, 'w, 'e) callbacks \<Rightarrow>
    PairingCeremonyProtocolAcceptorMachine \<times> 'w \<Rightarrow> PairingCeremonyProtocolAcceptorMachine \<times> 'w \<Rightarrow> bool" for env where
  "pca_step env s (fst (PairingCeremonyProtocolAcceptorMachine_HandleMessage env msg s))" |
  "pca_step env s (fst (PairingCeremonyProtocolAcceptorMachine_Step env event s))" |
  "pca_step env s (fst (PairingCeremonyProtocolAcceptorMachine_HandleEvent env ev s))" |
  "pca_step env (m, w) (m, w')"

inductive pci_step :: "(PairingCeremonyProtocolInitiatorMachine, 'w, 'e) callbacks \<Rightarrow>
    PairingCeremonyProtocolInitiatorMachine \<times> 'w \<Rightarrow> PairingCeremonyProtocolInitiatorMachine \<times> 'w \<Rightarrow> bool" for env where
  "pci_step env s (fst (PairingCeremonyProtocolInitiatorMachine_HandleMessage env msg s))" |
  "pci_step env s (fst (PairingCeremonyProtocolInitiatorMachine_Step env event s))" |
  "pci_step env s (fst (PairingCeremonyProtocolInitiatorMachine_HandleEvent env ev s))" |
  "pci_step env (m, w) (m, w')"

definition confirm_flag :: "bool \<Rightarrow> go_literal option" where
  "confirm_flag b = Some (GoText (if b then ''\"true\"'' else ''\"false\"''))"

definition pca_expected :: "string \<Rightarrow> string \<Rightarrow> go_literal option" where
  "pca_expected s v =
     (if v = ''acceptor_user_confirmed'' then
        (if s = ''Aborted'' then None else confirm_flag (s = ''AwaitingPeerConfirm'' \<or> s = ''Paired''))
      else if v = ''acceptor_received_confirm'' then confirm_flag (s = ''Paired'')
      else None)"

definition pci_expected :: "string \<Rightarrow> string \<Rightarrow> go_literal option" where
  "pci_expected s v =
     (if v = ''initiator_user_confirmed'' then
        (if s = ''Aborted'' then None else confirm_flag (s = ''AwaitingPeerConfirm'' \<or> s = ''Paired''))
      else if v = ''initiator_received_confirm'' then confirm_flag (s = ''Paired'')
      else None)"

lemma pca_table_expected:
  "list_all (\<lambda>t. keeps_expected pca_expected PairingCeremonyProtocolAcceptor_vars t \<and>
     To t \<in> set PairingCeremonyProtocol_acceptor_states) PairingCeremonyProtocol_acceptor_transitions"
  by code_simp

lemma pci_table_expected:
  "list_all (\<lambda>t. keeps_expected pci_expected PairingCeremonyProtocolInitiator_vars t \<and>
     To t \<in> set PairingCeremonyProtocol_initiator_states) PairingCeremonyProtocol_initiator_transitions"
  by code_simp

abbreviation pca_ok :: "PairingCeremonyProtocolAcceptorMachine \<Rightarrow> bool" where
  "pca_ok \<equiv> as_expected PairingCeremonyProtocolAcceptor_struct PairingCeremonyProtocolAcceptor_reads pca_expected
     PairingCeremonyProtocolAcceptor_vars PairingCeremonyProtocol_acceptor_states"

abbreviation pci_ok :: "PairingCeremonyProtocolInitiatorMachine \<Rightarrow> bool" where
  "pci_ok \<equiv> as_expected PairingCeremonyProtocolInitiator_struct PairingCeremonyProtocolInitiator_reads pci_expected
     PairingCeremonyProtocolInitiator_vars PairingCeremonyProtocol_initiator_states"

interpretation pcarun: inv_system "\<lambda>s. s = (NewPairingCeremonyProtocolAcceptorMachine, w0)" "pca_step env"
    "\<lambda>s. pca_callbacks env \<longrightarrow> pca_ok (fst s)" for w0 env
proof
  show "s = (NewPairingCeremonyProtocolAcceptorMachine, w0) \<Longrightarrow> pca_callbacks env \<longrightarrow> pca_ok (fst s)" for s
    by (simp add: as_expected_def NewPairingCeremonyProtocolAcceptorMachine_def PairingCeremonyProtocolAcceptor_struct_def
          PairingCeremonyProtocolAcceptor_reads_def PairingCeremonyProtocolAcceptor_vars_def pca_expected_def confirm_flag_def
          PairingCeremonyProtocol_acceptor_states_def go_unquote_def)
  show "pca_callbacks env \<longrightarrow> pca_ok (fst s) \<Longrightarrow> pca_step env s s' \<Longrightarrow> pca_callbacks env \<longrightarrow> pca_ok (fst s')" for s s'
    by (erule pca_step.cases)
       (auto simp: pca_generated intro!: pcav.gen_expected [OF pca_keeps_vars pca_table_expected])
qed

interpretation pcirun: inv_system "\<lambda>s. s = (NewPairingCeremonyProtocolInitiatorMachine, w0)" "pci_step env"
    "\<lambda>s. pci_callbacks env \<longrightarrow> pci_ok (fst s)" for w0 env
proof
  show "s = (NewPairingCeremonyProtocolInitiatorMachine, w0) \<Longrightarrow> pci_callbacks env \<longrightarrow> pci_ok (fst s)" for s
    by (simp add: as_expected_def NewPairingCeremonyProtocolInitiatorMachine_def PairingCeremonyProtocolInitiator_struct_def
          PairingCeremonyProtocolInitiator_reads_def PairingCeremonyProtocolInitiator_vars_def pci_expected_def confirm_flag_def
          PairingCeremonyProtocol_initiator_states_def go_unquote_def)
  show "pci_callbacks env \<longrightarrow> pci_ok (fst s) \<Longrightarrow> pci_step env s s' \<Longrightarrow> pci_callbacks env \<longrightarrow> pci_ok (fst s')" for s s'
    by (erule pci_step.cases)
       (auto simp: pci_generated intro!: pciv.gen_expected [OF pci_keeps_vars pci_table_expected])
qed

text \<open>
  (C13) Nobody is paired without both confirmations: however messages and events are ordered and
  whatever the actions do, a side that is in \<open>Paired\<close> has seen its own user confirm the code and has
  received the peer's confirmation, and before \<open>Paired\<close> it has not counted a peer's confirmation.
\<close>

theorem paired_needs_both_confirmations:
  assumes "pca_callbacks env" and "(pca_step env)\<^sup>*\<^sup>* (NewPairingCeremonyProtocolAcceptorMachine, w0) (m, w)"
    and "pci_callbacks env'" and "(pci_step env')\<^sup>*\<^sup>* (NewPairingCeremonyProtocolInitiatorMachine, w0') (m', w')"
  shows "(if pca_State m = PairingCeremonyProtocolAcceptorPaired
      then pca_AcceptorUserConfirmed m = ''true'' \<and> pca_AcceptorReceivedConfirm m = ''true''
      else pca_AcceptorReceivedConfirm m = ''false'') \<and>
    (if pci_State m' = PairingCeremonyProtocolInitiatorPaired
      then pci_InitiatorUserConfirmed m' = ''true'' \<and> pci_InitiatorReceivedConfirm m' = ''true''
      else pci_InitiatorReceivedConfirm m' = ''false'')"
  using pcarun.reachable [OF refl assms(2)] pcirun.reachable [OF refl assms(4)] assms(1,3)
  by (simp add: as_expected_def PairingCeremonyProtocolAcceptor_struct_def PairingCeremonyProtocolAcceptor_reads_def
        PairingCeremonyProtocolAcceptor_vars_def pca_expected_def PairingCeremonyProtocolInitiator_struct_def
        PairingCeremonyProtocolInitiator_reads_def PairingCeremonyProtocolInitiator_vars_def pci_expected_def
        confirm_flag_def go_unquote_def)

section \<open>Every ceremony ends\<close>

text \<open>How far a ceremony has come; every transition goes further.\<close>

definition pca_rank :: "string \<Rightarrow> nat" where
  "pca_rank s =
     (if s = ''Idle'' then 0 else if s = ''GeneratingEphemeral'' then 1 else if s = ''RegisteringRelay'' then 2
      else if s = ''WaitingForHello'' then 3 else if s = ''WaitingForReveal'' then 4 else if s = ''DerivingCode'' then 5
      else if s = ''AwaitingUserConfirm'' then 6 else if s = ''AwaitingPeerConfirm'' then 7 else 8)"

definition pci_rank :: "string \<Rightarrow> nat" where
  "pci_rank s =
     (if s = ''Idle'' then 0 else if s = ''DecodingToken'' then 1 else if s = ''GeneratingEphemeral'' then 2
      else if s = ''ConnectingRelay'' then 3 else if s = ''AwaitingWelcome'' then 4 else if s = ''Revealing'' then 5
      else if s = ''DerivingCode'' then 6 else if s = ''AwaitingUserConfirm'' then 7 else if s = ''AwaitingPeerConfirm'' then 8
      else 9)"

lemma pc_ranks:
  "list_all (\<lambda>t. pca_rank (From t) < pca_rank (To t)) PairingCeremonyProtocol_acceptor_transitions"
  "list_all (\<lambda>t. pci_rank (From t) < pci_rank (To t)) PairingCeremonyProtocol_initiator_transitions"
  by code_simp+

lemma pca_rank_le: "pca_rank s \<le> 8" and pci_rank_le: "pci_rank s \<le> 9"
  by (simp_all add: pca_rank_def pci_rank_def)

text \<open>
  (C30) Every ceremony ends: whatever events are fed to a machine, in any number and order, at most
  eight of them move the acceptor and at most nine move the initiator, and a machine that is
  paired or aborted never moves again.
\<close>

theorem ceremony_ends:
  assumes "keeps env pca_State" and "keeps env' pci_State"
  shows "moves (\<lambda>ev s. fst (PairingCeremonyProtocolAcceptorMachine_HandleEvent env ev s)) (\<lambda>s. pca_State (fst s)) evs s +
      pca_rank (pca_State (fst s)) \<le> 8 \<and>
    moves (\<lambda>ev s. fst (PairingCeremonyProtocolInitiatorMachine_HandleEvent env' ev s)) (\<lambda>s. pci_State (fst s)) evs' s' +
      pci_rank (pci_State (fst s')) \<le> 9"
proof
  have "pca_State (fst (fst (PairingCeremonyProtocolAcceptorMachine_HandleEvent env ev s))) = pca_State (fst s) \<or>
      pca_rank (pca_State (fst s)) < pca_rank (pca_State (fst (fst (PairingCeremonyProtocolAcceptorMachine_HandleEvent env ev s))))" for ev s
    using pca.gen_edge [OF _ refl, of env PairingCeremonyProtocol_acceptor_transitions ev s] pc_ranks(1) assms(1)
    by (auto simp: pca_generated list_all_iff PairingCeremonyProtocolAcceptor_struct_def)
  then show "moves (\<lambda>ev s. fst (PairingCeremonyProtocolAcceptorMachine_HandleEvent env ev s)) (\<lambda>s. pca_State (fst s)) evs s +
      pca_rank (pca_State (fst s)) \<le> 8"
    by (intro moves_bounded [where g = "\<lambda>s. pca_State (fst s)" and rk = pca_rank]) (simp_all add: pca_rank_le)
  have "pci_State (fst (fst (PairingCeremonyProtocolInitiatorMachine_HandleEvent env' ev s))) = pci_State (fst s) \<or>
      pci_rank (pci_State (fst s)) < pci_rank (pci_State (fst (fst (PairingCeremonyProtocolInitiatorMachine_HandleEvent env' ev s))))" for ev s
    using pci.gen_edge [OF _ refl, of env' PairingCeremonyProtocol_initiator_transitions ev s] pc_ranks(2) assms(2)
    by (auto simp: pci_generated list_all_iff PairingCeremonyProtocolInitiator_struct_def)
  then show "moves (\<lambda>ev s. fst (PairingCeremonyProtocolInitiatorMachine_HandleEvent env' ev s)) (\<lambda>s. pci_State (fst s)) evs' s' +
      pci_rank (pci_State (fst s')) \<le> 9"
    by (intro moves_bounded [where g = "\<lambda>s. pci_State (fst s)" and rk = pci_rank]) (simp_all add: pci_rank_le)
qed

lemma PairingCeremony_valid: "Validate PairingCeremonyProtocol = None"
  by code_simp

subsection \<open>A ceremony\<close>

definition pca_events :: "string list \<Rightarrow> PairingCeremonyProtocolAcceptorMachine \<times> unit" where
  "pca_events evs = fold (\<lambda>ev s. fst (PairingCeremonyProtocolAcceptorMachine_HandleEvent all_guards ev s)) evs
     (NewPairingCeremonyProtocolAcceptorMachine, ())"

definition pci_events :: "string list \<Rightarrow> PairingCeremonyProtocolInitiatorMachine \<times> unit" where
  "pci_events evs = fold (\<lambda>ev s. fst (PairingCeremonyProtocolInitiatorMachine_HandleEvent all_guards ev s)) evs
     (NewPairingCeremonyProtocolInitiatorMachine, ())"

abbreviation pca_ceremony :: "string list" where
  "pca_ceremony \<equiv> [''pair_begin'', ''ephemeral_ready'', ''relay_registered'', ''recv_hello'', ''recv_reveal'', ''code_ready'',
     ''user_confirm'', ''recv_confirm_to_acceptor'']"

abbreviation pci_ceremony :: "string list" where
  "pci_ceremony \<equiv> [''token_received'', ''token_decoded'', ''ephemeral_ready'', ''relay_connected'', ''recv_welcome'',
     ''reveal_sent'', ''code_ready'', ''user_confirm'', ''recv_confirm_to_initiator'']"

lemmas pc_run_simps = PairingCeremonyProtocolAcceptorMachine_HandleEvent_def NewPairingCeremonyProtocolAcceptorMachine_def
  PairingCeremonyProtocolInitiatorMachine_HandleEvent_def NewPairingCeremonyProtocolInitiatorMachine_def
  all_guards_def guarded_def goto_def assign_def act_def changed_def

lemma ceremony_states:
  "pca_State (fst (pca_events pca_ceremony)) = PairingCeremonyProtocolAcceptorPaired"
  "pci_State (fst (pci_events pci_ceremony)) = PairingCeremonyProtocolInitiatorPaired"
  by (simp_all add: pca_events_def pci_events_def pc_run_simps)

theorem paired_needs_both_confirmations_witness:
  "pca_AcceptorUserConfirmed (fst (pca_events pca_ceremony)) = ''true'' \<and> pca_AcceptorReceivedConfirm (fst (pca_events pca_ceremony)) = ''true'' \<and>
   pci_InitiatorUserConfirmed (fst (pci_events pci_ceremony)) = ''true'' \<and> pci_InitiatorReceivedConfirm (fst (pci_events pci_ceremony)) = ''true''"
proof -
  have a: "pca_callbacks (all_guards :: (_, unit, unit) callbacks)" by (simp add: pca_callbacks_def keeps_all_guards)
  have i: "pci_callbacks (all_guards :: (_, unit, unit) callbacks)" by (simp add: pci_callbacks_def keeps_all_guards)
  have A: "(pca_step all_guards)\<^sup>*\<^sup>* (NewPairingCeremonyProtocolAcceptorMachine, ()) (fst (pca_events pca_ceremony), snd (pca_events pca_ceremony))"
    unfolding prod.collapse unfolding pca_events_def by (rule fold_rtranclp) (rule pca_step.intros)
  have I: "(pci_step all_guards)\<^sup>*\<^sup>* (NewPairingCeremonyProtocolInitiatorMachine, ()) (fst (pci_events pci_ceremony), snd (pci_events pci_ceremony))"
    unfolding prod.collapse unfolding pci_events_def by (rule fold_rtranclp) (rule pci_step.intros)
  show ?thesis
    using paired_needs_both_confirmations [OF a A i I] unfolding ceremony_states by (simp only: if_True refl simp_thms)
qed

theorem ceremony_ends_witness:
  "moves (\<lambda>ev s. fst (PairingCeremonyProtocolAcceptorMachine_HandleEvent (all_guards :: (_, unit, unit) callbacks) ev s))
     (\<lambda>s. pca_State (fst s)) [''pair_begin'', ''pair_begin'', ''ephemeral_ready''] (NewPairingCeremonyProtocolAcceptorMachine, ()) \<le> 8 \<and>
   moves (\<lambda>ev s. fst (PairingCeremonyProtocolAcceptorMachine_HandleEvent (all_guards :: (_, unit, unit) callbacks) ev s))
     (\<lambda>s. pca_State (fst s)) [''pair_begin'', ''pair_begin'', ''ephemeral_ready''] (NewPairingCeremonyProtocolAcceptorMachine, ()) = 2"
proof
  show "moves (\<lambda>ev s. fst (PairingCeremonyProtocolAcceptorMachine_HandleEvent (all_guards :: (_, unit, unit) callbacks) ev s))
     (\<lambda>s. pca_State (fst s)) [''pair_begin'', ''pair_begin'', ''ephemeral_ready''] (NewPairingCeremonyProtocolAcceptorMachine, ()) \<le> 8"
    by (rule add_leD1 [OF conjunct1 [OF ceremony_ends [OF keeps_all_guards keeps_all_guards]]])
qed (simp add: pc_run_simps)

end
