(* ===== verification/SessionTable.thy ===== *)
theory SessionTable
  imports Generated
begin

text \<open>
  The session protocol (\<open>session_gen.go\<close>): the names of its states, messages, guards, actions, events
  and commands, and its table for the backend, the client and the relay.
\<close>

section \<open>Names\<close>

abbreviation (input) SessionProtocolBackendIdle :: string where "SessionProtocolBackendIdle \<equiv> ''Idle''"
abbreviation (input) SessionProtocolBackendGenerateToken :: string where "SessionProtocolBackendGenerateToken \<equiv> ''GenerateToken''"
abbreviation (input) SessionProtocolBackendRegisterRelay :: string where "SessionProtocolBackendRegisterRelay \<equiv> ''RegisterRelay''"
abbreviation (input) SessionProtocolBackendWaitingForClient :: string where "SessionProtocolBackendWaitingForClient \<equiv> ''WaitingForClient''"
abbreviation (input) SessionProtocolBackendDeriveSecret :: string where "SessionProtocolBackendDeriveSecret \<equiv> ''DeriveSecret''"
abbreviation (input) SessionProtocolBackendSendAck :: string where "SessionProtocolBackendSendAck \<equiv> ''SendAck''"
abbreviation (input) SessionProtocolBackendWaitingForCode :: string where "SessionProtocolBackendWaitingForCode \<equiv> ''WaitingForCode''"
abbreviation (input) SessionProtocolBackendValidateCode :: string where "SessionProtocolBackendValidateCode \<equiv> ''ValidateCode''"
abbreviation (input) SessionProtocolBackendStorePaired :: string where "SessionProtocolBackendStorePaired \<equiv> ''StorePaired''"
abbreviation (input) SessionProtocolBackendPaired :: string where "SessionProtocolBackendPaired \<equiv> ''Paired''"
abbreviation (input) SessionProtocolBackendAuthCheck :: string where "SessionProtocolBackendAuthCheck \<equiv> ''AuthCheck''"
abbreviation (input) SessionProtocolBackendSessionActive :: string where "SessionProtocolBackendSessionActive \<equiv> ''SessionActive''"
abbreviation (input) SessionProtocolBackendRelayConnected :: string where "SessionProtocolBackendRelayConnected \<equiv> ''RelayConnected''"
abbreviation (input) SessionProtocolBackendCandidatesAdvertised :: string where "SessionProtocolBackendCandidatesAdvertised \<equiv> ''CandidatesAdvertised''"
abbreviation (input) SessionProtocolBackendAltActive :: string where "SessionProtocolBackendAltActive \<equiv> ''AltActive''"
abbreviation (input) SessionProtocolBackendRelayBackoff :: string where "SessionProtocolBackendRelayBackoff \<equiv> ''RelayBackoff''"
abbreviation (input) SessionProtocolBackendAltDegraded :: string where "SessionProtocolBackendAltDegraded \<equiv> ''AltDegraded''"

definition SessionProtocol_backend_states :: "string list" where
  "SessionProtocol_backend_states =
    [SessionProtocolBackendIdle, SessionProtocolBackendGenerateToken, SessionProtocolBackendRegisterRelay,
     SessionProtocolBackendWaitingForClient, SessionProtocolBackendDeriveSecret,
     SessionProtocolBackendSendAck, SessionProtocolBackendWaitingForCode,
     SessionProtocolBackendValidateCode, SessionProtocolBackendStorePaired, SessionProtocolBackendPaired,
     SessionProtocolBackendAuthCheck, SessionProtocolBackendSessionActive,
     SessionProtocolBackendRelayConnected, SessionProtocolBackendCandidatesAdvertised,
     SessionProtocolBackendAltActive, SessionProtocolBackendRelayBackoff,
     SessionProtocolBackendAltDegraded]"

abbreviation (input) SessionProtocolClientIdle :: string where "SessionProtocolClientIdle \<equiv> ''Idle''"
abbreviation (input) SessionProtocolClientObtainBackchannelSecret :: string where "SessionProtocolClientObtainBackchannelSecret \<equiv> ''ObtainBackchannelSecret''"
abbreviation (input) SessionProtocolClientConnectRelay :: string where "SessionProtocolClientConnectRelay \<equiv> ''ConnectRelay''"
abbreviation (input) SessionProtocolClientGenKeyPair :: string where "SessionProtocolClientGenKeyPair \<equiv> ''GenKeyPair''"
abbreviation (input) SessionProtocolClientWaitAck :: string where "SessionProtocolClientWaitAck \<equiv> ''WaitAck''"
abbreviation (input) SessionProtocolClientE2EReady :: string where "SessionProtocolClientE2EReady \<equiv> ''E2EReady''"
abbreviation (input) SessionProtocolClientShowCode :: string where "SessionProtocolClientShowCode \<equiv> ''ShowCode''"
abbreviation (input) SessionProtocolClientWaitPairComplete :: string where "SessionProtocolClientWaitPairComplete \<equiv> ''WaitPairComplete''"
abbreviation (input) SessionProtocolClientPaired :: string where "SessionProtocolClientPaired \<equiv> ''Paired''"
abbreviation (input) SessionProtocolClientReconnect :: string where "SessionProtocolClientReconnect \<equiv> ''Reconnect''"
abbreviation (input) SessionProtocolClientSendAuth :: string where "SessionProtocolClientSendAuth \<equiv> ''SendAuth''"
abbreviation (input) SessionProtocolClientSessionActive :: string where "SessionProtocolClientSessionActive \<equiv> ''SessionActive''"
abbreviation (input) SessionProtocolClientRelayConnected :: string where "SessionProtocolClientRelayConnected \<equiv> ''RelayConnected''"
abbreviation (input) SessionProtocolClientPairDialing :: string where "SessionProtocolClientPairDialing \<equiv> ''PairDialing''"
abbreviation (input) SessionProtocolClientPairChecking :: string where "SessionProtocolClientPairChecking \<equiv> ''PairChecking''"
abbreviation (input) SessionProtocolClientAltActive :: string where "SessionProtocolClientAltActive \<equiv> ''AltActive''"
abbreviation (input) SessionProtocolClientRelayFallback :: string where "SessionProtocolClientRelayFallback \<equiv> ''RelayFallback''"

definition SessionProtocol_client_states :: "string list" where
  "SessionProtocol_client_states =
    [SessionProtocolClientIdle, SessionProtocolClientObtainBackchannelSecret,
     SessionProtocolClientConnectRelay, SessionProtocolClientGenKeyPair, SessionProtocolClientWaitAck,
     SessionProtocolClientE2EReady, SessionProtocolClientShowCode, SessionProtocolClientWaitPairComplete,
     SessionProtocolClientPaired, SessionProtocolClientReconnect, SessionProtocolClientSendAuth,
     SessionProtocolClientSessionActive, SessionProtocolClientRelayConnected,
     SessionProtocolClientPairDialing, SessionProtocolClientPairChecking, SessionProtocolClientAltActive,
     SessionProtocolClientRelayFallback]"

abbreviation (input) SessionProtocolRelayIdle :: string where "SessionProtocolRelayIdle \<equiv> ''Idle''"
abbreviation (input) SessionProtocolRelayBackendRegistered :: string where "SessionProtocolRelayBackendRegistered \<equiv> ''BackendRegistered''"
abbreviation (input) SessionProtocolRelayBridged :: string where "SessionProtocolRelayBridged \<equiv> ''Bridged''"

definition SessionProtocol_relay_states :: "string list" where
  "SessionProtocol_relay_states =
    [SessionProtocolRelayIdle, SessionProtocolRelayBackendRegistered, SessionProtocolRelayBridged]"

abbreviation (input) SessionProtocolMsgPairHello :: string where "SessionProtocolMsgPairHello \<equiv> ''pair_hello''"
abbreviation (input) SessionProtocolMsgPairHelloAck :: string where "SessionProtocolMsgPairHelloAck \<equiv> ''pair_hello_ack''"
abbreviation (input) SessionProtocolMsgPairConfirm :: string where "SessionProtocolMsgPairConfirm \<equiv> ''pair_confirm''"
abbreviation (input) SessionProtocolMsgPairComplete :: string where "SessionProtocolMsgPairComplete \<equiv> ''pair_complete''"
abbreviation (input) SessionProtocolMsgAuthRequest :: string where "SessionProtocolMsgAuthRequest \<equiv> ''auth_request''"
abbreviation (input) SessionProtocolMsgAuthOk :: string where "SessionProtocolMsgAuthOk \<equiv> ''auth_ok''"
abbreviation (input) SessionProtocolMsgCandidates :: string where "SessionProtocolMsgCandidates \<equiv> ''candidates''"
abbreviation (input) SessionProtocolMsgPairCheck :: string where "SessionProtocolMsgPairCheck \<equiv> ''pair_check''"
abbreviation (input) SessionProtocolMsgPairCheckAck :: string where "SessionProtocolMsgPairCheckAck \<equiv> ''pair_check_ack''"
abbreviation (input) SessionProtocolMsgPathPing :: string where "SessionProtocolMsgPathPing \<equiv> ''path_ping''"
abbreviation (input) SessionProtocolMsgPathPong :: string where "SessionProtocolMsgPathPong \<equiv> ''path_pong''"

definition SessionProtocol_message_types :: "string list" where
  "SessionProtocol_message_types =
    [SessionProtocolMsgPairHello, SessionProtocolMsgPairHelloAck, SessionProtocolMsgPairConfirm,
     SessionProtocolMsgPairComplete, SessionProtocolMsgAuthRequest, SessionProtocolMsgAuthOk,
     SessionProtocolMsgCandidates, SessionProtocolMsgPairCheck, SessionProtocolMsgPairCheckAck,
     SessionProtocolMsgPathPing, SessionProtocolMsgPathPong]"

abbreviation (input) SessionProtocolGuardTokenValid :: string where "SessionProtocolGuardTokenValid \<equiv> ''token_valid''"
abbreviation (input) SessionProtocolGuardTokenInvalid :: string where "SessionProtocolGuardTokenInvalid \<equiv> ''token_invalid''"
abbreviation (input) SessionProtocolGuardCodeCorrect :: string where "SessionProtocolGuardCodeCorrect \<equiv> ''code_correct''"
abbreviation (input) SessionProtocolGuardCodeWrong :: string where "SessionProtocolGuardCodeWrong \<equiv> ''code_wrong''"
abbreviation (input) SessionProtocolGuardDeviceKnown :: string where "SessionProtocolGuardDeviceKnown \<equiv> ''device_known''"
abbreviation (input) SessionProtocolGuardDeviceUnknown :: string where "SessionProtocolGuardDeviceUnknown \<equiv> ''device_unknown''"
abbreviation (input) SessionProtocolGuardNonceFresh :: string where "SessionProtocolGuardNonceFresh \<equiv> ''nonce_fresh''"
abbreviation (input) SessionProtocolGuardChallengeValid :: string where "SessionProtocolGuardChallengeValid \<equiv> ''challenge_valid''"
abbreviation (input) SessionProtocolGuardChallengeInvalid :: string where "SessionProtocolGuardChallengeInvalid \<equiv> ''challenge_invalid''"
abbreviation (input) SessionProtocolGuardAltEnabled :: string where "SessionProtocolGuardAltEnabled \<equiv> ''alt_enabled''"
abbreviation (input) SessionProtocolGuardAltDisabled :: string where "SessionProtocolGuardAltDisabled \<equiv> ''alt_disabled''"
abbreviation (input) SessionProtocolGuardLocalCandidatesAvailable :: string where "SessionProtocolGuardLocalCandidatesAvailable \<equiv> ''local_candidates_available''"
abbreviation (input) SessionProtocolGuardUnderMaxFailures :: string where "SessionProtocolGuardUnderMaxFailures \<equiv> ''under_max_failures''"
abbreviation (input) SessionProtocolGuardAtMaxFailures :: string where "SessionProtocolGuardAtMaxFailures \<equiv> ''at_max_failures''"

definition SessionProtocol_guards :: "string list" where
  "SessionProtocol_guards =
    [SessionProtocolGuardTokenValid, SessionProtocolGuardTokenInvalid, SessionProtocolGuardCodeCorrect,
     SessionProtocolGuardCodeWrong, SessionProtocolGuardDeviceKnown, SessionProtocolGuardDeviceUnknown,
     SessionProtocolGuardNonceFresh, SessionProtocolGuardChallengeValid,
     SessionProtocolGuardChallengeInvalid, SessionProtocolGuardAltEnabled,
     SessionProtocolGuardAltDisabled, SessionProtocolGuardLocalCandidatesAvailable,
     SessionProtocolGuardUnderMaxFailures, SessionProtocolGuardAtMaxFailures]"

abbreviation (input) SessionProtocolActionActivateLan :: string where "SessionProtocolActionActivateLan \<equiv> ''activate_lan''"
abbreviation (input) SessionProtocolActionBridgeStreams :: string where "SessionProtocolActionBridgeStreams \<equiv> ''bridge_streams''"
abbreviation (input) SessionProtocolActionDeriveSecret :: string where "SessionProtocolActionDeriveSecret \<equiv> ''derive_secret''"
abbreviation (input) SessionProtocolActionDialCandidate :: string where "SessionProtocolActionDialCandidate \<equiv> ''dial_candidate''"
abbreviation (input) SessionProtocolActionFallbackToRelay :: string where "SessionProtocolActionFallbackToRelay \<equiv> ''fallback_to_relay''"
abbreviation (input) SessionProtocolActionGenerateToken :: string where "SessionProtocolActionGenerateToken \<equiv> ''generate_token''"
abbreviation (input) SessionProtocolActionRegisterRelay :: string where "SessionProtocolActionRegisterRelay \<equiv> ''register_relay''"
abbreviation (input) SessionProtocolActionResetFailures :: string where "SessionProtocolActionResetFailures \<equiv> ''reset_failures''"
abbreviation (input) SessionProtocolActionSendPairHello :: string where "SessionProtocolActionSendPairHello \<equiv> ''send_pair_hello''"
abbreviation (input) SessionProtocolActionStoreDevice :: string where "SessionProtocolActionStoreDevice \<equiv> ''store_device''"
abbreviation (input) SessionProtocolActionStoreSecret :: string where "SessionProtocolActionStoreSecret \<equiv> ''store_secret''"
abbreviation (input) SessionProtocolActionUnbridge :: string where "SessionProtocolActionUnbridge \<equiv> ''unbridge''"
abbreviation (input) SessionProtocolActionVerifyDevice :: string where "SessionProtocolActionVerifyDevice \<equiv> ''verify_device''"

definition SessionProtocol_actions :: "string list" where
  "SessionProtocol_actions =
    [SessionProtocolActionActivateLan, SessionProtocolActionBridgeStreams,
     SessionProtocolActionDeriveSecret, SessionProtocolActionDialCandidate,
     SessionProtocolActionFallbackToRelay, SessionProtocolActionGenerateToken,
     SessionProtocolActionRegisterRelay, SessionProtocolActionResetFailures,
     SessionProtocolActionSendPairHello, SessionProtocolActionStoreDevice,
     SessionProtocolActionStoreSecret, SessionProtocolActionUnbridge, SessionProtocolActionVerifyDevice]"

abbreviation (input) SessionProtocolEventAltDatagram :: string where "SessionProtocolEventAltDatagram \<equiv> ''alt_datagram''"
abbreviation (input) SessionProtocolEventAltError :: string where "SessionProtocolEventAltError \<equiv> ''alt_error''"
abbreviation (input) SessionProtocolEventAltStreamData :: string where "SessionProtocolEventAltStreamData \<equiv> ''alt_stream_data''"
abbreviation (input) SessionProtocolEventAltStreamError :: string where "SessionProtocolEventAltStreamError \<equiv> ''alt_stream_error''"
abbreviation (input) SessionProtocolEventAppClose :: string where "SessionProtocolEventAppClose \<equiv> ''app_close''"
abbreviation (input) SessionProtocolEventAppForceFallback :: string where "SessionProtocolEventAppForceFallback \<equiv> ''app_force_fallback''"
abbreviation (input) SessionProtocolEventAppLaunch :: string where "SessionProtocolEventAppLaunch \<equiv> ''app_launch''"
abbreviation (input) SessionProtocolEventAppRecv :: string where "SessionProtocolEventAppRecv \<equiv> ''app_recv''"
abbreviation (input) SessionProtocolEventAppRecvDatagram :: string where "SessionProtocolEventAppRecvDatagram \<equiv> ''app_recv_datagram''"
abbreviation (input) SessionProtocolEventAppSend :: string where "SessionProtocolEventAppSend \<equiv> ''app_send''"
abbreviation (input) SessionProtocolEventAppSendDatagram :: string where "SessionProtocolEventAppSendDatagram \<equiv> ''app_send_datagram''"
abbreviation (input) SessionProtocolEventBackchannelReceived :: string where "SessionProtocolEventBackchannelReceived \<equiv> ''backchannel_received''"
abbreviation (input) SessionProtocolEventBackendDisconnect :: string where "SessionProtocolEventBackendDisconnect \<equiv> ''backend_disconnect''"
abbreviation (input) SessionProtocolEventBackendRegister :: string where "SessionProtocolEventBackendRegister \<equiv> ''backend_register''"
abbreviation (input) SessionProtocolEventBackoffExpired :: string where "SessionProtocolEventBackoffExpired \<equiv> ''backoff_expired''"
abbreviation (input) SessionProtocolEventCandidatesChanged :: string where "SessionProtocolEventCandidatesChanged \<equiv> ''candidates_changed''"
abbreviation (input) SessionProtocolEventCandidatesGathered :: string where "SessionProtocolEventCandidatesGathered \<equiv> ''candidates_gathered''"
abbreviation (input) SessionProtocolEventCandidatesRefreshTick :: string where "SessionProtocolEventCandidatesRefreshTick \<equiv> ''candidates_refresh_tick''"
abbreviation (input) SessionProtocolEventCandidatesTimeout :: string where "SessionProtocolEventCandidatesTimeout \<equiv> ''candidates_timeout''"
abbreviation (input) SessionProtocolEventCheckCode :: string where "SessionProtocolEventCheckCode \<equiv> ''check_code''"
abbreviation (input) SessionProtocolEventCliCodeEntered :: string where "SessionProtocolEventCliCodeEntered \<equiv> ''cli_code_entered''"
abbreviation (input) SessionProtocolEventCliInitPair :: string where "SessionProtocolEventCliInitPair \<equiv> ''cli_init_pair''"
abbreviation (input) SessionProtocolEventClientConnect :: string where "SessionProtocolEventClientConnect \<equiv> ''client_connect''"
abbreviation (input) SessionProtocolEventClientDisconnect :: string where "SessionProtocolEventClientDisconnect \<equiv> ''client_disconnect''"
abbreviation (input) SessionProtocolEventCodeDisplayed :: string where "SessionProtocolEventCodeDisplayed \<equiv> ''code_displayed''"
abbreviation (input) SessionProtocolEventDialFailed :: string where "SessionProtocolEventDialFailed \<equiv> ''dial_failed''"
abbreviation (input) SessionProtocolEventDialOk :: string where "SessionProtocolEventDialOk \<equiv> ''dial_ok''"
abbreviation (input) SessionProtocolEventDisconnect :: string where "SessionProtocolEventDisconnect \<equiv> ''disconnect''"
abbreviation (input) SessionProtocolEventEcdhComplete :: string where "SessionProtocolEventEcdhComplete \<equiv> ''ecdh_complete''"
abbreviation (input) SessionProtocolEventFinalise :: string where "SessionProtocolEventFinalise \<equiv> ''finalise''"
abbreviation (input) SessionProtocolEventKeyPairGenerated :: string where "SessionProtocolEventKeyPairGenerated \<equiv> ''key_pair_generated''"
abbreviation (input) SessionProtocolEventPairCheckOk :: string where "SessionProtocolEventPairCheckOk \<equiv> ''pair_check_ok''"
abbreviation (input) SessionProtocolEventPingTick :: string where "SessionProtocolEventPingTick \<equiv> ''ping_tick''"
abbreviation (input) SessionProtocolEventPingTimeout :: string where "SessionProtocolEventPingTimeout \<equiv> ''ping_timeout''"
abbreviation (input) SessionProtocolEventRecvAuthOk :: string where "SessionProtocolEventRecvAuthOk \<equiv> ''recv_auth_ok''"
abbreviation (input) SessionProtocolEventRecvAuthRequest :: string where "SessionProtocolEventRecvAuthRequest \<equiv> ''recv_auth_request''"
abbreviation (input) SessionProtocolEventRecvCandidates :: string where "SessionProtocolEventRecvCandidates \<equiv> ''recv_candidates''"
abbreviation (input) SessionProtocolEventRecvPairCheck :: string where "SessionProtocolEventRecvPairCheck \<equiv> ''recv_pair_check''"
abbreviation (input) SessionProtocolEventRecvPairCheckAck :: string where "SessionProtocolEventRecvPairCheckAck \<equiv> ''recv_pair_check_ack''"
abbreviation (input) SessionProtocolEventRecvPairComplete :: string where "SessionProtocolEventRecvPairComplete \<equiv> ''recv_pair_complete''"
abbreviation (input) SessionProtocolEventRecvPairConfirm :: string where "SessionProtocolEventRecvPairConfirm \<equiv> ''recv_pair_confirm''"
abbreviation (input) SessionProtocolEventRecvPairHello :: string where "SessionProtocolEventRecvPairHello \<equiv> ''recv_pair_hello''"
abbreviation (input) SessionProtocolEventRecvPairHelloAck :: string where "SessionProtocolEventRecvPairHelloAck \<equiv> ''recv_pair_hello_ack''"
abbreviation (input) SessionProtocolEventRecvPathPing :: string where "SessionProtocolEventRecvPathPing \<equiv> ''recv_path_ping''"
abbreviation (input) SessionProtocolEventRecvPathPong :: string where "SessionProtocolEventRecvPathPong \<equiv> ''recv_path_pong''"
abbreviation (input) SessionProtocolEventRelayConnected :: string where "SessionProtocolEventRelayConnected \<equiv> ''relay_connected''"
abbreviation (input) SessionProtocolEventRelayDatagram :: string where "SessionProtocolEventRelayDatagram \<equiv> ''relay_datagram''"
abbreviation (input) SessionProtocolEventRelayOk :: string where "SessionProtocolEventRelayOk \<equiv> ''relay_ok''"
abbreviation (input) SessionProtocolEventRelayRegistered :: string where "SessionProtocolEventRelayRegistered \<equiv> ''relay_registered''"
abbreviation (input) SessionProtocolEventRelayStreamData :: string where "SessionProtocolEventRelayStreamData \<equiv> ''relay_stream_data''"
abbreviation (input) SessionProtocolEventRelayStreamError :: string where "SessionProtocolEventRelayStreamError \<equiv> ''relay_stream_error''"
abbreviation (input) SessionProtocolEventSecretParsed :: string where "SessionProtocolEventSecretParsed \<equiv> ''secret_parsed''"
abbreviation (input) SessionProtocolEventSessionEstablished :: string where "SessionProtocolEventSessionEstablished \<equiv> ''session_established''"
abbreviation (input) SessionProtocolEventSignalCodeDisplay :: string where "SessionProtocolEventSignalCodeDisplay \<equiv> ''signal_code_display''"
abbreviation (input) SessionProtocolEventTokenCreated :: string where "SessionProtocolEventTokenCreated \<equiv> ''token_created''"
abbreviation (input) SessionProtocolEventVerify :: string where "SessionProtocolEventVerify \<equiv> ''verify''"
abbreviation (input) SessionProtocolEventVerifyTimeout :: string where "SessionProtocolEventVerifyTimeout \<equiv> ''verify_timeout''"

definition SessionProtocol_events :: "string list" where
  "SessionProtocol_events =
    [SessionProtocolEventAltDatagram, SessionProtocolEventAltError, SessionProtocolEventAltStreamData,
     SessionProtocolEventAltStreamError, SessionProtocolEventAppClose,
     SessionProtocolEventAppForceFallback, SessionProtocolEventAppLaunch, SessionProtocolEventAppRecv,
     SessionProtocolEventAppRecvDatagram, SessionProtocolEventAppSend,
     SessionProtocolEventAppSendDatagram, SessionProtocolEventBackchannelReceived,
     SessionProtocolEventBackendDisconnect, SessionProtocolEventBackendRegister,
     SessionProtocolEventBackoffExpired, SessionProtocolEventCandidatesChanged,
     SessionProtocolEventCandidatesGathered, SessionProtocolEventCandidatesRefreshTick,
     SessionProtocolEventCandidatesTimeout, SessionProtocolEventCheckCode,
     SessionProtocolEventCliCodeEntered, SessionProtocolEventCliInitPair,
     SessionProtocolEventClientConnect, SessionProtocolEventClientDisconnect,
     SessionProtocolEventCodeDisplayed, SessionProtocolEventDialFailed, SessionProtocolEventDialOk,
     SessionProtocolEventDisconnect, SessionProtocolEventEcdhComplete, SessionProtocolEventFinalise,
     SessionProtocolEventKeyPairGenerated, SessionProtocolEventPairCheckOk, SessionProtocolEventPingTick,
     SessionProtocolEventPingTimeout, SessionProtocolEventRecvAuthOk, SessionProtocolEventRecvAuthRequest,
     SessionProtocolEventRecvCandidates, SessionProtocolEventRecvPairCheck,
     SessionProtocolEventRecvPairCheckAck, SessionProtocolEventRecvPairComplete,
     SessionProtocolEventRecvPairConfirm, SessionProtocolEventRecvPairHello,
     SessionProtocolEventRecvPairHelloAck, SessionProtocolEventRecvPathPing,
     SessionProtocolEventRecvPathPong, SessionProtocolEventRelayConnected,
     SessionProtocolEventRelayDatagram, SessionProtocolEventRelayOk, SessionProtocolEventRelayRegistered,
     SessionProtocolEventRelayStreamData, SessionProtocolEventRelayStreamError,
     SessionProtocolEventSecretParsed, SessionProtocolEventSessionEstablished,
     SessionProtocolEventSignalCodeDisplay, SessionProtocolEventTokenCreated, SessionProtocolEventVerify,
     SessionProtocolEventVerifyTimeout]"

abbreviation (input) SessionProtocolCmdWriteActiveStream :: string where "SessionProtocolCmdWriteActiveStream \<equiv> ''write_active_stream''"
abbreviation (input) SessionProtocolCmdSendActiveDatagram :: string where "SessionProtocolCmdSendActiveDatagram \<equiv> ''send_active_datagram''"
abbreviation (input) SessionProtocolCmdSendPathPing :: string where "SessionProtocolCmdSendPathPing \<equiv> ''send_path_ping''"
abbreviation (input) SessionProtocolCmdSendPathPong :: string where "SessionProtocolCmdSendPathPong \<equiv> ''send_path_pong''"
abbreviation (input) SessionProtocolCmdSendCandidates :: string where "SessionProtocolCmdSendCandidates \<equiv> ''send_candidates''"
abbreviation (input) SessionProtocolCmdSendPairCheck :: string where "SessionProtocolCmdSendPairCheck \<equiv> ''send_pair_check''"
abbreviation (input) SessionProtocolCmdSendPairCheckAck :: string where "SessionProtocolCmdSendPairCheckAck \<equiv> ''send_pair_check_ack''"
abbreviation (input) SessionProtocolCmdDialCandidate :: string where "SessionProtocolCmdDialCandidate \<equiv> ''dial_candidate''"
abbreviation (input) SessionProtocolCmdDeliverRecv :: string where "SessionProtocolCmdDeliverRecv \<equiv> ''deliver_recv''"
abbreviation (input) SessionProtocolCmdDeliverRecvError :: string where "SessionProtocolCmdDeliverRecvError \<equiv> ''deliver_recv_error''"
abbreviation (input) SessionProtocolCmdDeliverRecvDatagram :: string where "SessionProtocolCmdDeliverRecvDatagram \<equiv> ''deliver_recv_datagram''"
abbreviation (input) SessionProtocolCmdStartAltStreamReader :: string where "SessionProtocolCmdStartAltStreamReader \<equiv> ''start_alt_stream_reader''"
abbreviation (input) SessionProtocolCmdStopAltStreamReader :: string where "SessionProtocolCmdStopAltStreamReader \<equiv> ''stop_alt_stream_reader''"
abbreviation (input) SessionProtocolCmdStartAltDgReader :: string where "SessionProtocolCmdStartAltDgReader \<equiv> ''start_alt_dg_reader''"
abbreviation (input) SessionProtocolCmdStopAltDgReader :: string where "SessionProtocolCmdStopAltDgReader \<equiv> ''stop_alt_dg_reader''"
abbreviation (input) SessionProtocolCmdStartMonitor :: string where "SessionProtocolCmdStartMonitor \<equiv> ''start_monitor''"
abbreviation (input) SessionProtocolCmdStopMonitor :: string where "SessionProtocolCmdStopMonitor \<equiv> ''stop_monitor''"
abbreviation (input) SessionProtocolCmdStartPongTimeout :: string where "SessionProtocolCmdStartPongTimeout \<equiv> ''start_pong_timeout''"
abbreviation (input) SessionProtocolCmdCancelPongTimeout :: string where "SessionProtocolCmdCancelPongTimeout \<equiv> ''cancel_pong_timeout''"
abbreviation (input) SessionProtocolCmdStartBackoffTimer :: string where "SessionProtocolCmdStartBackoffTimer \<equiv> ''start_backoff_timer''"
abbreviation (input) SessionProtocolCmdCloseAltPath :: string where "SessionProtocolCmdCloseAltPath \<equiv> ''close_alt_path''"
abbreviation (input) SessionProtocolCmdSignalAltReady :: string where "SessionProtocolCmdSignalAltReady \<equiv> ''signal_alt_ready''"
abbreviation (input) SessionProtocolCmdResetAltReady :: string where "SessionProtocolCmdResetAltReady \<equiv> ''reset_alt_ready''"
abbreviation (input) SessionProtocolCmdSetCryptoDatagram :: string where "SessionProtocolCmdSetCryptoDatagram \<equiv> ''set_crypto_datagram''"

definition SessionProtocol_commands :: "string list" where
  "SessionProtocol_commands =
    [SessionProtocolCmdWriteActiveStream, SessionProtocolCmdSendActiveDatagram,
     SessionProtocolCmdSendPathPing, SessionProtocolCmdSendPathPong, SessionProtocolCmdSendCandidates,
     SessionProtocolCmdSendPairCheck, SessionProtocolCmdSendPairCheckAck, SessionProtocolCmdDialCandidate,
     SessionProtocolCmdDeliverRecv, SessionProtocolCmdDeliverRecvError,
     SessionProtocolCmdDeliverRecvDatagram, SessionProtocolCmdStartAltStreamReader,
     SessionProtocolCmdStopAltStreamReader, SessionProtocolCmdStartAltDgReader,
     SessionProtocolCmdStopAltDgReader, SessionProtocolCmdStartMonitor, SessionProtocolCmdStopMonitor,
     SessionProtocolCmdStartPongTimeout, SessionProtocolCmdCancelPongTimeout,
     SessionProtocolCmdStartBackoffTimer, SessionProtocolCmdCloseAltPath,
     SessionProtocolCmdSignalAltReady, SessionProtocolCmdResetAltReady,
     SessionProtocolCmdSetCryptoDatagram]"


section \<open>The table\<close>

definition SessionProtocol_backend_transitions :: "Transition list" where
  "SessionProtocol_backend_transitions =
    [(transition ''Idle'' ''GenerateToken'' (Internal ''cli_init_pair''))\<lparr>Do := ''generate_token'',
        Updates := [\<lparr>Var = ''current_token'', Expr = ''\"tok_1\"''\<rparr>,
          \<lparr>Var = ''active_tokens'', Expr = (''active_tokens '' @ CHR 0x5C # ''union {\"tok_1\"}'')\<rparr>]\<rparr>,
     (transition ''GenerateToken'' ''RegisterRelay'' (Internal ''token_created''))\<lparr>Do := ''register_relay''\<rparr>,
     (transition ''RegisterRelay'' ''WaitingForClient'' (Internal ''relay_registered''))\<lparr>
        Updates := [\<lparr>Var = ''secret_published'', Expr = ''TRUE''\<rparr>]\<rparr>,
     (transition ''WaitingForClient'' ''DeriveSecret'' (Recv ''pair_hello''))\<lparr>Guard := ''token_valid'', Do := ''derive_secret'',
        Updates := [\<lparr>Var = ''received_client_pub'', Expr = ''recv_msg.pubkey''\<rparr>,
          \<lparr>Var = ''backend_ecdh_pub'', Expr = ''\"backend_pub\"''\<rparr>,
          \<lparr>Var = ''backend_shared_key'', Expr = ''DeriveKey(\"backend_pub\", recv_msg.pubkey)''\<rparr>,
          \<lparr>Var = ''backend_code'', Expr = ''DeriveCode(\"backend_pub\", recv_msg.pubkey)''\<rparr>]\<rparr>,
     (transition ''WaitingForClient'' ''Idle'' (Recv ''pair_hello''))\<lparr>Guard := ''token_invalid''\<rparr>,
     (transition ''DeriveSecret'' ''SendAck'' (Internal ''ecdh_complete''))\<lparr>Sends := [\<lparr>SendTo = ''client'', SendMsg = ''pair_hello_ack'', Fields = [(''pubkey'', ''backend_ecdh_pub'')]\<rparr>]\<rparr>,
     (transition ''SendAck'' ''WaitingForCode'' (Internal ''signal_code_display''))\<lparr>Sends := [\<lparr>SendTo = ''client'', SendMsg = ''pair_confirm'', Fields = []\<rparr>]\<rparr>,
     (transition ''WaitingForCode'' ''ValidateCode'' (Internal ''cli_code_entered''))\<lparr>
        Updates := [\<lparr>Var = ''received_code'', Expr = ''cli_entered_code''\<rparr>]\<rparr>,
     (transition ''ValidateCode'' ''StorePaired'' (Internal ''check_code''))\<lparr>Guard := ''code_correct''\<rparr>,
     (transition ''ValidateCode'' ''Idle'' (Internal ''check_code''))\<lparr>Guard := ''code_wrong'',
        Updates := [\<lparr>Var = ''code_attempts'', Expr = ''code_attempts + 1''\<rparr>]\<rparr>,
     (transition ''StorePaired'' ''Paired'' (Internal ''finalise''))\<lparr>Do := ''store_device'', Sends := [\<lparr>SendTo = ''client'', SendMsg = ''pair_complete'', Fields = [(''key'', ''backend_shared_key''), (''secret'', ''\"dev_secret_1\"'')]\<rparr>],
        Updates := [\<lparr>Var = ''device_secret'', Expr = ''\"dev_secret_1\"''\<rparr>,
          \<lparr>Var = ''paired_devices'', Expr = (''paired_devices '' @ CHR 0x5C # ''union {\"device_1\"}'')\<rparr>,
          \<lparr>Var = ''active_tokens'', Expr = (''active_tokens '' @ CHR 0x5C # '' {current_token}'')\<rparr>,
          \<lparr>Var = ''used_tokens'', Expr = (''used_tokens '' @ CHR 0x5C # ''union {current_token}'')\<rparr>]\<rparr>,
     (transition ''Paired'' ''AuthCheck'' (Recv ''auth_request''))\<lparr>
        Updates := [\<lparr>Var = ''received_device_id'', Expr = ''recv_msg.device_id''\<rparr>,
          \<lparr>Var = ''received_auth_nonce'', Expr = ''recv_msg.nonce''\<rparr>]\<rparr>,
     (transition ''AuthCheck'' ''SessionActive'' (Internal ''verify''))\<lparr>Guard := ''device_known'', Do := ''verify_device'', Sends := [\<lparr>SendTo = ''client'', SendMsg = ''auth_ok'', Fields = []\<rparr>],
        Updates := [\<lparr>Var = ''auth_nonces_used'', Expr = (''auth_nonces_used '' @ CHR 0x5C # ''union {received_auth_nonce}'')\<rparr>]\<rparr>,
     (transition ''AuthCheck'' ''Idle'' (Internal ''verify''))\<lparr>Guard := ''device_unknown''\<rparr>,
     (transition ''SessionActive'' ''RelayConnected'' (Internal ''session_established'')),
     (transition ''RelayConnected'' ''CandidatesAdvertised'' (Internal ''candidates_gathered''))\<lparr>Sends := [\<lparr>SendTo = ''client'', SendMsg = ''candidates'', Fields = [(''challenge'', ''local_pair_check_challenge''), (''set'', ''local_candidates'')]\<rparr>]\<rparr>,
     (transition ''CandidatesAdvertised'' ''AltActive'' (Recv ''pair_check''))\<lparr>Guard := ''challenge_valid'', Do := ''activate_lan'', Sends := [\<lparr>SendTo = ''client'', SendMsg = ''pair_check_ack'', Fields = []\<rparr>],
        Updates := [\<lparr>Var = ''ping_failures'', Expr = ''0''\<rparr>,
          \<lparr>Var = ''backoff_level'', Expr = ''0''\<rparr>,
          \<lparr>Var = ''b_active_path'', Expr = ''\"alt\"''\<rparr>,
          \<lparr>Var = ''b_dispatcher_path'', Expr = ''\"alt\"''\<rparr>,
          \<lparr>Var = ''monitor_target'', Expr = ''\"alt\"''\<rparr>,
          \<lparr>Var = ''alt_signal'', Expr = ''\"ready\"''\<rparr>]\<rparr>,
     (transition ''CandidatesAdvertised'' ''RelayConnected'' (Recv ''pair_check''))\<lparr>Guard := ''challenge_invalid''\<rparr>,
     (transition ''CandidatesAdvertised'' ''RelayBackoff'' (Internal ''candidates_timeout''))\<lparr>
        Updates := [\<lparr>Var = ''backoff_level'', Expr = ''Min(backoff_level + 1, max_backoff_level)''\<rparr>,
          \<lparr>Var = ''alt_signal'', Expr = ''\"pending\"''\<rparr>]\<rparr>,
     (transition ''AltActive'' ''AltActive'' (Internal ''ping_tick''))\<lparr>Sends := [\<lparr>SendTo = ''client'', SendMsg = ''path_ping'', Fields = []\<rparr>]\<rparr>,
     (transition ''AltActive'' ''AltDegraded'' (Internal ''ping_timeout''))\<lparr>
        Updates := [\<lparr>Var = ''ping_failures'', Expr = ''1''\<rparr>]\<rparr>,
     (transition ''AltDegraded'' ''AltDegraded'' (Internal ''ping_tick''))\<lparr>Sends := [\<lparr>SendTo = ''client'', SendMsg = ''path_ping'', Fields = []\<rparr>]\<rparr>,
     (transition ''AltActive'' ''RelayBackoff'' (Internal ''alt_stream_error''))\<lparr>Do := ''fallback_to_relay'',
        Updates := [\<lparr>Var = ''backoff_level'', Expr = ''Min(backoff_level + 1, max_backoff_level)''\<rparr>,
          \<lparr>Var = ''b_active_path'', Expr = ''\"relay\"''\<rparr>,
          \<lparr>Var = ''b_dispatcher_path'', Expr = ''\"relay\"''\<rparr>,
          \<lparr>Var = ''monitor_target'', Expr = ''\"none\"''\<rparr>,
          \<lparr>Var = ''alt_signal'', Expr = ''\"pending\"''\<rparr>,
          \<lparr>Var = ''ping_failures'', Expr = ''0''\<rparr>]\<rparr>,
     (transition ''AltDegraded'' ''RelayBackoff'' (Internal ''alt_stream_error''))\<lparr>Do := ''fallback_to_relay'',
        Updates := [\<lparr>Var = ''backoff_level'', Expr = ''Min(backoff_level + 1, max_backoff_level)''\<rparr>,
          \<lparr>Var = ''b_active_path'', Expr = ''\"relay\"''\<rparr>,
          \<lparr>Var = ''b_dispatcher_path'', Expr = ''\"relay\"''\<rparr>,
          \<lparr>Var = ''monitor_target'', Expr = ''\"none\"''\<rparr>,
          \<lparr>Var = ''alt_signal'', Expr = ''\"pending\"''\<rparr>,
          \<lparr>Var = ''ping_failures'', Expr = ''0''\<rparr>]\<rparr>,
     (transition ''AltDegraded'' ''AltActive'' (Recv ''path_pong''))\<lparr>Do := ''reset_failures'',
        Updates := [\<lparr>Var = ''ping_failures'', Expr = ''0''\<rparr>]\<rparr>,
     (transition ''AltDegraded'' ''AltDegraded'' (Internal ''ping_timeout''))\<lparr>Guard := ''under_max_failures'',
        Updates := [\<lparr>Var = ''ping_failures'', Expr = ''ping_failures + 1''\<rparr>]\<rparr>,
     (transition ''AltDegraded'' ''RelayBackoff'' (Internal ''ping_timeout''))\<lparr>Guard := ''at_max_failures'', Do := ''fallback_to_relay'',
        Updates := [\<lparr>Var = ''backoff_level'', Expr = ''Min(backoff_level + 1, max_backoff_level)''\<rparr>,
          \<lparr>Var = ''b_active_path'', Expr = ''\"relay\"''\<rparr>,
          \<lparr>Var = ''b_dispatcher_path'', Expr = ''\"relay\"''\<rparr>,
          \<lparr>Var = ''monitor_target'', Expr = ''\"none\"''\<rparr>,
          \<lparr>Var = ''alt_signal'', Expr = ''\"pending\"''\<rparr>,
          \<lparr>Var = ''ping_failures'', Expr = ''0''\<rparr>]\<rparr>,
     (transition ''RelayBackoff'' ''CandidatesAdvertised'' (Internal ''backoff_expired''))\<lparr>Sends := [\<lparr>SendTo = ''client'', SendMsg = ''candidates'', Fields = [(''challenge'', ''local_pair_check_challenge''), (''set'', ''local_candidates'')]\<rparr>]\<rparr>,
     (transition ''RelayBackoff'' ''CandidatesAdvertised'' (Internal ''candidates_changed''))\<lparr>Sends := [\<lparr>SendTo = ''client'', SendMsg = ''candidates'', Fields = [(''challenge'', ''local_pair_check_challenge''), (''set'', ''local_candidates'')]\<rparr>],
        Updates := [\<lparr>Var = ''backoff_level'', Expr = ''0''\<rparr>]\<rparr>,
     (transition ''RelayConnected'' ''CandidatesAdvertised'' (Internal ''candidates_refresh_tick''))\<lparr>Guard := ''local_candidates_available'', Sends := [\<lparr>SendTo = ''client'', SendMsg = ''candidates'', Fields = [(''challenge'', ''local_pair_check_challenge''), (''set'', ''local_candidates'')]\<rparr>]\<rparr>,
     (transition ''CandidatesAdvertised'' ''RelayConnected'' (Internal ''app_force_fallback''))\<lparr>
        Updates := [\<lparr>Var = ''alt_signal'', Expr = ''\"pending\"''\<rparr>]\<rparr>,
     (transition ''AltActive'' ''RelayBackoff'' (Internal ''app_force_fallback''))\<lparr>Do := ''fallback_to_relay'',
        Updates := [\<lparr>Var = ''backoff_level'', Expr = ''Min(backoff_level + 1, max_backoff_level)''\<rparr>,
          \<lparr>Var = ''b_active_path'', Expr = ''\"relay\"''\<rparr>,
          \<lparr>Var = ''b_dispatcher_path'', Expr = ''\"relay\"''\<rparr>,
          \<lparr>Var = ''monitor_target'', Expr = ''\"none\"''\<rparr>,
          \<lparr>Var = ''alt_signal'', Expr = ''\"pending\"''\<rparr>,
          \<lparr>Var = ''ping_failures'', Expr = ''0''\<rparr>]\<rparr>,
     (transition ''AltDegraded'' ''RelayBackoff'' (Internal ''app_force_fallback''))\<lparr>Do := ''fallback_to_relay'',
        Updates := [\<lparr>Var = ''backoff_level'', Expr = ''Min(backoff_level + 1, max_backoff_level)''\<rparr>,
          \<lparr>Var = ''b_active_path'', Expr = ''\"relay\"''\<rparr>,
          \<lparr>Var = ''b_dispatcher_path'', Expr = ''\"relay\"''\<rparr>,
          \<lparr>Var = ''monitor_target'', Expr = ''\"none\"''\<rparr>,
          \<lparr>Var = ''alt_signal'', Expr = ''\"pending\"''\<rparr>,
          \<lparr>Var = ''ping_failures'', Expr = ''0''\<rparr>]\<rparr>,
     (transition ''RelayConnected'' ''Paired'' (Internal ''disconnect'')),
     (transition ''RelayConnected'' ''RelayConnected'' (Internal ''app_send'')),
     (transition ''CandidatesAdvertised'' ''CandidatesAdvertised'' (Internal ''app_send'')),
     (transition ''AltActive'' ''AltActive'' (Internal ''app_send'')),
     (transition ''AltDegraded'' ''AltDegraded'' (Internal ''app_send'')),
     (transition ''RelayBackoff'' ''RelayBackoff'' (Internal ''app_send'')),
     (transition ''RelayConnected'' ''RelayConnected'' (Internal ''relay_stream_data'')),
     (transition ''CandidatesAdvertised'' ''CandidatesAdvertised'' (Internal ''relay_stream_data'')),
     (transition ''AltActive'' ''AltActive'' (Internal ''relay_stream_data'')),
     (transition ''AltDegraded'' ''AltDegraded'' (Internal ''relay_stream_data'')),
     (transition ''RelayBackoff'' ''RelayBackoff'' (Internal ''relay_stream_data'')),
     (transition ''RelayConnected'' ''RelayConnected'' (Internal ''relay_stream_error'')),
     (transition ''CandidatesAdvertised'' ''CandidatesAdvertised'' (Internal ''relay_stream_error'')),
     (transition ''AltActive'' ''AltActive'' (Internal ''relay_stream_error'')),
     (transition ''AltDegraded'' ''AltDegraded'' (Internal ''relay_stream_error'')),
     (transition ''RelayBackoff'' ''RelayBackoff'' (Internal ''relay_stream_error'')),
     (transition ''RelayConnected'' ''RelayConnected'' (Internal ''app_send_datagram'')),
     (transition ''CandidatesAdvertised'' ''CandidatesAdvertised'' (Internal ''app_send_datagram'')),
     (transition ''AltActive'' ''AltActive'' (Internal ''app_send_datagram'')),
     (transition ''AltDegraded'' ''AltDegraded'' (Internal ''app_send_datagram'')),
     (transition ''RelayBackoff'' ''RelayBackoff'' (Internal ''app_send_datagram'')),
     (transition ''RelayConnected'' ''RelayConnected'' (Internal ''relay_datagram'')),
     (transition ''CandidatesAdvertised'' ''CandidatesAdvertised'' (Internal ''relay_datagram'')),
     (transition ''AltActive'' ''AltActive'' (Internal ''relay_datagram'')),
     (transition ''AltDegraded'' ''AltDegraded'' (Internal ''relay_datagram'')),
     (transition ''RelayBackoff'' ''RelayBackoff'' (Internal ''relay_datagram'')),
     (transition ''AltActive'' ''AltActive'' (Internal ''alt_stream_data'')),
     (transition ''AltDegraded'' ''AltDegraded'' (Internal ''alt_stream_data'')),
     (transition ''AltActive'' ''AltActive'' (Internal ''alt_datagram'')),
     (transition ''AltDegraded'' ''AltDegraded'' (Internal ''alt_datagram''))]"

definition SessionProtocol_client_transitions :: "Transition list" where
  "SessionProtocol_client_transitions =
    [(transition ''Idle'' ''ObtainBackchannelSecret'' (Internal ''backchannel_received'')),
     (transition ''ObtainBackchannelSecret'' ''ConnectRelay'' (Internal ''secret_parsed'')),
     (transition ''ConnectRelay'' ''GenKeyPair'' (Internal ''relay_connected'')),
     (transition ''GenKeyPair'' ''WaitAck'' (Internal ''key_pair_generated''))\<lparr>Do := ''send_pair_hello'', Sends := [\<lparr>SendTo = ''backend'', SendMsg = ''pair_hello'', Fields = [(''pubkey'', ''\"client_pub\"''), (''token'', ''current_token'')]\<rparr>]\<rparr>,
     (transition ''WaitAck'' ''E2EReady'' (Recv ''pair_hello_ack''))\<lparr>Do := ''derive_secret'',
        Updates := [\<lparr>Var = ''received_backend_pub'', Expr = ''recv_msg.pubkey''\<rparr>,
          \<lparr>Var = ''client_shared_key'', Expr = ''DeriveKey(\"client_pub\", recv_msg.pubkey)''\<rparr>]\<rparr>,
     (transition ''E2EReady'' ''ShowCode'' (Recv ''pair_confirm''))\<lparr>
        Updates := [\<lparr>Var = ''client_code'', Expr = ''DeriveCode(received_backend_pub, \"client_pub\")''\<rparr>]\<rparr>,
     (transition ''ShowCode'' ''WaitPairComplete'' (Internal ''code_displayed'')),
     (transition ''WaitPairComplete'' ''Paired'' (Recv ''pair_complete''))\<lparr>Do := ''store_secret''\<rparr>,
     (transition ''Paired'' ''Reconnect'' (Internal ''app_launch'')),
     (transition ''Reconnect'' ''SendAuth'' (Internal ''relay_connected''))\<lparr>Sends := [\<lparr>SendTo = ''backend'', SendMsg = ''auth_request'', Fields = [(''device_id'', ''\"device_1\"''), (''key'', ''client_shared_key''), (''nonce'', ''\"nonce_1\"''), (''secret'', ''device_secret'')]\<rparr>]\<rparr>,
     (transition ''SendAuth'' ''SessionActive'' (Recv ''auth_ok'')),
     (transition ''SessionActive'' ''RelayConnected'' (Internal ''session_established'')),
     (transition ''RelayConnected'' ''PairDialing'' (Recv ''candidates''))\<lparr>Guard := ''alt_enabled'', Do := ''dial_candidate''\<rparr>,
     (transition ''RelayConnected'' ''RelayConnected'' (Recv ''candidates''))\<lparr>Guard := ''alt_disabled''\<rparr>,
     (transition ''PairDialing'' ''PairChecking'' (Internal ''dial_ok''))\<lparr>Sends := [\<lparr>SendTo = ''backend'', SendMsg = ''pair_check'', Fields = [(''challenge'', ''received_pair_check_challenge''), (''instance_id'', ''instance_id'')]\<rparr>]\<rparr>,
     (transition ''PairDialing'' ''RelayConnected'' (Internal ''dial_failed'')),
     (transition ''PairChecking'' ''AltActive'' (Recv ''pair_check_ack''))\<lparr>Do := ''activate_lan'',
        Updates := [\<lparr>Var = ''c_active_path'', Expr = ''\"alt\"''\<rparr>,
          \<lparr>Var = ''c_dispatcher_path'', Expr = ''\"alt\"''\<rparr>,
          \<lparr>Var = ''alt_signal'', Expr = ''\"ready\"''\<rparr>]\<rparr>,
     (transition ''PairChecking'' ''RelayConnected'' (Internal ''verify_timeout''))\<lparr>
        Updates := [\<lparr>Var = ''c_dispatcher_path'', Expr = ''\"relay\"''\<rparr>]\<rparr>,
     (transition ''AltActive'' ''AltActive'' (Recv ''path_ping''))\<lparr>Sends := [\<lparr>SendTo = ''backend'', SendMsg = ''path_pong'', Fields = []\<rparr>]\<rparr>,
     (transition ''AltActive'' ''RelayFallback'' (Internal ''alt_error''))\<lparr>Do := ''fallback_to_relay'',
        Updates := [\<lparr>Var = ''c_active_path'', Expr = ''\"relay\"''\<rparr>,
          \<lparr>Var = ''c_dispatcher_path'', Expr = ''\"relay\"''\<rparr>,
          \<lparr>Var = ''alt_signal'', Expr = ''\"pending\"''\<rparr>]\<rparr>,
     (transition ''AltActive'' ''RelayFallback'' (Internal ''alt_stream_error''))\<lparr>Do := ''fallback_to_relay'',
        Updates := [\<lparr>Var = ''c_active_path'', Expr = ''\"relay\"''\<rparr>,
          \<lparr>Var = ''c_dispatcher_path'', Expr = ''\"relay\"''\<rparr>,
          \<lparr>Var = ''alt_signal'', Expr = ''\"pending\"''\<rparr>]\<rparr>,
     (transition ''RelayFallback'' ''RelayConnected'' (Internal ''relay_ok'')),
     (transition ''AltActive'' ''PairDialing'' (Recv ''candidates''))\<lparr>Guard := ''alt_enabled'', Do := ''dial_candidate''\<rparr>,
     (transition ''PairDialing'' ''RelayConnected'' (Internal ''app_force_fallback'')),
     (transition ''PairChecking'' ''RelayConnected'' (Internal ''app_force_fallback''))\<lparr>
        Updates := [\<lparr>Var = ''c_dispatcher_path'', Expr = ''\"relay\"''\<rparr>]\<rparr>,
     (transition ''AltActive'' ''RelayConnected'' (Internal ''app_force_fallback''))\<lparr>Do := ''fallback_to_relay'',
        Updates := [\<lparr>Var = ''c_active_path'', Expr = ''\"relay\"''\<rparr>,
          \<lparr>Var = ''c_dispatcher_path'', Expr = ''\"relay\"''\<rparr>,
          \<lparr>Var = ''alt_signal'', Expr = ''\"pending\"''\<rparr>]\<rparr>,
     (transition ''RelayConnected'' ''Paired'' (Internal ''disconnect'')),
     (transition ''RelayConnected'' ''RelayConnected'' (Internal ''app_send'')),
     (transition ''PairDialing'' ''PairDialing'' (Internal ''app_send'')),
     (transition ''PairChecking'' ''PairChecking'' (Internal ''app_send'')),
     (transition ''AltActive'' ''AltActive'' (Internal ''app_send'')),
     (transition ''RelayFallback'' ''RelayFallback'' (Internal ''app_send'')),
     (transition ''RelayConnected'' ''RelayConnected'' (Internal ''relay_stream_data'')),
     (transition ''PairDialing'' ''PairDialing'' (Internal ''relay_stream_data'')),
     (transition ''PairChecking'' ''PairChecking'' (Internal ''relay_stream_data'')),
     (transition ''AltActive'' ''AltActive'' (Internal ''relay_stream_data'')),
     (transition ''RelayFallback'' ''RelayFallback'' (Internal ''relay_stream_data'')),
     (transition ''RelayConnected'' ''RelayConnected'' (Internal ''relay_stream_error'')),
     (transition ''PairDialing'' ''PairDialing'' (Internal ''relay_stream_error'')),
     (transition ''PairChecking'' ''PairChecking'' (Internal ''relay_stream_error'')),
     (transition ''AltActive'' ''AltActive'' (Internal ''relay_stream_error'')),
     (transition ''RelayFallback'' ''RelayFallback'' (Internal ''relay_stream_error'')),
     (transition ''RelayConnected'' ''RelayConnected'' (Internal ''app_send_datagram'')),
     (transition ''PairDialing'' ''PairDialing'' (Internal ''app_send_datagram'')),
     (transition ''PairChecking'' ''PairChecking'' (Internal ''app_send_datagram'')),
     (transition ''AltActive'' ''AltActive'' (Internal ''app_send_datagram'')),
     (transition ''RelayFallback'' ''RelayFallback'' (Internal ''app_send_datagram'')),
     (transition ''RelayConnected'' ''RelayConnected'' (Internal ''relay_datagram'')),
     (transition ''PairDialing'' ''PairDialing'' (Internal ''relay_datagram'')),
     (transition ''PairChecking'' ''PairChecking'' (Internal ''relay_datagram'')),
     (transition ''AltActive'' ''AltActive'' (Internal ''relay_datagram'')),
     (transition ''RelayFallback'' ''RelayFallback'' (Internal ''relay_datagram'')),
     (transition ''AltActive'' ''AltActive'' (Internal ''alt_stream_data'')),
     (transition ''AltActive'' ''AltActive'' (Internal ''alt_datagram''))]"

definition SessionProtocol_relay_transitions :: "Transition list" where
  "SessionProtocol_relay_transitions =
    [(transition ''Idle'' ''BackendRegistered'' (Internal ''backend_register'')),
     (transition ''BackendRegistered'' ''Bridged'' (Internal ''client_connect''))\<lparr>Do := ''bridge_streams'',
        Updates := [\<lparr>Var = ''relay_bridge'', Expr = ''\"active\"''\<rparr>]\<rparr>,
     (transition ''Bridged'' ''BackendRegistered'' (Internal ''client_disconnect''))\<lparr>Do := ''unbridge'',
        Updates := [\<lparr>Var = ''relay_bridge'', Expr = ''\"idle\"''\<rparr>]\<rparr>,
     (transition ''BackendRegistered'' ''Idle'' (Internal ''backend_disconnect''))]"

definition SessionProtocol_messages :: "Message list" where
  "SessionProtocol_messages =
    [\<lparr>MsgName = ''pair_hello'', MsgFrom = ''client'', MsgTo = ''backend''\<rparr>,
     \<lparr>MsgName = ''pair_hello_ack'', MsgFrom = ''backend'', MsgTo = ''client''\<rparr>,
     \<lparr>MsgName = ''pair_confirm'', MsgFrom = ''backend'', MsgTo = ''client''\<rparr>,
     \<lparr>MsgName = ''pair_complete'', MsgFrom = ''backend'', MsgTo = ''client''\<rparr>,
     \<lparr>MsgName = ''auth_request'', MsgFrom = ''client'', MsgTo = ''backend''\<rparr>,
     \<lparr>MsgName = ''auth_ok'', MsgFrom = ''backend'', MsgTo = ''client''\<rparr>,
     \<lparr>MsgName = ''candidates'', MsgFrom = ''backend'', MsgTo = ''client''\<rparr>,
     \<lparr>MsgName = ''pair_check'', MsgFrom = ''client'', MsgTo = ''backend''\<rparr>,
     \<lparr>MsgName = ''pair_check_ack'', MsgFrom = ''backend'', MsgTo = ''client''\<rparr>,
     \<lparr>MsgName = ''path_ping'', MsgFrom = ''backend'', MsgTo = ''client''\<rparr>,
     \<lparr>MsgName = ''path_pong'', MsgFrom = ''client'', MsgTo = ''backend''\<rparr>]"

definition SessionProtocol_guardDefs :: "GuardDef list" where
  "SessionProtocol_guardDefs =
    [\<lparr>GuardName = ''token_valid'', GuardExpr = (''recv_msg.token '' @ CHR 0x5C # ''in active_tokens'')\<rparr>,
     \<lparr>GuardName = ''token_invalid'', GuardExpr = (''recv_msg.token '' @ CHR 0x5C # ''notin active_tokens'')\<rparr>,
     \<lparr>GuardName = ''code_correct'', GuardExpr = ''received_code = backend_code''\<rparr>,
     \<lparr>GuardName = ''code_wrong'', GuardExpr = ''received_code /= backend_code''\<rparr>,
     \<lparr>GuardName = ''device_known'', GuardExpr = (''received_device_id '' @ CHR 0x5C # ''in paired_devices'')\<rparr>,
     \<lparr>GuardName = ''device_unknown'', GuardExpr = (''received_device_id '' @ CHR 0x5C # ''notin paired_devices'')\<rparr>,
     \<lparr>GuardName = ''nonce_fresh'', GuardExpr = (''received_auth_nonce '' @ CHR 0x5C # ''notin auth_nonces_used'')\<rparr>,
     \<lparr>GuardName = ''challenge_valid'', GuardExpr = ''received_pair_check_challenge = local_pair_check_challenge''\<rparr>,
     \<lparr>GuardName = ''challenge_invalid'', GuardExpr = ''received_pair_check_challenge /= local_pair_check_challenge''\<rparr>,
     \<lparr>GuardName = ''alt_enabled'', GuardExpr = ''TRUE''\<rparr>,
     \<lparr>GuardName = ''alt_disabled'', GuardExpr = ''FALSE''\<rparr>,
     \<lparr>GuardName = ''local_candidates_available'', GuardExpr = ''local_listen_addr /= \"none\"''\<rparr>,
     \<lparr>GuardName = ''under_max_failures'', GuardExpr = ''ping_failures + 1 < max_ping_failures''\<rparr>,
     \<lparr>GuardName = ''at_max_failures'', GuardExpr = ''ping_failures + 1 >= max_ping_failures''\<rparr>]"

definition SessionProtocol :: Protocol where
  "SessionProtocol = \<lparr>ProtocolName = ''Session'',
     Actors = [flat_actor ''backend'' ''Idle'' SessionProtocol_backend_transitions,
       flat_actor ''client'' ''Idle'' SessionProtocol_client_transitions,
       flat_actor ''relay'' ''Idle'' SessionProtocol_relay_transitions],
     Messages = SessionProtocol_messages, GuardDefs = SessionProtocol_guardDefs\<rparr>"

text \<open>The commands of each row, from the description the table is generated from (\<open>protocol/session.yaml\<close>).\<close>

definition SessionProtocol_backend_emits :: "string list list" where
  "SessionProtocol_backend_emits =
    [[], [], [], [], [], [], [], [], [], [], [], [], [], [], [], [''send_candidates''],
     [''send_pair_check_ack'', ''start_alt_stream_reader'', ''start_alt_dg_reader'', ''start_monitor'', ''signal_alt_ready'', ''set_crypto_datagram''],
     [], [''reset_alt_ready'', ''start_backoff_timer''], [''send_path_ping'', ''start_pong_timeout''], [],
     [''send_path_ping'', ''start_pong_timeout''],
     [''stop_monitor'', ''stop_alt_stream_reader'', ''stop_alt_dg_reader'', ''close_alt_path'', ''reset_alt_ready'', ''start_backoff_timer''],
     [''stop_monitor'', ''stop_alt_stream_reader'', ''stop_alt_dg_reader'', ''close_alt_path'', ''reset_alt_ready'', ''start_backoff_timer''],
     [''cancel_pong_timeout''], [],
     [''stop_monitor'', ''stop_alt_stream_reader'', ''stop_alt_dg_reader'', ''close_alt_path'', ''reset_alt_ready'', ''start_backoff_timer''],
     [''send_candidates''], [''send_candidates''], [''send_candidates''], [''reset_alt_ready''],
     [''stop_monitor'', ''cancel_pong_timeout'', ''stop_alt_stream_reader'', ''stop_alt_dg_reader'', ''close_alt_path'', ''reset_alt_ready'', ''start_backoff_timer''],
     [''stop_monitor'', ''cancel_pong_timeout'', ''stop_alt_stream_reader'', ''stop_alt_dg_reader'', ''close_alt_path'', ''reset_alt_ready'', ''start_backoff_timer''],
     [], [''write_active_stream''], [''write_active_stream''], [''write_active_stream''],
     [''write_active_stream''], [''write_active_stream''], [''deliver_recv''], [''deliver_recv''],
     [''deliver_recv''], [''deliver_recv''], [''deliver_recv''], [''deliver_recv_error''],
     [''deliver_recv_error''], [''deliver_recv_error''], [''deliver_recv_error''],
     [''deliver_recv_error''], [''send_active_datagram''], [''send_active_datagram''],
     [''send_active_datagram''], [''send_active_datagram''], [''send_active_datagram''],
     [''deliver_recv_datagram''], [''deliver_recv_datagram''], [''deliver_recv_datagram''],
     [''deliver_recv_datagram''], [''deliver_recv_datagram''], [''deliver_recv''], [''deliver_recv''],
     [''deliver_recv_datagram''], [''deliver_recv_datagram'']]"

definition SessionProtocol_client_emits :: "string list list" where
  "SessionProtocol_client_emits =
    [[], [], [], [], [], [], [], [], [], [], [], [], [''dial_candidate''], [], [''send_pair_check''], [],
     [''start_alt_stream_reader'', ''start_alt_dg_reader'', ''signal_alt_ready'', ''set_crypto_datagram''],
     [], [''send_path_pong''],
     [''stop_alt_stream_reader'', ''stop_alt_dg_reader'', ''close_alt_path'', ''reset_alt_ready''],
     [''stop_alt_stream_reader'', ''stop_alt_dg_reader'', ''close_alt_path'', ''reset_alt_ready''], [],
     [''stop_alt_stream_reader'', ''stop_alt_dg_reader'', ''close_alt_path'', ''dial_candidate''], [],
     [''stop_alt_stream_reader'', ''stop_alt_dg_reader'', ''close_alt_path''],
     [''stop_alt_stream_reader'', ''stop_alt_dg_reader'', ''close_alt_path'', ''reset_alt_ready''], [],
     [''write_active_stream''], [''write_active_stream''], [''write_active_stream''],
     [''write_active_stream''], [''write_active_stream''], [''deliver_recv''], [''deliver_recv''],
     [''deliver_recv''], [''deliver_recv''], [''deliver_recv''], [''deliver_recv_error''],
     [''deliver_recv_error''], [''deliver_recv_error''], [''deliver_recv_error''],
     [''deliver_recv_error''], [''send_active_datagram''], [''send_active_datagram''],
     [''send_active_datagram''], [''send_active_datagram''], [''send_active_datagram''],
     [''deliver_recv_datagram''], [''deliver_recv_datagram''], [''deliver_recv_datagram''],
     [''deliver_recv_datagram''], [''deliver_recv_datagram''], [''deliver_recv''],
     [''deliver_recv_datagram'']]"

definition SessionProtocol_relay_emits :: "string list list" where
  "SessionProtocol_relay_emits =
    [[], [], [], []]"


section \<open>How the generator reads the updates\<close>

lemma sp_literals:
  "goSimpleLiteral ''\"active\"'' = Some (GoText ''\"active\"'')"
  "goSimpleLiteral ''\"alt\"'' = Some (GoText ''\"alt\"'')"
  "goSimpleLiteral ''\"backend_pub\"'' = Some (GoText ''\"backend_pub\"'')"
  "goSimpleLiteral ''\"dev_secret_1\"'' = Some (GoText ''\"dev_secret_1\"'')"
  "goSimpleLiteral ''\"idle\"'' = Some (GoText ''\"idle\"'')"
  "goSimpleLiteral ''\"none\"'' = Some (GoText ''\"none\"'')"
  "goSimpleLiteral ''\"pending\"'' = Some (GoText ''\"pending\"'')"
  "goSimpleLiteral ''\"ready\"'' = Some (GoText ''\"ready\"'')"
  "goSimpleLiteral ''\"relay\"'' = Some (GoText ''\"relay\"'')"
  "goSimpleLiteral ''\"tok_1\"'' = Some (GoText ''\"tok_1\"'')"
  "goSimpleLiteral ''0'' = Some (GoNum 0)"
  "goSimpleLiteral ''1'' = Some (GoNum 1)"
  "goSimpleLiteral ''DeriveCode(\"backend_pub\", recv_msg.pubkey)'' = None"
  "goSimpleLiteral ''DeriveCode(received_backend_pub, \"client_pub\")'' = None"
  "goSimpleLiteral ''DeriveKey(\"backend_pub\", recv_msg.pubkey)'' = None"
  "goSimpleLiteral ''DeriveKey(\"client_pub\", recv_msg.pubkey)'' = None"
  "goSimpleLiteral ''Min(backoff_level + 1, max_backoff_level)'' = None"
  "goSimpleLiteral ''TRUE'' = Some GoTrue"
  "goSimpleLiteral (''active_tokens '' @ CHR 0x5C # '' {current_token}'') = None"
  "goSimpleLiteral (''active_tokens '' @ CHR 0x5C # ''union {\"tok_1\"}'') = None"
  "goSimpleLiteral (''auth_nonces_used '' @ CHR 0x5C # ''union {received_auth_nonce}'') = None"
  "goSimpleLiteral ''cli_entered_code'' = None"
  "goSimpleLiteral ''code_attempts + 1'' = None"
  "goSimpleLiteral (''paired_devices '' @ CHR 0x5C # ''union {\"device_1\"}'') = None"
  "goSimpleLiteral ''ping_failures + 1'' = None"
  "goSimpleLiteral ''recv_msg.device_id'' = None"
  "goSimpleLiteral ''recv_msg.nonce'' = None"
  "goSimpleLiteral ''recv_msg.pubkey'' = None"
  "goSimpleLiteral (''used_tokens '' @ CHR 0x5C # ''union {current_token}'') = None"
  by code_simp+

lemma sp_self_updates:
  "goSelfUpdate ''backend_code'' ''DeriveCode(\"backend_pub\", recv_msg.pubkey)'' = None"
  "goSelfUpdate ''client_code'' ''DeriveCode(received_backend_pub, \"client_pub\")'' = None"
  "goSelfUpdate ''backend_shared_key'' ''DeriveKey(\"backend_pub\", recv_msg.pubkey)'' = None"
  "goSelfUpdate ''client_shared_key'' ''DeriveKey(\"client_pub\", recv_msg.pubkey)'' = None"
  "goSelfUpdate ''backoff_level'' ''Min(backoff_level + 1, max_backoff_level)'' = None"
  "goSelfUpdate ''active_tokens'' (''active_tokens '' @ CHR 0x5C # '' {current_token}'') = None"
  "goSelfUpdate ''active_tokens'' (''active_tokens '' @ CHR 0x5C # ''union {\"tok_1\"}'') = None"
  "goSelfUpdate ''auth_nonces_used'' (''auth_nonces_used '' @ CHR 0x5C # ''union {received_auth_nonce}'') = None"
  "goSelfUpdate ''received_code'' ''cli_entered_code'' = None"
  "goSelfUpdate ''code_attempts'' ''code_attempts + 1'' = Some 1"
  "goSelfUpdate ''paired_devices'' (''paired_devices '' @ CHR 0x5C # ''union {\"device_1\"}'') = None"
  "goSelfUpdate ''ping_failures'' ''ping_failures + 1'' = Some 1"
  "goSelfUpdate ''received_device_id'' ''recv_msg.device_id'' = None"
  "goSelfUpdate ''received_auth_nonce'' ''recv_msg.nonce'' = None"
  "goSelfUpdate ''received_backend_pub'' ''recv_msg.pubkey'' = None"
  "goSelfUpdate ''received_client_pub'' ''recv_msg.pubkey'' = None"
  "goSelfUpdate ''used_tokens'' (''used_tokens '' @ CHR 0x5C # ''union {current_token}'') = None"
  by code_simp+

lemmas sp_updates = sp_literals [unfolded append.simps] sp_self_updates [unfolded append.simps]

end
