(* ===== verification/SessionBackend.thy ===== *)
theory SessionBackend
  imports SessionTable
begin

text \<open>
  The backend machine of the session protocol (\<open>session_gen.go\<close>). The cases of \<open>Step\<close> and \<open>HandleEvent\<close>
  are grouped as the protocol goes: pairing and authentication, finding an alternative path,
  falling back to the relay, and carrying traffic.
\<close>

section \<open>The backend machine\<close>

record SessionProtocolBackendMachine =
  sb_State :: "string"
  sb_CurrentToken :: "string"
  sb_ActiveTokens :: "string set"
  sb_UsedTokens :: "string set"
  sb_BackendEcdhPub :: "string"
  sb_ReceivedClientPub :: "string"
  sb_BackendSharedKey :: "string"
  sb_BackendCode :: "string"
  sb_ReceivedCode :: "string"
  sb_CodeAttempts :: "int"
  sb_DeviceSecret :: "string"
  sb_PairedDevices :: "string set"
  sb_ReceivedDeviceId :: "string"
  sb_AuthNoncesUsed :: "string set"
  sb_ReceivedAuthNonce :: "string"
  sb_SecretPublished :: "bool"
  sb_PingFailures :: "int"
  sb_BackoffLevel :: "int"
  sb_BActivePath :: "string"
  sb_BDispatcherPath :: "string"
  sb_MonitorTarget :: "string"
  sb_AltSignal :: "string"

definition NewSessionProtocolBackendMachine :: SessionProtocolBackendMachine where
  "NewSessionProtocolBackendMachine =
     \<lparr>sb_State = SessionProtocolBackendIdle,
      sb_CurrentToken = ''none'',
      sb_ActiveTokens = {},
      sb_UsedTokens = {},
      sb_BackendEcdhPub = ''none'',
      sb_ReceivedClientPub = ''none'',
      sb_BackendSharedKey = '''',
      sb_BackendCode = '''',
      sb_ReceivedCode = '''',
      sb_CodeAttempts = 0,
      sb_DeviceSecret = ''none'',
      sb_PairedDevices = {},
      sb_ReceivedDeviceId = ''none'',
      sb_AuthNoncesUsed = {},
      sb_ReceivedAuthNonce = ''none'',
      sb_SecretPublished = False,
      sb_PingFailures = 0,
      sb_BackoffLevel = 0,
      sb_BActivePath = ''relay'',
      sb_BDispatcherPath = ''relay'',
      sb_MonitorTarget = ''none'',
      sb_AltSignal = ''pending''\<rparr>"

definition SessionProtocolBackendMachine_HandleMessage ::
  "(SessionProtocolBackendMachine, 'w, 'e) callbacks \<Rightarrow> string \<Rightarrow> SessionProtocolBackendMachine \<times> 'w \<Rightarrow> (SessionProtocolBackendMachine \<times> 'w) \<times> ('e + bool)" where
  "SessionProtocolBackendMachine_HandleMessage env msg s = gswitch
     [(sb_State (fst s) = SessionProtocolBackendWaitingForClient \<and> msg = SessionProtocolMsgPairHello \<and> guarded env SessionProtocolGuardTokenValid s,
       block [act env SessionProtocolActionDeriveSecret,
              assign env (sb_BackendEcdhPub_update (\<lambda>_. ''backend_pub'')) ''backend_ecdh_pub'',
              goto (sb_State_update (\<lambda>_. SessionProtocolBackendDeriveSecret))] True),
      (sb_State (fst s) = SessionProtocolBackendWaitingForClient \<and> msg = SessionProtocolMsgPairHello \<and> guarded env SessionProtocolGuardTokenInvalid s,
       block [goto (sb_State_update (\<lambda>_. SessionProtocolBackendIdle))] True),
      (sb_State (fst s) = SessionProtocolBackendPaired \<and> msg = SessionProtocolMsgAuthRequest,
       block [goto (sb_State_update (\<lambda>_. SessionProtocolBackendAuthCheck))] True),
      (sb_State (fst s) = SessionProtocolBackendCandidatesAdvertised \<and> msg = SessionProtocolMsgPairCheck \<and> guarded env SessionProtocolGuardChallengeValid s,
       block [act env SessionProtocolActionActivateLan,
              assign env (sb_PingFailures_update (\<lambda>_. 0)) ''ping_failures'',
              assign env (sb_BackoffLevel_update (\<lambda>_. 0)) ''backoff_level'',
              assign env (sb_BActivePath_update (\<lambda>_. ''alt'')) ''b_active_path'',
              assign env (sb_BDispatcherPath_update (\<lambda>_. ''alt'')) ''b_dispatcher_path'',
              assign env (sb_MonitorTarget_update (\<lambda>_. ''alt'')) ''monitor_target'',
              assign env (sb_AltSignal_update (\<lambda>_. ''ready'')) ''alt_signal'',
              goto (sb_State_update (\<lambda>_. SessionProtocolBackendAltActive))] True),
      (sb_State (fst s) = SessionProtocolBackendCandidatesAdvertised \<and> msg = SessionProtocolMsgPairCheck \<and> guarded env SessionProtocolGuardChallengeInvalid s,
       block [goto (sb_State_update (\<lambda>_. SessionProtocolBackendRelayConnected))] True),
      (sb_State (fst s) = SessionProtocolBackendAltDegraded \<and> msg = SessionProtocolMsgPathPong,
       block [act env SessionProtocolActionResetFailures,
              assign env (sb_PingFailures_update (\<lambda>_. 0)) ''ping_failures'',
              goto (sb_State_update (\<lambda>_. SessionProtocolBackendAltActive))] True)]
     (block [] False) s"

definition SessionProtocolBackendMachine_Step_pairing ::
  "(SessionProtocolBackendMachine, 'w, 'e) callbacks \<Rightarrow> string \<Rightarrow> SessionProtocolBackendMachine \<times> 'w \<Rightarrow>
   (bool \<times> (SessionProtocolBackendMachine \<times> 'w \<Rightarrow> (SessionProtocolBackendMachine \<times> 'w) \<times> ('e + bool))) list" where
  "SessionProtocolBackendMachine_Step_pairing env event s =
     [(sb_State (fst s) = SessionProtocolBackendIdle \<and> event = SessionProtocolEventCliInitPair,
       block [act env SessionProtocolActionGenerateToken,
              assign env (sb_CurrentToken_update (\<lambda>_. ''tok_1'')) ''current_token'',
              goto (sb_State_update (\<lambda>_. SessionProtocolBackendGenerateToken))] True),
      (sb_State (fst s) = SessionProtocolBackendGenerateToken \<and> event = SessionProtocolEventTokenCreated,
       block [act env SessionProtocolActionRegisterRelay,
              goto (sb_State_update (\<lambda>_. SessionProtocolBackendRegisterRelay))] True),
      (sb_State (fst s) = SessionProtocolBackendRegisterRelay \<and> event = SessionProtocolEventRelayRegistered,
       block [assign env (sb_SecretPublished_update (\<lambda>_. True)) ''secret_published'',
              goto (sb_State_update (\<lambda>_. SessionProtocolBackendWaitingForClient))] True),
      (sb_State (fst s) = SessionProtocolBackendDeriveSecret \<and> event = SessionProtocolEventEcdhComplete,
       block [goto (sb_State_update (\<lambda>_. SessionProtocolBackendSendAck))] True),
      (sb_State (fst s) = SessionProtocolBackendSendAck \<and> event = SessionProtocolEventSignalCodeDisplay,
       block [goto (sb_State_update (\<lambda>_. SessionProtocolBackendWaitingForCode))] True),
      (sb_State (fst s) = SessionProtocolBackendWaitingForCode \<and> event = SessionProtocolEventCliCodeEntered,
       block [goto (sb_State_update (\<lambda>_. SessionProtocolBackendValidateCode))] True),
      (sb_State (fst s) = SessionProtocolBackendValidateCode \<and> event = SessionProtocolEventCheckCode \<and> guarded env SessionProtocolGuardCodeCorrect s,
       block [goto (sb_State_update (\<lambda>_. SessionProtocolBackendStorePaired))] True),
      (sb_State (fst s) = SessionProtocolBackendValidateCode \<and> event = SessionProtocolEventCheckCode \<and> guarded env SessionProtocolGuardCodeWrong s,
       block [assign env (\<lambda>m. m\<lparr>sb_CodeAttempts := sb_CodeAttempts m + 1\<rparr>) ''code_attempts'',
              goto (sb_State_update (\<lambda>_. SessionProtocolBackendIdle))] True),
      (sb_State (fst s) = SessionProtocolBackendStorePaired \<and> event = SessionProtocolEventFinalise,
       block [act env SessionProtocolActionStoreDevice,
              assign env (sb_DeviceSecret_update (\<lambda>_. ''dev_secret_1'')) ''device_secret'',
              goto (sb_State_update (\<lambda>_. SessionProtocolBackendPaired))] True),
      (sb_State (fst s) = SessionProtocolBackendAuthCheck \<and> event = SessionProtocolEventVerify \<and> guarded env SessionProtocolGuardDeviceKnown s,
       block [act env SessionProtocolActionVerifyDevice,
              goto (sb_State_update (\<lambda>_. SessionProtocolBackendSessionActive))] True),
      (sb_State (fst s) = SessionProtocolBackendAuthCheck \<and> event = SessionProtocolEventVerify \<and> guarded env SessionProtocolGuardDeviceUnknown s,
       block [goto (sb_State_update (\<lambda>_. SessionProtocolBackendIdle))] True)]"

definition SessionProtocolBackendMachine_Step_path ::
  "(SessionProtocolBackendMachine, 'w, 'e) callbacks \<Rightarrow> string \<Rightarrow> SessionProtocolBackendMachine \<times> 'w \<Rightarrow>
   (bool \<times> (SessionProtocolBackendMachine \<times> 'w \<Rightarrow> (SessionProtocolBackendMachine \<times> 'w) \<times> ('e + bool))) list" where
  "SessionProtocolBackendMachine_Step_path env event s =
     [(sb_State (fst s) = SessionProtocolBackendSessionActive \<and> event = SessionProtocolEventSessionEstablished,
       block [goto (sb_State_update (\<lambda>_. SessionProtocolBackendRelayConnected))] True),
      (sb_State (fst s) = SessionProtocolBackendRelayConnected \<and> event = SessionProtocolEventCandidatesGathered,
       block [goto (sb_State_update (\<lambda>_. SessionProtocolBackendCandidatesAdvertised))] True),
      (sb_State (fst s) = SessionProtocolBackendCandidatesAdvertised \<and> event = SessionProtocolEventCandidatesTimeout,
       block [assign env (sb_AltSignal_update (\<lambda>_. ''pending'')) ''alt_signal'',
              goto (sb_State_update (\<lambda>_. SessionProtocolBackendRelayBackoff))] True),
      (sb_State (fst s) = SessionProtocolBackendAltActive \<and> event = SessionProtocolEventPingTick,
       block [goto (sb_State_update (\<lambda>_. SessionProtocolBackendAltActive))] True),
      (sb_State (fst s) = SessionProtocolBackendAltActive \<and> event = SessionProtocolEventPingTimeout,
       block [assign env (sb_PingFailures_update (\<lambda>_. 1)) ''ping_failures'',
              goto (sb_State_update (\<lambda>_. SessionProtocolBackendAltDegraded))] True),
      (sb_State (fst s) = SessionProtocolBackendAltDegraded \<and> event = SessionProtocolEventPingTick,
       block [goto (sb_State_update (\<lambda>_. SessionProtocolBackendAltDegraded))] True),
      (sb_State (fst s) = SessionProtocolBackendAltActive \<and> event = SessionProtocolEventAltStreamError,
       block [act env SessionProtocolActionFallbackToRelay,
              assign env (sb_BActivePath_update (\<lambda>_. ''relay'')) ''b_active_path'',
              assign env (sb_BDispatcherPath_update (\<lambda>_. ''relay'')) ''b_dispatcher_path'',
              assign env (sb_MonitorTarget_update (\<lambda>_. ''none'')) ''monitor_target'',
              assign env (sb_AltSignal_update (\<lambda>_. ''pending'')) ''alt_signal'',
              assign env (sb_PingFailures_update (\<lambda>_. 0)) ''ping_failures'',
              goto (sb_State_update (\<lambda>_. SessionProtocolBackendRelayBackoff))] True),
      (sb_State (fst s) = SessionProtocolBackendAltDegraded \<and> event = SessionProtocolEventAltStreamError,
       block [act env SessionProtocolActionFallbackToRelay,
              assign env (sb_BActivePath_update (\<lambda>_. ''relay'')) ''b_active_path'',
              assign env (sb_BDispatcherPath_update (\<lambda>_. ''relay'')) ''b_dispatcher_path'',
              assign env (sb_MonitorTarget_update (\<lambda>_. ''none'')) ''monitor_target'',
              assign env (sb_AltSignal_update (\<lambda>_. ''pending'')) ''alt_signal'',
              assign env (sb_PingFailures_update (\<lambda>_. 0)) ''ping_failures'',
              goto (sb_State_update (\<lambda>_. SessionProtocolBackendRelayBackoff))] True)]"

definition SessionProtocolBackendMachine_Step_fallback ::
  "(SessionProtocolBackendMachine, 'w, 'e) callbacks \<Rightarrow> string \<Rightarrow> SessionProtocolBackendMachine \<times> 'w \<Rightarrow>
   (bool \<times> (SessionProtocolBackendMachine \<times> 'w \<Rightarrow> (SessionProtocolBackendMachine \<times> 'w) \<times> ('e + bool))) list" where
  "SessionProtocolBackendMachine_Step_fallback env event s =
     [(sb_State (fst s) = SessionProtocolBackendAltDegraded \<and> event = SessionProtocolEventPingTimeout \<and> guarded env SessionProtocolGuardUnderMaxFailures s,
       block [assign env (\<lambda>m. m\<lparr>sb_PingFailures := sb_PingFailures m + 1\<rparr>) ''ping_failures'',
              goto (sb_State_update (\<lambda>_. SessionProtocolBackendAltDegraded))] True),
      (sb_State (fst s) = SessionProtocolBackendAltDegraded \<and> event = SessionProtocolEventPingTimeout \<and> guarded env SessionProtocolGuardAtMaxFailures s,
       block [act env SessionProtocolActionFallbackToRelay,
              assign env (sb_BActivePath_update (\<lambda>_. ''relay'')) ''b_active_path'',
              assign env (sb_BDispatcherPath_update (\<lambda>_. ''relay'')) ''b_dispatcher_path'',
              assign env (sb_MonitorTarget_update (\<lambda>_. ''none'')) ''monitor_target'',
              assign env (sb_AltSignal_update (\<lambda>_. ''pending'')) ''alt_signal'',
              assign env (sb_PingFailures_update (\<lambda>_. 0)) ''ping_failures'',
              goto (sb_State_update (\<lambda>_. SessionProtocolBackendRelayBackoff))] True),
      (sb_State (fst s) = SessionProtocolBackendRelayBackoff \<and> event = SessionProtocolEventBackoffExpired,
       block [goto (sb_State_update (\<lambda>_. SessionProtocolBackendCandidatesAdvertised))] True),
      (sb_State (fst s) = SessionProtocolBackendRelayBackoff \<and> event = SessionProtocolEventCandidatesChanged,
       block [assign env (sb_BackoffLevel_update (\<lambda>_. 0)) ''backoff_level'',
              goto (sb_State_update (\<lambda>_. SessionProtocolBackendCandidatesAdvertised))] True),
      (sb_State (fst s) = SessionProtocolBackendRelayConnected \<and> event = SessionProtocolEventCandidatesRefreshTick \<and> guarded env SessionProtocolGuardLocalCandidatesAvailable s,
       block [goto (sb_State_update (\<lambda>_. SessionProtocolBackendCandidatesAdvertised))] True),
      (sb_State (fst s) = SessionProtocolBackendCandidatesAdvertised \<and> event = SessionProtocolEventAppForceFallback,
       block [assign env (sb_AltSignal_update (\<lambda>_. ''pending'')) ''alt_signal'',
              goto (sb_State_update (\<lambda>_. SessionProtocolBackendRelayConnected))] True),
      (sb_State (fst s) = SessionProtocolBackendAltActive \<and> event = SessionProtocolEventAppForceFallback,
       block [act env SessionProtocolActionFallbackToRelay,
              assign env (sb_BActivePath_update (\<lambda>_. ''relay'')) ''b_active_path'',
              assign env (sb_BDispatcherPath_update (\<lambda>_. ''relay'')) ''b_dispatcher_path'',
              assign env (sb_MonitorTarget_update (\<lambda>_. ''none'')) ''monitor_target'',
              assign env (sb_AltSignal_update (\<lambda>_. ''pending'')) ''alt_signal'',
              assign env (sb_PingFailures_update (\<lambda>_. 0)) ''ping_failures'',
              goto (sb_State_update (\<lambda>_. SessionProtocolBackendRelayBackoff))] True),
      (sb_State (fst s) = SessionProtocolBackendAltDegraded \<and> event = SessionProtocolEventAppForceFallback,
       block [act env SessionProtocolActionFallbackToRelay,
              assign env (sb_BActivePath_update (\<lambda>_. ''relay'')) ''b_active_path'',
              assign env (sb_BDispatcherPath_update (\<lambda>_. ''relay'')) ''b_dispatcher_path'',
              assign env (sb_MonitorTarget_update (\<lambda>_. ''none'')) ''monitor_target'',
              assign env (sb_AltSignal_update (\<lambda>_. ''pending'')) ''alt_signal'',
              assign env (sb_PingFailures_update (\<lambda>_. 0)) ''ping_failures'',
              goto (sb_State_update (\<lambda>_. SessionProtocolBackendRelayBackoff))] True)]"

definition SessionProtocolBackendMachine_Step_traffic ::
  "(SessionProtocolBackendMachine, 'w, 'e) callbacks \<Rightarrow> string \<Rightarrow> SessionProtocolBackendMachine \<times> 'w \<Rightarrow>
   (bool \<times> (SessionProtocolBackendMachine \<times> 'w \<Rightarrow> (SessionProtocolBackendMachine \<times> 'w) \<times> ('e + bool))) list" where
  "SessionProtocolBackendMachine_Step_traffic env event s =
     [(sb_State (fst s) = SessionProtocolBackendRelayConnected \<and> event = SessionProtocolEventDisconnect,
       block [goto (sb_State_update (\<lambda>_. SessionProtocolBackendPaired))] True),
      (sb_State (fst s) = SessionProtocolBackendRelayConnected \<and> event = SessionProtocolEventAppSend,
       block [goto (sb_State_update (\<lambda>_. SessionProtocolBackendRelayConnected))] True),
      (sb_State (fst s) = SessionProtocolBackendCandidatesAdvertised \<and> event = SessionProtocolEventAppSend,
       block [goto (sb_State_update (\<lambda>_. SessionProtocolBackendCandidatesAdvertised))] True),
      (sb_State (fst s) = SessionProtocolBackendAltActive \<and> event = SessionProtocolEventAppSend,
       block [goto (sb_State_update (\<lambda>_. SessionProtocolBackendAltActive))] True),
      (sb_State (fst s) = SessionProtocolBackendAltDegraded \<and> event = SessionProtocolEventAppSend,
       block [goto (sb_State_update (\<lambda>_. SessionProtocolBackendAltDegraded))] True),
      (sb_State (fst s) = SessionProtocolBackendRelayBackoff \<and> event = SessionProtocolEventAppSend,
       block [goto (sb_State_update (\<lambda>_. SessionProtocolBackendRelayBackoff))] True),
      (sb_State (fst s) = SessionProtocolBackendRelayConnected \<and> event = SessionProtocolEventRelayStreamData,
       block [goto (sb_State_update (\<lambda>_. SessionProtocolBackendRelayConnected))] True),
      (sb_State (fst s) = SessionProtocolBackendCandidatesAdvertised \<and> event = SessionProtocolEventRelayStreamData,
       block [goto (sb_State_update (\<lambda>_. SessionProtocolBackendCandidatesAdvertised))] True),
      (sb_State (fst s) = SessionProtocolBackendAltActive \<and> event = SessionProtocolEventRelayStreamData,
       block [goto (sb_State_update (\<lambda>_. SessionProtocolBackendAltActive))] True),
      (sb_State (fst s) = SessionProtocolBackendAltDegraded \<and> event = SessionProtocolEventRelayStreamData,
       block [goto (sb_State_update (\<lambda>_. SessionProtocolBackendAltDegraded))] True),
      (sb_State (fst s) = SessionProtocolBackendRelayBackoff \<and> event = SessionProtocolEventRelayStreamData,
       block [goto (sb_State_update (\<lambda>_. SessionProtocolBackendRelayBackoff))] True),
      (sb_State (fst s) = SessionProtocolBackendRelayConnected \<and> event = SessionProtocolEventRelayStreamError,
       block [goto (sb_State_update (\<lambda>_. SessionProtocolBackendRelayConnected))] True),
      (sb_State (fst s) = SessionProtocolBackendCandidatesAdvertised \<and> event = SessionProtocolEventRelayStreamError,
       block [goto (sb_State_update (\<lambda>_. SessionProtocolBackendCandidatesAdvertised))] True),
      (sb_State (fst s) = SessionProtocolBackendAltActive \<and> event = SessionProtocolEventRelayStreamError,
       block [goto (sb_State_update (\<lambda>_. SessionProtocolBackendAltActive))] True),
      (sb_State (fst s) = SessionProtocolBackendAltDegraded \<and> event = SessionProtocolEventRelayStreamError,
       block [goto (sb_State_update (\<lambda>_. SessionProtocolBackendAltDegraded))] True),
      (sb_State (fst s) = SessionProtocolBackendRelayBackoff \<and> event = SessionProtocolEventRelayStreamError,
       block [goto (sb_State_update (\<lambda>_. SessionProtocolBackendRelayBackoff))] True),
      (sb_State (fst s) = SessionProtocolBackendRelayConnected \<and> event = SessionProtocolEventAppSendDatagram,
       block [goto (sb_State_update (\<lambda>_. SessionProtocolBackendRelayConnected))] True),
      (sb_State (fst s) = SessionProtocolBackendCandidatesAdvertised \<and> event = SessionProtocolEventAppSendDatagram,
       block [goto (sb_State_update (\<lambda>_. SessionProtocolBackendCandidatesAdvertised))] True),
      (sb_State (fst s) = SessionProtocolBackendAltActive \<and> event = SessionProtocolEventAppSendDatagram,
       block [goto (sb_State_update (\<lambda>_. SessionProtocolBackendAltActive))] True),
      (sb_State (fst s) = SessionProtocolBackendAltDegraded \<and> event = SessionProtocolEventAppSendDatagram,
       block [goto (sb_State_update (\<lambda>_. SessionProtocolBackendAltDegraded))] True),
      (sb_State (fst s) = SessionProtocolBackendRelayBackoff \<and> event = SessionProtocolEventAppSendDatagram,
       block [goto (sb_State_update (\<lambda>_. SessionProtocolBackendRelayBackoff))] True),
      (sb_State (fst s) = SessionProtocolBackendRelayConnected \<and> event = SessionProtocolEventRelayDatagram,
       block [goto (sb_State_update (\<lambda>_. SessionProtocolBackendRelayConnected))] True),
      (sb_State (fst s) = SessionProtocolBackendCandidatesAdvertised \<and> event = SessionProtocolEventRelayDatagram,
       block [goto (sb_State_update (\<lambda>_. SessionProtocolBackendCandidatesAdvertised))] True),
      (sb_State (fst s) = SessionProtocolBackendAltActive \<and> event = SessionProtocolEventRelayDatagram,
       block [goto (sb_State_update (\<lambda>_. SessionProtocolBackendAltActive))] True),
      (sb_State (fst s) = SessionProtocolBackendAltDegraded \<and> event = SessionProtocolEventRelayDatagram,
       block [goto (sb_State_update (\<lambda>_. SessionProtocolBackendAltDegraded))] True),
      (sb_State (fst s) = SessionProtocolBackendRelayBackoff \<and> event = SessionProtocolEventRelayDatagram,
       block [goto (sb_State_update (\<lambda>_. SessionProtocolBackendRelayBackoff))] True),
      (sb_State (fst s) = SessionProtocolBackendAltActive \<and> event = SessionProtocolEventAltStreamData,
       block [goto (sb_State_update (\<lambda>_. SessionProtocolBackendAltActive))] True),
      (sb_State (fst s) = SessionProtocolBackendAltDegraded \<and> event = SessionProtocolEventAltStreamData,
       block [goto (sb_State_update (\<lambda>_. SessionProtocolBackendAltDegraded))] True),
      (sb_State (fst s) = SessionProtocolBackendAltActive \<and> event = SessionProtocolEventAltDatagram,
       block [goto (sb_State_update (\<lambda>_. SessionProtocolBackendAltActive))] True),
      (sb_State (fst s) = SessionProtocolBackendAltDegraded \<and> event = SessionProtocolEventAltDatagram,
       block [goto (sb_State_update (\<lambda>_. SessionProtocolBackendAltDegraded))] True)]"

definition SessionProtocolBackendMachine_Step ::
  "(SessionProtocolBackendMachine, 'w, 'e) callbacks \<Rightarrow> string \<Rightarrow> SessionProtocolBackendMachine \<times> 'w \<Rightarrow> (SessionProtocolBackendMachine \<times> 'w) \<times> ('e + bool)" where
  "SessionProtocolBackendMachine_Step env event s = gswitch
     (SessionProtocolBackendMachine_Step_pairing env event s @
      SessionProtocolBackendMachine_Step_path env event s @
      SessionProtocolBackendMachine_Step_fallback env event s @
      SessionProtocolBackendMachine_Step_traffic env event s)
     (block [] False) s"

definition SessionProtocolBackendMachine_HandleEvent_pairing ::
  "(SessionProtocolBackendMachine, 'w, 'e) callbacks \<Rightarrow> string \<Rightarrow> SessionProtocolBackendMachine \<times> 'w \<Rightarrow>
   (bool \<times> (SessionProtocolBackendMachine \<times> 'w \<Rightarrow> (SessionProtocolBackendMachine \<times> 'w) \<times> ('e + string list))) list" where
  "SessionProtocolBackendMachine_HandleEvent_pairing env ev s =
     [(sb_State (fst s) = SessionProtocolBackendIdle \<and> ev = SessionProtocolEventCliInitPair,
       block [act env SessionProtocolActionGenerateToken,
              assign env (sb_CurrentToken_update (\<lambda>_. ''tok_1'')) ''current_token'',
              goto (sb_State_update (\<lambda>_. SessionProtocolBackendGenerateToken))] []),
      (sb_State (fst s) = SessionProtocolBackendGenerateToken \<and> ev = SessionProtocolEventTokenCreated,
       block [act env SessionProtocolActionRegisterRelay,
              goto (sb_State_update (\<lambda>_. SessionProtocolBackendRegisterRelay))] []),
      (sb_State (fst s) = SessionProtocolBackendRegisterRelay \<and> ev = SessionProtocolEventRelayRegistered,
       block [assign env (sb_SecretPublished_update (\<lambda>_. True)) ''secret_published'',
              goto (sb_State_update (\<lambda>_. SessionProtocolBackendWaitingForClient))] []),
      (sb_State (fst s) = SessionProtocolBackendWaitingForClient \<and> ev = SessionProtocolEventRecvPairHello \<and> guarded env SessionProtocolGuardTokenValid s,
       block [act env SessionProtocolActionDeriveSecret,
              assign env (sb_BackendEcdhPub_update (\<lambda>_. ''backend_pub'')) ''backend_ecdh_pub'',
              goto (sb_State_update (\<lambda>_. SessionProtocolBackendDeriveSecret))] []),
      (sb_State (fst s) = SessionProtocolBackendWaitingForClient \<and> ev = SessionProtocolEventRecvPairHello \<and> guarded env SessionProtocolGuardTokenInvalid s,
       block [goto (sb_State_update (\<lambda>_. SessionProtocolBackendIdle))] []),
      (sb_State (fst s) = SessionProtocolBackendDeriveSecret \<and> ev = SessionProtocolEventEcdhComplete,
       block [goto (sb_State_update (\<lambda>_. SessionProtocolBackendSendAck))] []),
      (sb_State (fst s) = SessionProtocolBackendSendAck \<and> ev = SessionProtocolEventSignalCodeDisplay,
       block [goto (sb_State_update (\<lambda>_. SessionProtocolBackendWaitingForCode))] []),
      (sb_State (fst s) = SessionProtocolBackendWaitingForCode \<and> ev = SessionProtocolEventCliCodeEntered,
       block [goto (sb_State_update (\<lambda>_. SessionProtocolBackendValidateCode))] []),
      (sb_State (fst s) = SessionProtocolBackendValidateCode \<and> ev = SessionProtocolEventCheckCode \<and> guarded env SessionProtocolGuardCodeCorrect s,
       block [goto (sb_State_update (\<lambda>_. SessionProtocolBackendStorePaired))] []),
      (sb_State (fst s) = SessionProtocolBackendValidateCode \<and> ev = SessionProtocolEventCheckCode \<and> guarded env SessionProtocolGuardCodeWrong s,
       block [assign env (\<lambda>m. m\<lparr>sb_CodeAttempts := sb_CodeAttempts m + 1\<rparr>) ''code_attempts'',
              goto (sb_State_update (\<lambda>_. SessionProtocolBackendIdle))] []),
      (sb_State (fst s) = SessionProtocolBackendStorePaired \<and> ev = SessionProtocolEventFinalise,
       block [act env SessionProtocolActionStoreDevice,
              assign env (sb_DeviceSecret_update (\<lambda>_. ''dev_secret_1'')) ''device_secret'',
              goto (sb_State_update (\<lambda>_. SessionProtocolBackendPaired))] []),
      (sb_State (fst s) = SessionProtocolBackendPaired \<and> ev = SessionProtocolEventRecvAuthRequest,
       block [goto (sb_State_update (\<lambda>_. SessionProtocolBackendAuthCheck))] []),
      (sb_State (fst s) = SessionProtocolBackendAuthCheck \<and> ev = SessionProtocolEventVerify \<and> guarded env SessionProtocolGuardDeviceKnown s,
       block [act env SessionProtocolActionVerifyDevice,
              goto (sb_State_update (\<lambda>_. SessionProtocolBackendSessionActive))] []),
      (sb_State (fst s) = SessionProtocolBackendAuthCheck \<and> ev = SessionProtocolEventVerify \<and> guarded env SessionProtocolGuardDeviceUnknown s,
       block [goto (sb_State_update (\<lambda>_. SessionProtocolBackendIdle))] [])]"

definition SessionProtocolBackendMachine_HandleEvent_path ::
  "(SessionProtocolBackendMachine, 'w, 'e) callbacks \<Rightarrow> string \<Rightarrow> SessionProtocolBackendMachine \<times> 'w \<Rightarrow>
   (bool \<times> (SessionProtocolBackendMachine \<times> 'w \<Rightarrow> (SessionProtocolBackendMachine \<times> 'w) \<times> ('e + string list))) list" where
  "SessionProtocolBackendMachine_HandleEvent_path env ev s =
     [(sb_State (fst s) = SessionProtocolBackendSessionActive \<and> ev = SessionProtocolEventSessionEstablished,
       block [goto (sb_State_update (\<lambda>_. SessionProtocolBackendRelayConnected))] []),
      (sb_State (fst s) = SessionProtocolBackendRelayConnected \<and> ev = SessionProtocolEventCandidatesGathered,
       block [goto (sb_State_update (\<lambda>_. SessionProtocolBackendCandidatesAdvertised))] [SessionProtocolCmdSendCandidates]),
      (sb_State (fst s) = SessionProtocolBackendCandidatesAdvertised \<and> ev = SessionProtocolEventRecvPairCheck \<and> guarded env SessionProtocolGuardChallengeValid s,
       block [act env SessionProtocolActionActivateLan,
              assign env (sb_PingFailures_update (\<lambda>_. 0)) ''ping_failures'',
              assign env (sb_BackoffLevel_update (\<lambda>_. 0)) ''backoff_level'',
              assign env (sb_BActivePath_update (\<lambda>_. ''alt'')) ''b_active_path'',
              assign env (sb_BDispatcherPath_update (\<lambda>_. ''alt'')) ''b_dispatcher_path'',
              assign env (sb_MonitorTarget_update (\<lambda>_. ''alt'')) ''monitor_target'',
              assign env (sb_AltSignal_update (\<lambda>_. ''ready'')) ''alt_signal'',
              goto (sb_State_update (\<lambda>_. SessionProtocolBackendAltActive))] [SessionProtocolCmdSendPairCheckAck, SessionProtocolCmdStartAltStreamReader, SessionProtocolCmdStartAltDgReader, SessionProtocolCmdStartMonitor, SessionProtocolCmdSignalAltReady, SessionProtocolCmdSetCryptoDatagram]),
      (sb_State (fst s) = SessionProtocolBackendCandidatesAdvertised \<and> ev = SessionProtocolEventRecvPairCheck \<and> guarded env SessionProtocolGuardChallengeInvalid s,
       block [goto (sb_State_update (\<lambda>_. SessionProtocolBackendRelayConnected))] []),
      (sb_State (fst s) = SessionProtocolBackendCandidatesAdvertised \<and> ev = SessionProtocolEventCandidatesTimeout,
       block [assign env (sb_AltSignal_update (\<lambda>_. ''pending'')) ''alt_signal'',
              goto (sb_State_update (\<lambda>_. SessionProtocolBackendRelayBackoff))] [SessionProtocolCmdResetAltReady, SessionProtocolCmdStartBackoffTimer]),
      (sb_State (fst s) = SessionProtocolBackendAltActive \<and> ev = SessionProtocolEventPingTick,
       block [goto (sb_State_update (\<lambda>_. SessionProtocolBackendAltActive))] [SessionProtocolCmdSendPathPing, SessionProtocolCmdStartPongTimeout]),
      (sb_State (fst s) = SessionProtocolBackendAltActive \<and> ev = SessionProtocolEventPingTimeout,
       block [assign env (sb_PingFailures_update (\<lambda>_. 1)) ''ping_failures'',
              goto (sb_State_update (\<lambda>_. SessionProtocolBackendAltDegraded))] []),
      (sb_State (fst s) = SessionProtocolBackendAltDegraded \<and> ev = SessionProtocolEventPingTick,
       block [goto (sb_State_update (\<lambda>_. SessionProtocolBackendAltDegraded))] [SessionProtocolCmdSendPathPing, SessionProtocolCmdStartPongTimeout]),
      (sb_State (fst s) = SessionProtocolBackendAltActive \<and> ev = SessionProtocolEventAltStreamError,
       block [act env SessionProtocolActionFallbackToRelay,
              assign env (sb_BActivePath_update (\<lambda>_. ''relay'')) ''b_active_path'',
              assign env (sb_BDispatcherPath_update (\<lambda>_. ''relay'')) ''b_dispatcher_path'',
              assign env (sb_MonitorTarget_update (\<lambda>_. ''none'')) ''monitor_target'',
              assign env (sb_AltSignal_update (\<lambda>_. ''pending'')) ''alt_signal'',
              assign env (sb_PingFailures_update (\<lambda>_. 0)) ''ping_failures'',
              goto (sb_State_update (\<lambda>_. SessionProtocolBackendRelayBackoff))] [SessionProtocolCmdStopMonitor, SessionProtocolCmdStopAltStreamReader, SessionProtocolCmdStopAltDgReader, SessionProtocolCmdCloseAltPath, SessionProtocolCmdResetAltReady, SessionProtocolCmdStartBackoffTimer]),
      (sb_State (fst s) = SessionProtocolBackendAltDegraded \<and> ev = SessionProtocolEventAltStreamError,
       block [act env SessionProtocolActionFallbackToRelay,
              assign env (sb_BActivePath_update (\<lambda>_. ''relay'')) ''b_active_path'',
              assign env (sb_BDispatcherPath_update (\<lambda>_. ''relay'')) ''b_dispatcher_path'',
              assign env (sb_MonitorTarget_update (\<lambda>_. ''none'')) ''monitor_target'',
              assign env (sb_AltSignal_update (\<lambda>_. ''pending'')) ''alt_signal'',
              assign env (sb_PingFailures_update (\<lambda>_. 0)) ''ping_failures'',
              goto (sb_State_update (\<lambda>_. SessionProtocolBackendRelayBackoff))] [SessionProtocolCmdStopMonitor, SessionProtocolCmdStopAltStreamReader, SessionProtocolCmdStopAltDgReader, SessionProtocolCmdCloseAltPath, SessionProtocolCmdResetAltReady, SessionProtocolCmdStartBackoffTimer]),
      (sb_State (fst s) = SessionProtocolBackendAltDegraded \<and> ev = SessionProtocolEventRecvPathPong,
       block [act env SessionProtocolActionResetFailures,
              assign env (sb_PingFailures_update (\<lambda>_. 0)) ''ping_failures'',
              goto (sb_State_update (\<lambda>_. SessionProtocolBackendAltActive))] [SessionProtocolCmdCancelPongTimeout])]"

definition SessionProtocolBackendMachine_HandleEvent_fallback ::
  "(SessionProtocolBackendMachine, 'w, 'e) callbacks \<Rightarrow> string \<Rightarrow> SessionProtocolBackendMachine \<times> 'w \<Rightarrow>
   (bool \<times> (SessionProtocolBackendMachine \<times> 'w \<Rightarrow> (SessionProtocolBackendMachine \<times> 'w) \<times> ('e + string list))) list" where
  "SessionProtocolBackendMachine_HandleEvent_fallback env ev s =
     [(sb_State (fst s) = SessionProtocolBackendAltDegraded \<and> ev = SessionProtocolEventPingTimeout \<and> guarded env SessionProtocolGuardUnderMaxFailures s,
       block [assign env (\<lambda>m. m\<lparr>sb_PingFailures := sb_PingFailures m + 1\<rparr>) ''ping_failures'',
              goto (sb_State_update (\<lambda>_. SessionProtocolBackendAltDegraded))] []),
      (sb_State (fst s) = SessionProtocolBackendAltDegraded \<and> ev = SessionProtocolEventPingTimeout \<and> guarded env SessionProtocolGuardAtMaxFailures s,
       block [act env SessionProtocolActionFallbackToRelay,
              assign env (sb_BActivePath_update (\<lambda>_. ''relay'')) ''b_active_path'',
              assign env (sb_BDispatcherPath_update (\<lambda>_. ''relay'')) ''b_dispatcher_path'',
              assign env (sb_MonitorTarget_update (\<lambda>_. ''none'')) ''monitor_target'',
              assign env (sb_AltSignal_update (\<lambda>_. ''pending'')) ''alt_signal'',
              assign env (sb_PingFailures_update (\<lambda>_. 0)) ''ping_failures'',
              goto (sb_State_update (\<lambda>_. SessionProtocolBackendRelayBackoff))] [SessionProtocolCmdStopMonitor, SessionProtocolCmdStopAltStreamReader, SessionProtocolCmdStopAltDgReader, SessionProtocolCmdCloseAltPath, SessionProtocolCmdResetAltReady, SessionProtocolCmdStartBackoffTimer]),
      (sb_State (fst s) = SessionProtocolBackendRelayBackoff \<and> ev = SessionProtocolEventBackoffExpired,
       block [goto (sb_State_update (\<lambda>_. SessionProtocolBackendCandidatesAdvertised))] [SessionProtocolCmdSendCandidates]),
      (sb_State (fst s) = SessionProtocolBackendRelayBackoff \<and> ev = SessionProtocolEventCandidatesChanged,
       block [assign env (sb_BackoffLevel_update (\<lambda>_. 0)) ''backoff_level'',
              goto (sb_State_update (\<lambda>_. SessionProtocolBackendCandidatesAdvertised))] [SessionProtocolCmdSendCandidates]),
      (sb_State (fst s) = SessionProtocolBackendRelayConnected \<and> ev = SessionProtocolEventCandidatesRefreshTick \<and> guarded env SessionProtocolGuardLocalCandidatesAvailable s,
       block [goto (sb_State_update (\<lambda>_. SessionProtocolBackendCandidatesAdvertised))] [SessionProtocolCmdSendCandidates]),
      (sb_State (fst s) = SessionProtocolBackendCandidatesAdvertised \<and> ev = SessionProtocolEventAppForceFallback,
       block [assign env (sb_AltSignal_update (\<lambda>_. ''pending'')) ''alt_signal'',
              goto (sb_State_update (\<lambda>_. SessionProtocolBackendRelayConnected))] [SessionProtocolCmdResetAltReady]),
      (sb_State (fst s) = SessionProtocolBackendAltActive \<and> ev = SessionProtocolEventAppForceFallback,
       block [act env SessionProtocolActionFallbackToRelay,
              assign env (sb_BActivePath_update (\<lambda>_. ''relay'')) ''b_active_path'',
              assign env (sb_BDispatcherPath_update (\<lambda>_. ''relay'')) ''b_dispatcher_path'',
              assign env (sb_MonitorTarget_update (\<lambda>_. ''none'')) ''monitor_target'',
              assign env (sb_AltSignal_update (\<lambda>_. ''pending'')) ''alt_signal'',
              assign env (sb_PingFailures_update (\<lambda>_. 0)) ''ping_failures'',
              goto (sb_State_update (\<lambda>_. SessionProtocolBackendRelayBackoff))] [SessionProtocolCmdStopMonitor, SessionProtocolCmdCancelPongTimeout, SessionProtocolCmdStopAltStreamReader, SessionProtocolCmdStopAltDgReader, SessionProtocolCmdCloseAltPath, SessionProtocolCmdResetAltReady, SessionProtocolCmdStartBackoffTimer]),
      (sb_State (fst s) = SessionProtocolBackendAltDegraded \<and> ev = SessionProtocolEventAppForceFallback,
       block [act env SessionProtocolActionFallbackToRelay,
              assign env (sb_BActivePath_update (\<lambda>_. ''relay'')) ''b_active_path'',
              assign env (sb_BDispatcherPath_update (\<lambda>_. ''relay'')) ''b_dispatcher_path'',
              assign env (sb_MonitorTarget_update (\<lambda>_. ''none'')) ''monitor_target'',
              assign env (sb_AltSignal_update (\<lambda>_. ''pending'')) ''alt_signal'',
              assign env (sb_PingFailures_update (\<lambda>_. 0)) ''ping_failures'',
              goto (sb_State_update (\<lambda>_. SessionProtocolBackendRelayBackoff))] [SessionProtocolCmdStopMonitor, SessionProtocolCmdCancelPongTimeout, SessionProtocolCmdStopAltStreamReader, SessionProtocolCmdStopAltDgReader, SessionProtocolCmdCloseAltPath, SessionProtocolCmdResetAltReady, SessionProtocolCmdStartBackoffTimer])]"

definition SessionProtocolBackendMachine_HandleEvent_traffic ::
  "(SessionProtocolBackendMachine, 'w, 'e) callbacks \<Rightarrow> string \<Rightarrow> SessionProtocolBackendMachine \<times> 'w \<Rightarrow>
   (bool \<times> (SessionProtocolBackendMachine \<times> 'w \<Rightarrow> (SessionProtocolBackendMachine \<times> 'w) \<times> ('e + string list))) list" where
  "SessionProtocolBackendMachine_HandleEvent_traffic env ev s =
     [(sb_State (fst s) = SessionProtocolBackendRelayConnected \<and> ev = SessionProtocolEventDisconnect,
       block [goto (sb_State_update (\<lambda>_. SessionProtocolBackendPaired))] []),
      (sb_State (fst s) = SessionProtocolBackendRelayConnected \<and> ev = SessionProtocolEventAppSend,
       block [goto (sb_State_update (\<lambda>_. SessionProtocolBackendRelayConnected))] [SessionProtocolCmdWriteActiveStream]),
      (sb_State (fst s) = SessionProtocolBackendCandidatesAdvertised \<and> ev = SessionProtocolEventAppSend,
       block [goto (sb_State_update (\<lambda>_. SessionProtocolBackendCandidatesAdvertised))] [SessionProtocolCmdWriteActiveStream]),
      (sb_State (fst s) = SessionProtocolBackendAltActive \<and> ev = SessionProtocolEventAppSend,
       block [goto (sb_State_update (\<lambda>_. SessionProtocolBackendAltActive))] [SessionProtocolCmdWriteActiveStream]),
      (sb_State (fst s) = SessionProtocolBackendAltDegraded \<and> ev = SessionProtocolEventAppSend,
       block [goto (sb_State_update (\<lambda>_. SessionProtocolBackendAltDegraded))] [SessionProtocolCmdWriteActiveStream]),
      (sb_State (fst s) = SessionProtocolBackendRelayBackoff \<and> ev = SessionProtocolEventAppSend,
       block [goto (sb_State_update (\<lambda>_. SessionProtocolBackendRelayBackoff))] [SessionProtocolCmdWriteActiveStream]),
      (sb_State (fst s) = SessionProtocolBackendRelayConnected \<and> ev = SessionProtocolEventRelayStreamData,
       block [goto (sb_State_update (\<lambda>_. SessionProtocolBackendRelayConnected))] [SessionProtocolCmdDeliverRecv]),
      (sb_State (fst s) = SessionProtocolBackendCandidatesAdvertised \<and> ev = SessionProtocolEventRelayStreamData,
       block [goto (sb_State_update (\<lambda>_. SessionProtocolBackendCandidatesAdvertised))] [SessionProtocolCmdDeliverRecv]),
      (sb_State (fst s) = SessionProtocolBackendAltActive \<and> ev = SessionProtocolEventRelayStreamData,
       block [goto (sb_State_update (\<lambda>_. SessionProtocolBackendAltActive))] [SessionProtocolCmdDeliverRecv]),
      (sb_State (fst s) = SessionProtocolBackendAltDegraded \<and> ev = SessionProtocolEventRelayStreamData,
       block [goto (sb_State_update (\<lambda>_. SessionProtocolBackendAltDegraded))] [SessionProtocolCmdDeliverRecv]),
      (sb_State (fst s) = SessionProtocolBackendRelayBackoff \<and> ev = SessionProtocolEventRelayStreamData,
       block [goto (sb_State_update (\<lambda>_. SessionProtocolBackendRelayBackoff))] [SessionProtocolCmdDeliverRecv]),
      (sb_State (fst s) = SessionProtocolBackendRelayConnected \<and> ev = SessionProtocolEventRelayStreamError,
       block [goto (sb_State_update (\<lambda>_. SessionProtocolBackendRelayConnected))] [SessionProtocolCmdDeliverRecvError]),
      (sb_State (fst s) = SessionProtocolBackendCandidatesAdvertised \<and> ev = SessionProtocolEventRelayStreamError,
       block [goto (sb_State_update (\<lambda>_. SessionProtocolBackendCandidatesAdvertised))] [SessionProtocolCmdDeliverRecvError]),
      (sb_State (fst s) = SessionProtocolBackendAltActive \<and> ev = SessionProtocolEventRelayStreamError,
       block [goto (sb_State_update (\<lambda>_. SessionProtocolBackendAltActive))] [SessionProtocolCmdDeliverRecvError]),
      (sb_State (fst s) = SessionProtocolBackendAltDegraded \<and> ev = SessionProtocolEventRelayStreamError,
       block [goto (sb_State_update (\<lambda>_. SessionProtocolBackendAltDegraded))] [SessionProtocolCmdDeliverRecvError]),
      (sb_State (fst s) = SessionProtocolBackendRelayBackoff \<and> ev = SessionProtocolEventRelayStreamError,
       block [goto (sb_State_update (\<lambda>_. SessionProtocolBackendRelayBackoff))] [SessionProtocolCmdDeliverRecvError]),
      (sb_State (fst s) = SessionProtocolBackendRelayConnected \<and> ev = SessionProtocolEventAppSendDatagram,
       block [goto (sb_State_update (\<lambda>_. SessionProtocolBackendRelayConnected))] [SessionProtocolCmdSendActiveDatagram]),
      (sb_State (fst s) = SessionProtocolBackendCandidatesAdvertised \<and> ev = SessionProtocolEventAppSendDatagram,
       block [goto (sb_State_update (\<lambda>_. SessionProtocolBackendCandidatesAdvertised))] [SessionProtocolCmdSendActiveDatagram]),
      (sb_State (fst s) = SessionProtocolBackendAltActive \<and> ev = SessionProtocolEventAppSendDatagram,
       block [goto (sb_State_update (\<lambda>_. SessionProtocolBackendAltActive))] [SessionProtocolCmdSendActiveDatagram]),
      (sb_State (fst s) = SessionProtocolBackendAltDegraded \<and> ev = SessionProtocolEventAppSendDatagram,
       block [goto (sb_State_update (\<lambda>_. SessionProtocolBackendAltDegraded))] [SessionProtocolCmdSendActiveDatagram]),
      (sb_State (fst s) = SessionProtocolBackendRelayBackoff \<and> ev = SessionProtocolEventAppSendDatagram,
       block [goto (sb_State_update (\<lambda>_. SessionProtocolBackendRelayBackoff))] [SessionProtocolCmdSendActiveDatagram]),
      (sb_State (fst s) = SessionProtocolBackendRelayConnected \<and> ev = SessionProtocolEventRelayDatagram,
       block [goto (sb_State_update (\<lambda>_. SessionProtocolBackendRelayConnected))] [SessionProtocolCmdDeliverRecvDatagram]),
      (sb_State (fst s) = SessionProtocolBackendCandidatesAdvertised \<and> ev = SessionProtocolEventRelayDatagram,
       block [goto (sb_State_update (\<lambda>_. SessionProtocolBackendCandidatesAdvertised))] [SessionProtocolCmdDeliverRecvDatagram]),
      (sb_State (fst s) = SessionProtocolBackendAltActive \<and> ev = SessionProtocolEventRelayDatagram,
       block [goto (sb_State_update (\<lambda>_. SessionProtocolBackendAltActive))] [SessionProtocolCmdDeliverRecvDatagram]),
      (sb_State (fst s) = SessionProtocolBackendAltDegraded \<and> ev = SessionProtocolEventRelayDatagram,
       block [goto (sb_State_update (\<lambda>_. SessionProtocolBackendAltDegraded))] [SessionProtocolCmdDeliverRecvDatagram]),
      (sb_State (fst s) = SessionProtocolBackendRelayBackoff \<and> ev = SessionProtocolEventRelayDatagram,
       block [goto (sb_State_update (\<lambda>_. SessionProtocolBackendRelayBackoff))] [SessionProtocolCmdDeliverRecvDatagram]),
      (sb_State (fst s) = SessionProtocolBackendAltActive \<and> ev = SessionProtocolEventAltStreamData,
       block [goto (sb_State_update (\<lambda>_. SessionProtocolBackendAltActive))] [SessionProtocolCmdDeliverRecv]),
      (sb_State (fst s) = SessionProtocolBackendAltDegraded \<and> ev = SessionProtocolEventAltStreamData,
       block [goto (sb_State_update (\<lambda>_. SessionProtocolBackendAltDegraded))] [SessionProtocolCmdDeliverRecv]),
      (sb_State (fst s) = SessionProtocolBackendAltActive \<and> ev = SessionProtocolEventAltDatagram,
       block [goto (sb_State_update (\<lambda>_. SessionProtocolBackendAltActive))] [SessionProtocolCmdDeliverRecvDatagram]),
      (sb_State (fst s) = SessionProtocolBackendAltDegraded \<and> ev = SessionProtocolEventAltDatagram,
       block [goto (sb_State_update (\<lambda>_. SessionProtocolBackendAltDegraded))] [SessionProtocolCmdDeliverRecvDatagram])]"

definition SessionProtocolBackendMachine_HandleEvent ::
  "(SessionProtocolBackendMachine, 'w, 'e) callbacks \<Rightarrow> string \<Rightarrow> SessionProtocolBackendMachine \<times> 'w \<Rightarrow> (SessionProtocolBackendMachine \<times> 'w) \<times> ('e + string list)" where
  "SessionProtocolBackendMachine_HandleEvent env ev s = gswitch
     (SessionProtocolBackendMachine_HandleEvent_pairing env ev s @
      SessionProtocolBackendMachine_HandleEvent_path env ev s @
      SessionProtocolBackendMachine_HandleEvent_fallback env ev s @
      SessionProtocolBackendMachine_HandleEvent_traffic env ev s)
     (block [] []) s"

definition SessionProtocolBackend_struct :: "SessionProtocolBackendMachine struct" where
  "SessionProtocolBackend_struct =
     \<lparr>get_state = sb_State, set_state = (\<lambda>x. sb_State_update (\<lambda>_. x)),
      get_int = (\<lambda>v m. if v = ''code_attempts'' then sb_CodeAttempts m else if v = ''ping_failures'' then sb_PingFailures m else if v = ''backoff_level'' then sb_BackoffLevel m else 0),
      set_var = (\<lambda>v l. if v = ''current_token'' then sb_CurrentToken_update (\<lambda>_. lit_string l)
        else if v = ''backend_ecdh_pub'' then sb_BackendEcdhPub_update (\<lambda>_. lit_string l)
        else if v = ''received_client_pub'' then sb_ReceivedClientPub_update (\<lambda>_. lit_string l)
        else if v = ''backend_shared_key'' then sb_BackendSharedKey_update (\<lambda>_. lit_string l)
        else if v = ''backend_code'' then sb_BackendCode_update (\<lambda>_. lit_string l)
        else if v = ''received_code'' then sb_ReceivedCode_update (\<lambda>_. lit_string l)
        else if v = ''code_attempts'' then sb_CodeAttempts_update (\<lambda>_. lit_int l)
        else if v = ''device_secret'' then sb_DeviceSecret_update (\<lambda>_. lit_string l)
        else if v = ''received_device_id'' then sb_ReceivedDeviceId_update (\<lambda>_. lit_string l)
        else if v = ''received_auth_nonce'' then sb_ReceivedAuthNonce_update (\<lambda>_. lit_string l)
        else if v = ''secret_published'' then sb_SecretPublished_update (\<lambda>_. lit_bool l)
        else if v = ''ping_failures'' then sb_PingFailures_update (\<lambda>_. lit_int l)
        else if v = ''backoff_level'' then sb_BackoffLevel_update (\<lambda>_. lit_int l)
        else if v = ''b_active_path'' then sb_BActivePath_update (\<lambda>_. lit_string l)
        else if v = ''b_dispatcher_path'' then sb_BDispatcherPath_update (\<lambda>_. lit_string l)
        else if v = ''monitor_target'' then sb_MonitorTarget_update (\<lambda>_. lit_string l)
        else if v = ''alt_signal'' then sb_AltSignal_update (\<lambda>_. lit_string l)
        else id)\<rparr>"

definition SessionProtocolBackend_reads :: "string \<Rightarrow> go_literal \<Rightarrow> SessionProtocolBackendMachine \<Rightarrow> bool" where
  "SessionProtocolBackend_reads v l m =
     (if v = ''current_token'' then sb_CurrentToken m = lit_string l
      else if v = ''backend_ecdh_pub'' then sb_BackendEcdhPub m = lit_string l
      else if v = ''received_client_pub'' then sb_ReceivedClientPub m = lit_string l
      else if v = ''backend_shared_key'' then sb_BackendSharedKey m = lit_string l
      else if v = ''backend_code'' then sb_BackendCode m = lit_string l
      else if v = ''received_code'' then sb_ReceivedCode m = lit_string l
      else if v = ''code_attempts'' then sb_CodeAttempts m = lit_int l
      else if v = ''device_secret'' then sb_DeviceSecret m = lit_string l
      else if v = ''received_device_id'' then sb_ReceivedDeviceId m = lit_string l
      else if v = ''received_auth_nonce'' then sb_ReceivedAuthNonce m = lit_string l
      else if v = ''secret_published'' then sb_SecretPublished m = lit_bool l
      else if v = ''ping_failures'' then sb_PingFailures m = lit_int l
      else if v = ''backoff_level'' then sb_BackoffLevel m = lit_int l
      else if v = ''b_active_path'' then sb_BActivePath m = lit_string l
      else if v = ''b_dispatcher_path'' then sb_BDispatcherPath m = lit_string l
      else if v = ''monitor_target'' then sb_MonitorTarget m = lit_string l
      else if v = ''alt_signal'' then sb_AltSignal m = lit_string l
      else False)"

section \<open>The backend machine is what the table says\<close>

interpretation sb: machine_struct SessionProtocolBackend_struct
  by unfold_locales (simp add: SessionProtocolBackend_struct_def)

lemma sb_HandleMessage_generated:
  "SessionProtocolBackendMachine_HandleMessage env msg s = gen_HandleMessage SessionProtocolBackend_struct SessionProtocol_backend_transitions env msg s"
  by (simp add: SessionProtocolBackendMachine_HandleMessage_def SessionProtocol_backend_transitions_def SessionProtocolBackend_struct_def gen_simps sp_updates)

lemma sb_Step_cases:
  "SessionProtocolBackendMachine_Step_pairing env event s @
   SessionProtocolBackendMachine_Step_path env event s @
   SessionProtocolBackendMachine_Step_fallback env event s @
   SessionProtocolBackendMachine_Step_traffic env event s =
   gen_cases SessionProtocolBackend_struct env trigger_name (\<lambda>_. True) event s
     (filter (\<lambda>t. \<not> is_recv t) SessionProtocol_backend_transitions)"
  unfolding SessionProtocolBackendMachine_Step_pairing_def
    SessionProtocolBackendMachine_Step_path_def
    SessionProtocolBackendMachine_Step_fallback_def
    SessionProtocolBackendMachine_Step_traffic_def
  by (simp add: SessionProtocol_backend_transitions_def SessionProtocolBackend_struct_def gen_simps sp_updates lit_bool_def)

lemma sb_Step_generated:
  "SessionProtocolBackendMachine_Step env event s = gen_Step SessionProtocolBackend_struct SessionProtocol_backend_transitions env event s"
  by (simp only: SessionProtocolBackendMachine_Step_def gen_Step_def sb_Step_cases)

lemma sb_HandleEvent_cases:
  "SessionProtocolBackendMachine_HandleEvent_pairing env ev s @
   SessionProtocolBackendMachine_HandleEvent_path env ev s @
   SessionProtocolBackendMachine_HandleEvent_fallback env ev s @
   SessionProtocolBackendMachine_HandleEvent_traffic env ev s =
   gen_cases SessionProtocolBackend_struct env event_name Emits ev s
     (with_emits SessionProtocol_backend_transitions SessionProtocol_backend_emits)"
  unfolding SessionProtocolBackendMachine_HandleEvent_pairing_def
    SessionProtocolBackendMachine_HandleEvent_path_def
    SessionProtocolBackendMachine_HandleEvent_fallback_def
    SessionProtocolBackendMachine_HandleEvent_traffic_def
  by (simp add: SessionProtocol_backend_transitions_def SessionProtocolBackend_struct_def gen_simps sp_updates lit_bool_def SessionProtocol_backend_emits_def with_emits_def)

lemma sb_HandleEvent_generated:
  "SessionProtocolBackendMachine_HandleEvent env ev s = gen_HandleEvent SessionProtocolBackend_struct (with_emits SessionProtocol_backend_transitions SessionProtocol_backend_emits) env ev s"
  by (simp only: SessionProtocolBackendMachine_HandleEvent_def gen_HandleEvent_def sb_HandleEvent_cases)

lemmas sb_generated = sb_HandleMessage_generated sb_Step_generated sb_HandleEvent_generated

lemma sb_emits_length: "length SessionProtocol_backend_emits = length SessionProtocol_backend_transitions"
  by (simp add: SessionProtocol_backend_emits_def SessionProtocol_backend_transitions_def)

lemma sb_events_apart: "events_apart (with_emits SessionProtocol_backend_transitions SessionProtocol_backend_emits)"
  by (rule events_apart_with_emits) (simp add: events_apart_def SessionProtocol_backend_transitions_def transition_def)

section \<open>The paths of the backend\<close>

text \<open>
  The callbacks may do what they want with the rest of the world and with the fields the table
  leaves to the actions; they keep the fields that the machine assigns itself.
\<close>

definition sb_callbacks :: "(SessionProtocolBackendMachine, 'w, 'e) callbacks \<Rightarrow> bool" where
  "sb_callbacks env \<longleftrightarrow> keeps env sb_State \<and> keeps env sb_PingFailures \<and> keeps env sb_BActivePath \<and>
     keeps env sb_BDispatcherPath \<and> keeps env sb_MonitorTarget \<and> keeps env sb_AltSignal"

definition sb_path_vars :: "string list" where
  "sb_path_vars = [''ping_failures'', ''b_active_path'', ''b_dispatcher_path'', ''monitor_target'', ''alt_signal'']"

interpretation sbp: machine_vars SessionProtocolBackend_struct SessionProtocolBackend_reads sb_path_vars
  by (unfold_locales; (simp only: sb_path_vars_def list.set insert_iff empty_iff)?; (elim disjE FalseE)?;
      simp add: SessionProtocolBackend_struct_def SessionProtocolBackend_reads_def)

lemma sb_keeps_vars:
  "sb_callbacks env \<Longrightarrow> keeps_vars env SessionProtocolBackend_struct SessionProtocolBackend_reads sb_path_vars"
  by (simp add: sb_callbacks_def keeps_vars_def keeps_def SessionProtocolBackend_struct_def SessionProtocolBackend_reads_def
        sb_path_vars_def)

inductive sb_step :: "(SessionProtocolBackendMachine, 'w, 'e) callbacks \<Rightarrow>
    SessionProtocolBackendMachine \<times> 'w \<Rightarrow> SessionProtocolBackendMachine \<times> 'w \<Rightarrow> bool" for env where
  "sb_step env s (fst (SessionProtocolBackendMachine_HandleMessage env msg s))" |
  "sb_step env s (fst (SessionProtocolBackendMachine_Step env event s))" |
  "sb_step env s (fst (SessionProtocolBackendMachine_HandleEvent env ev s))" |
  "sb_step env (m, w) (m, w')"

definition sb_on_alt :: "string \<Rightarrow> bool" where
  "sb_on_alt s \<longleftrightarrow> s = SessionProtocolBackendAltActive \<or> s = SessionProtocolBackendAltDegraded"

definition sb_expected :: "string \<Rightarrow> string \<Rightarrow> go_literal option" where
  "sb_expected s v =
     (if v = ''b_active_path'' \<or> v = ''b_dispatcher_path'' then Some (GoText (if sb_on_alt s then ''\"alt\"'' else ''\"relay\"''))
      else if v = ''monitor_target'' then Some (GoText (if sb_on_alt s then ''\"alt\"'' else ''\"none\"''))
      else if v = ''alt_signal'' then Some (GoText (if sb_on_alt s then ''\"ready\"'' else ''\"pending\"''))
      else if s = SessionProtocolBackendAltDegraded then None else Some (GoNum 0))"

lemma sb_table_expected:
  "list_all (\<lambda>t. keeps_expected sb_expected sb_path_vars t \<and> To t \<in> set SessionProtocol_backend_states)
     SessionProtocol_backend_transitions"
  by code_simp

abbreviation sb_ok :: "SessionProtocolBackendMachine \<Rightarrow> bool" where
  "sb_ok \<equiv> as_expected SessionProtocolBackend_struct SessionProtocolBackend_reads sb_expected sb_path_vars
     SessionProtocol_backend_states"

interpretation sbrun: inv_system "\<lambda>s. s = (NewSessionProtocolBackendMachine, w0)" "sb_step env"
    "\<lambda>s. sb_callbacks env \<longrightarrow> sb_ok (fst s)" for w0 env
proof
  show "s = (NewSessionProtocolBackendMachine, w0) \<Longrightarrow> sb_callbacks env \<longrightarrow> sb_ok (fst s)" for s
    by (simp add: as_expected_def NewSessionProtocolBackendMachine_def SessionProtocolBackend_struct_def
          SessionProtocolBackend_reads_def sb_path_vars_def sb_expected_def sb_on_alt_def
          SessionProtocol_backend_states_def go_unquote_def)
  show "sb_callbacks env \<longrightarrow> sb_ok (fst s) \<Longrightarrow> sb_step env s s' \<Longrightarrow> sb_callbacks env \<longrightarrow> sb_ok (fst s')" for s s'
    by (erule sb_step.cases)
       (auto simp: sb_generated intro!: sbp.gen_expected [OF sb_keeps_vars sb_table_expected]
          sbp.gen_expected [OF sb_keeps_vars keeps_expected_with_emits [OF sb_table_expected]])
qed

text \<open>
  (C10) The backend's traffic, dispatcher and health monitor are where its state says, whatever happens:
  after any sequence of messages and events, with any guards and with actions that succeed or fail
  in any way but leave the machine's own path fields alone, they are on the alternative path and
  that path is signalled ready exactly in the states \<open>AltActive\<close> and \<open>AltDegraded\<close>; in all other
  states everything is on the relay, the monitor is off and the signal is pending; and ping failures
  are counted only while degraded. These are the invariants \<open>PathConsistency\<close>,
  \<open>DispatcherAlwaysBound\<close>, \<open>BackendDispatcherMatchesActive\<close> and \<open>MonitorOnlyWhenAlt\<close> of the table.
\<close>

theorem session_backend_paths:
  assumes "sb_callbacks env" and "(sb_step env)\<^sup>*\<^sup>* (NewSessionProtocolBackendMachine, w0) (m, w)"
  shows "sb_State m \<in> set SessionProtocol_backend_states \<and>
    (if sb_State m = SessionProtocolBackendAltActive \<or> sb_State m = SessionProtocolBackendAltDegraded
     then sb_BActivePath m = ''alt'' \<and> sb_BDispatcherPath m = ''alt'' \<and> sb_MonitorTarget m = ''alt'' \<and> sb_AltSignal m = ''ready''
     else sb_BActivePath m = ''relay'' \<and> sb_BDispatcherPath m = ''relay'' \<and> sb_MonitorTarget m = ''none'' \<and> sb_AltSignal m = ''pending'') \<and>
    (sb_State m \<noteq> SessionProtocolBackendAltDegraded \<longrightarrow> sb_PingFailures m = 0)"
  using sbrun.reachable [OF refl assms(2)] assms(1)
  by (simp add: as_expected_def SessionProtocolBackend_struct_def SessionProtocolBackend_reads_def sb_path_vars_def
        sb_expected_def sb_on_alt_def go_unquote_def split: if_splits)

definition sb_events :: "(SessionProtocolBackendMachine, 'w, 'e) callbacks \<Rightarrow> string list \<Rightarrow>
    SessionProtocolBackendMachine \<times> 'w \<Rightarrow> SessionProtocolBackendMachine \<times> 'w" where
  "sb_events env = fold (\<lambda>ev s. fst (SessionProtocolBackendMachine_HandleEvent env ev s))"

lemma sb_events_more:
  "sb_events env (replicate (Suc k) ev) s = fst (SessionProtocolBackendMachine_HandleEvent env ev (sb_events env (replicate k ev) s))"
  unfolding sb_events_def by (induction k arbitrary: s) simp_all

lemma sb_events_steps: "(sb_step env)\<^sup>*\<^sup>* s (sb_events env evs s)"
  unfolding sb_events_def by (rule fold_rtranclp) (rule sb_step.intros)

text \<open>A first session: pairing, authentication, and a verified alternative path.\<close>

definition sb_first_session :: "string list" where
  "sb_first_session =
     [SessionProtocolEventCliInitPair, SessionProtocolEventTokenCreated, SessionProtocolEventRelayRegistered,
      SessionProtocolEventRecvPairHello, SessionProtocolEventEcdhComplete, SessionProtocolEventSignalCodeDisplay,
      SessionProtocolEventCliCodeEntered, SessionProtocolEventCheckCode, SessionProtocolEventFinalise,
      SessionProtocolEventRecvAuthRequest, SessionProtocolEventVerify, SessionProtocolEventSessionEstablished,
      SessionProtocolEventCandidatesGathered, SessionProtocolEventRecvPairCheck]"

lemma sb_first_session_state:
  "sb_State (fst (sb_events all_guards sb_first_session (NewSessionProtocolBackendMachine, ()))) = SessionProtocolBackendAltActive"
  by code_simp

theorem session_backend_paths_witness:
  "sb_BActivePath (fst (sb_events all_guards sb_first_session (NewSessionProtocolBackendMachine, ()))) = ''alt'' \<and>
   sb_MonitorTarget (fst (sb_events all_guards sb_first_session (NewSessionProtocolBackendMachine, ()))) = ''alt''"
proof -
  have "sb_callbacks (all_guards :: (_, unit, unit) callbacks)" by (simp add: sb_callbacks_def keeps_all_guards)
  from session_backend_paths [OF this, of "()" "fst (sb_events all_guards sb_first_session (NewSessionProtocolBackendMachine, ()))"
      "snd (sb_events all_guards sb_first_session (NewSessionProtocolBackendMachine, ()))"]
  show ?thesis unfolding sb_first_session_state prod.collapse by (simp add: sb_events_steps)
qed

section \<open>What the backend starts it stops\<close>

text \<open>
  The commands that own something, as \<open>protocol/session.yaml\<close> describes them: the health ping timer,
  the readers of the alternative path's stream and datagrams, and the \<open>AltReady\<close> signal.
\<close>

record alt_resources =
  monitor :: bool
  stream_reader :: bool
  dg_reader :: bool
  alt_ready :: bool

definition alt_idle :: alt_resources where
  "alt_idle = \<lparr>monitor = False, stream_reader = False, dg_reader = False, alt_ready = False\<rparr>"

definition alt_running :: alt_resources where
  "alt_running = \<lparr>monitor = True, stream_reader = True, dg_reader = True, alt_ready = True\<rparr>"

definition run_cmd :: "string \<Rightarrow> alt_resources \<Rightarrow> alt_resources" where
  "run_cmd c r =
     (if c = SessionProtocolCmdStartMonitor then r\<lparr>monitor := True\<rparr>
      else if c = SessionProtocolCmdStopMonitor then r\<lparr>monitor := False\<rparr>
      else if c = SessionProtocolCmdStartAltStreamReader then r\<lparr>stream_reader := True\<rparr>
      else if c = SessionProtocolCmdStopAltStreamReader then r\<lparr>stream_reader := False\<rparr>
      else if c = SessionProtocolCmdStartAltDgReader then r\<lparr>dg_reader := True\<rparr>
      else if c = SessionProtocolCmdStopAltDgReader then r\<lparr>dg_reader := False\<rparr>
      else if c = SessionProtocolCmdSignalAltReady then r\<lparr>alt_ready := True\<rparr>
      else if c = SessionProtocolCmdResetAltReady then r\<lparr>alt_ready := False\<rparr>
      else r)"

text \<open>An event handled by the machine, with its commands carried out; a failed action emits none.\<close>

definition sb_exec :: "(SessionProtocolBackendMachine, 'w, 'e) callbacks \<Rightarrow> string \<Rightarrow>
    (SessionProtocolBackendMachine \<times> 'w) \<times> alt_resources \<Rightarrow> (SessionProtocolBackendMachine \<times> 'w) \<times> alt_resources" where
  "sb_exec env ev = (\<lambda>(s, r). let res = SessionProtocolBackendMachine_HandleEvent env ev s in
     (fst res, case snd res of Inl _ \<Rightarrow> r | Inr cmds \<Rightarrow> fold run_cmd cmds r))"

definition sb_resources :: "string \<Rightarrow> alt_resources" where
  "sb_resources s = (if sb_on_alt s then alt_running else alt_idle)"

lemma sb_table_resources:
  "list_all (\<lambda>t. fold run_cmd (Emits t) (sb_resources (From t)) = sb_resources (To t))
     (with_emits SessionProtocol_backend_transitions SessionProtocol_backend_emits)"
  by code_simp

lemma sb_exec_resources:
  assumes "keeps env sb_State" and "snd sr = sb_resources (sb_State (fst (fst sr)))"
  shows "snd (sb_exec env ev sr) = sb_resources (sb_State (fst (fst (sb_exec env ev sr))))"
proof -
  have st: "get_state SessionProtocolBackend_struct = sb_State" by (simp add: SessionProtocolBackend_struct_def)
  have "keeps env (get_state SessionProtocolBackend_struct)"
    and "snd sr = sb_resources (get_state SessionProtocolBackend_struct (fst (fst sr)))"
    using assms by (simp_all only: st)
  from sb.gen_commands [OF this(1) sb_table_resources this(2) refl, of ev] show ?thesis
    by (simp add: sb_exec_def st sb_HandleEvent_generated case_prod_beta Let_def)
qed

text \<open>
  (C24) Whatever events the backend handles, in whatever order and with whatever guards and actions
  (failing ones included), the health monitor, the two readers of the alternative path and the
  \<open>AltReady\<close> signal are on exactly while the machine is in \<open>AltActive\<close> or \<open>AltDegraded\<close>: nothing it
  starts is left running and nothing is stopped that it still needs.
\<close>

theorem session_backend_resources:
  assumes "keeps env sb_State" and "r = fold (sb_exec env) evs ((NewSessionProtocolBackendMachine, w), alt_idle)"
  shows "snd r = (if sb_State (fst (fst r)) = SessionProtocolBackendAltActive \<or> sb_State (fst (fst r)) = SessionProtocolBackendAltDegraded
    then alt_running else alt_idle)"
proof -
  have "snd (fold (sb_exec env) evs sr) = sb_resources (sb_State (fst (fst (fold (sb_exec env) evs sr))))"
    if "snd sr = sb_resources (sb_State (fst (fst sr)))" for sr
    using that by (induction evs arbitrary: sr) (simp_all add: sb_exec_resources [OF assms(1)])
  from this [of "((NewSessionProtocolBackendMachine, w), alt_idle)"] show ?thesis
    unfolding assms(2) by (simp add: sb_resources_def sb_on_alt_def NewSessionProtocolBackendMachine_def)
qed

theorem session_backend_resources_witness:
  "snd (fold (sb_exec all_guards) sb_first_session ((NewSessionProtocolBackendMachine, ()), alt_idle)) = alt_running"
proof -
  have "sb_State (fst (fst (fold (sb_exec all_guards) sb_first_session ((NewSessionProtocolBackendMachine, ()), alt_idle)))) =
      SessionProtocolBackendAltActive"
    by code_simp
  then show ?thesis using session_backend_resources [OF keeps_all_guards refl, of sb_first_session "()"] by simp
qed

section \<open>No session without a code check and an authentication\<close>

definition sb_paired_states :: "string list" where
  "sb_paired_states =
     [SessionProtocolBackendStorePaired, SessionProtocolBackendPaired, SessionProtocolBackendAuthCheck]"

definition sb_session_states :: "string list" where
  "sb_session_states =
     [SessionProtocolBackendSessionActive, SessionProtocolBackendRelayConnected, SessionProtocolBackendCandidatesAdvertised,
      SessionProtocolBackendAltActive, SessionProtocolBackendAltDegraded, SessionProtocolBackendRelayBackoff]"

definition code_check_row :: "Transition \<Rightarrow> bool" where
  "code_check_row t \<longleftrightarrow> From t = SessionProtocolBackendValidateCode \<and> On t = Internal SessionProtocolEventCheckCode \<and>
     Guard t = SessionProtocolGuardCodeCorrect"

definition verify_row :: "Transition \<Rightarrow> bool" where
  "verify_row t \<longleftrightarrow> From t = SessionProtocolBackendAuthCheck \<and> On t = Internal SessionProtocolEventVerify \<and>
     Guard t = SessionProtocolGuardDeviceKnown \<and> Do t = SessionProtocolActionVerifyDevice"

lemma sb_gate_rows:
  "list_all (\<lambda>t. To t \<in> set (sb_paired_states @ sb_session_states) \<and> From t \<notin> set (sb_paired_states @ sb_session_states) \<longrightarrow>
     code_check_row t) (with_emits SessionProtocol_backend_transitions SessionProtocol_backend_emits)"
  "list_all (\<lambda>t. To t \<in> set sb_session_states \<and> From t \<notin> set sb_session_states \<longrightarrow> verify_row t)
     (with_emits SessionProtocol_backend_transitions SessionProtocol_backend_emits)"
  by code_simp+

lemma sb_run:
  "sb_events env (take n evs) s =
   fold (\<lambda>ev s. fst (gen_HandleEvent SessionProtocolBackend_struct
     (with_emits SessionProtocol_backend_transitions SessionProtocol_backend_emits) env ev s)) (take n evs) s"
  by (simp add: sb_events_def sb_HandleEvent_generated)

text \<open>
  (C11) A backend that has a session, on whatever path, has authenticated the device and has paired it
  before: the run contains a \<open>verify\<close> event in \<open>AuthCheck\<close> at which \<open>device_known\<close> held and
  \<open>verify_device\<close> succeeded, and before it a \<open>check_code\<close> event in \<open>ValidateCode\<close> at which
  \<open>code_correct\<close> held. No order of messages, events and failing actions leads around the two checks.
\<close>

theorem session_needs_authentication:
  assumes "keeps env sb_State" and "sb_State (fst (sb_events env evs (NewSessionProtocolBackendMachine, w))) \<in> set sb_session_states"
  shows "\<exists>i<length evs. \<exists>j<i.
    evs ! i = SessionProtocolEventVerify \<and>
    (let s = sb_events env (take i evs) (NewSessionProtocolBackendMachine, w) in
       sb_State (fst s) = SessionProtocolBackendAuthCheck \<and> guarded env SessionProtocolGuardDeviceKnown s \<and>
       snd (act env SessionProtocolActionVerifyDevice s) = None) \<and>
    evs ! j = SessionProtocolEventCheckCode \<and>
    (let s = sb_events env (take j evs) (NewSessionProtocolBackendMachine, w) in
       sb_State (fst s) = SessionProtocolBackendValidateCode \<and> guarded env SessionProtocolGuardCodeCorrect s)"
proof -
  let ?s0 = "(NewSessionProtocolBackendMachine, w)" and ?run = "\<lambda>n. sb_events env (take n evs) (NewSessionProtocolBackendMachine, w)"
  have st: "get_state SessionProtocolBackend_struct = sb_State" by (simp add: SessionProtocolBackend_struct_def)
  have k: "keeps env (get_state SessionProtocolBackend_struct)" using assms(1) st by simp
  have start: "get_state SessionProtocolBackend_struct (fst ?s0) \<notin> set (sb_paired_states @ sb_session_states)"
    by (simp add: st NewSessionProtocolBackendMachine_def sb_paired_states_def sb_session_states_def)
  have fin: "get_state SessionProtocolBackend_struct (fst (?run (length evs))) \<in> set sb_session_states" using assms(2) st by simp
  from start have start': "get_state SessionProtocolBackend_struct (fst ?s0) \<notin> set sb_session_states" by simp
  obtain i t where i: "i < length evs" "verify_row t" "From t = sb_State (fst (?run i))" "event_name (On t) = evs ! i"
      "gen_guard env t (?run i)" "Do t \<noteq> '''' \<longrightarrow> snd (act env (Do t) (?run i)) = None"
    using sb.gen_gate [OF k sb_gate_rows(2) sb_run start' fin order_refl] unfolding st by (elim exE bexE conjE)
  have "sb_State (fst (?run i)) = SessionProtocolBackendAuthCheck" using i(2,3) by (simp add: verify_row_def)
  then have mid: "get_state SessionProtocolBackend_struct (fst (?run i)) \<in> set (sb_paired_states @ sb_session_states)"
    by (simp add: st sb_paired_states_def)
  obtain j u where j: "j < i" "code_check_row u" "From u = sb_State (fst (?run j))" "event_name (On u) = evs ! j"
      "gen_guard env u (?run j)"
    using sb.gen_gate [OF k sb_gate_rows(1) sb_run start mid less_imp_le [OF i(1)]] unfolding st by (elim exE bexE conjE)
  show ?thesis
    by (rule exI [of _ i], rule conjI [OF i(1)], rule exI [of _ j], rule conjI [OF j(1)])
       (use i(2-) j(2-) in \<open>simp add: verify_row_def code_check_row_def gen_guard_def Let_def\<close>)
qed

theorem session_needs_authentication_witness:
  "\<exists>i<length sb_first_session. \<exists>j<i. sb_first_session ! i = SessionProtocolEventVerify \<and> sb_first_session ! j = SessionProtocolEventCheckCode"
proof -
  have "sb_State (fst (sb_events all_guards sb_first_session (NewSessionProtocolBackendMachine, ()))) \<in> set sb_session_states"
    unfolding sb_first_session_state by (simp add: sb_session_states_def)
  from session_needs_authentication [OF keeps_all_guards this] show ?thesis by (elim exE conjE) blast
qed

section \<open>A dead path is given up, and a live one is not told apart\<close>

lemmas sb_HandleEvent_defs = SessionProtocolBackendMachine_HandleEvent_def SessionProtocolBackendMachine_HandleEvent_pairing_def
  SessionProtocolBackendMachine_HandleEvent_path_def SessionProtocolBackendMachine_HandleEvent_fallback_def
  SessionProtocolBackendMachine_HandleEvent_traffic_def

text \<open>The guards on ping failures as the table describes them, for a limit of \<open>n\<close>.\<close>

definition ping_guards :: "int \<Rightarrow> (SessionProtocolBackendMachine, 'w, 'e) callbacks \<Rightarrow> bool" where
  "ping_guards n env \<longleftrightarrow>
     (\<forall>s. guarded env SessionProtocolGuardUnderMaxFailures s \<longleftrightarrow> sb_PingFailures (fst s) + 1 < n) \<and>
     (\<forall>s. guarded env SessionProtocolGuardAtMaxFailures s \<longleftrightarrow> sb_PingFailures (fst s) + 1 \<ge> n)"

lemma sb_first_timeout:
  assumes "sb_callbacks env" and "sb_State (fst s) = SessionProtocolBackendAltActive"
    and "s' = fst (SessionProtocolBackendMachine_HandleEvent env SessionProtocolEventPingTimeout s)"
  shows "sb_State (fst s') = SessionProtocolBackendAltDegraded \<and> sb_PingFailures (fst s') = 1"
proof -
  note c = assms(1) [unfolded sb_callbacks_def, THEN conjunct2, THEN conjunct1, THEN keepsD(2)]
  show ?thesis unfolding assms(3) using assms(2) by (simp add: sb_HandleEvent_defs assign_def goto_def c)
qed

lemma sb_next_timeout:
  assumes "sb_callbacks env" and "ping_guards n env" and "sb_State (fst s) = SessionProtocolBackendAltDegraded"
    and "sb_PingFailures (fst s) + 1 < n"
    and "s' = fst (SessionProtocolBackendMachine_HandleEvent env SessionProtocolEventPingTimeout s)"
  shows "sb_State (fst s') = SessionProtocolBackendAltDegraded \<and> sb_PingFailures (fst s') = sb_PingFailures (fst s) + 1"
proof -
  note c = assms(1) [unfolded sb_callbacks_def, THEN conjunct2, THEN conjunct1, THEN keepsD(2)]
  have "guarded env SessionProtocolGuardUnderMaxFailures s" using assms(2,4) unfolding ping_guards_def by blast
  then show ?thesis unfolding assms(5) using assms(3) by (simp add: sb_HandleEvent_defs assign_def goto_def c)
qed

lemma sb_last_timeout:
  assumes "sb_callbacks env" and "ping_guards n env" and "sb_State (fst s) = SessionProtocolBackendAltDegraded"
    and "\<not> sb_PingFailures (fst s) + 1 < n" and "\<And>s. snd (act env SessionProtocolActionFallbackToRelay s) = None"
    and "s' = fst (SessionProtocolBackendMachine_HandleEvent env SessionProtocolEventPingTimeout s)"
  shows "sb_State (fst s') = SessionProtocolBackendRelayBackoff \<and> sb_BActivePath (fst s') = ''relay''"
proof -
  have k: "keeps env sb_BActivePath" using assms(1) by (simp add: sb_callbacks_def)
  have "\<not> guarded env SessionProtocolGuardUnderMaxFailures s" "guarded env SessionProtocolGuardAtMaxFailures s"
    using assms(2,4) unfolding ping_guards_def not_less by (simp_all only: not_less)
  then show ?thesis unfolding assms(6) using assms(3)
    by (simp add: sb_HandleEvent_defs assign_def goto_def assms(5) keepsD(2) [OF k])
qed

lemma sb_timeouts:
  assumes "sb_callbacks env" and "ping_guards n env" and "sb_State (fst s) = SessionProtocolBackendAltActive"
    and "int k + 1 < n"
  shows "sb_State (fst (sb_events env (replicate (Suc k) SessionProtocolEventPingTimeout) s)) = SessionProtocolBackendAltDegraded \<and>
    sb_PingFailures (fst (sb_events env (replicate (Suc k) SessionProtocolEventPingTimeout) s)) = int k + 1"
  using assms(4)
proof (induction k)
  case 0
  then show ?case using sb_first_timeout [OF assms(1,3) refl] by (simp add: sb_events_def)
next
  case (Suc k)
  let ?s = "sb_events env (replicate (Suc k) SessionProtocolEventPingTimeout) s"
  have e: "sb_events env (replicate (Suc (Suc k)) SessionProtocolEventPingTimeout) s =
      fst (SessionProtocolBackendMachine_HandleEvent env SessionProtocolEventPingTimeout ?s)"
    by (rule sb_events_more)
  show ?case unfolding e using sb_next_timeout [OF assms(1,2), of ?s] Suc by simp
qed


definition three_pings :: "(SessionProtocolBackendMachine, unit, unit) callbacks" where
  "three_pings = \<lparr>Guards = [SessionProtocolGuardUnderMaxFailures \<mapsto> (\<lambda>s. sb_PingFailures (fst s) + 1 < 3),
     SessionProtocolGuardAtMaxFailures \<mapsto> (\<lambda>s. sb_PingFailures (fst s) + 1 \<ge> 3)], Actions = Map.empty, OnChange = None\<rparr>"


text \<open>
  Two things the health check does not do. A pong that arrives while the path is healthy is ignored,
  so the pong timer a tick has started runs out and a healthy path degrades; and a stream error
  that makes the backend fall back does not cancel that timer.
\<close>

lemma pong_ignored_while_active:
  assumes "sb_State (fst s) = SessionProtocolBackendAltActive"
  shows "SessionProtocolBackendMachine_HandleEvent env SessionProtocolEventRecvPathPong s = (s, Inr [])"
  using assms by (simp add: sb_HandleEvent_defs)

lemma tick_starts_pong_timeout:
  assumes "sb_State (fst s) = SessionProtocolBackendAltActive"
  shows "snd (SessionProtocolBackendMachine_HandleEvent env SessionProtocolEventPingTick s) =
    Inr [SessionProtocolCmdSendPathPing, SessionProtocolCmdStartPongTimeout]"
  using assms by (simp add: sb_HandleEvent_defs goto_def)

lemma stream_error_leaves_pong_timeout:
  assumes "sb_State (fst s) = SessionProtocolBackendAltActive"
    and "snd (SessionProtocolBackendMachine_HandleEvent env SessionProtocolEventAltStreamError s) = Inr cmds"
  shows "SessionProtocolCmdCancelPongTimeout \<notin> set cmds"
  using assms by (auto simp: sb_HandleEvent_defs goto_def assign_def split: option.splits)

end
