(* ===== verification/SessionClient.thy ===== *)
theory SessionClient
  imports SessionTable
begin

text \<open>
  The client machine and the relay machine of the session protocol (\<open>session_gen.go\<close>), with the cases
  of the client grouped as for the backend.
\<close>

section \<open>The client machine\<close>

record SessionProtocolClientMachine =
  sc_State :: "string"
  sc_ReceivedBackendPub :: "string"
  sc_ClientSharedKey :: "string"
  sc_ClientCode :: "string"
  sc_CActivePath :: "string"
  sc_CDispatcherPath :: "string"
  sc_AltSignal :: "string"

definition NewSessionProtocolClientMachine :: SessionProtocolClientMachine where
  "NewSessionProtocolClientMachine =
     \<lparr>sc_State = SessionProtocolClientIdle,
      sc_ReceivedBackendPub = ''none'',
      sc_ClientSharedKey = '''',
      sc_ClientCode = '''',
      sc_CActivePath = ''relay'',
      sc_CDispatcherPath = ''relay'',
      sc_AltSignal = ''pending''\<rparr>"

definition SessionProtocolClientMachine_HandleMessage ::
  "(SessionProtocolClientMachine, 'w, 'e) callbacks \<Rightarrow> string \<Rightarrow> SessionProtocolClientMachine \<times> 'w \<Rightarrow> (SessionProtocolClientMachine \<times> 'w) \<times> ('e + bool)" where
  "SessionProtocolClientMachine_HandleMessage env msg s = gswitch
     [(sc_State (fst s) = SessionProtocolClientWaitAck \<and> msg = SessionProtocolMsgPairHelloAck,
       block [act env SessionProtocolActionDeriveSecret,
              goto (sc_State_update (\<lambda>_. SessionProtocolClientE2EReady))] True),
      (sc_State (fst s) = SessionProtocolClientE2EReady \<and> msg = SessionProtocolMsgPairConfirm,
       block [goto (sc_State_update (\<lambda>_. SessionProtocolClientShowCode))] True),
      (sc_State (fst s) = SessionProtocolClientWaitPairComplete \<and> msg = SessionProtocolMsgPairComplete,
       block [act env SessionProtocolActionStoreSecret,
              goto (sc_State_update (\<lambda>_. SessionProtocolClientPaired))] True),
      (sc_State (fst s) = SessionProtocolClientSendAuth \<and> msg = SessionProtocolMsgAuthOk,
       block [goto (sc_State_update (\<lambda>_. SessionProtocolClientSessionActive))] True),
      (sc_State (fst s) = SessionProtocolClientRelayConnected \<and> msg = SessionProtocolMsgCandidates \<and> guarded env SessionProtocolGuardAltEnabled s,
       block [act env SessionProtocolActionDialCandidate,
              goto (sc_State_update (\<lambda>_. SessionProtocolClientPairDialing))] True),
      (sc_State (fst s) = SessionProtocolClientRelayConnected \<and> msg = SessionProtocolMsgCandidates \<and> guarded env SessionProtocolGuardAltDisabled s,
       block [goto (sc_State_update (\<lambda>_. SessionProtocolClientRelayConnected))] True),
      (sc_State (fst s) = SessionProtocolClientPairChecking \<and> msg = SessionProtocolMsgPairCheckAck,
       block [act env SessionProtocolActionActivateLan,
              assign env (sc_CActivePath_update (\<lambda>_. ''alt'')) ''c_active_path'',
              assign env (sc_CDispatcherPath_update (\<lambda>_. ''alt'')) ''c_dispatcher_path'',
              assign env (sc_AltSignal_update (\<lambda>_. ''ready'')) ''alt_signal'',
              goto (sc_State_update (\<lambda>_. SessionProtocolClientAltActive))] True),
      (sc_State (fst s) = SessionProtocolClientAltActive \<and> msg = SessionProtocolMsgPathPing,
       block [goto (sc_State_update (\<lambda>_. SessionProtocolClientAltActive))] True),
      (sc_State (fst s) = SessionProtocolClientAltActive \<and> msg = SessionProtocolMsgCandidates \<and> guarded env SessionProtocolGuardAltEnabled s,
       block [act env SessionProtocolActionDialCandidate,
              goto (sc_State_update (\<lambda>_. SessionProtocolClientPairDialing))] True)]
     (block [] False) s"

definition SessionProtocolClientMachine_Step_pairing ::
  "(SessionProtocolClientMachine, 'w, 'e) callbacks \<Rightarrow> string \<Rightarrow> SessionProtocolClientMachine \<times> 'w \<Rightarrow>
   (bool \<times> (SessionProtocolClientMachine \<times> 'w \<Rightarrow> (SessionProtocolClientMachine \<times> 'w) \<times> ('e + bool))) list" where
  "SessionProtocolClientMachine_Step_pairing env event s =
     [(sc_State (fst s) = SessionProtocolClientIdle \<and> event = SessionProtocolEventBackchannelReceived,
       block [goto (sc_State_update (\<lambda>_. SessionProtocolClientObtainBackchannelSecret))] True),
      (sc_State (fst s) = SessionProtocolClientObtainBackchannelSecret \<and> event = SessionProtocolEventSecretParsed,
       block [goto (sc_State_update (\<lambda>_. SessionProtocolClientConnectRelay))] True),
      (sc_State (fst s) = SessionProtocolClientConnectRelay \<and> event = SessionProtocolEventRelayConnected,
       block [goto (sc_State_update (\<lambda>_. SessionProtocolClientGenKeyPair))] True),
      (sc_State (fst s) = SessionProtocolClientGenKeyPair \<and> event = SessionProtocolEventKeyPairGenerated,
       block [act env SessionProtocolActionSendPairHello,
              goto (sc_State_update (\<lambda>_. SessionProtocolClientWaitAck))] True),
      (sc_State (fst s) = SessionProtocolClientShowCode \<and> event = SessionProtocolEventCodeDisplayed,
       block [goto (sc_State_update (\<lambda>_. SessionProtocolClientWaitPairComplete))] True),
      (sc_State (fst s) = SessionProtocolClientPaired \<and> event = SessionProtocolEventAppLaunch,
       block [goto (sc_State_update (\<lambda>_. SessionProtocolClientReconnect))] True),
      (sc_State (fst s) = SessionProtocolClientReconnect \<and> event = SessionProtocolEventRelayConnected,
       block [goto (sc_State_update (\<lambda>_. SessionProtocolClientSendAuth))] True)]"

definition SessionProtocolClientMachine_Step_path ::
  "(SessionProtocolClientMachine, 'w, 'e) callbacks \<Rightarrow> string \<Rightarrow> SessionProtocolClientMachine \<times> 'w \<Rightarrow>
   (bool \<times> (SessionProtocolClientMachine \<times> 'w \<Rightarrow> (SessionProtocolClientMachine \<times> 'w) \<times> ('e + bool))) list" where
  "SessionProtocolClientMachine_Step_path env event s =
     [(sc_State (fst s) = SessionProtocolClientSessionActive \<and> event = SessionProtocolEventSessionEstablished,
       block [goto (sc_State_update (\<lambda>_. SessionProtocolClientRelayConnected))] True),
      (sc_State (fst s) = SessionProtocolClientPairDialing \<and> event = SessionProtocolEventDialOk,
       block [goto (sc_State_update (\<lambda>_. SessionProtocolClientPairChecking))] True),
      (sc_State (fst s) = SessionProtocolClientPairDialing \<and> event = SessionProtocolEventDialFailed,
       block [goto (sc_State_update (\<lambda>_. SessionProtocolClientRelayConnected))] True),
      (sc_State (fst s) = SessionProtocolClientPairChecking \<and> event = SessionProtocolEventVerifyTimeout,
       block [assign env (sc_CDispatcherPath_update (\<lambda>_. ''relay'')) ''c_dispatcher_path'',
              goto (sc_State_update (\<lambda>_. SessionProtocolClientRelayConnected))] True),
      (sc_State (fst s) = SessionProtocolClientAltActive \<and> event = SessionProtocolEventAltError,
       block [act env SessionProtocolActionFallbackToRelay,
              assign env (sc_CActivePath_update (\<lambda>_. ''relay'')) ''c_active_path'',
              assign env (sc_CDispatcherPath_update (\<lambda>_. ''relay'')) ''c_dispatcher_path'',
              assign env (sc_AltSignal_update (\<lambda>_. ''pending'')) ''alt_signal'',
              goto (sc_State_update (\<lambda>_. SessionProtocolClientRelayFallback))] True),
      (sc_State (fst s) = SessionProtocolClientAltActive \<and> event = SessionProtocolEventAltStreamError,
       block [act env SessionProtocolActionFallbackToRelay,
              assign env (sc_CActivePath_update (\<lambda>_. ''relay'')) ''c_active_path'',
              assign env (sc_CDispatcherPath_update (\<lambda>_. ''relay'')) ''c_dispatcher_path'',
              assign env (sc_AltSignal_update (\<lambda>_. ''pending'')) ''alt_signal'',
              goto (sc_State_update (\<lambda>_. SessionProtocolClientRelayFallback))] True),
      (sc_State (fst s) = SessionProtocolClientRelayFallback \<and> event = SessionProtocolEventRelayOk,
       block [goto (sc_State_update (\<lambda>_. SessionProtocolClientRelayConnected))] True),
      (sc_State (fst s) = SessionProtocolClientPairDialing \<and> event = SessionProtocolEventAppForceFallback,
       block [goto (sc_State_update (\<lambda>_. SessionProtocolClientRelayConnected))] True),
      (sc_State (fst s) = SessionProtocolClientPairChecking \<and> event = SessionProtocolEventAppForceFallback,
       block [assign env (sc_CDispatcherPath_update (\<lambda>_. ''relay'')) ''c_dispatcher_path'',
              goto (sc_State_update (\<lambda>_. SessionProtocolClientRelayConnected))] True),
      (sc_State (fst s) = SessionProtocolClientAltActive \<and> event = SessionProtocolEventAppForceFallback,
       block [act env SessionProtocolActionFallbackToRelay,
              assign env (sc_CActivePath_update (\<lambda>_. ''relay'')) ''c_active_path'',
              assign env (sc_CDispatcherPath_update (\<lambda>_. ''relay'')) ''c_dispatcher_path'',
              assign env (sc_AltSignal_update (\<lambda>_. ''pending'')) ''alt_signal'',
              goto (sc_State_update (\<lambda>_. SessionProtocolClientRelayConnected))] True)]"

definition SessionProtocolClientMachine_Step_traffic ::
  "(SessionProtocolClientMachine, 'w, 'e) callbacks \<Rightarrow> string \<Rightarrow> SessionProtocolClientMachine \<times> 'w \<Rightarrow>
   (bool \<times> (SessionProtocolClientMachine \<times> 'w \<Rightarrow> (SessionProtocolClientMachine \<times> 'w) \<times> ('e + bool))) list" where
  "SessionProtocolClientMachine_Step_traffic env event s =
     [(sc_State (fst s) = SessionProtocolClientRelayConnected \<and> event = SessionProtocolEventDisconnect,
       block [goto (sc_State_update (\<lambda>_. SessionProtocolClientPaired))] True),
      (sc_State (fst s) = SessionProtocolClientRelayConnected \<and> event = SessionProtocolEventAppSend,
       block [goto (sc_State_update (\<lambda>_. SessionProtocolClientRelayConnected))] True),
      (sc_State (fst s) = SessionProtocolClientPairDialing \<and> event = SessionProtocolEventAppSend,
       block [goto (sc_State_update (\<lambda>_. SessionProtocolClientPairDialing))] True),
      (sc_State (fst s) = SessionProtocolClientPairChecking \<and> event = SessionProtocolEventAppSend,
       block [goto (sc_State_update (\<lambda>_. SessionProtocolClientPairChecking))] True),
      (sc_State (fst s) = SessionProtocolClientAltActive \<and> event = SessionProtocolEventAppSend,
       block [goto (sc_State_update (\<lambda>_. SessionProtocolClientAltActive))] True),
      (sc_State (fst s) = SessionProtocolClientRelayFallback \<and> event = SessionProtocolEventAppSend,
       block [goto (sc_State_update (\<lambda>_. SessionProtocolClientRelayFallback))] True),
      (sc_State (fst s) = SessionProtocolClientRelayConnected \<and> event = SessionProtocolEventRelayStreamData,
       block [goto (sc_State_update (\<lambda>_. SessionProtocolClientRelayConnected))] True),
      (sc_State (fst s) = SessionProtocolClientPairDialing \<and> event = SessionProtocolEventRelayStreamData,
       block [goto (sc_State_update (\<lambda>_. SessionProtocolClientPairDialing))] True),
      (sc_State (fst s) = SessionProtocolClientPairChecking \<and> event = SessionProtocolEventRelayStreamData,
       block [goto (sc_State_update (\<lambda>_. SessionProtocolClientPairChecking))] True),
      (sc_State (fst s) = SessionProtocolClientAltActive \<and> event = SessionProtocolEventRelayStreamData,
       block [goto (sc_State_update (\<lambda>_. SessionProtocolClientAltActive))] True),
      (sc_State (fst s) = SessionProtocolClientRelayFallback \<and> event = SessionProtocolEventRelayStreamData,
       block [goto (sc_State_update (\<lambda>_. SessionProtocolClientRelayFallback))] True),
      (sc_State (fst s) = SessionProtocolClientRelayConnected \<and> event = SessionProtocolEventRelayStreamError,
       block [goto (sc_State_update (\<lambda>_. SessionProtocolClientRelayConnected))] True),
      (sc_State (fst s) = SessionProtocolClientPairDialing \<and> event = SessionProtocolEventRelayStreamError,
       block [goto (sc_State_update (\<lambda>_. SessionProtocolClientPairDialing))] True),
      (sc_State (fst s) = SessionProtocolClientPairChecking \<and> event = SessionProtocolEventRelayStreamError,
       block [goto (sc_State_update (\<lambda>_. SessionProtocolClientPairChecking))] True),
      (sc_State (fst s) = SessionProtocolClientAltActive \<and> event = SessionProtocolEventRelayStreamError,
       block [goto (sc_State_update (\<lambda>_. SessionProtocolClientAltActive))] True),
      (sc_State (fst s) = SessionProtocolClientRelayFallback \<and> event = SessionProtocolEventRelayStreamError,
       block [goto (sc_State_update (\<lambda>_. SessionProtocolClientRelayFallback))] True),
      (sc_State (fst s) = SessionProtocolClientRelayConnected \<and> event = SessionProtocolEventAppSendDatagram,
       block [goto (sc_State_update (\<lambda>_. SessionProtocolClientRelayConnected))] True),
      (sc_State (fst s) = SessionProtocolClientPairDialing \<and> event = SessionProtocolEventAppSendDatagram,
       block [goto (sc_State_update (\<lambda>_. SessionProtocolClientPairDialing))] True),
      (sc_State (fst s) = SessionProtocolClientPairChecking \<and> event = SessionProtocolEventAppSendDatagram,
       block [goto (sc_State_update (\<lambda>_. SessionProtocolClientPairChecking))] True),
      (sc_State (fst s) = SessionProtocolClientAltActive \<and> event = SessionProtocolEventAppSendDatagram,
       block [goto (sc_State_update (\<lambda>_. SessionProtocolClientAltActive))] True),
      (sc_State (fst s) = SessionProtocolClientRelayFallback \<and> event = SessionProtocolEventAppSendDatagram,
       block [goto (sc_State_update (\<lambda>_. SessionProtocolClientRelayFallback))] True),
      (sc_State (fst s) = SessionProtocolClientRelayConnected \<and> event = SessionProtocolEventRelayDatagram,
       block [goto (sc_State_update (\<lambda>_. SessionProtocolClientRelayConnected))] True),
      (sc_State (fst s) = SessionProtocolClientPairDialing \<and> event = SessionProtocolEventRelayDatagram,
       block [goto (sc_State_update (\<lambda>_. SessionProtocolClientPairDialing))] True),
      (sc_State (fst s) = SessionProtocolClientPairChecking \<and> event = SessionProtocolEventRelayDatagram,
       block [goto (sc_State_update (\<lambda>_. SessionProtocolClientPairChecking))] True),
      (sc_State (fst s) = SessionProtocolClientAltActive \<and> event = SessionProtocolEventRelayDatagram,
       block [goto (sc_State_update (\<lambda>_. SessionProtocolClientAltActive))] True),
      (sc_State (fst s) = SessionProtocolClientRelayFallback \<and> event = SessionProtocolEventRelayDatagram,
       block [goto (sc_State_update (\<lambda>_. SessionProtocolClientRelayFallback))] True),
      (sc_State (fst s) = SessionProtocolClientAltActive \<and> event = SessionProtocolEventAltStreamData,
       block [goto (sc_State_update (\<lambda>_. SessionProtocolClientAltActive))] True),
      (sc_State (fst s) = SessionProtocolClientAltActive \<and> event = SessionProtocolEventAltDatagram,
       block [goto (sc_State_update (\<lambda>_. SessionProtocolClientAltActive))] True)]"

definition SessionProtocolClientMachine_Step ::
  "(SessionProtocolClientMachine, 'w, 'e) callbacks \<Rightarrow> string \<Rightarrow> SessionProtocolClientMachine \<times> 'w \<Rightarrow> (SessionProtocolClientMachine \<times> 'w) \<times> ('e + bool)" where
  "SessionProtocolClientMachine_Step env event s = gswitch
     (SessionProtocolClientMachine_Step_pairing env event s @
      SessionProtocolClientMachine_Step_path env event s @
      SessionProtocolClientMachine_Step_traffic env event s)
     (block [] False) s"

definition SessionProtocolClientMachine_HandleEvent_pairing ::
  "(SessionProtocolClientMachine, 'w, 'e) callbacks \<Rightarrow> string \<Rightarrow> SessionProtocolClientMachine \<times> 'w \<Rightarrow>
   (bool \<times> (SessionProtocolClientMachine \<times> 'w \<Rightarrow> (SessionProtocolClientMachine \<times> 'w) \<times> ('e + string list))) list" where
  "SessionProtocolClientMachine_HandleEvent_pairing env ev s =
     [(sc_State (fst s) = SessionProtocolClientIdle \<and> ev = SessionProtocolEventBackchannelReceived,
       block [goto (sc_State_update (\<lambda>_. SessionProtocolClientObtainBackchannelSecret))] []),
      (sc_State (fst s) = SessionProtocolClientObtainBackchannelSecret \<and> ev = SessionProtocolEventSecretParsed,
       block [goto (sc_State_update (\<lambda>_. SessionProtocolClientConnectRelay))] []),
      (sc_State (fst s) = SessionProtocolClientConnectRelay \<and> ev = SessionProtocolEventRelayConnected,
       block [goto (sc_State_update (\<lambda>_. SessionProtocolClientGenKeyPair))] []),
      (sc_State (fst s) = SessionProtocolClientGenKeyPair \<and> ev = SessionProtocolEventKeyPairGenerated,
       block [act env SessionProtocolActionSendPairHello,
              goto (sc_State_update (\<lambda>_. SessionProtocolClientWaitAck))] []),
      (sc_State (fst s) = SessionProtocolClientWaitAck \<and> ev = SessionProtocolEventRecvPairHelloAck,
       block [act env SessionProtocolActionDeriveSecret,
              goto (sc_State_update (\<lambda>_. SessionProtocolClientE2EReady))] []),
      (sc_State (fst s) = SessionProtocolClientE2EReady \<and> ev = SessionProtocolEventRecvPairConfirm,
       block [goto (sc_State_update (\<lambda>_. SessionProtocolClientShowCode))] []),
      (sc_State (fst s) = SessionProtocolClientShowCode \<and> ev = SessionProtocolEventCodeDisplayed,
       block [goto (sc_State_update (\<lambda>_. SessionProtocolClientWaitPairComplete))] []),
      (sc_State (fst s) = SessionProtocolClientWaitPairComplete \<and> ev = SessionProtocolEventRecvPairComplete,
       block [act env SessionProtocolActionStoreSecret,
              goto (sc_State_update (\<lambda>_. SessionProtocolClientPaired))] []),
      (sc_State (fst s) = SessionProtocolClientPaired \<and> ev = SessionProtocolEventAppLaunch,
       block [goto (sc_State_update (\<lambda>_. SessionProtocolClientReconnect))] []),
      (sc_State (fst s) = SessionProtocolClientReconnect \<and> ev = SessionProtocolEventRelayConnected,
       block [goto (sc_State_update (\<lambda>_. SessionProtocolClientSendAuth))] []),
      (sc_State (fst s) = SessionProtocolClientSendAuth \<and> ev = SessionProtocolEventRecvAuthOk,
       block [goto (sc_State_update (\<lambda>_. SessionProtocolClientSessionActive))] [])]"

definition SessionProtocolClientMachine_HandleEvent_path ::
  "(SessionProtocolClientMachine, 'w, 'e) callbacks \<Rightarrow> string \<Rightarrow> SessionProtocolClientMachine \<times> 'w \<Rightarrow>
   (bool \<times> (SessionProtocolClientMachine \<times> 'w \<Rightarrow> (SessionProtocolClientMachine \<times> 'w) \<times> ('e + string list))) list" where
  "SessionProtocolClientMachine_HandleEvent_path env ev s =
     [(sc_State (fst s) = SessionProtocolClientSessionActive \<and> ev = SessionProtocolEventSessionEstablished,
       block [goto (sc_State_update (\<lambda>_. SessionProtocolClientRelayConnected))] []),
      (sc_State (fst s) = SessionProtocolClientRelayConnected \<and> ev = SessionProtocolEventRecvCandidates \<and> guarded env SessionProtocolGuardAltEnabled s,
       block [act env SessionProtocolActionDialCandidate,
              goto (sc_State_update (\<lambda>_. SessionProtocolClientPairDialing))] [SessionProtocolCmdDialCandidate]),
      (sc_State (fst s) = SessionProtocolClientRelayConnected \<and> ev = SessionProtocolEventRecvCandidates \<and> guarded env SessionProtocolGuardAltDisabled s,
       block [goto (sc_State_update (\<lambda>_. SessionProtocolClientRelayConnected))] []),
      (sc_State (fst s) = SessionProtocolClientPairDialing \<and> ev = SessionProtocolEventDialOk,
       block [goto (sc_State_update (\<lambda>_. SessionProtocolClientPairChecking))] [SessionProtocolCmdSendPairCheck]),
      (sc_State (fst s) = SessionProtocolClientPairDialing \<and> ev = SessionProtocolEventDialFailed,
       block [goto (sc_State_update (\<lambda>_. SessionProtocolClientRelayConnected))] []),
      (sc_State (fst s) = SessionProtocolClientPairChecking \<and> ev = SessionProtocolEventRecvPairCheckAck,
       block [act env SessionProtocolActionActivateLan,
              assign env (sc_CActivePath_update (\<lambda>_. ''alt'')) ''c_active_path'',
              assign env (sc_CDispatcherPath_update (\<lambda>_. ''alt'')) ''c_dispatcher_path'',
              assign env (sc_AltSignal_update (\<lambda>_. ''ready'')) ''alt_signal'',
              goto (sc_State_update (\<lambda>_. SessionProtocolClientAltActive))] [SessionProtocolCmdStartAltStreamReader, SessionProtocolCmdStartAltDgReader, SessionProtocolCmdSignalAltReady, SessionProtocolCmdSetCryptoDatagram]),
      (sc_State (fst s) = SessionProtocolClientPairChecking \<and> ev = SessionProtocolEventVerifyTimeout,
       block [assign env (sc_CDispatcherPath_update (\<lambda>_. ''relay'')) ''c_dispatcher_path'',
              goto (sc_State_update (\<lambda>_. SessionProtocolClientRelayConnected))] []),
      (sc_State (fst s) = SessionProtocolClientAltActive \<and> ev = SessionProtocolEventRecvPathPing,
       block [goto (sc_State_update (\<lambda>_. SessionProtocolClientAltActive))] [SessionProtocolCmdSendPathPong]),
      (sc_State (fst s) = SessionProtocolClientAltActive \<and> ev = SessionProtocolEventAltError,
       block [act env SessionProtocolActionFallbackToRelay,
              assign env (sc_CActivePath_update (\<lambda>_. ''relay'')) ''c_active_path'',
              assign env (sc_CDispatcherPath_update (\<lambda>_. ''relay'')) ''c_dispatcher_path'',
              assign env (sc_AltSignal_update (\<lambda>_. ''pending'')) ''alt_signal'',
              goto (sc_State_update (\<lambda>_. SessionProtocolClientRelayFallback))] [SessionProtocolCmdStopAltStreamReader, SessionProtocolCmdStopAltDgReader, SessionProtocolCmdCloseAltPath, SessionProtocolCmdResetAltReady]),
      (sc_State (fst s) = SessionProtocolClientAltActive \<and> ev = SessionProtocolEventAltStreamError,
       block [act env SessionProtocolActionFallbackToRelay,
              assign env (sc_CActivePath_update (\<lambda>_. ''relay'')) ''c_active_path'',
              assign env (sc_CDispatcherPath_update (\<lambda>_. ''relay'')) ''c_dispatcher_path'',
              assign env (sc_AltSignal_update (\<lambda>_. ''pending'')) ''alt_signal'',
              goto (sc_State_update (\<lambda>_. SessionProtocolClientRelayFallback))] [SessionProtocolCmdStopAltStreamReader, SessionProtocolCmdStopAltDgReader, SessionProtocolCmdCloseAltPath, SessionProtocolCmdResetAltReady]),
      (sc_State (fst s) = SessionProtocolClientRelayFallback \<and> ev = SessionProtocolEventRelayOk,
       block [goto (sc_State_update (\<lambda>_. SessionProtocolClientRelayConnected))] []),
      (sc_State (fst s) = SessionProtocolClientAltActive \<and> ev = SessionProtocolEventRecvCandidates \<and> guarded env SessionProtocolGuardAltEnabled s,
       block [act env SessionProtocolActionDialCandidate,
              goto (sc_State_update (\<lambda>_. SessionProtocolClientPairDialing))] [SessionProtocolCmdStopAltStreamReader, SessionProtocolCmdStopAltDgReader, SessionProtocolCmdCloseAltPath, SessionProtocolCmdDialCandidate]),
      (sc_State (fst s) = SessionProtocolClientPairDialing \<and> ev = SessionProtocolEventAppForceFallback,
       block [goto (sc_State_update (\<lambda>_. SessionProtocolClientRelayConnected))] []),
      (sc_State (fst s) = SessionProtocolClientPairChecking \<and> ev = SessionProtocolEventAppForceFallback,
       block [assign env (sc_CDispatcherPath_update (\<lambda>_. ''relay'')) ''c_dispatcher_path'',
              goto (sc_State_update (\<lambda>_. SessionProtocolClientRelayConnected))] [SessionProtocolCmdStopAltStreamReader, SessionProtocolCmdStopAltDgReader, SessionProtocolCmdCloseAltPath]),
      (sc_State (fst s) = SessionProtocolClientAltActive \<and> ev = SessionProtocolEventAppForceFallback,
       block [act env SessionProtocolActionFallbackToRelay,
              assign env (sc_CActivePath_update (\<lambda>_. ''relay'')) ''c_active_path'',
              assign env (sc_CDispatcherPath_update (\<lambda>_. ''relay'')) ''c_dispatcher_path'',
              assign env (sc_AltSignal_update (\<lambda>_. ''pending'')) ''alt_signal'',
              goto (sc_State_update (\<lambda>_. SessionProtocolClientRelayConnected))] [SessionProtocolCmdStopAltStreamReader, SessionProtocolCmdStopAltDgReader, SessionProtocolCmdCloseAltPath, SessionProtocolCmdResetAltReady])]"

definition SessionProtocolClientMachine_HandleEvent_traffic ::
  "(SessionProtocolClientMachine, 'w, 'e) callbacks \<Rightarrow> string \<Rightarrow> SessionProtocolClientMachine \<times> 'w \<Rightarrow>
   (bool \<times> (SessionProtocolClientMachine \<times> 'w \<Rightarrow> (SessionProtocolClientMachine \<times> 'w) \<times> ('e + string list))) list" where
  "SessionProtocolClientMachine_HandleEvent_traffic env ev s =
     [(sc_State (fst s) = SessionProtocolClientRelayConnected \<and> ev = SessionProtocolEventDisconnect,
       block [goto (sc_State_update (\<lambda>_. SessionProtocolClientPaired))] []),
      (sc_State (fst s) = SessionProtocolClientRelayConnected \<and> ev = SessionProtocolEventAppSend,
       block [goto (sc_State_update (\<lambda>_. SessionProtocolClientRelayConnected))] [SessionProtocolCmdWriteActiveStream]),
      (sc_State (fst s) = SessionProtocolClientPairDialing \<and> ev = SessionProtocolEventAppSend,
       block [goto (sc_State_update (\<lambda>_. SessionProtocolClientPairDialing))] [SessionProtocolCmdWriteActiveStream]),
      (sc_State (fst s) = SessionProtocolClientPairChecking \<and> ev = SessionProtocolEventAppSend,
       block [goto (sc_State_update (\<lambda>_. SessionProtocolClientPairChecking))] [SessionProtocolCmdWriteActiveStream]),
      (sc_State (fst s) = SessionProtocolClientAltActive \<and> ev = SessionProtocolEventAppSend,
       block [goto (sc_State_update (\<lambda>_. SessionProtocolClientAltActive))] [SessionProtocolCmdWriteActiveStream]),
      (sc_State (fst s) = SessionProtocolClientRelayFallback \<and> ev = SessionProtocolEventAppSend,
       block [goto (sc_State_update (\<lambda>_. SessionProtocolClientRelayFallback))] [SessionProtocolCmdWriteActiveStream]),
      (sc_State (fst s) = SessionProtocolClientRelayConnected \<and> ev = SessionProtocolEventRelayStreamData,
       block [goto (sc_State_update (\<lambda>_. SessionProtocolClientRelayConnected))] [SessionProtocolCmdDeliverRecv]),
      (sc_State (fst s) = SessionProtocolClientPairDialing \<and> ev = SessionProtocolEventRelayStreamData,
       block [goto (sc_State_update (\<lambda>_. SessionProtocolClientPairDialing))] [SessionProtocolCmdDeliverRecv]),
      (sc_State (fst s) = SessionProtocolClientPairChecking \<and> ev = SessionProtocolEventRelayStreamData,
       block [goto (sc_State_update (\<lambda>_. SessionProtocolClientPairChecking))] [SessionProtocolCmdDeliverRecv]),
      (sc_State (fst s) = SessionProtocolClientAltActive \<and> ev = SessionProtocolEventRelayStreamData,
       block [goto (sc_State_update (\<lambda>_. SessionProtocolClientAltActive))] [SessionProtocolCmdDeliverRecv]),
      (sc_State (fst s) = SessionProtocolClientRelayFallback \<and> ev = SessionProtocolEventRelayStreamData,
       block [goto (sc_State_update (\<lambda>_. SessionProtocolClientRelayFallback))] [SessionProtocolCmdDeliverRecv]),
      (sc_State (fst s) = SessionProtocolClientRelayConnected \<and> ev = SessionProtocolEventRelayStreamError,
       block [goto (sc_State_update (\<lambda>_. SessionProtocolClientRelayConnected))] [SessionProtocolCmdDeliverRecvError]),
      (sc_State (fst s) = SessionProtocolClientPairDialing \<and> ev = SessionProtocolEventRelayStreamError,
       block [goto (sc_State_update (\<lambda>_. SessionProtocolClientPairDialing))] [SessionProtocolCmdDeliverRecvError]),
      (sc_State (fst s) = SessionProtocolClientPairChecking \<and> ev = SessionProtocolEventRelayStreamError,
       block [goto (sc_State_update (\<lambda>_. SessionProtocolClientPairChecking))] [SessionProtocolCmdDeliverRecvError]),
      (sc_State (fst s) = SessionProtocolClientAltActive \<and> ev = SessionProtocolEventRelayStreamError,
       block [goto (sc_State_update (\<lambda>_. SessionProtocolClientAltActive))] [SessionProtocolCmdDeliverRecvError]),
      (sc_State (fst s) = SessionProtocolClientRelayFallback \<and> ev = SessionProtocolEventRelayStreamError,
       block [goto (sc_State_update (\<lambda>_. SessionProtocolClientRelayFallback))] [SessionProtocolCmdDeliverRecvError]),
      (sc_State (fst s) = SessionProtocolClientRelayConnected \<and> ev = SessionProtocolEventAppSendDatagram,
       block [goto (sc_State_update (\<lambda>_. SessionProtocolClientRelayConnected))] [SessionProtocolCmdSendActiveDatagram]),
      (sc_State (fst s) = SessionProtocolClientPairDialing \<and> ev = SessionProtocolEventAppSendDatagram,
       block [goto (sc_State_update (\<lambda>_. SessionProtocolClientPairDialing))] [SessionProtocolCmdSendActiveDatagram]),
      (sc_State (fst s) = SessionProtocolClientPairChecking \<and> ev = SessionProtocolEventAppSendDatagram,
       block [goto (sc_State_update (\<lambda>_. SessionProtocolClientPairChecking))] [SessionProtocolCmdSendActiveDatagram]),
      (sc_State (fst s) = SessionProtocolClientAltActive \<and> ev = SessionProtocolEventAppSendDatagram,
       block [goto (sc_State_update (\<lambda>_. SessionProtocolClientAltActive))] [SessionProtocolCmdSendActiveDatagram]),
      (sc_State (fst s) = SessionProtocolClientRelayFallback \<and> ev = SessionProtocolEventAppSendDatagram,
       block [goto (sc_State_update (\<lambda>_. SessionProtocolClientRelayFallback))] [SessionProtocolCmdSendActiveDatagram]),
      (sc_State (fst s) = SessionProtocolClientRelayConnected \<and> ev = SessionProtocolEventRelayDatagram,
       block [goto (sc_State_update (\<lambda>_. SessionProtocolClientRelayConnected))] [SessionProtocolCmdDeliverRecvDatagram]),
      (sc_State (fst s) = SessionProtocolClientPairDialing \<and> ev = SessionProtocolEventRelayDatagram,
       block [goto (sc_State_update (\<lambda>_. SessionProtocolClientPairDialing))] [SessionProtocolCmdDeliverRecvDatagram]),
      (sc_State (fst s) = SessionProtocolClientPairChecking \<and> ev = SessionProtocolEventRelayDatagram,
       block [goto (sc_State_update (\<lambda>_. SessionProtocolClientPairChecking))] [SessionProtocolCmdDeliverRecvDatagram]),
      (sc_State (fst s) = SessionProtocolClientAltActive \<and> ev = SessionProtocolEventRelayDatagram,
       block [goto (sc_State_update (\<lambda>_. SessionProtocolClientAltActive))] [SessionProtocolCmdDeliverRecvDatagram]),
      (sc_State (fst s) = SessionProtocolClientRelayFallback \<and> ev = SessionProtocolEventRelayDatagram,
       block [goto (sc_State_update (\<lambda>_. SessionProtocolClientRelayFallback))] [SessionProtocolCmdDeliverRecvDatagram]),
      (sc_State (fst s) = SessionProtocolClientAltActive \<and> ev = SessionProtocolEventAltStreamData,
       block [goto (sc_State_update (\<lambda>_. SessionProtocolClientAltActive))] [SessionProtocolCmdDeliverRecv]),
      (sc_State (fst s) = SessionProtocolClientAltActive \<and> ev = SessionProtocolEventAltDatagram,
       block [goto (sc_State_update (\<lambda>_. SessionProtocolClientAltActive))] [SessionProtocolCmdDeliverRecvDatagram])]"

definition SessionProtocolClientMachine_HandleEvent ::
  "(SessionProtocolClientMachine, 'w, 'e) callbacks \<Rightarrow> string \<Rightarrow> SessionProtocolClientMachine \<times> 'w \<Rightarrow> (SessionProtocolClientMachine \<times> 'w) \<times> ('e + string list)" where
  "SessionProtocolClientMachine_HandleEvent env ev s = gswitch
     (SessionProtocolClientMachine_HandleEvent_pairing env ev s @
      SessionProtocolClientMachine_HandleEvent_path env ev s @
      SessionProtocolClientMachine_HandleEvent_traffic env ev s)
     (block [] []) s"

definition SessionProtocolClient_struct :: "SessionProtocolClientMachine struct" where
  "SessionProtocolClient_struct =
     \<lparr>get_state = sc_State, set_state = (\<lambda>x. sc_State_update (\<lambda>_. x)),
      get_int = (\<lambda>v m. 0),
      set_var = (\<lambda>v l. if v = ''received_backend_pub'' then sc_ReceivedBackendPub_update (\<lambda>_. lit_string l)
        else if v = ''client_shared_key'' then sc_ClientSharedKey_update (\<lambda>_. lit_string l)
        else if v = ''client_code'' then sc_ClientCode_update (\<lambda>_. lit_string l)
        else if v = ''c_active_path'' then sc_CActivePath_update (\<lambda>_. lit_string l)
        else if v = ''c_dispatcher_path'' then sc_CDispatcherPath_update (\<lambda>_. lit_string l)
        else if v = ''alt_signal'' then sc_AltSignal_update (\<lambda>_. lit_string l)
        else id)\<rparr>"

definition SessionProtocolClient_reads :: "string \<Rightarrow> go_literal \<Rightarrow> SessionProtocolClientMachine \<Rightarrow> bool" where
  "SessionProtocolClient_reads v l m =
     (if v = ''received_backend_pub'' then sc_ReceivedBackendPub m = lit_string l
      else if v = ''client_shared_key'' then sc_ClientSharedKey m = lit_string l
      else if v = ''client_code'' then sc_ClientCode m = lit_string l
      else if v = ''c_active_path'' then sc_CActivePath m = lit_string l
      else if v = ''c_dispatcher_path'' then sc_CDispatcherPath m = lit_string l
      else if v = ''alt_signal'' then sc_AltSignal m = lit_string l
      else False)"

section \<open>The client machine is what the table says\<close>

interpretation sc: machine_struct SessionProtocolClient_struct
  by unfold_locales (simp add: SessionProtocolClient_struct_def)

lemma sc_HandleMessage_generated:
  "SessionProtocolClientMachine_HandleMessage env msg s = gen_HandleMessage SessionProtocolClient_struct SessionProtocol_client_transitions env msg s"
  by (simp add: SessionProtocolClientMachine_HandleMessage_def SessionProtocol_client_transitions_def SessionProtocolClient_struct_def gen_simps sp_updates)

lemma sc_Step_cases:
  "SessionProtocolClientMachine_Step_pairing env event s @
   SessionProtocolClientMachine_Step_path env event s @
   SessionProtocolClientMachine_Step_traffic env event s =
   gen_cases SessionProtocolClient_struct env trigger_name (\<lambda>_. True) event s
     (filter (\<lambda>t. \<not> is_recv t) SessionProtocol_client_transitions)"
  unfolding SessionProtocolClientMachine_Step_pairing_def
    SessionProtocolClientMachine_Step_path_def
    SessionProtocolClientMachine_Step_traffic_def
  by (simp add: SessionProtocol_client_transitions_def SessionProtocolClient_struct_def gen_simps sp_updates lit_bool_def)

lemma sc_Step_generated:
  "SessionProtocolClientMachine_Step env event s = gen_Step SessionProtocolClient_struct SessionProtocol_client_transitions env event s"
  by (simp only: SessionProtocolClientMachine_Step_def gen_Step_def sc_Step_cases)

lemma sc_HandleEvent_cases:
  "SessionProtocolClientMachine_HandleEvent_pairing env ev s @
   SessionProtocolClientMachine_HandleEvent_path env ev s @
   SessionProtocolClientMachine_HandleEvent_traffic env ev s =
   gen_cases SessionProtocolClient_struct env event_name Emits ev s
     (with_emits SessionProtocol_client_transitions SessionProtocol_client_emits)"
  unfolding SessionProtocolClientMachine_HandleEvent_pairing_def
    SessionProtocolClientMachine_HandleEvent_path_def
    SessionProtocolClientMachine_HandleEvent_traffic_def
  by (simp add: SessionProtocol_client_transitions_def SessionProtocolClient_struct_def gen_simps sp_updates lit_bool_def SessionProtocol_client_emits_def with_emits_def)

lemma sc_HandleEvent_generated:
  "SessionProtocolClientMachine_HandleEvent env ev s = gen_HandleEvent SessionProtocolClient_struct (with_emits SessionProtocol_client_transitions SessionProtocol_client_emits) env ev s"
  by (simp only: SessionProtocolClientMachine_HandleEvent_def gen_HandleEvent_def sc_HandleEvent_cases)

section \<open>The relay machine\<close>

record SessionProtocolRelayMachine =
  sr_State :: "string"
  sr_RelayBridge :: "string"

definition NewSessionProtocolRelayMachine :: SessionProtocolRelayMachine where
  "NewSessionProtocolRelayMachine =
     \<lparr>sr_State = SessionProtocolRelayIdle,
      sr_RelayBridge = ''idle''\<rparr>"

definition SessionProtocolRelayMachine_HandleMessage ::
  "(SessionProtocolRelayMachine, 'w, 'e) callbacks \<Rightarrow> string \<Rightarrow> SessionProtocolRelayMachine \<times> 'w \<Rightarrow> (SessionProtocolRelayMachine \<times> 'w) \<times> ('e + bool)" where
  "SessionProtocolRelayMachine_HandleMessage env msg s = gswitch
     []
     (block [] False) s"

definition SessionProtocolRelayMachine_Step ::
  "(SessionProtocolRelayMachine, 'w, 'e) callbacks \<Rightarrow> string \<Rightarrow> SessionProtocolRelayMachine \<times> 'w \<Rightarrow> (SessionProtocolRelayMachine \<times> 'w) \<times> ('e + bool)" where
  "SessionProtocolRelayMachine_Step env event s = gswitch
     [(sr_State (fst s) = SessionProtocolRelayIdle \<and> event = SessionProtocolEventBackendRegister,
       block [goto (sr_State_update (\<lambda>_. SessionProtocolRelayBackendRegistered))] True),
      (sr_State (fst s) = SessionProtocolRelayBackendRegistered \<and> event = SessionProtocolEventClientConnect,
       block [act env SessionProtocolActionBridgeStreams,
              assign env (sr_RelayBridge_update (\<lambda>_. ''active'')) ''relay_bridge'',
              goto (sr_State_update (\<lambda>_. SessionProtocolRelayBridged))] True),
      (sr_State (fst s) = SessionProtocolRelayBridged \<and> event = SessionProtocolEventClientDisconnect,
       block [act env SessionProtocolActionUnbridge,
              assign env (sr_RelayBridge_update (\<lambda>_. ''idle'')) ''relay_bridge'',
              goto (sr_State_update (\<lambda>_. SessionProtocolRelayBackendRegistered))] True),
      (sr_State (fst s) = SessionProtocolRelayBackendRegistered \<and> event = SessionProtocolEventBackendDisconnect,
       block [goto (sr_State_update (\<lambda>_. SessionProtocolRelayIdle))] True)]
     (block [] False) s"

definition SessionProtocolRelayMachine_HandleEvent ::
  "(SessionProtocolRelayMachine, 'w, 'e) callbacks \<Rightarrow> string \<Rightarrow> SessionProtocolRelayMachine \<times> 'w \<Rightarrow> (SessionProtocolRelayMachine \<times> 'w) \<times> ('e + string list)" where
  "SessionProtocolRelayMachine_HandleEvent env ev s = gswitch
     [(sr_State (fst s) = SessionProtocolRelayIdle \<and> ev = SessionProtocolEventBackendRegister,
       block [goto (sr_State_update (\<lambda>_. SessionProtocolRelayBackendRegistered))] []),
      (sr_State (fst s) = SessionProtocolRelayBackendRegistered \<and> ev = SessionProtocolEventClientConnect,
       block [act env SessionProtocolActionBridgeStreams,
              assign env (sr_RelayBridge_update (\<lambda>_. ''active'')) ''relay_bridge'',
              goto (sr_State_update (\<lambda>_. SessionProtocolRelayBridged))] []),
      (sr_State (fst s) = SessionProtocolRelayBridged \<and> ev = SessionProtocolEventClientDisconnect,
       block [act env SessionProtocolActionUnbridge,
              assign env (sr_RelayBridge_update (\<lambda>_. ''idle'')) ''relay_bridge'',
              goto (sr_State_update (\<lambda>_. SessionProtocolRelayBackendRegistered))] []),
      (sr_State (fst s) = SessionProtocolRelayBackendRegistered \<and> ev = SessionProtocolEventBackendDisconnect,
       block [goto (sr_State_update (\<lambda>_. SessionProtocolRelayIdle))] [])]
     (block [] []) s"

definition SessionProtocolRelay_struct :: "SessionProtocolRelayMachine struct" where
  "SessionProtocolRelay_struct =
     \<lparr>get_state = sr_State, set_state = (\<lambda>x. sr_State_update (\<lambda>_. x)),
      get_int = (\<lambda>v m. 0),
      set_var = (\<lambda>v l. if v = ''relay_bridge'' then sr_RelayBridge_update (\<lambda>_. lit_string l)
        else id)\<rparr>"

section \<open>The relay machine is what the table says\<close>

interpretation sr: machine_struct SessionProtocolRelay_struct
  by unfold_locales (simp add: SessionProtocolRelay_struct_def)

lemma sr_HandleMessage_generated:
  "SessionProtocolRelayMachine_HandleMessage env msg s = gen_HandleMessage SessionProtocolRelay_struct SessionProtocol_relay_transitions env msg s"
  by (simp add: SessionProtocolRelayMachine_HandleMessage_def SessionProtocol_relay_transitions_def SessionProtocolRelay_struct_def gen_simps sp_updates)

lemma sr_Step_generated:
  "SessionProtocolRelayMachine_Step env event s = gen_Step SessionProtocolRelay_struct SessionProtocol_relay_transitions env event s"
  by (simp add: SessionProtocolRelayMachine_Step_def SessionProtocol_relay_transitions_def SessionProtocolRelay_struct_def gen_simps sp_updates lit_bool_def)

lemma sr_HandleEvent_generated:
  "SessionProtocolRelayMachine_HandleEvent env ev s = gen_HandleEvent SessionProtocolRelay_struct (with_emits SessionProtocol_relay_transitions SessionProtocol_relay_emits) env ev s"
  by (simp add: SessionProtocolRelayMachine_HandleEvent_def SessionProtocol_relay_transitions_def SessionProtocolRelay_struct_def gen_simps sp_updates lit_bool_def SessionProtocol_relay_emits_def with_emits_def)

lemmas sc_generated = sc_HandleMessage_generated sc_Step_generated sc_HandleEvent_generated
lemmas sr_generated = sr_HandleMessage_generated sr_Step_generated sr_HandleEvent_generated

lemma sc_emits_length: "length SessionProtocol_client_emits = length SessionProtocol_client_transitions"
  by (simp add: SessionProtocol_client_emits_def SessionProtocol_client_transitions_def)

lemma sr_emits_length: "length SessionProtocol_relay_emits = length SessionProtocol_relay_transitions"
  by (simp add: SessionProtocol_relay_emits_def SessionProtocol_relay_transitions_def)

lemma sc_events_apart: "events_apart (with_emits SessionProtocol_client_transitions SessionProtocol_client_emits)"
  by (rule events_apart_with_emits) (simp add: events_apart_def SessionProtocol_client_transitions_def transition_def)

lemma sr_events_apart: "events_apart (with_emits SessionProtocol_relay_transitions SessionProtocol_relay_emits)"
  by (rule events_apart_with_emits) (simp add: events_apart_def SessionProtocol_relay_transitions_def transition_def)

section \<open>The paths of the client\<close>

definition sc_callbacks :: "(SessionProtocolClientMachine, 'w, 'e) callbacks \<Rightarrow> bool" where
  "sc_callbacks env \<longleftrightarrow> keeps env sc_State \<and> keeps env sc_CActivePath \<and> keeps env sc_CDispatcherPath \<and> keeps env sc_AltSignal"

definition sc_path_vars :: "string list" where
  "sc_path_vars = [''c_active_path'', ''c_dispatcher_path'', ''alt_signal'']"

interpretation scp: machine_vars SessionProtocolClient_struct SessionProtocolClient_reads sc_path_vars
  by (unfold_locales; (simp only: sc_path_vars_def list.set insert_iff empty_iff)?; (elim disjE FalseE)?;
      simp add: SessionProtocolClient_struct_def SessionProtocolClient_reads_def)

lemma sc_keeps_vars:
  "sc_callbacks env \<Longrightarrow> keeps_vars env SessionProtocolClient_struct SessionProtocolClient_reads sc_path_vars"
  by (simp add: sc_callbacks_def keeps_vars_def keeps_def SessionProtocolClient_struct_def SessionProtocolClient_reads_def
        sc_path_vars_def)

inductive sc_step :: "(SessionProtocolClientMachine, 'w, 'e) callbacks \<Rightarrow>
    SessionProtocolClientMachine \<times> 'w \<Rightarrow> SessionProtocolClientMachine \<times> 'w \<Rightarrow> bool" for env where
  "sc_step env s (fst (SessionProtocolClientMachine_HandleMessage env msg s))" |
  "sc_step env s (fst (SessionProtocolClientMachine_Step env event s))" |
  "sc_step env s (fst (SessionProtocolClientMachine_HandleEvent env ev s))" |
  "sc_step env (m, w) (m, w')"

definition sc_expected :: "string \<Rightarrow> string \<Rightarrow> go_literal option" where
  "sc_expected s v =
     (if s = SessionProtocolClientAltActive then Some (GoText (if v = ''alt_signal'' then ''\"ready\"'' else ''\"alt\"''))
      else if s = SessionProtocolClientRelayFallback
      then Some (GoText (if v = ''alt_signal'' then ''\"pending\"'' else ''\"relay\"''))
      else None)"

lemma sc_table_expected:
  "list_all (\<lambda>t. keeps_expected sc_expected sc_path_vars t \<and> To t \<in> set SessionProtocol_client_states)
     SessionProtocol_client_transitions"
  by code_simp

abbreviation sc_ok :: "SessionProtocolClientMachine \<Rightarrow> bool" where
  "sc_ok \<equiv> as_expected SessionProtocolClient_struct SessionProtocolClient_reads sc_expected sc_path_vars
     SessionProtocol_client_states"

interpretation scrun: inv_system "\<lambda>s. s = (NewSessionProtocolClientMachine, w0)" "sc_step env"
    "\<lambda>s. sc_callbacks env \<longrightarrow> sc_ok (fst s)" for w0 env
proof
  show "s = (NewSessionProtocolClientMachine, w0) \<Longrightarrow> sc_callbacks env \<longrightarrow> sc_ok (fst s)" for s
    by (simp add: as_expected_def NewSessionProtocolClientMachine_def SessionProtocolClient_struct_def
          SessionProtocolClient_reads_def sc_path_vars_def sc_expected_def SessionProtocol_client_states_def)
  show "sc_callbacks env \<longrightarrow> sc_ok (fst s) \<Longrightarrow> sc_step env s s' \<Longrightarrow> sc_callbacks env \<longrightarrow> sc_ok (fst s')" for s s'
    by (erule sc_step.cases)
       (auto simp: sc_generated intro!: scp.gen_expected [OF sc_keeps_vars sc_table_expected]
          scp.gen_expected [OF sc_keeps_vars keeps_expected_with_emits [OF sc_table_expected]])
qed

lemma session_client_paths:
  assumes "sc_callbacks env" and "(sc_step env)\<^sup>*\<^sup>* (NewSessionProtocolClientMachine, w0) (m, w)"
  shows "sc_State m \<in> set SessionProtocol_client_states \<and>
    (sc_State m = SessionProtocolClientAltActive \<longrightarrow>
       sc_CActivePath m = ''alt'' \<and> sc_CDispatcherPath m = ''alt'' \<and> sc_AltSignal m = ''ready'') \<and>
    (sc_State m = SessionProtocolClientRelayFallback \<longrightarrow>
       sc_CActivePath m = ''relay'' \<and> sc_CDispatcherPath m = ''relay'' \<and> sc_AltSignal m = ''pending'')"
  using scrun.reachable [OF refl assms(2)] assms(1)
  by (simp add: as_expected_def SessionProtocolClient_struct_def SessionProtocolClient_reads_def sc_path_vars_def
        sc_expected_def go_unquote_def)

definition sc_events :: "(SessionProtocolClientMachine, 'w, 'e) callbacks \<Rightarrow> string list \<Rightarrow>
    SessionProtocolClientMachine \<times> 'w \<Rightarrow> SessionProtocolClientMachine \<times> 'w" where
  "sc_events env = fold (\<lambda>ev s. fst (SessionProtocolClientMachine_HandleEvent env ev s))"

definition sc_first_session :: "string list" where
  "sc_first_session =
     [SessionProtocolEventBackchannelReceived, SessionProtocolEventSecretParsed, SessionProtocolEventRelayConnected,
      SessionProtocolEventKeyPairGenerated, SessionProtocolEventRecvPairHelloAck, SessionProtocolEventRecvPairConfirm,
      SessionProtocolEventCodeDisplayed, SessionProtocolEventRecvPairComplete, SessionProtocolEventAppLaunch,
      SessionProtocolEventRelayConnected, SessionProtocolEventRecvAuthOk, SessionProtocolEventSessionEstablished,
      SessionProtocolEventRecvCandidates, SessionProtocolEventDialOk, SessionProtocolEventRecvPairCheckAck]"

text \<open>
  New candidates on a healthy alternative path make the client close that path and dial; the path
  field is not touched, so when the dial fails the client is back in \<open>RelayConnected\<close> with its
  traffic still bound to the path it has closed.
\<close>

lemma client_candidates_keep_closed_path:
  "let s = sc_events all_guards sc_first_session (NewSessionProtocolClientMachine, ());
       r = SessionProtocolClientMachine_HandleEvent all_guards SessionProtocolEventRecvCandidates s;
       m = fst (sc_events all_guards [SessionProtocolEventDialFailed] (fst r)) in
   sc_State (fst s) = SessionProtocolClientAltActive \<and>
   snd r = Inr [SessionProtocolCmdStopAltStreamReader, SessionProtocolCmdStopAltDgReader, SessionProtocolCmdCloseAltPath,
     SessionProtocolCmdDialCandidate] \<and>
   sc_State m = SessionProtocolClientRelayConnected \<and> sc_CActivePath m = ''alt'' \<and> sc_CDispatcherPath m = ''alt'' \<and>
   sc_AltSignal m = ''ready''"
  by code_simp

section \<open>The readers of the client\<close>

text \<open>Stream reader and datagram reader of the alternative path.\<close>

definition run_reader_cmd :: "string \<Rightarrow> bool \<times> bool \<Rightarrow> bool \<times> bool" where
  "run_reader_cmd c r =
     (if c = SessionProtocolCmdStartAltStreamReader then (True, snd r)
      else if c = SessionProtocolCmdStopAltStreamReader then (False, snd r)
      else if c = SessionProtocolCmdStartAltDgReader then (fst r, True)
      else if c = SessionProtocolCmdStopAltDgReader then (fst r, False)
      else r)"

definition sc_exec :: "(SessionProtocolClientMachine, 'w, 'e) callbacks \<Rightarrow> string \<Rightarrow>
    (SessionProtocolClientMachine \<times> 'w) \<times> (bool \<times> bool) \<Rightarrow> (SessionProtocolClientMachine \<times> 'w) \<times> (bool \<times> bool)" where
  "sc_exec env ev = (\<lambda>(s, r). let res = SessionProtocolClientMachine_HandleEvent env ev s in
     (fst res, case snd res of Inl _ \<Rightarrow> r | Inr cmds \<Rightarrow> fold run_reader_cmd cmds r))"

definition sc_readers :: "string \<Rightarrow> bool \<times> bool" where
  "sc_readers s = (s = SessionProtocolClientAltActive, s = SessionProtocolClientAltActive)"

lemma sc_table_readers:
  "list_all (\<lambda>t. fold run_reader_cmd (Emits t) (sc_readers (From t)) = sc_readers (To t))
     (with_emits SessionProtocol_client_transitions SessionProtocol_client_emits)"
  by code_simp

lemma sc_exec_readers:
  assumes "keeps env sc_State" and "snd sr = sc_readers (sc_State (fst (fst sr)))"
  shows "snd (sc_exec env ev sr) = sc_readers (sc_State (fst (fst (sc_exec env ev sr))))"
proof -
  have st: "get_state SessionProtocolClient_struct = sc_State" by (simp add: SessionProtocolClient_struct_def)
  have "keeps env (get_state SessionProtocolClient_struct)"
    and "snd sr = sc_readers (get_state SessionProtocolClient_struct (fst (fst sr)))"
    using assms by (simp_all only: st)
  from sc.gen_commands [OF this(1) sc_table_readers this(2) refl, of ev] show ?thesis
    by (simp add: sc_exec_def st sc_HandleEvent_generated case_prod_beta Let_def)
qed

lemma session_client_readers:
  assumes "keeps env sc_State" and "r = fold (sc_exec env) evs ((NewSessionProtocolClientMachine, w), (False, False))"
  shows "snd r = (sc_State (fst (fst r)) = SessionProtocolClientAltActive, sc_State (fst (fst r)) = SessionProtocolClientAltActive)"
proof -
  have "snd (fold (sc_exec env) evs sr) = sc_readers (sc_State (fst (fst (fold (sc_exec env) evs sr))))"
    if "snd sr = sc_readers (sc_State (fst (fst sr)))" for sr
    using that by (induction evs arbitrary: sr) (simp_all add: sc_exec_readers [OF assms(1)])
  from this [of "((NewSessionProtocolClientMachine, w), (False, False))"] show ?thesis
    unfolding assms(2) by (simp add: sc_readers_def NewSessionProtocolClientMachine_def)
qed

end
