(* ===== verification/Protocols.thy ===== *)
theory Protocols
  imports PathSwitch PairingMachines SessionBackend SessionClient
begin

text \<open>
  The eight generated machines together (\<open>protocol/pathswitch_gen.go\<close>, \<open>pairing/pairingceremony_gen.go\<close>,
  \<open>session_gen.go\<close>): each is what its protocol table says, its three entry points agree with each
  other, and it moves as the runtime machine of \<open>protocol/machine.go\<close> does on the same table.
\<close>

section \<open>The generated code and the tables\<close>

lemmas generated = psb_generated psc_generated psr_generated pca_generated pci_generated sb_generated sc_generated sr_generated

text \<open>
  (C3) The generated code is the table: \<open>HandleMessage\<close>, \<open>Step\<close> and \<open>HandleEvent\<close> of every generated machine
  do on every input and with every callbacks what the generator's rules (\<open>protocol/gogen.go\<close>) make
  of the rows of the protocol table of the same file: the same cases in the same order with the
  same guards, actions, assignments, notifications and next states. For the session protocol, whose
  table leaves the commands out, \<open>HandleEvent\<close> emits those of \<open>protocol/session.yaml\<close>.
\<close>

theorem generated_code_is_the_table:
  "PathSwitchBackendMachine_HandleMessage env0 x s0 = gen_HandleMessage PathSwitchBackend_struct PathSwitch_backend_transitions env0 x s0 \<and>
    PathSwitchBackendMachine_Step env0 x s0 = gen_Step PathSwitchBackend_struct PathSwitch_backend_transitions env0 x s0 \<and>
    PathSwitchBackendMachine_HandleEvent env0 x s0 = gen_HandleEvent PathSwitchBackend_struct PathSwitch_backend_transitions env0 x s0 \<and>
    PathSwitchClientMachine_HandleMessage env1 x s1 = gen_HandleMessage PathSwitchClient_struct PathSwitch_client_transitions env1 x s1 \<and>
    PathSwitchClientMachine_Step env1 x s1 = gen_Step PathSwitchClient_struct PathSwitch_client_transitions env1 x s1 \<and>
    PathSwitchClientMachine_HandleEvent env1 x s1 = gen_HandleEvent PathSwitchClient_struct PathSwitch_client_transitions env1 x s1 \<and>
    PathSwitchRelayMachine_HandleMessage env2 x s2 = gen_HandleMessage PathSwitchRelay_struct PathSwitch_relay_transitions env2 x s2 \<and>
    PathSwitchRelayMachine_Step env2 x s2 = gen_Step PathSwitchRelay_struct PathSwitch_relay_transitions env2 x s2 \<and>
    PathSwitchRelayMachine_HandleEvent env2 x s2 = gen_HandleEvent PathSwitchRelay_struct PathSwitch_relay_transitions env2 x s2 \<and>
    PairingCeremonyProtocolAcceptorMachine_HandleMessage env3 x s3 = gen_HandleMessage PairingCeremonyProtocolAcceptor_struct PairingCeremonyProtocol_acceptor_transitions env3 x s3 \<and>
    PairingCeremonyProtocolAcceptorMachine_Step env3 x s3 = gen_Step PairingCeremonyProtocolAcceptor_struct PairingCeremonyProtocol_acceptor_transitions env3 x s3 \<and>
    PairingCeremonyProtocolAcceptorMachine_HandleEvent env3 x s3 = gen_HandleEvent PairingCeremonyProtocolAcceptor_struct PairingCeremonyProtocol_acceptor_transitions env3 x s3 \<and>
    PairingCeremonyProtocolInitiatorMachine_HandleMessage env4 x s4 = gen_HandleMessage PairingCeremonyProtocolInitiator_struct PairingCeremonyProtocol_initiator_transitions env4 x s4 \<and>
    PairingCeremonyProtocolInitiatorMachine_Step env4 x s4 = gen_Step PairingCeremonyProtocolInitiator_struct PairingCeremonyProtocol_initiator_transitions env4 x s4 \<and>
    PairingCeremonyProtocolInitiatorMachine_HandleEvent env4 x s4 = gen_HandleEvent PairingCeremonyProtocolInitiator_struct PairingCeremonyProtocol_initiator_transitions env4 x s4 \<and>
    SessionProtocolBackendMachine_HandleMessage env5 x s5 = gen_HandleMessage SessionProtocolBackend_struct SessionProtocol_backend_transitions env5 x s5 \<and>
    SessionProtocolBackendMachine_Step env5 x s5 = gen_Step SessionProtocolBackend_struct SessionProtocol_backend_transitions env5 x s5 \<and>
    SessionProtocolBackendMachine_HandleEvent env5 x s5 = gen_HandleEvent SessionProtocolBackend_struct (with_emits SessionProtocol_backend_transitions
       SessionProtocol_backend_emits) env5 x s5 \<and>
    SessionProtocolClientMachine_HandleMessage env6 x s6 = gen_HandleMessage SessionProtocolClient_struct SessionProtocol_client_transitions env6 x s6 \<and>
    SessionProtocolClientMachine_Step env6 x s6 = gen_Step SessionProtocolClient_struct SessionProtocol_client_transitions env6 x s6 \<and>
    SessionProtocolClientMachine_HandleEvent env6 x s6 = gen_HandleEvent SessionProtocolClient_struct (with_emits SessionProtocol_client_transitions
       SessionProtocol_client_emits) env6 x s6 \<and>
    SessionProtocolRelayMachine_HandleMessage env7 x s7 = gen_HandleMessage SessionProtocolRelay_struct SessionProtocol_relay_transitions env7 x s7 \<and>
    SessionProtocolRelayMachine_Step env7 x s7 = gen_Step SessionProtocolRelay_struct SessionProtocol_relay_transitions env7 x s7 \<and>
    SessionProtocolRelayMachine_HandleEvent env7 x s7 = gen_HandleEvent SessionProtocolRelay_struct (with_emits SessionProtocol_relay_transitions
       SessionProtocol_relay_emits) env7 x s7"
  by (intro conjI generated)

section \<open>The entry points agree\<close>

lemma HandleEvent_split:
  assumes "events_apart ts"
  shows "effect (gen_HandleEvent st ts env ev s) =
    (if take 5 ev = ''recv_'' then effect (gen_HandleMessage st ts env (drop 5 ev) s) else effect (gen_Step st ts env ev s))"
proof (cases "take 5 ev = ''recv_''")
  case True
  then have "ev = ''recv_'' @ drop 5 ev" by (metis append_take_drop_id)
  then show ?thesis using HandleEvent_message [OF assms, of st env "drop 5 ev" s] True by simp
qed (simp add: HandleEvent_step)

lemma events_apart_tables:
  "events_apart PathSwitch_backend_transitions" "events_apart PathSwitch_client_transitions"
  "events_apart PathSwitch_relay_transitions" "events_apart PairingCeremonyProtocol_acceptor_transitions"
  "events_apart PairingCeremonyProtocol_initiator_transitions"
  by (simp_all add: events_apart_def transition_def PathSwitch_backend_transitions_def PathSwitch_client_transitions_def
        PathSwitch_relay_transitions_def PairingCeremonyProtocol_acceptor_transitions_def
        PairingCeremonyProtocol_initiator_transitions_def)

lemma HandleEvent_split_emits:
  assumes "events_apart (with_emits ts es)" and "length es = length ts"
  shows "effect (gen_HandleEvent st (with_emits ts es) env ev s) =
    (if take 5 ev = ''recv_'' then effect (gen_HandleMessage st ts env (drop 5 ev) s) else effect (gen_Step st ts env ev s))"
  unfolding HandleEvent_split [OF assms(1)] with_emits_parts(2,3) [OF assms(2)] by (rule refl)

lemmas entry_points = HandleEvent_split [OF events_apart_tables(1)] HandleEvent_split [OF events_apart_tables(2)]
  HandleEvent_split [OF events_apart_tables(3)] HandleEvent_split [OF events_apart_tables(4)]
  HandleEvent_split [OF events_apart_tables(5)] HandleEvent_split_emits [OF sb_events_apart sb_emits_length]
  HandleEvent_split_emits [OF sc_events_apart sc_emits_length] HandleEvent_split_emits [OF sr_events_apart sr_emits_length]

text \<open>
  A machine can be driven through either interface: for every event, \<open>HandleEvent\<close> leaves machine
  and world as \<open>HandleMessage\<close> does for the message named after \<open>recv_\<close>, and as \<open>Step\<close> does for every
  other event, with the same error if the action fails.
\<close>

theorem events_are_messages_and_steps:
  "effect (PathSwitchBackendMachine_HandleEvent env0 ev s0) =
      (if take 5 ev = ''recv_'' then effect (PathSwitchBackendMachine_HandleMessage env0 (drop 5 ev) s0) else effect (PathSwitchBackendMachine_Step env0 ev s0)) \<and>
    effect (PathSwitchClientMachine_HandleEvent env1 ev s1) =
      (if take 5 ev = ''recv_'' then effect (PathSwitchClientMachine_HandleMessage env1 (drop 5 ev) s1) else effect (PathSwitchClientMachine_Step env1 ev s1)) \<and>
    effect (PathSwitchRelayMachine_HandleEvent env2 ev s2) =
      (if take 5 ev = ''recv_'' then effect (PathSwitchRelayMachine_HandleMessage env2 (drop 5 ev) s2) else effect (PathSwitchRelayMachine_Step env2 ev s2)) \<and>
    effect (PairingCeremonyProtocolAcceptorMachine_HandleEvent env3 ev s3) =
      (if take 5 ev = ''recv_'' then effect (PairingCeremonyProtocolAcceptorMachine_HandleMessage env3 (drop 5 ev) s3) else effect (PairingCeremonyProtocolAcceptorMachine_Step env3 ev s3)) \<and>
    effect (PairingCeremonyProtocolInitiatorMachine_HandleEvent env4 ev s4) =
      (if take 5 ev = ''recv_'' then effect (PairingCeremonyProtocolInitiatorMachine_HandleMessage env4 (drop 5 ev) s4) else effect (PairingCeremonyProtocolInitiatorMachine_Step env4 ev s4)) \<and>
    effect (SessionProtocolBackendMachine_HandleEvent env5 ev s5) =
      (if take 5 ev = ''recv_'' then effect (SessionProtocolBackendMachine_HandleMessage env5 (drop 5 ev) s5) else effect (SessionProtocolBackendMachine_Step env5 ev s5)) \<and>
    effect (SessionProtocolClientMachine_HandleEvent env6 ev s6) =
      (if take 5 ev = ''recv_'' then effect (SessionProtocolClientMachine_HandleMessage env6 (drop 5 ev) s6) else effect (SessionProtocolClientMachine_Step env6 ev s6)) \<and>
    effect (SessionProtocolRelayMachine_HandleEvent env7 ev s7) =
      (if take 5 ev = ''recv_'' then effect (SessionProtocolRelayMachine_HandleMessage env7 (drop 5 ev) s7) else effect (SessionProtocolRelayMachine_Step env7 ev s7))"
  unfolding generated by (intro conjI entry_points)

section \<open>The generated code and the runtime machine\<close>

text \<open>Every guard and every action the table names is registered.\<close>

definition all_registered :: "('m, 'w, 'e) callbacks \<Rightarrow> Transition list \<Rightarrow> bool" where
  "all_registered env ts \<longleftrightarrow>
     list_all (\<lambda>t. (Guard t \<noteq> '''' \<longrightarrow> Guards env (Guard t) \<noteq> None) \<and> (Do t \<noteq> '''' \<longrightarrow> Actions env (Do t) \<noteq> None)) ts"

lemma NewMachine_flat:
  assumes "find (\<lambda>a. ActorName a = n) (Actors p) = Some (flat_actor n' i ts)" and "NewMachine p n = Inr m0"
  shows "FlattenedTransitions (actor m0) = ts" and "indexed m0"
proof -
  have "actor m0 = flat_actor n' i ts" using assms by (auto simp: NewMachine_def Let_def index_fold)
  then show "FlattenedTransitions (actor m0) = ts" by (simp add: FlattenedTransitions_def flat_actor_def IsComposed_def)
qed (rule NewMachine_indexed(1) [OF assms(2)])

context machine_struct
begin

lemma runtime_agree:
  assumes "find (\<lambda>a. ActorName a = n) (Actors p) = Some (flat_actor n' i ts)"
    and "NewMachine p n = Inr (m0 :: ('m \<times> 'w, 'e) Machine)" and "all_registered env ts"
    and mm: "mm = m0\<lparr>state := get_state st (fst s), guards := Guards env, actions := Actions env\<rparr>"
  shows "agree st s mm (gen_HandleMessage st ts env msg s) (Machine_HandleMessage msg s mm)"
    and "ev \<noteq> '''' \<Longrightarrow> agree st s mm (gen_Step st ts env ev s) (Machine_Step keys ev s mm)"
proof -
  note f = NewMachine_flat [OF assms(1,2)]
  have a: "FlattenedTransitions (actor mm) = ts" "indexed mm" "state mm = get_state st (fst s)"
    using f by (simp_all add: mm indexed_def)
  have r: "registered env mm (FlattenedTransitions (actor mm))"
    using assms(3) unfolding a by (auto simp: registered_def all_registered_def registered1_def list_all_iff mm)
  show "agree st s mm (gen_HandleMessage st ts env msg s) (Machine_HandleMessage msg s mm)"
    using HandleMessage_agree [OF r a(2,3)] unfolding a .
  show "ev \<noteq> '''' \<Longrightarrow> agree st s mm (gen_Step st ts env ev s) (Machine_Step keys ev s mm)"
    using Step_agree [OF r a(2,3)] unfolding a .
qed

end

text \<open>
  The two implementations of a protocol agree. The generated backend of the session protocol and the
  runtime machine that \<open>NewMachine\<close> builds from the same table, in the same state and with the same
  guards and actions registered, do the same on every message and every event: both refuse it and
  change nothing, both stop with the same error of the same action, or both move to the same
  state.
\<close>

theorem session_backend_agrees_with_runtime:
  assumes "NewMachine SessionProtocol ''backend'' = Inr (m0 :: (SessionProtocolBackendMachine \<times> 'w, 'e) Machine)"
    and "all_registered env SessionProtocol_backend_transitions" and "event \<noteq> ''''"
    and "mm = m0\<lparr>state := sb_State (fst s), guards := Guards env, actions := Actions env\<rparr>"
  shows "agree SessionProtocolBackend_struct s mm
      (SessionProtocolBackendMachine_HandleMessage env msg s) (Machine_HandleMessage msg s mm) \<and>
    agree SessionProtocolBackend_struct s mm
      (SessionProtocolBackendMachine_Step env event s) (Machine_Step keys event s mm)"
proof -
  have "find (\<lambda>a. ActorName a = ''backend'') (Actors SessionProtocol) =
      Some (flat_actor ''backend'' ''Idle'' SessionProtocol_backend_transitions)"
    by (simp add: SessionProtocol_def flat_actor_def)
  moreover have "get_state SessionProtocolBackend_struct = sb_State" by (simp add: SessionProtocolBackend_struct_def)
  ultimately show ?thesis using sb.runtime_agree [OF _ assms(1,2)] assms(3,4) by (simp add: sb_generated)
qed

definition all_callbacks :: "('m, unit, unit) callbacks" where
  "all_callbacks = \<lparr>Guards = (\<lambda>_. Some (\<lambda>_. True)), Actions = (\<lambda>_. Some (\<lambda>s. (s, None))), OnChange = None\<rparr>"

theorem session_backend_agrees_with_runtime_witness:
  "\<exists>mm :: (SessionProtocolBackendMachine \<times> unit, unit) Machine.
     agree SessionProtocolBackend_struct (NewSessionProtocolBackendMachine, ()) mm
       (SessionProtocolBackendMachine_Step all_callbacks ''cli_init_pair'' (NewSessionProtocolBackendMachine, ()))
       (Machine_Step [] ''cli_init_pair'' (NewSessionProtocolBackendMachine, ()) mm)"
proof -
  obtain m0 where "NewMachine SessionProtocol ''backend'' = Inr (m0 :: (SessionProtocolBackendMachine \<times> unit, unit) Machine)"
    by (simp add: NewMachine_def SessionProtocol_def flat_actor_def Let_def)
  moreover have "all_registered (all_callbacks :: (SessionProtocolBackendMachine, unit, unit) callbacks) SessionProtocol_backend_transitions"
    by (simp add: all_registered_def all_callbacks_def list_all_iff)
  ultimately show ?thesis
    using session_backend_agrees_with_runtime [of m0 all_callbacks "''cli_init_pair''" _ "(NewSessionProtocolBackendMachine, ())" _ "[]"]
    by blast
qed

lemma session_client_agrees_with_runtime:
  assumes "NewMachine SessionProtocol ''client'' = Inr (m0 :: (SessionProtocolClientMachine \<times> 'w, 'e) Machine)"
    and "all_registered env SessionProtocol_client_transitions" and "event \<noteq> ''''"
    and "mm = m0\<lparr>state := sc_State (fst s), guards := Guards env, actions := Actions env\<rparr>"
  shows "agree SessionProtocolClient_struct s mm
      (SessionProtocolClientMachine_HandleMessage env msg s) (Machine_HandleMessage msg s mm) \<and>
    agree SessionProtocolClient_struct s mm
      (SessionProtocolClientMachine_Step env event s) (Machine_Step keys event s mm)"
proof -
  have "find (\<lambda>a. ActorName a = ''client'') (Actors SessionProtocol) =
      Some (flat_actor ''client'' ''Idle'' SessionProtocol_client_transitions)"
    by (simp add: SessionProtocol_def flat_actor_def)
  moreover have "get_state SessionProtocolClient_struct = sc_State" by (simp add: SessionProtocolClient_struct_def)
  ultimately show ?thesis using sc.runtime_agree [OF _ assms(1,2)] assms(3,4) by (simp add: sc_generated)
qed

section \<open>The tables pass their own validation\<close>

lemma SessionProtocol_valid: "Validate SessionProtocol = None"
  by code_simp

text \<open>
  The three protocol tables are accepted by \<open>Validate\<close>, so \<open>validate_sound\<close> applies to each of them.
\<close>

theorem tables_valid: "list_all (\<lambda>p. Validate p = None) [PathSwitch, PairingCeremonyProtocol, SessionProtocol]"
  by (simp add: PathSwitch_valid PairingCeremony_valid SessionProtocol_valid)

end
