(* ===== verification/Relay.thy ===== *)
theory Relay
  imports Wire
begin

text \<open>
  The relay (\<open>session.go\<close>, \<open>quicserver.go\<close>, \<open>webtransport.go\<close>, \<open>auth.go\<close>): backends register an
  instance and park listen connections, clients ask for an instance and are bridged to a parked
  listen. The hub is shared by the raw QUIC server and the WebTransport server. Goroutines are
  modelled by a program counter per connection; each step is what a handler does between two points
  at which it can block or be overtaken: the hub's methods run under its lock and are atomic, and a
  rendezvous on the unbuffered channel \<open>listens\<close> is one joint step of the two handlers. Pointers to
  instances are addresses of a heap. The sessions of quic-go and webtransport-go appear as
  connections of which the relay sees the primary stream's first message, whether a write succeeds,
  and whether the context has ended.
\<close>

section \<open>Authentication\<close>

record 'cert RegisterRequest =
  ReqToken :: string
  ReqInstanceID :: string
  ReqTLS :: "'cert list option"

record 'cert ConnectRequest =
  ConInstanceID :: string
  ConTLS :: "'cert list option"

record 'cert Auth =
  VerifyRegister :: "('cert RegisterRequest \<Rightarrow> string option) option"
  VerifyConnect :: "('cert ConnectRequest \<Rightarrow> string option) option"

definition ErrUnauthorized :: string where
  "ErrUnauthorized = ''unauthorized''"

definition no_auth :: "'cert Auth" where
  "no_auth = \<lparr>VerifyRegister = None, VerifyConnect = None\<rparr>"

text \<open>\<open>subtle.ConstantTimeCompare\<close> is 1 exactly on equal byte strings.\<close>

definition BearerTokenAuth :: "string \<Rightarrow> 'cert Auth" where
  "BearerTokenAuth token =
     (if token = '''' then no_auth
      else \<lparr>VerifyRegister = Some (\<lambda>req. if ReqToken req \<noteq> token then Some ErrUnauthorized else None),
            VerifyConnect = None\<rparr>)"

text \<open>\<open>verify\<close> is \<open>x509.Certificate.Verify\<close> against the roots of the pool.\<close>

definition MutualTLSAuth :: "('pool \<Rightarrow> 'cert \<Rightarrow> string option) \<Rightarrow> 'pool \<Rightarrow> 'cert Auth" where
  "MutualTLSAuth verify pool =
     \<lparr>VerifyRegister = Some (\<lambda>req.
        case ReqTLS req of
          None \<Rightarrow> Some ErrUnauthorized
        | Some certs \<Rightarrow>
            if length certs = 0 then Some ErrUnauthorized
            else (case verify pool (certs ! 0) of Some err \<Rightarrow> Some err | None \<Rightarrow> None)),
      VerifyConnect = None\<rparr>"

section \<open>Identifiers and credentials\<close>

definition hex_digit :: "nat \<Rightarrow> char" where
  "hex_digit n = ''0123456789abcdef'' ! n"

definition hex_EncodeToString :: "bytes \<Rightarrow> string" where
  "hex_EncodeToString bs = concat (map (\<lambda>b. [hex_digit (unat b div 16), hex_digit (unat b mod 16)]) bs)"

text \<open>The 16 random bytes are an argument; \<open>rand.Read\<close> failing panics and is not modelled.\<close>

definition generateID :: "bytes \<Rightarrow> string" where
  "generateID b = hex_EncodeToString b"

definition bearerToken :: "string \<Rightarrow> string \<Rightarrow> string" where
  "bearerToken authorization query =
     (case strip_prefix ''Bearer '' authorization of
        Some rest \<Rightarrow> rest
      | None \<Rightarrow> query)"

section \<open>State\<close>

record hub_instance =
  iid :: string
  control :: nat
  cancelled :: bool

datatype server_kind = RawQUIC | WebTransport

datatype handler =
    Accepted
  | RegWrite nat
  | RegWait nat
  | RegLeave nat
  | ListenWrite nat
  | Park nat
  | Handed
  | Match nat
  | ConnWrite nat nat
  | Bridge nat nat
  | Returned

record 'cert peer =
  server :: server_kind
  certs :: "'cert list option"
  authorization :: string
  query_token :: string
  greeting :: "RelayGreetingDecoded option"
  written :: "string list"
  closed :: "(nat \<times> string) option"
  ended :: bool
  pc :: handler

record 'cert relay =
  instances :: "string \<rightharpoonup> nat"
  heap :: "nat \<rightharpoonup> hub_instance"
  fresh :: nat
  peers :: "nat \<rightharpoonup> 'cert peer"

definition newHub :: "'cert relay" where
  "newHub = \<lparr>instances = Map.empty, heap = Map.empty, fresh = 0, peers = Map.empty\<rparr>"

definition set_peer :: "nat \<Rightarrow> ('cert peer \<Rightarrow> 'cert peer) \<Rightarrow> 'cert relay \<Rightarrow> 'cert relay" where
  "set_peer c f s = s\<lparr>peers := (peers s)(c := map_option f (peers s c))\<rparr>"

definition goto_pc :: "nat \<Rightarrow> handler \<Rightarrow> 'cert relay \<Rightarrow> 'cert relay" where
  "goto_pc c p = set_peer c (\<lambda>r. r\<lparr>pc := p\<rparr>)"

definition CloseWithError :: "nat \<Rightarrow> nat \<Rightarrow> string \<Rightarrow> 'cert relay \<Rightarrow> 'cert relay" where
  "CloseWithError c code reason = set_peer c (\<lambda>r. r\<lparr>closed :=
     (case closed r of None \<Rightarrow> Some (code, reason) | Some x \<Rightarrow> Some x), ended := True\<rparr>)"

text \<open>\<open>Close\<close> of either session type.\<close>

definition Session_Close :: "nat \<Rightarrow> 'cert relay \<Rightarrow> 'cert relay" where
  "Session_Close c = CloseWithError c 0 ''''"

definition WriteMessage_ok :: "nat \<Rightarrow> string \<Rightarrow> 'cert relay \<Rightarrow> 'cert relay" where
  "WriteMessage_ok c msg = set_peer c (\<lambda>r. r\<lparr>written := written r @ [msg]\<rparr>)"

definition peer_ended :: "'cert relay \<Rightarrow> nat \<Rightarrow> bool" where
  "peer_ended s c = (case peers s c of None \<Rightarrow> True | Some r \<Rightarrow> ended r)"

text \<open>The context of an instance: derived from the control connection's, with its own cancel.\<close>

definition ctx_done :: "'cert relay \<Rightarrow> nat \<Rightarrow> bool" where
  "ctx_done s i = (case heap s i of None \<Rightarrow> True | Some inst \<Rightarrow> cancelled inst \<or> peer_ended s (control inst))"

section \<open>The hub\<close>

definition newInstance :: "string \<Rightarrow> nat \<Rightarrow> 'cert relay \<Rightarrow> nat \<times> 'cert relay" where
  "newInstance instanceID c s =
     (fresh s, s\<lparr>heap := (heap s)(fresh s \<mapsto> \<lparr>iid = instanceID, control = c, cancelled = False\<rparr>), fresh := Suc (fresh s)\<rparr>)"

definition register :: "nat \<Rightarrow> 'cert relay \<Rightarrow> string + 'cert relay" where
  "register i s =
     (case heap s i of
        None \<Rightarrow> Inl ''''
      | Some inst \<Rightarrow>
          if (case instances s (iid inst) of None \<Rightarrow> False | Some cur \<Rightarrow> \<not> ctx_done s cur)
          then Inl (''instance already registered: '' @ iid inst)
          else Inr (s\<lparr>instances := (instances s)(iid inst \<mapsto> i)\<rparr>))"

definition unregister :: "nat \<Rightarrow> 'cert relay \<Rightarrow> 'cert relay" where
  "unregister i s =
     (case heap s i of
        None \<Rightarrow> s
      | Some inst \<Rightarrow>
          let owns = (instances s (iid inst) = Some i) in
          if owns then s\<lparr>instances := (instances s)(iid inst := None), heap := (heap s)(i \<mapsto> inst\<lparr>cancelled := True\<rparr>)\<rparr>
          else s)"

definition hub_get :: "string \<Rightarrow> 'cert relay \<Rightarrow> nat option" where
  "hub_get instanceID s = instances s instanceID"

text \<open>The cases other than the channel of the two \<open>select\<close> statements: the errors they can return now.\<close>

definition parkListen :: "nat \<Rightarrow> nat \<Rightarrow> 'cert relay \<Rightarrow> string list" where
  "parkListen i c s =
     (if ctx_done s i then [''instance unregistered''] else []) @ (if peer_ended s c then [''context canceled''] else [])"

definition matchListen :: "nat \<Rightarrow> nat \<Rightarrow> 'cert relay \<Rightarrow> string list" where
  "matchListen i c s =
     (if ctx_done s i then [''instance unregistered''] else []) @ (if peer_ended s c then [''context canceled''] else [])"

text \<open>The channel case of both: the listen session passes from the parking handler to the matching one.\<close>

definition handoff :: "nat \<Rightarrow> nat \<Rightarrow> nat \<Rightarrow> 'cert relay \<Rightarrow> 'cert relay" where
  "handoff i l c s = goto_pc c (ConnWrite i l) (goto_pc l Handed s)"

section \<open>The raw QUIC server\<close>

text \<open>What the primary stream brings: no stream, a failed read, or the bytes of the greeting.\<close>

datatype primary = NoStream | ReadFailed | Message_read bytes

definition refused_register :: "'cert Auth \<Rightarrow> string \<Rightarrow> string \<Rightarrow> 'cert list option \<Rightarrow> bool" where
  "refused_register auth token instanceID tls =
     (case VerifyRegister auth of
        None \<Rightarrow> False
      | Some verify \<Rightarrow> verify \<lparr>ReqToken = token, ReqInstanceID = instanceID, ReqTLS = tls\<rparr> \<noteq> None)"

definition refused_connect :: "'cert Auth \<Rightarrow> string \<Rightarrow> 'cert list option \<Rightarrow> bool" where
  "refused_connect auth instanceID tls =
     (case VerifyConnect auth of
        None \<Rightarrow> False
      | Some verify \<Rightarrow> verify \<lparr>ConInstanceID = instanceID, ConTLS = tls\<rparr> \<noteq> None)"

definition quic_handleRegister ::
  "'cert Auth \<Rightarrow> nat \<Rightarrow> 'cert peer \<Rightarrow> string \<Rightarrow> string \<Rightarrow> bytes \<Rightarrow> 'cert relay \<Rightarrow> 'cert relay" where
  "quic_handleRegister auth c conn token requestedID rnd s =
     (if refused_register auth token requestedID (certs conn)
      then goto_pc c Returned (CloseWithError c 1 ''unauthorized'' s)
      else
        let id = (if requestedID = '''' then generateID rnd else requestedID);
            (inst, s1) = newInstance id c s
        in case register inst s1 of
             Inl err \<Rightarrow> goto_pc c Returned (CloseWithError c 1 ''instance ID in use'' s1)
           | Inr s2 \<Rightarrow> goto_pc c (RegWrite inst) s2)"

definition quic_register_write :: "nat \<Rightarrow> nat \<Rightarrow> bool \<Rightarrow> 'cert relay \<Rightarrow> 'cert relay" where
  "quic_register_write c inst ok s =
     (if \<not> ok then goto_pc c (RegLeave inst) (CloseWithError c 1 ''failed to write ID'' s)
      else goto_pc c (RegWait inst)
             (WriteMessage_ok c (case heap s inst of Some x \<Rightarrow> iid x | None \<Rightarrow> '''') s))"

definition quic_handleListen ::
  "'cert Auth \<Rightarrow> nat \<Rightarrow> 'cert peer \<Rightarrow> string \<Rightarrow> string \<Rightarrow> 'cert relay \<Rightarrow> 'cert relay" where
  "quic_handleListen auth c conn token instanceID s =
     (if instanceID = '''' then goto_pc c Returned (CloseWithError c 1 ''missing instance ID'' s)
      else if refused_register auth token instanceID (certs conn)
      then goto_pc c Returned (CloseWithError c 1 ''unauthorized'' s)
      else case hub_get instanceID s of
             None \<Rightarrow> goto_pc c Returned (CloseWithError c 1 ''instance not found'' s)
           | Some inst \<Rightarrow> goto_pc c (ListenWrite inst) s)"

definition quic_listen_write :: "nat \<Rightarrow> nat \<Rightarrow> string \<Rightarrow> bool \<Rightarrow> 'cert relay \<Rightarrow> 'cert relay" where
  "quic_listen_write c inst instanceID ok s =
     (if \<not> ok then goto_pc c Returned (CloseWithError c 1 ''write ack failed'' s)
      else goto_pc c (Park inst) (WriteMessage_ok c instanceID s))"

definition quic_park_ended :: "nat \<Rightarrow> 'cert relay \<Rightarrow> 'cert relay" where
  "quic_park_ended c s = goto_pc c Returned (CloseWithError c 0 '''' s)"

definition quic_handleConnect ::
  "'cert Auth \<Rightarrow> nat \<Rightarrow> 'cert peer \<Rightarrow> string \<Rightarrow> 'cert relay \<Rightarrow> 'cert relay" where
  "quic_handleConnect auth c conn instanceID s =
     (if length instanceID = 0 \<or> length instanceID > 64
      then goto_pc c Returned (CloseWithError c 1 ''invalid instance ID'' s)
      else if refused_connect auth instanceID (certs conn)
      then goto_pc c Returned (CloseWithError c 1 ''unauthorized'' s)
      else case hub_get instanceID s of
             None \<Rightarrow> goto_pc c Returned (CloseWithError c 1 ''instance not found'' s)
           | Some inst \<Rightarrow> goto_pc c (Match inst) s)"

definition quic_match_ended :: "nat \<Rightarrow> 'cert relay \<Rightarrow> 'cert relay" where
  "quic_match_ended c s = goto_pc c Returned (CloseWithError c 1 ''no listener'' s)"

definition quic_connect_write :: "nat \<Rightarrow> nat \<Rightarrow> nat \<Rightarrow> bool \<Rightarrow> 'cert relay \<Rightarrow> 'cert relay" where
  "quic_connect_write c inst listen ok s =
     (if \<not> ok then goto_pc c Returned (Session_Close listen (CloseWithError c 1 ''write ack failed'' s))
      else goto_pc c (Bridge inst listen) (WriteMessage_ok c ''ok'' s))"

definition quic_handleConnection ::
  "'cert Auth \<Rightarrow> nat \<Rightarrow> 'cert peer \<Rightarrow> primary \<Rightarrow> bytes \<Rightarrow> 'cert relay \<Rightarrow> 'cert relay" where
  "quic_handleConnection auth c conn inp rnd s =
     (case inp of
        NoStream \<Rightarrow> goto_pc c Returned (CloseWithError c 1 ''failed to accept stream'' s)
      | ReadFailed \<Rightarrow> goto_pc c Returned (CloseWithError c 1 ''failed to read handshake'' s)
      | Message_read handshake \<Rightarrow>
          (case DecodeRelayGreeting handshake of
             Inl err \<Rightarrow> goto_pc c Returned (CloseWithError c 1 ''bad handshake'' s)
           | Inr dec \<Rightarrow>
               let s0 = set_peer c (\<lambda>r. r\<lparr>greeting := Some dec\<rparr>) s in
               (case Variant dec of
                  RelayGreetingRegister \<Rightarrow> quic_handleRegister auth c conn (Token dec) (InstanceId dec) rnd s0
                | RelayGreetingListen \<Rightarrow> quic_handleListen auth c conn (Token dec) (InstanceId dec) s0
                | RelayGreetingConnect \<Rightarrow> quic_handleConnect auth c conn (InstanceId dec) s0)))"

section \<open>The WebTransport server\<close>

definition wt_handleRegister ::
  "'cert Auth \<Rightarrow> nat \<Rightarrow> 'cert peer \<Rightarrow> string \<Rightarrow> string \<Rightarrow> bytes \<Rightarrow> 'cert relay \<Rightarrow> 'cert relay" where
  "wt_handleRegister auth c r token requestedID rnd s =
     (if refused_register auth token requestedID (certs r)
      then goto_pc c Returned (Session_Close c s)
      else
        let id = (if requestedID = '''' then generateID rnd else requestedID);
            (inst, s1) = newInstance id c s
        in case register inst s1 of
             Inl err \<Rightarrow> goto_pc c Returned (Session_Close c s1)
           | Inr s2 \<Rightarrow> goto_pc c (RegWrite inst) s2)"

definition wt_register_write :: "nat \<Rightarrow> nat \<Rightarrow> bool \<Rightarrow> 'cert relay \<Rightarrow> 'cert relay" where
  "wt_register_write c inst ok s =
     (if \<not> ok then goto_pc c (RegLeave inst) (Session_Close c s)
      else goto_pc c (RegWait inst)
             (WriteMessage_ok c (case heap s inst of Some x \<Rightarrow> iid x | None \<Rightarrow> '''') s))"

definition wt_handleListen ::
  "'cert Auth \<Rightarrow> nat \<Rightarrow> 'cert peer \<Rightarrow> string \<Rightarrow> string \<Rightarrow> 'cert relay \<Rightarrow> 'cert relay" where
  "wt_handleListen auth c r token instanceID s =
     (if instanceID = '''' then goto_pc c Returned (Session_Close c s)
      else if refused_register auth token instanceID (certs r)
      then goto_pc c Returned (Session_Close c s)
      else case hub_get instanceID s of
             None \<Rightarrow> goto_pc c Returned (Session_Close c s)
           | Some inst \<Rightarrow> goto_pc c (ListenWrite inst) s)"

definition wt_listen_write :: "nat \<Rightarrow> nat \<Rightarrow> string \<Rightarrow> bool \<Rightarrow> 'cert relay \<Rightarrow> 'cert relay" where
  "wt_listen_write c inst instanceID ok s =
     (if \<not> ok then goto_pc c Returned (Session_Close c s)
      else goto_pc c (Park inst) (WriteMessage_ok c instanceID s))"

definition wt_park_ended :: "nat \<Rightarrow> 'cert relay \<Rightarrow> 'cert relay" where
  "wt_park_ended c s = goto_pc c Returned (Session_Close c s)"

definition wt_handleConnect ::
  "'cert Auth \<Rightarrow> nat \<Rightarrow> 'cert peer \<Rightarrow> string \<Rightarrow> 'cert relay \<Rightarrow> 'cert relay" where
  "wt_handleConnect auth c r instanceID s =
     (if instanceID = '''' then goto_pc c Returned (Session_Close c s)
      else if refused_connect auth instanceID (certs r)
      then goto_pc c Returned (Session_Close c s)
      else case hub_get instanceID s of
             None \<Rightarrow> goto_pc c Returned (Session_Close c s)
           | Some inst \<Rightarrow> goto_pc c (Match inst) s)"

definition wt_match_ended :: "nat \<Rightarrow> 'cert relay \<Rightarrow> 'cert relay" where
  "wt_match_ended c s = goto_pc c Returned (Session_Close c s)"

definition wt_connect_write :: "nat \<Rightarrow> nat \<Rightarrow> nat \<Rightarrow> bool \<Rightarrow> 'cert relay \<Rightarrow> 'cert relay" where
  "wt_connect_write c inst listen ok s =
     (if \<not> ok then goto_pc c Returned (Session_Close listen (Session_Close c s))
      else goto_pc c (Bridge inst listen) (WriteMessage_ok c ''ok'' s))"

text \<open>The credential of a register or listen greeting is the greeting's token or else the request's.\<close>

definition wt_handlePigeon ::
  "'cert Auth \<Rightarrow> nat \<Rightarrow> 'cert peer \<Rightarrow> primary \<Rightarrow> bytes \<Rightarrow> 'cert relay \<Rightarrow> 'cert relay" where
  "wt_handlePigeon auth c r inp rnd s =
     (case inp of
        NoStream \<Rightarrow> goto_pc c Returned (CloseWithError c 0 ''failed to accept stream'' s)
      | ReadFailed \<Rightarrow> goto_pc c Returned (CloseWithError c 0 ''failed to read handshake'' s)
      | Message_read handshake \<Rightarrow>
          (case DecodeRelayGreeting handshake of
             Inl err \<Rightarrow> goto_pc c Returned (CloseWithError c 0 ''bad handshake'' s)
           | Inr dec \<Rightarrow>
               let token = (if Token dec = '''' then bearerToken (authorization r) (query_token r) else Token dec);
                   s0 = set_peer c (\<lambda>r. r\<lparr>greeting := Some (dec\<lparr>Token := token\<rparr>)\<rparr>) s in
               (case Variant dec of
                  RelayGreetingRegister \<Rightarrow> wt_handleRegister auth c r token (InstanceId dec) rnd s0
                | RelayGreetingListen \<Rightarrow> wt_handleListen auth c r token (InstanceId dec) s0
                | RelayGreetingConnect \<Rightarrow> wt_handleConnect auth c r (InstanceId dec) s0)))"

section \<open>Steps\<close>

text \<open>
  The end of \<open>bridge\<close>: whatever ended it, both sessions are closed. It runs in the client's handler.
\<close>

definition bridge_end :: "nat \<Rightarrow> nat \<Rightarrow> 'cert relay \<Rightarrow> 'cert relay" where
  "bridge_end c backend s = goto_pc c Returned (Session_Close backend (Session_Close c s))"

definition new_peer :: "server_kind \<Rightarrow> 'cert list option \<Rightarrow> string \<Rightarrow> string \<Rightarrow> 'cert peer" where
  "new_peer k tls authz query = \<lparr>server = k, certs = tls, authorization = authz, query_token = query, greeting = None,
     written = [], closed = None, ended = False, pc = Accepted\<rparr>"

inductive relay_step :: "'cert Auth \<Rightarrow> 'cert relay \<Rightarrow> 'cert relay \<Rightarrow> bool" for auth where
  accept: "peers s c = None \<Longrightarrow> relay_step auth s (s\<lparr>peers := (peers s)(c \<mapsto> new_peer k tls authz query)\<rparr>)"
| greet_quic: "peers s c = Some r \<Longrightarrow> pc r = Accepted \<Longrightarrow> server r = RawQUIC \<Longrightarrow>
    relay_step auth s (quic_handleConnection auth c r inp rnd s)"
| greet_wt: "peers s c = Some r \<Longrightarrow> pc r = Accepted \<Longrightarrow> server r = WebTransport \<Longrightarrow>
    relay_step auth s (wt_handlePigeon auth c r inp rnd s)"
| register_write: "peers s c = Some r \<Longrightarrow> pc r = RegWrite i \<Longrightarrow>
    relay_step auth s ((if server r = RawQUIC then quic_register_write else wt_register_write) c i ok s)"
| register_end: "peers s c = Some r \<Longrightarrow> pc r = RegWait i \<Longrightarrow> ended r \<Longrightarrow> relay_step auth s (goto_pc c (RegLeave i) s)"
| register_leave: "peers s c = Some r \<Longrightarrow> pc r = RegLeave i \<Longrightarrow> relay_step auth s (goto_pc c Returned (unregister i s))"
| listen_write: "peers s c = Some r \<Longrightarrow> pc r = ListenWrite i \<Longrightarrow> greeting r = Some g \<Longrightarrow>
    relay_step auth s ((if server r = RawQUIC then quic_listen_write else wt_listen_write) c i (InstanceId g) ok s)"
| rendezvous: "peers s l = Some rl \<Longrightarrow> pc rl = Park i \<Longrightarrow> peers s c = Some rc \<Longrightarrow> pc rc = Match i \<Longrightarrow>
    relay_step auth s (handoff i l c s)"
| park_ended: "peers s c = Some r \<Longrightarrow> pc r = Park i \<Longrightarrow> parkListen i c s \<noteq> [] \<Longrightarrow>
    relay_step auth s ((if server r = RawQUIC then quic_park_ended else wt_park_ended) c s)"
| match_ended: "peers s c = Some r \<Longrightarrow> pc r = Match i \<Longrightarrow> matchListen i c s \<noteq> [] \<Longrightarrow>
    relay_step auth s ((if server r = RawQUIC then quic_match_ended else wt_match_ended) c s)"
| connect_write: "peers s c = Some r \<Longrightarrow> pc r = ConnWrite i l \<Longrightarrow>
    relay_step auth s ((if server r = RawQUIC then quic_connect_write else wt_connect_write) c i l ok s)"
| bridged_end: "peers s c = Some r \<Longrightarrow> pc r = Bridge i l \<Longrightarrow> relay_step auth s (bridge_end c l s)"
| disconnect: "peers s c = Some r \<Longrightarrow> relay_step auth s (set_peer c (\<lambda>r. r\<lparr>ended := True\<rparr>) s)"

section \<open>The invariant\<close>

text \<open>\<open>owns_inst p i\<close>: a handler at \<open>p\<close> runs the life of instance \<open>i\<close>; \<open>holds_listen p l\<close>: it owns the listen session \<open>l\<close>.\<close>

fun owns_inst :: "handler \<Rightarrow> nat \<Rightarrow> bool" where
  "owns_inst (RegWrite i) j \<longleftrightarrow> i = j" |
  "owns_inst (RegWait i) j \<longleftrightarrow> i = j" |
  "owns_inst (RegLeave i) j \<longleftrightarrow> i = j" |
  "owns_inst _ j \<longleftrightarrow> False"

fun holds_listen :: "handler \<Rightarrow> nat \<Rightarrow> bool" where
  "holds_listen (ConnWrite i l) k \<longleftrightarrow> l = k" |
  "holds_listen (Bridge i l) k \<longleftrightarrow> l = k" |
  "holds_listen _ k \<longleftrightarrow> False"

text \<open>The peer greeted as \<open>v\<close> and was admitted by the verifier of that kind.\<close>

definition admitted :: "'cert Auth \<Rightarrow> RelayGreetingVariant \<Rightarrow> 'cert peer \<Rightarrow> bool" where
  "admitted auth v r \<longleftrightarrow>
     (case greeting r of
        None \<Rightarrow> False
      | Some g \<Rightarrow> Variant g = v \<and>
          (if v = RelayGreetingConnect then \<not> refused_connect auth (InstanceId g) (certs r)
           else \<not> refused_register auth (Token g) (InstanceId g) (certs r)))"

definition asks_for :: "'cert relay \<Rightarrow> 'cert peer \<Rightarrow> nat \<Rightarrow> bool" where
  "asks_for s r i \<longleftrightarrow> (case (heap s i, greeting r) of (Some inst, Some g) \<Rightarrow> InstanceId g = iid inst | _ \<Rightarrow> False)"

definition handed_for :: "'cert Auth \<Rightarrow> 'cert relay \<Rightarrow> nat \<Rightarrow> nat \<Rightarrow> bool" where
  "handed_for auth s l i \<longleftrightarrow>
     (case peers s l of None \<Rightarrow> False | Some r \<Rightarrow> pc r = Handed \<and> admitted auth RelayGreetingListen r \<and> asks_for s r i)"

fun peer_ok :: "'cert Auth \<Rightarrow> 'cert relay \<Rightarrow> 'cert peer \<Rightarrow> handler \<Rightarrow> bool" where
  "peer_ok auth s r (ListenWrite i) \<longleftrightarrow> admitted auth RelayGreetingListen r \<and> asks_for s r i" |
  "peer_ok auth s r (Park i) \<longleftrightarrow> admitted auth RelayGreetingListen r \<and> asks_for s r i" |
  "peer_ok auth s r Handed \<longleftrightarrow> admitted auth RelayGreetingListen r" |
  "peer_ok auth s r (Match i) \<longleftrightarrow> admitted auth RelayGreetingConnect r \<and> asks_for s r i" |
  "peer_ok auth s r (ConnWrite i l) \<longleftrightarrow> admitted auth RelayGreetingConnect r \<and> asks_for s r i \<and> handed_for auth s l i" |
  "peer_ok auth s r (Bridge i l) \<longleftrightarrow> admitted auth RelayGreetingConnect r \<and> asks_for s r i \<and> handed_for auth s l i" |
  "peer_ok auth s r Accepted \<longleftrightarrow> True" |
  "peer_ok auth s r Returned \<longleftrightarrow> True" |
  "peer_ok auth s r (RegWrite i) \<longleftrightarrow> admitted auth RelayGreetingRegister r" |
  "peer_ok auth s r (RegWait i) \<longleftrightarrow> admitted auth RelayGreetingRegister r" |
  "peer_ok auth s r (RegLeave i) \<longleftrightarrow> admitted auth RelayGreetingRegister r"

definition slots_ok :: "'cert relay \<Rightarrow> bool" where
  "slots_ok s \<longleftrightarrow>
     (\<forall>x i. instances s x = Some i \<longrightarrow>
        (\<exists>inst r. heap s i = Some inst \<and> iid inst = x \<and> \<not> cancelled inst \<and> peers s (control inst) = Some r \<and> owns_inst (pc r) i))"

definition owners_ok :: "'cert relay \<Rightarrow> bool" where
  "owners_ok s \<longleftrightarrow> (\<forall>c r i. peers s c = Some r \<longrightarrow> owns_inst (pc r) i \<longrightarrow> (\<exists>inst. heap s i = Some inst \<and> control inst = c))"

definition peers_ok :: "'cert Auth \<Rightarrow> 'cert relay \<Rightarrow> bool" where
  "peers_ok auth s \<longleftrightarrow> (\<forall>c r. peers s c = Some r \<longrightarrow> peer_ok auth s r (pc r))"

definition listens_ok :: "'cert relay \<Rightarrow> bool" where
  "listens_ok s \<longleftrightarrow> (\<forall>c c' r r' l. peers s c = Some r \<longrightarrow> peers s c' = Some r' \<longrightarrow>
     holds_listen (pc r) l \<longrightarrow> holds_listen (pc r') l \<longrightarrow> c = c')"

definition fresh_ok :: "'cert relay \<Rightarrow> bool" where
  "fresh_ok s \<longleftrightarrow> (\<forall>i inst. heap s i = Some inst \<longrightarrow> i < fresh s)"

definition relay_inv :: "'cert Auth \<Rightarrow> 'cert relay \<Rightarrow> bool" where
  "relay_inv auth s \<longleftrightarrow> fresh_ok s \<and> slots_ok s \<and> owners_ok s \<and> peers_ok auth s \<and> listens_ok s"

lemma asks_for_state [simp]:
  "asks_for (s\<lparr>peers := p\<rparr>) r i = asks_for s r i" "asks_for (s\<lparr>instances := m\<rparr>) r i = asks_for s r i"
  by (simp_all add: asks_for_def)

lemma peer_ok_mono:
  assumes "\<And>i. asks_for s r i \<Longrightarrow> asks_for s' r i" and "\<And>l i. handed_for auth s l i \<Longrightarrow> handed_for auth s' l i"
    and "peer_ok auth s r p"
  shows "peer_ok auth s' r p"
  using assms by (cases p) auto

text \<open>
  A step of one handler that neither enters nor leaves the life of an instance, takes no listen
  session and leaves a session that was handed over alone keeps the invariant.
\<close>

lemma relay_inv_peer:
  assumes inv: "relay_inv auth s" and c: "peers s c = Some r"
    and "peer_ok auth s r' (pc r')" and own: "\<And>i. owns_inst (pc r') i \<longleftrightarrow> owns_inst (pc r) i"
    and hold: "\<And>l. holds_listen (pc r') l \<Longrightarrow> holds_listen (pc r) l"
    and hand: "pc r = Handed \<Longrightarrow> pc r' = Handed \<and> greeting r' = greeting r \<and> certs r' = certs r"
  shows "relay_inv auth (s\<lparr>peers := (peers s)(c \<mapsto> r')\<rparr>)"
proof -
  let ?s = "s\<lparr>peers := (peers s)(c \<mapsto> r')\<rparr>"
  have adm: "pc r = Handed \<Longrightarrow> admitted auth v r' = admitted auth v r \<and> asks_for s r' i = asks_for s r i" for v i
    using hand by (simp add: admitted_def asks_for_def cong: option.case_cong)
  have hf: "handed_for auth s l i \<Longrightarrow> handed_for auth ?s l i" for l i
    using hand adm c by (auto simp: handed_for_def split: option.splits if_splits)
  have pk: "peer_ok auth s x p \<Longrightarrow> peer_ok auth ?s x p" for x p by (erule peer_ok_mono [rotated 2]) (simp_all add: hf)
  have "slots_ok ?s"
    using inv c own unfolding relay_inv_def slots_ok_def by (fastforce split: if_splits)
  moreover have "owners_ok ?s"
    using inv c own unfolding relay_inv_def owners_ok_def by (auto split: if_splits)
  moreover have "peers_ok auth ?s"
    using inv c assms(3) pk unfolding relay_inv_def peers_ok_def by (auto split: if_splits)
  moreover have "listens_ok ?s"
    using inv c hold unfolding relay_inv_def listens_ok_def by (simp split: if_splits; blast)
  ultimately show ?thesis using inv by (simp add: relay_inv_def fresh_ok_def)
qed

lemma set_peer_Some: "peers s c = Some r \<Longrightarrow> set_peer c f s = s\<lparr>peers := (peers s)(c \<mapsto> f r)\<rparr>"
  by (simp add: set_peer_def)

text \<open>What a handler does to its own connection, as an update of that connection.\<close>

lemma peer_updates:
  assumes "peers s c = Some r"
  shows "goto_pc c p s = s\<lparr>peers := (peers s)(c \<mapsto> r\<lparr>pc := p\<rparr>)\<rparr>"
    and "CloseWithError c n m s = s\<lparr>peers := (peers s)(c \<mapsto> r\<lparr>closed :=
      (case closed r of None \<Rightarrow> Some (n, m) | Some x \<Rightarrow> Some x), ended := True\<rparr>)\<rparr>"
    and "WriteMessage_ok c msg s = s\<lparr>peers := (peers s)(c \<mapsto> r\<lparr>written := written r @ [msg]\<rparr>)\<rparr>"
  using assms by (simp_all add: goto_pc_def CloseWithError_def WriteMessage_ok_def set_peer_Some)

lemma goto_close:
  assumes "peers s c = Some r"
  shows "goto_pc c p (CloseWithError c n m s) = s\<lparr>peers := (peers s)(c \<mapsto> r\<lparr>closed :=
      (case closed r of None \<Rightarrow> Some (n, m) | Some x \<Rightarrow> Some x), ended := True, pc := p\<rparr>)\<rparr>"
    and "goto_pc c p (WriteMessage_ok c msg s) = s\<lparr>peers := (peers s)(c \<mapsto> r\<lparr>written := written r @ [msg], pc := p\<rparr>)\<rparr>"
  using assms by (simp_all add: peer_updates)

lemma peer_ok_fields [simp]:
  "admitted auth v (r\<lparr>pc := p\<rparr>) = admitted auth v r" "admitted auth v (r\<lparr>closed := x\<rparr>) = admitted auth v r"
  "admitted auth v (r\<lparr>ended := e\<rparr>) = admitted auth v r" "admitted auth v (r\<lparr>written := w\<rparr>) = admitted auth v r"
  "asks_for s (r\<lparr>pc := p\<rparr>) i = asks_for s r i" "asks_for s (r\<lparr>closed := x\<rparr>) i = asks_for s r i"
  "asks_for s (r\<lparr>ended := e\<rparr>) i = asks_for s r i" "asks_for s (r\<lparr>written := w\<rparr>) i = asks_for s r i"
  by (simp_all add: admitted_def asks_for_def cong: option.case_cong)

lemma relay_inv_same_pc:
  assumes "relay_inv auth s" and "peers s c = Some r"
    and "pc r' = pc r" "greeting r' = greeting r" "certs r' = certs r"
  shows "relay_inv auth (s\<lparr>peers := (peers s)(c \<mapsto> r')\<rparr>)"
proof (rule relay_inv_peer [OF assms(1,2)])
  have a: "admitted auth v r' = admitted auth v r" "asks_for s r' i = asks_for s r i" for v i
    using assms(4,5) by (simp_all add: admitted_def asks_for_def cong: option.case_cong)
  have "peer_ok auth s r (pc r)" using assms(1,2) by (simp add: relay_inv_def peers_ok_def)
  then show "peer_ok auth s r' (pc r')" unfolding assms(3) by (cases "pc r") (simp_all add: a)
qed (use assms in simp_all)

lemma relay_inv_return:
  assumes "relay_inv auth s" and "peers s c = Some r" and "pc r \<noteq> Handed" and "\<And>i. \<not> owns_inst (pc r) i"
  shows "relay_inv auth (goto_pc c Returned (CloseWithError c n m s))"
  unfolding goto_close [OF assms(2)] by (rule relay_inv_peer [OF assms(1,2)]) (use assms(3,4) in simp_all)

lemma relay_inv_new:
  assumes "relay_inv auth s"
  shows "relay_inv auth (snd (newInstance x c s))"
proof -
  let ?s = "snd (newInstance x c s)"
  have f: "heap s (fresh s) = None" using assms unfolding relay_inv_def fresh_ok_def by fastforce
  have ask: "asks_for s r i \<Longrightarrow> asks_for ?s r i" for r i
    using f by (auto simp: asks_for_def newInstance_def split: option.splits if_splits)
  have hf: "handed_for auth s l i \<Longrightarrow> handed_for auth ?s l i" for l i
    using ask by (auto simp: handed_for_def newInstance_def split: option.splits)
  have "peer_ok auth s r p \<Longrightarrow> peer_ok auth ?s r p" for r p by (erule peer_ok_mono [rotated 2]) (simp_all add: ask hf)
  then have "peers_ok auth ?s" using assms unfolding relay_inv_def peers_ok_def by (auto simp: newInstance_def)
  moreover have "slots_ok ?s" using assms f unfolding relay_inv_def slots_ok_def by (fastforce simp: newInstance_def)
  moreover have "owners_ok ?s" using assms f unfolding relay_inv_def owners_ok_def by (fastforce simp: newInstance_def)
  moreover have "fresh_ok ?s" using assms unfolding relay_inv_def fresh_ok_def
    by (auto simp: newInstance_def less_Suc_eq split: if_splits)
  moreover have "listens_ok ?s" using assms unfolding relay_inv_def listens_ok_def by (simp add: newInstance_def)
  ultimately show ?thesis by (simp add: relay_inv_def)
qed

text \<open>The slot of an identifier is given to a fresh instance, whose owner enters its life.\<close>

lemma relay_inv_claim:
  assumes inv: "relay_inv auth s" and c: "peers s c = Some r" and own: "\<And>i. \<not> owns_inst (pc r) i" and "pc r \<noteq> Handed"
    and i: "heap s i = Some inst" "control inst = c" "\<not> cancelled inst" and "admitted auth RelayGreetingRegister r"
    and free: "\<And>x. instances s x \<noteq> Some i"
  shows "relay_inv auth (goto_pc c (RegWrite i) (s\<lparr>instances := (instances s)(iid inst \<mapsto> i)\<rparr>))"
proof -
  define r' where "r' = r\<lparr>pc := RegWrite i\<rparr>"
  let ?s = "s\<lparr>instances := (instances s)(iid inst \<mapsto> i), peers := (peers s)(c \<mapsto> r')\<rparr>"
  have eq: "goto_pc c (RegWrite i) (s\<lparr>instances := (instances s)(iid inst \<mapsto> i)\<rparr>) = ?s"
    using c by (simp add: goto_pc_def set_peer_def r'_def)
  have hf: "handed_for auth s l j \<Longrightarrow> handed_for auth ?s l j" for l j
    using c assms(4) by (auto simp: handed_for_def split: option.splits if_splits)
  have pk: "peer_ok auth s x p \<Longrightarrow> peer_ok auth ?s x p" for x p by (erule peer_ok_mono [rotated 2]) (simp_all add: hf)
  have "peers_ok auth ?s" using inv c assms(8) pk unfolding relay_inv_def peers_ok_def
    by (auto simp: r'_def split: if_splits)
  moreover have "slots_ok ?s" using inv c i own unfolding relay_inv_def slots_ok_def
    by (fastforce simp: r'_def split: if_splits)
  moreover have "owners_ok ?s" using inv c i unfolding relay_inv_def owners_ok_def by (auto simp: r'_def split: if_splits)
  moreover have "listens_ok ?s" using inv c unfolding relay_inv_def listens_ok_def
    by (simp add: r'_def split: if_splits; blast)
  ultimately show ?thesis using inv unfolding eq by (simp add: relay_inv_def fresh_ok_def)
qed

lemma relay_inv_leave:
  assumes inv: "relay_inv auth s" and c: "peers s c = Some r" and p: "pc r = RegLeave i"
  shows "relay_inv auth (goto_pc c Returned (unregister i s))"
proof -
  obtain inst where i: "heap s i = Some inst" "control inst = c"
    using inv c p unfolding relay_inv_def owners_ok_def by fastforce
  define s1 where "s1 = unregister i s"
  have h: "heap s1 j = (if j = i \<and> instances s (iid inst) = Some i then Some (inst\<lparr>cancelled := True\<rparr>) else heap s j)"
    and m: "instances s1 x = (if x = iid inst \<and> instances s x = Some i then None else instances s x)"
    and e: "peers s1 = peers s" "fresh s1 = fresh s" for j x
    using i by (auto simp: s1_def unregister_def)
  let ?s = "s1\<lparr>peers := (peers s1)(c \<mapsto> r\<lparr>pc := Returned\<rparr>)\<rparr>"
  have ask: "asks_for s1 x j = asks_for s x j" for x j
    using i by (auto simp: asks_for_def h split: option.splits)
  have hf: "handed_for auth s l j \<Longrightarrow> handed_for auth ?s l j" for l j
    using c p by (auto simp: handed_for_def ask e split: option.splits if_splits)
  have pk: "peer_ok auth s x q \<Longrightarrow> peer_ok auth ?s x q" for x q by (erule peer_ok_mono [rotated 2]) (simp_all add: ask hf)
  have "peers_ok auth ?s" using inv c pk unfolding relay_inv_def peers_ok_def by (auto simp: e split: if_splits)
  moreover have "slots_ok ?s"
    unfolding slots_ok_def
  proof (intro allI impI)
    fix x j assume "instances ?s x = Some j"
    then have x: "instances s x = Some j" "\<not> (x = iid inst \<and> j = i)" by (auto simp: m split: if_splits)
    then obtain inst' r' where a: "heap s j = Some inst'" "iid inst' = x" "\<not> cancelled inst'" "peers s (control inst') = Some r'"
        "owns_inst (pc r') j" using inv unfolding relay_inv_def slots_ok_def by blast
    have j: "j \<noteq> i" using x(2) a(1,2) i(1) by auto
    then have "control inst' \<noteq> c" using a(4,5) c p by auto
    then show "\<exists>inst r. heap ?s j = Some inst \<and> iid inst = x \<and> \<not> cancelled inst \<and> peers ?s (control inst) = Some r \<and> owns_inst (pc r) j"
      using a j by (simp add: h e)
  qed
  moreover have "owners_ok ?s"
    unfolding owners_ok_def
  proof (intro allI impI)
    fix c' r' j assume "peers ?s c' = Some r'" and "owns_inst (pc r') j"
    then have "\<exists>inst. heap s j = Some inst \<and> control inst = c'"
      using inv unfolding relay_inv_def owners_ok_def by (auto simp: e split: if_splits)
    then show "\<exists>inst. heap ?s j = Some inst \<and> control inst = c'" using i by (auto simp: h)
  qed
  moreover have "listens_ok ?s" using inv c unfolding relay_inv_def listens_ok_def by (simp add: e split: if_splits; blast)
  moreover have "fresh_ok ?s" using inv i unfolding relay_inv_def fresh_ok_def by (auto simp: h e split: if_splits)
  ultimately show ?thesis using c by (simp add: relay_inv_def goto_pc_def set_peer_def e s1_def [symmetric])
qed

lemma relay_inv_handoff:
  assumes inv: "relay_inv auth s" and l: "peers s l = Some rl" "pc rl = Park i" and c: "peers s c = Some rc" "pc rc = Match i"
  shows "relay_inv auth (handoff i l c s)"
proof -
  have lc: "l \<noteq> c" using l c by auto
  have al: "admitted auth RelayGreetingListen rl" "asks_for s rl i" and ac: "admitted auth RelayGreetingConnect rc" "asks_for s rc i"
    using inv l c unfolding relay_inv_def peers_ok_def by fastforce+
  define s1 where "s1 = s\<lparr>peers := (peers s)(l \<mapsto> rl\<lparr>pc := Handed\<rparr>)\<rparr>"
  have i1: "relay_inv auth s1" unfolding s1_def by (rule relay_inv_peer [OF inv l(1)]) (use l(2) al in simp_all)
  have nh: "\<not> holds_listen (pc r) l" if "peers s c' = Some r" for c' r
    using inv that l unfolding relay_inv_def peers_ok_def
    by (cases "pc r") (fastforce simp: handed_for_def)+
  have eq: "handoff i l c s = s1\<lparr>peers := (peers s1)(c \<mapsto> rc\<lparr>pc := ConnWrite i l\<rparr>)\<rparr>" (is "_ = ?s")
    using l c lc by (simp add: handoff_def goto_pc_def set_peer_def s1_def)
  have ask: "asks_for s1 x j = asks_for s x j" for x j by (simp add: s1_def)
  have hf: "handed_for auth s1 k j \<Longrightarrow> handed_for auth ?s k j" for k j
    using c lc by (auto simp: handed_for_def ask s1_def split: option.splits if_splits)
  have hl: "handed_for auth ?s l i" using al lc by (simp add: handed_for_def ask s1_def)
  have pk: "peer_ok auth s1 x q \<Longrightarrow> peer_ok auth ?s x q" for x q by (erule peer_ok_mono [rotated 2]) (simp_all add: ask hf)
  have "peers_ok auth ?s" using i1 ac hl pk unfolding relay_inv_def peers_ok_def by (auto simp: ask split: if_splits)
  moreover have "slots_ok ?s" using i1 c lc unfolding relay_inv_def slots_ok_def by (fastforce simp: s1_def)
  moreover have "owners_ok ?s" using i1 unfolding relay_inv_def owners_ok_def by (auto simp: s1_def split: if_splits)
  moreover have "listens_ok ?s" using inv nh lc unfolding relay_inv_def listens_ok_def
    by (auto simp: s1_def split: if_splits)
  ultimately show ?thesis using i1 unfolding eq by (simp add: relay_inv_def fresh_ok_def)
qed

section \<open>Both servers run the same protocol\<close>

text \<open>
  The handlers of the two servers differ in what they tell a peer they refuse, and in which
  identifiers a client may ask for; the handlers below have these as arguments.
\<close>

definition refuse :: "(string \<Rightarrow> nat \<times> string) \<Rightarrow> nat \<Rightarrow> string \<Rightarrow> 'cert relay \<Rightarrow> 'cert relay" where
  "refuse how c reason s = goto_pc c Returned (CloseWithError c (fst (how reason)) (snd (how reason)) s)"

definition quic_how :: "string \<Rightarrow> nat \<times> string" where "quic_how reason = (1, reason)"
definition wt_how :: "string \<Rightarrow> nat \<times> string" where "wt_how reason = (0, '''')"

definition any_handleRegister ::
  "(string \<Rightarrow> nat \<times> string) \<Rightarrow> 'cert Auth \<Rightarrow> nat \<Rightarrow> 'cert peer \<Rightarrow> string \<Rightarrow> string \<Rightarrow> bytes \<Rightarrow> 'cert relay \<Rightarrow> 'cert relay" where
  "any_handleRegister how auth c r token requestedID rnd s =
     (if refused_register auth token requestedID (certs r) then refuse how c ''unauthorized'' s
      else
        let x = (if requestedID = '''' then generateID rnd else requestedID); s1 = snd (newInstance x c s) in
        case register (fresh s) s1 of
          Inl err \<Rightarrow> refuse how c ''instance ID in use'' s1
        | Inr s2 \<Rightarrow> goto_pc c (RegWrite (fresh s)) s2)"

definition any_handleListen ::
  "(string \<Rightarrow> nat \<times> string) \<Rightarrow> 'cert Auth \<Rightarrow> nat \<Rightarrow> 'cert peer \<Rightarrow> string \<Rightarrow> string \<Rightarrow> 'cert relay \<Rightarrow> 'cert relay" where
  "any_handleListen how auth c r token instanceID s =
     (if instanceID = '''' then refuse how c ''missing instance ID'' s
      else if refused_register auth token instanceID (certs r) then refuse how c ''unauthorized'' s
      else case hub_get instanceID s of
             None \<Rightarrow> refuse how c ''instance not found'' s
           | Some inst \<Rightarrow> goto_pc c (ListenWrite inst) s)"

definition any_handleConnect ::
  "(string \<Rightarrow> nat \<times> string) \<Rightarrow> (string \<Rightarrow> bool) \<Rightarrow> 'cert Auth \<Rightarrow> nat \<Rightarrow> 'cert peer \<Rightarrow> string \<Rightarrow> 'cert relay \<Rightarrow> 'cert relay" where
  "any_handleConnect how valid auth c r instanceID s =
     (if \<not> valid instanceID then refuse how c ''invalid instance ID'' s
      else if refused_connect auth instanceID (certs r) then refuse how c ''unauthorized'' s
      else case hub_get instanceID s of
             None \<Rightarrow> refuse how c ''instance not found'' s
           | Some inst \<Rightarrow> goto_pc c (Match inst) s)"

definition quic_valid :: "string \<Rightarrow> bool" where "quic_valid x \<longleftrightarrow> x \<noteq> '''' \<and> length x \<le> 64"
definition wt_valid :: "string \<Rightarrow> bool" where "wt_valid x \<longleftrightarrow> x \<noteq> ''''"

lemma servers_same_protocol:
  "quic_handleRegister auth c r token x rnd s = any_handleRegister quic_how auth c r token x rnd s"
  "wt_handleRegister auth c r token x rnd s = any_handleRegister wt_how auth c r token x rnd s"
  "quic_handleListen auth c r token x s = any_handleListen quic_how auth c r token x s"
  "wt_handleListen auth c r token x s = any_handleListen wt_how auth c r token x s"
  "quic_handleConnect auth c r x s = any_handleConnect quic_how quic_valid auth c r x s"
  "wt_handleConnect auth c r x s = any_handleConnect wt_how wt_valid auth c r x s"
  by (simp_all add: quic_handleRegister_def wt_handleRegister_def any_handleRegister_def quic_handleListen_def wt_handleListen_def
        any_handleListen_def quic_handleConnect_def wt_handleConnect_def any_handleConnect_def quic_how_def wt_how_def refuse_def
        quic_valid_def wt_valid_def Session_Close_def newInstance_def Let_def not_le split: sum.splits option.splits)

section \<open>The invariant holds\<close>

lemma relay_inv_refuse:
  assumes "relay_inv auth s" and "peers s c = Some r" and "pc r = Accepted"
  shows "relay_inv auth (refuse how c reason s)"
  unfolding refuse_def by (rule relay_inv_return [OF assms(1,2)]) (simp_all add: assms(3))

lemma hub_get_asks:
  assumes "relay_inv auth s" and "hub_get x s = Some i" and "greeting r = Some g" and "InstanceId g = x"
  shows "asks_for s r i"
  using assms unfolding relay_inv_def slots_ok_def hub_get_def asks_for_def by fastforce

lemma any_handleRegister_inv:
  assumes inv: "relay_inv auth s" and c: "peers s c = Some r" "pc r = Accepted"
    and g: "greeting r = Some g" "Variant g = RelayGreetingRegister" and "certs r0 = certs r"
  shows "relay_inv auth (any_handleRegister how auth c r0 (Token g) (InstanceId g) rnd s)"
proof -
  define x where "x = (if InstanceId g = '''' then generateID rnd else InstanceId g)"
  define s1 where "s1 = snd (newInstance x c s)"
  have i1: "relay_inv auth s1" unfolding s1_def by (rule relay_inv_new [OF inv])
  have c1: "peers s1 c = Some r" and h: "heap s1 (fresh s) = Some \<lparr>iid = x, control = c, cancelled = False\<rparr>"
    and n: "instances s1 = instances s" using c by (simp_all add: s1_def newInstance_def)
  have free: "instances s1 y \<noteq> Some (fresh s)" for y
    using inv unfolding n relay_inv_def slots_ok_def fresh_ok_def by fastforce
  show ?thesis
  proof (cases "refused_register auth (Token g) (InstanceId g) (certs r)")
    case True
    then show ?thesis using relay_inv_refuse [OF inv c] assms(6) by (simp add: any_handleRegister_def)
  next
    case False
    then have adm: "admitted auth RelayGreetingRegister r" using g by (simp add: admitted_def)
    show ?thesis
    proof (cases "register (fresh s) s1")
      case (Inl err)
      then show ?thesis using relay_inv_refuse [OF i1 c1 c(2)] False assms(6)
        by (simp add: any_handleRegister_def x_def [symmetric] s1_def [symmetric])
    next
      case (Inr s2)
      then have s2: "s2 = s1\<lparr>instances := (instances s1)(x \<mapsto> fresh s)\<rparr>" by (auto simp: register_def h split: if_splits)
      have "relay_inv auth (goto_pc c (RegWrite (fresh s)) s2)"
        using relay_inv_claim [OF i1 c1 _ _ h _ _ adm free] c(2) unfolding s2 by simp
      then show ?thesis using Inr False assms(6) by (simp add: any_handleRegister_def x_def [symmetric] s1_def [symmetric])
    qed
  qed
qed

lemma any_handleListen_inv:
  assumes inv: "relay_inv auth s" and c: "peers s c = Some r" "pc r = Accepted"
    and g: "greeting r = Some g" "Variant g = RelayGreetingListen" and "certs r0 = certs r"
  shows "relay_inv auth (any_handleListen how auth c r0 (Token g) (InstanceId g) s)"
proof -
  note rf = relay_inv_refuse [OF inv c]
  have "relay_inv auth (goto_pc c (ListenWrite i) s)"
    if "\<not> refused_register auth (Token g) (InstanceId g) (certs r)" "hub_get (InstanceId g) s = Some i" for i
    unfolding peer_updates(1) [OF c(1)]
    by (rule relay_inv_peer [OF inv c(1)])
       (use that c(2) hub_get_asks [OF inv that(2) g(1) refl] g in \<open>simp_all add: admitted_def\<close>)
  then show ?thesis using rf assms(6) by (auto simp: any_handleListen_def split: option.splits)
qed

lemma any_handleConnect_inv:
  assumes inv: "relay_inv auth s" and c: "peers s c = Some r" "pc r = Accepted"
    and g: "greeting r = Some g" "Variant g = RelayGreetingConnect" and "certs r0 = certs r"
  shows "relay_inv auth (any_handleConnect how valid auth c r0 (InstanceId g) s)"
proof -
  note rf = relay_inv_refuse [OF inv c]
  have "relay_inv auth (goto_pc c (Match i) s)"
    if "\<not> refused_connect auth (InstanceId g) (certs r)" "hub_get (InstanceId g) s = Some i" for i
    unfolding peer_updates(1) [OF c(1)]
    by (rule relay_inv_peer [OF inv c(1)])
       (use that c(2) hub_get_asks [OF inv that(2) g(1) refl] g in \<open>simp_all add: admitted_def\<close>)
  then show ?thesis using rf assms(6) by (auto simp: any_handleConnect_def split: option.splits)
qed

lemma relay_inv_greeting:
  assumes "relay_inv auth s" and "peers s c = Some r" and "pc r = Accepted"
  shows "relay_inv auth (set_peer c (\<lambda>r. r\<lparr>greeting := g\<rparr>) s)"
  unfolding set_peer_Some [OF assms(2)] by (rule relay_inv_peer [OF assms(1,2)]) (simp_all add: assms(3))

lemma quic_handleConnection_inv:
  assumes inv: "relay_inv auth s" and c: "peers s c = Some r" "pc r = Accepted"
  shows "relay_inv auth (quic_handleConnection auth c r inp rnd s)"
proof -
  have close: "relay_inv auth (goto_pc c Returned (CloseWithError c n m s))" for n m
    by (rule relay_inv_return [OF inv c(1)]) (simp_all add: c(2))
  have "relay_inv auth (case Variant dec of
      RelayGreetingRegister \<Rightarrow> quic_handleRegister auth c r (Token dec) (InstanceId dec) rnd (set_peer c (\<lambda>r. r\<lparr>greeting := Some dec\<rparr>) s)
    | RelayGreetingListen \<Rightarrow> quic_handleListen auth c r (Token dec) (InstanceId dec) (set_peer c (\<lambda>r. r\<lparr>greeting := Some dec\<rparr>) s)
    | RelayGreetingConnect \<Rightarrow> quic_handleConnect auth c r (InstanceId dec) (set_peer c (\<lambda>r. r\<lparr>greeting := Some dec\<rparr>) s))" for dec
  proof -
    define r1 where "r1 = r\<lparr>greeting := Some dec\<rparr>"
    have r1: "peers (set_peer c (\<lambda>r. r\<lparr>greeting := Some dec\<rparr>) s) c = Some r1" "pc r1 = Accepted" "greeting r1 = Some dec"
      "certs r = certs r1" using c by (simp_all add: set_peer_def r1_def)
    note i = relay_inv_greeting [OF inv c, of "Some dec"]
    show ?thesis
      by (cases "Variant dec") (simp_all add: servers_same_protocol any_handleRegister_inv [OF i r1(1-3) _ r1(4)]
        any_handleListen_inv [OF i r1(1-3) _ r1(4)] any_handleConnect_inv [OF i r1(1-3) _ r1(4)])
  qed
  then show ?thesis using close by (simp add: quic_handleConnection_def Let_def split: primary.splits sum.splits)
qed

lemma wt_handlePigeon_inv:
  assumes inv: "relay_inv auth s" and c: "peers s c = Some r" "pc r = Accepted"
  shows "relay_inv auth (wt_handlePigeon auth c r inp rnd s)"
proof -
  have close: "relay_inv auth (goto_pc c Returned (CloseWithError c n m s))" for n m
    by (rule relay_inv_return [OF inv c(1)]) (simp_all add: c(2))
  have "relay_inv auth (case Variant dec of
      RelayGreetingRegister \<Rightarrow> wt_handleRegister auth c r t (InstanceId dec) rnd (set_peer c (\<lambda>r. r\<lparr>greeting := Some (dec\<lparr>Token := t\<rparr>)\<rparr>) s)
    | RelayGreetingListen \<Rightarrow> wt_handleListen auth c r t (InstanceId dec) (set_peer c (\<lambda>r. r\<lparr>greeting := Some (dec\<lparr>Token := t\<rparr>)\<rparr>) s)
    | RelayGreetingConnect \<Rightarrow> wt_handleConnect auth c r (InstanceId dec) (set_peer c (\<lambda>r. r\<lparr>greeting := Some (dec\<lparr>Token := t\<rparr>)\<rparr>) s))"
    for dec t
  proof -
    define g where "g = dec\<lparr>Token := t\<rparr>"
    define r1 where "r1 = r\<lparr>greeting := Some g\<rparr>"
    have r1: "peers (set_peer c (\<lambda>r. r\<lparr>greeting := Some g\<rparr>) s) c = Some r1" "pc r1 = Accepted" "greeting r1 = Some g"
      "certs r = certs r1" using c by (simp_all add: set_peer_def r1_def)
    have g: "Variant dec = Variant g" "t = Token g" "InstanceId dec = InstanceId g" by (simp_all add: g_def)
    note i = relay_inv_greeting [OF inv c, of "Some g"]
    show ?thesis unfolding g_def [symmetric] unfolding g
      by (cases "Variant g") (simp_all add: servers_same_protocol any_handleRegister_inv [OF i r1(1-3) _ r1(4)]
        any_handleListen_inv [OF i r1(1-3) _ r1(4)] any_handleConnect_inv [OF i r1(1-3) _ r1(4)])
  qed
  then show ?thesis using close by (simp add: wt_handlePigeon_def Let_def split: primary.splits sum.splits)
qed

lemma relay_inv_close:
  assumes "relay_inv auth s"
  shows "relay_inv auth (Session_Close c s)"
proof (cases "peers s c")
  case None
  then have "Session_Close c s = s" by (simp add: Session_Close_def CloseWithError_def set_peer_def fun_upd_idem)
  then show ?thesis using assms by simp
next
  case (Some r)
  show ?thesis unfolding Session_Close_def peer_updates(2) [OF Some]
    by (rule relay_inv_same_pc [OF assms Some]) simp_all
qed

lemma peers_close: "peers s c = Some r \<Longrightarrow> \<exists>r'. peers (Session_Close l s) c = Some r' \<and> pc r' = pc r"
  by (auto simp: Session_Close_def CloseWithError_def set_peer_def)

lemma relay_inv_goto_returned:
  assumes "relay_inv auth s" and "\<exists>r. peers s c = Some r \<and> pc r = p" and "p \<noteq> Handed" and "\<And>i. \<not> owns_inst p i"
  shows "relay_inv auth (goto_pc c Returned s)"
proof -
  obtain r where c: "peers s c = Some r" "pc r = p" using assms(2) by blast
  show ?thesis unfolding peer_updates(1) [OF c(1)] by (rule relay_inv_peer [OF assms(1) c(1)]) (use assms(3,4) c(2) in simp_all)
qed

lemma relay_inv_ends:
  assumes inv: "relay_inv auth s" and c: "peers s c = Some r" and "pc r \<noteq> Handed" and "\<And>i. \<not> owns_inst (pc r) i"
  shows "relay_inv auth (goto_pc c Returned (Session_Close l (CloseWithError c n m s)))"
proof -
  have i: "relay_inv auth (CloseWithError c n m s)"
    unfolding peer_updates(2) [OF c] by (rule relay_inv_same_pc [OF inv c]) simp_all
  have "\<exists>r'. peers (CloseWithError c n m s) c = Some r' \<and> pc r' = pc r" using c by (simp add: peer_updates(2))
  then have "\<exists>r'. peers (Session_Close l (CloseWithError c n m s)) c = Some r' \<and> pc r' = pc r"
    using peers_close by metis
  from relay_inv_goto_returned [OF relay_inv_close [OF i] this assms(3,4)] show ?thesis .
qed

lemma relay_inv_accept:
  assumes inv: "relay_inv auth s" and c: "peers s c = None"
  shows "relay_inv auth (s\<lparr>peers := (peers s)(c \<mapsto> new_peer k tls authz query)\<rparr>)"
proof -
  let ?s = "s\<lparr>peers := (peers s)(c \<mapsto> new_peer k tls authz query)\<rparr>"
  have hf: "handed_for auth s l i \<Longrightarrow> handed_for auth ?s l i" for l i
    using c by (auto simp: handed_for_def split: option.splits if_splits)
  have pk: "peer_ok auth s x p \<Longrightarrow> peer_ok auth ?s x p" for x p by (erule peer_ok_mono [rotated 2]) (simp_all add: hf)
  have "peers_ok auth ?s" using inv pk unfolding relay_inv_def peers_ok_def by (auto simp: new_peer_def split: if_splits)
  moreover have "slots_ok ?s" using inv c unfolding relay_inv_def slots_ok_def by (fastforce split: if_splits)
  moreover have "owners_ok ?s" using inv unfolding relay_inv_def owners_ok_def by (auto simp: new_peer_def split: if_splits)
  moreover have "listens_ok ?s" using inv unfolding relay_inv_def listens_ok_def by (simp add: new_peer_def split: if_splits; blast)
  ultimately show ?thesis using inv by (simp add: relay_inv_def fresh_ok_def)
qed

lemma relay_inv_writes:
  assumes inv: "relay_inv auth s" and c: "peers s c = Some r"
  shows "pc r = RegWrite i \<Longrightarrow> relay_inv auth (quic_register_write c i ok s) \<and> relay_inv auth (wt_register_write c i ok s)"
    and "pc r = ListenWrite i \<Longrightarrow> relay_inv auth (quic_listen_write c i x ok s) \<and> relay_inv auth (wt_listen_write c i x ok s)"
    and "pc r = ConnWrite i l \<Longrightarrow> relay_inv auth (quic_connect_write c i l ok s) \<and> relay_inv auth (wt_connect_write c i l ok s)"
proof -
  have ok: "peer_ok auth s r (pc r)" using inv c by (simp add: relay_inv_def peers_ok_def)
  show "pc r = RegWrite i \<Longrightarrow> relay_inv auth (quic_register_write c i ok s) \<and> relay_inv auth (wt_register_write c i ok s)"
    using ok unfolding quic_register_write_def wt_register_write_def Session_Close_def goto_close [OF c]
    by (auto intro!: relay_inv_peer [OF inv c])
  show "pc r = ListenWrite i \<Longrightarrow> relay_inv auth (quic_listen_write c i x ok s) \<and> relay_inv auth (wt_listen_write c i x ok s)"
    using ok unfolding quic_listen_write_def wt_listen_write_def Session_Close_def goto_close [OF c]
    by (auto intro!: relay_inv_peer [OF inv c])
  have b: "pc r = ConnWrite i l \<Longrightarrow> relay_inv auth (goto_pc c (Bridge i l) (WriteMessage_ok c m s))" for m
    using ok unfolding goto_close [OF c] by (intro relay_inv_peer [OF inv c]) simp_all
  show "pc r = ConnWrite i l \<Longrightarrow> relay_inv auth (quic_connect_write c i l ok s) \<and> relay_inv auth (wt_connect_write c i l ok s)"
    using b relay_inv_ends [OF inv c] unfolding quic_connect_write_def wt_connect_write_def
    by (simp add: Session_Close_def [of c])
qed

lemma relay_inv_step:
  assumes "relay_inv auth s" and "relay_step auth s s'"
  shows "relay_inv auth s'"
  using assms(2,1)
proof cases
  case (register_end c r i)
  show ?thesis unfolding register_end(1) peer_updates(1) [OF register_end(2)]
    by (rule relay_inv_peer [OF assms(1) register_end(2)])
       (use register_end assms(1) in \<open>auto simp: relay_inv_def peers_ok_def dest!: spec\<close>)
next
  case (park_ended c r i)
  then show ?thesis using relay_inv_return [OF assms(1) park_ended(2)]
    by (simp add: quic_park_ended_def wt_park_ended_def Session_Close_def)
next
  case (match_ended c r i)
  then show ?thesis using relay_inv_return [OF assms(1) match_ended(2)]
    by (simp add: quic_match_ended_def wt_match_ended_def Session_Close_def)
next
  case (bridged_end c r i l)
  then show ?thesis using relay_inv_ends [OF assms(1) bridged_end(2)] by (simp add: bridge_end_def Session_Close_def [of c])
next
  case (disconnect c r)
  show ?thesis unfolding disconnect(1) set_peer_Some [OF disconnect(2)]
    by (rule relay_inv_same_pc [OF assms(1) disconnect(2)]) simp_all
next
  case (register_write c r i ok)
  then show ?thesis using relay_inv_writes(1) [OF assms(1) register_write(2,3), of ok] by simp
next
  case (listen_write c r i g ok)
  then show ?thesis using relay_inv_writes(2) [OF assms(1) listen_write(2,3), of "InstanceId g" ok] by simp
next
  case (connect_write c r i l ok)
  then show ?thesis using relay_inv_writes(3) [OF assms(1) connect_write(2,3), of ok] by simp
qed (simp_all add: relay_inv_accept quic_handleConnection_inv wt_handlePigeon_inv relay_inv_leave relay_inv_handoff)

interpretation relay: inv_system "\<lambda>s. s = newHub" "relay_step auth" "relay_inv auth" for auth
proof
  show "s = newHub \<Longrightarrow> relay_inv auth s" for s
    by (simp add: relay_inv_def newHub_def fresh_ok_def slots_ok_def owners_ok_def peers_ok_def listens_ok_def)
  show "relay_inv auth s \<Longrightarrow> relay_step auth s s' \<Longrightarrow> relay_inv auth s'" for s s' by (rule relay_inv_step)
qed

section \<open>Identifiers are not hijacked\<close>

lemma set_peer_simps [simp]:
  "instances (set_peer c f s) = instances s" "heap (set_peer c f s) = heap s" "fresh (set_peer c f s) = fresh s"
  "instances (goto_pc c p s) = instances s" "instances (CloseWithError c n m s) = instances s"
  "instances (Session_Close c s) = instances s" "instances (WriteMessage_ok c t s) = instances s"
  by (simp_all add: set_peer_def goto_pc_def CloseWithError_def Session_Close_def WriteMessage_ok_def)

lemma register_keeps_live:
  assumes "register j s = Inr s'" and "instances s x = Some i" and "\<not> ctx_done s i"
  shows "instances s' x = Some i"
  using assms by (auto simp: register_def split: option.splits if_splits)

lemma ctx_done_new:
  assumes "relay_inv auth s" and "instances s x = Some i"
  shows "ctx_done (snd (newInstance y c s)) i = ctx_done s i"
proof -
  have "i \<noteq> fresh s" using assms unfolding relay_inv_def slots_ok_def fresh_ok_def by fastforce
  then show ?thesis by (simp add: ctx_done_def newInstance_def peer_ended_def cong: option.case_cong)
qed

lemma any_handleRegister_keeps_live:
  assumes inv: "relay_inv auth s" and "instances s x = Some i" and "\<not> ctx_done s i"
  shows "instances (any_handleRegister how auth c r t y rnd s) x = Some i"
proof -
  have n: "instances (snd (newInstance z c s)) = instances s" for z by (simp add: newInstance_def)
  have "instances s2 x = Some i" if "register (fresh s) (snd (newInstance z c s)) = Inr s2" for z s2
    by (rule register_keeps_live [OF that]) (simp_all add: n assms(2,3) ctx_done_new [OF inv assms(2)])
  then show ?thesis by (auto simp: any_handleRegister_def refuse_def Let_def n assms(2) split: sum.splits)
qed

lemma greeting_keeps_live:
  assumes inv: "relay_inv auth s" and c: "peers s c = Some r" "pc r = Accepted" and x: "instances s x = Some i" "\<not> ctx_done s i"
  shows "instances (quic_handleConnection auth c r inp rnd s) x = Some i"
    and "instances (wt_handlePigeon auth c r inp rnd s) x = Some i"
proof -
  have l: "\<not> ctx_done (set_peer c (\<lambda>r. r\<lparr>greeting := g\<rparr>) s) i" for g
    using x(2) c(1) by (auto simp: ctx_done_def peer_ended_def set_peer_def split: option.splits if_splits)
  note k = any_handleRegister_keeps_live [OF relay_inv_greeting [OF inv c] _ l, simplified, OF x(1)]
  show "instances (quic_handleConnection auth c r inp rnd s) x = Some i"
    using k x by (auto simp: quic_handleConnection_def servers_same_protocol any_handleListen_def any_handleConnect_def
        refuse_def Let_def split: primary.splits sum.splits RelayGreetingVariant.splits option.splits)
  show "instances (wt_handlePigeon auth c r inp rnd s) x = Some i"
    using k x by (auto simp: wt_handlePigeon_def servers_same_protocol any_handleListen_def any_handleConnect_def
        refuse_def Let_def split: primary.splits sum.splits RelayGreetingVariant.splits option.splits)
qed

lemma unregister_keeps_live:
  assumes "instances s x = Some i" and "\<not> ctx_done (unregister j s) i"
  shows "instances (unregister j s) x = Some i"
  using assms by (auto simp: unregister_def ctx_done_def Let_def split: option.splits if_splits)


section \<open>The registry does not leak\<close>

text \<open>
  Every entry of the hub has a handler that will remove it: in every reachable state the slot of an
  identifier leads to an instance of that identifier that is not cancelled and whose control
  connection was admitted as a backend and is still served, and when that handler leaves, no slot
  leads to its instance and the instance's context has ended, so nobody waits on it.
\<close>

theorem registry_entries_owned:
  assumes "(relay_step auth)\<^sup>*\<^sup>* newHub s"
  shows "(\<forall>x i. instances s x = Some i \<longrightarrow>
      (\<exists>inst r. heap s i = Some inst \<and> iid inst = x \<and> \<not> cancelled inst \<and> peers s (control inst) = Some r \<and>
         pc r \<in> {RegWrite i, RegWait i, RegLeave i} \<and> admitted auth RelayGreetingRegister r)) \<and>
    (\<forall>c r i x. peers s c = Some r \<and> pc r = RegLeave i \<longrightarrow> instances (goto_pc c Returned (unregister i s)) x \<noteq> Some i)"
proof (intro conjI allI impI)
  have inv: "relay_inv auth s" using relay.reachable [OF refl assms] .
  fix x i assume "instances s x = Some i"
  then obtain inst r where a: "heap s i = Some inst" "iid inst = x" "\<not> cancelled inst" "peers s (control inst) = Some r"
      "owns_inst (pc r) i" using inv unfolding relay_inv_def slots_ok_def by blast
  have "peer_ok auth s r (pc r)" using inv a(4) unfolding relay_inv_def peers_ok_def by blast
  then have "pc r \<in> {RegWrite i, RegWait i, RegLeave i} \<and> admitted auth RelayGreetingRegister r"
    using a(5) by (cases "pc r") auto
  then show "\<exists>inst r. heap s i = Some inst \<and> iid inst = x \<and> \<not> cancelled inst \<and> peers s (control inst) = Some r \<and>
      pc r \<in> {RegWrite i, RegWait i, RegLeave i} \<and> admitted auth RelayGreetingRegister r" using a by blast
next
  fix c r i x assume c: "peers s c = Some r \<and> pc r = RegLeave i"
  have inv: "relay_inv auth s" using relay.reachable [OF refl assms] .
  obtain inst where h: "heap s i = Some inst" using inv c unfolding relay_inv_def owners_ok_def by fastforce
  have "x = iid inst" if "instances s x = Some i"
    using inv that h unfolding relay_inv_def slots_ok_def by fastforce
  then show "instances (goto_pc c Returned (unregister i s)) x \<noteq> Some i"
    using h by (cases "x = iid inst") (auto simp: unregister_def)
qed

section \<open>Who is bridged with whom\<close>

text \<open>
  (C6) A bridge joins exactly the two parties that asked for each other: its client was admitted and asked
  for an instance, its other end is a listen connection that was admitted as a backend for the same
  identifier and whose own handler has given it up, and no other client holds that listen
  connection.
\<close>

theorem bridge_joins_right_peers:
  assumes "(relay_step auth)\<^sup>*\<^sup>* newHub s" and "peers s c = Some r" and "pc r = Bridge i l"
  shows "\<exists>rl g gl. peers s l = Some rl \<and> pc rl = Handed \<and> greeting r = Some g \<and> greeting rl = Some gl \<and>
    Variant g = RelayGreetingConnect \<and> Variant gl = RelayGreetingListen \<and> InstanceId g = InstanceId gl \<and>
    \<not> refused_connect auth (InstanceId g) (certs r) \<and> \<not> refused_register auth (Token gl) (InstanceId gl) (certs rl) \<and>
    (\<forall>c' r'. peers s c' = Some r' \<and> holds_listen (pc r') l \<longrightarrow> c' = c)"
proof -
  have inv: "relay_inv auth s" using relay.reachable [OF refl assms(1)] .
  have ok: "peer_ok auth s r (Bridge i l)" using inv assms(2,3) unfolding relay_inv_def peers_ok_def by fastforce
  then have a: "admitted auth RelayGreetingConnect r" "asks_for s r i" "handed_for auth s l i" by simp_all
  obtain rl where l: "peers s l = Some rl" "pc rl = Handed" "admitted auth RelayGreetingListen rl" "asks_for s rl i"
    using a(3) by (auto simp: handed_for_def split: option.splits)
  have u: "\<forall>c' r'. peers s c' = Some r' \<and> holds_listen (pc r') l \<longrightarrow> c' = c"
    using inv assms(2,3) unfolding relay_inv_def listens_ok_def by fastforce
  show ?thesis using a(1,2) l u by (auto simp: admitted_def asks_for_def split: option.splits)
qed

text \<open>
  (C29) With a bearer token configured, nobody without it acts as a backend: every connection that is
  registering, registered, parked as a listen or handed to a client presented exactly that token, in
  its greeting or (on WebTransport) in its request.
\<close>

theorem bearer_token_required:
  assumes "token \<noteq> ''''" and "(relay_step (BearerTokenAuth token))\<^sup>*\<^sup>* newHub s" and "peers s c = Some r"
    and "pc r \<notin> {Accepted, Returned}" and "\<forall>i l. pc r \<notin> {Match i, ConnWrite i l, Bridge i l}"
  shows "\<exists>g. greeting r = Some g \<and> Token g = token"
proof -
  have "peer_ok (BearerTokenAuth token) s r (pc r)"
    using relay.reachable [OF refl assms(2)] assms(3) unfolding relay_inv_def peers_ok_def by blast
  then have "admitted (BearerTokenAuth token) RelayGreetingListen r \<or> admitted (BearerTokenAuth token) RelayGreetingRegister r"
    using assms(4,5) by (cases "pc r") auto
  then show ?thesis using assms(1)
    by (auto simp: admitted_def refused_register_def BearerTokenAuth_def split: option.splits if_splits)
qed

section \<open>Identifiers a client can ask for\<close>

lemma length_hex: "length (hex_EncodeToString bs) = 2 * length bs"
  by (induction bs) (simp_all add: hex_EncodeToString_def)

lemma decode_connect:
  "DecodeRelayGreeting (EncodeRelayGreetingConnect x) = Inr \<lparr>Variant = RelayGreetingConnect, InstanceId = x, Token = ''''\<rparr>"
  by (simp add: DecodeRelayGreeting_def EncodeRelayGreetingConnect_def strip_prefix_def Let_def)

text \<open>
  An identifier the relay assigns can be used: the 32 hexadecimal digits of \<open>generateID\<close> are a valid
  identifier for clients of both servers, and they survive the connect, listen and register
  greetings next to every token without a colon.
\<close>

theorem assigned_id_usable:
  assumes "length rnd = 16" and "CHR '':'' \<notin> set token"
  shows "quic_valid (generateID rnd) \<and> wt_valid (generateID rnd) \<and>
    DecodeRelayGreeting (EncodeRelayGreetingConnect (generateID rnd)) =
      Inr \<lparr>Variant = RelayGreetingConnect, InstanceId = generateID rnd, Token = ''''\<rparr> \<and>
    DecodeRelayGreeting (EncodeRelayGreetingListen token (generateID rnd)) =
      Inr \<lparr>Variant = RelayGreetingListen, InstanceId = generateID rnd, Token = token\<rparr>"
proof -
  have n: "length (generateID rnd) = 32" using assms(1) by (simp add: generateID_def length_hex)
  moreover from n have "generateID rnd \<noteq> ''''" by auto
  moreover have "DecodeRelayGreeting (EncodeRelayGreetingListen token x) =
      Inr \<lparr>Variant = RelayGreetingListen, InstanceId = x, Token = token\<rparr>" for x
    using assms(2) by (auto simp: decode_listen decode_greeting_rest_suffix takeWhile_colon_eq)
  ultimately show ?thesis by (simp add: quic_valid_def wt_valid_def decode_connect)
qed

text \<open>
  The raw QUIC server lets a backend register under an identifier of more than 64 bytes but refuses
  every client that asks for it, whatever the state of the relay.
\<close>

theorem long_id_refused_over_quic:
  assumes "length x > 64"
  shows "(\<exists>i. pc (the (peers (quic_handleRegister no_auth 0 (new_peer RawQUIC None '''' '''') '''' x rnd
      (newHub\<lparr>peers := [0 \<mapsto> new_peer RawQUIC None '''' '''']\<rparr>)) 0)) = RegWrite i) \<and>
    quic_handleConnect auth c r x s = goto_pc c Returned (CloseWithError c 1 ''invalid instance ID'' s)"
  using assms
  by (auto simp: quic_handleRegister_def quic_handleConnect_def refused_register_def no_auth_def newInstance_def register_def
      newHub_def goto_pc_def set_peer_def new_peer_def)

section \<open>A run\<close>

text \<open>A backend registers and parks a listen, a client is bridged to it; the relay asks for the token \<open>t\<close>.\<close>

abbreviation demo_auth :: "unit Auth" where "demo_auth \<equiv> BearerTokenAuth ''t''"

definition demo_peer :: "unit peer" where "demo_peer = new_peer RawQUIC None '''' ''''"

definition demo_accept :: "nat \<Rightarrow> unit relay \<Rightarrow> unit relay" where
  "demo_accept c s = s\<lparr>peers := (peers s)(c \<mapsto> demo_peer)\<rparr>"

definition demo_registered :: "unit relay" where
  "demo_registered = quic_register_write 0 0 True (quic_handleConnection demo_auth 0 demo_peer
     (Message_read (EncodeRelayGreetingRegister ''t'' ''b'')) [] (demo_accept 2 (demo_accept 1 (demo_accept 0 newHub))))"

definition demo_bridged :: "unit relay" where
  "demo_bridged = quic_connect_write 2 0 1 True (handoff 0 1 2
     (quic_handleConnection demo_auth 2 demo_peer (Message_read (EncodeRelayGreetingConnect ''b'')) []
        (quic_listen_write 1 0 ''b'' True
           (quic_handleConnection demo_auth 1 demo_peer (Message_read (EncodeRelayGreetingListen ''t'' ''b'')) [] demo_registered))))"

lemma demo_greetings:
  "DecodeRelayGreeting (EncodeRelayGreetingRegister ''t'' ''b'') = Inr \<lparr>Variant = RelayGreetingRegister, InstanceId = ''b'', Token = ''t''\<rparr>"
  "DecodeRelayGreeting (EncodeRelayGreetingListen ''t'' ''b'') = Inr \<lparr>Variant = RelayGreetingListen, InstanceId = ''b'', Token = ''t''\<rparr>"
  "DecodeRelayGreeting (EncodeRelayGreetingConnect ''b'') = Inr \<lparr>Variant = RelayGreetingConnect, InstanceId = ''b'', Token = ''''\<rparr>"
  by (simp_all add: decode_register decode_listen decode_greeting_rest_suffix decode_connect)

lemmas demo_simps = demo_registered_def demo_bridged_def demo_accept_def demo_peer_def new_peer_def newHub_def demo_greetings
  quic_handleConnection_def quic_handleRegister_def quic_handleListen_def quic_handleConnect_def quic_register_write_def
  quic_listen_write_def quic_connect_write_def handoff_def goto_pc_def set_peer_def WriteMessage_ok_def newInstance_def register_def
  hub_get_def refused_register_def refused_connect_def BearerTokenAuth_def ErrUnauthorized_def Let_def

lemma demo_registered_state:
  "instances demo_registered = [''b'' \<mapsto> 0]" "heap demo_registered = [0 \<mapsto> \<lparr>iid = ''b'', control = 0, cancelled = False\<rparr>]"
  "peers demo_registered = [0 \<mapsto> demo_peer\<lparr>greeting := Some \<lparr>Variant = RelayGreetingRegister, InstanceId = ''b'', Token = ''t''\<rparr>,
     written := [''b''], pc := RegWait 0\<rparr>, 1 \<mapsto> demo_peer, 2 \<mapsto> demo_peer]"
  by (simp_all add: demo_simps fun_upd_twist)

lemma demo_bridged_state:
  "pc (the (peers demo_bridged 2)) = Bridge 0 1" "peers demo_bridged 2 \<noteq> None" "instances demo_bridged = [''b'' \<mapsto> 0]"
  by (simp_all add: demo_simps)

lemma demo_registered_run: "(relay_step demo_auth)\<^sup>*\<^sup>* newHub demo_registered"
proof -
  have a: "peers s c = None \<Longrightarrow> relay_step demo_auth s (demo_accept c s)" for s c
    unfolding demo_accept_def demo_peer_def by (rule relay_step.accept)
  let ?s = "demo_accept 2 (demo_accept 1 (demo_accept 0 newHub))"
  let ?t = "quic_handleConnection demo_auth 0 demo_peer (Message_read (EncodeRelayGreetingRegister ''t'' ''b'')) [] ?s"
  have "(relay_step demo_auth)\<^sup>*\<^sup>* newHub ?s"
    by (rule rtranclp.rtrancl_into_rtrancl, rule rtranclp.rtrancl_into_rtrancl, rule rtranclp.rtrancl_into_rtrancl,
        rule rtranclp.rtrancl_refl; rule a) (simp_all add: demo_accept_def newHub_def)
  also have "relay_step demo_auth ?s ?t"
    by (rule relay_step.greet_quic) (simp_all add: demo_accept_def demo_peer_def new_peer_def)
  also have "relay_step demo_auth ?t demo_registered"
    using relay_step.register_write [of ?t 0 _ 0 demo_auth True] unfolding demo_registered_def by (simp add: demo_simps)
  finally show ?thesis .
qed

lemma demo_bridged_run: "(relay_step demo_auth)\<^sup>*\<^sup>* newHub demo_bridged"
proof -
  define s1 where "s1 = quic_handleConnection demo_auth 1 demo_peer (Message_read (EncodeRelayGreetingListen ''t'' ''b'')) [] demo_registered"
  define s2 where "s2 = quic_listen_write 1 0 ''b'' True s1"
  define s3 where "s3 = quic_handleConnection demo_auth 2 demo_peer (Message_read (EncodeRelayGreetingConnect ''b'')) [] s2"
  define s4 where "s4 = handoff 0 1 2 s3"
  note demo_registered_run
  also have "relay_step demo_auth demo_registered s1" unfolding s1_def
    by (rule relay_step.greet_quic) (simp_all add: demo_registered_state demo_peer_def new_peer_def)
  also have "relay_step demo_auth s1 s2"
  proof -
    have r: "peers s1 1 = Some (the (peers s1 1))" "pc (the (peers s1 1)) = ListenWrite 0" "server (the (peers s1 1)) = RawQUIC"
      "greeting (the (peers s1 1)) = Some \<lparr>Variant = RelayGreetingListen, InstanceId = ''b'', Token = ''t''\<rparr>"
      by (simp_all add: s1_def demo_simps)
    from relay_step.listen_write [OF r(1,2,4), of demo_auth True] show ?thesis by (simp only: s2_def r(3) if_True RelayGreetingDecoded.select_convs simp_thms)
  qed
  also have "relay_step demo_auth s2 s3" unfolding s3_def
    by (rule relay_step.greet_quic) (simp_all add: s2_def s1_def demo_simps)
  also have "relay_step demo_auth s3 s4" unfolding s4_def
    by (rule relay_step.rendezvous [of s3 1 "the (peers s3 1)" 0 2 "the (peers s3 2)"]) (simp_all add: s3_def s2_def s1_def demo_simps)
  also have "relay_step demo_auth s4 demo_bridged"
  proof -
    have r: "peers s4 2 = Some (the (peers s4 2))" "pc (the (peers s4 2)) = ConnWrite 0 1" "server (the (peers s4 2)) = RawQUIC"
      by (simp_all add: s4_def s3_def s2_def s1_def demo_simps)
    have "demo_bridged = quic_connect_write 2 0 1 True s4" by (simp only: demo_bridged_def s4_def s3_def s2_def s1_def)
    then show ?thesis using relay_step.connect_write [OF r(1,2), of demo_auth True] by (simp only: r(3) if_True simp_thms)
  qed
  finally show ?thesis .
qed


theorem registry_entries_owned_witness:
  "\<exists>r. peers demo_registered 0 = Some r \<and> pc r \<in> {RegWrite 0, RegWait 0, RegLeave 0} \<and> admitted demo_auth RelayGreetingRegister r"
proof -
  have "instances demo_registered ''b'' = Some 0" by (simp add: demo_registered_state)
  then obtain inst r where "heap demo_registered 0 = Some inst" "peers demo_registered (control inst) = Some r"
      "pc r \<in> {RegWrite 0, RegWait 0, RegLeave 0}" "admitted demo_auth RelayGreetingRegister r"
    using registry_entries_owned [OF demo_registered_run] by blast
  then show ?thesis by (auto simp: demo_registered_state)
qed

theorem bridge_joins_right_peers_witness:
  "\<exists>rl. peers demo_bridged 1 = Some rl \<and> pc rl = Handed \<and> \<not> refused_register demo_auth (Token (the (greeting rl))) ''b'' None"
proof -
  obtain r where r: "peers demo_bridged 2 = Some r" "pc r = Bridge 0 1" using demo_bridged_state(1,2) by auto
  have "certs (the (peers demo_bridged 1)) = None" "InstanceId (the (greeting (the (peers demo_bridged 1)))) = ''b''"
    by (simp_all add: demo_simps)
  then show ?thesis using bridge_joins_right_peers [OF demo_bridged_run r] by auto
qed

theorem bearer_token_required_witness:
  "\<exists>g. greeting (the (peers demo_registered 0)) = Some g \<and> Token g = ''t''"
proof -
  have "peers demo_registered 0 = Some (the (peers demo_registered 0))" "pc (the (peers demo_registered 0)) = RegWait 0"
    by (simp_all add: demo_registered_state)
  then show ?thesis using bearer_token_required [OF _ demo_registered_run, of 0 "the (peers demo_registered 0)"] by simp
qed

theorem assigned_id_usable_witness: "quic_valid (generateID (replicate 16 171))"
  using assigned_id_usable [of "replicate 16 171" "''t''"] by simp

theorem long_id_refused_over_quic_witness:
  "quic_handleConnect no_auth 0 demo_peer (replicate 65 CHR ''x'') demo_registered =
     goto_pc 0 Returned (CloseWithError 0 1 ''invalid instance ID'' demo_registered)"
  by (rule conjunct2 [OF long_id_refused_over_quic]) simp

end
