(* ===== verification/Bridge.thy ===== *)
theory Bridge
  imports Prelude
begin

text \<open>
  The byte shovel of the relay (\<open>session.go\<close>, with the stream wrappers of \<open>quicserver.go\<close> and
  \<open>webtransport.go\<close> and the half-close and reset helpers of \<open>streamctl.go\<close>). A stream end is what
  the relay holds of a bidirectional stream: the messages that have arrived and not been read, how
  the peer has ended its direction, whether reads have been cut off by a deadline or a cancel, and
  what the relay has written. A read with nothing to return blocks, so a loop runs until it returns
  or has to wait; every iteration takes a message, so it ends.
\<close>

section \<open>Stream ends\<close>

datatype wrapper = QuicStream | WebTransportStream

datatype stream_error = QuicStreamError | WebTransportStreamError | EOF | DeadlineExceeded | WriteClosed

datatype ending = Fin | Rst

record stream_end =
  wrapped :: wrapper
  inbox :: "bytes list"
  peer_ending :: "ending option"
  read_cut :: "stream_error option"
  outbox :: "bytes list"
  out_ending :: "ending option"

definition reset_error :: "wrapper \<Rightarrow> stream_error" where
  "reset_error w = (case w of QuicStream \<Rightarrow> QuicStreamError | WebTransportStream \<Rightarrow> WebTransportStreamError)"

datatype 'a io = Blocks | Fails stream_error | Returns 'a

text \<open>A reset by the peer discards what has arrived and was not read; a clean end comes after it.\<close>

definition ReadMessage :: "stream_end \<Rightarrow> (bytes \<times> stream_end) io" where
  "ReadMessage e =
     (case read_cut e of
        Some err \<Rightarrow> Fails err
      | None \<Rightarrow>
          if peer_ending e = Some Rst then Fails (reset_error (wrapped e))
          else (case inbox e of
             m # ms \<Rightarrow> Returns (m, e\<lparr>inbox := ms\<rparr>)
           | [] \<Rightarrow> if peer_ending e = Some Fin then Fails EOF else Blocks))"

text \<open>What can still be read.\<close>

definition readable :: "stream_end \<Rightarrow> bytes list" where
  "readable e = (if peer_ending e = Some Rst then [] else inbox e)"

definition WriteMessage :: "bytes \<Rightarrow> stream_end \<Rightarrow> stream_error + stream_end" where
  "WriteMessage data e = (if out_ending e \<noteq> None then Inl WriteClosed else Inr (e\<lparr>outbox := outbox e @ [data]\<rparr>))"

definition finish :: "ending \<Rightarrow> stream_end \<Rightarrow> stream_end" where
  "finish k e = e\<lparr>out_ending := (case out_ending e of None \<Rightarrow> Some k | Some x \<Rightarrow> Some x)\<rparr>"

section \<open>The wrappers\<close>

definition quic_Close :: "stream_end \<Rightarrow> stream_end" where
  "quic_Close e = finish Fin e"

definition quic_CloseWrite :: "stream_end \<Rightarrow> stream_end" where
  "quic_CloseWrite e = finish Fin e"

definition quic_Reset :: "stream_end \<Rightarrow> stream_end" where
  "quic_Reset e = (finish Rst e)\<lparr>read_cut := Some QuicStreamError\<rparr>"

definition wt_Close :: "stream_end \<Rightarrow> stream_end" where
  "wt_Close e = finish Fin (e\<lparr>read_cut := Some DeadlineExceeded\<rparr>)"

definition wt_CloseWrite :: "stream_end \<Rightarrow> stream_end" where
  "wt_CloseWrite e = wt_Close e"

definition wt_Reset :: "stream_end \<Rightarrow> stream_end" where
  "wt_Reset e = (finish Rst (e\<lparr>read_cut := Some DeadlineExceeded\<rparr>))\<lparr>read_cut := Some WebTransportStreamError\<rparr>"

text \<open>The methods of the interface value; a nil pair is \<open>None\<close>.\<close>

definition Pair_Close :: "stream_end \<Rightarrow> stream_end" where
  "Pair_Close e = (case wrapped e of QuicStream \<Rightarrow> quic_Close e | WebTransportStream \<Rightarrow> wt_Close e)"

definition closeWritePair :: "stream_end option \<Rightarrow> stream_end option" where
  "closeWritePair p =
     (case p of
        None \<Rightarrow> None
      | Some e \<Rightarrow> Some (case wrapped e of QuicStream \<Rightarrow> quic_CloseWrite e | WebTransportStream \<Rightarrow> wt_CloseWrite e))"

definition resetPair :: "stream_end option \<Rightarrow> stream_end option" where
  "resetPair p =
     (case p of
        None \<Rightarrow> None
      | Some e \<Rightarrow> Some (case wrapped e of QuicStream \<Rightarrow> quic_Reset e | WebTransportStream \<Rightarrow> wt_Reset e))"

definition isStreamReset :: "stream_error option \<Rightarrow> bool" where
  "isStreamReset err = (case err of None \<Rightarrow> False | Some e \<Rightarrow> e = QuicStreamError \<or> e = WebTransportStreamError)"

section \<open>Forwarding\<close>

text \<open>\<open>bridgeStream\<close>: the two ends afterwards, and whether it has returned (else it waits in a read).\<close>

function bridgeStream :: "stream_end \<Rightarrow> stream_end \<Rightarrow> (stream_end \<times> stream_end) \<times> bool" where
  "bridgeStream src dst =
     (case ReadMessage src of
        Blocks \<Rightarrow> ((src, dst), False)
      | Fails err \<Rightarrow>
          if isStreamReset (Some err) then ((src, the (resetPair (Some dst))), True)
          else ((src, the (closeWritePair (Some dst))), True)
      | Returns (msg, src') \<Rightarrow>
          (case WriteMessage msg dst of
             Inl err \<Rightarrow> ((src', dst), True)
           | Inr dst' \<Rightarrow> bridgeStream src' dst'))"
  by pat_completeness auto
termination
  by (relation "measure (\<lambda>(src, dst). length (inbox src))")
     (auto simp: ReadMessage_def split: option.splits list.splits if_splits)

declare bridgeStream.simps [simp del]

text \<open>The loops on the primary streams: the same, ending with the error that goes to \<open>errCh\<close>.\<close>

function pump_primary :: "stream_end \<Rightarrow> stream_end \<Rightarrow> (stream_end \<times> stream_end) \<times> (stream_error \<times> string) option" where
  "pump_primary src dst =
     (case ReadMessage src of
        Blocks \<Rightarrow> ((src, dst), None)
      | Fails err \<Rightarrow> ((src, dst), Some (err, ''read primary''))
      | Returns (msg, src') \<Rightarrow>
          (case WriteMessage msg dst of
             Inl err \<Rightarrow> ((src', dst), Some (err, ''write primary''))
           | Inr dst' \<Rightarrow> pump_primary src' dst'))"
  by pat_completeness auto
termination
  by (relation "measure (\<lambda>(src, dst). length (inbox src))")
     (auto simp: ReadMessage_def split: option.splits list.splits if_splits)

declare pump_primary.simps [simp del]

text \<open>
  The loops on datagrams: what \<open>ReceiveDatagram\<close> returns one after the other (\<open>None\<close> an error), and
  whether \<open>SendDatagram\<close> succeeds; the datagrams sent on.
\<close>

fun pump_datagrams :: "bytes option list \<Rightarrow> (bytes \<Rightarrow> bool) \<Rightarrow> bytes list" where
  "pump_datagrams [] sends = []" |
  "pump_datagrams (None # ds) sends = []" |
  "pump_datagrams (Some d # ds) sends = (if sends d then d # pump_datagrams ds sends else [])"

section \<open>The tracker\<close>

text \<open>Streams by address, with the set of the closed ones.\<close>

record streamTracker =
  streams :: "nat list"
  shut :: "nat list"

definition tracker_add :: "nat \<Rightarrow> streamTracker \<Rightarrow> streamTracker" where
  "tracker_add x t = t\<lparr>streams := streams t @ [x]\<rparr>"

definition closeAll :: "streamTracker \<Rightarrow> streamTracker" where
  "closeAll t = (let ss = streams t in (t\<lparr>streams := []\<rparr>)\<lparr>shut := shut t @ ss\<rparr>)"

section \<open>What is forwarded\<close>

lemma bridgeStream_reset:
  assumes "read_cut src = None" and "peer_ending src = Some Rst"
  shows "bridgeStream src dst = ((src, the (resetPair (Some dst))), True)"
  using assms by (subst bridgeStream.simps) (simp add: ReadMessage_def isStreamReset_def reset_error_def split: wrapper.split)

lemma bridgeStream_open:
  assumes "read_cut src = None" and "out_ending dst = None" and "peer_ending src \<noteq> Some Rst"
  shows "bridgeStream src dst =
    (let src' = src\<lparr>inbox := []\<rparr>; dst' = dst\<lparr>outbox := outbox dst @ inbox src\<rparr> in
     if peer_ending src = Some Fin then ((src', the (closeWritePair (Some dst'))), True) else ((src', dst'), False))"
  using assms
proof (induction "inbox src" arbitrary: src dst)
  case Nil
  have "src\<lparr>inbox := []\<rparr> = src" using Nil(1) by simp
  then show ?case using Nil
    by (subst bridgeStream.simps) (simp add: ReadMessage_def isStreamReset_def Let_def)
next
  case (Cons m ms)
  have "ReadMessage src = Returns (m, src\<lparr>inbox := ms\<rparr>)" using Cons(2) [symmetric] Cons(3,5) by (simp add: ReadMessage_def)
  moreover have "WriteMessage m dst = Inr (dst\<lparr>outbox := outbox dst @ [m]\<rparr>)" using Cons(4) by (simp add: WriteMessage_def)
  ultimately have "bridgeStream src dst = bridgeStream (src\<lparr>inbox := ms\<rparr>) (dst\<lparr>outbox := outbox dst @ [m]\<rparr>)"
    by (subst bridgeStream.simps) simp
  then show ?case using Cons(1) [of "src\<lparr>inbox := ms\<rparr>" "dst\<lparr>outbox := outbox dst @ [m]\<rparr>"] Cons(2) [symmetric] Cons(3-5)
    by (simp add: Let_def)
qed

lemma bridgeStream_forwards:
  assumes "read_cut src = None" and "out_ending dst = None" and "bridgeStream src dst = ((src', dst'), returned)"
  shows "outbox dst' = outbox dst @ readable src \<and> readable src' = [] \<and> out_ending dst' = peer_ending src \<and>
    (returned \<longleftrightarrow> peer_ending src \<noteq> None)"
proof (cases "peer_ending src = Some Rst")
  case True
  then show ?thesis using assms(3) unfolding bridgeStream_reset [OF assms(1) True]
    by (auto simp: readable_def resetPair_def quic_Reset_def wt_Reset_def finish_def assms(2) split: wrapper.splits)
next
  case False
  then have "peer_ending src = None \<or> peer_ending src = Some Fin" by (metis ending.exhaust option.exhaust)
  then show ?thesis using assms(3) False unfolding bridgeStream_open [OF assms(1,2) False]
    by (auto simp: Let_def readable_def closeWritePair_def quic_CloseWrite_def wt_CloseWrite_def wt_Close_def
        finish_def assms(2) split: wrapper.splits if_splits)
qed


lemma quic_half_close_keeps_return:
  assumes "wrapped dst = QuicStream"
  shows "ReadMessage (the (closeWritePair (Some dst))) = Blocks \<longleftrightarrow> ReadMessage dst = Blocks"
    and "read_cut (the (closeWritePair (Some dst))) = read_cut dst"
  using assms by (simp_all add: closeWritePair_def quic_CloseWrite_def finish_def ReadMessage_def
      split: option.splits list.splits ending.splits)

text \<open>
  A half-close towards a WebTransport peer cuts the way back. When the source ends its direction
  cleanly, a raw QUIC destination can still be read and its answer is forwarded, but the wrapper of
  a WebTransport destination sets the read deadline into the past, so whatever answer has arrived or
  will arrive is not forwarded: the reverse loop returns at once and ends the other direction too.
\<close>

theorem half_close_cuts_webtransport_return:
  assumes "read_cut src = None" and "peer_ending src = Some Fin" and "out_ending src = None"
    and "read_cut dst = None" and "out_ending dst = None" and "wrapped src = QuicStream"
    and "bridgeStream src dst = ((src', dst'), True)"
  shows "if wrapped dst = QuicStream
    then outbox (snd (fst (bridgeStream dst' src'))) = outbox src @ readable dst
    else bridgeStream dst' src' = ((dst', src'\<lparr>out_ending := Some Fin\<rparr>), True) \<and> outbox src' = outbox src"
proof -
  have d: "src' = src\<lparr>inbox := []\<rparr>" "dst' = the (closeWritePair (Some (dst\<lparr>outbox := outbox dst @ inbox src\<rparr>)))"
    using assms(2,7) bridgeStream_open [OF assms(1,5)] by (simp_all add: Let_def)
  show ?thesis
  proof (cases "wrapped dst")
    case QuicStream
    then have "read_cut dst' = None" "readable dst' = readable dst" "out_ending src' = None" "outbox src' = outbox src"
      using assms(3,4) by (simp_all add: d closeWritePair_def quic_CloseWrite_def finish_def readable_def)
    then show ?thesis using QuicStream bridgeStream_forwards [of dst' src'] by (metis prod.collapse)
  next
    case WebTransportStream
    then have "ReadMessage dst' = Fails DeadlineExceeded"
      by (simp add: d closeWritePair_def wt_CloseWrite_def wt_Close_def finish_def ReadMessage_def)
    then show ?thesis using WebTransportStream assms(3,6)
      by (subst bridgeStream.simps) (simp add: isStreamReset_def closeWritePair_def quic_CloseWrite_def finish_def d)
  qed
qed

section \<open>A request and its answer\<close>

definition fresh_end :: "wrapper \<Rightarrow> bytes list \<Rightarrow> ending option \<Rightarrow> stream_end" where
  "fresh_end w msgs e = \<lparr>wrapped = w, inbox = msgs, peer_ending = e, read_cut = None, outbox = [], out_ending = None\<rparr>"


theorem half_close_cuts_webtransport_return_witness:
  "case fst (bridgeStream (fresh_end QuicStream [[1]] (Some Fin)) (fresh_end WebTransportStream [[42]] None)) of
     (src, dst) \<Rightarrow> inbox dst = [[42]] \<and> outbox (snd (fst (bridgeStream dst src))) = []"
proof -
  let ?src = "fresh_end QuicStream [[1]] (Some Fin)" and ?dst = "fresh_end WebTransportStream [[42]] None"
  obtain src' dst' ret where b: "bridgeStream ?src ?dst = ((src', dst'), ret)" by (metis prod.collapse)
  then have "ret" using bridgeStream_forwards [of ?src ?dst] by (simp add: fresh_end_def)
  then have r: "bridgeStream dst' src' = ((dst', src'\<lparr>out_ending := Some Fin\<rparr>), True)" "outbox src' = []"
    using half_close_cuts_webtransport_return [of ?src ?dst src' dst'] b by (simp_all add: fresh_end_def)
  have "inbox dst' = [[42]]"
    using b bridgeStream_open [of ?src ?dst]
    by (auto simp: fresh_end_def Let_def closeWritePair_def wt_CloseWrite_def wt_Close_def finish_def)
  with b r show ?thesis by simp
qed

end
