(* ===== verification/Lan.thy ===== *)
theory Lan
  imports Prelude
begin

text \<open>
  The upgrade of a session to a direct LAN path (\<open>lan.go\<close>, \<open>lan_upgrade.go\<close>): the backend
  registers a challenge with its LAN server and offers the address over the relay, the client dials
  and presents the challenge, the LAN server checks it, and each side replaces the carrier of its
  session. The LAN server's table is shared by all sessions; the handlers of incoming dials and the
  goroutines \<open>offerLAN\<close> of the sessions interleave at their blocking points and between critical
  sections. A dial is given by the outcome of the calls that can fail before the lookup: the stream
  that is accepted or not, the message that is read or not, the JSON that decodes or not.
\<close>

section \<open>Data\<close>

record lanOffer =
  OfferAddr :: string
  OfferChallenge :: bytes
  OfferCertHash :: bytes

record lanVerify =
  VerifyChallenge :: bytes
  VerifyInstanceID :: string

text \<open>The callback \<open>onVerify\<close> is the one of the session that registered it.\<close>

record pendingLAN =
  pend_challenge :: bytes
  pend_session :: nat

datatype carrier = OnRelay | OnLAN nat

datatype offer_pc = NotOffered | Offering | Waiting | OfferDone

text \<open>
  One end of a session, as far as the upgrade goes. \<open>lanReady\<close> is the channel, if there is one, and
  whether it is closed; \<open>retired\<close> lists the carriers on which \<open>Close\<close> is called, the replaced one
  after the grace period.
\<close>

record lan_session =
  lanServer :: bool
  preferLAN :: bool
  localID :: string
  peerID :: string
  challenge :: bytes
  offer :: offer_pc
  verified :: "nat option"
  transport :: "carrier option"
  ownsTransport :: bool
  onLAN :: bool
  lanReady :: "bool option"
  lanReadyOnce :: bool
  closeOnce :: bool
  retired :: "carrier list"

datatype dial_pc = Arrived | Checking pendingLAN | Confirmed pendingLAN | Verified pendingLAN | Refused string

text \<open>\<open>dialer\<close> is the client session that dials, or none when something else on the network does.\<close>

record lan_dial =
  dialer :: "nat option"
  verify :: lanVerify
  dial :: dial_pc
  reply :: "string option"
  reply_read :: bool

record lan =
  conns :: "string \<rightharpoonup> pendingLAN"
  sessions :: "nat \<rightharpoonup> lan_session"
  clients :: "nat \<rightharpoonup> lan_session"
  dials :: "nat \<rightharpoonup> lan_dial"

section \<open>The table of the LAN server\<close>

definition challengeEqual :: "bytes \<Rightarrow> bytes \<Rightarrow> bool" where
  "challengeEqual a b = (if length a \<noteq> length b then False else a = b)"

definition RegisterPending :: "string \<Rightarrow> bytes \<Rightarrow> nat \<Rightarrow> lan \<Rightarrow> lan" where
  "RegisterPending peer ch n s =
     (if peer = '''' then s else s\<lparr>conns := (conns s)(peer \<mapsto> \<lparr>pend_challenge = ch, pend_session = n\<rparr>)\<rparr>)"

definition UnregisterPending :: "string \<Rightarrow> lan \<Rightarrow> lan" where
  "UnregisterPending peer s = s\<lparr>conns := (conns s)(peer := None)\<rparr>"

definition set_dial :: "nat \<Rightarrow> (lan_dial \<Rightarrow> lan_dial) \<Rightarrow> lan \<Rightarrow> lan" where
  "set_dial k f s = s\<lparr>dials := (dials s)(k := map_option f (dials s k))\<rparr>"

definition set_session :: "nat \<Rightarrow> (lan_session \<Rightarrow> lan_session) \<Rightarrow> lan \<Rightarrow> lan" where
  "set_session n f s = s\<lparr>sessions := (sessions s)(n := map_option f (sessions s n))\<rparr>"

text \<open>
  \<open>handleConn\<close>, cut at the lock: what comes before the lookup, the lookup with the deletion, the
  check with the confirmation.
\<close>

definition handleConn_read :: "nat \<Rightarrow> nat option \<Rightarrow> lanVerify option option option \<Rightarrow> lan \<Rightarrow> lan" where
  "handleConn_read k c stream s =
     (let d = \<lparr>dialer = c, verify = \<lparr>VerifyChallenge = [], VerifyInstanceID = ''''\<rparr>, dial = Arrived, reply = None,
               reply_read = False\<rparr>;
          d' = (case stream of
                  None \<Rightarrow> d\<lparr>dial := Refused ''no stream''\<rparr>
                | Some None \<Rightarrow> d\<lparr>dial := Refused ''read verify failed''\<rparr>
                | Some (Some None) \<Rightarrow> d\<lparr>dial := Refused ''bad verify''\<rparr>
                | Some (Some (Some v)) \<Rightarrow> d\<lparr>verify := v\<rparr>)
      in s\<lparr>dials := (dials s)(k \<mapsto> d')\<rparr>)"

definition handleConn_lookup :: "nat \<Rightarrow> lanVerify \<Rightarrow> lan \<Rightarrow> lan" where
  "handleConn_lookup k v s =
     (case conns s (VerifyInstanceID v) of
        None \<Rightarrow> set_dial k (\<lambda>d. d\<lparr>dial := Refused ''unknown instance''\<rparr>) s
      | Some pending \<Rightarrow>
          set_dial k (\<lambda>d. d\<lparr>dial := Checking pending\<rparr>) (s\<lparr>conns := (conns s)(VerifyInstanceID v := None)\<rparr>))"

definition handleConn_check :: "nat \<Rightarrow> lanVerify \<Rightarrow> pendingLAN \<Rightarrow> bool \<Rightarrow> lan \<Rightarrow> lan" where
  "handleConn_check k v pending write_ok s =
     (if \<not> challengeEqual (pend_challenge pending) (VerifyChallenge v)
      then set_dial k (\<lambda>d. d\<lparr>dial := Refused ''bad challenge''\<rparr>) s
      else if \<not> write_ok then set_dial k (\<lambda>d. d\<lparr>dial := Refused ''write confirm failed''\<rparr>) s
      else set_dial k (\<lambda>d. d\<lparr>dial := Confirmed pending, reply := Some ''ok''\<rparr>) s)"

text \<open>The callback of \<open>offerLAN\<close>: a send on a channel of capacity one with a default case.\<close>

definition onVerify :: "nat \<Rightarrow> pendingLAN \<Rightarrow> lan \<Rightarrow> lan" where
  "onVerify k pending s =
     set_dial k (\<lambda>d. d\<lparr>dial := Verified pending\<rparr>)
       (set_session (pend_session pending) (\<lambda>x. case verified x of None \<Rightarrow> x\<lparr>verified := Some k\<rparr> | Some _ \<Rightarrow> x) s)"

section \<open>The sessions\<close>

definition signalLANReady :: "lan_session \<Rightarrow> lan_session" where
  "signalLANReady x =
     (if lanReadyOnce x then x else x\<lparr>lanReadyOnce := True, lanReady := map_option (\<lambda>_. True) (lanReady x)\<rparr>)"

definition LANReady :: "lan_session \<Rightarrow> bool" where
  "LANReady x = (case lanReady x of None \<Rightarrow> True | Some closed \<Rightarrow> closed)"

definition UsingLAN :: "lan_session \<Rightarrow> bool" where
  "UsingLAN x = onLAN x"

definition swapTransport :: "carrier option \<Rightarrow> lan_session \<Rightarrow> lan_session" where
  "swapTransport tr x =
     (case tr of
        None \<Rightarrow> x
      | Some c \<Rightarrow>
          if onLAN x then x\<lparr>retired := retired x @ [c]\<rparr>
          else let old = transport x;
                   x1 = signalLANReady (x\<lparr>transport := Some c, ownsTransport := True, onLAN := True\<rparr>)
               in case old of None \<Rightarrow> x1 | Some o' \<Rightarrow> x1\<lparr>retired := retired x1 @ [o']\<rparr>)"

text \<open>\<open>Session.Close\<close>, the part that concerns the carrier.\<close>

definition Close_carrier :: "lan_session \<Rightarrow> lan_session" where
  "Close_carrier x =
     (if closeOnce x then x
      else let tr = transport x;
               x1 = x\<lparr>closeOnce := True, transport := None\<rparr>;
               x2 = (case tr of
                       Some c \<Rightarrow> if ownsTransport x then x1\<lparr>retired := retired x1 @ [c]\<rparr> else x1
                     | None \<Rightarrow> x1)
           in signalLANReady x2)"

text \<open>
  \<open>offerLAN\<close>, cut where it can wait: the registration, the offer over the control stream, the select.
  The randomness is given, or fails.
\<close>

definition offerLAN_register :: "nat \<Rightarrow> bytes option \<Rightarrow> lan_session \<Rightarrow> lan \<Rightarrow> lan" where
  "offerLAN_register n rnd x s =
     (if \<not> lanServer x \<or> peerID x = '''' then set_session n (\<lambda>x. x\<lparr>offer := OfferDone\<rparr>) s
      else case rnd of
        None \<Rightarrow> set_session n (\<lambda>x. x\<lparr>offer := OfferDone\<rparr>) s
      | Some ch \<Rightarrow> RegisterPending (peerID x) ch n (set_session n (\<lambda>x. x\<lparr>challenge := ch, offer := Offering\<rparr>) s))"

definition offerLAN_send :: "nat \<Rightarrow> bool \<Rightarrow> lan_session \<Rightarrow> lan \<Rightarrow> lan" where
  "offerLAN_send n sent x s =
     (if sent then set_session n (\<lambda>x. x\<lparr>offer := Waiting\<rparr>) s
      else UnregisterPending (peerID x) (set_session n (\<lambda>x. x\<lparr>offer := OfferDone\<rparr>) s))"

definition offerLAN_verified :: "nat \<Rightarrow> nat \<Rightarrow> lan_session \<Rightarrow> lan \<Rightarrow> lan" where
  "offerLAN_verified n k x s =
     UnregisterPending (peerID x)
       (set_session n (\<lambda>x. swapTransport (Some (OnLAN k)) (x\<lparr>verified := None, offer := OfferDone\<rparr>)) s)"

definition offerLAN_timeout :: "nat \<Rightarrow> lan_session \<Rightarrow> lan \<Rightarrow> lan" where
  "offerLAN_timeout n x s = UnregisterPending (peerID x) (set_session n (\<lambda>x. x\<lparr>offer := OfferDone\<rparr>) s)"

text \<open>The client dials only an offer with an address and a challenge, and presents that challenge.\<close>

definition handleLANOffer :: "lanOffer \<Rightarrow> string \<Rightarrow> lanVerify option" where
  "handleLANOffer off clientID =
     (if OfferAddr off = '''' \<or> length (OfferChallenge off) = 0 then None
      else Some \<lparr>VerifyChallenge = OfferChallenge off, VerifyInstanceID = clientID\<rparr>)"

text \<open>The end of \<open>dialLAN\<close> and of \<open>handleLANOffer\<close>: only the reply \<open>ok\<close> gives a transport.\<close>

definition dialLAN_confirm :: "nat \<Rightarrow> string option \<Rightarrow> carrier option" where
  "dialLAN_confirm k resp = (if resp \<noteq> Some ''ok'' then None else Some (OnLAN k))"

text \<open>What \<open>Accept\<close> and \<open>Connect\<close> set of a new session.\<close>

definition accepted_session :: "bool \<Rightarrow> string \<Rightarrow> lan_session" where
  "accepted_session lan peer =
     \<lparr>lanServer = lan, preferLAN = False, localID = '''', peerID = peer, challenge = [], offer = NotOffered, verified = None,
      transport = Some OnRelay, ownsTransport = True, onLAN = False,
      lanReady = (if lan then Some False else None), lanReadyOnce = False, closeOnce = False, retired = []\<rparr>"

definition connected_session :: "bool \<Rightarrow> string \<Rightarrow> string \<Rightarrow> lan_session" where
  "connected_session prefer local_id peer =
     \<lparr>lanServer = False, preferLAN = prefer, localID = (if prefer then local_id else ''''), peerID = peer, challenge = [],
      offer = NotOffered, verified = None, transport = Some OnRelay, ownsTransport = True, onLAN = False,
      lanReady = (if prefer then Some False else None), lanReadyOnce = False, closeOnce = False, retired = []\<rparr>"

section \<open>The interleaved system\<close>

definition set_client :: "nat \<Rightarrow> (lan_session \<Rightarrow> lan_session) \<Rightarrow> lan \<Rightarrow> lan" where
  "set_client c f s = s\<lparr>clients := (clients s)(c := map_option f (clients s c))\<rparr>"

inductive lan_step :: "lan \<Rightarrow> lan \<Rightarrow> bool" where
  accept: "sessions s n = None \<Longrightarrow> lan_step s (s\<lparr>sessions := (sessions s)(n \<mapsto> accepted_session on peer)\<rparr>)"
| connect: "clients s c = None \<Longrightarrow> lan_step s (s\<lparr>clients := (clients s)(c \<mapsto> connected_session prefer me peer)\<rparr>)"
| register: "sessions s n = Some x \<Longrightarrow> offer x = NotOffered \<Longrightarrow> lan_step s (offerLAN_register n rnd x s)"
| send: "sessions s n = Some x \<Longrightarrow> offer x = Offering \<Longrightarrow> lan_step s (offerLAN_send n sent x s)"
| swap: "sessions s n = Some x \<Longrightarrow> offer x = Waiting \<Longrightarrow> verified x = Some k \<Longrightarrow> lan_step s (offerLAN_verified n k x s)"
| timeout: "sessions s n = Some x \<Longrightarrow> offer x = Waiting \<Longrightarrow> lan_step s (offerLAN_timeout n x s)"
| close: "sessions s n = Some x \<Longrightarrow> lan_step s (set_session n Close_carrier s)"
| close_client: "clients s c = Some x \<Longrightarrow> lan_step s (set_client c Close_carrier s)"
| stranger: "dials s k = None \<Longrightarrow> lan_step s (handleConn_read k None stream s)"
| client_dials: "dials s k = None \<Longrightarrow> clients s c = Some x \<Longrightarrow> preferLAN x \<Longrightarrow>
    handleLANOffer off (localID x) = Some v \<Longrightarrow> lan_step s (handleConn_read k (Some c) (Some (Some (Some v))) s)"
| lookup: "dials s k = Some d \<Longrightarrow> dial d = Arrived \<Longrightarrow> lan_step s (handleConn_lookup k (verify d) s)"
| check: "dials s k = Some d \<Longrightarrow> dial d = Checking p \<Longrightarrow> lan_step s (handleConn_check k (verify d) p write_ok s)"
| callback: "dials s k = Some d \<Longrightarrow> dial d = Confirmed p \<Longrightarrow> lan_step s (onVerify k p s)"
| client_swaps: "dials s k = Some d \<Longrightarrow> dialer d = Some c \<Longrightarrow> reply d \<noteq> None \<Longrightarrow> \<not> reply_read d \<Longrightarrow>
    lan_step s (set_client c (swapTransport (dialLAN_confirm k (reply d))) (set_dial k (\<lambda>d. d\<lparr>reply_read := True\<rparr>) s))"

definition newLAN :: lan where
  "newLAN = \<lparr>conns = Map.empty, sessions = Map.empty, clients = Map.empty, dials = Map.empty\<rparr>"

section \<open>Invariant\<close>

fun dial_pend :: "dial_pc \<Rightarrow> pendingLAN option" where
  "dial_pend (Checking p) = Some p"
| "dial_pend (Confirmed p) = Some p"
| "dial_pend (Verified p) = Some p"
| "dial_pend _ = None"

fun passed :: "dial_pc \<Rightarrow> bool" where
  "passed (Confirmed p) = True"
| "passed (Verified p) = True"
| "passed _ = False"

text \<open>A pending entry found under a name is the one its session registered for its peer.\<close>

definition pend_ok :: "lan \<Rightarrow> pendingLAN \<Rightarrow> string \<Rightarrow> bool" where
  "pend_ok s p peer \<longleftrightarrow>
     (\<exists>x. sessions s (pend_session p) = Some x \<and> peerID x = peer \<and> challenge x = pend_challenge p \<and> offer x \<noteq> NotOffered)"

definition table_ok :: "lan \<Rightarrow> bool" where
  "table_ok s \<longleftrightarrow> (\<forall>peer p. conns s peer = Some p \<longrightarrow> pend_ok s p peer)"

definition dials_ok :: "lan \<Rightarrow> bool" where
  "dials_ok s \<longleftrightarrow>
     (\<forall>k d p. dials s k = Some d \<and> dial_pend (dial d) = Some p \<longrightarrow>
        pend_ok s p (VerifyInstanceID (verify d)) \<and>
        (passed (dial d) \<longrightarrow> VerifyChallenge (verify d) = pend_challenge p)) \<and>
     (\<forall>k d. dials s k = Some d \<and> reply d \<noteq> None \<longrightarrow> passed (dial d))"

text \<open>An entry is in the table or with one dial, never twice.\<close>

definition once_ok :: "lan \<Rightarrow> bool" where
  "once_ok s \<longleftrightarrow>
     (\<forall>peer p k d q. conns s peer = Some p \<and> dials s k = Some d \<and> dial_pend (dial d) = Some q \<longrightarrow> pend_session p \<noteq> pend_session q) \<and>
     (\<forall>k d p k' d' p'. dials s k = Some d \<and> dial_pend (dial d) = Some p \<and> dials s k' = Some d' \<and> dial_pend (dial d') = Some p' \<and>
        pend_session p = pend_session p' \<longrightarrow> k = k')"

definition holds :: "lan_session \<Rightarrow> nat \<Rightarrow> bool" where
  "holds x k \<longleftrightarrow> verified x = Some k \<or> transport x = Some (OnLAN k)"

definition carriers_ok :: "lan \<Rightarrow> bool" where
  "carriers_ok s \<longleftrightarrow>
     (\<forall>n x k. sessions s n = Some x \<and> holds x k \<longrightarrow>
        (\<exists>d p. dials s k = Some d \<and> dial d = Verified p \<and> pend_session p = n))"

definition lan_inv :: "lan \<Rightarrow> bool" where
  "lan_inv s \<longleftrightarrow> table_ok s \<and> dials_ok s \<and> once_ok s \<and> carriers_ok s"

lemmas lan_inv_defs = lan_inv_def table_ok_def dials_ok_def once_ok_def carriers_ok_def

lemma set_parts [simp]:
  "conns (set_dial k f s) = conns s" "sessions (set_dial k f s) = sessions s" "clients (set_dial k f s) = clients s"
  "dials (set_dial k f s) = (dials s)(k := map_option f (dials s k))"
  "conns (set_session n g s) = conns s" "dials (set_session n g s) = dials s" "clients (set_session n g s) = clients s"
  "sessions (set_session n g s) = (sessions s)(n := map_option g (sessions s n))"
  "conns (set_client n g s) = conns s" "dials (set_client n g s) = dials s" "sessions (set_client n g s) = sessions s"
  "clients (set_client n g s) = (clients s)(n := map_option g (clients s n))"
  "conns (UnregisterPending peer s) = (conns s)(peer := None)" "dials (UnregisterPending peer s) = dials s"
  "sessions (UnregisterPending peer s) = sessions s" "clients (UnregisterPending peer s) = clients s"
  by (simp_all add: set_dial_def set_session_def set_client_def UnregisterPending_def)

lemma signal_parts [simp]:
  "peerID (signalLANReady x) = peerID x" "challenge (signalLANReady x) = challenge x" "offer (signalLANReady x) = offer x"
  "verified (signalLANReady x) = verified x" "transport (signalLANReady x) = transport x" "onLAN (signalLANReady x) = onLAN x"
  "retired (signalLANReady x) = retired x" "closeOnce (signalLANReady x) = closeOnce x"
  by (simp_all add: signalLANReady_def)

lemma swap_parts [simp]:
  "peerID (swapTransport tr x) = peerID x" "challenge (swapTransport tr x) = challenge x" "offer (swapTransport tr x) = offer x"
  "verified (swapTransport tr x) = verified x" "closeOnce (swapTransport tr x) = closeOnce x"
  by (simp_all add: swapTransport_def Let_def split: option.split)

lemma swap_transport:
  "transport (swapTransport tr x) = (if tr = None \<or> onLAN x then transport x else tr)"
  by (simp add: swapTransport_def Let_def split: option.split)

lemma close_parts [simp]:
  "peerID (Close_carrier x) = peerID x" "challenge (Close_carrier x) = challenge x" "offer (Close_carrier x) = offer x"
  "verified (Close_carrier x) = verified x" "onLAN (Close_carrier x) = onLAN x"
  by (simp_all add: Close_carrier_def Let_def split: option.split)

lemma close_transport: "transport (Close_carrier x) = (if closeOnce x then transport x else None)"
  by (simp add: Close_carrier_def Let_def split: option.split)

text \<open>A session may change as long as it keeps its registration and takes no carrier it was not handed.\<close>

definition tame :: "(lan_session \<Rightarrow> lan_session) \<Rightarrow> lan_session \<Rightarrow> bool" where
  "tame f x \<longleftrightarrow> peerID (f x) = peerID x \<and> challenge (f x) = challenge x \<and>
     (offer x \<noteq> NotOffered \<longrightarrow> offer (f x) \<noteq> NotOffered) \<and> (\<forall>k. holds (f x) k \<longrightarrow> holds x k)"

lemma pend_ok_tame:
  assumes "pend_ok s p peer" "sessions s n = Some x" "tame f x"
  shows "pend_ok (set_session n f s) p peer"
  using assms by (auto simp: pend_ok_def tame_def)

lemma inv_tame:
  assumes "lan_inv s" "sessions s n = Some x" "tame f x"
  shows "lan_inv (set_session n f s)"
  unfolding lan_inv_def
proof (intro conjI)
  note kept = pend_ok_tame [OF _ assms(2,3)]
  show "table_ok (set_session n f s)"
    using assms(1) kept by (simp add: table_ok_def lan_inv_def)
  have "dials_ok s" "once_ok s" using assms(1) by (simp_all add: lan_inv_def)
  then show "dials_ok (set_session n f s)" "once_ok (set_session n f s)"
    using kept unfolding dials_ok_def once_ok_def set_parts by blast+
  show "carriers_ok (set_session n f s)"
    using assms by (auto simp: carriers_ok_def lan_inv_def tame_def)
qed

lemma inv_unregister: "lan_inv s \<Longrightarrow> lan_inv (UnregisterPending peer s)"
  unfolding lan_inv_defs pend_ok_def set_parts fun_upd_apply by (auto split: if_splits; blast)

lemma inv_clients_any: "lan_inv s \<Longrightarrow> lan_inv (s\<lparr>clients := cs\<rparr>)"
  by (simp add: lan_inv_defs pend_ok_def; blast)

lemma inv_client: "lan_inv s \<Longrightarrow> lan_inv (set_client c f s)"
  unfolding set_client_def by (rule inv_clients_any)

lemma inv_session_new:
  assumes "lan_inv s" "sessions s n = None" "\<And>k. \<not> holds x k"
  shows "lan_inv (s\<lparr>sessions := (sessions s)(n \<mapsto> x)\<rparr>)"
proof -
  let ?s = "s\<lparr>sessions := (sessions s)(n \<mapsto> x)\<rparr>"
  have kept: "pend_ok s p peer \<Longrightarrow> pend_ok ?s p peer" for p peer
    using assms(2) by (auto simp: pend_ok_def)
  have parts: "conns ?s = conns s" "dials ?s = dials s" by simp_all
  have i: "table_ok s" "dials_ok s" "once_ok s" "carriers_ok s" using assms(1) by (simp_all add: lan_inv_def)
  have "table_ok ?s" using i(1) kept unfolding table_ok_def parts by blast
  moreover have "dials_ok ?s" using i(2) kept unfolding dials_ok_def parts by blast
  moreover have "once_ok ?s" using i(3) unfolding once_ok_def parts by blast
  moreover have "carriers_ok ?s" using i(4) assms(3) by (auto simp: carriers_ok_def)
  ultimately show ?thesis by (simp add: lan_inv_def)
qed

lemma no_reply_before_passing:
  assumes "dials_ok s" "dials s k = Some d" "\<not> passed (dial d)"
  shows "reply d = None"
  using assms unfolding dials_ok_def by blast

lemma fresh_unused:
  assumes "lan_inv s" "sessions s n = Some x" "offer x = NotOffered"
  shows "conns s peer = Some p \<Longrightarrow> pend_session p \<noteq> n"
    and "dials s k = Some d \<Longrightarrow> dial_pend (dial d) = Some p \<Longrightarrow> pend_session p \<noteq> n"
  using assms unfolding lan_inv_defs pend_ok_def by (metis option.inject)+

lemma inv_register:
  assumes inv: "lan_inv s" and x: "sessions s n = Some x" "offer x = NotOffered"
  shows "lan_inv (offerLAN_register n rnd x s)"
proof -
  have fin: "lan_inv (set_session n (\<lambda>x. x\<lparr>offer := OfferDone\<rparr>) s)"
    by (rule inv_tame [OF inv x(1)]) (simp add: tame_def holds_def)
  have "lan_inv (RegisterPending (peerID x) ch n (set_session n (\<lambda>x. x\<lparr>challenge := ch, offer := Offering\<rparr>) s))"
    if "peerID x \<noteq> ''''" for ch
  proof -
    let ?f = "\<lambda>x. x\<lparr>challenge := ch, offer := Offering\<rparr>"
    let ?s = "RegisterPending (peerID x) ch n (set_session n ?f s)"
    let ?new = "\<lparr>pend_challenge = ch, pend_session = n\<rparr>"
    note unused = fresh_unused [OF inv x]
    have parts: "sessions ?s = (sessions s)(n \<mapsto> ?f x)" "dials ?s = dials s" "conns ?s = (conns s)(peerID x \<mapsto> ?new)"
      using that x(1) by (simp_all add: RegisterPending_def)
    have kept: "pend_ok s p peer \<Longrightarrow> pend_session p \<noteq> n \<Longrightarrow> pend_ok ?s p peer" for p peer
      by (simp add: pend_ok_def parts)
    have new: "pend_ok ?s ?new (peerID x)" by (simp add: pend_ok_def parts)
    have held: "holds (?f x) k = holds x k" for k by (simp add: holds_def)
    have i: "table_ok s" "dials_ok s" "once_ok s" "carriers_ok s" using inv by (simp_all add: lan_inv_def)
    have "table_ok ?s" using i(1) kept new unused(1) by (auto simp: table_ok_def parts)
    moreover have "dials_ok ?s" using i(2) kept unused(2) unfolding dials_ok_def parts by blast
    moreover have "once_ok ?s" using i(3) unused(2) unfolding once_ok_def parts
      by (metis fun_upd_apply option.inject pendingLAN.select_convs(2))
    moreover have "carriers_ok ?s" using i(4) x(1) held unfolding carriers_ok_def parts
      by (metis fun_upd_apply option.inject)
    ultimately show ?thesis by (simp add: lan_inv_def)
  qed
  with fin show ?thesis by (simp add: offerLAN_register_def split: option.split)
qed

lemma pend_ok_sessions: "sessions s' = sessions s \<Longrightarrow> pend_ok s' p peer = pend_ok s p peer"
  by (simp add: pend_ok_def)

text \<open>A dial that holds no entry after the step: it is new, or refused.\<close>

lemma inv_dial_none:
  assumes "lan_inv s" "dial_pend (dial d) = None" "reply d = None"
    and "\<And>d'. dials s k = Some d' \<Longrightarrow> \<not> passed (dial d')"
  shows "lan_inv (s\<lparr>dials := (dials s)(k \<mapsto> d)\<rparr>)"
proof -
  let ?s = "s\<lparr>dials := (dials s)(k \<mapsto> d)\<rparr>"
  have [simp]: "pend_ok ?s = pend_ok s" by (intro ext) (simp add: pend_ok_def)
  have i: "table_ok s" "dials_ok s" "once_ok s" "carriers_ok s" using assms(1) by (simp_all add: lan_inv_def)
  have "table_ok ?s" using i(1) by (simp add: table_ok_def)
  moreover have "dials_ok ?s" using i(2) assms(2,3) by (auto simp: dials_ok_def)
  moreover have "once_ok ?s" using i(3) assms(2) unfolding once_ok_def by (auto; metis)
  moreover have "carriers_ok ?s" using i(4) assms(4) unfolding carriers_ok_def
    by (auto; metis passed.simps(2))
  ultimately show ?thesis by (simp add: lan_inv_def)
qed

text \<open>A dial that moves on with the entry it has.\<close>

lemma inv_dial_keep:
  assumes "lan_inv s" "dials s k = Some d" "dial_pend (dial d) = Some p" "dial_pend (dial d') = Some p" "verify d' = verify d"
    and "passed (dial d') \<Longrightarrow> VerifyChallenge (verify d) = pend_challenge p" "reply d' \<noteq> None \<Longrightarrow> passed (dial d')"
    and "dial d = Verified p \<Longrightarrow> dial d' = Verified p"
  shows "lan_inv (s\<lparr>dials := (dials s)(k \<mapsto> d')\<rparr>)"
proof -
  let ?s = "s\<lparr>dials := (dials s)(k \<mapsto> d')\<rparr>"
  have [simp]: "pend_ok ?s = pend_ok s" by (intro ext) (simp add: pend_ok_def)
  have i: "table_ok s" "dials_ok s" "once_ok s" "carriers_ok s" using assms(1) by (simp_all add: lan_inv_def)
  have "table_ok ?s" using i(1) by (simp add: table_ok_def)
  moreover have "dials_ok ?s" using i(2) assms(2-7) by (auto simp: dials_ok_def)
  moreover have "once_ok ?s" using i(3) assms(2-4) unfolding once_ok_def by (auto split: if_splits; metis)
  moreover have "carriers_ok ?s" using i(4) assms(2,3,8) unfolding carriers_ok_def
    by (auto; metis dial_pend.simps(3) option.inject)
  ultimately show ?thesis by (simp add: lan_inv_def)
qed

lemma inv_lookup:
  assumes inv: "lan_inv s" and d: "dials s k = Some d" "dial d = Arrived"
  shows "lan_inv (handleConn_lookup k (verify d) s)"
proof (cases "conns s (VerifyInstanceID (verify d))")
  case None
  have "reply d = None" using no_reply_before_passing [OF _ d(1)] inv d(2) by (simp add: lan_inv_def)
  with None d inv show ?thesis
    by (auto simp: handleConn_lookup_def set_dial_def intro!: inv_dial_none)
next
  case (Some p)
  let ?s = "handleConn_lookup k (verify d) s"
  let ?d = "d\<lparr>dial := Checking p\<rparr>"
  have parts: "sessions ?s = sessions s" "dials ?s = (dials s)(k \<mapsto> ?d)" "conns ?s = (conns s)(VerifyInstanceID (verify d) := None)"
    using Some d by (simp_all add: handleConn_lookup_def set_dial_def)
  note po [simp] = pend_ok_sessions [OF parts(1)]
  have i: "table_ok s" "dials_ok s" "once_ok s" "carriers_ok s" using inv by (simp_all add: lan_inv_def)
  have ok: "pend_ok s p (VerifyInstanceID (verify d))" using i(1) Some by (simp add: table_ok_def)
  have apart: "pend_session q \<noteq> pend_session p" if "conns s peer = Some q" "peer \<noteq> VerifyInstanceID (verify d)" for peer q
    using i(1) that ok unfolding table_ok_def pend_ok_def by (metis option.inject)
  have "reply d = None" using no_reply_before_passing [OF i(2) d(1)] d(2) by simp
  then have "dials_ok ?s" using i(2) ok by (auto simp: dials_ok_def parts)
  moreover have "table_ok ?s" using i(1) by (simp add: table_ok_def parts)
  moreover have "once_ok ?s" using i(3) Some apart unfolding once_ok_def parts by (auto split: if_splits; metis)
  moreover have "carriers_ok ?s" using i(4) d unfolding carriers_ok_def parts by (auto; metis dial_pc.distinct(5) option.inject)
  ultimately show ?thesis by (simp add: lan_inv_def)
qed

lemma inv_check:
  assumes inv: "lan_inv s" and d: "dials s k = Some d" "dial d = Checking p"
  shows "lan_inv (handleConn_check k (verify d) p write_ok s)"
proof -
  have none: "reply d = None" using no_reply_before_passing [OF _ d(1)] inv d(2) by (simp add: lan_inv_def)
  have refuse: "lan_inv (set_dial k (\<lambda>d. d\<lparr>dial := Refused why\<rparr>) s)" for why
    using none d inv by (auto simp: set_dial_def intro!: inv_dial_none)
  have "lan_inv (set_dial k (\<lambda>d. d\<lparr>dial := Confirmed p, reply := Some ''ok''\<rparr>) s)"
    if "challengeEqual (pend_challenge p) (VerifyChallenge (verify d))"
    using that d inv by (auto simp: set_dial_def challengeEqual_def split: if_splits intro!: inv_dial_keep)
  with refuse show ?thesis by (simp add: handleConn_check_def)
qed

text \<open>The callback hands the connection to the session that registered the challenge.\<close>

lemma inv_callback:
  assumes inv: "lan_inv s" and d: "dials s k = Some d" "dial d = Confirmed p"
  shows "lan_inv (onVerify k p s)"
proof -
  let ?d = "d\<lparr>dial := Verified p\<rparr>"
  let ?s = "s\<lparr>dials := (dials s)(k \<mapsto> ?d)\<rparr>"
  let ?f = "\<lambda>x. case verified x of None \<Rightarrow> x\<lparr>verified := Some k\<rparr> | Some _ \<Rightarrow> x"
  have same: "onVerify k p s = set_session (pend_session p) ?f ?s"
    using d by (simp add: onVerify_def set_dial_def set_session_def)
  have "pend_ok s p (VerifyInstanceID (verify d)) \<and> VerifyChallenge (verify d) = pend_challenge p"
    using inv d unfolding lan_inv_def dials_ok_def by (metis dial_pend.simps(2) passed.simps(1))
  then obtain x where x: "sessions s (pend_session p) = Some x" and ch: "VerifyChallenge (verify d) = pend_challenge p"
    by (auto simp: pend_ok_def)
  have inv': "lan_inv ?s" using inv d ch by (auto intro!: inv_dial_keep)
  let ?t = "set_session (pend_session p) ?f ?s"
  have kept: "pend_ok ?s q peer \<Longrightarrow> pend_ok ?t q peer" for q peer
    using x by (auto simp: pend_ok_def split: option.split)
  have i: "table_ok ?s" "dials_ok ?s" "once_ok ?s" "carriers_ok ?s" using inv' by (simp_all add: lan_inv_def)
  have "table_ok ?t" using i(1) kept unfolding table_ok_def set_parts by blast
  moreover have "dials_ok ?t" using i(2) kept unfolding dials_ok_def set_parts by blast
  moreover have "once_ok ?t" using i(3) unfolding once_ok_def set_parts by blast
  moreover have "carriers_ok ?t" unfolding carriers_ok_def
  proof (intro allI impI)
    fix n y j
    assume a: "sessions ?t n = Some y \<and> holds y j"
    show "\<exists>d p. dials ?t j = Some d \<and> dial d = Verified p \<and> pend_session p = n"
    proof (cases "\<exists>z. sessions ?s n = Some z \<and> holds z j")
      case True
      then show ?thesis using i(4) unfolding carriers_ok_def set_parts by blast
    next
      case False
      then have "n = pend_session p \<and> j = k" using a x by (auto simp: holds_def split: option.splits if_splits)
      then show ?thesis by simp
    qed
  qed
  ultimately show ?thesis by (simp add: same lan_inv_def)
qed

lemma inv_swap:
  assumes inv: "lan_inv s" and x: "sessions s n = Some x" "offer x = Waiting" "verified x = Some k"
  shows "lan_inv (offerLAN_verified n k x s)"
  unfolding offerLAN_verified_def using x
  by (intro inv_unregister inv_tame [OF inv]) (auto simp: tame_def holds_def swap_transport split: if_splits)

lemma lan_inv_step:
  assumes "lan_inv s" "lan_step s s'"
  shows "lan_inv s'"
  using assms(2)
proof cases
  case (stranger k stream)
  then show ?thesis using assms(1)
    by (auto simp: handleConn_read_def Let_def split: option.split intro!: inv_dial_none)
next
  case (client_dials k c x off v)
  then show ?thesis using assms(1) by (auto simp: handleConn_read_def Let_def intro!: inv_dial_none)
next
  case (send n x sent)
  have "lan_inv (set_session n (\<lambda>x. x\<lparr>offer := pc\<rparr>) s)" if "pc \<noteq> NotOffered" for pc
    using that by (intro inv_tame [OF assms(1) send(2)]) (simp add: tame_def holds_def)
  then show ?thesis using send by (simp add: offerLAN_send_def inv_unregister)
next
  case (client_swaps k d c)
  have ok: "dials_ok s" using assms(1) by (simp add: lan_inv_def)
  then have pass: "passed (dial d)" using client_swaps(2,4) unfolding dials_ok_def by blast
  then obtain p where p: "dial_pend (dial d) = Some p" by (cases "dial d") simp_all
  have "VerifyChallenge (verify d) = pend_challenge p" using ok client_swaps(2) p pass unfolding dials_ok_def by blast
  then have "lan_inv (set_dial k (\<lambda>d. d\<lparr>reply_read := True\<rparr>) s)"
    using client_swaps(2) p pass by (auto simp: set_dial_def intro!: inv_dial_keep [OF assms(1)])
  then show ?thesis by (simp add: client_swaps(1) inv_client)
next
  case (connect c pref me peer)
  then show ?thesis by (simp add: inv_clients_any [OF assms(1)])
qed (use assms(1) in \<open>auto simp: inv_swap inv_check inv_lookup inv_callback inv_register inv_client offerLAN_timeout_def
       accepted_session_def holds_def tame_def close_transport intro!: inv_session_new inv_unregister inv_tame split: if_splits\<close>)

interpretation lan: inv_system "\<lambda>s. s = newLAN" lan_step lan_inv
proof
  show "s = newLAN \<Longrightarrow> lan_inv s" for s by (simp add: newLAN_def lan_inv_defs)
  show "lan_inv s \<Longrightarrow> lan_step s s' \<Longrightarrow> lan_inv s'" for s s' by (rule lan_inv_step)
qed

section \<open>A session moves only to a dial that answered its challenge\<close>

lemma carrier_dial:
  assumes "lan_inv s" "sessions s n = Some x" "transport x = Some (OnLAN k)"
  obtains d p where "dials s k = Some d" "dial d = Verified p" "pend_session p = n"
    "VerifyInstanceID (verify d) = peerID x" "VerifyChallenge (verify d) = challenge x"
proof -
  have i: "dials_ok s" "carriers_ok s" using assms(1) by (simp_all add: lan_inv_def)
  have "holds x k" using assms(3) by (simp add: holds_def)
  then obtain d p where d: "dials s k = Some d" "dial d = Verified p" "pend_session p = n"
    using i(2) assms(2) unfolding carriers_ok_def by blast
  have "pend_ok s p (VerifyInstanceID (verify d)) \<and> VerifyChallenge (verify d) = pend_challenge p"
    using i(1) d(1,2) unfolding dials_ok_def by (metis dial_pend.simps(3) passed.simps(2))
  then have "VerifyInstanceID (verify d) = peerID x" "VerifyChallenge (verify d) = challenge x"
    using d(3) assms(2) by (auto simp: pend_ok_def)
  with d that show thesis by blast
qed

text \<open>
  (C21) In every interleaving of sessions, offers, timeouts and dials, honest or not: a backend session
  carried by the direct connection \<open>k\<close> has that connection from a dialer that presented the identity
  of the session's peer and exactly the challenge this session registered; no other session is
  carried by \<open>k\<close>, and no other dial was ever confirmed against this session's challenge entry.
\<close>

theorem lan_swap_needs_challenge:
  assumes "lan_step\<^sup>*\<^sup>* newLAN s" "sessions s n = Some x" "transport x = Some (OnLAN k)"
  shows "\<exists>d p. dials s k = Some d \<and> dial d = Verified p \<and>
           VerifyInstanceID (verify d) = peerID x \<and> VerifyChallenge (verify d) = challenge x \<and>
           (\<forall>n' x'. sessions s n' = Some x' \<and> transport x' = Some (OnLAN k) \<longrightarrow> n' = n) \<and>
           (\<forall>k' d' p'. dials s k' = Some d' \<and> dial_pend (dial d') = Some p' \<and> pend_session p' = n \<longrightarrow> k' = k)"
proof -
  have inv: "lan_inv s" using lan.reachable [OF refl assms(1)] .
  obtain d p where d: "dials s k = Some d" "dial d = Verified p" "pend_session p = n"
    "VerifyInstanceID (verify d) = peerID x" "VerifyChallenge (verify d) = challenge x"
    using carrier_dial [OF inv assms(2,3)] .
  have "n' = n" if "sessions s n' = Some x'" "transport x' = Some (OnLAN k)" for n' x'
    using carrier_dial [OF inv that] d(1-3) by (metis dial_pc.inject(3) option.inject)
  moreover have "k' = k" if "dials s k' = Some d'" "dial_pend (dial d') = Some p'" "pend_session p' = n" for k' d' p'
    using inv that d(1-3) unfolding lan_inv_def once_ok_def by (metis dial_pend.simps(3))
  ultimately show ?thesis using d by blast
qed

section \<open>A run of the upgrade\<close>

text \<open>
  Session 0 of peer \<open>c\<close> is accepted and client 0 connects, the offer is registered and sent, the client
  dials as connection 0, and the LAN server confirms. From there the backend takes the connection,
  or its timer fires first.
\<close>

definition upgrade_challenge :: bytes where
  "upgrade_challenge = replicate 32 7"

definition upgrade_offer :: lanOffer where
  "upgrade_offer = \<lparr>OfferAddr = ''lan'', OfferChallenge = upgrade_challenge, OfferCertHash = []\<rparr>"

definition upgrade_verify :: lanVerify where
  "upgrade_verify = \<lparr>VerifyChallenge = upgrade_challenge, VerifyInstanceID = ''c''\<rparr>"

definition upgrade_pending :: pendingLAN where
  "upgrade_pending = \<lparr>pend_challenge = upgrade_challenge, pend_session = 0\<rparr>"

definition offered_session :: lan_session where
  "offered_session = (accepted_session True ''c'')\<lparr>challenge := upgrade_challenge, offer := Waiting\<rparr>"

definition offered :: lan where
  "offered = \<lparr>conns = [''c'' \<mapsto> upgrade_pending], sessions = [0 \<mapsto> offered_session],
     clients = [0 \<mapsto> connected_session True ''c'' ''b''], dials = Map.empty\<rparr>"

definition dialled :: "dial_pc \<Rightarrow> string option \<Rightarrow> lan" where
  "dialled pc r = offered\<lparr>conns := Map.empty,
     dials := [0 \<mapsto> \<lparr>dialer = Some 0, verify = upgrade_verify, dial = pc, reply = r, reply_read = False\<rparr>]\<rparr>"

lemmas upgrade_defs = newLAN_def offered_def offered_session_def dialled_def upgrade_pending_def upgrade_verify_def
  accepted_session_def offerLAN_register_def offerLAN_send_def RegisterPending_def set_session_def set_dial_def
  handleConn_read_def handleConn_lookup_def handleConn_check_def challengeEqual_def

lemma steps_then: "lan_step\<^sup>*\<^sup>* a b \<Longrightarrow> lan_step b c \<Longrightarrow> lan_step c d \<Longrightarrow> lan_step\<^sup>*\<^sup>* a d"
  by (simp add: rtranclp.rtrancl_into_rtrancl)

lemma offered_reachable: "lan_step\<^sup>*\<^sup>* newLAN offered"
proof -
  let ?a = "newLAN\<lparr>sessions := (sessions newLAN)(0 \<mapsto> accepted_session True ''c'')\<rparr>"
  let ?b = "?a\<lparr>clients := (clients ?a)(0 \<mapsto> connected_session True ''c'' ''b'')\<rparr>"
  let ?c = "offerLAN_register 0 (Some upgrade_challenge) (accepted_session True ''c'') ?b"
  let ?x = "(accepted_session True ''c'')\<lparr>challenge := upgrade_challenge, offer := Offering\<rparr>"
  have a: "lan_step newLAN ?a" by (rule lan_step.accept) (simp add: newLAN_def)
  have b: "lan_step ?a ?b" by (rule lan_step.connect) (simp add: newLAN_def)
  have c: "lan_step ?b ?c" by (rule lan_step.register) (simp_all add: accepted_session_def)
  have d: "lan_step ?c (offerLAN_send 0 True ?x ?c)" by (rule lan_step.send) (simp_all add: upgrade_defs)
  have "offerLAN_send 0 True ?x ?c = offered" by (simp add: upgrade_defs)
  with steps_then [OF steps_then [OF rtranclp.rtrancl_refl a b] c d] show ?thesis by (simp only:)
qed

lemma confirmed_reachable: "lan_step\<^sup>*\<^sup>* newLAN (dialled (Confirmed upgrade_pending) (Some ''ok''))"
proof -
  let ?a = "handleConn_read 0 (Some 0) (Some (Some (Some upgrade_verify))) offered"
  let ?d = "\<lambda>pc r. \<lparr>dialer = Some 0, verify = upgrade_verify, dial = pc, reply = r, reply_read = False\<rparr>"
  let ?k = "dialled (Checking upgrade_pending) None"
  have a: "lan_step offered ?a"
    by (rule lan_step.client_dials [of _ _ 0 "connected_session True ''c'' ''b''" upgrade_offer])
      (simp_all add: offered_def connected_session_def handleLANOffer_def upgrade_offer_def upgrade_verify_def upgrade_challenge_def)
  have "dials ?a 0 = Some (?d Arrived None)" by (simp add: handleConn_read_def)
  from lan_step.lookup [OF this] have "lan_step ?a (handleConn_lookup 0 upgrade_verify ?a)" by simp
  moreover have "handleConn_lookup 0 upgrade_verify ?a = ?k" by (simp add: upgrade_defs)
  ultimately have b: "lan_step ?a ?k" by (simp only:)
  have "dials ?k 0 = Some (?d (Checking upgrade_pending) None)" by (simp add: dialled_def)
  from lan_step.check [OF this, of upgrade_pending True]
  have c: "lan_step ?k (handleConn_check 0 upgrade_verify upgrade_pending True ?k)" by simp
  have d: "handleConn_check 0 upgrade_verify upgrade_pending True ?k = dialled (Confirmed upgrade_pending) (Some ''ok'')"
    by (simp add: upgrade_defs)
  from c have "lan_step ?k (dialled (Confirmed upgrade_pending) (Some ''ok''))" unfolding d .
  with steps_then [OF offered_reachable a b] show ?thesis by (rule rtranclp.rtrancl_into_rtrancl)
qed

theorem lan_swap_needs_challenge_witness:
  "\<exists>s x d. lan_step\<^sup>*\<^sup>* newLAN s \<and> sessions s 0 = Some x \<and> transport x = Some (OnLAN 0) \<and> retired x = [OnRelay] \<and>
     LANReady x \<and> dials s 0 = Some d \<and> VerifyChallenge (verify d) = upgrade_challenge"
proof -
  let ?a = "dialled (Confirmed upgrade_pending) (Some ''ok'')"
  let ?b = "onVerify 0 upgrade_pending ?a"
  let ?x = "offered_session\<lparr>verified := Some 0\<rparr>"
  let ?c = "offerLAN_verified 0 0 ?x ?b"
  let ?y = "swapTransport (Some (OnLAN 0)) (offered_session\<lparr>verified := None, offer := OfferDone\<rparr>)"
  have a: "lan_step ?a ?b" by (rule lan_step.callback [of _ _ "the (dials ?a 0)"]) (simp_all add: dialled_def)
  have b: "lan_step ?b ?c"
    by (rule lan_step.swap) (simp_all add: onVerify_def dialled_def offered_def offered_session_def accepted_session_def upgrade_pending_def)
  note r = steps_then [OF confirmed_reachable a b]
  have y: "sessions ?c 0 = Some ?y"
    by (simp add: offerLAN_verified_def onVerify_def dialled_def offered_def upgrade_pending_def offered_session_def accepted_session_def)
  have t: "transport ?y = Some (OnLAN 0)" "retired ?y = [OnRelay]" "LANReady ?y" "challenge ?y = upgrade_challenge"
    by (simp_all add: swapTransport_def signalLANReady_def LANReady_def offered_session_def accepted_session_def)
  from lan_swap_needs_challenge [OF r y t(1)]
  obtain d where "dials ?c 0 = Some d" "VerifyChallenge (verify d) = challenge ?y" by blast
  with r y t show ?thesis by (intro exI [of _ ?c] exI [of _ ?y] exI [of _ d]) simp
qed

section \<open>The two ends can disagree\<close>

lemma finished_offer_stays:
  assumes "lan_step s s'" "sessions s n = Some x" "offer x = OfferDone"
  shows "\<exists>x'. sessions s' n = Some x' \<and> offer x' = OfferDone \<and> onLAN x' = onLAN x"
  using assms
proof cases
  case (callback k d p)
  then show ?thesis using assms(2,3)
    by (cases "verified x") (auto simp: onVerify_def)
qed (auto simp: offerLAN_register_def offerLAN_send_def offerLAN_verified_def offerLAN_timeout_def RegisterPending_def
      handleConn_read_def handleConn_lookup_def handleConn_check_def Let_def split: option.split)

lemma finished_offer_forever:
  "lan_step\<^sup>*\<^sup>* s s' \<Longrightarrow> sessions s n = Some x \<Longrightarrow> offer x = OfferDone \<Longrightarrow>
    \<exists>x'. sessions s' n = Some x' \<and> offer x' = OfferDone \<and> onLAN x' = onLAN x"
proof (induction rule: rtranclp_induct)
  case (step t u)
  then show ?case using finished_offer_stays by metis
qed simp

text \<open>
  (C40) The confirmation and the timer race. Once the LAN server has confirmed a client's dial, the
  backend's \<open>offerLAN\<close> may still time out before it takes the connection. The client then carries
  its session over the direct connection and closes the relay path, while the backend's end is
  never carried by a direct connection again, whatever happens afterwards.
\<close>

theorem late_confirmation_splits:
  assumes x: "sessions s n = Some x" "offer x = Waiting" "\<not> onLAN x"
    and d: "dials s k = Some d" "reply d = Some ''ok''" "dialer d = Some c" "\<not> reply_read d"
    and y: "clients s c = Some y" "\<not> onLAN y" "transport y = Some OnRelay"
  shows "\<exists>t y'. lan_step\<^sup>*\<^sup>* s t \<and>
    clients t c = Some y' \<and> UsingLAN y' \<and> transport y' = Some (OnLAN k) \<and> OnRelay \<in> set (retired y') \<and>
    (\<forall>u. lan_step\<^sup>*\<^sup>* t u \<longrightarrow> (\<exists>x'. sessions u n = Some x' \<and> \<not> UsingLAN x'))"
proof -
  let ?a = "offerLAN_timeout n x s"
  let ?t = "set_client c (swapTransport (dialLAN_confirm k (reply d))) (set_dial k (\<lambda>d. d\<lparr>reply_read := True\<rparr>) ?a)"
  have a: "lan_step s ?a" using x(1,2) by (rule lan_step.timeout)
  have b: "lan_step ?a ?t"
    by (rule lan_step.client_swaps) (use d in \<open>simp_all add: offerLAN_timeout_def\<close>)
  have c: "clients ?t c = Some (swapTransport (Some (OnLAN k)) y)"
    using y(1) d(2) by (simp add: offerLAN_timeout_def dialLAN_confirm_def)
  have "UsingLAN (swapTransport (Some (OnLAN k)) y)" "OnRelay \<in> set (retired (swapTransport (Some (OnLAN k)) y))"
    "transport (swapTransport (Some (OnLAN k)) y) = Some (OnLAN k)"
    using y(2,3) by (simp_all add: swapTransport_def UsingLAN_def)
  moreover have "sessions ?t n = Some (x\<lparr>offer := OfferDone\<rparr>)" using x(1) by (simp add: offerLAN_timeout_def)
  then have "lan_step\<^sup>*\<^sup>* ?t u \<Longrightarrow> \<exists>x'. sessions u n = Some x' \<and> \<not> UsingLAN x'" for u
    using finished_offer_forever [of ?t u n] x(3) by (auto simp: UsingLAN_def)
  ultimately show ?thesis using c steps_then [OF rtranclp.rtrancl_refl a b] by blast
qed

theorem late_confirmation_splits_witness:
  "\<exists>t y x. lan_step\<^sup>*\<^sup>* newLAN t \<and> clients t 0 = Some y \<and> UsingLAN y \<and> sessions t 0 = Some x \<and> \<not> UsingLAN x"
proof -
  let ?s = "dialled (Confirmed upgrade_pending) (Some ''ok'')"
  let ?d = "\<lparr>dialer = Some 0, verify = upgrade_verify, dial = Confirmed upgrade_pending, reply = Some ''ok'', reply_read = False\<rparr>"
  have "sessions ?s 0 = Some offered_session" "offer offered_session = Waiting" "\<not> onLAN offered_session"
    "dials ?s 0 = Some ?d" "reply ?d = Some ''ok''" "dialer ?d = Some 0" "\<not> reply_read ?d"
    "clients ?s 0 = Some (connected_session True ''c'' ''b'')" "\<not> onLAN (connected_session True ''c'' ''b'')"
    "transport (connected_session True ''c'' ''b'') = Some OnRelay"
    by (simp_all add: dialled_def offered_def offered_session_def accepted_session_def connected_session_def)
  from late_confirmation_splits [OF this] obtain t y where t: "lan_step\<^sup>*\<^sup>* ?s t"
    and "clients t 0 = Some y" "UsingLAN y" "\<exists>x. sessions t 0 = Some x \<and> \<not> UsingLAN x"
    by blast
  moreover have "lan_step\<^sup>*\<^sup>* newLAN t" using confirmed_reachable t by (rule rtranclp_trans)
  ultimately show ?thesis by blast
qed

section \<open>Pending entries that are lost\<close>

text \<open>
  The entry is deleted before the challenge is compared: one dial with the peer's identity and any
  other challenge is refused, and so is every later dial for this offer, the right one included.
\<close>

theorem wrong_challenge_burns_offer:
  assumes d: "dials s k = Some d" "dial d = Arrived" "conns s (VerifyInstanceID (verify d)) = Some p"
      "VerifyChallenge (verify d) \<noteq> pend_challenge p"
    and e: "dials s j = Some e" "j \<noteq> k" "VerifyInstanceID (verify e) = VerifyInstanceID (verify d)"
  shows "let t = handleConn_check k (verify d) p write_ok (handleConn_lookup k (verify d) s);
             u = handleConn_lookup j (verify e) t
         in map_option dial (dials u k) = Some (Refused ''bad challenge'') \<and>
            map_option dial (dials u j) = Some (Refused ''unknown instance'')"
  using assms by (auto simp: handleConn_check_def handleConn_lookup_def challengeEqual_def Let_def)

theorem wrong_challenge_burns_offer_witness:
  "let v = upgrade_verify\<lparr>VerifyChallenge := []\<rparr>;
       s = handleConn_read 1 (Some 0) (Some (Some (Some upgrade_verify))) (handleConn_read 0 None (Some (Some (Some v))) offered);
       t = handleConn_check 0 v upgrade_pending True (handleConn_lookup 0 v s)
   in lan_step\<^sup>*\<^sup>* newLAN offered \<and>
      map_option dial (dials (handleConn_lookup 1 upgrade_verify t) 1) = Some (Refused ''unknown instance'')"
proof -
  let ?v = "upgrade_verify\<lparr>VerifyChallenge := []\<rparr>"
  let ?s = "handleConn_read 1 (Some 0) (Some (Some (Some upgrade_verify))) (handleConn_read 0 None (Some (Some (Some ?v))) offered)"
  let ?d = "\<lambda>c v. \<lparr>dialer = c, verify = v, dial = Arrived, reply = None, reply_read = False\<rparr>"
  have "dials ?s 0 = Some (?d None ?v)" "dial (?d None ?v) = Arrived"
    "conns ?s (VerifyInstanceID (verify (?d None ?v))) = Some upgrade_pending"
    "VerifyChallenge (verify (?d None ?v)) \<noteq> pend_challenge upgrade_pending"
    "dials ?s 1 = Some (?d (Some 0) upgrade_verify)" "(1::nat) \<noteq> 0"
    "VerifyInstanceID (verify (?d (Some 0) upgrade_verify)) = VerifyInstanceID (verify (?d None ?v))"
    by (simp_all add: handleConn_read_def offered_def upgrade_verify_def upgrade_pending_def upgrade_challenge_def)
  from wrong_challenge_burns_offer [OF this, of True] offered_reachable show ?thesis by (simp add: Let_def)
qed

text \<open>
  \<open>UnregisterPending\<close> deletes by name: when a peer has two sessions, the end of the first offer drops
  the entry of the second.
\<close>

lemma ending_offer_drops_newer_entry:
  "conns (offerLAN_timeout n x (RegisterPending (peerID x) ch n' s)) (peerID x) = None"
  by (simp add: offerLAN_timeout_def)

text \<open>
  \<open>Close\<close> sets the carrier to nil and does not mark the session as closed for \<open>swapTransport\<close>: a swap
  that comes after it installs the direct connection, which neither \<open>Close\<close> nor anything else closes.
\<close>

lemma swap_after_close_leaks:
  assumes "\<not> closeOnce x" "\<not> onLAN x"
  shows "let y = swapTransport (Some c) (Close_carrier x)
         in transport y = Some c \<and> Close_carrier y = y \<and> retired y = retired (Close_carrier x)"
proof -
  let ?z = "Close_carrier x"
  have z: "transport ?z = None" "\<not> onLAN ?z" "closeOnce ?z"
    using assms by (simp_all add: close_transport Close_carrier_def Let_def split: option.split)
  from z(3) have "Close_carrier (swapTransport (Some c) ?z) = swapTransport (Some c) ?z"
    by (subst Close_carrier_def) simp
  moreover have "retired (swapTransport (Some c) ?z) = retired ?z" using z(1,2) by (simp add: swapTransport_def)
  ultimately show ?thesis using z(2) by (simp add: Let_def swap_transport)
qed

end
