(* ===== verification/PairWire.thy ===== *)
theory PairWire
  imports Prelude
begin

text \<open>
  The messages of the pairing ceremony (\<open>c/src/pairing.c\<close>): the base64 encoder and decoder, the
  search for a string field in a JSON text, the message builders, and that what a builder writes is
  what the search and the decoder read. The shifts of negative integers are two's complement.
\<close>

unbundle bit_operations_syntax

section \<open>Base64\<close>

definition b64_table :: string where
  "b64_table = ''ABCDEFGHIJKLMNOPQRSTUVWXYZabcdefghijklmnopqrstuvwxyz0123456789+/''"

definition b64_char :: "u32 \<Rightarrow> char" where
  "b64_char x = b64_table ! unat x"

definition b64_quad :: "byte \<Rightarrow> byte \<Rightarrow> byte \<Rightarrow> string" where
  "b64_quad c0 c1 c2 =
     (let b0 = ucast c0 :: u32; b1 = ucast c1 :: u32; b2 = ucast c2 :: u32 in
      [b64_char (drop_bit 2 b0 AND 0x3F),
       b64_char (push_bit 4 (b0 AND 0x3) OR (drop_bit 4 b1 AND 0xF)),
       b64_char (push_bit 2 (b1 AND 0xF) OR (drop_bit 6 b2 AND 0x3)),
       b64_char (b2 AND 0x3F)])"

text \<open>The loop of \<open>b64_encode\<close> from position \<open>out\<close>, and the function with its padding.\<close>

fun b64_loop :: "nat \<Rightarrow> nat \<Rightarrow> bytes \<Rightarrow> string option" where
  "b64_loop out dst_len [] = Some []" |
  "b64_loop out dst_len [c0] = (if out + 4 \<ge> dst_len then None else Some (b64_quad c0 0 0))" |
  "b64_loop out dst_len [c0, c1] = (if out + 4 \<ge> dst_len then None else Some (b64_quad c0 c1 0))" |
  "b64_loop out dst_len (c0 # c1 # c2 # src) =
     (if out + 4 \<ge> dst_len then None
      else map_option ((@) (b64_quad c0 c1 c2)) (b64_loop (out + 4) dst_len src))"

definition b64_encode :: "bytes \<Rightarrow> nat \<Rightarrow> string option" where
  "b64_encode src dst_len =
     (case b64_loop 0 dst_len src of
        None \<Rightarrow> None
      | Some dst \<Rightarrow>
          let out = length dst; rem = length src mod 3 in
          if rem = 1 then Some (dst[out - 2 := CHR ''='', out - 1 := CHR ''=''])
          else if rem = 2 then Some (dst[out - 1 := CHR ''='']) else Some dst)"

definition b64_decode_char :: "char \<Rightarrow> int" where
  "b64_decode_char c =
     (let k = int (of_char c) in
      if 65 \<le> k \<and> k \<le> 90 then k - 65
      else if 97 \<le> k \<and> k \<le> 122 then k - 97 + 26
      else if 48 \<le> k \<and> k \<le> 57 then k - 48 + 52
      else if c = CHR ''+'' then 62
      else if c = CHR ''/'' then 63
      else - 1)"

text \<open>The bytes one iteration of the loop writes, with the checks of the capacity left.\<close>

definition b64_group :: "int \<Rightarrow> int \<Rightarrow> int \<Rightarrow> int \<Rightarrow> nat \<Rightarrow> bytes option" where
  "b64_group v0 v1 v2 v3 cap =
     (if v0 < 0 \<or> v1 < 0 then None
      else
        let d = [word_of_int (push_bit 2 v0 OR drop_bit 4 v1)]
                @ (if v2 \<ge> 0 then [word_of_int (push_bit 4 v1 OR drop_bit 2 v2)] else [])
                @ (if v3 \<ge> 0 then [word_of_int (push_bit 6 v2 OR v3)] else [])
        in if length d > cap then None else Some d)"

fun b64_decode_loop :: "string \<Rightarrow> nat \<Rightarrow> bytes option" where
  "b64_decode_loop [] cap = Some []" |
  "b64_decode_loop [c0] cap = b64_group (b64_decode_char c0) (- 1) (- 1) (- 1) cap" |
  "b64_decode_loop [c0, c1] cap = b64_group (b64_decode_char c0) (b64_decode_char c1) (- 1) (- 1) cap" |
  "b64_decode_loop [c0, c1, c2] cap =
     b64_group (b64_decode_char c0) (b64_decode_char c1) (b64_decode_char c2) (- 1) cap" |
  "b64_decode_loop (c0 # c1 # c2 # c3 # src) cap =
     (case b64_group (b64_decode_char c0) (b64_decode_char c1) (b64_decode_char c2) (b64_decode_char c3) cap of
        None \<Rightarrow> None
      | Some d \<Rightarrow> map_option ((@) d) (b64_decode_loop src (cap - length d)))"

definition strip_padding :: "string \<Rightarrow> string" where
  "strip_padding s = rev (dropWhile (\<lambda>c. c = CHR ''='') (rev s))"

definition b64_decode :: "string \<Rightarrow> nat \<Rightarrow> bytes option" where
  "b64_decode src dst_cap = b64_decode_loop (strip_padding src) dst_cap"

section \<open>C strings and JSON fields\<close>

text \<open>A character array read as a string ends at its first NUL.\<close>

definition cstr :: "string \<Rightarrow> string" where
  "cstr s = takeWhile (\<lambda>c. c \<noteq> CHR 0x00) s"

text \<open>A field that does not fit leaves what fitted in the output array.\<close>

datatype field = NotFound | TooLong string | Found string

definition skip_space :: "string \<Rightarrow> string" where
  "skip_space = dropWhile (\<lambda>c. c = CHR '' '' \<or> c = CHR 0x09 \<or> c = CHR 0x0A \<or> c = CHR 0x0D)"

text \<open>After the key: a colon and an opening quote, then the value up to a quote or the end.\<close>

definition field_value :: "string \<Rightarrow> nat \<Rightarrow> field option" where
  "field_value p out_cap =
     (case skip_space p of
        c # p1 \<Rightarrow>
          if c \<noteq> CHR '':'' then None
          else (case skip_space p1 of
             q # p2 \<Rightarrow>
               if q \<noteq> CHR 0x22 then None
               else let v = takeWhile (\<lambda>c. c \<noteq> CHR 0x22) p2 in
                 if length v < out_cap then Some (Found v) else Some (TooLong (take (out_cap - 1) v))
           | [] \<Rightarrow> None)
      | [] \<Rightarrow> None)"

fun json_search :: "string \<Rightarrow> string \<Rightarrow> nat \<Rightarrow> field" where
  "json_search search [] out_cap = NotFound" |
  "json_search search (c # json) out_cap =
     (if take (length search) (c # json) = search
      then (case field_value (drop (length search) (c # json)) out_cap of
              Some r \<Rightarrow> r
            | None \<Rightarrow> json_search search json out_cap)
      else json_search search json out_cap)"

definition json_find_string_field :: "string \<Rightarrow> string \<Rightarrow> nat \<Rightarrow> field" where
  "json_find_string_field json key out_cap =
     (if 256 \<le> length key + 2 then NotFound
      else json_search (CHR 0x22 # key @ [CHR 0x22]) json out_cap)"

section \<open>Messages\<close>

definition PIGEON_MAX_MSG :: nat where
  "PIGEON_MAX_MSG = 1048576"

text \<open>\<open>snprintf\<close> into the buffer; a result that does not fit with its NUL is refused.\<close>

definition fits :: "nat \<Rightarrow> string \<Rightarrow> string option" where
  "fits buf_cap s = (if length s \<ge> buf_cap then None else Some s)"

definition jfield :: "string \<Rightarrow> string \<Rightarrow> string" where
  "jfield key v = CHR 0x22 # key @ [CHR 0x22, CHR '':'', CHR 0x22] @ v @ [CHR 0x22]"

definition build_hello :: "bytes \<Rightarrow> bytes \<Rightarrow> string \<Rightarrow> nat \<Rightarrow> string option" where
  "build_hello commit identity_pub instance_id buf_cap =
     (case (b64_encode commit 64, b64_encode identity_pub 64) of
        (Some commit_b64, Some id_b64) \<Rightarrow>
          fits buf_cap (''{'' @ jfield ''kind'' ''hello'' @ '','' @ jfield ''commit'' commit_b64 @ '','' @
            jfield ''identity_pub'' id_b64 @ '','' @ jfield ''instance_id'' instance_id @ ''}'')
      | _ \<Rightarrow> None)"

definition build_welcome :: "bytes \<Rightarrow> bytes \<Rightarrow> string \<Rightarrow> nat \<Rightarrow> string option" where
  "build_welcome eph_pub identity_pub instance_id buf_cap =
     (case (b64_encode eph_pub 64, b64_encode identity_pub 64) of
        (Some eph_b64, Some id_b64) \<Rightarrow>
          fits buf_cap (''{'' @ jfield ''kind'' ''welcome'' @ '','' @ jfield ''eph_pub'' eph_b64 @ '','' @
            jfield ''identity_pub'' id_b64 @ '','' @ jfield ''instance_id'' instance_id @ ''}'')
      | _ \<Rightarrow> None)"

definition build_reveal :: "bytes \<Rightarrow> bytes \<Rightarrow> nat \<Rightarrow> string option" where
  "build_reveal eph_pub blind buf_cap =
     (case (b64_encode eph_pub 64, b64_encode blind 64) of
        (Some eph_b64, Some blind_b64) \<Rightarrow>
          fits buf_cap (''{'' @ jfield ''kind'' ''reveal'' @ '','' @ jfield ''eph_pub'' eph_b64 @ '','' @
            jfield ''blind'' blind_b64 @ ''}'')
      | _ \<Rightarrow> None)"

definition build_confirm :: "nat \<Rightarrow> string option" where
  "build_confirm buf_cap = fits buf_cap (''{'' @ jfield ''kind'' ''confirm'' @ ''}'')"

section \<open>Base64 round trip\<close>

lemma b64_masks: "(0x3F :: u32) = mask 6" "(0xF :: u32) = mask 4" "(0x3 :: u32) = mask 2"
  by (simp_all add: mask_eq_exp_minus_1)

lemma length_b64_table: "length b64_table = 64"
  by (simp add: b64_table_def)

lemma int_upt_64: "map int [0..<64] = [0..63]"
  by code_simp

lemma b64_table_decode: "map b64_decode_char b64_table = map int [0..<64]"
  by (simp add: b64_table_def b64_decode_char_def Let_def int_upt_64 upto_rec1 [of 0 63] upto_rec1 [of 1 63])

lemma b64_table_plain: "CHR ''='' \<notin> set b64_table" "CHR 0x22 \<notin> set b64_table" "CHR 0x00 \<notin> set b64_table"
  by (simp_all add: b64_table_def)

lemma b64_char_facts:
  assumes "x < 64"
  shows "b64_decode_char (b64_char x) = uint x" "b64_char x \<in> set b64_table"
proof -
  have n: "unat x < 64" using assms by (simp add: word_less_nat_alt)
  have "b64_decode_char (b64_table ! unat x) = map b64_decode_char b64_table ! unat x"
    using n by (simp add: length_b64_table)
  also have "\<dots> = uint x" using n by (simp add: b64_table_decode)
  finally show "b64_decode_char (b64_char x) = uint x" by (simp add: b64_char_def)
  show "b64_char x \<in> set b64_table" using n by (simp add: b64_char_def length_b64_table)
qed

definition b64_index0 :: "byte \<Rightarrow> u32" where "b64_index0 c0 = drop_bit 2 (ucast c0) AND 0x3F"
definition b64_index1 :: "byte \<Rightarrow> byte \<Rightarrow> u32" where
  "b64_index1 c0 c1 = push_bit 4 (ucast c0 AND 0x3) OR (drop_bit 4 (ucast c1) AND 0xF)"
definition b64_index2 :: "byte \<Rightarrow> byte \<Rightarrow> u32" where
  "b64_index2 c1 c2 = push_bit 2 (ucast c1 AND 0xF) OR (drop_bit 6 (ucast c2) AND 0x3)"
definition b64_index3 :: "byte \<Rightarrow> u32" where "b64_index3 c2 = ucast c2 AND 0x3F"

lemmas b64_index_defs = b64_index0_def b64_index1_def b64_index2_def b64_index3_def b64_masks

lemma word_below_64: "(\<And>n. 6 \<le> n \<Longrightarrow> \<not> bit x n) \<Longrightarrow> (x :: u32) < 64"
proof -
  assume h: "\<And>n. 6 \<le> n \<Longrightarrow> \<not> bit x n"
  have "bit x n \<Longrightarrow> n < 6" for n using h [of n] not_le by blast
  then have "take_bit 6 x = x" by (intro bit_word_eqI) (auto simp: bit_take_bit_iff)
  then have "x AND mask 6 = x" by (simp add: take_bit_eq_mask)
  then have "x \<le> mask 6" by (metis word_and_le1)
  then show ?thesis by (simp add: mask_eq_exp_minus_1 word_le_nat_alt word_less_nat_alt)
qed

lemma b64_indices_small: "b64_index0 c0 < 64" "b64_index1 c0 c1 < 64" "b64_index2 c1 c2 < 64" "b64_index3 c2 < 64"
  by (auto intro!: word_below_64 simp: b64_index_defs bit_simps)

lemma b64_quad_index: "b64_quad c0 c1 c2 = map b64_char [b64_index0 c0, b64_index1 c0 c1, b64_index2 c1 c2, b64_index3 c2]"
  by (simp only: b64_quad_def b64_index0_def b64_index1_def b64_index2_def b64_index3_def Let_def list.map)

lemma b64_bytes:
  "word_of_int (push_bit 2 (uint (b64_index0 c0)) OR drop_bit 4 (uint (b64_index1 c0 c1))) = c0"
  "word_of_int (push_bit 4 (uint (b64_index1 c0 c1)) OR drop_bit 2 (uint (b64_index2 c1 c2))) = c1"
  "word_of_int (push_bit 6 (uint (b64_index2 c1 c2)) OR uint (b64_index3 c2)) = c2"
proof -
  have [simp]: "2 \<le> n \<Longrightarrow> Suc (Suc (n - 2)) = n" for n by simp
  show "word_of_int (push_bit 2 (uint (b64_index0 c0)) OR drop_bit 4 (uint (b64_index1 c0 c1))) = c0"
    "word_of_int (push_bit 4 (uint (b64_index1 c0 c1)) OR drop_bit 2 (uint (b64_index2 c1 c2))) = c1"
    "word_of_int (push_bit 6 (uint (b64_index2 c1 c2)) OR uint (b64_index3 c2)) = c2"
    by (rule bit_word_eqI; auto simp: b64_index_defs bit_simps not_le)+
qed


text \<open>The encoding without its padding.\<close>

fun b64_plain :: "bytes \<Rightarrow> string" where
  "b64_plain [] = []" |
  "b64_plain [c0] = take 2 (b64_quad c0 0 0)" |
  "b64_plain [c0, c1] = take 3 (b64_quad c0 c1 0)" |
  "b64_plain (c0 # c1 # c2 # src) = b64_quad c0 c1 c2 @ b64_plain src"

lemma length_b64_quad [simp]: "length (b64_quad c0 c1 c2) = 4"
  by (simp add: b64_quad_def Let_def)

lemma set_b64_quad: "set (b64_quad c0 c1 c2) \<subseteq> set b64_table"
  by (simp add: b64_quad_index b64_char_facts b64_indices_small)

lemma set_b64_plain: "set (b64_plain src) \<subseteq> set b64_table"
proof (induction src rule: b64_plain.induct)
  case (2 c0)
  show ?case using set_b64_quad [of c0 0 0] set_take_subset [of 2 "b64_quad c0 0 0"] by (simp del: take_Suc_Cons)
next
  case (3 c0 c1)
  show ?case using set_b64_quad [of c0 c1 0] set_take_subset [of 3 "b64_quad c0 c1 0"] by (simp del: take_Suc_Cons)
next
  case (4 c0 c1 c2 src)
  then show ?case using set_b64_quad [of c0 c1 c2] by simp
qed simp

lemma b64_group_full:
  "3 \<le> cap \<Longrightarrow> b64_group (uint (b64_index0 c0)) (uint (b64_index1 c0 c1)) (uint (b64_index2 c1 c2)) (uint (b64_index3 c2)) cap
    = Some [c0, c1, c2]"
  by (simp add: b64_group_def b64_bytes)

lemma b64_group_two:
  "2 \<le> cap \<Longrightarrow> b64_group (uint (b64_index0 c0)) (uint (b64_index1 c0 c1)) (uint (b64_index2 c1 0)) (- 1) cap = Some [c0, c1]"
  by (simp add: b64_group_def b64_bytes)

lemma b64_group_one:
  "1 \<le> cap \<Longrightarrow> b64_group (uint (b64_index0 c0)) (uint (b64_index1 c0 0)) (- 1) (- 1) cap = Some [c0]"
  by (simp add: b64_group_def b64_bytes)

lemma b64_decode_plain: "length src \<le> cap \<Longrightarrow> b64_decode_loop (b64_plain src) cap = Some src"
proof (induction src arbitrary: cap rule: b64_plain.induct)
  case (4 c0 c1 c2 src)
  then have "b64_decode_loop (b64_plain src) (cap - 3) = Some src" by simp
  then show ?case using 4(2)
    by (simp add: b64_quad_index b64_char_facts b64_indices_small b64_group_full numeral_3_eq_3)
qed (simp_all add: b64_quad_index b64_char_facts b64_indices_small b64_group_one b64_group_two numeral_2_eq_2 numeral_3_eq_3)

definition pad_out :: "nat \<Rightarrow> string \<Rightarrow> string" where
  "pad_out k dst =
     (if k = 1 then dst[length dst - 2 := CHR ''='', length dst - 1 := CHR ''='']
      else if k = 2 then dst[length dst - 1 := CHR ''=''] else dst)"

lemma pad_out_append: "k = 0 \<or> 2 \<le> length d \<Longrightarrow> pad_out k (q @ d) = q @ pad_out k d"
  by (auto simp: pad_out_def list_update_append)

lemma b64_loop_length: "b64_loop out dst_len src = Some dst \<Longrightarrow> src \<noteq> [] \<Longrightarrow> 4 \<le> length dst"
  by (induction out dst_len src arbitrary: dst rule: b64_loop.induct) (auto split: if_splits)

lemma b64_quad_cases: "\<exists>a b c d. b64_quad c0 c1 c2 = [a, b, c, d]"
  by (simp add: b64_quad_index)

lemma pad_quad1: "pad_out 1 (b64_quad c0 0 0) = b64_plain [c0] @ ''==''"
  using b64_quad_cases [of c0 0 0] by (auto simp: pad_out_def numeral_2_eq_2)

lemma pad_quad2: "pad_out 2 (b64_quad c0 c1 0) = b64_plain [c0, c1] @ ''=''"
  using b64_quad_cases [of c0 c1 0] by (auto simp: pad_out_def numeral_3_eq_3)

lemma pad_quad3:
  assumes "b64_loop out dst_len src = Some d"
  shows "pad_out (length (c0 # c1 # c2 # src) mod 3) (b64_quad c0 c1 c2 @ d) = b64_quad c0 c1 c2 @ pad_out (length src mod 3) d"
proof -
  have "length src mod 3 = 0 \<or> 2 \<le> length d"
    using b64_loop_length [OF assms] by (cases "src = []") simp_all
  moreover have "length (c0 # c1 # c2 # src) = length src + 3" by simp
  then have "length (c0 # c1 # c2 # src) mod 3 = length src mod 3" by (simp only: mod_add_self2)
  ultimately show ?thesis by (simp only: pad_out_append)
qed

lemma b64_loop_plain:
  "b64_loop out dst_len src = Some dst \<Longrightarrow>
   \<exists>pad. pad_out (length src mod 3) dst = b64_plain src @ pad \<and> set pad \<subseteq> {CHR ''=''}"
proof (induction out dst_len src arbitrary: dst rule: b64_loop.induct)
  case (2 out dst_len c0)
  then have "dst = b64_quad c0 0 0" by (simp split: if_split_asm)
  then have "pad_out (length [c0] mod 3) dst = b64_plain [c0] @ ''==''" using pad_quad1 by simp
  then show ?case by (intro exI conjI) (assumption, simp)
next
  case (3 out dst_len c0 c1)
  then have "dst = b64_quad c0 c1 0" by (simp split: if_split_asm)
  then have "pad_out (length [c0, c1] mod 3) dst = b64_plain [c0, c1] @ ''=''" using pad_quad2 by (simp del: b64_plain.simps add: numeral_2_eq_2)
  then show ?case by (intro exI conjI) (assumption, simp)
next
  case (4 out dst_len c0 c1 c2 src)
  from 4(2) obtain d where d: "\<not> out + 4 \<ge> dst_len" "b64_loop (out + 4) dst_len src = Some d" "dst = b64_quad c0 c1 c2 @ d"
    by (auto split: if_split_asm)
  obtain pad where "pad_out (length src mod 3) d = b64_plain src @ pad" "set pad \<subseteq> {CHR ''=''}"
    using 4(1) [OF d(1,2)] by blast
  then show ?case using pad_quad3 [OF d(2)] by (intro exI [of _ pad]) (simp only: d(3) b64_plain.simps append_assoc simp_thms)
qed (simp add: pad_out_def)

lemma dropWhile_pad: "set pad \<subseteq> {e} \<Longrightarrow> e \<notin> set s \<Longrightarrow> dropWhile (\<lambda>c. c = e) (pad @ s) = s"
  by (induction pad) (cases s, auto)

lemma strip_padding_plain:
  "CHR ''='' \<notin> set s \<Longrightarrow> set pad \<subseteq> {CHR ''=''} \<Longrightarrow> strip_padding (s @ pad) = s"
  by (simp add: strip_padding_def dropWhile_pad)

lemma b64_table_chars: "CHR ''='' \<notin> set b64_table" "CHR 0x22 \<notin> set b64_table" "CHR 0x00 \<notin> set b64_table"
  by (simp_all add: b64_table_def)

lemma b64_encode_pad: "b64_encode src n = map_option (pad_out (length src mod 3)) (b64_loop 0 n src)"
  by (simp add: b64_encode_def pad_out_def Let_def split: option.split)

lemma b64_encode_plain:
  "b64_encode src n = Some dst \<Longrightarrow> \<exists>pad. dst = b64_plain src @ pad \<and> set pad \<subseteq> {CHR ''=''}"
  using b64_loop_plain [of 0 n src] by (auto simp: b64_encode_pad)

lemma b64_roundtrip:
  assumes "b64_encode src n = Some dst" "length src \<le> cap" shows "b64_decode dst cap = Some src"
proof -
  obtain pad where p: "dst = b64_plain src @ pad" "set pad \<subseteq> {CHR ''=''}"
    using b64_encode_plain [OF assms(1)] by blast
  have "CHR ''='' \<notin> set (b64_plain src)" using set_b64_plain [of src] b64_table_chars(1) by blast
  then show ?thesis using assms(2) by (simp add: b64_decode_def p(1) strip_padding_plain p(2) b64_decode_plain)
qed

lemma b64_encode_chars: "b64_encode src n = Some dst \<Longrightarrow> set dst \<subseteq> insert (CHR ''='') (set b64_table)"
  using b64_encode_plain [of src n dst] set_b64_plain [of src] by auto

lemma b64_loop_some: "out + 4 * ((length src + 2) div 3) < dst_len \<Longrightarrow>
  \<exists>dst. b64_loop out dst_len src = Some dst \<and> length dst = 4 * ((length src + 2) div 3)"
proof (induction out dst_len src rule: b64_loop.induct)
  case (4 out dst_len c0 c1 c2 src)
  have "(length (c0 # c1 # c2 # src) + 2) div 3 = Suc ((length src + 2) div 3)" by simp
  then show ?case using 4 by (auto simp del: length_Cons)
qed auto

lemma b64_encode_some: "4 * ((length src + 2) div 3) < n \<Longrightarrow>
  \<exists>dst. b64_encode src n = Some dst \<and> length dst = 4 * ((length src + 2) div 3)"
  using b64_loop_some [of 0 src n] by (auto simp: b64_encode_def Let_def)

section \<open>Messages round trip\<close>

abbreviation quote :: char where
  "quote \<equiv> CHR 0x22"

lemma json_search_skip: "quote \<notin> set pre \<Longrightarrow> json_search (quote # s) (pre @ rest) cap = json_search (quote # s) rest cap"
  by (induction pre) auto

lemma json_search_other:
  "take (length s) rest \<noteq> s \<Longrightarrow> json_search (quote # s) (quote # rest) cap = json_search (quote # s) rest cap"
  by simp

lemma quoted_prefix:
  assumes "q \<notin> set key" "q \<notin> set k" shows "take (Suc (length key)) (k @ q # rest) = key @ [q] \<longleftrightarrow> k = key"
  using assms
proof (induction key arbitrary: k)
  case Nil
  then show ?case by (cases k) auto
next
  case (Cons a key)
  then show ?case by (cases k) auto
qed

lemma json_search_quoted:
  assumes "quote \<notin> set key" "quote \<notin> set k"
  shows "json_search (quote # key @ [quote]) (quote # k @ quote # rest) cap =
    (case (if k = key then field_value rest cap else None) of
       Some r \<Rightarrow> r
     | None \<Rightarrow> json_search (quote # key @ [quote]) (quote # rest) cap)"
  using quoted_prefix [OF assms, of rest] json_search_skip [OF assms(2), of "key @ [quote]" "quote # rest" cap]
  by (auto split: option.split)

lemma jfield_found:
  assumes "quote \<notin> set key" "quote \<notin> set v"
  shows "json_search (quote # key @ [quote]) (jfield key v @ rest) cap =
    (if length v < cap then Found v else TooLong (take (cap - 1) v))"
proof -
  have "takeWhile (\<lambda>c. c \<noteq> quote) (v @ quote # rest) = v" using assms(2) by (induction v) auto
  then have "field_value (CHR '':'' # quote # v @ quote # rest) cap = Some (if length v < cap then Found v else TooLong (take (cap - 1) v))"
    by (simp add: field_value_def skip_space_def Let_def)
  then show ?thesis
    using json_search_quoted [OF assms(1) assms(1), of "CHR '':'' # quote # v @ quote # rest" cap] by (simp add: jfield_def)
qed

lemma jfield_skip:
  assumes "quote \<notin> set key" "quote \<notin> set k" "quote \<notin> set v" "k \<noteq> key" "key \<noteq> []"
    "hd key \<noteq> CHR '':''" "hd key \<noteq> c" "c \<in> {CHR '','', CHR ''}''}"
  shows "json_search (quote # key @ [quote]) (jfield k v @ c # rest) cap = json_search (quote # key @ [quote]) rest cap"
proof -
  let ?s = "quote # key @ [quote]"
  have c: "c \<noteq> quote" "field_value (c # rest) cap = None" using assms(8) by (auto simp: field_value_def skip_space_def)
  have "json_search ?s (jfield k v @ c # rest) cap = json_search ?s (quote # CHR '':'' # quote # v @ quote # c # rest) cap"
    using json_search_quoted [OF assms(1,2), of "CHR '':'' # quote # v @ quote # c # rest" cap] assms(4) by (simp add: jfield_def)
  also have "\<dots> = json_search ?s (quote # v @ quote # c # rest) cap"
    using json_search_quoted [OF assms(1), of "'':''" "v @ quote # c # rest" cap] assms(6) by auto
  also have "\<dots> = json_search ?s (quote # c # rest) cap"
    using json_search_quoted [OF assms(1,3), of "c # rest" cap] c(2) by (simp del: json_search.simps)
  also have "\<dots> = json_search ?s rest cap"
    using assms(5,7) c(1) by (cases key) auto
  finally show ?thesis .
qed

text \<open>A message: its fields in braces, separated by commas.\<close>

fun jobject :: "(string \<times> string) list \<Rightarrow> string" where
  "jobject [] = []" |
  "jobject [(k, v)] = jfield k v @ ''}''" |
  "jobject ((k, v) # f # fs) = jfield k v @ '','' @ jobject (f # fs)"

definition plain_fields :: "(string \<times> string) list \<Rightarrow> bool" where
  "plain_fields fs = list_all (\<lambda>(k, v). quote \<notin> set k \<and> quote \<notin> set v) fs"

definition plain_key :: "string \<Rightarrow> bool" where
  "plain_key key = (key \<noteq> [] \<and> quote \<notin> set key \<and> hd key \<notin> {CHR '':'', CHR '','', CHR ''}''} \<and> length key < 254)"

lemma jobject_search:
  assumes "plain_key key" "plain_fields fs" "map_of fs key = Some v"
  shows "json_search (quote # key @ [quote]) (jobject fs) cap = (if length v < cap then Found v else TooLong (take (cap - 1) v))"
  using assms(2,3)
proof (induction fs rule: jobject.induct)
  case (2 k u)
  then have "k = key" "u = v" by (simp_all split: if_split_asm)
  then show ?case using jfield_found [of key v "''}''" cap] 2 by (simp del: json_search.simps add: plain_fields_def)
next
  case (3 k u f fs)
  show ?case
  proof (cases "k = key")
    case True
    then show ?thesis using 3 jfield_found [of key v "'','' @ jobject (f # fs)" cap]
      by (simp del: json_search.simps add: plain_fields_def)
  next
    case False
    have "json_search (quote # key @ [quote]) (jobject ((k, u) # f # fs)) cap = json_search (quote # key @ [quote]) (jobject (f # fs)) cap"
      using jfield_skip [of key k u "CHR '',''" "jobject (f # fs)" cap] False assms(1) 3(2)
      by (simp del: json_search.simps add: plain_fields_def plain_key_def)
    then show ?thesis using 3 False by (simp del: json_search.simps jobject.simps add: plain_fields_def)
  qed
qed simp

lemma jobject_found:
  assumes "plain_key key" "plain_fields fs" "map_of fs key = Some v"
  shows "json_find_string_field (''{'' @ jobject fs) key cap = (if length v < cap then Found v else TooLong (take (cap - 1) v))"
proof -
  have "json_search (quote # key @ [quote]) (''{'' @ jobject fs) cap = json_search (quote # key @ [quote]) (jobject fs) cap"
    by (rule json_search_skip) simp
  then show ?thesis using jobject_search [OF assms] assms(1)
    by (simp del: json_search.simps add: json_find_string_field_def plain_key_def)
qed

lemma plain_keys:
  "plain_key ''kind''" "plain_key ''commit''" "plain_key ''identity_pub''" "plain_key ''instance_id''" "plain_key ''eph_pub''" "plain_key ''blind''"
  by (simp_all add: plain_key_def)

lemma b64_encode_clean: "b64_encode src n = Some dst \<Longrightarrow> quote \<notin> set dst \<and> CHR 0x00 \<notin> set dst"
  using b64_encode_chars [of src n dst] b64_table_chars by auto

lemma b64_encode_32: "length src = 32 \<Longrightarrow> \<exists>dst. b64_encode src 64 = Some dst \<and> length dst = 44"
  using b64_encode_some [of src 64] by simp

text \<open>
  The decoder only looks for bad characters at the first two places of a group: at the third and
  fourth it takes any character for missing padding.
\<close>

lemma b64_decode_skips_garbage: "b64_decode ''AA!?'' 32 = Some [0]" "b64_decode ''AAA*AAAA'' 32 = Some [0, 0, 0, 0, 0]"
  by (simp_all add: b64_decode_def strip_padding_def b64_decode_char_def b64_group_def Let_def)

end
