(* ===== verification/Duet.thy ===== *)
theory Duet
  imports Prelude
begin

text \<open>
  Interactive drivers as processes. A process ends, sends a message and learns whether that worked,
  waits for a message (\<open>None\<close>: the receive failed), or asks its user. \<open>runs\<close> is one process against any
  environment, with the trace of what happened; \<open>duet\<close> is two processes joined by two reliable ordered
  streams, as \<open>SendOnStream\<close> and \<open>RecvOnStream\<close> give them, in any interleaving. The two sides of a duet commute, so
  the outcome of one schedule is the outcome of every schedule.
\<close>

datatype ('m, 'r) process =
    Done 'r
  | Send 'm "bool \<Rightarrow> ('m, 'r) process"
  | Recv "'m option \<Rightarrow> ('m, 'r) process"
  | Ask string "bool \<Rightarrow> ('m, 'r) process"

section \<open>One process in any environment\<close>

datatype 'm event = Sent 'm | SendFailed 'm | Received 'm | RecvFailed | Asked string bool

inductive runs :: "('m, 'r) process \<Rightarrow> 'm event list \<Rightarrow> 'r \<Rightarrow> bool" where
  run_done: "runs (Done r) [] r"
| run_sent: "runs (k True) tr r \<Longrightarrow> runs (Send m k) (Sent m # tr) r"
| run_send_failed: "runs (k False) tr r \<Longrightarrow> runs (Send m k) (SendFailed m # tr) r"
| run_received: "runs (k (Some m)) tr r \<Longrightarrow> runs (Recv k) (Received m # tr) r"
| run_recv_failed: "runs (k None) tr r \<Longrightarrow> runs (Recv k) (RecvFailed # tr) r"
| run_asked: "runs (k yes) tr r \<Longrightarrow> runs (Ask c k) (Asked c yes # tr) r"

inductive_simps runs_Done: "runs (Done r) tr r'"
inductive_simps runs_Send: "runs (Send m k) tr r"
inductive_simps runs_Recv: "runs (Recv k) tr r"
inductive_simps runs_Ask: "runs (Ask c k) tr r"

lemmas runs_simps = runs_Done runs_Send runs_Recv runs_Ask

section \<open>Two sides that commute\<close>

inductive steps :: "('s \<Rightarrow> 's option) \<Rightarrow> ('s \<Rightarrow> 's option) \<Rightarrow> nat \<Rightarrow> 's \<Rightarrow> 's \<Rightarrow> bool" for f g where
  steps_0: "steps f g 0 s s"
| steps_f: "f s = Some s' \<Longrightarrow> steps f g n s' t \<Longrightarrow> steps f g (Suc n) s t"
| steps_g: "g s = Some s' \<Longrightarrow> steps f g n s' t \<Longrightarrow> steps f g (Suc n) s t"

inductive_cases steps_0E: "steps f g 0 s t"
inductive_cases steps_SucE: "steps f g (Suc n) s t"

locale commuting =
  fixes f g :: "'s \<Rightarrow> 's option"
  assumes commute: "f s = Some a \<Longrightarrow> g s = Some b \<Longrightarrow> \<exists>t. g a = Some t \<and> f b = Some t"
begin

lemma one_step:
  assumes "steps f g n s t" "f t = None" "g t = None" "f s = Some s' \<or> g s = Some s'"
  shows "\<exists>m. n = Suc m \<and> steps f g m s' t"
  using assms
proof (induction n arbitrary: s s')
  case 0
  then show ?case by (auto elim: steps_0E)
next
  case (Suc n)
  from Suc.prems(1) obtain a where a: "steps f g n a t" "f s = Some a \<or> g s = Some a" by (auto elim: steps_SucE)
  show ?case
  proof (cases "a = s'")
    case True
    then show ?thesis using a by simp
  next
    case False
    then obtain x where x: "f a = Some x \<or> g a = Some x" "f s' = Some x \<or> g s' = Some x"
      using a(2) Suc.prems(4) commute by (metis option.inject)
    obtain m where "n = Suc m" "steps f g m x t" using Suc.IH [OF a(1) Suc.prems(2,3) x(1)] by blast
    then show ?thesis using x(2) by (auto intro: steps_f steps_g)
  qed
qed

lemma every_schedule:
  assumes "steps f g n s t" "f t = None" "g t = None" "steps f g k s u"
  shows "k \<le> n \<and> steps f g (n - k) u t"
  using assms(4,1)
proof (induction k s u arbitrary: n rule: steps.induct)
  case (steps_f s s' k u)
  obtain m where m: "n = Suc m" "steps f g m s' t"
    using one_step [OF steps_f.prems assms(2,3)] steps_f.hyps(1) by blast
  then show ?case using steps_f.IH [of m] by simp
next
  case (steps_g s s' k u)
  obtain m where m: "n = Suc m" "steps f g m s' t"
    using one_step [OF steps_g.prems assms(2,3)] steps_g.hyps(1) by blast
  then show ?case using steps_g.IH [of m] by simp
qed simp

end

section \<open>Two processes joined by two streams\<close>

record ('m, 'r, 'q) duet =
  left :: "('m, 'r) process"
  right :: "('m, 'q) process"
  to_left :: "'m list"
  to_right :: "'m list"

definition step_left :: "(string \<Rightarrow> bool) \<Rightarrow> ('m, 'r, 'q) duet \<Rightarrow> ('m, 'r, 'q) duet option" where
  "step_left user d =
     (case left d of
        Done r \<Rightarrow> None
      | Send m k \<Rightarrow> Some (d\<lparr>left := k True, to_right := to_right d @ [m]\<rparr>)
      | Recv k \<Rightarrow> (case to_left d of [] \<Rightarrow> None | m # ms \<Rightarrow> Some (d\<lparr>left := k (Some m), to_left := ms\<rparr>))
      | Ask c k \<Rightarrow> Some (d\<lparr>left := k (user c)\<rparr>))"

definition step_right :: "(string \<Rightarrow> bool) \<Rightarrow> ('m, 'r, 'q) duet \<Rightarrow> ('m, 'r, 'q) duet option" where
  "step_right user d =
     (case right d of
        Done r \<Rightarrow> None
      | Send m k \<Rightarrow> Some (d\<lparr>right := k True, to_left := to_left d @ [m]\<rparr>)
      | Recv k \<Rightarrow> (case to_right d of [] \<Rightarrow> None | m # ms \<Rightarrow> Some (d\<lparr>right := k (Some m), to_right := ms\<rparr>))
      | Ask c k \<Rightarrow> Some (d\<lparr>right := k (user c)\<rparr>))"

definition duet :: "('m, 'r) process \<Rightarrow> ('m, 'q) process \<Rightarrow> ('m, 'r, 'q) duet" where
  "duet p q = \<lparr>left = p, right = q, to_left = [], to_right = []\<rparr>"

interpretation sides: commuting "step_left u" "step_right v" for u v :: "string \<Rightarrow> bool"
proof
  fix s a b :: "('m, 'r, 'q) duet"
  assume "step_left u s = Some a" "step_right v s = Some b"
  then show "\<exists>t. step_right v a = Some t \<and> step_left u b = Some t"
    by (cases s; cases "left s"; cases "right s") (auto simp: step_left_def step_right_def split: list.splits)
qed

text \<open>A schedule: \<open>True\<close> moves the left side; a move that is not possible is skipped.\<close>

fun play :: "(string \<Rightarrow> bool) \<Rightarrow> (string \<Rightarrow> bool) \<Rightarrow> bool list \<Rightarrow> ('m, 'r, 'q) duet \<Rightarrow> ('m, 'r, 'q) duet" where
  "play u v [] d = d" |
  "play u v (b # bs) d =
     (case (if b then step_left u d else step_right v d) of None \<Rightarrow> play u v bs d | Some d' \<Rightarrow> play u v bs d')"

lemma play_append: "play u v (xs @ ys) d = play u v ys (play u v xs d)"
  by (induction xs arbitrary: d) (auto split: option.split)

lemma play_steps: "\<exists>n. n \<le> length bs \<and> steps (step_left u) (step_right v) n d (play u v bs d)"
proof (induction bs arbitrary: d)
  case Nil
  then show ?case by (auto intro: steps_0)
next
  case (Cons b bs)
  show ?case
  proof (cases "if b then step_left u d else step_right v d")
    case None
    then show ?thesis using Cons [of d] by (auto intro: le_SucI)
  next
    case (Some d')
    obtain n where "n \<le> length bs" "steps (step_left u) (step_right v) n d' (play u v bs d')" using Cons [of d'] by auto
    then show ?thesis using Some
      by (intro exI [of _ "Suc n"]) (cases b; auto intro: steps_f steps_g)
  qed
qed

text \<open>Both sides have ended.\<close>

definition both_done :: "('m, 'r, 'q) duet \<Rightarrow> 'r \<Rightarrow> 'q \<Rightarrow> bool" where
  "both_done d r q = (case (left d, right d) of (Done r', Done q') \<Rightarrow> r' = r \<and> q' = q | _ \<Rightarrow> False)"

lemma both_done_stuck:
  assumes "both_done d r q" shows "step_left u d = None" "step_right v d = None"
  using assms by (auto simp: both_done_def step_left_def step_right_def split: process.splits)

text \<open>
  From the outcome of one schedule: whatever has been scheduled so far, giving both sides their turn
  alternately ends the conversation with that outcome.
\<close>

lemma turn_moves:
  assumes "step_left u d \<noteq> None \<or> step_right v d \<noteq> None"
  shows "\<exists>k>0. steps (step_left u) (step_right v) k d (play u v [True, False] d)"
proof (cases "step_left u d")
  case None
  then obtain b where "step_right v d = Some b" using assms by auto
  then show ?thesis using None by (intro exI [of _ "Suc 0"]) (auto intro: steps_g [OF _ steps_0])
next
  case (Some a)
  obtain n where "steps (step_left u) (step_right v) n a (play u v [False] a)" using play_steps by blast
  then show ?thesis using Some by (intro exI [of _ "Suc n"]) (auto intro: steps_f)
qed

lemma stuck_or_move:
  assumes "steps (step_left u) (step_right v) (Suc n) d t" "both_done t r q"
  shows "\<exists>m. m \<le> n \<and> steps (step_left u) (step_right v) m (play u v [True, False] d) t"
proof -
  note stuck = both_done_stuck(1) [OF assms(2), of u] both_done_stuck(2) [OF assms(2), of v]
  have "step_left u d \<noteq> None \<or> step_right v d \<noteq> None" using assms(1) by (auto elim: steps_SucE)
  then obtain k where k: "0 < k" "steps (step_left u) (step_right v) k d (play u v [True, False] d)"
    using turn_moves by blast
  show ?thesis using sides.every_schedule [OF assms(1) stuck k(2)] k(1) by (intro exI [of _ "Suc n - k"]) auto
qed

fun alternate :: "nat \<Rightarrow> bool list" where
  "alternate 0 = []" |
  "alternate (Suc n) = True # False # alternate n"

lemma play_stuck: "both_done d r q \<Longrightarrow> play u v bs d = d"
  by (induction bs) (simp_all add: both_done_stuck)

lemma alternate_finishes:
  "steps (step_left u) (step_right v) n d t \<Longrightarrow> both_done t r q \<Longrightarrow> n \<le> N \<Longrightarrow> play u v (alternate N) d = t"
proof (induction N arbitrary: n d)
  case 0
  then show ?case by (auto elim: steps_0E)
next
  case (Suc N)
  show ?case
  proof (cases n)
    case 0
    then have "d = t" using Suc.prems(1) by (auto elim: steps_0E)
    then show ?thesis using play_stuck [OF Suc.prems(2)] by simp
  next
    case (Suc n')
    obtain m where m: "m \<le> n'" "steps (step_left u) (step_right v) m (play u v [True, False] d) t"
      using stuck_or_move [OF _ Suc.prems(2), of u v n' d] Suc.prems(1) Suc by auto
    then have "play u v (alternate N) (play u v [True, False] d) = t"
      using Suc.IH [OF m(2) Suc.prems(2)] Suc.prems(3) Suc by simp
    then show ?thesis using play_append [of u v "[True, False]" "alternate N" d] by simp
  qed
qed

lemma any_schedule_finishes:
  assumes "both_done (play u v sched d) r q" "length sched \<le> N"
  shows "both_done (play u v (bs @ alternate N) d) r q"
proof -
  obtain n where n: "n \<le> length sched" "steps (step_left u) (step_right v) n d (play u v sched d)"
    using play_steps by blast
  obtain k where k: "steps (step_left u) (step_right v) k d (play u v bs d)" using play_steps by blast
  have "steps (step_left u) (step_right v) (n - k) (play u v bs d) (play u v sched d)"
    using sides.every_schedule [OF n(2) _ _ k] both_done_stuck [OF assms(1)] by simp
  then have "play u v (alternate N) (play u v bs d) = play u v sched d"
    by (rule alternate_finishes [OF _ assms(1)]) (use n(1) assms(2) in simp)
  then show ?thesis using assms(1) by (simp add: play_append)
qed

text \<open>Each side of a duet is a run of its process.\<close>

lemma longer_run:
  "runs (k True) tr r \<Longrightarrow> \<exists>tr. runs (Send m k) tr r"
  "runs (k' (Some m)) tr r \<Longrightarrow> \<exists>tr. runs (Recv k') tr r"
  "runs (k yes) tr r \<Longrightarrow> \<exists>tr. runs (Ask c k) tr r"
  by (rule exI, erule run_sent, rule exI, erule run_received, rule exI, erule run_asked)

lemma left_runs: "both_done (play u v bs d) r q \<Longrightarrow> \<exists>tr. runs (left d) tr r"
proof (induction bs arbitrary: d)
  case Nil
  then show ?case by (auto simp: both_done_def runs_simps split: process.splits)
next
  case (Cons b bs)
  show ?case
  proof (cases "b \<and> step_left u d \<noteq> None")
    case True
    then obtain d' tr where d': "step_left u d = Some d'" "runs (left d') tr r" using Cons by fastforce
    then show ?thesis
      by (cases "left d") (auto simp: step_left_def split: list.splits intro: longer_run)
  next
    case False
    then obtain d' where d': "both_done (play u v bs d') r q" "left d' = left d"
      using Cons.prems by (auto simp: step_right_def split: if_split_asm option.splits process.splits list.splits)
    then show ?thesis using Cons.IH [of d'] by simp
  qed
qed

lemma right_runs: "both_done (play u v bs d) r q \<Longrightarrow> \<exists>tr. runs (right d) tr q"
proof (induction bs arbitrary: d)
  case Nil
  then show ?case by (auto simp: both_done_def runs_simps split: process.splits)
next
  case (Cons b bs)
  show ?case
  proof (cases "\<not> b \<and> step_right v d \<noteq> None")
    case True
    then obtain d' tr where d': "step_right v d = Some d'" "runs (right d') tr q" using Cons by fastforce
    then show ?thesis
      by (cases "right d") (auto simp: step_right_def split: list.splits intro: longer_run)
  next
    case False
    then obtain d' where d': "both_done (play u v bs d') r q" "right d' = right d"
      using Cons.prems by (auto simp: step_left_def split: if_split_asm option.splits process.splits list.splits)
    then show ?thesis using Cons.IH [of d'] by simp
  qed
qed

lemma duet_runs:
  assumes "both_done (play u v bs (duet p q)) x y" shows "\<exists>tr. runs p tr x" "\<exists>tr. runs q tr y"
  using left_runs [OF assms] right_runs [OF assms] by (simp_all add: duet_def)

end
