(* ===== verification/CMachines.thy ===== *)
theory CMachines
  imports PairingMachines
begin

text \<open>
  The pairing machines generated for C (\<open>c/src/pairingceremony_gen.c\<close>), and that they take the
  steps of the Go machines of \<open>PairingMachines\<close>, as long as no action returns a negative error.
  A callback gets \<open>userdata\<close>, through which it can reach the machine itself: the comments of the generated code leave
  some variables to the actions. So a callback is a function on the machine.
\<close>

section \<open>The generated C machines\<close>

datatype pigeon_acceptor_state =
    ACCEPTOR_IDLE | ACCEPTOR_GENERATING_EPHEMERAL | ACCEPTOR_REGISTERING_RELAY | ACCEPTOR_WAITING_FOR_HELLO
  | ACCEPTOR_WAITING_FOR_REVEAL | ACCEPTOR_DERIVING_CODE | ACCEPTOR_AWAITING_USER_CONFIRM
  | ACCEPTOR_AWAITING_PEER_CONFIRM | ACCEPTOR_PAIRED | ACCEPTOR_ABORTED

datatype pigeon_initiator_state =
    INITIATOR_IDLE | INITIATOR_DECODING_TOKEN | INITIATOR_GENERATING_EPHEMERAL | INITIATOR_CONNECTING_RELAY
  | INITIATOR_AWAITING_WELCOME | INITIATOR_REVEALING | INITIATOR_DERIVING_CODE | INITIATOR_AWAITING_USER_CONFIRM
  | INITIATOR_AWAITING_PEER_CONFIRM | INITIATOR_PAIRED | INITIATOR_ABORTED

datatype pairing_ceremony_msg_type =
    MSG_HELLO | MSG_WELCOME | MSG_REVEAL | MSG_CONFIRM_TO_INITIATOR | MSG_CONFIRM_TO_ACCEPTOR

datatype pairing_ceremony_action_id =
    ACTION_GEN_EPHEMERAL | ACTION_REGISTER_RELAY | ACTION_EMIT_TOKEN | ACTION_STORE_COMMIT
  | ACTION_VERIFY_COMMIT_AND_DERIVE | ACTION_STORE_RECORD | ACTION_DECODE_TOKEN | ACTION_DIAL_RELAY
  | ACTION_SEND_REVEAL | ACTION_DERIVE_CODE

datatype pairing_ceremony_event_id =
    EVENT_PAIR_BEGIN | EVENT_EPHEMERAL_READY | EVENT_RELAY_REGISTERED | EVENT_CODE_READY | EVENT_USER_CONFIRM
  | EVENT_USER_CANCEL | EVENT_COMMIT_FAIL | EVENT_TOKEN_RECEIVED | EVENT_TOKEN_DECODED | EVENT_RELAY_CONNECTED
  | EVENT_REVEAL_SENT | EVENT_RECV_HELLO | EVENT_RECV_REVEAL | EVENT_RECV_CONFIRM_TO_ACCEPTOR
  | EVENT_RECV_WELCOME | EVENT_RECV_CONFIRM_TO_INITIATOR

text \<open>The callbacks: an action returns an error code, zero for success.\<close>

record ('a, 'm) pigeon_callbacks =
  c_actions :: "'a \<Rightarrow> ('m \<Rightarrow> int \<times> 'm) option"
  c_on_change :: "(string \<Rightarrow> 'm \<Rightarrow> 'm) option"

record 'u pigeon_acceptor_machine =
  a_state :: pigeon_acceptor_state
  acceptor_eph_pub :: string
  acceptor_received_commit :: string
  acceptor_received_eph_pub :: string
  acceptor_received_identity :: string
  acceptor_received_instance :: string
  acceptor_commit_ok :: string
  acceptor_code :: "string option"
  acceptor_user_confirmed :: string
  acceptor_received_confirm :: string
  a_userdata :: 'u

record 'u pigeon_initiator_machine =
  i_state :: pigeon_initiator_state
  initiator_eph_pub :: string
  initiator_commit :: string
  received_acceptor_eph_pub :: string
  received_acceptor_identity :: string
  received_acceptor_instance :: string
  initiator_received_eph_pub :: string
  initiator_received_identity :: string
  initiator_received_instance :: string
  initiator_code :: "string option"
  initiator_user_confirmed :: string
  initiator_received_confirm :: string
  i_userdata :: 'u

definition run_action :: "('a, 'm, 'z) pigeon_callbacks_scheme \<Rightarrow> 'a \<Rightarrow> 'm \<Rightarrow> int \<times> 'm" where
  "run_action cb a m = (case c_actions cb a of None \<Rightarrow> (0, m) | Some f \<Rightarrow> f m)"

text \<open>A transition with an action: an error is returned negated and nothing else happens.\<close>

definition c_action :: "('a, 'm, 'z) pigeon_callbacks_scheme \<Rightarrow> 'a \<Rightarrow> ('m \<Rightarrow> 'm) \<Rightarrow> 'm \<Rightarrow> int \<times> 'm" where
  "c_action cb a f m = (case run_action cb a m of (err, m') \<Rightarrow> if err \<noteq> 0 then (- err, m') else (1, f m'))"

definition c_changed :: "('a, 'm, 'z) pigeon_callbacks_scheme \<Rightarrow> string \<Rightarrow> 'm \<Rightarrow> 'm" where
  "c_changed cb v m = (case c_on_change cb of None \<Rightarrow> m | Some f \<Rightarrow> f v m)"

definition pigeon_acceptor_machine_init :: "'u \<Rightarrow> 'u pigeon_acceptor_machine" where
  "pigeon_acceptor_machine_init u =
     \<lparr>a_state = ACCEPTOR_IDLE, acceptor_eph_pub = ''none'', acceptor_received_commit = ''none'',
      acceptor_received_eph_pub = ''none'', acceptor_received_identity = ''none'', acceptor_received_instance = ''none'',
      acceptor_commit_ok = ''false'', acceptor_code = None, acceptor_user_confirmed = ''false'',
      acceptor_received_confirm = ''false'', a_userdata = u\<rparr>"

definition pigeon_initiator_machine_init :: "'u \<Rightarrow> 'u pigeon_initiator_machine" where
  "pigeon_initiator_machine_init u =
     \<lparr>i_state = INITIATOR_IDLE, initiator_eph_pub = ''none'', initiator_commit = ''none'',
      received_acceptor_eph_pub = ''none'', received_acceptor_identity = ''none'', received_acceptor_instance = ''none'',
      initiator_received_eph_pub = ''none'', initiator_received_identity = ''none'', initiator_received_instance = ''none'',
      initiator_code = None, initiator_user_confirmed = ''false'', initiator_received_confirm = ''false'', i_userdata = u\<rparr>"

definition pigeon_acceptor_handle_message ::
  "(pairing_ceremony_action_id, 'u pigeon_acceptor_machine) pigeon_callbacks \<Rightarrow> pairing_ceremony_msg_type \<Rightarrow> 'u pigeon_acceptor_machine \<Rightarrow> int \<times> 'u pigeon_acceptor_machine" where
  "pigeon_acceptor_handle_message cb msg m =
     (if a_state m = ACCEPTOR_WAITING_FOR_HELLO \<and> msg = MSG_HELLO
      then c_action cb ACTION_STORE_COMMIT (\<lambda>m. m\<lparr>a_state := ACCEPTOR_WAITING_FOR_REVEAL\<rparr>) m
      else if a_state m = ACCEPTOR_WAITING_FOR_REVEAL \<and> msg = MSG_REVEAL
      then c_action cb ACTION_VERIFY_COMMIT_AND_DERIVE (\<lambda>m. m\<lparr>a_state := ACCEPTOR_DERIVING_CODE\<rparr>) m
      else if a_state m = ACCEPTOR_AWAITING_PEER_CONFIRM \<and> msg = MSG_CONFIRM_TO_ACCEPTOR
      then c_action cb ACTION_STORE_RECORD
        (\<lambda>m. (c_changed cb ''acceptor_received_confirm'' (m\<lparr>acceptor_received_confirm := ''true''\<rparr>))\<lparr>a_state := ACCEPTOR_PAIRED\<rparr>) m
      else (0, m))"

definition pigeon_acceptor_step ::
  "(pairing_ceremony_action_id, 'u pigeon_acceptor_machine) pigeon_callbacks \<Rightarrow> pairing_ceremony_event_id \<Rightarrow> 'u pigeon_acceptor_machine \<Rightarrow> int \<times> 'u pigeon_acceptor_machine" where
  "pigeon_acceptor_step cb event m =
     (if a_state m = ACCEPTOR_IDLE \<and> event = EVENT_PAIR_BEGIN
      then c_action cb ACTION_GEN_EPHEMERAL
        (\<lambda>m. (c_changed cb ''acceptor_eph_pub'' (m\<lparr>acceptor_eph_pub := ''acceptor_eph''\<rparr>))\<lparr>a_state := ACCEPTOR_GENERATING_EPHEMERAL\<rparr>) m
      else if a_state m = ACCEPTOR_GENERATING_EPHEMERAL \<and> event = EVENT_EPHEMERAL_READY
      then c_action cb ACTION_REGISTER_RELAY (\<lambda>m. m\<lparr>a_state := ACCEPTOR_REGISTERING_RELAY\<rparr>) m
      else if a_state m = ACCEPTOR_REGISTERING_RELAY \<and> event = EVENT_RELAY_REGISTERED
      then c_action cb ACTION_EMIT_TOKEN (\<lambda>m. m\<lparr>a_state := ACCEPTOR_WAITING_FOR_HELLO\<rparr>) m
      else if a_state m = ACCEPTOR_DERIVING_CODE \<and> event = EVENT_CODE_READY
      then (1, m\<lparr>a_state := ACCEPTOR_AWAITING_USER_CONFIRM\<rparr>)
      else if a_state m = ACCEPTOR_AWAITING_USER_CONFIRM \<and> event = EVENT_USER_CONFIRM
      then (1, (c_changed cb ''acceptor_user_confirmed'' (m\<lparr>acceptor_user_confirmed := ''true''\<rparr>))\<lparr>a_state := ACCEPTOR_AWAITING_PEER_CONFIRM\<rparr>)
      else if a_state m = ACCEPTOR_AWAITING_USER_CONFIRM \<and> event = EVENT_USER_CANCEL
      then (1, m\<lparr>a_state := ACCEPTOR_ABORTED\<rparr>)
      else if a_state m = ACCEPTOR_AWAITING_PEER_CONFIRM \<and> event = EVENT_USER_CANCEL
      then (1, m\<lparr>a_state := ACCEPTOR_ABORTED\<rparr>)
      else if a_state m = ACCEPTOR_WAITING_FOR_REVEAL \<and> event = EVENT_COMMIT_FAIL
      then (1, m\<lparr>a_state := ACCEPTOR_ABORTED\<rparr>)
      else (0, m))"

definition pigeon_initiator_handle_message ::
  "(pairing_ceremony_action_id, 'u pigeon_initiator_machine) pigeon_callbacks \<Rightarrow> pairing_ceremony_msg_type \<Rightarrow> 'u pigeon_initiator_machine \<Rightarrow> int \<times> 'u pigeon_initiator_machine" where
  "pigeon_initiator_handle_message cb msg m =
     (if i_state m = INITIATOR_AWAITING_WELCOME \<and> msg = MSG_WELCOME
      then c_action cb ACTION_SEND_REVEAL (\<lambda>m. m\<lparr>i_state := INITIATOR_REVEALING\<rparr>) m
      else if i_state m = INITIATOR_AWAITING_PEER_CONFIRM \<and> msg = MSG_CONFIRM_TO_INITIATOR
      then c_action cb ACTION_STORE_RECORD
        (\<lambda>m. (c_changed cb ''initiator_received_confirm'' (m\<lparr>initiator_received_confirm := ''true''\<rparr>))\<lparr>i_state := INITIATOR_PAIRED\<rparr>) m
      else (0, m))"

definition pigeon_initiator_step ::
  "(pairing_ceremony_action_id, 'u pigeon_initiator_machine) pigeon_callbacks \<Rightarrow> pairing_ceremony_event_id \<Rightarrow> 'u pigeon_initiator_machine \<Rightarrow> int \<times> 'u pigeon_initiator_machine" where
  "pigeon_initiator_step cb event m =
     (if i_state m = INITIATOR_IDLE \<and> event = EVENT_TOKEN_RECEIVED
      then c_action cb ACTION_DECODE_TOKEN
        (\<lambda>m. let m1 = c_changed cb ''received_acceptor_eph_pub'' (m\<lparr>received_acceptor_eph_pub := ''acceptor_eph''\<rparr>);
                 m2 = c_changed cb ''received_acceptor_identity'' (m1\<lparr>received_acceptor_identity := ''acceptor_id''\<rparr>);
                 m3 = c_changed cb ''received_acceptor_instance'' (m2\<lparr>received_acceptor_instance := ''acceptor_instance''\<rparr>)
             in m3\<lparr>i_state := INITIATOR_DECODING_TOKEN\<rparr>) m
      else if i_state m = INITIATOR_DECODING_TOKEN \<and> event = EVENT_TOKEN_DECODED
      then c_action cb ACTION_GEN_EPHEMERAL
        (\<lambda>m. let m1 = c_changed cb ''initiator_eph_pub'' (m\<lparr>initiator_eph_pub := ''initiator_eph''\<rparr>);
                 m2 = c_changed cb ''initiator_commit'' (m1\<lparr>initiator_commit := ''initiator_commit''\<rparr>)
             in m2\<lparr>i_state := INITIATOR_GENERATING_EPHEMERAL\<rparr>) m
      else if i_state m = INITIATOR_GENERATING_EPHEMERAL \<and> event = EVENT_EPHEMERAL_READY
      then c_action cb ACTION_DIAL_RELAY (\<lambda>m. m\<lparr>i_state := INITIATOR_CONNECTING_RELAY\<rparr>) m
      else if i_state m = INITIATOR_CONNECTING_RELAY \<and> event = EVENT_RELAY_CONNECTED
      then (1, m\<lparr>i_state := INITIATOR_AWAITING_WELCOME\<rparr>)
      else if i_state m = INITIATOR_REVEALING \<and> event = EVENT_REVEAL_SENT
      then c_action cb ACTION_DERIVE_CODE (\<lambda>m. m\<lparr>i_state := INITIATOR_DERIVING_CODE\<rparr>) m
      else if i_state m = INITIATOR_DERIVING_CODE \<and> event = EVENT_CODE_READY
      then (1, m\<lparr>i_state := INITIATOR_AWAITING_USER_CONFIRM\<rparr>)
      else if i_state m = INITIATOR_AWAITING_USER_CONFIRM \<and> event = EVENT_USER_CONFIRM
      then (1, (c_changed cb ''initiator_user_confirmed'' (m\<lparr>initiator_user_confirmed := ''true''\<rparr>))\<lparr>i_state := INITIATOR_AWAITING_PEER_CONFIRM\<rparr>)
      else if i_state m = INITIATOR_AWAITING_USER_CONFIRM \<and> event = EVENT_USER_CANCEL
      then (1, m\<lparr>i_state := INITIATOR_ABORTED\<rparr>)
      else if i_state m = INITIATOR_AWAITING_PEER_CONFIRM \<and> event = EVENT_USER_CANCEL
      then (1, m\<lparr>i_state := INITIATOR_ABORTED\<rparr>)
      else (0, m))"

section \<open>The C machines take the steps of the Go machines\<close>

fun acceptor_state_name :: "pigeon_acceptor_state \<Rightarrow> string" where
  "acceptor_state_name ACCEPTOR_IDLE = ''Idle''" |
  "acceptor_state_name ACCEPTOR_GENERATING_EPHEMERAL = ''GeneratingEphemeral''" |
  "acceptor_state_name ACCEPTOR_REGISTERING_RELAY = ''RegisteringRelay''" |
  "acceptor_state_name ACCEPTOR_WAITING_FOR_HELLO = ''WaitingForHello''" |
  "acceptor_state_name ACCEPTOR_WAITING_FOR_REVEAL = ''WaitingForReveal''" |
  "acceptor_state_name ACCEPTOR_DERIVING_CODE = ''DerivingCode''" |
  "acceptor_state_name ACCEPTOR_AWAITING_USER_CONFIRM = ''AwaitingUserConfirm''" |
  "acceptor_state_name ACCEPTOR_AWAITING_PEER_CONFIRM = ''AwaitingPeerConfirm''" |
  "acceptor_state_name ACCEPTOR_PAIRED = ''Paired''" |
  "acceptor_state_name ACCEPTOR_ABORTED = ''Aborted''"

fun initiator_state_name :: "pigeon_initiator_state \<Rightarrow> string" where
  "initiator_state_name INITIATOR_IDLE = ''Idle''" |
  "initiator_state_name INITIATOR_DECODING_TOKEN = ''DecodingToken''" |
  "initiator_state_name INITIATOR_GENERATING_EPHEMERAL = ''GeneratingEphemeral''" |
  "initiator_state_name INITIATOR_CONNECTING_RELAY = ''ConnectingRelay''" |
  "initiator_state_name INITIATOR_AWAITING_WELCOME = ''AwaitingWelcome''" |
  "initiator_state_name INITIATOR_REVEALING = ''Revealing''" |
  "initiator_state_name INITIATOR_DERIVING_CODE = ''DerivingCode''" |
  "initiator_state_name INITIATOR_AWAITING_USER_CONFIRM = ''AwaitingUserConfirm''" |
  "initiator_state_name INITIATOR_AWAITING_PEER_CONFIRM = ''AwaitingPeerConfirm''" |
  "initiator_state_name INITIATOR_PAIRED = ''Paired''" |
  "initiator_state_name INITIATOR_ABORTED = ''Aborted''"

fun msg_type_name :: "pairing_ceremony_msg_type \<Rightarrow> string" where
  "msg_type_name MSG_HELLO = ''hello''" |
  "msg_type_name MSG_WELCOME = ''welcome''" |
  "msg_type_name MSG_REVEAL = ''reveal''" |
  "msg_type_name MSG_CONFIRM_TO_INITIATOR = ''confirm_to_initiator''" |
  "msg_type_name MSG_CONFIRM_TO_ACCEPTOR = ''confirm_to_acceptor''"

fun action_name :: "pairing_ceremony_action_id \<Rightarrow> string" where
  "action_name ACTION_GEN_EPHEMERAL = ''gen_ephemeral''" |
  "action_name ACTION_REGISTER_RELAY = ''register_relay''" |
  "action_name ACTION_EMIT_TOKEN = ''emit_token''" |
  "action_name ACTION_STORE_COMMIT = ''store_commit''" |
  "action_name ACTION_VERIFY_COMMIT_AND_DERIVE = ''verify_commit_and_derive''" |
  "action_name ACTION_STORE_RECORD = ''store_record''" |
  "action_name ACTION_DECODE_TOKEN = ''decode_token''" |
  "action_name ACTION_DIAL_RELAY = ''dial_relay''" |
  "action_name ACTION_SEND_REVEAL = ''send_reveal''" |
  "action_name ACTION_DERIVE_CODE = ''derive_code''"

fun c_event_name :: "pairing_ceremony_event_id \<Rightarrow> string" where
  "c_event_name EVENT_PAIR_BEGIN = ''pair_begin''" |
  "c_event_name EVENT_EPHEMERAL_READY = ''ephemeral_ready''" |
  "c_event_name EVENT_RELAY_REGISTERED = ''relay_registered''" |
  "c_event_name EVENT_CODE_READY = ''code_ready''" |
  "c_event_name EVENT_USER_CONFIRM = ''user_confirm''" |
  "c_event_name EVENT_USER_CANCEL = ''user_cancel''" |
  "c_event_name EVENT_COMMIT_FAIL = ''commit_fail''" |
  "c_event_name EVENT_TOKEN_RECEIVED = ''token_received''" |
  "c_event_name EVENT_TOKEN_DECODED = ''token_decoded''" |
  "c_event_name EVENT_RELAY_CONNECTED = ''relay_connected''" |
  "c_event_name EVENT_REVEAL_SENT = ''reveal_sent''" |
  "c_event_name EVENT_RECV_HELLO = ''recv_hello''" |
  "c_event_name EVENT_RECV_REVEAL = ''recv_reveal''" |
  "c_event_name EVENT_RECV_CONFIRM_TO_ACCEPTOR = ''recv_confirm_to_acceptor''" |
  "c_event_name EVENT_RECV_WELCOME = ''recv_welcome''" |
  "c_event_name EVENT_RECV_CONFIRM_TO_INITIATOR = ''recv_confirm_to_initiator''"

text \<open>The Go machine with the same fields; a code that is still a null pointer is an empty string there.\<close>

definition go_acceptor :: "'u pigeon_acceptor_machine \<Rightarrow> PairingCeremonyProtocolAcceptorMachine \<times> 'u" where
  "go_acceptor m =
     (\<lparr>pca_State = acceptor_state_name (a_state m), pca_AcceptorEphPub = acceptor_eph_pub m,
       pca_AcceptorReceivedCommit = acceptor_received_commit m, pca_AcceptorReceivedEphPub = acceptor_received_eph_pub m,
       pca_AcceptorReceivedIdentity = acceptor_received_identity m, pca_AcceptorReceivedInstance = acceptor_received_instance m,
       pca_AcceptorCommitOk = acceptor_commit_ok m, pca_AcceptorCode = (case acceptor_code m of None \<Rightarrow> [] | Some c \<Rightarrow> c),
       pca_AcceptorUserConfirmed = acceptor_user_confirmed m, pca_AcceptorReceivedConfirm = acceptor_received_confirm m\<rparr>,
      a_userdata m)"

definition go_initiator :: "'u pigeon_initiator_machine \<Rightarrow> PairingCeremonyProtocolInitiatorMachine \<times> 'u" where
  "go_initiator m =
     (\<lparr>pci_State = initiator_state_name (i_state m), pci_InitiatorEphPub = initiator_eph_pub m,
       pci_InitiatorCommit = initiator_commit m, pci_ReceivedAcceptorEphPub = received_acceptor_eph_pub m,
       pci_ReceivedAcceptorIdentity = received_acceptor_identity m, pci_ReceivedAcceptorInstance = received_acceptor_instance m,
       pci_InitiatorReceivedEphPub = initiator_received_eph_pub m, pci_InitiatorReceivedIdentity = initiator_received_identity m,
       pci_InitiatorReceivedInstance = initiator_received_instance m,
       pci_InitiatorCode = (case initiator_code m of None \<Rightarrow> [] | Some c \<Rightarrow> c),
       pci_InitiatorUserConfirmed = initiator_user_confirmed m, pci_InitiatorReceivedConfirm = initiator_received_confirm m\<rparr>,
      i_userdata m)"

text \<open>Callbacks that do the same in both languages, with error codes that are not negative.\<close>

definition same_callbacks :: "('c \<Rightarrow> 'm \<times> 'w) \<Rightarrow> (pairing_ceremony_action_id, 'c) pigeon_callbacks \<Rightarrow> ('m, 'w, int) callbacks \<Rightarrow> bool" where
  "same_callbacks go cb env \<longleftrightarrow>
     (\<forall>a m. let err = fst (run_action cb a m); m' = snd (run_action cb a m) in
        err \<ge> 0 \<and> act env (action_name a) (go m) = (go m', if err = 0 then None else Some err)) \<and>
     (\<forall>v m. changed env v (go m) = go (c_changed cb v m))"

text \<open>What a C return value stands for.\<close>

definition c_result :: "int \<Rightarrow> int + bool" where
  "c_result r = (if r = 0 then Inr False else if r = 1 then Inr True else Inl (- r))"

lemma state_names:
  "acceptor_state_name s = acceptor_state_name s' \<longleftrightarrow> s = s'" "initiator_state_name i = initiator_state_name i' \<longleftrightarrow> i = i'"
  by (cases s; cases s'; simp) (cases i; cases i'; simp)

lemma other_names:
  "msg_type_name m = msg_type_name m' \<longleftrightarrow> m = m'" "c_event_name e = c_event_name e' \<longleftrightarrow> e = e'"
  by (cases m; cases m'; simp) (cases e; cases e'; simp)

lemma acceptor_at: "pca_State (fst (go_acceptor m)) = acceptor_state_name s \<longleftrightarrow> a_state m = s"
  by (simp add: go_acceptor_def state_names)

lemma initiator_at: "pci_State (fst (go_initiator m)) = initiator_state_name s \<longleftrightarrow> i_state m = s"
  by (simp add: go_initiator_def state_names)

lemma acceptor_goto:
  "goto (pca_State_update (\<lambda>_. acceptor_state_name s)) (go_acceptor m) = (go_acceptor (m\<lparr>a_state := s\<rparr>), None)"
  by (simp add: goto_def go_acceptor_def)

lemma initiator_goto:
  "goto (pci_State_update (\<lambda>_. initiator_state_name s)) (go_initiator m) = (go_initiator (m\<lparr>i_state := s\<rparr>), None)"
  by (simp add: goto_def go_initiator_def)

lemma same_act:
  "same_callbacks go cb env \<Longrightarrow> act env (action_name a) (go m) =
     (go (snd (run_action cb a m)), if fst (run_action cb a m) = 0 then None else Some (fst (run_action cb a m)))"
  "same_callbacks go cb env \<Longrightarrow> 0 \<le> fst (run_action cb a m)"
  by (simp_all add: same_callbacks_def Let_def)

lemma same_changed: "same_callbacks go cb env \<Longrightarrow> changed env v (go m) = go (c_changed cb v m)"
  by (simp add: same_callbacks_def)

lemma assign_same:
  "same_callbacks go cb env \<Longrightarrow> (g (fst (go m)), snd (go m)) = go (h m) \<Longrightarrow>
   assign env g v (go m) = (go (c_changed cb v (h m)), None)"
  by (simp add: assign_def same_changed)

lemma acceptor_assign:
  assumes "same_callbacks go_acceptor cb env"
  shows "assign env (pca_AcceptorEphPub_update (\<lambda>_. x)) v (go_acceptor m) = (go_acceptor (c_changed cb v (m\<lparr>acceptor_eph_pub := x\<rparr>)), None)"
    "assign env (pca_AcceptorUserConfirmed_update (\<lambda>_. x)) v (go_acceptor m) = (go_acceptor (c_changed cb v (m\<lparr>acceptor_user_confirmed := x\<rparr>)), None)"
    "assign env (pca_AcceptorReceivedConfirm_update (\<lambda>_. x)) v (go_acceptor m) = (go_acceptor (c_changed cb v (m\<lparr>acceptor_received_confirm := x\<rparr>)), None)"
  by (rule assign_same [OF assms], simp add: go_acceptor_def)+

lemma initiator_assign:
  assumes "same_callbacks go_initiator cb env"
  shows "assign env (pci_InitiatorEphPub_update (\<lambda>_. x)) v (go_initiator m) = (go_initiator (c_changed cb v (m\<lparr>initiator_eph_pub := x\<rparr>)), None)"
    "assign env (pci_InitiatorCommit_update (\<lambda>_. x)) v (go_initiator m) = (go_initiator (c_changed cb v (m\<lparr>initiator_commit := x\<rparr>)), None)"
    "assign env (pci_ReceivedAcceptorEphPub_update (\<lambda>_. x)) v (go_initiator m) = (go_initiator (c_changed cb v (m\<lparr>received_acceptor_eph_pub := x\<rparr>)), None)"
    "assign env (pci_ReceivedAcceptorIdentity_update (\<lambda>_. x)) v (go_initiator m) = (go_initiator (c_changed cb v (m\<lparr>received_acceptor_identity := x\<rparr>)), None)"
    "assign env (pci_ReceivedAcceptorInstance_update (\<lambda>_. x)) v (go_initiator m) = (go_initiator (c_changed cb v (m\<lparr>received_acceptor_instance := x\<rparr>)), None)"
    "assign env (pci_InitiatorUserConfirmed_update (\<lambda>_. x)) v (go_initiator m) = (go_initiator (c_changed cb v (m\<lparr>initiator_user_confirmed := x\<rparr>)), None)"
    "assign env (pci_InitiatorReceivedConfirm_update (\<lambda>_. x)) v (go_initiator m) = (go_initiator (c_changed cb v (m\<lparr>initiator_received_confirm := x\<rparr>)), None)"
  by (rule assign_same [OF assms], simp add: go_initiator_def)+

text \<open>The tests and steps above at the literals of the generated code.\<close>

lemmas acceptor_literals =
  acceptor_at [where s = ACCEPTOR_IDLE, unfolded acceptor_state_name.simps]
  acceptor_at [where s = ACCEPTOR_GENERATING_EPHEMERAL, unfolded acceptor_state_name.simps]
  acceptor_at [where s = ACCEPTOR_REGISTERING_RELAY, unfolded acceptor_state_name.simps]
  acceptor_at [where s = ACCEPTOR_WAITING_FOR_HELLO, unfolded acceptor_state_name.simps]
  acceptor_at [where s = ACCEPTOR_WAITING_FOR_REVEAL, unfolded acceptor_state_name.simps]
  acceptor_at [where s = ACCEPTOR_DERIVING_CODE, unfolded acceptor_state_name.simps]
  acceptor_at [where s = ACCEPTOR_AWAITING_USER_CONFIRM, unfolded acceptor_state_name.simps]
  acceptor_at [where s = ACCEPTOR_AWAITING_PEER_CONFIRM, unfolded acceptor_state_name.simps]
  acceptor_at [where s = ACCEPTOR_PAIRED, unfolded acceptor_state_name.simps]
  acceptor_at [where s = ACCEPTOR_ABORTED, unfolded acceptor_state_name.simps]
  acceptor_goto [where s = ACCEPTOR_IDLE, unfolded acceptor_state_name.simps]
  acceptor_goto [where s = ACCEPTOR_GENERATING_EPHEMERAL, unfolded acceptor_state_name.simps]
  acceptor_goto [where s = ACCEPTOR_REGISTERING_RELAY, unfolded acceptor_state_name.simps]
  acceptor_goto [where s = ACCEPTOR_WAITING_FOR_HELLO, unfolded acceptor_state_name.simps]
  acceptor_goto [where s = ACCEPTOR_WAITING_FOR_REVEAL, unfolded acceptor_state_name.simps]
  acceptor_goto [where s = ACCEPTOR_DERIVING_CODE, unfolded acceptor_state_name.simps]
  acceptor_goto [where s = ACCEPTOR_AWAITING_USER_CONFIRM, unfolded acceptor_state_name.simps]
  acceptor_goto [where s = ACCEPTOR_AWAITING_PEER_CONFIRM, unfolded acceptor_state_name.simps]
  acceptor_goto [where s = ACCEPTOR_PAIRED, unfolded acceptor_state_name.simps]
  acceptor_goto [where s = ACCEPTOR_ABORTED, unfolded acceptor_state_name.simps]

lemmas initiator_literals =
  initiator_at [where s = INITIATOR_IDLE, unfolded initiator_state_name.simps]
  initiator_at [where s = INITIATOR_DECODING_TOKEN, unfolded initiator_state_name.simps]
  initiator_at [where s = INITIATOR_GENERATING_EPHEMERAL, unfolded initiator_state_name.simps]
  initiator_at [where s = INITIATOR_CONNECTING_RELAY, unfolded initiator_state_name.simps]
  initiator_at [where s = INITIATOR_AWAITING_WELCOME, unfolded initiator_state_name.simps]
  initiator_at [where s = INITIATOR_REVEALING, unfolded initiator_state_name.simps]
  initiator_at [where s = INITIATOR_DERIVING_CODE, unfolded initiator_state_name.simps]
  initiator_at [where s = INITIATOR_AWAITING_USER_CONFIRM, unfolded initiator_state_name.simps]
  initiator_at [where s = INITIATOR_AWAITING_PEER_CONFIRM, unfolded initiator_state_name.simps]
  initiator_at [where s = INITIATOR_PAIRED, unfolded initiator_state_name.simps]
  initiator_at [where s = INITIATOR_ABORTED, unfolded initiator_state_name.simps]
  initiator_goto [where s = INITIATOR_IDLE, unfolded initiator_state_name.simps]
  initiator_goto [where s = INITIATOR_DECODING_TOKEN, unfolded initiator_state_name.simps]
  initiator_goto [where s = INITIATOR_GENERATING_EPHEMERAL, unfolded initiator_state_name.simps]
  initiator_goto [where s = INITIATOR_CONNECTING_RELAY, unfolded initiator_state_name.simps]
  initiator_goto [where s = INITIATOR_AWAITING_WELCOME, unfolded initiator_state_name.simps]
  initiator_goto [where s = INITIATOR_REVEALING, unfolded initiator_state_name.simps]
  initiator_goto [where s = INITIATOR_DERIVING_CODE, unfolded initiator_state_name.simps]
  initiator_goto [where s = INITIATOR_AWAITING_USER_CONFIRM, unfolded initiator_state_name.simps]
  initiator_goto [where s = INITIATOR_AWAITING_PEER_CONFIRM, unfolded initiator_state_name.simps]
  initiator_goto [where s = INITIATOR_PAIRED, unfolded initiator_state_name.simps]
  initiator_goto [where s = INITIATOR_ABORTED, unfolded initiator_state_name.simps]

lemmas name_literals =
  other_names(1) [where m' = MSG_HELLO, unfolded msg_type_name.simps(1-5)] other_names(1) [where m' = MSG_WELCOME, unfolded msg_type_name.simps(1-5)]
  other_names(1) [where m' = MSG_REVEAL, unfolded msg_type_name.simps(1-5)]
  other_names(1) [where m' = MSG_CONFIRM_TO_INITIATOR, unfolded msg_type_name.simps(1-5)]
  other_names(1) [where m' = MSG_CONFIRM_TO_ACCEPTOR, unfolded msg_type_name.simps(1-5)]
  other_names(2) [where e' = EVENT_PAIR_BEGIN, unfolded c_event_name.simps] other_names(2) [where e' = EVENT_EPHEMERAL_READY, unfolded c_event_name.simps]
  other_names(2) [where e' = EVENT_RELAY_REGISTERED, unfolded c_event_name.simps]
  other_names(2) [where e' = EVENT_CODE_READY, unfolded c_event_name.simps] other_names(2) [where e' = EVENT_USER_CONFIRM, unfolded c_event_name.simps]
  other_names(2) [where e' = EVENT_USER_CANCEL, unfolded c_event_name.simps] other_names(2) [where e' = EVENT_COMMIT_FAIL, unfolded c_event_name.simps]
  other_names(2) [where e' = EVENT_TOKEN_RECEIVED, unfolded c_event_name.simps]
  other_names(2) [where e' = EVENT_TOKEN_DECODED, unfolded c_event_name.simps]
  other_names(2) [where e' = EVENT_RELAY_CONNECTED, unfolded c_event_name.simps]
  other_names(2) [where e' = EVENT_REVEAL_SENT, unfolded c_event_name.simps]

lemmas action_literals =
  same_act(1) [where a = ACTION_GEN_EPHEMERAL, unfolded action_name.simps] same_act(1) [where a = ACTION_REGISTER_RELAY, unfolded action_name.simps]
  same_act(1) [where a = ACTION_EMIT_TOKEN, unfolded action_name.simps] same_act(1) [where a = ACTION_STORE_COMMIT, unfolded action_name.simps]
  same_act(1) [where a = ACTION_VERIFY_COMMIT_AND_DERIVE, unfolded action_name.simps]
  same_act(1) [where a = ACTION_STORE_RECORD, unfolded action_name.simps] same_act(1) [where a = ACTION_DECODE_TOKEN, unfolded action_name.simps]
  same_act(1) [where a = ACTION_DIAL_RELAY, unfolded action_name.simps] same_act(1) [where a = ACTION_SEND_REVEAL, unfolded action_name.simps]
  same_act(1) [where a = ACTION_DERIVE_CODE, unfolded action_name.simps]

lemma c_action_same:
  assumes "same_callbacks go cb env"
  shows "(case c_action cb a f m of (r, m') \<Rightarrow> (go' m', c_result r)) =
    (if fst (run_action cb a m) = 0 then (go' (f (snd (run_action cb a m))), Inr True)
     else (go' (snd (run_action cb a m)), Inl (fst (run_action cb a m))))"
  using same_act(2) [OF assms, of a m] by (cases "run_action cb a m") (simp add: c_action_def c_result_def)

lemmas c_results = c_result_def [of 0, simplified] c_result_def [of 1, simplified]

lemma acceptor_step_agrees:
  assumes "same_callbacks go_acceptor cb env"
  shows "PairingCeremonyProtocolAcceptorMachine_Step env (c_event_name ev) (go_acceptor m) =
    (case pigeon_acceptor_step cb ev m of (r, m') \<Rightarrow> (go_acceptor m', c_result r))"
  by (simp add: PairingCeremonyProtocolAcceptorMachine_Step_def pigeon_acceptor_step_def acceptor_literals name_literals
      action_literals [OF assms] acceptor_assign [OF assms] c_action_same [OF assms] c_results)

lemma acceptor_message_agrees:
  assumes "same_callbacks go_acceptor cb env"
  shows "PairingCeremonyProtocolAcceptorMachine_HandleMessage env (msg_type_name msg) (go_acceptor m) =
    (case pigeon_acceptor_handle_message cb msg m of (r, m') \<Rightarrow> (go_acceptor m', c_result r))"
  by (simp add: PairingCeremonyProtocolAcceptorMachine_HandleMessage_def pigeon_acceptor_handle_message_def acceptor_literals name_literals
      action_literals [OF assms] acceptor_assign [OF assms] c_action_same [OF assms] c_results)

lemma initiator_step_agrees:
  assumes "same_callbacks go_initiator cb env"
  shows "PairingCeremonyProtocolInitiatorMachine_Step env (c_event_name ev) (go_initiator m) =
    (case pigeon_initiator_step cb ev m of (r, m') \<Rightarrow> (go_initiator m', c_result r))"
  by (simp add: PairingCeremonyProtocolInitiatorMachine_Step_def pigeon_initiator_step_def initiator_literals name_literals
      action_literals [OF assms] initiator_assign [OF assms] c_action_same [OF assms] c_results Let_def)

lemma initiator_message_agrees:
  assumes "same_callbacks go_initiator cb env"
  shows "PairingCeremonyProtocolInitiatorMachine_HandleMessage env (msg_type_name msg) (go_initiator m) =
    (case pigeon_initiator_handle_message cb msg m of (r, m') \<Rightarrow> (go_initiator m', c_result r))"
  by (simp add: PairingCeremonyProtocolInitiatorMachine_HandleMessage_def pigeon_initiator_handle_message_def initiator_literals name_literals
      action_literals [OF assms] initiator_assign [OF assms] c_action_same [OF assms] c_results)

lemma inits_agree:
  "go_acceptor (pigeon_acceptor_machine_init u) = (NewPairingCeremonyProtocolAcceptorMachine, u)"
  "go_initiator (pigeon_initiator_machine_init u) = (NewPairingCeremonyProtocolInitiatorMachine, u)"
  by (simp_all add: go_acceptor_def go_initiator_def pigeon_acceptor_machine_init_def pigeon_initiator_machine_init_def
      NewPairingCeremonyProtocolAcceptorMachine_def NewPairingCeremonyProtocolInitiatorMachine_def)

text \<open>
  (C14) The C machines of the pairing ceremony and the Go machines take the same steps: from
  corresponding machines, with callbacks that do the same and return no negative error, an event and a
  message lead to corresponding machines and results; and the initial machines correspond.
\<close>

theorem c_machines_follow_go:
  assumes "same_callbacks go_acceptor acb aenv" "same_callbacks go_initiator icb ienv"
  shows "go_acceptor (pigeon_acceptor_machine_init u) = (NewPairingCeremonyProtocolAcceptorMachine, u) \<and>
    go_initiator (pigeon_initiator_machine_init u) = (NewPairingCeremonyProtocolInitiatorMachine, u) \<and>
    PairingCeremonyProtocolAcceptorMachine_Step aenv (c_event_name ev) (go_acceptor m) =
      (case pigeon_acceptor_step acb ev m of (r, m') \<Rightarrow> (go_acceptor m', c_result r)) \<and>
    PairingCeremonyProtocolAcceptorMachine_HandleMessage aenv (msg_type_name msg) (go_acceptor m) =
      (case pigeon_acceptor_handle_message acb msg m of (r, m') \<Rightarrow> (go_acceptor m', c_result r)) \<and>
    PairingCeremonyProtocolInitiatorMachine_Step ienv (c_event_name ev) (go_initiator n) =
      (case pigeon_initiator_step icb ev n of (r, n') \<Rightarrow> (go_initiator n', c_result r)) \<and>
    PairingCeremonyProtocolInitiatorMachine_HandleMessage ienv (msg_type_name msg) (go_initiator n) =
      (case pigeon_initiator_handle_message icb msg n of (r, n') \<Rightarrow> (go_initiator n', c_result r))"
  using assms by (simp add: inits_agree acceptor_step_agrees acceptor_message_agrees initiator_step_agrees initiator_message_agrees)

text \<open>Callbacks for the witness: storing the record fails with 7, every other action counts its calls.\<close>

definition counting_cb :: "('m \<Rightarrow> 'm) \<Rightarrow> (pairing_ceremony_action_id, 'm) pigeon_callbacks" where
  "counting_cb bump =
     \<lparr>c_actions = (\<lambda>a. Some (\<lambda>m. if a = ACTION_STORE_RECORD then (7, m) else (0, bump m))), c_on_change = None\<rparr>"

definition counting_env :: "('m, nat, int) callbacks" where
  "counting_env =
     \<lparr>Guards = (\<lambda>_. None), Actions = (\<lambda>a. Some (\<lambda>(m, w). if a = ''store_record'' then ((m, w), Some 7) else ((m, Suc w), None))),
      OnChange = None\<rparr>"

lemma counting_same:
  "(\<And>m. go (bump m) = (fst (go m), Suc (snd (go m)))) \<Longrightarrow> same_callbacks go (counting_cb bump) counting_env"
  unfolding same_callbacks_def
  by (auto simp: counting_cb_def counting_env_def run_action_def c_changed_def act_def changed_def Let_def split_beta
      elim: action_name.elims)

theorem c_machines_follow_go_witness:
  "PairingCeremonyProtocolAcceptorMachine_HandleMessage counting_env (msg_type_name MSG_CONFIRM_TO_ACCEPTOR)
     (go_acceptor ((pigeon_acceptor_machine_init (3 :: nat))\<lparr>a_state := ACCEPTOR_AWAITING_PEER_CONFIRM\<rparr>)) =
   (go_acceptor ((pigeon_acceptor_machine_init 3)\<lparr>a_state := ACCEPTOR_AWAITING_PEER_CONFIRM\<rparr>), Inl 7) \<and>
   snd (fst (PairingCeremonyProtocolInitiatorMachine_Step counting_env (c_event_name EVENT_TOKEN_RECEIVED)
     (go_initiator (pigeon_initiator_machine_init (3 :: nat))))) = 4"
proof -
  let ?acb = "counting_cb (\<lambda>m :: nat pigeon_acceptor_machine. m\<lparr>a_userdata := Suc (a_userdata m)\<rparr>)"
  let ?icb = "counting_cb (\<lambda>m :: nat pigeon_initiator_machine. m\<lparr>i_userdata := Suc (i_userdata m)\<rparr>)"
  let ?am = "(pigeon_acceptor_machine_init (3 :: nat))\<lparr>a_state := ACCEPTOR_AWAITING_PEER_CONFIRM\<rparr>"
  have a: "same_callbacks go_acceptor ?acb counting_env" by (rule counting_same) (simp add: go_acceptor_def)
  have i: "same_callbacks go_initiator ?icb counting_env" by (rule counting_same) (simp add: go_initiator_def)
  have am: "pigeon_acceptor_handle_message ?acb MSG_CONFIRM_TO_ACCEPTOR ?am = (- 7, ?am)"
    by (simp add: pigeon_acceptor_handle_message_def c_action_def run_action_def counting_cb_def)
  have im: "i_userdata (snd (pigeon_initiator_step ?icb EVENT_TOKEN_RECEIVED (pigeon_initiator_machine_init 3))) = 4"
    by (simp add: pigeon_initiator_step_def c_action_def run_action_def counting_cb_def c_changed_def
        pigeon_initiator_machine_init_def Let_def)
  note agree = c_machines_follow_go [OF a i, of "3 :: nat" EVENT_TOKEN_RECEIVED ?am MSG_CONFIRM_TO_ACCEPTOR "pigeon_initiator_machine_init 3"]
  from agree have 1: "PairingCeremonyProtocolAcceptorMachine_HandleMessage counting_env (msg_type_name MSG_CONFIRM_TO_ACCEPTOR) (go_acceptor ?am) =
      (case pigeon_acceptor_handle_message ?acb MSG_CONFIRM_TO_ACCEPTOR ?am of (r, m') \<Rightarrow> (go_acceptor m', c_result r))" by blast
  from agree have 2: "fst (PairingCeremonyProtocolInitiatorMachine_Step counting_env (c_event_name EVENT_TOKEN_RECEIVED)
      (go_initiator (pigeon_initiator_machine_init 3))) =
      go_initiator (snd (pigeon_initiator_step ?icb EVENT_TOKEN_RECEIVED (pigeon_initiator_machine_init 3)))" by (auto split: prod.splits)
  have "snd (go_initiator m) = i_userdata m" for m :: "nat pigeon_initiator_machine" by (simp add: go_initiator_def)
  with im 1 show ?thesis unfolding 2 am by (simp add: c_result_def del: msg_type_name.simps)
qed

text \<open>
  An action that fails with -1, as the rest of the C library does, makes the machine report a
  transition (1) that it has not taken.
\<close>

lemma negative_error_reads_as_success:
  "a_state m = ACCEPTOR_AWAITING_PEER_CONFIRM \<Longrightarrow> c_actions cb ACTION_STORE_RECORD = Some (\<lambda>m. (- 1, m)) \<Longrightarrow>
   pigeon_acceptor_handle_message cb MSG_CONFIRM_TO_ACCEPTOR m = (1, m)"
  by (simp add: pigeon_acceptor_handle_message_def c_action_def run_action_def)
end
