(* ===== verification/CPairing.thy ===== *)
theory CPairing
  imports PairWire Duet SessionKeys CMachines
begin

text \<open>
  The pairing ceremony as it runs: the two drivers of \<open>c/src/pairing.c\<close>, which the Go package calls
  through \<open>cwire.RunAcceptor\<close> and \<open>cwire.RunInitiator\<close>, with the machines of \<open>CMachines\<close> and the
  messages of \<open>PairWire\<close>. A driver is a process that sends, waits for a message and asks
  its user, so the other end and the network between can be anything. \<open>malloc\<close> succeeds, the
  pointer arguments are not null, and keys are arrays of 32 bytes.
\<close>

section \<open>The drivers\<close>

record pigeon_pairing_record =
  peer_instance_id :: string
  relay_url :: string
  local_private_key :: bytes
  local_public_key :: bytes
  peer_public_key :: bytes

type_synonym pair_result = "(pigeon_pairing_record \<times> string) option"

text \<open>The early returns: a failed call ends the driver with \<open>-1\<close>.\<close>

definition need :: "'a option \<Rightarrow> ('a \<Rightarrow> (string, pair_result) process) \<Rightarrow> (string, pair_result) process" where
  "need x k = (case x of None \<Rightarrow> Done None | Some a \<Rightarrow> k a)"

definition require :: "bool \<Rightarrow> (string, pair_result) process \<Rightarrow> (string, pair_result) process" where
  "require b k = (if b then k else Done None)"

definition pair_send :: "string \<Rightarrow> (string, pair_result) process \<Rightarrow> (string, pair_result) process" where
  "pair_send msg k = process.Send msg (\<lambda>ok. require ok k)"

text \<open>
  The received bytes with the terminating NUL, which replaces the last byte of a full buffer;
  \<open>cwireGoRecvOnStream\<close> refuses a message that is longer than the buffer.
\<close>

definition terminated :: "string \<Rightarrow> string" where
  "terminated msg = (if length msg < PIGEON_MAX_MSG then msg else msg[PIGEON_MAX_MSG - 1 := CHR 0x00])"

definition pair_recv :: "(string \<Rightarrow> (string, pair_result) process) \<Rightarrow> (string, pair_result) process" where
  "pair_recv k = process.Recv (\<lambda>r. need r (\<lambda>msg. require (length msg \<le> PIGEON_MAX_MSG) (k (terminated msg))))"

definition has_kind :: "string \<Rightarrow> string \<Rightarrow> bool" where
  "has_kind msg kind = (case json_find_string_field msg ''kind'' 32 of Found v \<Rightarrow> cstr v = kind | _ \<Rightarrow> False)"

text \<open>A 32-byte field; a value that is not found, too long or of another length is refused.\<close>

definition key_field :: "string \<Rightarrow> string \<Rightarrow> bytes option" where
  "key_field msg key =
     (case json_find_string_field msg key 64 of
        Found v \<Rightarrow> (case b64_decode (cstr v) 32 of Some d \<Rightarrow> if length d = 32 then Some d else None | None \<Rightarrow> None)
      | _ \<Rightarrow> None)"

text \<open>The instance field goes into a zeroed array of 64; the result of the search is not looked at.\<close>

definition instance_field :: "string \<Rightarrow> string" where
  "instance_field msg =
     (case json_find_string_field msg ''instance_id'' 64 of Found v \<Rightarrow> cstr v | TooLong v \<Rightarrow> cstr v | NotFound \<Rightarrow> '''')"

definition no_callbacks :: "(pairing_ceremony_action_id, 'm) pigeon_callbacks" where
  "no_callbacks = \<lparr>c_actions = (\<lambda>_. None), c_on_change = None\<rparr>"

definition a_step :: "pairing_ceremony_event_id \<Rightarrow> unit pigeon_acceptor_machine \<Rightarrow> unit pigeon_acceptor_machine option" where
  "a_step ev m = (case pigeon_acceptor_step no_callbacks ev m of (r, m') \<Rightarrow> if r \<noteq> 1 then None else Some m')"

definition a_message :: "pairing_ceremony_msg_type \<Rightarrow> unit pigeon_acceptor_machine \<Rightarrow> unit pigeon_acceptor_machine option" where
  "a_message msg m = (case pigeon_acceptor_handle_message no_callbacks msg m of (r, m') \<Rightarrow> if r \<noteq> 1 then None else Some m')"

definition i_step :: "pairing_ceremony_event_id \<Rightarrow> unit pigeon_initiator_machine \<Rightarrow> unit pigeon_initiator_machine option" where
  "i_step ev m = (case pigeon_initiator_step no_callbacks ev m of (r, m') \<Rightarrow> if r \<noteq> 1 then None else Some m')"

definition i_message :: "pairing_ceremony_msg_type \<Rightarrow> unit pigeon_initiator_machine \<Rightarrow> unit pigeon_initiator_machine option" where
  "i_message msg m = (case pigeon_initiator_handle_message no_callbacks msg m of (r, m') \<Rightarrow> if r \<noteq> 1 then None else Some m')"

text \<open>
  The identity key of the peer's hello is decoded into a variable that is not read again and has no
  influence; \<open>accepted\<close> is the outcome of \<open>accept_stream\<close>.
\<close>

definition pigeon_pair_acceptor ::
  "hmac \<Rightarrow> (bytes \<Rightarrow> bytes) \<Rightarrow> bool \<Rightarrow> bytes \<Rightarrow> bytes \<Rightarrow> bytes \<Rightarrow> string \<Rightarrow> (string, pair_result) process" where
  "pigeon_pair_acceptor hmac sha accepted local_eph_priv local_eph_pub identity_pub instance_id =
     require accepted (
     need (a_step EVENT_PAIR_BEGIN (pigeon_acceptor_machine_init ())) (\<lambda>m1.
     need (a_step EVENT_EPHEMERAL_READY m1) (\<lambda>m2.
     need (a_step EVENT_RELAY_REGISTERED m2) (\<lambda>m3.
     pair_recv (\<lambda>hello.
     require (has_kind hello ''hello'') (
     need (key_field hello ''commit'') (\<lambda>peer_commit.
     need (a_message MSG_HELLO m3) (\<lambda>m4.
     need (build_welcome local_eph_pub identity_pub instance_id PIGEON_MAX_MSG) (\<lambda>welcome.
     pair_send welcome (
     pair_recv (\<lambda>reveal.
     require (has_kind reveal ''reveal'') (
     need (key_field reveal ''eph_pub'') (\<lambda>peer_eph_pub.
     need (key_field reveal ''blind'') (\<lambda>peer_blind.
     require (pigeon_sas_commit_verify sha peer_eph_pub peer_blind peer_commit) (
     need (a_message MSG_REVEAL m4) (\<lambda>m5.
     need (a_step EVENT_CODE_READY m5) (\<lambda>m6.
     need (pigeon_derive_confirmation_code hmac local_eph_pub peer_eph_pub) (\<lambda>code.
     Ask code (\<lambda>yes. require yes (
     need (a_step EVENT_USER_CONFIRM m6) (\<lambda>m7.
     need (build_confirm PIGEON_MAX_MSG) (\<lambda>confirm.
     pair_send confirm (
     pair_recv (\<lambda>peer_confirm.
     require (has_kind peer_confirm ''confirm'') (
     need (a_message MSG_CONFIRM_TO_ACCEPTOR m7) (\<lambda>m8.
     Done (Some (\<lparr>peer_instance_id = take 63 (instance_field hello), relay_url = '''',
       local_private_key = local_eph_priv, local_public_key = local_eph_pub, peer_public_key = peer_eph_pub\<rparr>, code))))))))))))))))))))))))))))"

definition pigeon_pair_initiator ::
  "hmac \<Rightarrow> (bytes \<Rightarrow> bytes) \<Rightarrow> bool \<Rightarrow> bytes \<Rightarrow> bytes \<Rightarrow> bytes \<Rightarrow> bytes \<Rightarrow> string \<Rightarrow> bytes \<Rightarrow> string \<Rightarrow>
   (string, pair_result) process" where
  "pigeon_pair_initiator hmac sha opened blind local_eph_priv local_eph_pub identity_pub instance_id acc_eph_pub acc_instance =
     require opened (
     need (i_step EVENT_TOKEN_RECEIVED (pigeon_initiator_machine_init ())) (\<lambda>m1.
     need (i_step EVENT_TOKEN_DECODED m1) (\<lambda>m2.
     need (i_step EVENT_EPHEMERAL_READY m2) (\<lambda>m3.
     let commit = pigeon_sas_commit sha local_eph_pub blind in
     need (i_step EVENT_RELAY_CONNECTED m3) (\<lambda>m4.
     need (build_hello commit identity_pub instance_id PIGEON_MAX_MSG) (\<lambda>hello.
     pair_send hello (
     pair_recv (\<lambda>welcome.
     require (has_kind welcome ''welcome'') (
     need (key_field welcome ''eph_pub'') (\<lambda>peer_eph_pub.
     require (peer_eph_pub = acc_eph_pub) (
     need (i_message MSG_WELCOME m4) (\<lambda>m5.
     need (build_reveal local_eph_pub blind PIGEON_MAX_MSG) (\<lambda>reveal.
     pair_send reveal (
     need (i_step EVENT_REVEAL_SENT m5) (\<lambda>m6.
     need (i_step EVENT_CODE_READY m6) (\<lambda>m7.
     need (pigeon_derive_confirmation_code hmac acc_eph_pub local_eph_pub) (\<lambda>code.
     Ask code (\<lambda>yes. require yes (
     need (i_step EVENT_USER_CONFIRM m7) (\<lambda>m8.
     need (build_confirm PIGEON_MAX_MSG) (\<lambda>confirm.
     pair_send confirm (
     pair_recv (\<lambda>peer_confirm.
     require (has_kind peer_confirm ''confirm'') (
     need (i_message MSG_CONFIRM_TO_INITIATOR m8) (\<lambda>m9.
     Done (Some (\<lparr>peer_instance_id = take 63 (if instance_field welcome \<noteq> '''' then instance_field welcome else acc_instance),
       relay_url = '''', local_private_key = local_eph_priv, local_public_key = local_eph_pub,
       peer_public_key = acc_eph_pub\<rparr>, code)))))))))))))))))))))))))))"

section \<open>The Go entry points\<close>

text \<open>\<open>Ref\<close> and \<open>ConfirmFn\<close> tell whether the field is set; the answers of \<open>ConfirmFn\<close> are the user's.\<close>

datatype run_error = NilArgs | NilRef | KeyLength | NoConfirmFn | NoInstanceID | DriverFailed

record RunAcceptorArgs =
  Ref :: bool
  LocalEphPriv :: bytes
  LocalEphPub :: bytes
  IdentityPub :: bytes
  InstanceID :: string
  ConfirmFn :: bool

record RunInitiatorArgs = RunAcceptorArgs +
  AccEphPub :: bytes
  AccInstance :: string

definition recordFromC :: "pigeon_pairing_record \<Rightarrow> cwire_PairingRecord" where
  "recordFromC rec =
     \<lparr>cPeerInstanceID = cstr (peer_instance_id rec), LocalPrivKey = local_private_key rec,
      LocalPubKey = local_public_key rec, PeerPubKey = peer_public_key rec\<rparr>"

definition run_result :: "pair_result \<Rightarrow> run_error + cwire_PairingRecord \<times> string" where
  "run_result rv = (case rv of None \<Rightarrow> Inl DriverFailed | Some (rec, code) \<Rightarrow> Inr (recordFromC rec, cstr code))"

definition RunAcceptor ::
  "hmac \<Rightarrow> (bytes \<Rightarrow> bytes) \<Rightarrow> bool \<Rightarrow> RunAcceptorArgs option \<Rightarrow>
   (string, run_error + cwire_PairingRecord \<times> string) process" where
  "RunAcceptor hmac sha accepted args =
     (case args of
        None \<Rightarrow> Done (Inl NilArgs)
      | Some a \<Rightarrow>
          if \<not> Ref a then Done (Inl NilRef)
          else if length (LocalEphPriv a) \<noteq> 32 \<or> length (LocalEphPub a) \<noteq> 32 \<or> length (IdentityPub a) \<noteq> 32
          then Done (Inl KeyLength)
          else if \<not> ConfirmFn a then Done (Inl NoConfirmFn)
          else if InstanceID a = [] then Done (Inl NoInstanceID)
          else map_process run_result (pigeon_pair_acceptor hmac sha accepted (LocalEphPriv a) (LocalEphPub a)
                 (IdentityPub a) (cstr (InstanceID a))))"

definition RunInitiator ::
  "hmac \<Rightarrow> (bytes \<Rightarrow> bytes) \<Rightarrow> bool \<Rightarrow> bytes \<Rightarrow> RunInitiatorArgs option \<Rightarrow>
   (string, run_error + cwire_PairingRecord \<times> string) process" where
  "RunInitiator hmac sha opened blind args =
     (case args of
        None \<Rightarrow> Done (Inl NilArgs)
      | Some a \<Rightarrow>
          if \<not> Ref a then Done (Inl NilRef)
          else if length (LocalEphPriv a) \<noteq> 32 \<or> length (LocalEphPub a) \<noteq> 32 \<or> length (IdentityPub a) \<noteq> 32 \<or>
            length (AccEphPub a) \<noteq> 32
          then Done (Inl KeyLength)
          else if \<not> ConfirmFn a then Done (Inl NoConfirmFn)
          else if InstanceID a = [] \<or> AccInstance a = [] then Done (Inl NoInstanceID)
          else map_process run_result (pigeon_pair_initiator hmac sha opened blind (LocalEphPriv a) (LocalEphPub a)
                 (IdentityPub a) (cstr (InstanceID a)) (AccEphPub a) (cstr (AccInstance a))))"

section \<open>The drivers without their machines\<close>

lemma need_simps [simp]: "need (Some a) k = k a" "need None k = Done None"
  by (simp_all add: need_def)

lemma require_simps [simp]: "require True k = k" "require False k = Done None"
  by (simp_all add: require_def)

lemmas machine_simps = a_step_def a_message_def i_step_def i_message_def pigeon_acceptor_step_def pigeon_acceptor_handle_message_def
  pigeon_initiator_step_def pigeon_initiator_handle_message_def c_action_def c_changed_def
  run_action_def no_callbacks_def pigeon_acceptor_machine_init_def pigeon_initiator_machine_init_def

lemma build_confirm_max: "build_confirm PIGEON_MAX_MSG = Some (''{'' @ jobject [(''kind'', ''confirm'')])"
  by (simp add: build_confirm_def fits_def PIGEON_MAX_MSG_def jfield_def)

lemma acceptor_driver:
  "pigeon_pair_acceptor hmac sha accepted local_eph_priv local_eph_pub identity_pub instance_id =
     require accepted (
     pair_recv (\<lambda>hello.
     require (has_kind hello ''hello'') (
     need (key_field hello ''commit'') (\<lambda>peer_commit.
     need (build_welcome local_eph_pub identity_pub instance_id PIGEON_MAX_MSG) (\<lambda>welcome.
     pair_send welcome (
     pair_recv (\<lambda>reveal.
     require (has_kind reveal ''reveal'') (
     need (key_field reveal ''eph_pub'') (\<lambda>peer_eph_pub.
     need (key_field reveal ''blind'') (\<lambda>peer_blind.
     require (pigeon_sas_commit_verify sha peer_eph_pub peer_blind peer_commit) (
     need (pigeon_derive_confirmation_code hmac local_eph_pub peer_eph_pub) (\<lambda>code.
     Ask code (\<lambda>yes. require yes (
     need (build_confirm PIGEON_MAX_MSG) (\<lambda>confirm.
     pair_send confirm (
     pair_recv (\<lambda>peer_confirm.
     require (has_kind peer_confirm ''confirm'') (
     Done (Some (\<lparr>peer_instance_id = take 63 (instance_field hello), relay_url = '''',
       local_private_key = local_eph_priv, local_public_key = local_eph_pub, peer_public_key = peer_eph_pub\<rparr>, code))))))))))))))))))))"
  by (simp add: pigeon_pair_acceptor_def machine_simps)

lemma initiator_driver:
  "pigeon_pair_initiator hmac sha opened blind local_eph_priv local_eph_pub identity_pub instance_id acc_eph_pub acc_instance =
     require opened (
     need (build_hello (pigeon_sas_commit sha local_eph_pub blind) identity_pub instance_id PIGEON_MAX_MSG) (\<lambda>hello.
     pair_send hello (
     pair_recv (\<lambda>welcome.
     require (has_kind welcome ''welcome'') (
     need (key_field welcome ''eph_pub'') (\<lambda>peer_eph_pub.
     require (peer_eph_pub = acc_eph_pub) (
     need (build_reveal local_eph_pub blind PIGEON_MAX_MSG) (\<lambda>reveal.
     pair_send reveal (
     need (pigeon_derive_confirmation_code hmac acc_eph_pub local_eph_pub) (\<lambda>code.
     Ask code (\<lambda>yes. require yes (
     need (build_confirm PIGEON_MAX_MSG) (\<lambda>confirm.
     pair_send confirm (
     pair_recv (\<lambda>peer_confirm.
     require (has_kind peer_confirm ''confirm'') (
     Done (Some (\<lparr>peer_instance_id = take 63 (if instance_field welcome \<noteq> '''' then instance_field welcome else acc_instance),
       relay_url = '''', local_private_key = local_eph_priv, local_public_key = local_eph_pub,
       peer_public_key = acc_eph_pub\<rparr>, code))))))))))))))))))"
  by (simp add: pigeon_pair_initiator_def machine_simps)

section \<open>Reading what was built\<close>

lemma cstr_id: "CHR 0x00 \<notin> set s \<Longrightarrow> cstr s = s"
  unfolding cstr_def by (rule takeWhile_eq_all_conv [THEN iffD2]) auto

lemma key_field_jobject:
  assumes "plain_key key" "plain_fields fs" "map_of fs key = Some v" "b64_encode d 64 = Some v" "length d = 32"
  shows "key_field (''{'' @ jobject fs) key = Some d"
proof -
  have "length v = 44" using b64_encode_32 [OF assms(5)] assms(4) by auto
  then have "json_find_string_field (''{'' @ jobject fs) key 64 = Found v" using jobject_found [OF assms(1-3), of 64] by simp
  moreover have "cstr v = v" using b64_encode_clean [OF assms(4)] by (simp add: cstr_id)
  ultimately show ?thesis using b64_roundtrip [OF assms(4), of 32] assms(5) by (simp add: key_field_def del: append.simps)
qed

lemma has_kind_jobject:
  assumes "plain_fields fs" "map_of fs ''kind'' = Some k" "length k < 32" "CHR 0x00 \<notin> set k"
  shows "has_kind (''{'' @ jobject fs) k"
  using jobject_found [OF plain_keys(1) assms(1,2), of 32] assms(3,4) by (simp add: has_kind_def cstr_id del: append.simps)

lemma instance_field_jobject:
  assumes "plain_fields fs" "map_of fs ''instance_id'' = Some v" "CHR 0x00 \<notin> set v"
  shows "instance_field (''{'' @ jobject fs) = take 63 v"
proof -
  have "CHR 0x00 \<notin> set (take 63 v)" using assms(3) by (meson in_set_takeD)
  then show ?thesis
    using jobject_found [OF plain_keys(4) assms(1,2), of 64] assms(3) by (simp add: instance_field_def cstr_id del: append.simps)
qed

text \<open>An instance id without quotes and NULs, short enough for a message.\<close>

definition clean_id :: "string \<Rightarrow> bool" where
  "clean_id s = (quote \<notin> set s \<and> CHR 0x00 \<notin> set s \<and> length s < 1000000)"

lemma object_reads:
  assumes "build = fits PIGEON_MAX_MSG (''{'' @ jobject fs)" "length (''{'' @ jobject fs) < PIGEON_MAX_MSG"
    "plain_fields fs" "map_of fs ''kind'' = Some k" "length k < 32" "CHR 0x00 \<notin> set k"
  shows "build = Some (''{'' @ jobject fs) \<and> length (''{'' @ jobject fs) \<le> PIGEON_MAX_MSG \<and> terminated (''{'' @ jobject fs) = ''{'' @ jobject fs \<and> has_kind (''{'' @ jobject fs) k"
  using assms(1,2) has_kind_jobject [OF assms(3-6)] by (simp add: fits_def terminated_def del: append.simps length_append)

lemma two_keys:
  assumes "length a = 32" "length b = 32"
  obtains x y where "b64_encode a 64 = Some x" "length x = 44" "quote \<notin> set x"
    "b64_encode b 64 = Some y" "length y = 44" "quote \<notin> set y"
  using b64_encode_32 [OF assms(1)] b64_encode_32 [OF assms(2)] b64_encode_clean that by blast

lemma build_hello_reads:
  assumes "length commit = 32" "length identity = 32" "clean_id inst"
  shows "\<exists>m. build_hello commit identity inst PIGEON_MAX_MSG = Some m \<and> length m \<le> PIGEON_MAX_MSG \<and> terminated m = m \<and> has_kind m ''hello'' \<and>
    key_field m ''commit'' = Some commit \<and> instance_field m = take 63 inst"
proof -
  obtain c i where e: "b64_encode commit 64 = Some c" "length c = 44" "quote \<notin> set c"
    "b64_encode identity 64 = Some i" "length i = 44" "quote \<notin> set i" by (rule two_keys [OF assms(1,2)])
  let ?fs = "[(''kind'', ''hello''), (''commit'', c), (''identity_pub'', i), (''instance_id'', inst)]"
  have p: "plain_fields ?fs" using e assms(3) by (simp add: plain_fields_def clean_id_def)
  have "build_hello commit identity inst PIGEON_MAX_MSG = Some (''{'' @ jobject ?fs) \<and>
      length (''{'' @ jobject ?fs) \<le> PIGEON_MAX_MSG \<and> terminated (''{'' @ jobject ?fs) = ''{'' @ jobject ?fs \<and> has_kind (''{'' @ jobject ?fs) ''hello''"
    by (rule object_reads [OF _ _ p])
       (use assms(3) in \<open>simp_all add: build_hello_def e jfield_def PIGEON_MAX_MSG_def clean_id_def\<close>)
  moreover have "key_field (''{'' @ jobject ?fs) ''commit'' = Some commit"
    by (rule key_field_jobject [OF plain_keys(2) p _ e(1) assms(1)]) simp
  moreover have "instance_field (''{'' @ jobject ?fs) = take 63 inst"
    by (rule instance_field_jobject [OF p]) (use assms(3) in \<open>simp_all add: clean_id_def\<close>)
  ultimately show ?thesis by blast
qed

lemma build_welcome_reads:
  assumes "length eph = 32" "length identity = 32" "clean_id inst"
  shows "\<exists>m. build_welcome eph identity inst PIGEON_MAX_MSG = Some m \<and> length m \<le> PIGEON_MAX_MSG \<and> terminated m = m \<and> has_kind m ''welcome'' \<and>
    key_field m ''eph_pub'' = Some eph \<and> instance_field m = take 63 inst"
proof -
  obtain c i where e: "b64_encode eph 64 = Some c" "length c = 44" "quote \<notin> set c"
    "b64_encode identity 64 = Some i" "length i = 44" "quote \<notin> set i" by (rule two_keys [OF assms(1,2)])
  let ?fs = "[(''kind'', ''welcome''), (''eph_pub'', c), (''identity_pub'', i), (''instance_id'', inst)]"
  have p: "plain_fields ?fs" using e assms(3) by (simp add: plain_fields_def clean_id_def)
  have "build_welcome eph identity inst PIGEON_MAX_MSG = Some (''{'' @ jobject ?fs) \<and>
      length (''{'' @ jobject ?fs) \<le> PIGEON_MAX_MSG \<and> terminated (''{'' @ jobject ?fs) = ''{'' @ jobject ?fs \<and> has_kind (''{'' @ jobject ?fs) ''welcome''"
    by (rule object_reads [OF _ _ p])
       (use assms(3) in \<open>simp_all add: build_welcome_def e jfield_def PIGEON_MAX_MSG_def clean_id_def\<close>)
  moreover have "key_field (''{'' @ jobject ?fs) ''eph_pub'' = Some eph"
    by (rule key_field_jobject [OF plain_keys(5) p _ e(1) assms(1)]) simp
  moreover have "instance_field (''{'' @ jobject ?fs) = take 63 inst"
    by (rule instance_field_jobject [OF p]) (use assms(3) in \<open>simp_all add: clean_id_def\<close>)
  ultimately show ?thesis by blast
qed

lemma build_reveal_reads:
  assumes "length eph = 32" "length blind = 32"
  shows "\<exists>m. build_reveal eph blind PIGEON_MAX_MSG = Some m \<and> length m \<le> PIGEON_MAX_MSG \<and> terminated m = m \<and> has_kind m ''reveal'' \<and>
    key_field m ''eph_pub'' = Some eph \<and> key_field m ''blind'' = Some blind"
proof -
  obtain c i where e: "b64_encode eph 64 = Some c" "length c = 44" "quote \<notin> set c"
    "b64_encode blind 64 = Some i" "length i = 44" "quote \<notin> set i" by (rule two_keys [OF assms(1,2)])
  let ?fs = "[(''kind'', ''reveal''), (''eph_pub'', c), (''blind'', i)]"
  have p: "plain_fields ?fs" using e by (simp add: plain_fields_def)
  have "build_reveal eph blind PIGEON_MAX_MSG = Some (''{'' @ jobject ?fs) \<and>
      length (''{'' @ jobject ?fs) \<le> PIGEON_MAX_MSG \<and> terminated (''{'' @ jobject ?fs) = ''{'' @ jobject ?fs \<and> has_kind (''{'' @ jobject ?fs) ''reveal''"
    by (rule object_reads [OF _ _ p]) (simp_all add: build_reveal_def e jfield_def PIGEON_MAX_MSG_def)
  moreover have "key_field (''{'' @ jobject ?fs) ''eph_pub'' = Some eph"
    by (rule key_field_jobject [OF plain_keys(5) p _ e(1) assms(1)]) simp
  moreover have "key_field (''{'' @ jobject ?fs) ''blind'' = Some blind"
    by (rule key_field_jobject [OF plain_keys(6) p _ e(4) assms(2)]) simp
  ultimately show ?thesis by blast
qed

lemma build_confirm_reads:
  "\<exists>m. build_confirm PIGEON_MAX_MSG = Some m \<and> length m \<le> PIGEON_MAX_MSG \<and> terminated m = m \<and> has_kind m ''confirm''"
proof -
  have "build_confirm PIGEON_MAX_MSG = Some (''{'' @ jobject [(''kind'', ''confirm'')]) \<and>
      length (''{'' @ jobject [(''kind'', ''confirm'')]) \<le> PIGEON_MAX_MSG \<and> terminated (''{'' @ jobject [(''kind'', ''confirm'')]) = ''{'' @ jobject [(''kind'', ''confirm'')] \<and>
      has_kind (''{'' @ jobject [(''kind'', ''confirm'')]) ''confirm''"
    by (rule object_reads) (simp_all add: build_confirm_def jfield_def PIGEON_MAX_MSG_def plain_fields_def)
  then show ?thesis by blast
qed

lemma code_derives: "\<exists>code. pigeon_derive_confirmation_code hmac a b = Some code"
  by (simp add: pigeon_derive_confirmation_code_def hkdf_sha256_def bytes_of_string_def Let_def)

lemma key_field_length: "key_field msg key = Some d \<Longrightarrow> take 32 d = d"
  by (auto simp: key_field_def split: field.split_asm option.split_asm if_split_asm)

lemma runs_pair:
  "runs (need x k) tr (Some r) \<longleftrightarrow> (\<exists>a. x = Some a \<and> runs (k a) tr (Some r))"
  "runs (require b p) tr (Some r) \<longleftrightarrow> b \<and> runs p tr (Some r)"
  "runs (pair_send m p) tr (Some r) \<longleftrightarrow> (\<exists>tr'. tr = Sent m # tr' \<and> runs p tr' (Some r))"
  "runs (pair_recv k') tr (Some r) \<longleftrightarrow> (\<exists>m tr'. tr = Received m # tr' \<and> length m \<le> PIGEON_MAX_MSG \<and> runs (k' (terminated m)) tr' (Some r))"
  by (auto simp: need_def require_def pair_send_def pair_recv_def runs_simps split: option.split)

section \<open>The ceremony\<close>

lemma runs_map: "runs (map_process f p) tr r \<longleftrightarrow> (\<exists>r'. runs p tr r' \<and> r = f r')"
proof (induction p arbitrary: tr)
  case (Send m k)
  have "runs (map_process f (k b)) t r \<longleftrightarrow> (\<exists>r'. runs (k b) t r' \<and> r = f r')" for b t by (rule Send.IH) simp
  then show ?case by (auto simp: runs_simps)
next
  case (Recv k)
  have "runs (map_process f (k x)) t r \<longleftrightarrow> (\<exists>r'. runs (k x) t r' \<and> r = f r')" for x t by (rule Recv.IH) simp
  then show ?case by (auto simp: runs_simps)
next
  case (Ask c k)
  have "runs (map_process f (k b)) t r \<longleftrightarrow> (\<exists>r'. runs (k b) t r' \<and> r = f r')" for b t by (rule Ask.IH) simp
  then show ?case by (auto simp: runs_simps)
qed (auto simp: runs_simps)

lemma digit_not_nul: "d < 10 \<Longrightarrow> digit d \<noteq> CHR 0x00"
  by (auto simp: digit_def char_of_eq_iff of_char_of take_bit_eq_mod)

lemma nul_digits: "CHR 0x00 \<notin> set (digits_fixed k v)"
  using set_digits_fixed [of k v] digit_not_nul by fastforce

lemma code_cstr: "pigeon_derive_confirmation_code hmac a b = Some code \<Longrightarrow> cstr code = code"
  by (auto simp: pigeon_derive_confirmation_code_def Let_def cstr_id code_loop_eq nul_digits split: option.split_asm)

lemma acceptor_run:
  assumes "runs (pigeon_pair_acceptor hmac sha accepted local_eph_priv local_eph_pub identity_pub instance_id) tr (Some (rec, code))"
  shows "\<exists>hello welcome reveal confirm peer_confirm blind.
    tr = [Received hello, Sent welcome, Received reveal, Asked code True, Sent confirm, Received peer_confirm] \<and>
    key_field (terminated hello) ''commit'' = Some (take 32 (pigeon_sas_commit sha (peer_public_key rec) blind)) \<and>
    key_field (terminated reveal) ''eph_pub'' = Some (peer_public_key rec) \<and>
    has_kind (terminated peer_confirm) ''confirm'' \<and>
    pigeon_derive_confirmation_code hmac local_eph_pub (peer_public_key rec) = Some code \<and>
    local_private_key rec = local_eph_priv \<and> local_public_key rec = local_eph_pub"
  using assms unfolding acceptor_driver
  by (auto simp: runs_pair runs_simps pigeon_sas_commit_verify_def key_field_length)

lemma initiator_run:
  assumes "runs (pigeon_pair_initiator hmac sha opened blind local_eph_priv local_eph_pub identity_pub instance_id acc_eph_pub acc_instance)
    tr (Some (rec, code))"
  shows "\<exists>hello welcome reveal confirm peer_confirm.
    tr = [Sent hello, Received welcome, Sent reveal, Asked code True, Sent confirm, Received peer_confirm] \<and>
    build_hello (pigeon_sas_commit sha local_eph_pub blind) identity_pub instance_id PIGEON_MAX_MSG = Some hello \<and>
    key_field (terminated welcome) ''eph_pub'' = Some acc_eph_pub \<and>
    build_reveal local_eph_pub blind PIGEON_MAX_MSG = Some reveal \<and>
    has_kind (terminated peer_confirm) ''confirm'' \<and>
    pigeon_derive_confirmation_code hmac acc_eph_pub local_eph_pub = Some code \<and>
    peer_public_key rec = acc_eph_pub \<and> local_private_key rec = local_eph_priv \<and> local_public_key rec = local_eph_pub"
  using assms unfolding initiator_driver
  by (auto simp: runs_pair runs_simps)

text \<open>
  (C8) Whatever the network does, an acceptor that returns a record has received, in this order, a hello,
  a reveal and a confirm. The peer key of its record is the revealed one and it opens the commitment of
  the hello, which came before the acceptor sent its welcome; the code of the two keys was shown to
  the user, who confirmed it, before the acceptor sent its own confirmation.
\<close>

theorem acceptor_pairs_committed_key:
  assumes "runs (RunAcceptor hmac sha accepted (Some a)) tr (Inr (rec, code))"
  shows "\<exists>hello welcome reveal confirm peer_confirm blind.
    tr = [Received hello, Sent welcome, Received reveal, Asked code True, Sent confirm, Received peer_confirm] \<and>
    key_field (terminated hello) ''commit'' = Some (take 32 (pigeon_sas_commit sha (PeerPubKey rec) blind)) \<and>
    key_field (terminated reveal) ''eph_pub'' = Some (PeerPubKey rec) \<and>
    has_kind (terminated peer_confirm) ''confirm'' \<and>
    pigeon_derive_confirmation_code hmac (LocalEphPub a) (PeerPubKey rec) = Some code \<and>
    LocalPrivKey rec = LocalEphPriv a \<and> LocalPubKey rec = LocalEphPub a"
proof -
  obtain r c where rc: "runs (pigeon_pair_acceptor hmac sha accepted (LocalEphPriv a) (LocalEphPub a) (IdentityPub a) (cstr (InstanceID a)))
      tr (Some (r, c))" "rec = recordFromC r" "code = cstr c"
    using assms by (auto simp: RunAcceptor_def runs_map runs_simps run_result_def split: if_split_asm option.split_asm)
  then show ?thesis using acceptor_run [OF rc(1)] by (auto simp: recordFromC_def code_cstr)
qed


text \<open>Arguments the entry points accept, with an id that a message can carry.\<close>

definition good_args :: "'a RunAcceptorArgs_scheme \<Rightarrow> bool" where
  "good_args a = (Ref a \<and> length (LocalEphPriv a) = 32 \<and> length (LocalEphPub a) = 32 \<and> length (IdentityPub a) = 32 \<and>
     ConfirmFn a \<and> InstanceID a \<noteq> [] \<and> clean_id (InstanceID a))"

lemma pairing_outcome:
  assumes "good_args a" "good_args i" "AccEphPub i = LocalEphPub a" "AccInstance i = InstanceID a"
    "length blind = 32" "\<forall>x. length (sha x) = 32"
  shows "\<exists>code. pigeon_derive_confirmation_code hmac (LocalEphPub a) (LocalEphPub i) = Some code \<and>
    both_done (play (\<lambda>_. True) (\<lambda>_. True) (sched @ alternate 12)
        (duet (RunAcceptor hmac sha True (Some a)) (RunInitiator hmac sha True blind (Some i))))
      (Inr (\<lparr>cPeerInstanceID = take 63 (InstanceID i), LocalPrivKey = LocalEphPriv a,
             LocalPubKey = LocalEphPub a, PeerPubKey = LocalEphPub i\<rparr>, code))
      (Inr (\<lparr>cPeerInstanceID = take 63 (InstanceID a), LocalPrivKey = LocalEphPriv i,
             LocalPubKey = LocalEphPub i, PeerPubKey = LocalEphPub a\<rparr>, code))"
proof -
  have nul: "cstr (InstanceID a) = InstanceID a" "cstr (InstanceID i) = InstanceID i"
    "cstr (take 63 (InstanceID a)) = take 63 (InstanceID a)" "cstr (take 63 (InstanceID i)) = take 63 (InstanceID i)"
    using assms(1,2) by (auto simp: good_args_def clean_id_def intro!: cstr_id dest: in_set_takeD)
  obtain code where code: "pigeon_derive_confirmation_code hmac (LocalEphPub a) (LocalEphPub i) = Some code" using code_derives by blast
  let ?commit = "pigeon_sas_commit sha (LocalEphPub i) blind"
  obtain h where h: "build_hello ?commit (IdentityPub i) (InstanceID i) PIGEON_MAX_MSG = Some h" "length h \<le> PIGEON_MAX_MSG" "terminated h = h" "has_kind h ''hello''"
    "key_field h ''commit'' = Some ?commit" "instance_field h = take 63 (InstanceID i)"
    using build_hello_reads [of ?commit "IdentityPub i" "InstanceID i"] assms by (auto simp: pigeon_sas_commit_def good_args_def)
  obtain w where w: "build_welcome (LocalEphPub a) (IdentityPub a) (InstanceID a) PIGEON_MAX_MSG = Some w" "length w \<le> PIGEON_MAX_MSG" "terminated w = w"
    "has_kind w ''welcome''" "key_field w ''eph_pub'' = Some (LocalEphPub a)" "instance_field w = take 63 (InstanceID a)"
    using build_welcome_reads [of "LocalEphPub a" "IdentityPub a" "InstanceID a"] assms by (auto simp: good_args_def)
  obtain r where r: "build_reveal (LocalEphPub i) blind PIGEON_MAX_MSG = Some r" "length r \<le> PIGEON_MAX_MSG" "terminated r = r" "has_kind r ''reveal''"
    "key_field r ''eph_pub'' = Some (LocalEphPub i)" "key_field r ''blind'' = Some blind"
    using build_reveal_reads [of "LocalEphPub i" blind] assms by (auto simp: good_args_def)
  obtain c where c: "build_confirm PIGEON_MAX_MSG = Some c" "length c \<le> PIGEON_MAX_MSG" "terminated c = c" "has_kind c ''confirm''"
    using build_confirm_reads by blast
  have go: "good_args a" "good_args i" "length (AccEphPub i) = 32" "AccInstance i \<noteq> []" "take 63 (InstanceID a) \<noteq> []"
    using assms by (auto simp: good_args_def)
  show ?thesis
    by (intro exI [of _ code] conjI code any_schedule_finishes
        [where sched = "[False, True, True, False, False, True, True, False, True, False, True, False]"])
       (use go in \<open>simp_all add: good_args_def RunAcceptor_def RunInitiator_def nul assms(3,4) duet_def step_left_def step_right_def
         acceptor_driver initiator_driver pair_send_def pair_recv_def h w r c code code_cstr [OF code] pigeon_sas_commit_verify_def
         both_done_def run_result_def recordFromC_def\<close>)
qed

text \<open>
  (C4) An acceptor and an initiator that holds its token, joined by a reliable stream, with users who
  confirm: however the two are scheduled first, they end with the same code and with records that hold each
  other's keys and the first 63 characters of each other's ids. Twelve turns each are enough: the
  drivers take six steps each.
\<close>

theorem pairing_completes:
  assumes "good_args a" "good_args i" "AccEphPub i = LocalEphPub a" "AccInstance i = InstanceID a"
    "length blind = 32" "\<forall>x. length (sha x) = 32"
  shows "\<exists>code. pigeon_derive_confirmation_code hmac (LocalEphPub a) (LocalEphPub i) = Some code \<and>
    both_done (play (\<lambda>_. True) (\<lambda>_. True) (sched @ alternate 12)
        (duet (RunAcceptor hmac sha True (Some a)) (RunInitiator hmac sha True blind (Some i))))
      (Inr (\<lparr>cPeerInstanceID = take 63 (InstanceID i), LocalPrivKey = LocalEphPriv a,
             LocalPubKey = LocalEphPub a, PeerPubKey = LocalEphPub i\<rparr>, code))
      (Inr (\<lparr>cPeerInstanceID = take 63 (InstanceID a), LocalPrivKey = LocalEphPriv i,
             LocalPubKey = LocalEphPub i, PeerPubKey = LocalEphPub a\<rparr>, code))"
  using assms by (rule pairing_outcome)

text \<open>Two peers for the witnesses, and a hash of 32 bytes.\<close>

definition demo_acceptor :: RunAcceptorArgs where
  "demo_acceptor = \<lparr>Ref = True, LocalEphPriv = replicate 32 1, LocalEphPub = replicate 32 2, IdentityPub = replicate 32 3,
     InstanceID = ''server'', ConfirmFn = True\<rparr>"

definition demo_initiator :: RunInitiatorArgs where
  "demo_initiator = \<lparr>Ref = True, LocalEphPriv = replicate 32 4, LocalEphPub = replicate 32 5, IdentityPub = replicate 32 6,
     InstanceID = ''phone'', ConfirmFn = True, AccEphPub = replicate 32 2, AccInstance = ''server''\<rparr>"

definition demo_sha :: "bytes \<Rightarrow> bytes" where
  "demo_sha x = take 32 (drop 17 x @ replicate 32 0)"

lemma length_demo_sha: "length (demo_sha x) = 32"
  unfolding demo_sha_def length_take length_append length_replicate by linarith

lemma demo_pair: "good_args demo_acceptor" "good_args demo_initiator" "AccEphPub demo_initiator = LocalEphPub demo_acceptor"
    "AccInstance demo_initiator = InstanceID demo_acceptor" "length (replicate 32 7 :: bytes) = 32" "\<forall>x. length (demo_sha x) = 32"
  by (simp_all add: good_args_def demo_acceptor_def demo_initiator_def clean_id_def length_demo_sha)

theorem pairing_completes_witness:
  "\<exists>code. pigeon_derive_confirmation_code demo_hmac (replicate 32 2) (replicate 32 5) = Some code \<and>
    both_done (play (\<lambda>_. True) (\<lambda>_. True) ([True, False, False] @ alternate 12)
        (duet (RunAcceptor demo_hmac demo_sha True (Some demo_acceptor))
              (RunInitiator demo_hmac demo_sha True (replicate 32 7) (Some demo_initiator))))
      (Inr (\<lparr>cPeerInstanceID = ''phone'', LocalPrivKey = replicate 32 1, LocalPubKey = replicate 32 2,
             PeerPubKey = replicate 32 5\<rparr>, code))
      (Inr (\<lparr>cPeerInstanceID = ''server'', LocalPrivKey = replicate 32 4, LocalPubKey = replicate 32 5,
             PeerPubKey = replicate 32 2\<rparr>, code))"
proof -
  have e: "LocalEphPub demo_acceptor = replicate 32 2" "LocalEphPriv demo_acceptor = replicate 32 1"
    "take 63 (InstanceID demo_acceptor) = ''server''" "LocalEphPub demo_initiator = replicate 32 5"
    "LocalEphPriv demo_initiator = replicate 32 4" "take 63 (InstanceID demo_initiator) = ''phone''"
    by (simp_all add: demo_acceptor_def demo_initiator_def)
  show ?thesis using pairing_completes [OF demo_pair, of demo_hmac "[True, False, False]"] unfolding e .
qed

lemma demo_runs:
  "\<exists>tr rec code. runs (RunAcceptor demo_hmac demo_sha True (Some demo_acceptor)) tr (Inr (rec, code))"
  "\<exists>tr rec code. runs (RunInitiator demo_hmac demo_sha True (replicate 32 7) (Some demo_initiator)) tr (Inr (rec, code))"
  using pairing_outcome [OF demo_pair, of demo_hmac "[]"] by (blast dest: duet_runs)+

theorem acceptor_pairs_committed_key_witness:
  "\<exists>tr rec code hello welcome reveal confirm peer_confirm blind.
    runs (RunAcceptor demo_hmac demo_sha True (Some demo_acceptor)) tr (Inr (rec, code)) \<and>
    tr = [Received hello, Sent welcome, Received reveal, Asked code True, Sent confirm, Received peer_confirm] \<and>
    key_field (terminated hello) ''commit'' = Some (take 32 (pigeon_sas_commit demo_sha (PeerPubKey rec) blind)) \<and>
    LocalPrivKey rec = LocalEphPriv demo_acceptor"
proof -
  obtain tr rec code where r: "runs (RunAcceptor demo_hmac demo_sha True (Some demo_acceptor)) tr (Inr (rec, code))"
    using demo_runs(1) by blast
  show ?thesis using acceptor_pairs_committed_key [OF r] r by blast
qed


text \<open>
  What the C code accepts beyond the format: an instance id of 64 characters or more is cut to 63 in
  the peer's record without an error, so it no longer names the peer.
\<close>

lemma long_instance_id_is_cut:
  assumes "length commit = 32" "length identity = 32" "clean_id inst" "64 \<le> length inst"
  shows "\<exists>m. build_hello commit identity inst PIGEON_MAX_MSG = Some m \<and> instance_field m \<noteq> inst"
proof -
  have "take 63 inst \<noteq> inst"
  proof
    assume "take 63 inst = inst"
    then have "length inst \<le> 63" by (metis length_take min.cobounded2)
    then show False using assms(4) by simp
  qed
  then show ?thesis using build_hello_reads [OF assms(1-3)] by auto
qed

end
