(* ===== verification/CSession.thy ===== *)
theory CSession
  imports CMachines SessionBackend SessionClient
begin

text \<open>
  The session machines generated for C (\<open>c/src/session_gen.c\<close>, \<open>c/include/pigeon/session_gen.h\<close>), with
  the cases of the steps grouped as for Go, and that they take the steps of the Go machines of \<open>SessionBackend\<close> and
  \<open>SessionClient\<close>. The C structs have no fields for the set-valued variables.
\<close>

section \<open>The language of the generated C code\<close>

datatype pigeon_backend_state =
    BACKEND_IDLE | BACKEND_GENERATE_TOKEN | BACKEND_REGISTER_RELAY | BACKEND_WAITING_FOR_CLIENT | BACKEND_DERIVE_SECRET
    | BACKEND_SEND_ACK | BACKEND_WAITING_FOR_CODE | BACKEND_VALIDATE_CODE | BACKEND_STORE_PAIRED | BACKEND_PAIRED
    | BACKEND_AUTH_CHECK | BACKEND_SESSION_ACTIVE | BACKEND_RELAY_CONNECTED | BACKEND_CANDIDATES_ADVERTISED | BACKEND_ALT_ACTIVE
    | BACKEND_RELAY_BACKOFF | BACKEND_ALT_DEGRADED

datatype pigeon_client_state =
    CLIENT_IDLE | CLIENT_OBTAIN_BACKCHANNEL_SECRET | CLIENT_CONNECT_RELAY | CLIENT_GEN_KEY_PAIR | CLIENT_WAIT_ACK
    | CLIENT_E2E_READY | CLIENT_SHOW_CODE | CLIENT_WAIT_PAIR_COMPLETE | CLIENT_PAIRED | CLIENT_RECONNECT | CLIENT_SEND_AUTH
    | CLIENT_SESSION_ACTIVE | CLIENT_RELAY_CONNECTED | CLIENT_PAIR_DIALING | CLIENT_PAIR_CHECKING | CLIENT_ALT_ACTIVE
    | CLIENT_RELAY_FALLBACK

datatype pigeon_relay_state =
    RELAY_IDLE | RELAY_BACKEND_REGISTERED | RELAY_BRIDGED

datatype session_msg_type =
    SESSION_MSG_PAIR_HELLO | SESSION_MSG_PAIR_HELLO_ACK | SESSION_MSG_PAIR_CONFIRM | SESSION_MSG_PAIR_COMPLETE
    | SESSION_MSG_AUTH_REQUEST | SESSION_MSG_AUTH_OK | SESSION_MSG_CANDIDATES | SESSION_MSG_PAIR_CHECK
    | SESSION_MSG_PAIR_CHECK_ACK | SESSION_MSG_PATH_PING | SESSION_MSG_PATH_PONG

datatype session_guard_id =
    SESSION_GUARD_TOKEN_VALID | SESSION_GUARD_TOKEN_INVALID | SESSION_GUARD_CODE_CORRECT | SESSION_GUARD_CODE_WRONG
    | SESSION_GUARD_DEVICE_KNOWN | SESSION_GUARD_DEVICE_UNKNOWN | SESSION_GUARD_NONCE_FRESH | SESSION_GUARD_CHALLENGE_VALID
    | SESSION_GUARD_CHALLENGE_INVALID | SESSION_GUARD_ALT_ENABLED | SESSION_GUARD_ALT_DISABLED
    | SESSION_GUARD_LOCAL_CANDIDATES_AVAILABLE | SESSION_GUARD_UNDER_MAX_FAILURES | SESSION_GUARD_AT_MAX_FAILURES

datatype session_action_id =
    SESSION_ACTION_GENERATE_TOKEN | SESSION_ACTION_REGISTER_RELAY | SESSION_ACTION_DERIVE_SECRET | SESSION_ACTION_STORE_DEVICE
    | SESSION_ACTION_VERIFY_DEVICE | SESSION_ACTION_ACTIVATE_LAN | SESSION_ACTION_FALLBACK_TO_RELAY
    | SESSION_ACTION_RESET_FAILURES | SESSION_ACTION_SEND_PAIR_HELLO | SESSION_ACTION_STORE_SECRET
    | SESSION_ACTION_DIAL_CANDIDATE | SESSION_ACTION_BRIDGE_STREAMS | SESSION_ACTION_UNBRIDGE

datatype session_event_id =
    SESSION_EVENT_APP_SEND | SESSION_EVENT_APP_RECV | SESSION_EVENT_APP_SEND_DATAGRAM | SESSION_EVENT_APP_RECV_DATAGRAM
    | SESSION_EVENT_APP_CLOSE | SESSION_EVENT_APP_FORCE_FALLBACK | SESSION_EVENT_RELAY_STREAM_DATA
    | SESSION_EVENT_RELAY_STREAM_ERROR | SESSION_EVENT_RELAY_DATAGRAM | SESSION_EVENT_ALT_STREAM_DATA
    | SESSION_EVENT_ALT_STREAM_ERROR | SESSION_EVENT_ALT_DATAGRAM | SESSION_EVENT_DIAL_OK | SESSION_EVENT_DIAL_FAILED
    | SESSION_EVENT_PAIR_CHECK_OK | SESSION_EVENT_PING_TIMEOUT | SESSION_EVENT_PING_TICK | SESSION_EVENT_BACKOFF_EXPIRED
    | SESSION_EVENT_CANDIDATES_TIMEOUT | SESSION_EVENT_CLI_INIT_PAIR | SESSION_EVENT_TOKEN_CREATED
    | SESSION_EVENT_RELAY_REGISTERED | SESSION_EVENT_ECDH_COMPLETE | SESSION_EVENT_SIGNAL_CODE_DISPLAY
    | SESSION_EVENT_CLI_CODE_ENTERED | SESSION_EVENT_CHECK_CODE | SESSION_EVENT_FINALISE | SESSION_EVENT_VERIFY
    | SESSION_EVENT_SESSION_ESTABLISHED | SESSION_EVENT_CANDIDATES_GATHERED | SESSION_EVENT_CANDIDATES_CHANGED
    | SESSION_EVENT_CANDIDATES_REFRESH_TICK | SESSION_EVENT_DISCONNECT | SESSION_EVENT_BACKCHANNEL_RECEIVED
    | SESSION_EVENT_SECRET_PARSED | SESSION_EVENT_RELAY_CONNECTED | SESSION_EVENT_KEY_PAIR_GENERATED
    | SESSION_EVENT_CODE_DISPLAYED | SESSION_EVENT_APP_LAUNCH | SESSION_EVENT_VERIFY_TIMEOUT | SESSION_EVENT_ALT_ERROR
    | SESSION_EVENT_RELAY_OK | SESSION_EVENT_BACKEND_REGISTER | SESSION_EVENT_CLIENT_CONNECT | SESSION_EVENT_CLIENT_DISCONNECT
    | SESSION_EVENT_BACKEND_DISCONNECT | SESSION_EVENT_RECV_PAIR_HELLO | SESSION_EVENT_RECV_AUTH_REQUEST
    | SESSION_EVENT_RECV_PAIR_CHECK | SESSION_EVENT_RECV_PATH_PONG | SESSION_EVENT_RECV_PAIR_HELLO_ACK
    | SESSION_EVENT_RECV_PAIR_CONFIRM | SESSION_EVENT_RECV_PAIR_COMPLETE | SESSION_EVENT_RECV_AUTH_OK
    | SESSION_EVENT_RECV_CANDIDATES | SESSION_EVENT_RECV_PAIR_CHECK_ACK | SESSION_EVENT_RECV_PATH_PING

record 'm session_callbacks = "(session_action_id, 'm) pigeon_callbacks" +
  c_guards :: "session_guard_id \<Rightarrow> ('m \<Rightarrow> bool) option"

definition c_guarded :: "'m session_callbacks \<Rightarrow> session_guard_id \<Rightarrow> 'm \<Rightarrow> bool" where
  "c_guarded cb g m = (case c_guards cb g of None \<Rightarrow> False | Some f \<Rightarrow> f m)"

definition c_set :: "'m session_callbacks \<Rightarrow> ('m \<Rightarrow> 'm) \<Rightarrow> string \<Rightarrow> 'm \<Rightarrow> 'm" where
  "c_set cb f v m = c_changed cb v (f m)"

definition c_seq :: "('m \<Rightarrow> 'm) list \<Rightarrow> 'm \<Rightarrow> 'm" where
  "c_seq fs m = fold (\<lambda>f. f) fs m"

definition c_plain :: "('m \<Rightarrow> 'm) \<Rightarrow> 'm \<Rightarrow> int \<times> 'm" where
  "c_plain f m = (1, f m)"

section \<open>The machines\<close>

record 'u pigeon_backend_machine =
  cb_state :: pigeon_backend_state
  cb_current_token :: "string"
  cb_backend_ecdh_pub :: "string"
  cb_received_client_pub :: "string"
  cb_backend_shared_key :: "string option"
  cb_backend_code :: "string option"
  cb_received_code :: "string option"
  cb_code_attempts :: "int"
  cb_device_secret :: "string"
  cb_received_device_id :: "string"
  cb_received_auth_nonce :: "string"
  cb_secret_published :: "bool"
  cb_ping_failures :: "int"
  cb_backoff_level :: "int"
  cb_b_active_path :: "string"
  cb_b_dispatcher_path :: "string"
  cb_monitor_target :: "string"
  cb_alt_signal :: "string"
  cb_userdata :: 'u

definition pigeon_backend_machine_init :: "'u \<Rightarrow> 'u pigeon_backend_machine" where
  "pigeon_backend_machine_init u =
     \<lparr>cb_state = BACKEND_IDLE,
      cb_current_token = ''none'', cb_backend_ecdh_pub = ''none'', cb_received_client_pub = ''none'',
      cb_backend_shared_key = None, cb_backend_code = None, cb_received_code = None, cb_code_attempts = 0,
      cb_device_secret = ''none'', cb_received_device_id = ''none'', cb_received_auth_nonce = ''none'',
      cb_secret_published = False, cb_ping_failures = 0, cb_backoff_level = 0, cb_b_active_path = ''relay'',
      cb_b_dispatcher_path = ''relay'', cb_monitor_target = ''none'', cb_alt_signal = ''pending'',
      cb_userdata = u\<rparr>"

record 'u pigeon_client_machine =
  cc_state :: pigeon_client_state
  cc_received_backend_pub :: "string"
  cc_client_shared_key :: "string option"
  cc_client_code :: "string option"
  cc_c_active_path :: "string"
  cc_c_dispatcher_path :: "string"
  cc_alt_signal :: "string"
  cc_userdata :: 'u

definition pigeon_client_machine_init :: "'u \<Rightarrow> 'u pigeon_client_machine" where
  "pigeon_client_machine_init u =
     \<lparr>cc_state = CLIENT_IDLE,
      cc_received_backend_pub = ''none'', cc_client_shared_key = None, cc_client_code = None, cc_c_active_path = ''relay'',
      cc_c_dispatcher_path = ''relay'', cc_alt_signal = ''pending'',
      cc_userdata = u\<rparr>"

record 'u pigeon_relay_machine =
  cr_state :: pigeon_relay_state
  cr_relay_bridge :: "string"
  cr_userdata :: 'u

definition pigeon_relay_machine_init :: "'u \<Rightarrow> 'u pigeon_relay_machine" where
  "pigeon_relay_machine_init u =
     \<lparr>cr_state = RELAY_IDLE,
      cr_relay_bridge = ''idle'',
      cr_userdata = u\<rparr>"

definition pigeon_backend_handle_message ::
  "'u pigeon_backend_machine session_callbacks \<Rightarrow> session_msg_type \<Rightarrow> 'u pigeon_backend_machine \<Rightarrow> int \<times> 'u pigeon_backend_machine" where
  "pigeon_backend_handle_message cb msg m = gswitch
     [(cb_state m = BACKEND_WAITING_FOR_CLIENT \<and> msg = SESSION_MSG_PAIR_HELLO \<and> c_guarded cb SESSION_GUARD_TOKEN_VALID m,
       c_action cb SESSION_ACTION_DERIVE_SECRET (c_seq [c_set cb (cb_backend_ecdh_pub_update (\<lambda>_. ''backend_pub'')) ''backend_ecdh_pub'', cb_state_update (\<lambda>_. BACKEND_DERIVE_SECRET)])),
      (cb_state m = BACKEND_WAITING_FOR_CLIENT \<and> msg = SESSION_MSG_PAIR_HELLO \<and> c_guarded cb SESSION_GUARD_TOKEN_INVALID m,
       c_plain (c_seq [cb_state_update (\<lambda>_. BACKEND_IDLE)])),
      (cb_state m = BACKEND_PAIRED \<and> msg = SESSION_MSG_AUTH_REQUEST,
       c_plain (c_seq [cb_state_update (\<lambda>_. BACKEND_AUTH_CHECK)])),
      (cb_state m = BACKEND_CANDIDATES_ADVERTISED \<and> msg = SESSION_MSG_PAIR_CHECK \<and> c_guarded cb SESSION_GUARD_CHALLENGE_VALID m,
       c_action cb SESSION_ACTION_ACTIVATE_LAN (c_seq [c_set cb (cb_ping_failures_update (\<lambda>_. 0)) ''ping_failures'', c_set cb (cb_backoff_level_update (\<lambda>_. 0)) ''backoff_level'', c_set cb (cb_b_active_path_update (\<lambda>_. ''alt'')) ''b_active_path'', c_set cb (cb_b_dispatcher_path_update (\<lambda>_. ''alt'')) ''b_dispatcher_path'', c_set cb (cb_monitor_target_update (\<lambda>_. ''alt'')) ''monitor_target'', c_set cb (cb_alt_signal_update (\<lambda>_. ''ready'')) ''alt_signal'', cb_state_update (\<lambda>_. BACKEND_ALT_ACTIVE)])),
      (cb_state m = BACKEND_CANDIDATES_ADVERTISED \<and> msg = SESSION_MSG_PAIR_CHECK \<and> c_guarded cb SESSION_GUARD_CHALLENGE_INVALID m,
       c_plain (c_seq [cb_state_update (\<lambda>_. BACKEND_RELAY_CONNECTED)])),
      (cb_state m = BACKEND_ALT_DEGRADED \<and> msg = SESSION_MSG_PATH_PONG,
       c_action cb SESSION_ACTION_RESET_FAILURES (c_seq [c_set cb (cb_ping_failures_update (\<lambda>_. 0)) ''ping_failures'', cb_state_update (\<lambda>_. BACKEND_ALT_ACTIVE)]))]
     (\<lambda>m. (0, m)) m"

definition pigeon_backend_step_pairing ::
  "'u pigeon_backend_machine session_callbacks \<Rightarrow> session_event_id \<Rightarrow> 'u pigeon_backend_machine \<Rightarrow> (bool \<times> ('u pigeon_backend_machine \<Rightarrow> int \<times> 'u pigeon_backend_machine)) list" where
  "pigeon_backend_step_pairing cb event m =
     [(cb_state m = BACKEND_IDLE \<and> event = SESSION_EVENT_CLI_INIT_PAIR,
       c_action cb SESSION_ACTION_GENERATE_TOKEN (c_seq [c_set cb (cb_current_token_update (\<lambda>_. ''tok_1'')) ''current_token'', cb_state_update (\<lambda>_. BACKEND_GENERATE_TOKEN)])),
      (cb_state m = BACKEND_GENERATE_TOKEN \<and> event = SESSION_EVENT_TOKEN_CREATED,
       c_action cb SESSION_ACTION_REGISTER_RELAY (c_seq [cb_state_update (\<lambda>_. BACKEND_REGISTER_RELAY)])),
      (cb_state m = BACKEND_REGISTER_RELAY \<and> event = SESSION_EVENT_RELAY_REGISTERED,
       c_plain (c_seq [c_set cb (cb_secret_published_update (\<lambda>_. True)) ''secret_published'', cb_state_update (\<lambda>_. BACKEND_WAITING_FOR_CLIENT)])),
      (cb_state m = BACKEND_DERIVE_SECRET \<and> event = SESSION_EVENT_ECDH_COMPLETE,
       c_plain (c_seq [cb_state_update (\<lambda>_. BACKEND_SEND_ACK)])),
      (cb_state m = BACKEND_SEND_ACK \<and> event = SESSION_EVENT_SIGNAL_CODE_DISPLAY,
       c_plain (c_seq [cb_state_update (\<lambda>_. BACKEND_WAITING_FOR_CODE)])),
      (cb_state m = BACKEND_WAITING_FOR_CODE \<and> event = SESSION_EVENT_CLI_CODE_ENTERED,
       c_plain (c_seq [cb_state_update (\<lambda>_. BACKEND_VALIDATE_CODE)])),
      (cb_state m = BACKEND_VALIDATE_CODE \<and> event = SESSION_EVENT_CHECK_CODE \<and> c_guarded cb SESSION_GUARD_CODE_CORRECT m,
       c_plain (c_seq [cb_state_update (\<lambda>_. BACKEND_STORE_PAIRED)])),
      (cb_state m = BACKEND_VALIDATE_CODE \<and> event = SESSION_EVENT_CHECK_CODE \<and> c_guarded cb SESSION_GUARD_CODE_WRONG m,
       c_plain (c_seq [c_set cb (cb_code_attempts_update (\<lambda>x. x + 1)) ''code_attempts'', cb_state_update (\<lambda>_. BACKEND_IDLE)])),
      (cb_state m = BACKEND_STORE_PAIRED \<and> event = SESSION_EVENT_FINALISE,
       c_action cb SESSION_ACTION_STORE_DEVICE (c_seq [c_set cb (cb_device_secret_update (\<lambda>_. ''dev_secret_1'')) ''device_secret'', cb_state_update (\<lambda>_. BACKEND_PAIRED)])),
      (cb_state m = BACKEND_AUTH_CHECK \<and> event = SESSION_EVENT_VERIFY \<and> c_guarded cb SESSION_GUARD_DEVICE_KNOWN m,
       c_action cb SESSION_ACTION_VERIFY_DEVICE (c_seq [cb_state_update (\<lambda>_. BACKEND_SESSION_ACTIVE)])),
      (cb_state m = BACKEND_AUTH_CHECK \<and> event = SESSION_EVENT_VERIFY \<and> c_guarded cb SESSION_GUARD_DEVICE_UNKNOWN m,
       c_plain (c_seq [cb_state_update (\<lambda>_. BACKEND_IDLE)]))]"

definition pigeon_backend_step_path ::
  "'u pigeon_backend_machine session_callbacks \<Rightarrow> session_event_id \<Rightarrow> 'u pigeon_backend_machine \<Rightarrow> (bool \<times> ('u pigeon_backend_machine \<Rightarrow> int \<times> 'u pigeon_backend_machine)) list" where
  "pigeon_backend_step_path cb event m =
     [(cb_state m = BACKEND_SESSION_ACTIVE \<and> event = SESSION_EVENT_SESSION_ESTABLISHED,
       c_plain (c_seq [cb_state_update (\<lambda>_. BACKEND_RELAY_CONNECTED)])),
      (cb_state m = BACKEND_RELAY_CONNECTED \<and> event = SESSION_EVENT_CANDIDATES_GATHERED,
       c_plain (c_seq [cb_state_update (\<lambda>_. BACKEND_CANDIDATES_ADVERTISED)])),
      (cb_state m = BACKEND_CANDIDATES_ADVERTISED \<and> event = SESSION_EVENT_CANDIDATES_TIMEOUT,
       c_plain (c_seq [c_set cb (cb_alt_signal_update (\<lambda>_. ''pending'')) ''alt_signal'', cb_state_update (\<lambda>_. BACKEND_RELAY_BACKOFF)])),
      (cb_state m = BACKEND_ALT_ACTIVE \<and> event = SESSION_EVENT_PING_TICK,
       c_plain (c_seq [cb_state_update (\<lambda>_. BACKEND_ALT_ACTIVE)])),
      (cb_state m = BACKEND_ALT_ACTIVE \<and> event = SESSION_EVENT_PING_TIMEOUT,
       c_plain (c_seq [c_set cb (cb_ping_failures_update (\<lambda>_. 1)) ''ping_failures'', cb_state_update (\<lambda>_. BACKEND_ALT_DEGRADED)])),
      (cb_state m = BACKEND_ALT_DEGRADED \<and> event = SESSION_EVENT_PING_TICK,
       c_plain (c_seq [cb_state_update (\<lambda>_. BACKEND_ALT_DEGRADED)])),
      (cb_state m = BACKEND_ALT_ACTIVE \<and> event = SESSION_EVENT_ALT_STREAM_ERROR,
       c_action cb SESSION_ACTION_FALLBACK_TO_RELAY (c_seq [c_set cb (cb_b_active_path_update (\<lambda>_. ''relay'')) ''b_active_path'', c_set cb (cb_b_dispatcher_path_update (\<lambda>_. ''relay'')) ''b_dispatcher_path'', c_set cb (cb_monitor_target_update (\<lambda>_. ''none'')) ''monitor_target'', c_set cb (cb_alt_signal_update (\<lambda>_. ''pending'')) ''alt_signal'', c_set cb (cb_ping_failures_update (\<lambda>_. 0)) ''ping_failures'', cb_state_update (\<lambda>_. BACKEND_RELAY_BACKOFF)])),
      (cb_state m = BACKEND_ALT_DEGRADED \<and> event = SESSION_EVENT_ALT_STREAM_ERROR,
       c_action cb SESSION_ACTION_FALLBACK_TO_RELAY (c_seq [c_set cb (cb_b_active_path_update (\<lambda>_. ''relay'')) ''b_active_path'', c_set cb (cb_b_dispatcher_path_update (\<lambda>_. ''relay'')) ''b_dispatcher_path'', c_set cb (cb_monitor_target_update (\<lambda>_. ''none'')) ''monitor_target'', c_set cb (cb_alt_signal_update (\<lambda>_. ''pending'')) ''alt_signal'', c_set cb (cb_ping_failures_update (\<lambda>_. 0)) ''ping_failures'', cb_state_update (\<lambda>_. BACKEND_RELAY_BACKOFF)]))]"

definition pigeon_backend_step_fallback ::
  "'u pigeon_backend_machine session_callbacks \<Rightarrow> session_event_id \<Rightarrow> 'u pigeon_backend_machine \<Rightarrow> (bool \<times> ('u pigeon_backend_machine \<Rightarrow> int \<times> 'u pigeon_backend_machine)) list" where
  "pigeon_backend_step_fallback cb event m =
     [(cb_state m = BACKEND_ALT_DEGRADED \<and> event = SESSION_EVENT_PING_TIMEOUT \<and> c_guarded cb SESSION_GUARD_UNDER_MAX_FAILURES m,
       c_plain (c_seq [c_set cb (cb_ping_failures_update (\<lambda>x. x + 1)) ''ping_failures'', cb_state_update (\<lambda>_. BACKEND_ALT_DEGRADED)])),
      (cb_state m = BACKEND_ALT_DEGRADED \<and> event = SESSION_EVENT_PING_TIMEOUT \<and> c_guarded cb SESSION_GUARD_AT_MAX_FAILURES m,
       c_action cb SESSION_ACTION_FALLBACK_TO_RELAY (c_seq [c_set cb (cb_b_active_path_update (\<lambda>_. ''relay'')) ''b_active_path'', c_set cb (cb_b_dispatcher_path_update (\<lambda>_. ''relay'')) ''b_dispatcher_path'', c_set cb (cb_monitor_target_update (\<lambda>_. ''none'')) ''monitor_target'', c_set cb (cb_alt_signal_update (\<lambda>_. ''pending'')) ''alt_signal'', c_set cb (cb_ping_failures_update (\<lambda>_. 0)) ''ping_failures'', cb_state_update (\<lambda>_. BACKEND_RELAY_BACKOFF)])),
      (cb_state m = BACKEND_RELAY_BACKOFF \<and> event = SESSION_EVENT_BACKOFF_EXPIRED,
       c_plain (c_seq [cb_state_update (\<lambda>_. BACKEND_CANDIDATES_ADVERTISED)])),
      (cb_state m = BACKEND_RELAY_BACKOFF \<and> event = SESSION_EVENT_CANDIDATES_CHANGED,
       c_plain (c_seq [c_set cb (cb_backoff_level_update (\<lambda>_. 0)) ''backoff_level'', cb_state_update (\<lambda>_. BACKEND_CANDIDATES_ADVERTISED)])),
      (cb_state m = BACKEND_RELAY_CONNECTED \<and> event = SESSION_EVENT_CANDIDATES_REFRESH_TICK \<and> c_guarded cb SESSION_GUARD_LOCAL_CANDIDATES_AVAILABLE m,
       c_plain (c_seq [cb_state_update (\<lambda>_. BACKEND_CANDIDATES_ADVERTISED)])),
      (cb_state m = BACKEND_CANDIDATES_ADVERTISED \<and> event = SESSION_EVENT_APP_FORCE_FALLBACK,
       c_plain (c_seq [c_set cb (cb_alt_signal_update (\<lambda>_. ''pending'')) ''alt_signal'', cb_state_update (\<lambda>_. BACKEND_RELAY_CONNECTED)])),
      (cb_state m = BACKEND_ALT_ACTIVE \<and> event = SESSION_EVENT_APP_FORCE_FALLBACK,
       c_action cb SESSION_ACTION_FALLBACK_TO_RELAY (c_seq [c_set cb (cb_b_active_path_update (\<lambda>_. ''relay'')) ''b_active_path'', c_set cb (cb_b_dispatcher_path_update (\<lambda>_. ''relay'')) ''b_dispatcher_path'', c_set cb (cb_monitor_target_update (\<lambda>_. ''none'')) ''monitor_target'', c_set cb (cb_alt_signal_update (\<lambda>_. ''pending'')) ''alt_signal'', c_set cb (cb_ping_failures_update (\<lambda>_. 0)) ''ping_failures'', cb_state_update (\<lambda>_. BACKEND_RELAY_BACKOFF)])),
      (cb_state m = BACKEND_ALT_DEGRADED \<and> event = SESSION_EVENT_APP_FORCE_FALLBACK,
       c_action cb SESSION_ACTION_FALLBACK_TO_RELAY (c_seq [c_set cb (cb_b_active_path_update (\<lambda>_. ''relay'')) ''b_active_path'', c_set cb (cb_b_dispatcher_path_update (\<lambda>_. ''relay'')) ''b_dispatcher_path'', c_set cb (cb_monitor_target_update (\<lambda>_. ''none'')) ''monitor_target'', c_set cb (cb_alt_signal_update (\<lambda>_. ''pending'')) ''alt_signal'', c_set cb (cb_ping_failures_update (\<lambda>_. 0)) ''ping_failures'', cb_state_update (\<lambda>_. BACKEND_RELAY_BACKOFF)]))]"

definition pigeon_backend_step_traffic ::
  "'u pigeon_backend_machine session_callbacks \<Rightarrow> session_event_id \<Rightarrow> 'u pigeon_backend_machine \<Rightarrow> (bool \<times> ('u pigeon_backend_machine \<Rightarrow> int \<times> 'u pigeon_backend_machine)) list" where
  "pigeon_backend_step_traffic cb event m =
     [(cb_state m = BACKEND_RELAY_CONNECTED \<and> event = SESSION_EVENT_DISCONNECT,
       c_plain (c_seq [cb_state_update (\<lambda>_. BACKEND_PAIRED)])),
      (cb_state m = BACKEND_RELAY_CONNECTED \<and> event = SESSION_EVENT_APP_SEND,
       c_plain (c_seq [cb_state_update (\<lambda>_. BACKEND_RELAY_CONNECTED)])),
      (cb_state m = BACKEND_CANDIDATES_ADVERTISED \<and> event = SESSION_EVENT_APP_SEND,
       c_plain (c_seq [cb_state_update (\<lambda>_. BACKEND_CANDIDATES_ADVERTISED)])),
      (cb_state m = BACKEND_ALT_ACTIVE \<and> event = SESSION_EVENT_APP_SEND,
       c_plain (c_seq [cb_state_update (\<lambda>_. BACKEND_ALT_ACTIVE)])),
      (cb_state m = BACKEND_ALT_DEGRADED \<and> event = SESSION_EVENT_APP_SEND,
       c_plain (c_seq [cb_state_update (\<lambda>_. BACKEND_ALT_DEGRADED)])),
      (cb_state m = BACKEND_RELAY_BACKOFF \<and> event = SESSION_EVENT_APP_SEND,
       c_plain (c_seq [cb_state_update (\<lambda>_. BACKEND_RELAY_BACKOFF)])),
      (cb_state m = BACKEND_RELAY_CONNECTED \<and> event = SESSION_EVENT_RELAY_STREAM_DATA,
       c_plain (c_seq [cb_state_update (\<lambda>_. BACKEND_RELAY_CONNECTED)])),
      (cb_state m = BACKEND_CANDIDATES_ADVERTISED \<and> event = SESSION_EVENT_RELAY_STREAM_DATA,
       c_plain (c_seq [cb_state_update (\<lambda>_. BACKEND_CANDIDATES_ADVERTISED)])),
      (cb_state m = BACKEND_ALT_ACTIVE \<and> event = SESSION_EVENT_RELAY_STREAM_DATA,
       c_plain (c_seq [cb_state_update (\<lambda>_. BACKEND_ALT_ACTIVE)])),
      (cb_state m = BACKEND_ALT_DEGRADED \<and> event = SESSION_EVENT_RELAY_STREAM_DATA,
       c_plain (c_seq [cb_state_update (\<lambda>_. BACKEND_ALT_DEGRADED)])),
      (cb_state m = BACKEND_RELAY_BACKOFF \<and> event = SESSION_EVENT_RELAY_STREAM_DATA,
       c_plain (c_seq [cb_state_update (\<lambda>_. BACKEND_RELAY_BACKOFF)])),
      (cb_state m = BACKEND_RELAY_CONNECTED \<and> event = SESSION_EVENT_RELAY_STREAM_ERROR,
       c_plain (c_seq [cb_state_update (\<lambda>_. BACKEND_RELAY_CONNECTED)])),
      (cb_state m = BACKEND_CANDIDATES_ADVERTISED \<and> event = SESSION_EVENT_RELAY_STREAM_ERROR,
       c_plain (c_seq [cb_state_update (\<lambda>_. BACKEND_CANDIDATES_ADVERTISED)])),
      (cb_state m = BACKEND_ALT_ACTIVE \<and> event = SESSION_EVENT_RELAY_STREAM_ERROR,
       c_plain (c_seq [cb_state_update (\<lambda>_. BACKEND_ALT_ACTIVE)])),
      (cb_state m = BACKEND_ALT_DEGRADED \<and> event = SESSION_EVENT_RELAY_STREAM_ERROR,
       c_plain (c_seq [cb_state_update (\<lambda>_. BACKEND_ALT_DEGRADED)])),
      (cb_state m = BACKEND_RELAY_BACKOFF \<and> event = SESSION_EVENT_RELAY_STREAM_ERROR,
       c_plain (c_seq [cb_state_update (\<lambda>_. BACKEND_RELAY_BACKOFF)])),
      (cb_state m = BACKEND_RELAY_CONNECTED \<and> event = SESSION_EVENT_APP_SEND_DATAGRAM,
       c_plain (c_seq [cb_state_update (\<lambda>_. BACKEND_RELAY_CONNECTED)])),
      (cb_state m = BACKEND_CANDIDATES_ADVERTISED \<and> event = SESSION_EVENT_APP_SEND_DATAGRAM,
       c_plain (c_seq [cb_state_update (\<lambda>_. BACKEND_CANDIDATES_ADVERTISED)])),
      (cb_state m = BACKEND_ALT_ACTIVE \<and> event = SESSION_EVENT_APP_SEND_DATAGRAM,
       c_plain (c_seq [cb_state_update (\<lambda>_. BACKEND_ALT_ACTIVE)])),
      (cb_state m = BACKEND_ALT_DEGRADED \<and> event = SESSION_EVENT_APP_SEND_DATAGRAM,
       c_plain (c_seq [cb_state_update (\<lambda>_. BACKEND_ALT_DEGRADED)])),
      (cb_state m = BACKEND_RELAY_BACKOFF \<and> event = SESSION_EVENT_APP_SEND_DATAGRAM,
       c_plain (c_seq [cb_state_update (\<lambda>_. BACKEND_RELAY_BACKOFF)])),
      (cb_state m = BACKEND_RELAY_CONNECTED \<and> event = SESSION_EVENT_RELAY_DATAGRAM,
       c_plain (c_seq [cb_state_update (\<lambda>_. BACKEND_RELAY_CONNECTED)])),
      (cb_state m = BACKEND_CANDIDATES_ADVERTISED \<and> event = SESSION_EVENT_RELAY_DATAGRAM,
       c_plain (c_seq [cb_state_update (\<lambda>_. BACKEND_CANDIDATES_ADVERTISED)])),
      (cb_state m = BACKEND_ALT_ACTIVE \<and> event = SESSION_EVENT_RELAY_DATAGRAM,
       c_plain (c_seq [cb_state_update (\<lambda>_. BACKEND_ALT_ACTIVE)])),
      (cb_state m = BACKEND_ALT_DEGRADED \<and> event = SESSION_EVENT_RELAY_DATAGRAM,
       c_plain (c_seq [cb_state_update (\<lambda>_. BACKEND_ALT_DEGRADED)])),
      (cb_state m = BACKEND_RELAY_BACKOFF \<and> event = SESSION_EVENT_RELAY_DATAGRAM,
       c_plain (c_seq [cb_state_update (\<lambda>_. BACKEND_RELAY_BACKOFF)])),
      (cb_state m = BACKEND_ALT_ACTIVE \<and> event = SESSION_EVENT_ALT_STREAM_DATA,
       c_plain (c_seq [cb_state_update (\<lambda>_. BACKEND_ALT_ACTIVE)])),
      (cb_state m = BACKEND_ALT_DEGRADED \<and> event = SESSION_EVENT_ALT_STREAM_DATA,
       c_plain (c_seq [cb_state_update (\<lambda>_. BACKEND_ALT_DEGRADED)])),
      (cb_state m = BACKEND_ALT_ACTIVE \<and> event = SESSION_EVENT_ALT_DATAGRAM,
       c_plain (c_seq [cb_state_update (\<lambda>_. BACKEND_ALT_ACTIVE)])),
      (cb_state m = BACKEND_ALT_DEGRADED \<and> event = SESSION_EVENT_ALT_DATAGRAM,
       c_plain (c_seq [cb_state_update (\<lambda>_. BACKEND_ALT_DEGRADED)]))]"

definition pigeon_backend_step ::
  "'u pigeon_backend_machine session_callbacks \<Rightarrow> session_event_id \<Rightarrow> 'u pigeon_backend_machine \<Rightarrow> int \<times> 'u pigeon_backend_machine" where
  "pigeon_backend_step cb event m = gswitch
     (pigeon_backend_step_pairing cb event m @ pigeon_backend_step_path cb event m @ pigeon_backend_step_fallback cb event m @ pigeon_backend_step_traffic cb event m)
     (\<lambda>m. (0, m)) m"

definition pigeon_client_handle_message ::
  "'u pigeon_client_machine session_callbacks \<Rightarrow> session_msg_type \<Rightarrow> 'u pigeon_client_machine \<Rightarrow> int \<times> 'u pigeon_client_machine" where
  "pigeon_client_handle_message cb msg m = gswitch
     [(cc_state m = CLIENT_WAIT_ACK \<and> msg = SESSION_MSG_PAIR_HELLO_ACK,
       c_action cb SESSION_ACTION_DERIVE_SECRET (c_seq [cc_state_update (\<lambda>_. CLIENT_E2E_READY)])),
      (cc_state m = CLIENT_E2E_READY \<and> msg = SESSION_MSG_PAIR_CONFIRM,
       c_plain (c_seq [cc_state_update (\<lambda>_. CLIENT_SHOW_CODE)])),
      (cc_state m = CLIENT_WAIT_PAIR_COMPLETE \<and> msg = SESSION_MSG_PAIR_COMPLETE,
       c_action cb SESSION_ACTION_STORE_SECRET (c_seq [cc_state_update (\<lambda>_. CLIENT_PAIRED)])),
      (cc_state m = CLIENT_SEND_AUTH \<and> msg = SESSION_MSG_AUTH_OK,
       c_plain (c_seq [cc_state_update (\<lambda>_. CLIENT_SESSION_ACTIVE)])),
      (cc_state m = CLIENT_RELAY_CONNECTED \<and> msg = SESSION_MSG_CANDIDATES \<and> c_guarded cb SESSION_GUARD_ALT_ENABLED m,
       c_action cb SESSION_ACTION_DIAL_CANDIDATE (c_seq [cc_state_update (\<lambda>_. CLIENT_PAIR_DIALING)])),
      (cc_state m = CLIENT_RELAY_CONNECTED \<and> msg = SESSION_MSG_CANDIDATES \<and> c_guarded cb SESSION_GUARD_ALT_DISABLED m,
       c_plain (c_seq [cc_state_update (\<lambda>_. CLIENT_RELAY_CONNECTED)])),
      (cc_state m = CLIENT_PAIR_CHECKING \<and> msg = SESSION_MSG_PAIR_CHECK_ACK,
       c_action cb SESSION_ACTION_ACTIVATE_LAN (c_seq [c_set cb (cc_c_active_path_update (\<lambda>_. ''alt'')) ''c_active_path'', c_set cb (cc_c_dispatcher_path_update (\<lambda>_. ''alt'')) ''c_dispatcher_path'', c_set cb (cc_alt_signal_update (\<lambda>_. ''ready'')) ''alt_signal'', cc_state_update (\<lambda>_. CLIENT_ALT_ACTIVE)])),
      (cc_state m = CLIENT_ALT_ACTIVE \<and> msg = SESSION_MSG_PATH_PING,
       c_plain (c_seq [cc_state_update (\<lambda>_. CLIENT_ALT_ACTIVE)])),
      (cc_state m = CLIENT_ALT_ACTIVE \<and> msg = SESSION_MSG_CANDIDATES \<and> c_guarded cb SESSION_GUARD_ALT_ENABLED m,
       c_action cb SESSION_ACTION_DIAL_CANDIDATE (c_seq [cc_state_update (\<lambda>_. CLIENT_PAIR_DIALING)]))]
     (\<lambda>m. (0, m)) m"

definition pigeon_client_step_pairing ::
  "'u pigeon_client_machine session_callbacks \<Rightarrow> session_event_id \<Rightarrow> 'u pigeon_client_machine \<Rightarrow> (bool \<times> ('u pigeon_client_machine \<Rightarrow> int \<times> 'u pigeon_client_machine)) list" where
  "pigeon_client_step_pairing cb event m =
     [(cc_state m = CLIENT_IDLE \<and> event = SESSION_EVENT_BACKCHANNEL_RECEIVED,
       c_plain (c_seq [cc_state_update (\<lambda>_. CLIENT_OBTAIN_BACKCHANNEL_SECRET)])),
      (cc_state m = CLIENT_OBTAIN_BACKCHANNEL_SECRET \<and> event = SESSION_EVENT_SECRET_PARSED,
       c_plain (c_seq [cc_state_update (\<lambda>_. CLIENT_CONNECT_RELAY)])),
      (cc_state m = CLIENT_CONNECT_RELAY \<and> event = SESSION_EVENT_RELAY_CONNECTED,
       c_plain (c_seq [cc_state_update (\<lambda>_. CLIENT_GEN_KEY_PAIR)])),
      (cc_state m = CLIENT_GEN_KEY_PAIR \<and> event = SESSION_EVENT_KEY_PAIR_GENERATED,
       c_action cb SESSION_ACTION_SEND_PAIR_HELLO (c_seq [cc_state_update (\<lambda>_. CLIENT_WAIT_ACK)])),
      (cc_state m = CLIENT_SHOW_CODE \<and> event = SESSION_EVENT_CODE_DISPLAYED,
       c_plain (c_seq [cc_state_update (\<lambda>_. CLIENT_WAIT_PAIR_COMPLETE)])),
      (cc_state m = CLIENT_PAIRED \<and> event = SESSION_EVENT_APP_LAUNCH,
       c_plain (c_seq [cc_state_update (\<lambda>_. CLIENT_RECONNECT)])),
      (cc_state m = CLIENT_RECONNECT \<and> event = SESSION_EVENT_RELAY_CONNECTED,
       c_plain (c_seq [cc_state_update (\<lambda>_. CLIENT_SEND_AUTH)]))]"

definition pigeon_client_step_path ::
  "'u pigeon_client_machine session_callbacks \<Rightarrow> session_event_id \<Rightarrow> 'u pigeon_client_machine \<Rightarrow> (bool \<times> ('u pigeon_client_machine \<Rightarrow> int \<times> 'u pigeon_client_machine)) list" where
  "pigeon_client_step_path cb event m =
     [(cc_state m = CLIENT_SESSION_ACTIVE \<and> event = SESSION_EVENT_SESSION_ESTABLISHED,
       c_plain (c_seq [cc_state_update (\<lambda>_. CLIENT_RELAY_CONNECTED)])),
      (cc_state m = CLIENT_PAIR_DIALING \<and> event = SESSION_EVENT_DIAL_OK,
       c_plain (c_seq [cc_state_update (\<lambda>_. CLIENT_PAIR_CHECKING)])),
      (cc_state m = CLIENT_PAIR_DIALING \<and> event = SESSION_EVENT_DIAL_FAILED,
       c_plain (c_seq [cc_state_update (\<lambda>_. CLIENT_RELAY_CONNECTED)])),
      (cc_state m = CLIENT_PAIR_CHECKING \<and> event = SESSION_EVENT_VERIFY_TIMEOUT,
       c_plain (c_seq [c_set cb (cc_c_dispatcher_path_update (\<lambda>_. ''relay'')) ''c_dispatcher_path'', cc_state_update (\<lambda>_. CLIENT_RELAY_CONNECTED)])),
      (cc_state m = CLIENT_ALT_ACTIVE \<and> event = SESSION_EVENT_ALT_ERROR,
       c_action cb SESSION_ACTION_FALLBACK_TO_RELAY (c_seq [c_set cb (cc_c_active_path_update (\<lambda>_. ''relay'')) ''c_active_path'', c_set cb (cc_c_dispatcher_path_update (\<lambda>_. ''relay'')) ''c_dispatcher_path'', c_set cb (cc_alt_signal_update (\<lambda>_. ''pending'')) ''alt_signal'', cc_state_update (\<lambda>_. CLIENT_RELAY_FALLBACK)])),
      (cc_state m = CLIENT_ALT_ACTIVE \<and> event = SESSION_EVENT_ALT_STREAM_ERROR,
       c_action cb SESSION_ACTION_FALLBACK_TO_RELAY (c_seq [c_set cb (cc_c_active_path_update (\<lambda>_. ''relay'')) ''c_active_path'', c_set cb (cc_c_dispatcher_path_update (\<lambda>_. ''relay'')) ''c_dispatcher_path'', c_set cb (cc_alt_signal_update (\<lambda>_. ''pending'')) ''alt_signal'', cc_state_update (\<lambda>_. CLIENT_RELAY_FALLBACK)])),
      (cc_state m = CLIENT_RELAY_FALLBACK \<and> event = SESSION_EVENT_RELAY_OK,
       c_plain (c_seq [cc_state_update (\<lambda>_. CLIENT_RELAY_CONNECTED)])),
      (cc_state m = CLIENT_PAIR_DIALING \<and> event = SESSION_EVENT_APP_FORCE_FALLBACK,
       c_plain (c_seq [cc_state_update (\<lambda>_. CLIENT_RELAY_CONNECTED)])),
      (cc_state m = CLIENT_PAIR_CHECKING \<and> event = SESSION_EVENT_APP_FORCE_FALLBACK,
       c_plain (c_seq [c_set cb (cc_c_dispatcher_path_update (\<lambda>_. ''relay'')) ''c_dispatcher_path'', cc_state_update (\<lambda>_. CLIENT_RELAY_CONNECTED)])),
      (cc_state m = CLIENT_ALT_ACTIVE \<and> event = SESSION_EVENT_APP_FORCE_FALLBACK,
       c_action cb SESSION_ACTION_FALLBACK_TO_RELAY (c_seq [c_set cb (cc_c_active_path_update (\<lambda>_. ''relay'')) ''c_active_path'', c_set cb (cc_c_dispatcher_path_update (\<lambda>_. ''relay'')) ''c_dispatcher_path'', c_set cb (cc_alt_signal_update (\<lambda>_. ''pending'')) ''alt_signal'', cc_state_update (\<lambda>_. CLIENT_RELAY_CONNECTED)]))]"

definition pigeon_client_step_traffic ::
  "'u pigeon_client_machine session_callbacks \<Rightarrow> session_event_id \<Rightarrow> 'u pigeon_client_machine \<Rightarrow> (bool \<times> ('u pigeon_client_machine \<Rightarrow> int \<times> 'u pigeon_client_machine)) list" where
  "pigeon_client_step_traffic cb event m =
     [(cc_state m = CLIENT_RELAY_CONNECTED \<and> event = SESSION_EVENT_DISCONNECT,
       c_plain (c_seq [cc_state_update (\<lambda>_. CLIENT_PAIRED)])),
      (cc_state m = CLIENT_RELAY_CONNECTED \<and> event = SESSION_EVENT_APP_SEND,
       c_plain (c_seq [cc_state_update (\<lambda>_. CLIENT_RELAY_CONNECTED)])),
      (cc_state m = CLIENT_PAIR_DIALING \<and> event = SESSION_EVENT_APP_SEND,
       c_plain (c_seq [cc_state_update (\<lambda>_. CLIENT_PAIR_DIALING)])),
      (cc_state m = CLIENT_PAIR_CHECKING \<and> event = SESSION_EVENT_APP_SEND,
       c_plain (c_seq [cc_state_update (\<lambda>_. CLIENT_PAIR_CHECKING)])),
      (cc_state m = CLIENT_ALT_ACTIVE \<and> event = SESSION_EVENT_APP_SEND,
       c_plain (c_seq [cc_state_update (\<lambda>_. CLIENT_ALT_ACTIVE)])),
      (cc_state m = CLIENT_RELAY_FALLBACK \<and> event = SESSION_EVENT_APP_SEND,
       c_plain (c_seq [cc_state_update (\<lambda>_. CLIENT_RELAY_FALLBACK)])),
      (cc_state m = CLIENT_RELAY_CONNECTED \<and> event = SESSION_EVENT_RELAY_STREAM_DATA,
       c_plain (c_seq [cc_state_update (\<lambda>_. CLIENT_RELAY_CONNECTED)])),
      (cc_state m = CLIENT_PAIR_DIALING \<and> event = SESSION_EVENT_RELAY_STREAM_DATA,
       c_plain (c_seq [cc_state_update (\<lambda>_. CLIENT_PAIR_DIALING)])),
      (cc_state m = CLIENT_PAIR_CHECKING \<and> event = SESSION_EVENT_RELAY_STREAM_DATA,
       c_plain (c_seq [cc_state_update (\<lambda>_. CLIENT_PAIR_CHECKING)])),
      (cc_state m = CLIENT_ALT_ACTIVE \<and> event = SESSION_EVENT_RELAY_STREAM_DATA,
       c_plain (c_seq [cc_state_update (\<lambda>_. CLIENT_ALT_ACTIVE)])),
      (cc_state m = CLIENT_RELAY_FALLBACK \<and> event = SESSION_EVENT_RELAY_STREAM_DATA,
       c_plain (c_seq [cc_state_update (\<lambda>_. CLIENT_RELAY_FALLBACK)])),
      (cc_state m = CLIENT_RELAY_CONNECTED \<and> event = SESSION_EVENT_RELAY_STREAM_ERROR,
       c_plain (c_seq [cc_state_update (\<lambda>_. CLIENT_RELAY_CONNECTED)])),
      (cc_state m = CLIENT_PAIR_DIALING \<and> event = SESSION_EVENT_RELAY_STREAM_ERROR,
       c_plain (c_seq [cc_state_update (\<lambda>_. CLIENT_PAIR_DIALING)])),
      (cc_state m = CLIENT_PAIR_CHECKING \<and> event = SESSION_EVENT_RELAY_STREAM_ERROR,
       c_plain (c_seq [cc_state_update (\<lambda>_. CLIENT_PAIR_CHECKING)])),
      (cc_state m = CLIENT_ALT_ACTIVE \<and> event = SESSION_EVENT_RELAY_STREAM_ERROR,
       c_plain (c_seq [cc_state_update (\<lambda>_. CLIENT_ALT_ACTIVE)])),
      (cc_state m = CLIENT_RELAY_FALLBACK \<and> event = SESSION_EVENT_RELAY_STREAM_ERROR,
       c_plain (c_seq [cc_state_update (\<lambda>_. CLIENT_RELAY_FALLBACK)])),
      (cc_state m = CLIENT_RELAY_CONNECTED \<and> event = SESSION_EVENT_APP_SEND_DATAGRAM,
       c_plain (c_seq [cc_state_update (\<lambda>_. CLIENT_RELAY_CONNECTED)])),
      (cc_state m = CLIENT_PAIR_DIALING \<and> event = SESSION_EVENT_APP_SEND_DATAGRAM,
       c_plain (c_seq [cc_state_update (\<lambda>_. CLIENT_PAIR_DIALING)])),
      (cc_state m = CLIENT_PAIR_CHECKING \<and> event = SESSION_EVENT_APP_SEND_DATAGRAM,
       c_plain (c_seq [cc_state_update (\<lambda>_. CLIENT_PAIR_CHECKING)])),
      (cc_state m = CLIENT_ALT_ACTIVE \<and> event = SESSION_EVENT_APP_SEND_DATAGRAM,
       c_plain (c_seq [cc_state_update (\<lambda>_. CLIENT_ALT_ACTIVE)])),
      (cc_state m = CLIENT_RELAY_FALLBACK \<and> event = SESSION_EVENT_APP_SEND_DATAGRAM,
       c_plain (c_seq [cc_state_update (\<lambda>_. CLIENT_RELAY_FALLBACK)])),
      (cc_state m = CLIENT_RELAY_CONNECTED \<and> event = SESSION_EVENT_RELAY_DATAGRAM,
       c_plain (c_seq [cc_state_update (\<lambda>_. CLIENT_RELAY_CONNECTED)])),
      (cc_state m = CLIENT_PAIR_DIALING \<and> event = SESSION_EVENT_RELAY_DATAGRAM,
       c_plain (c_seq [cc_state_update (\<lambda>_. CLIENT_PAIR_DIALING)])),
      (cc_state m = CLIENT_PAIR_CHECKING \<and> event = SESSION_EVENT_RELAY_DATAGRAM,
       c_plain (c_seq [cc_state_update (\<lambda>_. CLIENT_PAIR_CHECKING)])),
      (cc_state m = CLIENT_ALT_ACTIVE \<and> event = SESSION_EVENT_RELAY_DATAGRAM,
       c_plain (c_seq [cc_state_update (\<lambda>_. CLIENT_ALT_ACTIVE)])),
      (cc_state m = CLIENT_RELAY_FALLBACK \<and> event = SESSION_EVENT_RELAY_DATAGRAM,
       c_plain (c_seq [cc_state_update (\<lambda>_. CLIENT_RELAY_FALLBACK)])),
      (cc_state m = CLIENT_ALT_ACTIVE \<and> event = SESSION_EVENT_ALT_STREAM_DATA,
       c_plain (c_seq [cc_state_update (\<lambda>_. CLIENT_ALT_ACTIVE)])),
      (cc_state m = CLIENT_ALT_ACTIVE \<and> event = SESSION_EVENT_ALT_DATAGRAM,
       c_plain (c_seq [cc_state_update (\<lambda>_. CLIENT_ALT_ACTIVE)]))]"

definition pigeon_client_step ::
  "'u pigeon_client_machine session_callbacks \<Rightarrow> session_event_id \<Rightarrow> 'u pigeon_client_machine \<Rightarrow> int \<times> 'u pigeon_client_machine" where
  "pigeon_client_step cb event m = gswitch
     (pigeon_client_step_pairing cb event m @ pigeon_client_step_path cb event m @ pigeon_client_step_traffic cb event m)
     (\<lambda>m. (0, m)) m"

definition pigeon_relay_handle_message ::
  "'u pigeon_relay_machine session_callbacks \<Rightarrow> session_msg_type \<Rightarrow> 'u pigeon_relay_machine \<Rightarrow> int \<times> 'u pigeon_relay_machine" where
  "pigeon_relay_handle_message cb msg m = gswitch
     []
     (\<lambda>m. (0, m)) m"

definition pigeon_relay_step ::
  "'u pigeon_relay_machine session_callbacks \<Rightarrow> session_event_id \<Rightarrow> 'u pigeon_relay_machine \<Rightarrow> int \<times> 'u pigeon_relay_machine" where
  "pigeon_relay_step cb event m = gswitch
     [(cr_state m = RELAY_IDLE \<and> event = SESSION_EVENT_BACKEND_REGISTER,
       c_plain (c_seq [cr_state_update (\<lambda>_. RELAY_BACKEND_REGISTERED)])),
      (cr_state m = RELAY_BACKEND_REGISTERED \<and> event = SESSION_EVENT_CLIENT_CONNECT,
       c_action cb SESSION_ACTION_BRIDGE_STREAMS (c_seq [c_set cb (cr_relay_bridge_update (\<lambda>_. ''active'')) ''relay_bridge'', cr_state_update (\<lambda>_. RELAY_BRIDGED)])),
      (cr_state m = RELAY_BRIDGED \<and> event = SESSION_EVENT_CLIENT_DISCONNECT,
       c_action cb SESSION_ACTION_UNBRIDGE (c_seq [c_set cb (cr_relay_bridge_update (\<lambda>_. ''idle'')) ''relay_bridge'', cr_state_update (\<lambda>_. RELAY_BACKEND_REGISTERED)])),
      (cr_state m = RELAY_BACKEND_REGISTERED \<and> event = SESSION_EVENT_BACKEND_DISCONNECT,
       c_plain (c_seq [cr_state_update (\<lambda>_. RELAY_IDLE)]))]
     (\<lambda>m. (0, m)) m"

text \<open>The names of the protocol for the enumeration constants, and machines with the same fields.\<close>

fun c_backend_state :: "pigeon_backend_state \<Rightarrow> string" where
  "c_backend_state BACKEND_IDLE = ''Idle''" |
  "c_backend_state BACKEND_GENERATE_TOKEN = ''GenerateToken''" |
  "c_backend_state BACKEND_REGISTER_RELAY = ''RegisterRelay''" |
  "c_backend_state BACKEND_WAITING_FOR_CLIENT = ''WaitingForClient''" |
  "c_backend_state BACKEND_DERIVE_SECRET = ''DeriveSecret''" |
  "c_backend_state BACKEND_SEND_ACK = ''SendAck''" |
  "c_backend_state BACKEND_WAITING_FOR_CODE = ''WaitingForCode''" |
  "c_backend_state BACKEND_VALIDATE_CODE = ''ValidateCode''" |
  "c_backend_state BACKEND_STORE_PAIRED = ''StorePaired''" |
  "c_backend_state BACKEND_PAIRED = ''Paired''" |
  "c_backend_state BACKEND_AUTH_CHECK = ''AuthCheck''" |
  "c_backend_state BACKEND_SESSION_ACTIVE = ''SessionActive''" |
  "c_backend_state BACKEND_RELAY_CONNECTED = ''RelayConnected''" |
  "c_backend_state BACKEND_CANDIDATES_ADVERTISED = ''CandidatesAdvertised''" |
  "c_backend_state BACKEND_ALT_ACTIVE = ''AltActive''" |
  "c_backend_state BACKEND_RELAY_BACKOFF = ''RelayBackoff''" |
  "c_backend_state BACKEND_ALT_DEGRADED = ''AltDegraded''"

fun c_client_state :: "pigeon_client_state \<Rightarrow> string" where
  "c_client_state CLIENT_IDLE = ''Idle''" |
  "c_client_state CLIENT_OBTAIN_BACKCHANNEL_SECRET = ''ObtainBackchannelSecret''" |
  "c_client_state CLIENT_CONNECT_RELAY = ''ConnectRelay''" |
  "c_client_state CLIENT_GEN_KEY_PAIR = ''GenKeyPair''" |
  "c_client_state CLIENT_WAIT_ACK = ''WaitAck''" |
  "c_client_state CLIENT_E2E_READY = ''E2EReady''" |
  "c_client_state CLIENT_SHOW_CODE = ''ShowCode''" |
  "c_client_state CLIENT_WAIT_PAIR_COMPLETE = ''WaitPairComplete''" |
  "c_client_state CLIENT_PAIRED = ''Paired''" |
  "c_client_state CLIENT_RECONNECT = ''Reconnect''" |
  "c_client_state CLIENT_SEND_AUTH = ''SendAuth''" |
  "c_client_state CLIENT_SESSION_ACTIVE = ''SessionActive''" |
  "c_client_state CLIENT_RELAY_CONNECTED = ''RelayConnected''" |
  "c_client_state CLIENT_PAIR_DIALING = ''PairDialing''" |
  "c_client_state CLIENT_PAIR_CHECKING = ''PairChecking''" |
  "c_client_state CLIENT_ALT_ACTIVE = ''AltActive''" |
  "c_client_state CLIENT_RELAY_FALLBACK = ''RelayFallback''"

fun c_relay_state :: "pigeon_relay_state \<Rightarrow> string" where
  "c_relay_state RELAY_IDLE = ''Idle''" |
  "c_relay_state RELAY_BACKEND_REGISTERED = ''BackendRegistered''" |
  "c_relay_state RELAY_BRIDGED = ''Bridged''"

fun c_msg_name :: "session_msg_type \<Rightarrow> string" where
  "c_msg_name SESSION_MSG_PAIR_HELLO = ''pair_hello''" |
  "c_msg_name SESSION_MSG_PAIR_HELLO_ACK = ''pair_hello_ack''" |
  "c_msg_name SESSION_MSG_PAIR_CONFIRM = ''pair_confirm''" |
  "c_msg_name SESSION_MSG_PAIR_COMPLETE = ''pair_complete''" |
  "c_msg_name SESSION_MSG_AUTH_REQUEST = ''auth_request''" |
  "c_msg_name SESSION_MSG_AUTH_OK = ''auth_ok''" |
  "c_msg_name SESSION_MSG_CANDIDATES = ''candidates''" |
  "c_msg_name SESSION_MSG_PAIR_CHECK = ''pair_check''" |
  "c_msg_name SESSION_MSG_PAIR_CHECK_ACK = ''pair_check_ack''" |
  "c_msg_name SESSION_MSG_PATH_PING = ''path_ping''" |
  "c_msg_name SESSION_MSG_PATH_PONG = ''path_pong''"

fun c_guard_name :: "session_guard_id \<Rightarrow> string" where
  "c_guard_name SESSION_GUARD_TOKEN_VALID = ''token_valid''" |
  "c_guard_name SESSION_GUARD_TOKEN_INVALID = ''token_invalid''" |
  "c_guard_name SESSION_GUARD_CODE_CORRECT = ''code_correct''" |
  "c_guard_name SESSION_GUARD_CODE_WRONG = ''code_wrong''" |
  "c_guard_name SESSION_GUARD_DEVICE_KNOWN = ''device_known''" |
  "c_guard_name SESSION_GUARD_DEVICE_UNKNOWN = ''device_unknown''" |
  "c_guard_name SESSION_GUARD_NONCE_FRESH = ''nonce_fresh''" |
  "c_guard_name SESSION_GUARD_CHALLENGE_VALID = ''challenge_valid''" |
  "c_guard_name SESSION_GUARD_CHALLENGE_INVALID = ''challenge_invalid''" |
  "c_guard_name SESSION_GUARD_ALT_ENABLED = ''alt_enabled''" |
  "c_guard_name SESSION_GUARD_ALT_DISABLED = ''alt_disabled''" |
  "c_guard_name SESSION_GUARD_LOCAL_CANDIDATES_AVAILABLE = ''local_candidates_available''" |
  "c_guard_name SESSION_GUARD_UNDER_MAX_FAILURES = ''under_max_failures''" |
  "c_guard_name SESSION_GUARD_AT_MAX_FAILURES = ''at_max_failures''"

fun c_action_name :: "session_action_id \<Rightarrow> string" where
  "c_action_name SESSION_ACTION_GENERATE_TOKEN = ''generate_token''" |
  "c_action_name SESSION_ACTION_REGISTER_RELAY = ''register_relay''" |
  "c_action_name SESSION_ACTION_DERIVE_SECRET = ''derive_secret''" |
  "c_action_name SESSION_ACTION_STORE_DEVICE = ''store_device''" |
  "c_action_name SESSION_ACTION_VERIFY_DEVICE = ''verify_device''" |
  "c_action_name SESSION_ACTION_ACTIVATE_LAN = ''activate_lan''" |
  "c_action_name SESSION_ACTION_FALLBACK_TO_RELAY = ''fallback_to_relay''" |
  "c_action_name SESSION_ACTION_RESET_FAILURES = ''reset_failures''" |
  "c_action_name SESSION_ACTION_SEND_PAIR_HELLO = ''send_pair_hello''" |
  "c_action_name SESSION_ACTION_STORE_SECRET = ''store_secret''" |
  "c_action_name SESSION_ACTION_DIAL_CANDIDATE = ''dial_candidate''" |
  "c_action_name SESSION_ACTION_BRIDGE_STREAMS = ''bridge_streams''" |
  "c_action_name SESSION_ACTION_UNBRIDGE = ''unbridge''"

fun c_session_event :: "session_event_id \<Rightarrow> string" where
  "c_session_event SESSION_EVENT_APP_SEND = ''app_send''" |
  "c_session_event SESSION_EVENT_APP_RECV = ''app_recv''" |
  "c_session_event SESSION_EVENT_APP_SEND_DATAGRAM = ''app_send_datagram''" |
  "c_session_event SESSION_EVENT_APP_RECV_DATAGRAM = ''app_recv_datagram''" |
  "c_session_event SESSION_EVENT_APP_CLOSE = ''app_close''" |
  "c_session_event SESSION_EVENT_APP_FORCE_FALLBACK = ''app_force_fallback''" |
  "c_session_event SESSION_EVENT_RELAY_STREAM_DATA = ''relay_stream_data''" |
  "c_session_event SESSION_EVENT_RELAY_STREAM_ERROR = ''relay_stream_error''" |
  "c_session_event SESSION_EVENT_RELAY_DATAGRAM = ''relay_datagram''" |
  "c_session_event SESSION_EVENT_ALT_STREAM_DATA = ''alt_stream_data''" |
  "c_session_event SESSION_EVENT_ALT_STREAM_ERROR = ''alt_stream_error''" |
  "c_session_event SESSION_EVENT_ALT_DATAGRAM = ''alt_datagram''" |
  "c_session_event SESSION_EVENT_DIAL_OK = ''dial_ok''" |
  "c_session_event SESSION_EVENT_DIAL_FAILED = ''dial_failed''" |
  "c_session_event SESSION_EVENT_PAIR_CHECK_OK = ''pair_check_ok''" |
  "c_session_event SESSION_EVENT_PING_TIMEOUT = ''ping_timeout''" |
  "c_session_event SESSION_EVENT_PING_TICK = ''ping_tick''" |
  "c_session_event SESSION_EVENT_BACKOFF_EXPIRED = ''backoff_expired''" |
  "c_session_event SESSION_EVENT_CANDIDATES_TIMEOUT = ''candidates_timeout''" |
  "c_session_event SESSION_EVENT_CLI_INIT_PAIR = ''cli_init_pair''" |
  "c_session_event SESSION_EVENT_TOKEN_CREATED = ''token_created''" |
  "c_session_event SESSION_EVENT_RELAY_REGISTERED = ''relay_registered''" |
  "c_session_event SESSION_EVENT_ECDH_COMPLETE = ''ecdh_complete''" |
  "c_session_event SESSION_EVENT_SIGNAL_CODE_DISPLAY = ''signal_code_display''" |
  "c_session_event SESSION_EVENT_CLI_CODE_ENTERED = ''cli_code_entered''" |
  "c_session_event SESSION_EVENT_CHECK_CODE = ''check_code''" |
  "c_session_event SESSION_EVENT_FINALISE = ''finalise''" |
  "c_session_event SESSION_EVENT_VERIFY = ''verify''" |
  "c_session_event SESSION_EVENT_SESSION_ESTABLISHED = ''session_established''" |
  "c_session_event SESSION_EVENT_CANDIDATES_GATHERED = ''candidates_gathered''" |
  "c_session_event SESSION_EVENT_CANDIDATES_CHANGED = ''candidates_changed''" |
  "c_session_event SESSION_EVENT_CANDIDATES_REFRESH_TICK = ''candidates_refresh_tick''" |
  "c_session_event SESSION_EVENT_DISCONNECT = ''disconnect''" |
  "c_session_event SESSION_EVENT_BACKCHANNEL_RECEIVED = ''backchannel_received''" |
  "c_session_event SESSION_EVENT_SECRET_PARSED = ''secret_parsed''" |
  "c_session_event SESSION_EVENT_RELAY_CONNECTED = ''relay_connected''" |
  "c_session_event SESSION_EVENT_KEY_PAIR_GENERATED = ''key_pair_generated''" |
  "c_session_event SESSION_EVENT_CODE_DISPLAYED = ''code_displayed''" |
  "c_session_event SESSION_EVENT_APP_LAUNCH = ''app_launch''" |
  "c_session_event SESSION_EVENT_VERIFY_TIMEOUT = ''verify_timeout''" |
  "c_session_event SESSION_EVENT_ALT_ERROR = ''alt_error''" |
  "c_session_event SESSION_EVENT_RELAY_OK = ''relay_ok''" |
  "c_session_event SESSION_EVENT_BACKEND_REGISTER = ''backend_register''" |
  "c_session_event SESSION_EVENT_CLIENT_CONNECT = ''client_connect''" |
  "c_session_event SESSION_EVENT_CLIENT_DISCONNECT = ''client_disconnect''" |
  "c_session_event SESSION_EVENT_BACKEND_DISCONNECT = ''backend_disconnect''" |
  "c_session_event SESSION_EVENT_RECV_PAIR_HELLO = ''recv_pair_hello''" |
  "c_session_event SESSION_EVENT_RECV_AUTH_REQUEST = ''recv_auth_request''" |
  "c_session_event SESSION_EVENT_RECV_PAIR_CHECK = ''recv_pair_check''" |
  "c_session_event SESSION_EVENT_RECV_PATH_PONG = ''recv_path_pong''" |
  "c_session_event SESSION_EVENT_RECV_PAIR_HELLO_ACK = ''recv_pair_hello_ack''" |
  "c_session_event SESSION_EVENT_RECV_PAIR_CONFIRM = ''recv_pair_confirm''" |
  "c_session_event SESSION_EVENT_RECV_PAIR_COMPLETE = ''recv_pair_complete''" |
  "c_session_event SESSION_EVENT_RECV_AUTH_OK = ''recv_auth_ok''" |
  "c_session_event SESSION_EVENT_RECV_CANDIDATES = ''recv_candidates''" |
  "c_session_event SESSION_EVENT_RECV_PAIR_CHECK_ACK = ''recv_pair_check_ack''" |
  "c_session_event SESSION_EVENT_RECV_PATH_PING = ''recv_path_ping''"

definition backend_corr :: "'u pigeon_backend_machine \<Rightarrow> SessionProtocolBackendMachine \<times> 'u \<Rightarrow> bool" where
  "backend_corr m s \<longleftrightarrow>
     sb_State (fst s) = c_backend_state (cb_state m) \<and>
     sb_CurrentToken (fst s) = cb_current_token m \<and>
     sb_BackendEcdhPub (fst s) = cb_backend_ecdh_pub m \<and>
     sb_ReceivedClientPub (fst s) = cb_received_client_pub m \<and>
     sb_BackendSharedKey (fst s) = (case cb_backend_shared_key m of None \<Rightarrow> [] | Some x \<Rightarrow> x) \<and>
     sb_BackendCode (fst s) = (case cb_backend_code m of None \<Rightarrow> [] | Some x \<Rightarrow> x) \<and>
     sb_ReceivedCode (fst s) = (case cb_received_code m of None \<Rightarrow> [] | Some x \<Rightarrow> x) \<and>
     sb_CodeAttempts (fst s) = cb_code_attempts m \<and>
     sb_DeviceSecret (fst s) = cb_device_secret m \<and>
     sb_ReceivedDeviceId (fst s) = cb_received_device_id m \<and>
     sb_ReceivedAuthNonce (fst s) = cb_received_auth_nonce m \<and>
     sb_SecretPublished (fst s) = cb_secret_published m \<and>
     sb_PingFailures (fst s) = cb_ping_failures m \<and>
     sb_BackoffLevel (fst s) = cb_backoff_level m \<and>
     sb_BActivePath (fst s) = cb_b_active_path m \<and>
     sb_BDispatcherPath (fst s) = cb_b_dispatcher_path m \<and>
     sb_MonitorTarget (fst s) = cb_monitor_target m \<and>
     sb_AltSignal (fst s) = cb_alt_signal m \<and>
     snd s = cb_userdata m"

definition client_corr :: "'u pigeon_client_machine \<Rightarrow> SessionProtocolClientMachine \<times> 'u \<Rightarrow> bool" where
  "client_corr m s \<longleftrightarrow>
     sc_State (fst s) = c_client_state (cc_state m) \<and>
     sc_ReceivedBackendPub (fst s) = cc_received_backend_pub m \<and>
     sc_ClientSharedKey (fst s) = (case cc_client_shared_key m of None \<Rightarrow> [] | Some x \<Rightarrow> x) \<and>
     sc_ClientCode (fst s) = (case cc_client_code m of None \<Rightarrow> [] | Some x \<Rightarrow> x) \<and>
     sc_CActivePath (fst s) = cc_c_active_path m \<and>
     sc_CDispatcherPath (fst s) = cc_c_dispatcher_path m \<and>
     sc_AltSignal (fst s) = cc_alt_signal m \<and>
     snd s = cc_userdata m"

definition relay_corr :: "'u pigeon_relay_machine \<Rightarrow> SessionProtocolRelayMachine \<times> 'u \<Rightarrow> bool" where
  "relay_corr m s \<longleftrightarrow>
     sr_State (fst s) = c_relay_state (cr_state m) \<and>
     sr_RelayBridge (fst s) = cr_relay_bridge m \<and>
     snd s = cr_userdata m"

section \<open>The C machines take the steps of the Go machines\<close>

fun go_code :: "int + bool \<Rightarrow> int" where
  "go_code (Inl e) = - e" |
  "go_code (Inr b) = (if b then 1 else 0)"

text \<open>Callbacks that do the same on corresponding machines.\<close>

definition same_session :: "('c \<Rightarrow> 'm \<times> 'w \<Rightarrow> bool) \<Rightarrow> 'c session_callbacks \<Rightarrow> ('m, 'w, int) callbacks \<Rightarrow> bool" where
  "same_session R cb env \<longleftrightarrow>
     (\<forall>a m s. R m s \<longrightarrow> R (snd (run_action cb a m)) (fst (act env (c_action_name a) s)) \<and>
        snd (act env (c_action_name a) s) = (if fst (run_action cb a m) = 0 then None else Some (fst (run_action cb a m)))) \<and>
     (\<forall>v m s. R m s \<longrightarrow> R (c_changed cb v m) (changed env v s)) \<and>
     (\<forall>g m s. R m s \<longrightarrow> c_guarded cb g m = guarded env (c_guard_name g) s)"

text \<open>A body, a list of statements and a list of cases of the C code that follow those of the Go code.\<close>

definition follows :: "('c \<Rightarrow> 's \<Rightarrow> bool) \<Rightarrow> ('c \<Rightarrow> int \<times> 'c) \<Rightarrow> ('s \<Rightarrow> 's \<times> (int + bool)) \<Rightarrow> bool" where
  "follows R b b' \<longleftrightarrow> (\<forall>m s. R m s \<longrightarrow> R (snd (b m)) (fst (b' s)) \<and> fst (b m) = go_code (snd (b' s)))"

definition goes :: "('c \<Rightarrow> 'm \<times> 'w \<Rightarrow> bool) \<Rightarrow> ('c \<Rightarrow> 'c) \<Rightarrow> ('m, 'w, int) stmt list \<Rightarrow> bool" where
  "goes R f fs \<longleftrightarrow> (\<forall>m s. R m s \<longrightarrow> R (f m) (fst (block fs True s)) \<and> snd (block fs True s) = Inr True)"

definition same_cases ::
  "('c \<Rightarrow> 's \<Rightarrow> bool) \<Rightarrow> (bool \<times> ('c \<Rightarrow> int \<times> 'c)) list \<Rightarrow> (bool \<times> ('s \<Rightarrow> 's \<times> (int + bool))) list \<Rightarrow> bool" where
  "same_cases R xs ys = list_all2 (\<lambda>x y. fst x = fst y \<and> follows R (snd x) (snd y)) xs ys"

lemma goes_goto: "(\<And>m s. R m s \<Longrightarrow> R (u m) (g (fst s), snd s)) \<Longrightarrow> goes R (c_seq [u]) [goto g]"
  by (simp add: goes_def c_seq_def goto_def)

lemma goes_assign:
  assumes "same_session R cb env" "\<And>m s. R m s \<Longrightarrow> R (u m) (g (fst s), snd s)" "goes R (c_seq us) fs"
  shows "goes R (c_seq (c_set cb u v # us)) (assign env g v # fs)"
proof -
  have *: "R (c_changed cb v (u m)) (changed env v (g (fst s), snd s))" if "R m s" for m s
    using assms(1) assms(2) [OF that] by (simp add: same_session_def del: split_paired_All)
  show ?thesis
    using assms(3) [unfolded goes_def, rule_format, OF *]
    by (simp add: goes_def c_seq_def c_set_def assign_def del: split_paired_All)
qed

lemma follows_plain: "goes R f fs \<Longrightarrow> follows R (c_plain f) (block fs True)"
  by (simp add: goes_def follows_def c_plain_def)

lemma follows_action:
  assumes "same_session R cb env" "n = c_action_name a" "goes R f fs"
  shows "follows R (c_action cb a f) (block (act env n # fs) True)"
  unfolding follows_def
proof (intro allI impI)
  fix m s assume r: "R m s"
  have a: "R (snd (run_action cb a m)) (fst (act env n s))"
    "snd (act env n s) = (if fst (run_action cb a m) = 0 then None else Some (fst (run_action cb a m)))"
    using assms(1,2) r by (simp_all add: same_session_def del: split_paired_All)
  then show "R (snd (c_action cb a f m)) (fst (block (act env n # fs) True s)) \<and>
      fst (c_action cb a f m) = go_code (snd (block (act env n # fs) True s))"
    using assms(3) by (cases "run_action cb a m") (auto simp: c_action_def goes_def simp del: split_paired_All)
qed

lemma same_cases_Nil: "same_cases R [] []"
  by (simp add: same_cases_def)

lemma same_cases_Cons:
  "c = c' \<Longrightarrow> follows R b b' \<Longrightarrow> same_cases R xs ys \<Longrightarrow> same_cases R ((c, b) # xs) ((c', b') # ys)"
  by (simp add: same_cases_def)

lemma same_cases_append: "same_cases R xs ys \<Longrightarrow> same_cases R xs' ys' \<Longrightarrow> same_cases R (xs @ xs') (ys @ ys')"
  by (simp add: same_cases_def list_all2_appendI)

lemma same_switch:
  assumes "same_cases R xs ys" "R m s"
  shows "R (snd (gswitch xs (\<lambda>m. (0, m)) m)) (fst (gswitch ys (block [] False) s)) \<and>
    fst (gswitch xs (\<lambda>m. (0, m)) m) = go_code (snd (gswitch ys (block [] False) s))"
  using assms unfolding same_cases_def
proof (induction xs ys rule: list_all2_induct)
  case (Cons x xs y ys)
  then show ?case by (cases x; cases y) (auto simp: follows_def simp del: split_paired_All)
qed simp

lemma conj_same: "a = a' \<Longrightarrow> b = b' \<Longrightarrow> (a \<and> b) = (a' \<and> b')"
  by simp

lemma guard_same: "same_session R cb env \<Longrightarrow> R m s \<Longrightarrow> n = c_guard_name g \<Longrightarrow> c_guarded cb g m = guarded env n s"
  by (simp add: same_session_def del: split_paired_All)


lemma states_distinct:
  "c_backend_state x = c_backend_state y \<Longrightarrow> x = y" "c_client_state x' = c_client_state y' \<Longrightarrow> x' = y'"
  "c_relay_state x'' = c_relay_state y'' \<Longrightarrow> x'' = y''"
  subgoal by (cases x; cases y; simp)
  subgoal by (cases x'; cases y'; simp)
  subgoal by (cases x''; cases y''; simp)
  done

lemma state_same:
  "backend_corr m s \<Longrightarrow> n = c_backend_state c \<Longrightarrow> (cb_state m = c) = (sb_State (fst s) = n)"
  "client_corr m' s' \<Longrightarrow> n' = c_client_state c' \<Longrightarrow> (cc_state m' = c') = (sc_State (fst s') = n')"
  "relay_corr m'' s'' \<Longrightarrow> n'' = c_relay_state c'' \<Longrightarrow> (cr_state m'' = c'') = (sr_State (fst s'') = n'')"
  by (auto simp: backend_corr_def client_corr_def relay_corr_def dest: states_distinct)

lemma msg_same: "n = c_msg_name c \<Longrightarrow> (msg = c) = (c_msg_name msg = n)"
  by (cases msg; cases c; simp)


definition all_session_events :: "session_event_id list" where
  "all_session_events =
   [SESSION_EVENT_APP_SEND, SESSION_EVENT_APP_RECV, SESSION_EVENT_APP_SEND_DATAGRAM, SESSION_EVENT_APP_RECV_DATAGRAM,
    SESSION_EVENT_APP_CLOSE, SESSION_EVENT_APP_FORCE_FALLBACK, SESSION_EVENT_RELAY_STREAM_DATA, SESSION_EVENT_RELAY_STREAM_ERROR,
    SESSION_EVENT_RELAY_DATAGRAM, SESSION_EVENT_ALT_STREAM_DATA, SESSION_EVENT_ALT_STREAM_ERROR, SESSION_EVENT_ALT_DATAGRAM,
    SESSION_EVENT_DIAL_OK, SESSION_EVENT_DIAL_FAILED, SESSION_EVENT_PAIR_CHECK_OK, SESSION_EVENT_PING_TIMEOUT,
    SESSION_EVENT_PING_TICK, SESSION_EVENT_BACKOFF_EXPIRED, SESSION_EVENT_CANDIDATES_TIMEOUT, SESSION_EVENT_CLI_INIT_PAIR,
    SESSION_EVENT_TOKEN_CREATED, SESSION_EVENT_RELAY_REGISTERED, SESSION_EVENT_ECDH_COMPLETE, SESSION_EVENT_SIGNAL_CODE_DISPLAY,
    SESSION_EVENT_CLI_CODE_ENTERED, SESSION_EVENT_CHECK_CODE, SESSION_EVENT_FINALISE, SESSION_EVENT_VERIFY,
    SESSION_EVENT_SESSION_ESTABLISHED, SESSION_EVENT_CANDIDATES_GATHERED, SESSION_EVENT_CANDIDATES_CHANGED,
    SESSION_EVENT_CANDIDATES_REFRESH_TICK, SESSION_EVENT_DISCONNECT, SESSION_EVENT_BACKCHANNEL_RECEIVED,
    SESSION_EVENT_SECRET_PARSED, SESSION_EVENT_RELAY_CONNECTED, SESSION_EVENT_KEY_PAIR_GENERATED, SESSION_EVENT_CODE_DISPLAYED,
    SESSION_EVENT_APP_LAUNCH, SESSION_EVENT_VERIFY_TIMEOUT, SESSION_EVENT_ALT_ERROR, SESSION_EVENT_RELAY_OK,
    SESSION_EVENT_BACKEND_REGISTER, SESSION_EVENT_CLIENT_CONNECT, SESSION_EVENT_CLIENT_DISCONNECT,
    SESSION_EVENT_BACKEND_DISCONNECT, SESSION_EVENT_RECV_PAIR_HELLO, SESSION_EVENT_RECV_AUTH_REQUEST,
    SESSION_EVENT_RECV_PAIR_CHECK, SESSION_EVENT_RECV_PATH_PONG, SESSION_EVENT_RECV_PAIR_HELLO_ACK,
    SESSION_EVENT_RECV_PAIR_CONFIRM, SESSION_EVENT_RECV_PAIR_COMPLETE, SESSION_EVENT_RECV_AUTH_OK, SESSION_EVENT_RECV_CANDIDATES,
    SESSION_EVENT_RECV_PAIR_CHECK_ACK, SESSION_EVENT_RECV_PATH_PING]"

lemma events_listed: "e \<in> set all_session_events"
  by (cases e) (simp_all add: all_session_events_def)

lemma event_names_distinct: "distinct (map c_session_event all_session_events)"
  by (simp add: all_session_events_def)

lemma event_same: "n = c_session_event c \<Longrightarrow> (event = c) = (c_session_event event = n)"
  using event_names_distinct events_listed by (auto simp: distinct_map inj_on_def)

lemmas same_intros = same_cases_Cons same_cases_Nil conj_same follows_plain goes_goto

lemma backend_message_follows:
  assumes "same_session backend_corr cb env" "backend_corr m s"
  shows "backend_corr (snd (pigeon_backend_handle_message cb msg m)) (fst (SessionProtocolBackendMachine_HandleMessage env (c_msg_name msg) s)) \<and>
    fst (pigeon_backend_handle_message cb msg m) = go_code (snd (SessionProtocolBackendMachine_HandleMessage env (c_msg_name msg) s))"
  unfolding pigeon_backend_handle_message_def SessionProtocolBackendMachine_HandleMessage_def
  by (rule same_switch [where R = backend_corr, OF _ assms(2)])
     (intro same_intros msg_same state_same(1) [OF assms(2)] guard_same [OF assms] follows_action [OF assms(1)] goes_assign [OF assms(1)];
      simp add: backend_corr_def)

lemma backend_pairing_cases:
  assumes "same_session backend_corr cb env" "backend_corr m s"
  shows "same_cases backend_corr (pigeon_backend_step_pairing cb event m) (SessionProtocolBackendMachine_Step_pairing env (c_session_event event) s)"
  unfolding pigeon_backend_step_pairing_def SessionProtocolBackendMachine_Step_pairing_def
  by (intro same_intros event_same state_same(1) [OF assms(2)] guard_same [OF assms] follows_action [OF assms(1)] goes_assign [OF assms(1)];
      simp add: backend_corr_def)

lemma backend_path_cases:
  assumes "same_session backend_corr cb env" "backend_corr m s"
  shows "same_cases backend_corr (pigeon_backend_step_path cb event m) (SessionProtocolBackendMachine_Step_path env (c_session_event event) s)"
  unfolding pigeon_backend_step_path_def SessionProtocolBackendMachine_Step_path_def
  by (intro same_intros event_same state_same(1) [OF assms(2)] guard_same [OF assms] follows_action [OF assms(1)] goes_assign [OF assms(1)];
      simp add: backend_corr_def)

lemma backend_fallback_cases:
  assumes "same_session backend_corr cb env" "backend_corr m s"
  shows "same_cases backend_corr (pigeon_backend_step_fallback cb event m) (SessionProtocolBackendMachine_Step_fallback env (c_session_event event) s)"
  unfolding pigeon_backend_step_fallback_def SessionProtocolBackendMachine_Step_fallback_def
  by (intro same_intros event_same state_same(1) [OF assms(2)] guard_same [OF assms] follows_action [OF assms(1)] goes_assign [OF assms(1)];
      simp add: backend_corr_def)

lemma backend_traffic_cases:
  assumes "same_session backend_corr cb env" "backend_corr m s"
  shows "same_cases backend_corr (pigeon_backend_step_traffic cb event m) (SessionProtocolBackendMachine_Step_traffic env (c_session_event event) s)"
  unfolding pigeon_backend_step_traffic_def SessionProtocolBackendMachine_Step_traffic_def
  by (intro same_intros event_same state_same(1) [OF assms(2)] guard_same [OF assms] follows_action [OF assms(1)] goes_assign [OF assms(1)];
      simp add: backend_corr_def)

lemma backend_step_follows:
  assumes "same_session backend_corr cb env" "backend_corr m s"
  shows "backend_corr (snd (pigeon_backend_step cb event m)) (fst (SessionProtocolBackendMachine_Step env (c_session_event event) s)) \<and>
    fst (pigeon_backend_step cb event m) = go_code (snd (SessionProtocolBackendMachine_Step env (c_session_event event) s))"
  unfolding pigeon_backend_step_def SessionProtocolBackendMachine_Step_def
  by (rule same_switch [where R = backend_corr, OF _ assms(2)], intro same_cases_append)
     (rule backend_pairing_cases [OF assms] backend_path_cases [OF assms] backend_fallback_cases [OF assms] backend_traffic_cases [OF assms])+

lemma client_message_follows:
  assumes "same_session client_corr cb env" "client_corr m s"
  shows "client_corr (snd (pigeon_client_handle_message cb msg m)) (fst (SessionProtocolClientMachine_HandleMessage env (c_msg_name msg) s)) \<and>
    fst (pigeon_client_handle_message cb msg m) = go_code (snd (SessionProtocolClientMachine_HandleMessage env (c_msg_name msg) s))"
  unfolding pigeon_client_handle_message_def SessionProtocolClientMachine_HandleMessage_def
  by (rule same_switch [where R = client_corr, OF _ assms(2)])
     (intro same_intros msg_same state_same(2) [OF assms(2)] guard_same [OF assms] follows_action [OF assms(1)] goes_assign [OF assms(1)];
      simp add: client_corr_def)

lemma client_pairing_cases:
  assumes "same_session client_corr cb env" "client_corr m s"
  shows "same_cases client_corr (pigeon_client_step_pairing cb event m) (SessionProtocolClientMachine_Step_pairing env (c_session_event event) s)"
  unfolding pigeon_client_step_pairing_def SessionProtocolClientMachine_Step_pairing_def
  by (intro same_intros event_same state_same(2) [OF assms(2)] guard_same [OF assms] follows_action [OF assms(1)] goes_assign [OF assms(1)];
      simp add: client_corr_def)

lemma client_path_cases:
  assumes "same_session client_corr cb env" "client_corr m s"
  shows "same_cases client_corr (pigeon_client_step_path cb event m) (SessionProtocolClientMachine_Step_path env (c_session_event event) s)"
  unfolding pigeon_client_step_path_def SessionProtocolClientMachine_Step_path_def
  by (intro same_intros event_same state_same(2) [OF assms(2)] guard_same [OF assms] follows_action [OF assms(1)] goes_assign [OF assms(1)];
      simp add: client_corr_def)

lemma client_traffic_cases:
  assumes "same_session client_corr cb env" "client_corr m s"
  shows "same_cases client_corr (pigeon_client_step_traffic cb event m) (SessionProtocolClientMachine_Step_traffic env (c_session_event event) s)"
  unfolding pigeon_client_step_traffic_def SessionProtocolClientMachine_Step_traffic_def
  by (intro same_intros event_same state_same(2) [OF assms(2)] guard_same [OF assms] follows_action [OF assms(1)] goes_assign [OF assms(1)];
      simp add: client_corr_def)

lemma client_step_follows:
  assumes "same_session client_corr cb env" "client_corr m s"
  shows "client_corr (snd (pigeon_client_step cb event m)) (fst (SessionProtocolClientMachine_Step env (c_session_event event) s)) \<and>
    fst (pigeon_client_step cb event m) = go_code (snd (SessionProtocolClientMachine_Step env (c_session_event event) s))"
  unfolding pigeon_client_step_def SessionProtocolClientMachine_Step_def
  by (rule same_switch [where R = client_corr, OF _ assms(2)], intro same_cases_append)
     (rule client_pairing_cases [OF assms] client_path_cases [OF assms] client_traffic_cases [OF assms])+

lemma relay_message_follows:
  assumes "same_session relay_corr cb env" "relay_corr m s"
  shows "relay_corr (snd (pigeon_relay_handle_message cb msg m)) (fst (SessionProtocolRelayMachine_HandleMessage env (c_msg_name msg) s)) \<and>
    fst (pigeon_relay_handle_message cb msg m) = go_code (snd (SessionProtocolRelayMachine_HandleMessage env (c_msg_name msg) s))"
  unfolding pigeon_relay_handle_message_def SessionProtocolRelayMachine_HandleMessage_def
  by (rule same_switch [where R = relay_corr, OF _ assms(2)])
     (intro same_intros msg_same state_same(3) [OF assms(2)] guard_same [OF assms] follows_action [OF assms(1)] goes_assign [OF assms(1)];
      simp add: relay_corr_def)

lemma relay_step_follows:
  assumes "same_session relay_corr cb env" "relay_corr m s"
  shows "relay_corr (snd (pigeon_relay_step cb event m)) (fst (SessionProtocolRelayMachine_Step env (c_session_event event) s)) \<and>
    fst (pigeon_relay_step cb event m) = go_code (snd (SessionProtocolRelayMachine_Step env (c_session_event event) s))"
  unfolding pigeon_relay_step_def SessionProtocolRelayMachine_Step_def
  by (rule same_switch [where R = relay_corr, OF _ assms(2)])
     (intro same_intros event_same state_same(3) [OF assms(2)] guard_same [OF assms] follows_action [OF assms(1)] goes_assign [OF assms(1)];
      simp add: relay_corr_def)

lemma session_inits_agree:
  "backend_corr (pigeon_backend_machine_init u) (NewSessionProtocolBackendMachine, u)"
  "client_corr (pigeon_client_machine_init u) (NewSessionProtocolClientMachine, u)"
  "relay_corr (pigeon_relay_machine_init u) (NewSessionProtocolRelayMachine, u)"
  by (simp_all add: backend_corr_def client_corr_def relay_corr_def pigeon_backend_machine_init_def pigeon_client_machine_init_def
      pigeon_relay_machine_init_def NewSessionProtocolBackendMachine_def NewSessionProtocolClientMachine_def
      NewSessionProtocolRelayMachine_def)

text \<open>The outcome of a C call and of a Go call: corresponding machines, and the code for the Go result.\<close>

definition agrees :: "('c \<Rightarrow> 's \<Rightarrow> bool) \<Rightarrow> int \<times> 'c \<Rightarrow> 's \<times> (int + bool) \<Rightarrow> bool" where
  "agrees R c g \<longleftrightarrow> R (snd c) (fst g) \<and> fst c = go_code (snd g)"


text \<open>Callbacks for the witness: the device is known and every action fails with \<open>-1\<close>.\<close>

definition known_cb :: "'m session_callbacks" where
  "known_cb = \<lparr>c_actions = (\<lambda>a. Some (\<lambda>m. (- 1, m))), c_on_change = None,
     c_guards = (\<lambda>g. Some (\<lambda>m. g = SESSION_GUARD_DEVICE_KNOWN))\<rparr>"

definition known_env :: "('m, 'w, int) callbacks" where
  "known_env = \<lparr>Guards = (\<lambda>g. Some (\<lambda>s. g = ''device_known'')), Actions = (\<lambda>a. Some (\<lambda>s. (s, Some (- 1)))), OnChange = None\<rparr>"

lemma known_same: "same_session R known_cb known_env"
proof -
  have "(g = SESSION_GUARD_DEVICE_KNOWN) = (c_guard_name g = ''device_known'')" for g by (cases g) simp_all
  then show ?thesis
    by (simp add: same_session_def known_cb_def known_env_def run_action_def act_def c_changed_def changed_def c_guarded_def guarded_def)
qed


text \<open>So the backend whose verification action fails with \<open>-1\<close> reports a transition it has not taken.\<close>

lemma failed_verification_reads_as_success:
  "pigeon_backend_step known_cb SESSION_EVENT_VERIFY ((pigeon_backend_machine_init ())\<lparr>cb_state := BACKEND_AUTH_CHECK\<rparr>) =
   (1, (pigeon_backend_machine_init ())\<lparr>cb_state := BACKEND_AUTH_CHECK\<rparr>)"
  by (simp add: pigeon_backend_step_def pigeon_backend_step_pairing_def c_action_def run_action_def known_cb_def c_guarded_def)

end
