(* ===== verification/Activation.thy ===== *)
theory Activation
  imports CPairing CSession Varint
begin

text \<open>
  Session activation: the messages and the two drivers of \<open>c/src/activation.c\<close>, their Go entry points
  (\<open>cwire/connect.go\<close>, \<open>cwire/listener.go\<close>) and the callers \<open>Listener.activate\<close> and \<open>Connect\<close> of \<open>api.go\<close>
  up to the session material. The drivers run the C session machines of \<open>CSession\<close>. Pointer arguments are
  not null; keys and nonces are arrays of their length.
\<close>

section \<open>The messages\<close>

definition PIGEON_AUTH_MSG_TAG_AUTH_REQUEST :: byte where "PIGEON_AUTH_MSG_TAG_AUTH_REQUEST = 0x01"
definition PIGEON_AUTH_MSG_TAG_AUTH_OK :: byte where "PIGEON_AUTH_MSG_TAG_AUTH_OK = 0x02"
definition PIGEON_AUTH_OK_REJECTED :: byte where "PIGEON_AUTH_OK_REJECTED = 0x00"
definition PIGEON_AUTH_OK_ACCEPTED :: byte where "PIGEON_AUTH_OK_ACCEPTED = 0x01"
definition PIGEON_AUTH_MAX_DEVICE_ID :: nat where "PIGEON_AUTH_MAX_DEVICE_ID = 128"
definition PIGEON_AUTH_MAX_REASON :: nat where "PIGEON_AUTH_MAX_REASON = 256"
definition PIGEON_AUTH_NONCE_LEN :: nat where "PIGEON_AUTH_NONCE_LEN = 16"
definition PIGEON_AUTH_MAX_ROUTE :: nat where "PIGEON_AUTH_MAX_ROUTE = 128"
definition PIGEON_AUTH_MAX_PAYLOAD :: nat where "PIGEON_AUTH_MAX_PAYLOAD = 512"

lemmas auth_consts = PIGEON_AUTH_MSG_TAG_AUTH_REQUEST_def PIGEON_AUTH_MSG_TAG_AUTH_OK_def PIGEON_AUTH_OK_REJECTED_def
  PIGEON_AUTH_OK_ACCEPTED_def PIGEON_AUTH_MAX_DEVICE_ID_def PIGEON_AUTH_MAX_REASON_def PIGEON_AUTH_NONCE_LEN_def
  PIGEON_AUTH_MAX_ROUTE_def PIGEON_AUTH_MAX_PAYLOAD_def

text \<open>\<open>room\<close> is what is left of the buffer.\<close>

fun auth_uvarint_encode :: "u64 \<Rightarrow> nat \<Rightarrow> bytes option" where
  "auth_uvarint_encode v 0 = None"
| "auth_uvarint_encode v (Suc room) =
     (if 0x80 \<le> v then map_option (\<lambda>bs. (ucast v OR 0x80) # bs) (auth_uvarint_encode (drop_bit 7 v) room)
      else Some [ucast v])"

fun auth_uvarint_loop :: "nat \<Rightarrow> u64 \<Rightarrow> bytes \<Rightarrow> (u64 \<times> bytes) option" where
  "auth_uvarint_loop shift v [] = None"
| "auth_uvarint_loop shift v (b # bs) =
     (if 64 \<le> shift then None
      else
        let v' = v OR push_bit shift (ucast (b AND 0x7f)) in
        if b AND 0x80 = 0 then Some (v', bs) else auth_uvarint_loop (shift + 7) v' bs)"

text \<open>The value and the bytes after it.\<close>

definition auth_uvarint_decode :: "bytes \<Rightarrow> (u64 \<times> bytes) option" where
  "auth_uvarint_decode buf = auth_uvarint_loop 0 0 buf"

definition pigeon_encode_auth_request :: "string \<Rightarrow> bytes \<Rightarrow> string option \<Rightarrow> nat \<Rightarrow> bytes option" where
  "pigeon_encode_auth_request device_id nonce route buf_len =
     (if buf_len < 1 \<or> length device_id > PIGEON_AUTH_MAX_DEVICE_ID then None
      else
        case auth_uvarint_encode (of_nat (length device_id)) (buf_len - 1) of
          None \<Rightarrow> None
        | Some n \<Rightarrow>
            let head = PIGEON_AUTH_MSG_TAG_AUTH_REQUEST # n in
            if length head + length device_id > buf_len then None
            else if length head + length device_id + PIGEON_AUTH_NONCE_LEN > buf_len then None
            else
              let out = head @ bytes_of_string device_id @ take PIGEON_AUTH_NONCE_LEN nonce;
                  r = (case route of None \<Rightarrow> [] | Some s \<Rightarrow> bytes_of_string s)
              in
              if length r > PIGEON_AUTH_MAX_ROUTE then None
              else case auth_uvarint_encode (of_nat (length r)) (buf_len - length out) of
                  None \<Rightarrow> None
                | Some n' \<Rightarrow> if length out + length n' + length r > buf_len then None else Some (out @ n' @ r))"

text \<open>
  The caps are those of the output buffers; a route cap of 0 stands for no buffer. The ids are the bytes that were
  copied, which the callers read up to the first NUL.
\<close>

definition pigeon_decode_auth_request :: "bytes \<Rightarrow> nat \<Rightarrow> nat \<Rightarrow> (string \<times> bytes \<times> string) option" where
  "pigeon_decode_auth_request payload out_cap out_route_cap =
     (case payload of
        [] \<Rightarrow> None
      | tag # rest \<Rightarrow>
          if tag \<noteq> PIGEON_AUTH_MSG_TAG_AUTH_REQUEST then None
          else case auth_uvarint_decode rest of
              None \<Rightarrow> None
            | Some (id_len, rest1) \<Rightarrow>
                let n = unat id_len in
                if n > PIGEON_AUTH_MAX_DEVICE_ID then None
                else if n + PIGEON_AUTH_NONCE_LEN > length rest1 then None
                else if n + 1 > out_cap then None
                else case auth_uvarint_decode (drop (n + PIGEON_AUTH_NONCE_LEN) rest1) of
                    None \<Rightarrow> None
                  | Some (route_len, rest2) \<Rightarrow>
                      if unat route_len > PIGEON_AUTH_MAX_ROUTE then None
                      else if unat route_len \<noteq> length rest2 then None
                      else if 0 < out_route_cap \<and> unat route_len + 1 > out_route_cap then None
                      else Some (string_of_bytes (take n rest1), take PIGEON_AUTH_NONCE_LEN (drop n rest1),
                             if 0 < out_route_cap then string_of_bytes rest2 else []))"

definition pigeon_encode_auth_ok :: "bool \<Rightarrow> string option \<Rightarrow> nat \<Rightarrow> bytes option" where
  "pigeon_encode_auth_ok accept reason buf_len =
     (if buf_len < 2 then None
      else if accept then Some [PIGEON_AUTH_MSG_TAG_AUTH_OK, PIGEON_AUTH_OK_ACCEPTED]
      else
        let r = (case reason of None \<Rightarrow> [] | Some s \<Rightarrow> bytes_of_string s) in
        if length r > PIGEON_AUTH_MAX_REASON then None
        else case auth_uvarint_encode (of_nat (length r)) (buf_len - 2) of
            None \<Rightarrow> None
          | Some n \<Rightarrow>
              if 2 + length n + length r > buf_len then None
              else Some ([PIGEON_AUTH_MSG_TAG_AUTH_OK, PIGEON_AUTH_OK_REJECTED] @ n @ r))"

definition pigeon_decode_auth_ok :: "bytes \<Rightarrow> nat \<Rightarrow> (bool \<times> string) option" where
  "pigeon_decode_auth_ok payload out_reason_cap =
     (case payload of
        tag # flag # rest \<Rightarrow>
          if tag \<noteq> PIGEON_AUTH_MSG_TAG_AUTH_OK then None
          else if flag = PIGEON_AUTH_OK_ACCEPTED then Some (True, [])
          else if flag = PIGEON_AUTH_OK_REJECTED then
            (case auth_uvarint_decode rest of
               None \<Rightarrow> None
             | Some (r_len, rest1) \<Rightarrow>
                 if unat r_len > PIGEON_AUTH_MAX_REASON then None
                 else if unat r_len \<noteq> length rest1 then None
                 else Some (False, if 0 < out_reason_cap then string_of_bytes (take (out_reason_cap - 1) rest1) else []))
          else None
      | _ \<Rightarrow> None)"

section \<open>The codec\<close>

lemma auth_encode_eq:
  "auth_uvarint_encode v room = (if length (put_uvarint v) \<le> room then Some (put_uvarint v) else None)"
proof (induction v room rule: auth_uvarint_encode.induct)
  case (1 v)
  then show ?case by simp
next
  case (2 v room)
  show ?case
  proof (cases "0x80 \<le> v")
    case True
    then show ?thesis using "2.IH" by (simp add: put_uvarint.simps [of v])
  next
    case False
    then show ?thesis by (simp add: put_uvarint.simps [of v])
  qed
qed

text \<open>The C loop reads what Go's does, except that it does not look at the overflow of a tenth byte.\<close>

lemma byte_high: "b AND 0x80 = 0 \<longleftrightarrow> b < (0x80 :: byte)"
proof -
  have "bit b 7 \<longleftrightarrow> bit (unat b) 7" by (simp add: bit_unsigned_iff)
  then have "bit b 7 \<longleftrightarrow> odd (unat b div 128)" by (simp add: bit_iff_odd)
  moreover have "unat b < 256" using unsigned_less [of b] by simp
  ultimately have "bit b 7 \<longleftrightarrow> 128 \<le> unat b" by presburger
  then show ?thesis using and_exp_eq_0_iff_not_bit [of b 7] by (simp add: word_less_nat_alt) linarith
qed

lemma byte_low: "b < 0x80 \<Longrightarrow> b AND 0x7f = (b :: byte)"
proof -
  assume "b < 0x80"
  then have "unat b < 2 ^ 7" by (simp add: word_less_nat_alt)
  then have "take_bit 7 b = b" by (simp add: word_unat_eq_iff unsigned_take_bit_eq take_bit_nat_eq_self)
  then show ?thesis by (simp add: take_bit_eq_mask mask_eq_exp_minus_1)
qed

lemma auth_loop_reads:
  "uvarint_loop i x bs = (y, k) \<Longrightarrow> 0 < k \<Longrightarrow> i \<le> 10 \<Longrightarrow>
   auth_uvarint_loop (7 * i) x bs = Some (y, drop (nat k - i) bs) \<and> i < nat k"
proof (induction i x bs rule: uvarint_loop.induct)
  case (1 i x)
  then show ?case by simp
next
  case (2 i x b bs)
  have i: "i < 10" using "2.prems" by (cases "i = 10") auto
  show ?case
  proof (cases "b < 0x80")
    case True
    then show ?thesis using i "2.prems" by (auto simp: byte_high byte_low nat_add_distrib split: if_split_asm)
  next
    case False
    then have "uvarint_loop (i + 1) (x OR push_bit (7 * i) (ucast (b AND 0x7f))) bs = (y, k)" using i "2.prems"(1) by simp
    from "2.IH" [OF _ False this "2.prems"(2)] i
    have r: "auth_uvarint_loop (7 * i + 7) (x OR push_bit (7 * i) (ucast (b AND 0x7f))) bs = Some (y, drop (nat k - Suc i) bs)"
      "Suc i < nat k" by (simp_all add: add.commute)
    then have "nat k - i = Suc (nat k - Suc i)" by simp
    with r i False show ?thesis by (simp add: byte_high Let_def)
  qed
qed

lemma auth_decode_put [simp]: "auth_uvarint_decode (put_uvarint v @ rest) = Some (v, rest)"
  using auth_loop_reads [of 0 0 "put_uvarint v @ rest" v "int (length (put_uvarint v))"] uvarint_put_uvarint [of v rest]
  by (simp add: uvarint_def auth_uvarint_decode_def)

lemmas auth_decode_all [simp] = auth_decode_put [of _ "[]", unfolded append_Nil2]

lemma tenth_byte_overflow_accepted:
  "auth_uvarint_decode (replicate 9 0xff @ [0x7f]) = Some (0xFFFFFFFFFFFFFFFF, []) \<and> snd (uvarint (replicate 9 0xff @ [0x7f])) < 0"
  by code_simp

text \<open>An id or route that fits its cap is read back as it was written.\<close>

lemma short_length: "n \<le> 256 \<Longrightarrow> unat (of_nat n :: u64) = n"
  by (simp add: unat_of_nat)

lemma string_of_bytes_parts [simp]: "string_of_bytes [] = []" "string_of_bytes (take n bs) = take n (string_of_bytes bs)"
  by (simp_all add: string_of_bytes_def take_map)

lemma auth_request_read:
  assumes "pigeon_encode_auth_request device_id nonce route buf_len = Some m" "length nonce = PIGEON_AUTH_NONCE_LEN"
    "PIGEON_AUTH_MAX_DEVICE_ID < out_cap" "PIGEON_AUTH_MAX_ROUTE < out_route_cap"
  shows "pigeon_decode_auth_request m out_cap out_route_cap = Some (device_id, nonce, case route of None \<Rightarrow> [] | Some s \<Rightarrow> s) \<and>
    length m \<le> buf_len"
  using assms
  by (auto simp: pigeon_encode_auth_request_def pigeon_decode_auth_request_def auth_encode_eq short_length Let_def auth_consts
      split: if_split_asm option.split_asm option.split)

lemma auth_request_fits:
  assumes "length device_id \<le> PIGEON_AUTH_MAX_DEVICE_ID" "length route \<le> PIGEON_AUTH_MAX_ROUTE"
    "length nonce = PIGEON_AUTH_NONCE_LEN"
  shows "\<exists>m. pigeon_encode_auth_request device_id nonce (Some route) PIGEON_AUTH_MAX_PAYLOAD = Some m"
proof -
  have "length (put_uvarint (of_nat n)) \<le> 2" if "n \<le> 128" for n
    by (rule length_put_uvarint_le) (use that in \<open>simp_all add: short_length\<close>)
  from this [of "length device_id"] this [of "length route"] show ?thesis
    using assms by (simp add: pigeon_encode_auth_request_def auth_encode_eq auth_consts Let_def)
qed

lemma auth_ok_read:
  assumes "pigeon_encode_auth_ok accept reason buf_len = Some m"
  shows "pigeon_decode_auth_ok m out_reason_cap =
      Some (accept, if accept \<or> out_reason_cap = 0 then [] else take (out_reason_cap - 1) (case reason of None \<Rightarrow> [] | Some s \<Rightarrow> s)) \<and>
    length m \<le> buf_len"
  using assms
  by (auto simp: pigeon_encode_auth_ok_def pigeon_decode_auth_ok_def auth_encode_eq short_length Let_def auth_consts
      split: if_split_asm option.split_asm option.split)

section \<open>The drivers\<close>

text \<open>What \<open>pigeon_run_backend_activation\<close> returns, with its output buffers.\<close>

record backend_outcome =
  rv :: int
  out_device_id :: string
  out_record :: pigeon_pairing_record
  out_nonce :: bytes
  out_route :: string

text \<open>The guards read the flag that the driver passes as user data; no action is set.\<close>

definition backend_device_known :: "bool pigeon_backend_machine \<Rightarrow> bool" where
  "backend_device_known m = cb_userdata m"

definition backend_device_unknown :: "bool pigeon_backend_machine \<Rightarrow> bool" where
  "backend_device_unknown m = (\<not> cb_userdata m)"

definition auth_callbacks :: "bool pigeon_backend_machine session_callbacks" where
  "auth_callbacks = \<lparr>c_actions = (\<lambda>_. None), c_on_change = None,
     c_guards = (\<lambda>_. None)(SESSION_GUARD_DEVICE_KNOWN \<mapsto> backend_device_known, SESSION_GUARD_DEVICE_UNKNOWN \<mapsto> backend_device_unknown)\<rparr>"

definition client_callbacks :: "unit pigeon_client_machine session_callbacks" where
  "client_callbacks = \<lparr>c_actions = (\<lambda>_. None), c_on_change = None, c_guards = (\<lambda>_. None)\<rparr>"

text \<open>
  The transport of the Go binding refuses a message that is longer than the buffer. The resolver gives
  the record it writes, or nothing when it refuses the id.
\<close>

definition auth_recv :: "(bytes option \<Rightarrow> (bytes, 'r) process) \<Rightarrow> (bytes, 'r) process" where
  "auth_recv k = process.Recv (\<lambda>r. k (case r of None \<Rightarrow> None | Some m \<Rightarrow> if length m > PIGEON_AUTH_MAX_PAYLOAD then None else Some m))"

definition pigeon_run_backend_activation ::
  "(string \<Rightarrow> pigeon_pairing_record option) \<Rightarrow> nat \<Rightarrow> nat \<Rightarrow> backend_outcome \<Rightarrow> (bytes, backend_outcome) process" where
  "pigeon_run_backend_activation resolve out_device_id_cap out_route_cap out =
     (let o0 = out\<lparr>rv := -1, out_device_id := (if out_device_id_cap > 0 then [] else out_device_id out),
                 out_route := (if out_route_cap > 0 then [] else out_route out)\<rparr>
      in auth_recv (\<lambda>r.
        case r of
          None \<Rightarrow> Done o0
        | Some buf \<Rightarrow>
            (case pigeon_decode_auth_request buf (PIGEON_AUTH_MAX_DEVICE_ID + 1) (PIGEON_AUTH_MAX_ROUTE + 1) of
               None \<Rightarrow> Done o0
             | Some (id_buf, nonce_buf, route_buf) \<Rightarrow>
                 let device_id = cstr id_buf; route = cstr route_buf in
                 if out_route_cap > 0 \<and> length route + 1 > out_route_cap then Done o0
                 else
                   let o1 = (if out_route_cap > 0 then o0\<lparr>out_route := route\<rparr> else o0) in
                   if length device_id + 1 > out_device_id_cap then Done o1
                   else
                     let o2 = o1\<lparr>out_device_id := device_id\<rparr>;
                         known = (resolve device_id \<noteq> None);
                         o3 = (case resolve device_id of None \<Rightarrow> o2 | Some rec \<Rightarrow> o2\<lparr>out_record := rec\<rparr>);
                         m0 = (pigeon_backend_machine_init known)\<lparr>cb_state := BACKEND_PAIRED, cb_received_device_id := device_id\<rparr>;
                         (r1, m1) = pigeon_backend_handle_message auth_callbacks SESSION_MSG_AUTH_REQUEST m0
                     in
                     if r1 \<le> 0 \<or> cb_state m1 \<noteq> BACKEND_AUTH_CHECK then Done o3
                     else
                       let (r2, m2) = pigeon_backend_step auth_callbacks SESSION_EVENT_VERIFY m1 in
                       if r2 \<le> 0 then Done o3
                       else if \<not> known then
                         (case pigeon_encode_auth_ok False (Some ''unknown client'') PIGEON_AUTH_MAX_PAYLOAD of
                            Some reply \<Rightarrow> process.Send reply (\<lambda>_. Done (o3\<lparr>rv := 1\<rparr>))
                          | None \<Rightarrow> Done (o3\<lparr>rv := 1\<rparr>))
                       else
                         (case pigeon_encode_auth_ok True None PIGEON_AUTH_MAX_PAYLOAD of
                            None \<Rightarrow> Done o3
                          | Some reply \<Rightarrow> process.Send reply (\<lambda>sent.
                              if \<not> sent \<or> cb_state m2 \<noteq> BACKEND_SESSION_ACTIVE then Done o3
                              else Done (o3\<lparr>rv := 0, out_nonce := nonce_buf\<rparr>))))))"

text \<open>
  The nonce is what \<open>pigeon_random_bytes\<close> gives. The result is the nonce when the driver returns 0, with the
  reason of a rejection.
\<close>

definition pigeon_run_client_activation ::
  "bytes \<Rightarrow> string \<Rightarrow> string option \<Rightarrow> nat \<Rightarrow> (bytes, bytes option \<times> string) process" where
  "pigeon_run_client_activation nonce_buf device_id route out_reason_cap =
     (let (r1, m1) = pigeon_client_step client_callbacks SESSION_EVENT_RELAY_CONNECTED
                       ((pigeon_client_machine_init ())\<lparr>cc_state := CLIENT_RECONNECT\<rparr>)
      in
      if r1 \<le> 0 \<or> cc_state m1 \<noteq> CLIENT_SEND_AUTH then Done (None, [])
      else case pigeon_encode_auth_request device_id nonce_buf route PIGEON_AUTH_MAX_PAYLOAD of
          None \<Rightarrow> Done (None, [])
        | Some msg \<Rightarrow> process.Send msg (\<lambda>sent.
            if \<not> sent then Done (None, [])
            else auth_recv (\<lambda>r.
              case r of
                None \<Rightarrow> Done (None, [])
              | Some reply \<Rightarrow>
                  (case pigeon_decode_auth_ok reply out_reason_cap of
                     None \<Rightarrow> Done (None, [])
                   | Some (accepted, reason) \<Rightarrow>
                       if \<not> accepted then Done (None, reason)
                       else
                         let (r2, m2) = pigeon_client_handle_message client_callbacks SESSION_MSG_AUTH_OK m1 in
                         if r2 \<le> 0 \<or> cc_state m2 \<noteq> CLIENT_SESSION_ACTIVE then Done (None, reason)
                         else Done (Some nonce_buf, reason)))))"

section \<open>The Go entry points\<close>

text \<open>\<open>Ref\<close> and \<open>Stream\<close> tell whether the argument is set.\<close>

datatype activation_error = ActNilArgs | ActNilRef | ActNilStream | NoResolveFn | ReadHeader | EmptyDeviceID | ActivationFailed

record RunBackendActivationArgs =
  ActRef :: bool
  ActStream :: bool
  SkipPrimaryHeader :: bool
  ResolveFn :: "(string \<Rightarrow> cwire_PairingRecord option) option"

record BackendActivationResult =
  DeviceID :: string
  Accepted :: bool
  ActRecord :: "cwire_PairingRecord option"
  Nonce :: bytes
  ActRoute :: string

definition cwireGoResolve :: "(string \<Rightarrow> cwire_PairingRecord option) \<Rightarrow> string \<Rightarrow> pigeon_pairing_record option" where
  "cwireGoResolve fn deviceID =
     (case fn deviceID of
        None \<Rightarrow> None
      | Some rec \<Rightarrow>
          let key = (\<lambda>k. if length k = 32 then k else replicate 32 0) in
          Some \<lparr>peer_instance_id = take 63 (cPeerInstanceID rec), relay_url = [], local_private_key = key (LocalPrivKey rec),
            local_public_key = key (LocalPubKey rec), peer_public_key = key (PeerPubKey rec)\<rparr>)"

text \<open>The zeroed output variables, and the result for the value the driver returns.\<close>

definition zero_outcome :: backend_outcome where
  "zero_outcome = \<lparr>rv = 0, out_device_id = [], out_record = \<lparr>peer_instance_id = [], relay_url = [], local_private_key = replicate 32 0,
     local_public_key = replicate 32 0, peer_public_key = replicate 32 0\<rparr>, out_nonce = replicate nonceLen 0, out_route = []\<rparr>"

definition backend_result :: "backend_outcome \<Rightarrow> activation_error + BackendActivationResult" where
  "backend_result out =
     (if rv out = 0 then Inr \<lparr>DeviceID = cstr (out_device_id out), Accepted = True, ActRecord = Some (recordFromC (out_record out)),
                            Nonce = out_nonce out, ActRoute = cstr (out_route out)\<rparr>
      else if rv out = 1 then Inr \<lparr>DeviceID = cstr (out_device_id out), Accepted = False, ActRecord = None, Nonce = [], ActRoute = []\<rparr>
      else Inl ActivationFailed)"

definition RunBackendActivation ::
  "RunBackendActivationArgs option \<Rightarrow> (bytes, activation_error + BackendActivationResult) process" where
  "RunBackendActivation args =
     (case args of
        None \<Rightarrow> Done (Inl ActNilArgs)
      | Some a \<Rightarrow>
          if \<not> ActRef a then Done (Inl ActNilRef)
          else if \<not> ActStream a then Done (Inl ActNilStream)
          else case ResolveFn a of
              None \<Rightarrow> Done (Inl NoResolveFn)
            | Some fn \<Rightarrow>
                let drive = map_process backend_result (pigeon_run_backend_activation (cwireGoResolve fn) 129
                              (PIGEON_AUTH_MAX_ROUTE + 1) zero_outcome)
                in if SkipPrimaryHeader a
                   then process.Recv (\<lambda>h. case h of None \<Rightarrow> Done (Inl ReadHeader) | Some _ \<Rightarrow> drive)
                   else drive)"

definition RunClientActivation :: "bytes \<Rightarrow> bool \<Rightarrow> bool \<Rightarrow> string \<Rightarrow> string \<Rightarrow> (bytes, activation_error + bytes) process" where
  "RunClientActivation nonce_buf ref handle deviceID route =
     (if \<not> ref then Done (Inl ActNilRef)
      else if \<not> handle then Done (Inl ActNilStream)
      else if deviceID = [] then Done (Inl EmptyDeviceID)
      else map_process (\<lambda>(r, _). case r of None \<Rightarrow> Inl ActivationFailed | Some nonce \<Rightarrow> Inr nonce)
             (pigeon_run_client_activation nonce_buf (cstr deviceID) (Some (cstr route)) 0))"

section \<open>Listener.activate and Connect\<close>

definition pairingRecordToCwire :: "PairingRecord \<Rightarrow> cwire_PairingRecord" where
  "pairingRecordToCwire r = \<lparr>cPeerInstanceID = PeerInstanceID r, LocalPrivKey = LocalPrivateKey r,
     LocalPubKey = LocalPublicKey r, PeerPubKey = PeerPublicKey r\<rparr>"

text \<open>The record that the pairing ceremony delivers to the application.\<close>

definition ceremony_record :: "string \<Rightarrow> cwire_PairingRecord \<Rightarrow> PairingRecord" where
  "ceremony_record relayURL rec = \<lparr>PeerInstanceID = cPeerInstanceID rec, RelayURL = relayURL,
     LocalPrivateKey = LocalPrivKey rec, LocalPublicKey = LocalPubKey rec, PeerPublicKey = PeerPubKey rec\<rparr>"

text \<open>
  The part of a session that activation decides: its key material, the id of the peer and the route. \<open>Pairing\<close> is
  the application's lookup, which gives nothing on an error. It is called once, with the id that
  \<open>RunBackendActivation\<close> returns, so the captured record is the one of that id.
\<close>

datatype opening_error =
    ArgsNil | InstanceIDRequired | RelayRequired | IdentityRequired | BadDatagrams | DialFailed | ReadyFailed
  | AwaitClient | Activation activation_error | Rejected string | NoRecordCaptured | DeriveMaterial cwire_error

record opened_session =
  op_material :: "SessionMaterial option"
  op_peer :: string
  op_route :: string

definition activate ::
  "hmac \<Rightarrow> ecdh \<Rightarrow> (string \<Rightarrow> PairingRecord option) option \<Rightarrow> (bytes, opening_error + opened_session) process" where
  "activate hmac scalarmult Pairing =
     (case Pairing of
        None \<Rightarrow> process.Recv (\<lambda>r. case r of
            None \<Rightarrow> Done (Inl AwaitClient)
          | Some _ \<Rightarrow> Done (Inr \<lparr>op_material = None, op_peer = [], op_route = []\<rparr>))
      | Some lookup \<Rightarrow>
          map_process (\<lambda>res.
            case res of
              Inl e \<Rightarrow> Inl (Activation e)
            | Inr result \<Rightarrow>
                if \<not> Accepted result then Inl (Rejected (DeviceID result))
                else case lookup (DeviceID result) of
                    None \<Rightarrow> Inl NoRecordCaptured
                  | Some rec \<Rightarrow>
                      (case DeriveSessionMaterial hmac scalarmult (pairingRecordToCwire rec) True (Nonce result) of
                         Inl e \<Rightarrow> Inl (DeriveMaterial e)
                       | Inr mat \<Rightarrow> Inr \<lparr>op_material = Some mat, op_peer = DeviceID result, op_route = ActRoute result\<rparr>))
            (RunBackendActivation (Some \<lparr>ActRef = True, ActStream = True, SkipPrimaryHeader = False,
               ResolveFn = Some (\<lambda>deviceID. map_option pairingRecordToCwire (lookup deviceID))\<rparr>)))"

definition validateDatagrams :: "(string \<times> u64) list \<Rightarrow> bool" where
  "validateDatagrams m = (0 \<notin> snd ` set m \<and> distinct (map snd m))"

record ConnectArgs =
  ConnInstanceID :: string
  ConnRelay :: string
  ConnRecord :: "PairingRecord option"
  ConnIdentity :: "string option"
  ConnRoute :: string
  ConnDatagrams :: "(string \<times> u64) list"

text \<open>\<open>Identity\<close> is represented by its instance id; \<open>dialled\<close> is the outcome of \<open>dialInitiator\<close>.\<close>

definition Connect ::
  "hmac \<Rightarrow> ecdh \<Rightarrow> bool \<Rightarrow> bytes \<Rightarrow> ConnectArgs option \<Rightarrow> (bytes, opening_error + opened_session) process" where
  "Connect hmac scalarmult dialled nonce_buf args =
     (case args of
        None \<Rightarrow> Done (Inl ArgsNil)
      | Some a \<Rightarrow>
          if ConnInstanceID a = [] then Done (Inl InstanceIDRequired)
          else if ConnRelay a = [] then Done (Inl RelayRequired)
          else if ConnRecord a \<noteq> None \<and> ConnIdentity a = None then Done (Inl IdentityRequired)
          else if \<not> validateDatagrams (ConnDatagrams a) then Done (Inl BadDatagrams)
          else if \<not> dialled then Done (Inl DialFailed)
          else
            let session = (\<lambda>mat. \<lparr>op_material = mat, op_peer = ConnInstanceID a, op_route = ConnRoute a\<rparr>) in
            case (ConnRecord a, ConnIdentity a) of
              (Some rec, Some identity) \<Rightarrow>
                map_process (\<lambda>res.
                  case res of
                    Inl e \<Rightarrow> Inl (Activation e)
                  | Inr sessionNonce \<Rightarrow>
                      (case DeriveSessionMaterial hmac scalarmult (pairingRecordToCwire rec) False sessionNonce of
                         Inl e \<Rightarrow> Inl (DeriveMaterial e)
                       | Inr mat \<Rightarrow> Inr (session (Some mat))))
                  (RunClientActivation nonce_buf True True identity (ConnRoute a))
            | _ \<Rightarrow> process.Send [] (\<lambda>sent. if sent then Done (Inr (session None)) else Done (Inl ReadyFailed)))"

section \<open>Activation without its machines\<close>

lemmas session_machine_simps = c_plain_def c_seq_def c_set_def c_changed_def c_action_def run_action_def c_guarded_def

lemma backend_auth_request:
  "pigeon_backend_handle_message auth_callbacks SESSION_MSG_AUTH_REQUEST
     ((pigeon_backend_machine_init known)\<lparr>cb_state := BACKEND_PAIRED, cb_received_device_id := d\<rparr>) =
   (1, (pigeon_backend_machine_init known)\<lparr>cb_state := BACKEND_AUTH_CHECK, cb_received_device_id := d\<rparr>)"
  by (simp add: pigeon_backend_handle_message_def session_machine_simps auth_callbacks_def pigeon_backend_machine_init_def)

lemma backend_verify:
  "pigeon_backend_step auth_callbacks SESSION_EVENT_VERIFY
     ((pigeon_backend_machine_init known)\<lparr>cb_state := BACKEND_AUTH_CHECK, cb_received_device_id := d\<rparr>) =
   (1, (pigeon_backend_machine_init known)\<lparr>cb_state := (if known then BACKEND_SESSION_ACTIVE else BACKEND_IDLE), cb_received_device_id := d\<rparr>)"
  by (simp add: pigeon_backend_step_def pigeon_backend_step_pairing_def session_machine_simps auth_callbacks_def
      backend_device_known_def backend_device_unknown_def pigeon_backend_machine_init_def)

lemma client_relay_connected:
  "pigeon_client_step client_callbacks SESSION_EVENT_RELAY_CONNECTED ((pigeon_client_machine_init ())\<lparr>cc_state := CLIENT_RECONNECT\<rparr>) =
   (1, (pigeon_client_machine_init ())\<lparr>cc_state := CLIENT_SEND_AUTH\<rparr>)"
  by (simp add: pigeon_client_step_def pigeon_client_step_pairing_def session_machine_simps client_callbacks_def)

lemma client_auth_ok:
  "pigeon_client_handle_message client_callbacks SESSION_MSG_AUTH_OK ((pigeon_client_machine_init ())\<lparr>cc_state := CLIENT_SEND_AUTH\<rparr>) =
   (1, (pigeon_client_machine_init ())\<lparr>cc_state := CLIENT_SESSION_ACTIVE\<rparr>)"
  by (simp add: pigeon_client_handle_message_def session_machine_simps client_callbacks_def)

definition accept_reply :: bytes where
  "accept_reply = [PIGEON_AUTH_MSG_TAG_AUTH_OK, PIGEON_AUTH_OK_ACCEPTED]"

definition reject_reply :: bytes where
  "reject_reply = [PIGEON_AUTH_MSG_TAG_AUTH_OK, PIGEON_AUTH_OK_REJECTED, 14] @ bytes_of_string ''unknown client''"

lemma encode_replies:
  "pigeon_encode_auth_ok True None PIGEON_AUTH_MAX_PAYLOAD = Some accept_reply"
  "pigeon_encode_auth_ok False (Some ''unknown client'') PIGEON_AUTH_MAX_PAYLOAD = Some reject_reply"
  by (simp_all add: pigeon_encode_auth_ok_def auth_consts accept_reply_def reject_reply_def auth_encode_eq put_uvarint.simps Let_def)

lemma decode_bounds:
  assumes "pigeon_decode_auth_request buf c c' = Some (i, n, r)"
  shows "length i \<le> 128" "length n = PIGEON_AUTH_NONCE_LEN" "length r \<le> 128"
  using assms by (auto simp: pigeon_decode_auth_request_def auth_consts Let_def string_of_bytes_def split: list.split_asm option.split_asm if_split_asm)

lemma cstr_short: "length s \<le> n \<Longrightarrow> length (cstr s) \<le> n"
  unfolding cstr_def using length_takeWhile_le le_trans by blast

lemma cstr_cstr [simp]: "cstr (cstr s) = cstr s"
  unfolding cstr_def by simp

lemma backend_driver:
  "pigeon_run_backend_activation resolve 129 (PIGEON_AUTH_MAX_ROUTE + 1) zero_outcome = auth_recv (\<lambda>r.
     case Option.bind r (\<lambda>buf. pigeon_decode_auth_request buf (PIGEON_AUTH_MAX_DEVICE_ID + 1) (PIGEON_AUTH_MAX_ROUTE + 1)) of
       None \<Rightarrow> Done (zero_outcome\<lparr>rv := -1\<rparr>)
     | Some (i, n, ro) \<Rightarrow>
         let out = zero_outcome\<lparr>out_device_id := cstr i, out_route := cstr ro\<rparr> in
         case resolve (cstr i) of
           None \<Rightarrow> process.Send reject_reply (\<lambda>_. Done (out\<lparr>rv := 1\<rparr>))
         | Some rec \<Rightarrow> process.Send accept_reply (\<lambda>sent.
             Done (if sent then out\<lparr>rv := 0, out_record := rec, out_nonce := n\<rparr> else out\<lparr>rv := -1, out_record := rec\<rparr>)))"
  unfolding pigeon_run_backend_activation_def Let_def
proof (rule arg_cong [where f = auth_recv], rule ext, goal_cases)
  case (1 r)
  consider "r = None" | buf where "r = Some buf" "pigeon_decode_auth_request buf (PIGEON_AUTH_MAX_DEVICE_ID + 1) (PIGEON_AUTH_MAX_ROUTE + 1) = None"
    | buf i n ro where "r = Some buf" "pigeon_decode_auth_request buf (PIGEON_AUTH_MAX_DEVICE_ID + 1) (PIGEON_AUTH_MAX_ROUTE + 1) = Some (i, n, ro)"
    by (metis option.exhaust prod_cases3)
  then show ?case
  proof cases
    case 3
    then have "length (cstr i) \<le> 128" "length (cstr ro) \<le> 128" using decode_bounds cstr_short by blast+
    then show ?thesis
      using 3 by (simp add: backend_auth_request backend_verify encode_replies zero_outcome_def PIGEON_AUTH_MAX_ROUTE_def
          fun_eq_iff split: option.split)
  qed (simp_all add: zero_outcome_def PIGEON_AUTH_MAX_ROUTE_def)
qed

lemma map_auth_recv: "map_process f (auth_recv k) = auth_recv (\<lambda>r. map_process f (k r))"
  by (simp add: auth_recv_def comp_def)

lemma activate_eq:
  "activate hmac scalarmult (Some lookup) = auth_recv (\<lambda>r.
     case Option.bind r (\<lambda>buf. pigeon_decode_auth_request buf (PIGEON_AUTH_MAX_DEVICE_ID + 1) (PIGEON_AUTH_MAX_ROUTE + 1)) of
       None \<Rightarrow> Done (Inl (Activation ActivationFailed))
     | Some (i, n, ro) \<Rightarrow>
         (case lookup (cstr i) of
            None \<Rightarrow> process.Send reject_reply (\<lambda>_. Done (Inl (Rejected (cstr i))))
          | Some rec \<Rightarrow> process.Send accept_reply (\<lambda>sent.
              Done (if \<not> sent then Inl (Activation ActivationFailed)
                else case DeriveSessionMaterial hmac scalarmult (pairingRecordToCwire rec) True n of
                    Inl e \<Rightarrow> Inl (DeriveMaterial e)
                  | Inr mat \<Rightarrow> Inr \<lparr>op_material = Some mat, op_peer = cstr i, op_route = cstr ro\<rparr>))))"
  unfolding activate_def RunBackendActivation_def
  by (simp add: backend_driver map_auth_recv del: One_nat_def)
     (rule arg_cong [where f = auth_recv], auto simp: fun_eq_iff backend_result_def zero_outcome_def cwireGoResolve_def
       Let_def comp_def split: option.split prod.split sum.split)

definition connect_ready :: "ConnectArgs \<Rightarrow> bool" where
  "connect_ready a = (ConnInstanceID a \<noteq> [] \<and> ConnRelay a \<noteq> [] \<and> validateDatagrams (ConnDatagrams a))"

lemma Connect_eq:
  assumes "connect_ready a" "ConnRecord a = Some rec" "ConnIdentity a = Some identity" "identity \<noteq> []"
  shows "Connect hmac scalarmult True nonce (Some a) =
    (case pigeon_encode_auth_request (cstr identity) nonce (Some (cstr (ConnRoute a))) PIGEON_AUTH_MAX_PAYLOAD of
       None \<Rightarrow> Done (Inl (Activation ActivationFailed))
     | Some msg \<Rightarrow> process.Send msg (\<lambda>sent.
         if \<not> sent then Done (Inl (Activation ActivationFailed))
         else auth_recv (\<lambda>r.
           case Option.bind r (\<lambda>reply. pigeon_decode_auth_ok reply 0) of
             Some (True, _) \<Rightarrow>
               Done (case DeriveSessionMaterial hmac scalarmult (pairingRecordToCwire rec) False nonce of
                   Inl e \<Rightarrow> Inl (DeriveMaterial e)
                 | Inr mat \<Rightarrow> Inr \<lparr>op_material = Some mat, op_peer = ConnInstanceID a, op_route = ConnRoute a\<rparr>)
           | _ \<Rightarrow> Done (Inl (Activation ActivationFailed)))))"
  using assms unfolding Connect_def RunClientActivation_def pigeon_run_client_activation_def
  by (auto simp: client_relay_connected client_auth_ok connect_ready_def map_auth_recv fun_eq_iff
      intro!: arg_cong [where f = auth_recv] split: option.split prod.split sum.split bool.split)

section \<open>The exchange\<close>

text \<open>An id that a request can carry, and the two records of a pairing.\<close>

definition carried :: "string \<Rightarrow> bool" where
  "carried s = (CHR 0x00 \<notin> set s \<and> length s \<le> 128)"

definition records_match :: "ecdh \<Rightarrow> (bytes \<Rightarrow> bytes) \<Rightarrow> PairingRecord \<Rightarrow> PairingRecord \<Rightarrow> bool" where
  "records_match scalarmult pub_of rc rb = (dh_agree scalarmult pub_of \<and> PeerPublicKey rc = pub_of (LocalPrivateKey rb) \<and>
     PeerPublicKey rb = pub_of (LocalPrivateKey rc) \<and> length (LocalPrivateKey rc) = 32 \<and> length (LocalPrivateKey rb) = 32)"

lemma materials_cross:
  assumes "records_match scalarmult pub_of rc rb" "DeriveSessionMaterial hmac scalarmult (pairingRecordToCwire rc) False nonce = Inr mc"
  shows "DeriveSessionMaterial hmac scalarmult (pairingRecordToCwire rb) True nonce = Inr \<lparr>SendKey = RecvKey mc, RecvKey = SendKey mc\<rparr>"
  using assms by (auto simp: DeriveSessionMaterial_eq records_match_def dh_agree_def pairingRecordToCwire_def)

lemma replies_read: "pigeon_decode_auth_ok accept_reply 0 = Some (True, [])" "pigeon_decode_auth_ok reject_reply 0 = Some (False, [])"
  "length accept_reply \<le> PIGEON_AUTH_MAX_PAYLOAD" "length reject_reply \<le> PIGEON_AUTH_MAX_PAYLOAD"
  using auth_ok_read [OF encode_replies(1), of 0] auth_ok_read [OF encode_replies(2), of 0] by simp_all

lemma request_sent:
  assumes "carried identity" "carried route" "length nonce = PIGEON_AUTH_NONCE_LEN"
  obtains m where "pigeon_encode_auth_request identity nonce (Some route) PIGEON_AUTH_MAX_PAYLOAD = Some m"
    "length m \<le> PIGEON_AUTH_MAX_PAYLOAD"
    "pigeon_decode_auth_request m (PIGEON_AUTH_MAX_DEVICE_ID + 1) (PIGEON_AUTH_MAX_ROUTE + 1) = Some (identity, nonce, route)"
proof -
  obtain m where m: "pigeon_encode_auth_request identity nonce (Some route) PIGEON_AUTH_MAX_PAYLOAD = Some m"
    using auth_request_fits [of identity route nonce] assms by (auto simp: carried_def auth_consts)
  then show ?thesis using that [OF m] auth_request_read [OF m assms(3), of "PIGEON_AUTH_MAX_DEVICE_ID + 1" "PIGEON_AUTH_MAX_ROUTE + 1"] by simp
qed

lemma activation_outcome:
  assumes "connect_ready a" "ConnRecord a = Some rc" "ConnIdentity a = Some identity" "identity \<noteq> []"
    "carried identity" "carried (ConnRoute a)" "length nonce = PIGEON_AUTH_NONCE_LEN"
    "lookup identity = Some rb" "records_match scalarmult pub_of rc rb"
    "DeriveSessionMaterial hmac scalarmult (pairingRecordToCwire rc) False nonce = Inr mc"
  shows "both_done (play u v (sched @ alternate 4)
      (duet (activate hmac scalarmult (Some lookup)) (Connect hmac scalarmult True nonce (Some a))))
    (Inr \<lparr>op_material = Some \<lparr>SendKey = RecvKey mc, RecvKey = SendKey mc\<rparr>, op_peer = identity, op_route = ConnRoute a\<rparr>)
    (Inr \<lparr>op_material = Some mc, op_peer = ConnInstanceID a, op_route = ConnRoute a\<rparr>)"
proof -
  obtain m where m: "pigeon_encode_auth_request identity nonce (Some (ConnRoute a)) PIGEON_AUTH_MAX_PAYLOAD = Some m"
    "length m \<le> PIGEON_AUTH_MAX_PAYLOAD"
    "pigeon_decode_auth_request m (PIGEON_AUTH_MAX_DEVICE_ID + 1) (PIGEON_AUTH_MAX_ROUTE + 1) = Some (identity, nonce, ConnRoute a)"
    using request_sent [OF assms(5-7)] by blast
  have c: "cstr identity = identity" "cstr (ConnRoute a) = ConnRoute a" using assms(5,6) by (simp_all add: carried_def cstr_id)
  show ?thesis
    by (rule any_schedule_finishes [where sched = "[False, True, True, False]"])
       (simp_all add: duet_def step_left_def step_right_def activate_eq Connect_eq [OF assms(1-4)] auth_recv_def c m replies_read
         both_done_def not_less assms(8,10) materials_cross [OF assms(9,10)] del: One_nat_def add_Suc_right)
qed

text \<open>
  (C19) A client and a backend that share a pairing, joined by a reliable stream: however the two are scheduled
  first, four turns each later both have their session. The backend knows the client by its id and route, and
  the keys one side sends with are the ones the other receives with.
\<close>

theorem activation_agrees:
  assumes "connect_ready a" "ConnRecord a = Some rc" "ConnIdentity a = Some identity" "identity \<noteq> []"
    "carried identity" "carried (ConnRoute a)" "length nonce = PIGEON_AUTH_NONCE_LEN"
    "lookup identity = Some rb" "records_match scalarmult pub_of rc rb"
    "scalarmult (LocalPrivateKey rc) (PeerPublicKey rc) = Some shared"
  shows "\<exists>mb mc. both_done (play u v (sched @ alternate 4)
        (duet (activate hmac scalarmult (Some lookup)) (Connect hmac scalarmult True nonce (Some a))))
      (Inr \<lparr>op_material = Some mb, op_peer = identity, op_route = ConnRoute a\<rparr>)
      (Inr \<lparr>op_material = Some mc, op_peer = ConnInstanceID a, op_route = ConnRoute a\<rparr>) \<and>
    SendKey mb = RecvKey mc \<and> RecvKey mb = SendKey mc"
proof -
  obtain mc where "DeriveSessionMaterial hmac scalarmult (pairingRecordToCwire rc) False nonce = Inr mc"
    using assms(7,9,10) by (auto simp: DeriveSessionMaterial_eq records_match_def dh_agree_def pairingRecordToCwire_def auth_consts nonceLen_def)
  from activation_outcome [where lookup = lookup, OF assms(1-9) this] show ?thesis
    by (intro exI [of _ "\<lparr>SendKey = RecvKey mc, RecvKey = SendKey mc\<rparr>"] exI [of _ mc]) simp
qed

lemma runs_auth_recv:
  "runs (auth_recv k) tr r \<longleftrightarrow>
     (\<exists>m tr'. tr = Received m # tr' \<and> runs (k (if length m > PIGEON_AUTH_MAX_PAYLOAD then None else Some m)) tr' r) \<or>
     (\<exists>tr'. tr = RecvFailed # tr' \<and> runs (k None) tr' r)"
  by (auto simp: auth_recv_def runs_simps)

lemma decoded: "runs (case x of None \<Rightarrow> Done (Inl e) | Some d \<Rightarrow> k d) t (Inr s) \<Longrightarrow> \<exists>d. x = Some d"
  by (cases x) (simp_all add: runs_simps)

lemma activate_run:
  assumes "runs (activate hmac scalarmult (Some lookup)) tr (Inr s)"
  obtains req i n ro rec mat where "tr = [Received req, Sent accept_reply]" "length req \<le> PIGEON_AUTH_MAX_PAYLOAD"
    "pigeon_decode_auth_request req (PIGEON_AUTH_MAX_DEVICE_ID + 1) (PIGEON_AUTH_MAX_ROUTE + 1) = Some (i, n, ro)"
    "lookup (cstr i) = Some rec" "DeriveSessionMaterial hmac scalarmult (pairingRecordToCwire rec) True n = Inr mat"
    "s = \<lparr>op_material = Some mat, op_peer = cstr i, op_route = cstr ro\<rparr>"
proof -
  let ?dec = "\<lambda>req. pigeon_decode_auth_request req (PIGEON_AUTH_MAX_DEVICE_ID + 1) (PIGEON_AUTH_MAX_ROUTE + 1)"
  from assms obtain req tr' d where "tr = Received req # tr'" "Option.bind (if length req > PIGEON_AUTH_MAX_PAYLOAD then None else Some req) ?dec = Some d"
    unfolding activate_eq runs_auth_recv by - (elim disjE exE conjE; drule decoded; fastforce simp del: One_nat_def add_Suc_right split_paired_Ex split_paired_All)
  then obtain i n ro where d: "tr = Received req # tr'" "length req \<le> PIGEON_AUTH_MAX_PAYLOAD" "?dec req = Some (i, n, ro)"
    by (cases d) (auto simp: not_less split: if_split_asm)
  with assms have r: "runs (case lookup (cstr i) of
            None \<Rightarrow> process.Send reject_reply (\<lambda>_. Done (Inl (Rejected (cstr i))))
          | Some rec \<Rightarrow> process.Send accept_reply (\<lambda>sent.
              Done (if \<not> sent then Inl (Activation ActivationFailed)
                else case DeriveSessionMaterial hmac scalarmult (pairingRecordToCwire rec) True n of
                    Inl e \<Rightarrow> Inl (DeriveMaterial e)
                  | Inr mat \<Rightarrow> Inr \<lparr>op_material = Some mat, op_peer = cstr i, op_route = cstr ro\<rparr>))) tr' (Inr s)"
    unfolding activate_eq runs_auth_recv by (simp add: leD del: One_nat_def add_Suc_right)
  then obtain rec mat where "lookup (cstr i) = Some rec" "tr' = [Sent accept_reply]"
    "DeriveSessionMaterial hmac scalarmult (pairingRecordToCwire rec) True n = Inr mat"
    "s = \<lparr>op_material = Some mat, op_peer = cstr i, op_route = cstr ro\<rparr>"
    by (auto simp: runs_simps split: option.split_asm if_split_asm sum.split_asm)
  then show ?thesis using that d by simp
qed

lemma activate_runs:
  assumes "length req \<le> PIGEON_AUTH_MAX_PAYLOAD"
    "pigeon_decode_auth_request req (PIGEON_AUTH_MAX_DEVICE_ID + 1) (PIGEON_AUTH_MAX_ROUTE + 1) = Some (i, n, ro)"
    "lookup (cstr i) = Some rec" "DeriveSessionMaterial hmac scalarmult (pairingRecordToCwire rec) True n = Inr mat"
  shows "runs (activate hmac scalarmult (Some lookup)) [Received req, Sent accept_reply]
    (Inr \<lparr>op_material = Some mat, op_peer = cstr i, op_route = cstr ro\<rparr>)"
  using assms unfolding activate_eq runs_auth_recv by (simp add: leD runs_simps del: One_nat_def add_Suc_right)

text \<open>
  (C7) Whatever the network sends, a backend activates a session only for a request whose id the application resolves,
  and only with the keys of that record and of the nonce in the request; the acceptance is the one message it
  sends.
\<close>

theorem activation_needs_record:
  assumes "runs (activate hmac scalarmult (Some lookup)) tr (Inr s)"
  shows "\<exists>req i n ro rec mat. tr = [Received req, Sent accept_reply] \<and>
    pigeon_decode_auth_request req (PIGEON_AUTH_MAX_DEVICE_ID + 1) (PIGEON_AUTH_MAX_ROUTE + 1) = Some (i, n, ro) \<and>
    lookup (op_peer s) = Some rec \<and> DeriveSessionMaterial hmac scalarmult (pairingRecordToCwire rec) True n = Inr mat \<and>
    s = \<lparr>op_material = Some mat, op_peer = cstr i, op_route = cstr ro\<rparr>"
  using activate_run [OF assms] by (metis opened_session.select_convs(2))

text \<open>
  (C36) A request of an id that the application does not know: both sides end with an error, the backend naming the id,
  and no side has a session.
\<close>

theorem unknown_device_refused:
  assumes "connect_ready a" "ConnRecord a = Some rc" "ConnIdentity a = Some identity" "identity \<noteq> []"
    "carried identity" "carried (ConnRoute a)" "length nonce = PIGEON_AUTH_NONCE_LEN" "lookup identity = None"
  shows "both_done (play u v (sched @ alternate 4)
      (duet (activate hmac scalarmult (Some lookup)) (Connect hmac scalarmult True nonce (Some a))))
    (Inl (Rejected identity)) (Inl (Activation ActivationFailed))"
proof -
  obtain m where m: "pigeon_encode_auth_request identity nonce (Some (ConnRoute a)) PIGEON_AUTH_MAX_PAYLOAD = Some m"
    "length m \<le> PIGEON_AUTH_MAX_PAYLOAD"
    "pigeon_decode_auth_request m (PIGEON_AUTH_MAX_DEVICE_ID + 1) (PIGEON_AUTH_MAX_ROUTE + 1) = Some (identity, nonce, ConnRoute a)"
    using request_sent [OF assms(5-7)] by blast
  have c: "cstr identity = identity" "cstr (ConnRoute a) = ConnRoute a" using assms(5,6) by (simp_all add: carried_def cstr_id)
  show ?thesis
    by (rule any_schedule_finishes [where sched = "[False, True, True, False]"])
       (simp_all add: duet_def step_left_def step_right_def activate_eq Connect_eq [OF assms(1-4)] auth_recv_def c m replies_read
         both_done_def not_less assms(8) del: One_nat_def add_Suc_right)
qed

text \<open>
  (C35) The backend does not look at whether a nonce was used before. Somebody who recorded the request and the packets
  of a stream of an earlier session sends the request again: the backend activates a second session of that client with the
  keys of the first, and its stream of that name decrypts the recorded packets to the same messages.
\<close>

theorem recorded_session_replays:
  assumes "sodium_ok aenc adec seal" "hmac_256 hmac"
    "runs (activate hmac scalarmult (Some lookup)) (Received req # tr) (Inr s)" "op_material s = Some mb"
    "SendKey mb = RecvKey mc" "RecvKey mb = SendKey mc"
    "StreamChannel hmac mc name = Inr cc" "map_state (cwire_Encrypt aenc) cc ps = (cc', map Inr cts)"
  shows "\<exists>cb d'. runs (activate hmac scalarmult (Some lookup)) [Received req, Sent accept_reply] (Inr s) \<and>
    StreamChannel hmac mb name = Inr cb \<and> map_state (cwire_Decrypt adec) cb cts = (d', map Inr ps)"
proof -
  have r: "runs (activate hmac scalarmult (Some lookup)) [Received req, Sent accept_reply] (Inr s)"
    by (rule activate_run [OF assms(3)]) (auto intro: activate_runs)
  have "material_ok mb" by (rule activate_run [OF assms(3)]) (use assms(2,4) material_ok_Derive in auto)
  then have "material_ok mc" using assms(5,6) by (simp add: material_ok_def)
  then obtain cb where cb: "StreamChannel hmac mb name = Inr cb" "c_strict_sync aenc adec seal (length ps) cc cb"
    using stream_channels_sync [OF assms(1,5,6,2) _ assms(7)] by blast
  obtain c' cts' d' where "map_state (cwire_Encrypt aenc) cc ps = (c', map Inr cts')" "map_state (cwire_Decrypt adec) cb cts' = (d', map Inr ps)"
    using cstrict.fifo [OF cb(2) le_refl] by blast
  moreover from this(1) have "cts' = cts" using assms(8) by (auto dest: inj_map_eq_map [THEN iffD1, rotated])
  ultimately show ?thesis using r cb by blast
qed

section \<open>Instances\<close>

definition demo_connect :: ConnectArgs where
  "demo_connect = \<lparr>ConnInstanceID = ''server'', ConnRelay = ''relay'', ConnRecord = Some (demo_record 1 2),
     ConnIdentity = Some ''phone'', ConnRoute = ''chat'', ConnDatagrams = [(''a'', 1), (''b'', 2)]\<rparr>"

definition demo_lookup :: "string \<Rightarrow> PairingRecord option" where
  "demo_lookup d = (if d = ''phone'' then Some (demo_record 2 1) else None)"

lemma demo_connects:
  "connect_ready demo_connect" "ConnRecord demo_connect = Some (demo_record 1 2)" "ConnIdentity demo_connect = Some ''phone''" "''phone'' \<noteq> []"
  "carried ''phone''" "carried (ConnRoute demo_connect)" "length (replicate 16 7 :: bytes) = PIGEON_AUTH_NONCE_LEN"
  "demo_lookup ''phone'' = Some (demo_record 2 1)" "records_match demo_ecdh demo_pub (demo_record 1 2) (demo_record 2 1)"
  using demo_dh_agree by (simp_all add: demo_connect_def connect_ready_def validateDatagrams_def carried_def auth_consts demo_lookup_def
      records_match_def demo_record_def NewPairingRecord_def)

lemma demo_shared: "\<exists>shared. demo_ecdh (LocalPrivateKey (demo_record 1 2)) (PeerPublicKey (demo_record 1 2)) = Some shared"
  by (simp add: demo_ecdh_def)

lemma demo_client_material:
  "\<exists>mc. DeriveSessionMaterial demo_hmac demo_ecdh (pairingRecordToCwire (demo_record 1 2)) False (replicate 16 7) = Inr mc"
  using demo_shared by (auto simp: DeriveSessionMaterial_eq pairingRecordToCwire_def demo_record_def NewPairingRecord_def nonceLen_def)

lemma demo_activated:
  obtains mc req s where "DeriveSessionMaterial demo_hmac demo_ecdh (pairingRecordToCwire (demo_record 1 2)) False (replicate 16 7) = Inr mc"
    "runs (activate demo_hmac demo_ecdh (Some demo_lookup)) [Received req, Sent accept_reply] (Inr s)"
    "op_material s = Some \<lparr>SendKey = RecvKey mc, RecvKey = SendKey mc\<rparr>" "op_peer s = ''phone''"
proof -
  obtain mc where mc: "DeriveSessionMaterial demo_hmac demo_ecdh (pairingRecordToCwire (demo_record 1 2)) False (replicate 16 7) = Inr mc"
    using demo_client_material by blast
  have "\<exists>tr. runs (activate demo_hmac demo_ecdh (Some demo_lookup)) tr
      (Inr \<lparr>op_material = Some \<lparr>SendKey = RecvKey mc, RecvKey = SendKey mc\<rparr>, op_peer = ''phone'', op_route = ConnRoute demo_connect\<rparr>)"
    using activation_outcome [where lookup = demo_lookup and u = "\<lambda>_. True" and v = "\<lambda>_. True" and sched = "[]", OF demo_connects mc]
    by (rule duet_runs(1))
  then obtain tr where tr: "runs (activate demo_hmac demo_ecdh (Some demo_lookup)) tr
      (Inr \<lparr>op_material = Some \<lparr>SendKey = RecvKey mc, RecvKey = SendKey mc\<rparr>, op_peer = ''phone'', op_route = ConnRoute demo_connect\<rparr>)" by blast
  obtain req where "tr = [Received req, Sent accept_reply]" by (rule activate_run [OF tr]) blast
  with tr that [OF mc] show ?thesis by simp
qed

theorem activation_agrees_witness:
  "\<exists>mb mc. both_done (play (\<lambda>_. True) (\<lambda>_. True) ([True, False, False] @ alternate 4)
        (duet (activate demo_hmac demo_ecdh (Some demo_lookup)) (Connect demo_hmac demo_ecdh True (replicate 16 7) (Some demo_connect))))
      (Inr \<lparr>op_material = Some mb, op_peer = ''phone'', op_route = ''chat''\<rparr>)
      (Inr \<lparr>op_material = Some mc, op_peer = ''server'', op_route = ''chat''\<rparr>) \<and>
    SendKey mb = RecvKey mc \<and> RecvKey mb = SendKey mc"
proof -
  obtain shared where s: "demo_ecdh (LocalPrivateKey (demo_record 1 2)) (PeerPublicKey (demo_record 1 2)) = Some shared"
    using demo_shared by blast
  have e: "ConnRoute demo_connect = ''chat''" "ConnInstanceID demo_connect = ''server''" by (simp_all add: demo_connect_def)
  show ?thesis
    using activation_agrees [where lookup = demo_lookup and hmac = demo_hmac and u = "\<lambda>_. True" and v = "\<lambda>_. True"
        and sched = "[True, False, False]", OF demo_connects s] unfolding e .
qed

theorem activation_needs_record_witness:
  "\<exists>req s i n ro rec mat. runs (activate demo_hmac demo_ecdh (Some demo_lookup)) [Received req, Sent accept_reply] (Inr s) \<and>
    pigeon_decode_auth_request req 129 129 = Some (i, n, ro) \<and> demo_lookup (op_peer s) = Some rec \<and>
    DeriveSessionMaterial demo_hmac demo_ecdh (pairingRecordToCwire rec) True n = Inr mat \<and> op_material s = Some mat"
proof -
  obtain mc req s where "runs (activate demo_hmac demo_ecdh (Some demo_lookup)) [Received req, Sent accept_reply] (Inr s)"
    by (rule demo_activated)
  from this activation_needs_record [OF this] show ?thesis
    by (simp add: auth_consts) (metis opened_session.select_convs(1))
qed

theorem unknown_device_refused_witness:
  "both_done (play (\<lambda>_. True) (\<lambda>_. True) ([False] @ alternate 4)
      (duet (activate demo_hmac demo_ecdh (Some (\<lambda>_. None))) (Connect demo_hmac demo_ecdh True (replicate 16 7) (Some demo_connect))))
    (Inl (Rejected ''phone'')) (Inl (Activation ActivationFailed))"
  by (rule unknown_device_refused [OF demo_connects(1-7)]) (rule refl)

theorem recorded_session_replays_witness:
  "\<exists>req s mb cts cb d'. runs (activate demo_hmac demo_ecdh (Some demo_lookup)) [Received req, Sent accept_reply] (Inr s) \<and>
    op_material s = Some mb \<and> StreamChannel demo_hmac mb ''chat'' = Inr cb \<and> map_state (cwire_Decrypt demo_open) cb cts = (d', map Inr [[1], [2]])"
proof -
  obtain mc req s where a: "DeriveSessionMaterial demo_hmac demo_ecdh (pairingRecordToCwire (demo_record 1 2)) False (replicate 16 7) = Inr mc"
    "runs (activate demo_hmac demo_ecdh (Some demo_lookup)) [Received req, Sent accept_reply] (Inr s)"
    "op_material s = Some \<lparr>SendKey = RecvKey mc, RecvKey = SendKey mc\<rparr>" by (rule demo_activated)
  note m = material_ok_Derive [OF demo_hmac_256 a(1)]
  obtain cc where c: "StreamChannel demo_hmac mc ''chat'' = Inr cc" using StreamChannel_eq [OF demo_hmac_256 m, of "''chat''"] by auto
  obtain cb where "c_strict_sync (\<lambda>k n p a. Some (demo_seal k n p a)) demo_open demo_seal 2 cc cb"
    using stream_channels_sync [OF demo_sodium _ _ demo_hmac_256 m c, of "\<lparr>SendKey = RecvKey mc, RecvKey = SendKey mc\<rparr>" 2] by auto
  from cstrict.fifo [OF this, of "[[1], [2]]"] obtain cc' cts where
    "map_state (cwire_Encrypt (\<lambda>k n p a. Some (demo_seal k n p a))) cc [[1], [2]] = (cc', map Inr cts)" by auto
  from recorded_session_replays [OF demo_sodium demo_hmac_256 a(2,3) _ _ c this] a show ?thesis by simp blast
qed

end
