(* ===== verification/Spec2Isabelle.thy ===== *)
theory Spec2Isabelle
  imports Framing SecureStream Datagram Discovery Rendezvous Protocols Relay Bridge Lan CPairing CSession Activation
begin

text \<open>
  A verification development of pigeon, a relay and peer library for end-to-end encrypted sessions.

  \<^bold>\<open>The program.\<close> Two devices pair once: the acceptor shows a token, the two run a ceremony over the
  relay and their users compare a code. Afterwards the client connects through the relay to the backend; an activation
  exchange finds the pairing record and derives keys from it and a nonce. A session carries named streams
  and datagrams, each under keys of its own, and may move to a direct LAN connection. The relay keeps the registered
  backends and copies bytes between the peers it joins; it holds no keys.

  \<^bold>\<open>The theories.\<close> A theory models the files named with it, with the functions of the source under their own names.
  \<^item> \<open>Prelude\<close>, \<open>Varint\<close>: machine types, byte order, codecs as a locale, invariants of step relations as a
    locale; Go's unsigned varints.
  \<^item> \<open>Wire\<close> (\<open>wire_gen.go\<close>), \<open>Framing\<close> (\<open>webtransport.go\<close>, \<open>pairing/cgo_pair.go\<close>), \<open>Fragment\<close> (\<open>fragment.go\<close>),
    \<open>Discovery\<close> (\<open>discovery.go\<close>): the formats on the wire, with their round trips and what malformed input gives.
  \<^item> \<open>Aead\<close>: what is assumed of the primitives and the contracts of a channel as locales. \<open>Crypto\<close> and \<open>KeyDerivation\<close>
    (\<open>crypto/crypto.go\<close>), \<open>CCrypto\<close> and \<open>CChannel\<close> (\<open>c/src/crypto.c\<close>, \<open>cwire/session.go\<close>, \<open>cwire/connect.go\<close>) model the two
    implementations of the encrypted channel and interpret those locales; \<open>SessionKeys\<close> shows that the implementations
    agree and that the keys of a session separate its streams.
  \<^item> \<open>SecureStream\<close>, \<open>Datagram\<close>, \<open>Rendezvous\<close> (\<open>api.go\<close>, \<open>stream_lifecycle.go\<close>): sending and receiving, and the
    meeting of opened and accepted streams, where every critical section and channel operation is a step of its own.
  \<^item> \<open>Machine\<close> (\<open>protocol/protocol.go\<close>, \<open>protocol/machine.go\<close>), \<open>Generated\<close> (\<open>protocol/gogen.go\<close>): protocol tables, their
    flattening, validation and runtime, and the meaning of the code generated from a table. \<open>PathSwitch\<close>, \<open>PairingMachines\<close>,
    \<open>SessionTable\<close>, \<open>SessionBackend\<close>, \<open>SessionClient\<close> hold the tables and the generated machines
    (\<open>protocol/pathswitch_gen.go\<close>, \<open>pairing/pairingceremony_gen.go\<close>, \<open>session_gen.go\<close>) with their invariants; \<open>Protocols\<close> shows that the
    generated code is the table.
  \<^item> \<open>CMachines\<close>, \<open>CSession\<close> (\<open>c/src/pairingceremony_gen.c\<close>, \<open>c/src/session_gen.c\<close>): the machines generated for C, which take the
    steps of those generated for Go.
  \<^item> \<open>Duet\<close>: drivers as processes, run against any environment or against each other under any schedule.
    \<open>PairWire\<close>, \<open>CPairing\<close> (\<open>c/src/pairing.c\<close>, \<open>cwire/pairing.go\<close>) are the pairing ceremony; \<open>Activation\<close> (\<open>c/src/activation.c\<close>,
    \<open>cwire/connect.go\<close>, \<open>cwire/listener.go\<close>, and \<open>Listener.activate\<close> and \<open>Connect\<close> of \<open>api.go\<close>) is the activation of a session.
  \<^item> \<open>Relay\<close>, \<open>Bridge\<close> (\<open>session.go\<close>, \<open>quicserver.go\<close>, \<open>webtransport.go\<close>, \<open>auth.go\<close>, \<open>streamctl.go\<close>): the registry and the handlers of both
    servers as interleaved steps of one state, and the copying between joined peers. \<open>Lan\<close> (\<open>lan.go\<close>, \<open>lan_upgrade.go\<close>): both ends of the
    upgrade, interleaved.

  \<^bold>\<open>State and errors.\<close> A struct is a record and an operation returns it changed; an error is the left of a sum or \<open>None\<close>, with
  a constructor for every early return. Code that runs concurrently is a step relation with one step per lock section, channel
  operation or blocking call, and its properties are invariants proved by the induction rule of a locale in \<open>Prelude\<close>.

  \<^bold>\<open>What is assumed.\<close> The primitives (AES-GCM, HMAC, SHA-256, X25519) are parameters. Hypotheses name what is used of them:
  opening inverts sealing, a digest has 32 bytes, the two sides of a key exchange agree; binding and separation are stated as
  reductions to a collision. Users, applications and the network are parameters or the environment of a process.

  \<^bold>\<open>Bounds.\<close> Definitions are total and need no fuel. Two processes that converse are scheduled by any list of turns; the theorems
  append 12 turns each for the pairing ceremony and 4 for the activation, which is enough because the two sides together take 12 and 4
  steps. Integers keep their width where it matters: counters, lengths and channel ids are words, and the theorems that
  need it say how many messages remain before a counter ends.

  \<^bold>\<open>Not modelled.\<close> Dialling and the QUIC, WebTransport and TLS libraries; storage of identities and certificates; the goroutines of
  a \<open>Ceremony\<close> around the pairing driver and the local backchannel (\<open>backchannel/\<close>), which are socket and channel
  plumbing; the second connection executor inside the C library (\<open>c/src/pigeon.c\<close>, \<open>c/src/listener.c\<close>), which the Go API does not call; the
  generators of other languages and the libraries written in them, whose meaning would need a semantics of those languages;
  the YAML reader, command lines, status pages and test support.
\<close>

section \<open>From pairing to messages\<close>


text \<open>Two devices for the witness, with keys of the model exchange.\<close>

definition server_args :: RunAcceptorArgs where
  "server_args = demo_acceptor\<lparr>LocalEphPub := demo_pub (replicate 32 1)\<rparr>"

definition phone_args :: RunInitiatorArgs where
  "phone_args = demo_initiator\<lparr>LocalEphPub := demo_pub (replicate 32 4), AccEphPub := demo_pub (replicate 32 1)\<rparr>"

lemma device_args:
  "good_args server_args" "good_args phone_args" "LocalEphPub server_args = demo_pub (LocalEphPriv server_args)"
  "LocalEphPub phone_args = demo_pub (LocalEphPriv phone_args)" "AccEphPub phone_args = LocalEphPub server_args"
  "AccInstance phone_args = InstanceID server_args" "length (replicate 32 7 :: bytes) = 32" "length (InstanceID phone_args) \<le> 63"
  "InstanceID phone_args = ''phone''" "take 63 (InstanceID server_args) = ''server''"
  by (simp_all add: server_args_def phone_args_def good_args_def demo_acceptor_def demo_initiator_def clean_id_def)


end
